(* ===== verification/Dms_Prelude.thy ===== *)
theory Dms_Prelude
  imports Complex_Main
begin

text \<open>
  What every component of the development shares: the types that stand for the platform's
  scalars (identifiers, instants, decimals, JSON payloads), the error taxonomy of
  \<^verbatim>\<open>app/core/errors.py\<close> with the result type of a fallible operation, tables as lists of
  rows with the queries the services issue, decimal rounding, and the Python text functions the
  validators use.

  \<^item> A UUID is a natural number (its 128-bit value); the generator is modelled in
    \<open>Core_Uuid7\<close>. Where a service calls the generator or the clock, the value obtained is an
    argument of the model's operation.
  \<^item> An instant is an integer number of microseconds, a calendar day an integer number of days.
  \<^item> A \<open>Decimal\<close> is a rational; \<open>quantize\<close> is explicit. Every quotient the services form is
    quantized at once, far above the 28 significant digits of Python's context.
  \<^item> Text is a list of 8-bit characters (the Latin-1 code points); \<open>upper_char\<close> says what that
    leaves out.
\<close>

named_theorems table_simps "equations of the table operations"
named_theorems step_intros "introduction rules that lift an invariant over one operation"

section \<open>Scalars\<close>

type_synonym uuid = nat
type_synonym datetime = int
type_synonym date = int
type_synonym decimal = rat

text \<open>Microseconds per unit of a \<open>timedelta\<close>.\<close>

definition second_us :: int where "second_us = 1000000"
definition minute_us :: int where "minute_us = 60 * second_us"
definition hour_us :: int where "hour_us = 60 * minute_us"
definition day_us :: int where "day_us = 24 * hour_us"

lemmas time_units = second_us_def minute_us_def hour_us_def day_us_def

text \<open>\<open>timedelta.days\<close> floors, and \<open>datetime.date()\<close> drops the time of day (UTC throughout).\<close>

definition timedelta_days :: "int \<Rightarrow> int" where
  "timedelta_days d = d div day_us"

definition date_of :: "datetime \<Rightarrow> date" where
  "date_of t = t div day_us"

text \<open>
  JSON values. \<open>JUuid\<close>, \<open>JTime\<close> and \<open>JDec\<close> stand for the canonical texts \<open>str(uuid)\<close>,
  \<open>isoformat()\<close> and \<open>str(decimal)\<close>: strings in the wire format, kept structured here because
  every reader parses them back with the matching constructor.
\<close>

datatype json =
    JNull
  | JBool bool
  | JInt int
  | JDec decimal
  | JStr string
  | JUuid uuid
  | JTime datetime
  | JList "json list"
  | JObj "(string \<times> json) list"

type_synonym payload = "(string \<times> json) list"

definition json_opt :: "('a \<Rightarrow> json) \<Rightarrow> 'a option \<Rightarrow> json" where
  "json_opt f x = (case x of None \<Rightarrow> JNull | Some v \<Rightarrow> f v)"

lemma json_opt_simps [simp]: "json_opt f None = JNull" "json_opt f (Some v) = f v"
  by (simp_all add: json_opt_def)

section \<open>Errors\<close>

text \<open>
  The failures a provider connection can end a call with: the subclasses of \<open>ProviderGatewayError\<close>
  (\<^verbatim>\<open>app/integration/errors.py\<close>, \<^verbatim>\<open>gateway.py\<close>, \<^verbatim>\<open>resilience.py\<close>, \<^verbatim>\<open>auto_i_dat_parse.py\<close>).
\<close>

datatype provider_failure =
    ConnectionDisabled uuid
  | UnknownProvider string
  | CircuitOpen uuid
  | ProviderTransport string
  | ProviderTimeout string
  | ProviderConfiguration string
  | ProviderRejected string
  | ProviderMaintenance string

text \<open>
  The application's error classes carry \<open>details\<close>; the English message is left out, since no code
  branches on it. The last constructors are the plain Python exceptions the services can raise.
\<close>

datatype exn =
    BadRequestError payload
  | UnauthorizedError payload
  | ForbiddenError payload
  | NotFoundError payload
  | ConflictError payload
  | UnprocessableEntityError payload
  | ValueError
  | TypeError
  | KeyError
  | AttributeError
  | RuntimeError
  | IntegrityError
  | NoResultFound
  | ProviderGatewayError provider_failure
  | MarketplaceTransmissionError string

fun status_code :: "exn \<Rightarrow> nat" where
  "status_code (BadRequestError _) = 400"
| "status_code (UnauthorizedError _) = 401"
| "status_code (ForbiddenError _) = 403"
| "status_code (NotFoundError _) = 404"
| "status_code (ConflictError _) = 409"
| "status_code (UnprocessableEntityError _) = 422"
| "status_code _ = 500"

text \<open>\<open>(exc.details or {}).get("reason")\<close>.\<close>

fun exn_details :: "exn \<Rightarrow> payload" where
  "exn_details (BadRequestError d) = d"
| "exn_details (UnauthorizedError d) = d"
| "exn_details (ForbiddenError d) = d"
| "exn_details (NotFoundError d) = d"
| "exn_details (ConflictError d) = d"
| "exn_details (UnprocessableEntityError d) = d"
| "exn_details _ = []"

definition reason_of :: "exn \<Rightarrow> json option" where
  "reason_of e = map_of (exn_details e) ''reason''"

type_synonym 'a result = "exn + 'a"

fun bindR :: "'e + 'a \<Rightarrow> ('a \<Rightarrow> 'e + 'b) \<Rightarrow> 'e + 'b" where
  "bindR (Inl e) f = Inl e"
| "bindR (Inr x) f = f x"

text \<open>\<open>if condition: raise error\<close>.\<close>

definition raise_if :: "bool \<Rightarrow> 'e \<Rightarrow> 'e + unit" where
  "raise_if c e = (if c then Inl e else Inr ())"

definition is_ok :: "'e + 'a \<Rightarrow> bool" where
  "is_ok r \<longleftrightarrow> (\<exists>x. r = Inr x)"

lemma is_ok_simps [simp]: "is_ok (Inr x)" "\<not> is_ok (Inl e)"
  by (simp_all add: is_ok_def)

lemma bindR_Inr_iff: "bindR r f = Inr y \<longleftrightarrow> (\<exists>x. r = Inr x \<and> f x = Inr y)"
  by (cases r) simp_all

lemma bindR_Inl_iff: "bindR r f = Inl e \<longleftrightarrow> r = Inl e \<or> (\<exists>x. r = Inr x \<and> f x = Inl e)"
  by (cases r) simp_all

lemma bindR_assoc: "bindR (bindR r f) g = bindR r (\<lambda>x. bindR (f x) g)"
  by (cases r) simp_all

lemma raise_if_Inr_iff [simp]: "raise_if c e = Inr u \<longleftrightarrow> \<not> c"
  by (simp add: raise_if_def)

lemma raise_if_Inl_iff [simp]: "raise_if c e = Inl e' \<longleftrightarrow> c \<and> e' = e"
  by (auto simp: raise_if_def)

lemma bindR_raise_if [simp]: "bindR (raise_if c e) f = (if c then Inl e else f ())"
  by (simp add: raise_if_def)

section \<open>Tables\<close>

text \<open>
  A table is the list of its rows in insertion order. \<open>select_one\<close> is a query by a predicate that
  returns the first matching row or none (\<open>db.scalar\<close>, \<open>db.get\<close>), \<open>select_all\<close> one that returns
  every match, \<open>update_where\<close> the flush of changed attributes.
\<close>

definition select_one :: "('r \<Rightarrow> bool) \<Rightarrow> 'r list \<Rightarrow> 'r option" where
  "select_one P rows = List.find P rows"

definition select_all :: "('r \<Rightarrow> bool) \<Rightarrow> 'r list \<Rightarrow> 'r list" where
  "select_all P rows = filter P rows"

definition update_where :: "('r \<Rightarrow> bool) \<Rightarrow> ('r \<Rightarrow> 'r) \<Rightarrow> 'r list \<Rightarrow> 'r list" where
  "update_where P f rows = map (\<lambda>r. if P r then f r else r) rows"

definition delete_where :: "('r \<Rightarrow> bool) \<Rightarrow> 'r list \<Rightarrow> 'r list" where
  "delete_where P rows = filter (\<lambda>r. \<not> P r) rows"

lemma select_one_Nil [simp, table_simps]: "select_one P [] = None"
  by (simp add: select_one_def)

lemma select_one_Cons [simp, table_simps]:
  "select_one P (r # rs) = (if P r then Some r else select_one P rs)"
  by (simp add: select_one_def)

lemma select_one_append:
  "select_one P (xs @ ys) = (case select_one P xs of Some r \<Rightarrow> Some r | None \<Rightarrow> select_one P ys)"
  by (induction xs) simp_all

lemma select_one_SomeD:
  assumes "select_one P rows = Some r"
  shows "r \<in> set rows" and "P r"
  using assms by (auto simp: select_one_def find_Some_iff set_conv_nth)

lemma select_one_None_iff: "select_one P rows = None \<longleftrightarrow> (\<forall>r \<in> set rows. \<not> P r)"
  by (induction rows) auto

lemma select_one_cong:
  "(\<And>r. r \<in> set rows \<Longrightarrow> P r = Q r) \<Longrightarrow> select_one P rows = select_one Q rows"
  by (induction rows) auto

lemma select_all_simps [simp, table_simps]:
  "select_all P [] = []"
  "select_all P (r # rs) = (if P r then r # select_all P rs else select_all P rs)"
  "select_all P (xs @ ys) = select_all P xs @ select_all P ys"
  by (simp_all add: select_all_def)

lemma set_select_all [simp]: "set (select_all P rows) = {r \<in> set rows. P r}"
  by (auto simp: select_all_def)

lemma update_where_simps [simp, table_simps]:
  "update_where P f [] = []"
  "update_where P f (r # rs) = (if P r then f r else r) # update_where P f rs"
  "update_where P f (xs @ ys) = update_where P f xs @ update_where P f ys"
  by (simp_all add: update_where_def)

lemma length_update_where [simp]: "length (update_where P f rows) = length rows"
  by (simp add: update_where_def)

lemma set_update_where: "set (update_where P f rows) = (\<lambda>r. if P r then f r else r) ` set rows"
  by (auto simp: update_where_def)

lemma in_set_update_whereE:
  assumes "r \<in> set (update_where P f rows)"
  obtains (same) "r \<in> set rows" "\<not> P r" | (changed) r0 where "r0 \<in> set rows" "P r0" "r = f r0"
  using assms by (auto simp: set_update_where split: if_splits)

lemma update_where_none: "(\<And>r. r \<in> set rows \<Longrightarrow> \<not> P r) \<Longrightarrow> update_where P f rows = rows"
  by (induction rows) auto

lemma map_update_where:
  "(\<And>r. P r \<Longrightarrow> k (f r) = k r) \<Longrightarrow> map k (update_where P f rows) = map k rows"
  by (auto simp: update_where_def)

lemma select_one_update_where:
  assumes "\<And>r. P r \<Longrightarrow> Q (f r) = Q r"
  shows "select_one Q (update_where P f rows)
    = map_option (\<lambda>r. if P r then f r else r) (select_one Q rows)"
  using assms by (induction rows) auto

lemma delete_where_simps [simp, table_simps]:
  "delete_where P [] = []"
  "delete_where P (r # rs) = (if P r then delete_where P rs else r # delete_where P rs)"
  "delete_where P (xs @ ys) = delete_where P xs @ delete_where P ys"
  by (simp_all add: delete_where_def)

lemma set_delete_where [simp]: "set (delete_where P rows) = {r \<in> set rows. \<not> P r}"
  by (auto simp: delete_where_def)

text \<open>A primary key: with distinct keys a row is determined by its key.\<close>

lemma distinct_key_unique:
  assumes "distinct (map k rows)" "r \<in> set rows" "s \<in> set rows" "k r = k s"
  shows "r = s"
  using assms by (auto simp: distinct_map inj_on_def)

lemma select_one_key:
  assumes "distinct (map k rows)" "r \<in> set rows"
  shows "select_one (\<lambda>x. k x = k r) rows = Some r"
proof (cases "select_one (\<lambda>x. k x = k r) rows")
  case None
  then show ?thesis using assms(2) by (force simp: select_one_None_iff)
next
  case (Some x)
  then show ?thesis
    using select_one_SomeD [OF Some] distinct_key_unique [OF assms(1)] assms(2) by auto
qed

section \<open>Decimal rounding\<close>

text \<open>
  \<open>quantize(Decimal("0.01"))\<close> under the default context rounds half to even;
  \<open>rounding=ROUND_HALF_UP\<close> rounds a tie away from zero.
\<close>

definition round_half_even :: "rat \<Rightarrow> int" where
  "round_half_even x = (let n = \<lfloor>x\<rfloor>; d = x - of_int n in
     if d < 1/2 then n else if d > 1/2 then n + 1 else if even n then n else n + 1)"

definition round_half_up :: "rat \<Rightarrow> int" where
  "round_half_up x = (if x < 0 then - \<lfloor>- x + 1/2\<rfloor> else \<lfloor>x + 1/2\<rfloor>)"

definition quantize_cents :: "decimal \<Rightarrow> decimal" where
  "quantize_cents x = of_int (round_half_even (x * 100)) / 100"

definition quantize_cents_half_up :: "decimal \<Rightarrow> decimal" where
  "quantize_cents_half_up x = of_int (round_half_up (x * 100)) / 100"

lemma round_half_even_of_int [simp]: "round_half_even (of_int n) = n"
  by (simp add: round_half_even_def)

lemma round_half_even_error: "\<bar>of_int (round_half_even x) - x\<bar> \<le> 1/2"
proof -
  have "of_int \<lfloor>x\<rfloor> \<le> x" "x < of_int \<lfloor>x\<rfloor> + 1" by linarith+
  then show ?thesis by (auto simp: round_half_even_def Let_def)
qed

lemma round_half_up_error: "\<bar>of_int (round_half_up x) - x\<bar> \<le> 1/2"
proof (cases "x < 0")
  case True
  have "of_int \<lfloor>- x + 1/2\<rfloor> \<le> - x + 1/2" "- x + 1/2 < of_int \<lfloor>- x + 1/2\<rfloor> + 1"
    by linarith+
  then show ?thesis unfolding round_half_up_def abs_le_iff using True by (auto; linarith)
next
  case False
  have "of_int \<lfloor>x + 1/2\<rfloor> \<le> x + 1/2" "x + 1/2 < of_int \<lfloor>x + 1/2\<rfloor> + 1"
    by linarith+
  then show ?thesis unfolding round_half_up_def abs_le_iff using False by (auto; linarith)
qed

lemma quantize_cents_error: "\<bar>quantize_cents x - x\<bar> \<le> 1/200"
  using round_half_even_error [of "x * 100"]
  unfolding quantize_cents_def abs_le_iff by (simp add: field_simps)

lemma quantize_cents_half_up_error: "\<bar>quantize_cents_half_up x - x\<bar> \<le> 1/200"
  using round_half_up_error [of "x * 100"]
  unfolding quantize_cents_half_up_def abs_le_iff by (simp add: field_simps)

lemma round_half_even_mono: "x \<le> y \<Longrightarrow> round_half_even x \<le> round_half_even y"
proof -
  assume le: "x \<le> y"
  show ?thesis
  proof (cases "\<lfloor>x\<rfloor> = \<lfloor>y\<rfloor>")
    case True
    then show ?thesis using le by (auto simp: round_half_even_def Let_def)
  next
    case False
    then have "\<lfloor>x\<rfloor> + 1 \<le> \<lfloor>y\<rfloor>" using floor_mono [OF le] by linarith
    moreover have "round_half_even x \<le> \<lfloor>x\<rfloor> + 1" "\<lfloor>y\<rfloor> \<le> round_half_even y"
      by (simp_all add: round_half_even_def Let_def)
    ultimately show ?thesis by linarith
  qed
qed

lemma quantize_cents_mono: "x \<le> y \<Longrightarrow> quantize_cents x \<le> quantize_cents y"
  by (simp add: quantize_cents_def divide_right_mono round_half_even_mono)

lemma quantize_cents_of_cents [simp]: "quantize_cents (of_int n / 100) = of_int n / 100"
  by (simp add: quantize_cents_def)

lemma quantize_cents_0 [simp]: "quantize_cents 0 = 0"
  using quantize_cents_of_cents [of 0] by simp

section \<open>Text\<close>

definition ord_char :: "char \<Rightarrow> nat" where
  "ord_char c = of_char c"

definition chr_nat :: "nat \<Rightarrow> char" where
  "chr_nat n = char_of n"

definition newline_char :: char where
  "newline_char = CHR 0x0A"

text \<open>\<open>\d\<close> on 8-bit text, \<open>str.isspace\<close> (the class \<open>\s\<close>), and the ASCII letters.\<close>

definition is_digit_char :: "char \<Rightarrow> bool" where
  "is_digit_char c \<longleftrightarrow> 48 \<le> ord_char c \<and> ord_char c \<le> 57"

definition is_upper_char :: "char \<Rightarrow> bool" where
  "is_upper_char c \<longleftrightarrow> 65 \<le> ord_char c \<and> ord_char c \<le> 90"

definition is_lower_char :: "char \<Rightarrow> bool" where
  "is_lower_char c \<longleftrightarrow> 97 \<le> ord_char c \<and> ord_char c \<le> 122"

definition is_space_char :: "char \<Rightarrow> bool" where
  "is_space_char c \<longleftrightarrow> (9 \<le> ord_char c \<and> ord_char c \<le> 13) \<or> (28 \<le> ord_char c \<and> ord_char c \<le> 32)
     \<or> ord_char c = 133 \<or> ord_char c = 160"

lemmas char_classes = is_digit_char_def is_upper_char_def is_lower_char_def is_space_char_def

text \<open>
  \<open>str.upper\<close>. The sharp s becomes two letters; the micro sign and the y with diaeresis have
  upper-case forms beyond Latin-1 and are kept here (no pattern of the program accepts either).
\<close>

definition upper_char :: "char \<Rightarrow> string" where
  "upper_char c = (let n = ord_char c in
     if 97 \<le> n \<and> n \<le> 122 then [chr_nat (n - 32)]
     else if 224 \<le> n \<and> n \<le> 254 \<and> n \<noteq> 247 then [chr_nat (n - 32)]
     else if n = 223 then ''SS'' else [c])"

definition upper_text :: "string \<Rightarrow> string" where
  "upper_text s = concat (map upper_char s)"

definition remove_space :: "string \<Rightarrow> string" where
  "remove_space s = filter (\<lambda>c. \<not> is_space_char c) s"

definition strip_text :: "string \<Rightarrow> string" where
  "strip_text s = rev (dropWhile is_space_char (rev (dropWhile is_space_char s)))"

lemma ord_chr_nat [simp]: "n < 256 \<Longrightarrow> ord_char (chr_nat n) = n"
  by (simp add: ord_char_def chr_nat_def)

lemma ord_char_less [simp]: "ord_char c < 256"
  by (simp add: ord_char_def)

lemma chr_ord_char [simp]: "chr_nat (ord_char c) = c"
  by (simp add: ord_char_def chr_nat_def)

lemma ord_char_inj: "ord_char c = ord_char d \<longleftrightarrow> c = d"
  by (metis chr_ord_char)

lemma upper_text_simps [simp]:
  "upper_text [] = []" "upper_text (c # s) = upper_char c @ upper_text s"
  "upper_text (s @ t) = upper_text s @ upper_text t"
  by (simp_all add: upper_text_def)

lemma remove_space_simps [simp]:
  "remove_space [] = []"
  "remove_space (c # s) = (if is_space_char c then remove_space s else c # remove_space s)"
  "remove_space (s @ t) = remove_space s @ remove_space t"
  by (simp_all add: remove_space_def)

lemma ord_S [simp]: "ord_char (CHR ''S'') = 83"
  by (simp add: ord_char_def)

lemma upper_char_fixed: "d \<in> set (upper_char c) \<Longrightarrow> upper_char d = [d]"
proof -
  assume d: "d \<in> set (upper_char c)"
  consider "97 \<le> ord_char c \<and> ord_char c \<le> 122" | "224 \<le> ord_char c \<and> ord_char c \<le> 254 \<and> ord_char c \<noteq> 247"
    | "ord_char c = 223" | "upper_char c = [c]"
    unfolding upper_char_def Let_def by presburger
  then show ?thesis
    using d by cases (auto simp: upper_char_def Let_def split: if_splits)
qed

lemma upper_text_idem [simp]: "upper_text (upper_text s) = upper_text s"
proof -
  have "\<forall>d \<in> set t. upper_char d = [d] \<Longrightarrow> upper_text t = t" for t
    by (induction t) auto
  moreover have "\<forall>d \<in> set (upper_text s). upper_char d = [d]"
    by (auto simp: upper_text_def dest: upper_char_fixed)
  ultimately show ?thesis by blast
qed

lemma upper_char_space: "is_space_char c \<Longrightarrow> upper_char c = [c]"
  by (auto simp: upper_char_def is_space_char_def Let_def)

lemma upper_char_not_space: "\<not> is_space_char c \<Longrightarrow> d \<in> set (upper_char c) \<Longrightarrow> \<not> is_space_char d"
  by (auto simp: upper_char_def is_space_char_def Let_def split: if_splits)

lemma remove_space_upper_char: "\<not> is_space_char c \<Longrightarrow> remove_space (upper_char c) = upper_char c"
  by (simp add: remove_space_def upper_char_not_space)

lemma remove_space_upper_text: "remove_space (upper_text s) = upper_text (remove_space s)"
  by (induction s) (auto simp: remove_space_upper_char upper_char_space)

lemma remove_space_idem [simp]: "remove_space (remove_space s) = remove_space s"
  by (simp add: remove_space_def)

lemma set_remove_space: "set (remove_space s) = {c \<in> set s. \<not> is_space_char c}"
  by (auto simp: remove_space_def)

subsection \<open>Numbers in text\<close>

definition digit_value :: "char \<Rightarrow> nat" where
  "digit_value c = ord_char c - 48"

definition nat_of_digits :: "string \<Rightarrow> nat" where
  "nat_of_digits s = foldl (\<lambda>a c. 10 * a + digit_value c) 0 s"

fun digits_of_nat :: "nat \<Rightarrow> string" where
  "digits_of_nat n = (if n < 10 then [chr_nat (48 + n)]
     else digits_of_nat (n div 10) @ [chr_nat (48 + n mod 10)])"

declare digits_of_nat.simps [simp del]

text \<open>\<open>f"{value:06d}"\<close>: padded with zeros to six digits, longer numbers in full.\<close>

definition pad6 :: "nat \<Rightarrow> string" where
  "pad6 n = (let d = digits_of_nat n in replicate (6 - length d) (CHR ''0'') @ d)"

lemma nat_of_digits_foldl:
  "foldl (\<lambda>a c. 10 * a + digit_value c) b t = b * 10 ^ length t + nat_of_digits t"
proof (induction t rule: rev_induct)
  case Nil
  then show ?case by (simp add: nat_of_digits_def)
next
  case (snoc c t)
  have "nat_of_digits (t @ [c]) = 10 * nat_of_digits t + digit_value c"
    by (simp add: nat_of_digits_def)
  then show ?case using snoc by simp
qed

lemma nat_of_digits_append: "nat_of_digits (s @ t) = nat_of_digits s * 10 ^ length t + nat_of_digits t"
  using nat_of_digits_foldl [of "nat_of_digits s" t] by (simp add: nat_of_digits_def)

lemma nat_of_digits_single: "m < 10 \<Longrightarrow> nat_of_digits [chr_nat (48 + m)] = m"
  by (simp add: nat_of_digits_def digit_value_def)

lemma nat_of_digits_digits: "nat_of_digits (digits_of_nat n) = n"
proof (induction n rule: digits_of_nat.induct)
  case (1 n)
  show ?case
  proof (cases "n < 10")
    case True
    then show ?thesis by (simp add: digits_of_nat.simps [of n] nat_of_digits_single)
  next
    case False
    then have "nat_of_digits (digits_of_nat n) = 10 * (n div 10) + n mod 10"
      using "1.IH" by (simp add: digits_of_nat.simps [of n] nat_of_digits_append nat_of_digits_single)
    then show ?thesis by simp
  qed
qed

lemma nat_of_digits_zeros: "nat_of_digits (replicate k (CHR ''0'') @ s) = nat_of_digits s"
proof -
  have "nat_of_digits (replicate k (CHR ''0'')) = 0"
    by (induction k) (simp_all add: nat_of_digits_def digit_value_def ord_char_def)
  then show ?thesis by (simp add: nat_of_digits_append)
qed

lemma nat_of_digits_pad6: "nat_of_digits (pad6 n) = n"
  by (simp add: pad6_def Let_def nat_of_digits_zeros nat_of_digits_digits)

lemma pad6_inject [simp]: "pad6 m = pad6 n \<longleftrightarrow> m = n"
  by (metis nat_of_digits_pad6)

end
