(* ===== verification/Core_Uuid7.thy ===== *)
theory Core_Uuid7
  imports Dms_Prelude
begin

unbundle bit_operations_syntax

text \<open>
  The identifier generator of \<^verbatim>\<open>app/core/uuid7.py\<close>. Its module-level state (the last
  millisecond and sequence number) is a record; a call takes the clock reading in nanoseconds and
  the two random draws as arguments. Every primary key of the platform comes from it, and the
  outbox worker's delivery order is the order of the keys, so what matters is that one process's
  identifiers are strictly increasing whatever the clock does between the calls.
\<close>

section \<open>Generator\<close>

record uuid7_state =
  last_ms :: int
  last_seq :: int

definition uuid7_init :: uuid7_state where
  "uuid7_init = \<lparr>last_ms = - 1, last_seq = 0\<rparr>"

definition seq_mask :: int where
  "seq_mask = 0x0FFF"

text \<open>The critical section: the millisecond and sequence number of this call.\<close>

definition uuid7_tick :: "int \<Rightarrow> int \<Rightarrow> uuid7_state \<Rightarrow> uuid7_state" where
  "uuid7_tick time_ns rand_a st =
     (let unix_ms = time_ns div 1000000 in
      if unix_ms \<le> last_ms st then
        let seq = (last_seq st + 1) AND seq_mask in
        if seq = 0 then \<lparr>last_ms = last_ms st + 1, last_seq = seq\<rparr>
        else \<lparr>last_ms = last_ms st, last_seq = seq\<rparr>
      else \<lparr>last_ms = unix_ms, last_seq = rand_a AND seq_mask\<rparr>)"

definition uuid7_value :: "int \<Rightarrow> int \<Rightarrow> int \<Rightarrow> int" where
  "uuid7_value ms seq draw =
     (let rand_b = draw AND 0x3FFFFFFFFFFFFFFF;
          version_and_seq = push_bit 12 0x7 OR seq;
          variant_and_rand_b = push_bit 62 2 OR rand_b
      in push_bit 80 ms OR push_bit 64 version_and_seq OR variant_and_rand_b)"

text \<open>\<open>uuid.UUID(int=value)\<close> refuses a value outside 128 bits.\<close>

definition uuid_of_int :: "int \<Rightarrow> uuid result" where
  "uuid_of_int value = (if 0 \<le> value \<and> value < 2 ^ 128 then Inr (nat value) else Inl ValueError)"

definition uuid7 :: "int \<times> int \<times> int \<Rightarrow> uuid7_state \<Rightarrow> uuid7_state \<times> uuid result" where
  "uuid7 inp st =
     (let (time_ns, rand_a, draw) = inp; st' = uuid7_tick time_ns rand_a st
      in (st', uuid_of_int (uuid7_value (last_ms st') (last_seq st') draw)))"

text \<open>The identifiers a process draws, in order.\<close>

fun uuid7_calls :: "(int \<times> int \<times> int) list \<Rightarrow> uuid7_state \<Rightarrow> uuid result list" where
  "uuid7_calls [] st = []"
| "uuid7_calls (i # is) st = (let (st', r) = uuid7 i st in r # uuid7_calls is st')"

section \<open>Layout\<close>

lemma and_mask_range: "0 \<le> x AND seq_mask" "x AND seq_mask \<le> 4095"
proof -
  have "x AND seq_mask = take_bit 12 x" unfolding seq_mask_def
    by (simp add: take_bit_eq_mask mask_eq_exp_minus_1)
  then show "0 \<le> x AND seq_mask" "x AND seq_mask \<le> 4095"
    using take_bit_int_less_exp [of 12 x] by simp_all
qed

lemma push_bit_or_plus:
  fixes a b :: int
  assumes "0 \<le> b" "b < 2 ^ n"
  shows "push_bit n a OR b = a * 2 ^ n + b"
proof -
  have "take_bit n b = b" using assms by (simp add: take_bit_int_eq_self)
  then have "push_bit n a OR b = push_bit n a + b"
    by (intro disjunctive_add [symmetric]) (metis bit_push_bit_iff bit_take_bit_iff linorder_not_less)
  then show ?thesis by (simp add: push_bit_eq_mult)
qed

lemma rand_b_range: "0 \<le> x AND (0x3FFFFFFFFFFFFFFF :: int)" "x AND (0x3FFFFFFFFFFFFFFF :: int) < 2 ^ 62"
proof -
  have "x AND (0x3FFFFFFFFFFFFFFF :: int) = take_bit 62 x"
    by (simp add: take_bit_eq_mask mask_eq_exp_minus_1)
  then show "0 \<le> x AND (0x3FFFFFFFFFFFFFFF :: int)" "x AND (0x3FFFFFFFFFFFFFFF :: int) < 2 ^ 62"
    using take_bit_int_less_exp [of 62 x] by simp_all
qed

lemma uuid7_value_arith:
  assumes "0 \<le> seq" "seq \<le> 4095"
  obtains r where "0 \<le> r" "r < 2 ^ 62" "uuid7_value ms seq draw = ms * 2 ^ 80 + (0x7000 + seq) * 2 ^ 64 + 2 ^ 63 + r"
proof -
  define r where "r = draw AND (0x3FFFFFFFFFFFFFFF :: int)"
  have r: "0 \<le> r" "r < 2 ^ 62" using rand_b_range by (auto simp: r_def)
  have vs: "push_bit 12 0x7 OR seq = 0x7000 + seq" using push_bit_or_plus [of seq 12 7] assms by simp
  have vr: "push_bit 62 2 OR r = 2 ^ 63 + r" using push_bit_or_plus [of r 62 2] r by simp
  have lo: "push_bit 64 (0x7000 + seq) OR (2 ^ 63 + r) = (0x7000 + seq) * 2 ^ 64 + (2 ^ 63 + r)"
    using r by (intro push_bit_or_plus) auto
  have "uuid7_value ms seq draw = push_bit 80 ms OR (push_bit 64 (0x7000 + seq) OR (2 ^ 63 + r))"
    by (simp only: uuid7_value_def Let_def vs vr r_def [symmetric] or.assoc)
  also have "\<dots> = ms * 2 ^ 80 + ((0x7000 + seq) * 2 ^ 64 + (2 ^ 63 + r))"
    unfolding lo using r assms by (intro push_bit_or_plus) auto
  finally show thesis using r that by simp
qed

text \<open>The fields of an identifier, read back by position.\<close>

definition uuid_version :: "uuid \<Rightarrow> nat" where
  "uuid_version u = u div 2 ^ 76 mod 16"

definition uuid_variant :: "uuid \<Rightarrow> nat" where
  "uuid_variant u = u div 2 ^ 62 mod 4"

definition uuid_unix_ms :: "uuid \<Rightarrow> nat" where
  "uuid_unix_ms u = u div 2 ^ 80"

lemma uuid7_value_fields:
  assumes "0 \<le> seq" "seq \<le> 4095" "0 \<le> ms" "ms < 2 ^ 48"
  obtains u where "uuid_of_int (uuid7_value ms seq draw) = Inr u" "int u = uuid7_value ms seq draw"
    "uuid_version u = 7" "uuid_variant u = 2" "int (uuid_unix_ms u) = ms"
proof -
  obtain r where r: "0 \<le> r" "r < 2 ^ 62"
    and v: "uuid7_value ms seq draw = ms * 2 ^ 80 + (0x7000 + seq) * 2 ^ 64 + 2 ^ 63 + r"
    using uuid7_value_arith [OF assms(1,2)] by blast
  define u where "u = nat (uuid7_value ms seq draw)"
  have rng: "0 \<le> uuid7_value ms seq draw" "uuid7_value ms seq draw < 2 ^ 128"
    using assms r unfolding v by simp_all
  then have u: "int u = ms * 2 ^ 80 + (0x7000 + seq) * 2 ^ 64 + 2 ^ 63 + r" by (simp add: u_def v)
  have "int u div 2 ^ 80 = ms"
    using u assms r by (intro int_div_pos_eq [where r = "(0x7000 + seq) * 2 ^ 64 + 2 ^ 63 + r"]) auto
  then have ms: "int (uuid_unix_ms u) = ms" by (simp add: uuid_unix_ms_def zdiv_int)
  have "int u div 2 ^ 76 = ms * 16 + 7"
    using u assms r by (intro int_div_pos_eq [where r = "seq * 2 ^ 64 + 2 ^ 63 + r"]) auto
  then have "int u div 2 ^ 76 mod 16 = 7" by simp
  then have ver: "uuid_version u = 7"
    unfolding uuid_version_def by (metis of_nat_eq_iff of_nat_numeral of_nat_power zdiv_int zmod_int)
  have "int u div 2 ^ 62 = 4 * (ms * 2 ^ 16 + (0x7000 + seq)) + 2"
    using u r by (intro int_div_pos_eq [where r = r]) auto
  then have "int u div 2 ^ 62 mod 4 = 2" by (simp only: mod_mult_self4) simp
  then have var: "uuid_variant u = 2"
    unfolding uuid_variant_def by (metis of_nat_eq_iff of_nat_numeral of_nat_power zdiv_int zmod_int)
  have "uuid_of_int (uuid7_value ms seq draw) = Inr u" using rng by (simp add: uuid_of_int_def u_def)
  moreover have "int u = uuid7_value ms seq draw" using rng by (simp add: u_def)
  ultimately show thesis using that ms ver var by blast
qed

section \<open>Monotonicity\<close>

definition uuid7_inv :: "uuid7_state \<Rightarrow> bool" where
  "uuid7_inv st \<longleftrightarrow> - 1 \<le> last_ms st \<and> 0 \<le> last_seq st \<and> last_seq st \<le> 4095"

text \<open>The order of the generator's states: millisecond first, then sequence number.\<close>

definition tick_less :: "uuid7_state \<Rightarrow> uuid7_state \<Rightarrow> bool" where
  "tick_less a b \<longleftrightarrow> last_ms a < last_ms b \<or> last_ms a = last_ms b \<and> last_seq a < last_seq b"

lemma tick_less_trans: "tick_less a b \<Longrightarrow> tick_less b c \<Longrightarrow> tick_less a c"
  by (auto simp: tick_less_def)

lemma next_seq:
  assumes "0 \<le> s" "s \<le> 4095"
  shows "(s + 1) AND seq_mask = (if s = 4095 then 0 else s + 1)"
proof -
  have "(s + 1) AND seq_mask = (s + 1) mod 4096" unfolding seq_mask_def
    by (simp add: take_bit_eq_mod flip: take_bit_eq_mask [of 12 "s + 1", unfolded mask_eq_exp_minus_1, simplified])
  then show ?thesis using assms by auto
qed

lemma uuid7_tick_props:
  assumes "uuid7_inv st" "0 \<le> t"
  shows "uuid7_inv (uuid7_tick t a st)" "tick_less st (uuid7_tick t a st)"
    "0 \<le> last_ms (uuid7_tick t a st)" "t div 1000000 \<le> last_ms (uuid7_tick t a st)"
    "last_ms (uuid7_tick t a st) \<le> max (last_ms st + 1) (t div 1000000)"
proof -
  have t: "0 \<le> t div 1000000" using assms(2) by simp
  show "uuid7_inv (uuid7_tick t a st)" "tick_less st (uuid7_tick t a st)"
    "0 \<le> last_ms (uuid7_tick t a st)" "t div 1000000 \<le> last_ms (uuid7_tick t a st)"
    "last_ms (uuid7_tick t a st) \<le> max (last_ms st + 1) (t div 1000000)"
    using assms(1) t and_mask_range
    by (auto simp: uuid7_tick_def uuid7_inv_def tick_less_def Let_def next_seq)
qed

lemma uuid7_value_mono:
  assumes "uuid7_inv a" "uuid7_inv b" "tick_less a b"
  shows "uuid7_value (last_ms a) (last_seq a) x < uuid7_value (last_ms b) (last_seq b) y"
proof -
  obtain r where r: "0 \<le> r" "r < 2 ^ 62"
    and va: "uuid7_value (last_ms a) (last_seq a) x = last_ms a * 2 ^ 80 + (0x7000 + last_seq a) * 2 ^ 64 + 2 ^ 63 + r"
    using uuid7_value_arith assms(1) unfolding uuid7_inv_def by blast
  obtain q where q: "0 \<le> q" "q < 2 ^ 62"
    and vb: "uuid7_value (last_ms b) (last_seq b) y = last_ms b * 2 ^ 80 + (0x7000 + last_seq b) * 2 ^ 64 + 2 ^ 63 + q"
    using uuid7_value_arith assms(2) unfolding uuid7_inv_def by blast
  show ?thesis using assms r q unfolding va vb uuid7_inv_def tick_less_def by auto
qed

text \<open>What one call returns while the clock leaves room in the 48 bits of the timestamp.\<close>

lemma uuid7_call:
  assumes "uuid7_inv st" "0 \<le> t" "t div 1000000 < 2 ^ 48" "last_ms st + 1 < 2 ^ 48"
  obtains st' u where "uuid7 (t, a, d) st = (st', Inr u)" "st' = uuid7_tick t a st"
    "int u = uuid7_value (last_ms st') (last_seq st') d" "uuid_version u = 7" "uuid_variant u = 2"
    "t div 1000000 \<le> int (uuid_unix_ms u)"
proof -
  let ?st = "uuid7_tick t a st"
  note p = uuid7_tick_props [OF assms(1,2), of a]
  have "last_ms ?st < 2 ^ 48" using p(5) assms(3,4) by linarith
  then obtain u where u: "uuid_of_int (uuid7_value (last_ms ?st) (last_seq ?st) d) = Inr u"
    "int u = uuid7_value (last_ms ?st) (last_seq ?st) d" "uuid_version u = 7" "uuid_variant u = 2"
    "int (uuid_unix_ms u) = last_ms ?st"
    using uuid7_value_fields p(1,3) unfolding uuid7_inv_def by blast
  show thesis
    by (rule that [of ?st u]) (use u p(4) in \<open>simp_all add: uuid7_def\<close>)
qed

lemma uuid7_calls_increasing:
  assumes "uuid7_inv st" "\<forall>(t, a, d) \<in> set calls. 0 \<le> t \<and> t div 1000000 + int (length calls) < 2 ^ 48"
    and "last_ms st + int (length calls) < 2 ^ 48"
  shows "\<exists>us. uuid7_calls calls st = map Inr us \<and> sorted_wrt (<) us
    \<and> (\<forall>u \<in> set us. uuid_version u = 7 \<and> uuid_variant u = 2
        \<and> (\<forall>x. uuid7_value (last_ms st) (last_seq st) x < int u))"
  using assms
proof (induction calls arbitrary: st)
  case (Cons c calls)
  obtain t a d where c: "c = (t, a, d)" by (cases c)
  have t: "0 \<le> t" "t div 1000000 + int (length calls) + 1 < 2 ^ 48" using Cons.prems(2) by (auto simp: c)
  note p = uuid7_tick_props [OF Cons.prems(1) t(1), of a]
  obtain st' u where u: "uuid7 (t, a, d) st = (st', Inr u)" "st' = uuid7_tick t a st"
    "int u = uuid7_value (last_ms st') (last_seq st') d" "uuid_version u = 7" "uuid_variant u = 2"
    by (rule uuid7_call [OF Cons.prems(1) t(1), of a d]) (use t(2) Cons.prems(3) in auto)
  have inv: "uuid7_inv st'" and less: "tick_less st st'" using p u(2) by simp_all
  have "last_ms st' + int (length calls) < 2 ^ 48" using p(5) t(2) Cons.prems(3) u(2) by auto
  moreover have "\<forall>(t, a, d) \<in> set calls. 0 \<le> t \<and> t div 1000000 + int (length calls) < 2 ^ 48"
    using Cons.prems(2) by force
  ultimately obtain us where us: "uuid7_calls calls st' = map Inr us" "sorted_wrt (<) us"
    "\<forall>w \<in> set us. uuid_version w = 7 \<and> uuid_variant w = 2 \<and> (\<forall>x. uuid7_value (last_ms st') (last_seq st') x < int w)"
    using Cons.IH [OF inv] by blast
  have below: "uuid7_value (last_ms st) (last_seq st) x < uuid7_value (last_ms st') (last_seq st') y" for x y
    using uuid7_value_mono [OF Cons.prems(1) inv less] .
  have "\<forall>w \<in> set us. u < w" using us(3) u(3) by (metis of_nat_less_iff)
  moreover have "\<forall>w \<in> set (u # us). \<forall>x. uuid7_value (last_ms st) (last_seq st) x < int w"
    using us(3) below u(3) by (metis less_trans set_ConsD)
  ultimately show ?case
    using u us by (intro exI [of _ "u # us"]) (simp add: c)
qed simp

text \<open>
  C8: identifiers are strictly increasing in the order they are drawn. Whatever the clock reads
  (also when it stands still or runs backwards) and whatever the random draws are, a process that
  starts fresh gets, for every finite run of calls inside the 48-bit timestamp range, one identifier
  per call, each larger than all before it, and each with version 7 and the RFC variant.
\<close>

theorem uuid7_strictly_increasing:
  assumes "\<forall>(t, a, d) \<in> set calls. 0 \<le> t \<and> t div 1000000 + int (length calls) < 2 ^ 48"
    and "length calls < 2 ^ 48"
  shows "\<exists>us. uuid7_calls calls uuid7_init = map Inr us \<and> sorted_wrt (<) us
    \<and> (\<forall>u \<in> set us. uuid_version u = 7 \<and> uuid_variant u = 2)"
proof -
  have "uuid7_inv uuid7_init" by (simp add: uuid7_inv_def uuid7_init_def)
  moreover have "last_ms uuid7_init + int (length calls) < 2 ^ 48" using assms(2) by (simp add: uuid7_init_def)
  ultimately show ?thesis using uuid7_calls_increasing assms(1) by blast
qed

theorem uuid7_strictly_increasing_witness:
  "\<exists>us. uuid7_calls [(5000000, 4095, 7), (5000000, 0, 1), (3000000, 0, 0)] uuid7_init = map Inr us
    \<and> sorted_wrt (<) us \<and> length us = 3"
proof -
  obtain us where us: "uuid7_calls [(5000000, 4095, 7), (5000000, 0, 1), (3000000, 0, 0)] uuid7_init = map Inr us"
    "sorted_wrt (<) us"
    using uuid7_strictly_increasing [of "[(5000000, 4095, 7), (5000000, 0, 1), (3000000, 0, 0)]"] by auto
  moreover have "length us = 3" using arg_cong [OF us(1), of length] by (simp add: split_beta)
  ultimately show ?thesis by blast
qed

end
