(* ===== verification/Core_Store.thy ===== *)
theory Core_Store
  imports Dms_Prelude "HOL-Library.List_Lexorder" "HOL-Library.Char_ord"
begin

text \<open>
  The tables of \<^verbatim>\<open>app/core\<close> that every context writes through a core API: the transactional
  outbox with the consumers' processed-event rows, the idempotency records and the audit trail
  (\<^verbatim>\<open>outbox_model.py, outbox.py, processed_event_model.py, idempotency.py, audit.py,
  concurrency.py\<close>). The record \<open>core_db\<close> is extended by the tables of the contexts.

  An operation takes the database and returns the new one. In an operation that can fail, \<open>Inl\<close>
  means that the exception leaves the transaction: the caller's session rolls back, so no changed
  database is returned. \<open>utcnow()\<close> is the argument \<open>now\<close>; \<open>uuid7()\<close> draws from \<open>uuid_supply\<close>, a
  strictly increasing supply, which is what \<open>Core_Uuid7\<close> proves of the generator.
\<close>

section \<open>Rows\<close>

datatype outbox_status = PENDING | PUBLISHED | DEAD

record outbox_message =
  msg_id :: uuid
  event_type :: string
  event_version :: nat
  occurred_at :: datetime
  msg_tenant_id :: "uuid option"
  producer :: string
  aggregate_type :: string
  aggregate_id :: uuid
  correlation_id :: uuid
  causation_id :: "uuid option"
  msg_payload :: payload
  msg_status :: outbox_status
  attempts :: nat
  next_attempt_at :: datetime
  last_error :: "string option"
  msg_created_at :: datetime
  published_at :: "datetime option"

record outbox_event =
  ev_event_type :: string
  ev_tenant_id :: "uuid option"
  ev_producer :: string
  ev_aggregate_type :: string
  ev_aggregate_id :: uuid
  ev_payload :: payload
  ev_event_version :: nat
  ev_correlation_id :: "uuid option"
  ev_causation_id :: "uuid option"
  ev_occurred_at :: "datetime option"

record processed_event =
  pe_event_id :: uuid
  pe_consumer_name :: string
  processed_at :: datetime

text \<open>
  \<open>request_hash\<close> holds the canonical body itself: SHA-256 is taken to separate different bodies. A
  context's own \<open>request_path\<close> is a prefix and the identifier formatted after it.
\<close>

record idempotency_record =
  idempotency_key :: string
  idem_tenant_id :: uuid
  request_path :: "string \<times> uuid option"
  request_hash :: json
  response_status :: "nat option"
  response_body :: json
  idem_created_at :: datetime

record audit_event =
  audit_entity_type :: string
  audit_entity_id :: uuid
  audit_tenant_id :: "uuid option"
  audit_action :: string
  audit_actor_id :: "uuid option"
  audit_before :: "payload option"
  audit_after :: "payload option"
  audit_reason :: "string option"
  audit_created_at :: datetime

record core_db =
  uuid_supply :: uuid
  outbox_messages :: "outbox_message list"
  processed_events :: "processed_event list"
  idempotency_records :: "idempotency_record list"
  audit_events :: "audit_event list"

definition draw_uuid :: "'a core_db_scheme \<Rightarrow> uuid \<times> 'a core_db_scheme" where
  "draw_uuid db = (uuid_supply db, db\<lparr>uuid_supply := uuid_supply db + 1\<rparr>)"

text \<open>An event with the defaults of the dataclass: version 1, no correlation, causation or instant.\<close>

definition plain_event ::
  "string \<Rightarrow> uuid option \<Rightarrow> string \<Rightarrow> string \<Rightarrow> uuid \<Rightarrow> payload \<Rightarrow> outbox_event" where
  "plain_event etype tenant prodr atype aid pl =
     \<lparr>ev_event_type = etype, ev_tenant_id = tenant, ev_producer = prodr, ev_aggregate_type = atype,
      ev_aggregate_id = aid, ev_payload = pl, ev_event_version = 1, ev_correlation_id = None,
      ev_causation_id = None, ev_occurred_at = None\<rparr>"

section \<open>Outbox\<close>

definition publish :: "datetime \<Rightarrow> outbox_event \<Rightarrow> 'a core_db_scheme \<Rightarrow> 'a core_db_scheme" where
  "publish now event db =
     (let (mid, db1) = draw_uuid db;
          (corr, db2) = (case ev_correlation_id event of Some c \<Rightarrow> (c, db1) | None \<Rightarrow> draw_uuid db1);
          message = \<lparr>msg_id = mid, event_type = ev_event_type event,
            event_version = ev_event_version event,
            occurred_at = (case ev_occurred_at event of Some t \<Rightarrow> t | None \<Rightarrow> now),
            msg_tenant_id = ev_tenant_id event, producer = ev_producer event,
            aggregate_type = ev_aggregate_type event, aggregate_id = ev_aggregate_id event,
            correlation_id = corr, causation_id = ev_causation_id event,
            msg_payload = ev_payload event, msg_status = PENDING, attempts = 0,
            next_attempt_at = now, last_error = None, msg_created_at = now, published_at = None\<rparr>
      in db2\<lparr>outbox_messages := outbox_messages db2 @ [message]\<rparr>)"

definition replay :: "datetime \<Rightarrow> uuid \<Rightarrow> 'a core_db_scheme \<Rightarrow> 'a core_db_scheme result" where
  "replay now message_id db =
     (case select_one (\<lambda>m. msg_id m = message_id) (outbox_messages db) of
        None \<Rightarrow> Inl ValueError
      | Some message \<Rightarrow>
          if msg_status message \<noteq> DEAD then Inl ValueError
          else Inr (db\<lparr>outbox_messages := update_where (\<lambda>m. msg_id m = message_id)
            (\<lambda>m. m\<lparr>msg_status := PENDING, attempts := 0, next_attempt_at := now, last_error := None\<rparr>)
            (outbox_messages db)\<rparr>))"

text \<open>Ages in microseconds.\<close>

definition oldest_pending_age :: "datetime \<Rightarrow> 'a core_db_scheme \<Rightarrow> int option" where
  "oldest_pending_age now db =
     (case map msg_created_at (select_all (\<lambda>m. msg_status m = PENDING) (outbox_messages db)) of
        [] \<Rightarrow> None | t # ts \<Rightarrow> Some (now - fold min ts t))"

definition dead_letter_count :: "'a core_db_scheme \<Rightarrow> nat" where
  "dead_letter_count db = length (select_all (\<lambda>m. msg_status m = DEAD) (outbox_messages db))"

definition consumer_lag :: "datetime \<Rightarrow> string \<Rightarrow> 'a core_db_scheme \<Rightarrow> int option" where
  "consumer_lag now consumer_name db =
     (case map processed_at (select_all (\<lambda>p. pe_consumer_name p = consumer_name) (processed_events db)) of
        [] \<Rightarrow> None | t # ts \<Rightarrow> Some (now - fold max ts t))"

section \<open>Idempotency records, audit trail, versions\<close>

text \<open>\<open>json.dumps(body, sort_keys=True)\<close>: the same text for the same fields in any order.\<close>

fun hash_request :: "json \<Rightarrow> json" where
  "hash_request (JList xs) = JList (map hash_request xs)"
| "hash_request (JObj kvs) = JObj (sort_key fst (map (\<lambda>(k, v). (k, hash_request v)) kvs))"
| "hash_request j = j"

definition find_cached_response ::
  "uuid \<Rightarrow> string \<Rightarrow> string \<times> uuid option \<Rightarrow> json \<Rightarrow> 'a core_db_scheme \<Rightarrow> idempotency_record option result" where
  "find_cached_response tenant_id key path body db =
     (case select_one (\<lambda>r. idempotency_key r = key \<and> idem_tenant_id r = tenant_id) (idempotency_records db) of
        None \<Rightarrow> Inr None
      | Some existing \<Rightarrow>
          if request_path existing \<noteq> path \<or> request_hash existing \<noteq> hash_request body
          then Inl (ConflictError [(''idempotencyKey'', JStr key)])
          else Inr (Some existing))"

definition store_response ::
  "datetime \<Rightarrow> uuid \<Rightarrow> string \<Rightarrow> string \<times> uuid option \<Rightarrow> json \<Rightarrow> nat \<Rightarrow> json \<Rightarrow> 'a core_db_scheme
     \<Rightarrow> 'a core_db_scheme result" where
  "store_response now tenant_id key path body status resp db =
     (if select_one (\<lambda>r. idempotency_key r = key \<and> idem_tenant_id r = tenant_id) (idempotency_records db) \<noteq> None
      then Inl IntegrityError
      else Inr (db\<lparr>idempotency_records := idempotency_records db @
        [\<lparr>idempotency_key = key, idem_tenant_id = tenant_id, request_path = path,
          request_hash = hash_request body, response_status = Some status, response_body = resp,
          idem_created_at = now\<rparr>]\<rparr>))"

definition record_audit_event ::
  "datetime \<Rightarrow> string \<Rightarrow> uuid \<Rightarrow> uuid option \<Rightarrow> string \<Rightarrow> uuid option \<Rightarrow> payload option \<Rightarrow> payload option
     \<Rightarrow> string option \<Rightarrow> 'a core_db_scheme \<Rightarrow> 'a core_db_scheme" where
  "record_audit_event now entity_type entity_id tenant_id action actor_id before after reason db =
     db\<lparr>audit_events := audit_events db @
       [\<lparr>audit_entity_type = entity_type, audit_entity_id = entity_id, audit_tenant_id = tenant_id,
         audit_action = action, audit_actor_id = actor_id, audit_before = before, audit_after = after,
         audit_reason = reason, audit_created_at = now\<rparr>]\<rparr>"

definition check_version :: "nat \<Rightarrow> nat \<Rightarrow> unit result" where
  "check_version current_version if_match_version =
     (if current_version \<noteq> if_match_version
      then Inl (ConflictError [(''currentVersion'', JInt (int current_version)),
                               (''ifMatchVersion'', JInt (int if_match_version))])
      else Inr ())"

section \<open>What the operations keep\<close>

lemma draw_uuid_simps [simp]:
  "fst (draw_uuid db) = uuid_supply db" "snd (draw_uuid db) = db\<lparr>uuid_supply := uuid_supply db + 1\<rparr>"
  by (simp_all add: draw_uuid_def)

lemma check_version_iff [simp]: "check_version c v = Inr u \<longleftrightarrow> c = v"
  by (simp add: check_version_def)

text \<open>
  \<open>publish\<close> appends exactly one message and changes nothing else but the supply: pending, never
  attempted, due at once, with an identifier no earlier one has.
\<close>

definition new_message :: "datetime \<Rightarrow> outbox_event \<Rightarrow> 'a core_db_scheme \<Rightarrow> outbox_message" where
  "new_message now event db =
     \<lparr>msg_id = uuid_supply db, event_type = ev_event_type event, event_version = ev_event_version event,
      occurred_at = (case ev_occurred_at event of Some t \<Rightarrow> t | None \<Rightarrow> now),
      msg_tenant_id = ev_tenant_id event, producer = ev_producer event,
      aggregate_type = ev_aggregate_type event, aggregate_id = ev_aggregate_id event,
      correlation_id = (case ev_correlation_id event of Some c \<Rightarrow> c | None \<Rightarrow> uuid_supply db + 1),
      causation_id = ev_causation_id event, msg_payload = ev_payload event, msg_status = PENDING,
      attempts = 0, next_attempt_at = now, last_error = None, msg_created_at = now, published_at = None\<rparr>"

definition supply_after :: "outbox_event \<Rightarrow> 'a core_db_scheme \<Rightarrow> uuid" where
  "supply_after event db = (case ev_correlation_id event of Some c \<Rightarrow> uuid_supply db + 1 | None \<Rightarrow> uuid_supply db + 2)"

lemma publish_eq:
  "publish now event db = db\<lparr>uuid_supply := supply_after event db,
     outbox_messages := outbox_messages db @ [new_message now event db]\<rparr>"
  by (simp add: publish_def draw_uuid_def new_message_def supply_after_def split: option.split)

lemma publish_simps [simp]:
  "outbox_messages (publish now event db) = outbox_messages db @ [new_message now event db]"
  "processed_events (publish now event db) = processed_events db"
  "idempotency_records (publish now event db) = idempotency_records db"
  "audit_events (publish now event db) = audit_events db"
  "uuid_supply (publish now event db) = supply_after event db"
  "core_db.more (publish now event db) = core_db.more db"
  by (simp_all add: publish_eq)

lemma new_message_simps [simp]:
  "msg_id (new_message now event db) = uuid_supply db" "msg_status (new_message now event db) = PENDING"
  "attempts (new_message now event db) = 0" "event_type (new_message now event db) = ev_event_type event"
  "msg_payload (new_message now event db) = ev_payload event"
  "aggregate_id (new_message now event db) = ev_aggregate_id event"
  "msg_tenant_id (new_message now event db) = ev_tenant_id event"
  "published_at (new_message now event db) = None"
  by (simp_all add: new_message_def)

lemma plain_event_simps [simp]:
  "ev_event_type (plain_event et t pr aty aid pl) = et" "ev_tenant_id (plain_event et t pr aty aid pl) = t"
  "ev_aggregate_id (plain_event et t pr aty aid pl) = aid" "ev_payload (plain_event et t pr aty aid pl) = pl"
  "ev_correlation_id (plain_event et t pr aty aid pl) = None"
  by (simp_all add: plain_event_def)

lemma supply_after_less: "uuid_supply db < supply_after event db"
  by (simp add: supply_after_def split: option.split)

lemma supply_after_plain [simp]: "supply_after (plain_event et t pr aty aid pl) db = uuid_supply db + 2"
  by (simp add: supply_after_def)

lemma find_after_store:
  assumes "store_response now t key path body st resp db = Inr db'"
  shows "\<exists>r. find_cached_response t key path body db' = Inr (Some r) \<and> response_body r = resp"
  using assms
  by (auto simp: store_response_def find_cached_response_def select_one_append split: if_splits)

end
