(* ===== verification/Core_Outbox.thy ===== *)
theory Core_Outbox
  imports Core_Store "HOL-Library.AList"
begin

text \<open>
  Delivery: the consumer harness (\<^verbatim>\<open>app/core/consumer.py\<close>), the in-process transport
  (\<^verbatim>\<open>outbox_transport.py\<close>) and the polling worker (\<^verbatim>\<open>outbox_worker.py\<close>). The worker claims
  a batch in one transaction and commits the batch's new states at the end; each handler runs in a
  transaction of its own that commits before. A crash in between loses the claim transaction and
  keeps the handlers' commits; \<open>worker_step\<close> has that as a step.

  The contract the handlers keep is the locale \<open>event_transport\<close>; the worker's guarantees are
  proved in it, once, for every registry whose handlers keep it.
\<close>

section \<open>Consumer harness and transport\<close>

text \<open>
  A handler runs on a session of its own. Its value is the state it leaves and its outcome: when it
  raises, the state is what it committed itself before, which for a handler that never commits is
  the state it found (\<open>transactional\<close>).
\<close>

type_synonym 'a handler = "datetime \<Rightarrow> outbox_message \<Rightarrow> 'a core_db_scheme \<Rightarrow> 'a core_db_scheme \<times> unit result"

definition transactional ::
  "(datetime \<Rightarrow> outbox_message \<Rightarrow> 'a core_db_scheme \<Rightarrow> 'a core_db_scheme result) \<Rightarrow> 'a handler" where
  "transactional h now message db = (case h now message db of Inl e \<Rightarrow> (db, Inl e) | Inr db' \<Rightarrow> (db', Inr ()))"

type_synonym 'a transport = "(string \<times> (string \<times> 'a handler) list) list"

definition has_processed :: "uuid \<Rightarrow> string \<Rightarrow> 'a core_db_scheme \<Rightarrow> bool" where
  "has_processed event_id consumer_name db \<longleftrightarrow>
     select_one (\<lambda>p. pe_event_id p = event_id \<and> pe_consumer_name p = consumer_name) (processed_events db) \<noteq> None"

text \<open>The last check is the primary key of \<open>processed_event\<close>, met at the commit.\<close>

definition consume_once ::
  "datetime \<Rightarrow> outbox_message \<Rightarrow> string \<Rightarrow> 'a handler \<Rightarrow> 'a core_db_scheme \<Rightarrow> 'a core_db_scheme \<times> bool result" where
  "consume_once now message consumer_name handler db =
     (if has_processed (msg_id message) consumer_name db then (db, Inr False)
      else case handler now message db of
        (db', Inl e) \<Rightarrow> (db', Inl e)
      | (db', Inr _) \<Rightarrow> if has_processed (msg_id message) consumer_name db' then (db, Inl IntegrityError)
          else (db'\<lparr>processed_events := processed_events db' @
            [\<lparr>pe_event_id = msg_id message, pe_consumer_name = consumer_name, processed_at = now\<rparr>]\<rparr>, Inr True))"

definition handlers_for :: "'a transport \<Rightarrow> string \<Rightarrow> (string \<times> 'a handler) list" where
  "handlers_for transport etype = (case map_of transport etype of None \<Rightarrow> [] | Some hs \<Rightarrow> hs)"

definition register_handler :: "string \<Rightarrow> string \<Rightarrow> 'a handler \<Rightarrow> 'a transport \<Rightarrow> 'a transport" where
  "register_handler etype consumer_name handler transport =
     AList.update etype (handlers_for transport etype @ [(consumer_name, handler)]) transport"

definition registered_consumer_names :: "'a transport \<Rightarrow> string list" where
  "registered_consumer_names transport = remdups (concat (map (map fst \<circ> snd) transport))"

text \<open>
  One session per handler; a failure is collected and the next handler still runs. The names of
  the consumers whose handler ran and committed are returned beside, in order.
\<close>

fun deliver_to ::
  "datetime \<Rightarrow> outbox_message \<Rightarrow> (string \<times> 'a handler) list \<Rightarrow> 'a core_db_scheme
     \<Rightarrow> 'a core_db_scheme \<times> string list \<times> (string \<times> exn) list" where
  "deliver_to now message [] db = (db, [], [])"
| "deliver_to now message ((consumer_name, handler) # rest) db =
     (case consume_once now message consumer_name handler db of
        (db1, Inl exc) \<Rightarrow>
          let (db', done_by, failures) = deliver_to now message rest db1
          in (db', done_by, (consumer_name, exc) # failures)
      | (db1, Inr first) \<Rightarrow>
          let (db', done_by, failures) = deliver_to now message rest db1
          in (db', (if first then consumer_name # done_by else done_by), failures))"

definition deliver ::
  "datetime \<Rightarrow> 'a transport \<Rightarrow> outbox_message \<Rightarrow> 'a core_db_scheme
     \<Rightarrow> 'a core_db_scheme \<times> string list \<times> (string \<times> exn) list" where
  "deliver now transport message db = deliver_to now message (handlers_for transport (event_type message)) db"

section \<open>Worker\<close>

definition max_attempts :: nat where "max_attempts = 5"
definition backoff_base_seconds :: nat where "backoff_base_seconds = 1"
definition backoff_cap_seconds :: nat where "backoff_cap_seconds = 3600"
definition last_error_max_length :: nat where "last_error_max_length = 2000"

text \<open>\<open>u\<close> is the draw of \<open>random.uniform(0, 0.2)\<close>; \<open>timedelta\<close> rounds to microseconds.\<close>

definition compute_backoff :: "nat \<Rightarrow> rat \<Rightarrow> int" where
  "compute_backoff n u =
     (let exponential = backoff_base_seconds * 2 ^ n;
          capped = of_nat (min exponential backoff_cap_seconds);
          jitter = capped * u
      in round_half_even ((capped + jitter) * of_int second_us))"

text \<open>
  What the worker reads besides the database: the clock, the jitter it draws for a message and the
  text \<open>str(exc)\<close> of a delivery error, which the message only stores.
\<close>

record worker_env =
  env_now :: datetime
  env_jitter :: "uuid \<Rightarrow> rat"
  env_error_text :: "outbox_message \<Rightarrow> (string \<times> exn) list \<Rightarrow> string"

definition claim_batch :: "datetime \<Rightarrow> nat \<Rightarrow> 'a core_db_scheme \<Rightarrow> outbox_message list" where
  "claim_batch now batch_size db =
     take batch_size (sort_key msg_id
       (select_all (\<lambda>m. msg_status m = PENDING \<and> next_attempt_at m \<le> now) (outbox_messages db)))"

text \<open>The state the claim transaction gives a message after its delivery.\<close>

definition settle_message :: "worker_env \<Rightarrow> outbox_message \<Rightarrow> (string \<times> exn) list \<Rightarrow> outbox_message" where
  "settle_message env message failures =
     (if failures = [] then
        message\<lparr>msg_status := PUBLISHED, published_at := Some (env_now env)\<rparr>
      else
        let message' = message\<lparr>attempts := attempts message + 1,
              last_error := Some (take last_error_max_length (env_error_text env message failures))\<rparr>
        in if attempts message' \<ge> max_attempts then message'\<lparr>msg_status := DEAD\<rparr>
           else message'\<lparr>next_attempt_at :=
             env_now env + compute_backoff (attempts message') (env_jitter env (msg_id message))\<rparr>)"

text \<open>
  The loop: the database after the handlers' commits, the settled messages, still in the worker's
  session, and the committed handler runs.
\<close>

fun dispatch ::
  "worker_env \<Rightarrow> 'a transport \<Rightarrow> outbox_message list \<Rightarrow> 'a core_db_scheme
     \<Rightarrow> 'a core_db_scheme \<times> outbox_message list \<times> (uuid \<times> string) list" where
  "dispatch env transport [] db = (db, [], [])"
| "dispatch env transport (m # ms) db =
     (let (db1, done_by, failures) = deliver (env_now env) transport m db;
          (db2, settled, runs) = dispatch env transport ms db1
      in (db2, settle_message env m failures # settled, map (Pair (msg_id m)) done_by @ runs))"

text \<open>The flush of the claimed rows: each settled message replaces the row with its key.\<close>

definition write_settled :: "outbox_message list \<Rightarrow> 'a core_db_scheme \<Rightarrow> 'a core_db_scheme" where
  "write_settled settled db = db\<lparr>outbox_messages := map (\<lambda>m.
     case select_one (\<lambda>s. msg_id s = msg_id m) settled of None \<Rightarrow> m | Some s \<Rightarrow> s) (outbox_messages db)\<rparr>"

record poll_result =
  poll_claimed :: nat
  poll_published :: nat
  poll_retried :: nat
  poll_dead :: nat

definition poll_once ::
  "worker_env \<Rightarrow> 'a transport \<Rightarrow> nat \<Rightarrow> 'a core_db_scheme
     \<Rightarrow> 'a core_db_scheme \<times> poll_result \<times> (uuid \<times> string) list" where
  "poll_once env transport batch_size db =
     (let claimed = claim_batch (env_now env) batch_size db;
          (db1, settled, runs) = dispatch env transport claimed db
      in (write_settled settled db1,
          \<lparr>poll_claimed = length claimed,
           poll_published = length (filter (\<lambda>m. msg_status m = PUBLISHED) settled),
           poll_retried = length (filter (\<lambda>m. msg_status m = PENDING) settled),
           poll_dead = length (filter (\<lambda>m. msg_status m = DEAD) settled)\<rparr>, runs))"

section \<open>The contract of a transaction\<close>

text \<open>
  What every transaction outside the worker does to the outbox, a request's as well as a handler's:
  it appends new messages (pending, never attempted, with fresh identifiers) and touches neither
  the existing ones nor the processed-event rows.
\<close>

definition fresh_message :: "uuid \<Rightarrow> uuid \<Rightarrow> outbox_message \<Rightarrow> bool" where
  "fresh_message lo hi m \<longleftrightarrow> lo \<le> msg_id m \<and> msg_id m < hi \<and> msg_status m = PENDING \<and> attempts m = 0
     \<and> published_at m = None"

definition outbox_extends :: "'a core_db_scheme \<Rightarrow> 'b core_db_scheme \<Rightarrow> bool" where
  "outbox_extends db db' \<longleftrightarrow> uuid_supply db \<le> uuid_supply db' \<and>
     (let n = length (outbox_messages db); new = drop n (outbox_messages db')
      in take n (outbox_messages db') = outbox_messages db \<and> distinct (map msg_id new)
         \<and> list_all (fresh_message (uuid_supply db) (uuid_supply db')) new)"

definition outbox_grows :: "'a core_db_scheme \<Rightarrow> 'b core_db_scheme \<Rightarrow> bool" where
  "outbox_grows db db' \<longleftrightarrow> outbox_extends db db' \<and> processed_events db' = processed_events db"

section \<open>The worker as a state machine\<close>

text \<open>
  The database together with the log of committed handler runs (a ghost: no code reads it). A
  request's transaction commits, an operator replays a dead message, the worker finishes a poll, or
  it dies after some of the claimed messages were delivered, before its own commit.
\<close>

inductive worker_step ::
  "'a transport \<Rightarrow> 'a core_db_scheme \<times> (uuid \<times> string) list \<Rightarrow> 'a core_db_scheme \<times> (uuid \<times> string) list \<Rightarrow> bool"
  for transport where
  request_step: "outbox_grows db db' \<Longrightarrow> worker_step transport (db, lg) (db', lg)"
| replay_step: "replay now mid db = Inr db' \<Longrightarrow> worker_step transport (db, lg) (db', lg)"
| poll_step: "poll_once env transport batch_size db = (db', res, runs)
    \<Longrightarrow> worker_step transport (db, lg) (db', lg @ runs)"
| crash_step: "dispatch env transport (take k (claim_batch (env_now env) batch_size db)) db = (db', settled, runs)
    \<Longrightarrow> worker_step transport (db, lg) (db', lg @ runs)"

inductive_cases worker_stepE: "worker_step transport (db, lg) (db', lg')"

definition empty_outbox :: "'a core_db_scheme \<Rightarrow> bool" where
  "empty_outbox db \<longleftrightarrow> outbox_messages db = [] \<and> processed_events db = []"

definition worker_reachable ::
  "'a transport \<Rightarrow> 'a core_db_scheme \<Rightarrow> (uuid \<times> string) list \<Rightarrow> bool" where
  "worker_reachable transport db lg \<longleftrightarrow>
     (\<exists>db0. empty_outbox db0 \<and> (worker_step transport)\<^sup>*\<^sup>* (db0, []) (db, lg))"

section \<open>Extension of the outbox\<close>

lemma outbox_extendsE:
  assumes "outbox_extends db db'"
  obtains new where "outbox_messages db' = outbox_messages db @ new" "distinct (map msg_id new)"
    "\<forall>m \<in> set new. fresh_message (uuid_supply db) (uuid_supply db') m" "uuid_supply db \<le> uuid_supply db'"
proof
  show "outbox_messages db' = outbox_messages db @ drop (length (outbox_messages db)) (outbox_messages db')"
    using assms by (metis append_take_drop_id outbox_extends_def)
qed (use assms in \<open>auto simp: outbox_extends_def Let_def list_all_iff\<close>)

lemma outbox_extendsI:
  assumes "outbox_messages db' = outbox_messages db @ new" "distinct (map msg_id new)"
    "\<forall>m \<in> set new. fresh_message (uuid_supply db) (uuid_supply db') m" "uuid_supply db \<le> uuid_supply db'"
  shows "outbox_extends db db'"
  using assms by (simp add: outbox_extends_def Let_def list_all_iff)

lemma outbox_extends_refl [simp, intro]: "outbox_extends db db"
  by (simp add: outbox_extends_def)

lemma fresh_message_mono: "fresh_message lo hi m \<Longrightarrow> lo' \<le> lo \<Longrightarrow> hi \<le> hi' \<Longrightarrow> fresh_message lo' hi' m"
  by (auto simp: fresh_message_def)

lemma outbox_extends_trans:
  assumes "outbox_extends a b" "outbox_extends b c"
  shows "outbox_extends a c"
proof -
  obtain x where x: "outbox_messages b = outbox_messages a @ x" "distinct (map msg_id x)"
    "\<forall>m \<in> set x. fresh_message (uuid_supply a) (uuid_supply b) m" "uuid_supply a \<le> uuid_supply b"
    using assms(1) by (rule outbox_extendsE)
  obtain y where y: "outbox_messages c = outbox_messages b @ y" "distinct (map msg_id y)"
    "\<forall>m \<in> set y. fresh_message (uuid_supply b) (uuid_supply c) m" "uuid_supply b \<le> uuid_supply c"
    using assms(2) by (rule outbox_extendsE)
  show ?thesis
  proof (rule outbox_extendsI)
    show "outbox_messages c = outbox_messages a @ (x @ y)" using x y by simp
    have "msg_id m < msg_id n" if "m \<in> set x" "n \<in> set y" for m n
      using x(3) y(3) that by (fastforce simp: fresh_message_def)
    then show "distinct (map msg_id (x @ y))" using x(2) y(2) by fastforce
    show "\<forall>m \<in> set (x @ y). fresh_message (uuid_supply a) (uuid_supply c) m"
      using x(3,4) y(3,4) fresh_message_mono by fastforce
  qed (use x y in simp)
qed

lemma outbox_grows_refl [simp, intro]: "outbox_grows db db"
  by (simp add: outbox_grows_def)

lemma outbox_grows_trans [trans]: "outbox_grows a b \<Longrightarrow> outbox_grows b c \<Longrightarrow> outbox_grows a c"
  by (auto simp: outbox_grows_def intro: outbox_extends_trans)

lemma publish_grows [intro, step_intros]: "outbox_grows db (publish now event db)"
  unfolding outbox_grows_def
proof
  show "outbox_extends db (publish now event db)"
    by (rule outbox_extendsI [of _ _ "[new_message now event db]"])
      (auto simp: fresh_message_def supply_after_less less_imp_le)
qed simp

text \<open>Any change that leaves the core tables alone, or only draws identifiers, is within the contract.\<close>

lemma outbox_grows_sameI:
  assumes "outbox_messages db' = outbox_messages db" "processed_events db' = processed_events db"
    "uuid_supply db \<le> uuid_supply db'"
  shows "outbox_grows db db'"
  using assms by (simp add: outbox_grows_def outbox_extends_def)

section \<open>Exactly-once handling\<close>

definition processed_keys :: "'a core_db_scheme \<Rightarrow> (uuid \<times> string) list" where
  "processed_keys db = map (\<lambda>p. (pe_event_id p, pe_consumer_name p)) (processed_events db)"

lemma has_processed_iff: "has_processed e c db \<longleftrightarrow> (e, c) \<in> set (processed_keys db)"
  by (auto simp: has_processed_def processed_keys_def select_one_None_iff)

text \<open>Every consumer of the message has committed.\<close>

definition all_processed :: "'a transport \<Rightarrow> outbox_message \<Rightarrow> 'a core_db_scheme \<Rightarrow> bool" where
  "all_processed transport m db \<longleftrightarrow>
     (\<forall>c \<in> set (map fst (handlers_for transport (event_type m))). (msg_id m, c) \<in> set (processed_keys db))"

definition message_ok :: "'a transport \<Rightarrow> 'a core_db_scheme \<Rightarrow> outbox_message \<Rightarrow> bool" where
  "message_ok transport db m \<longleftrightarrow> (case msg_status m of
     PENDING \<Rightarrow> attempts m < max_attempts \<and> published_at m = None
   | PUBLISHED \<Rightarrow> attempts m < max_attempts \<and> published_at m \<noteq> None \<and> all_processed transport m db
   | DEAD \<Rightarrow> attempts m = max_attempts \<and> published_at m = None)"

definition outbox_inv :: "'a transport \<Rightarrow> 'a core_db_scheme \<Rightarrow> (uuid \<times> string) list \<Rightarrow> bool" where
  "outbox_inv transport db lg \<longleftrightarrow>
     distinct (map msg_id (outbox_messages db))
     \<and> (\<forall>m \<in> set (outbox_messages db). msg_id m < uuid_supply db \<and> message_ok transport db m)
     \<and> lg = processed_keys db \<and> distinct (processed_keys db)"

lemma all_processed_mono:
  "all_processed transport m db \<Longrightarrow> set (processed_keys db) \<subseteq> set (processed_keys db') \<Longrightarrow> all_processed transport m db'"
  by (auto simp: all_processed_def)

lemma message_ok_mono:
  "message_ok transport db m \<Longrightarrow> set (processed_keys db) \<subseteq> set (processed_keys db') \<Longrightarrow> message_ok transport db' m"
  by (auto simp: message_ok_def all_processed_mono split: outbox_status.splits)

lemma settle_message_simps [simp]:
  "msg_id (settle_message env m fs) = msg_id m" "event_type (settle_message env m fs) = event_type m"
  by (simp_all add: settle_message_def Let_def)

lemma settle_message_ok:
  assumes "message_ok transport db m" "msg_status m = PENDING" "fs = [] \<Longrightarrow> all_processed transport m db"
  shows "message_ok transport db (settle_message env m fs)"
  using assms by (auto simp: message_ok_def settle_message_def Let_def all_processed_def)

lemma inv_extends:
  assumes inv: "outbox_inv transport db lg" and ext: "outbox_extends db db'"
    and keys: "processed_keys db' = processed_keys db @ runs" and dist: "distinct (lg @ runs)"
  shows "outbox_inv transport db' (lg @ runs)"
proof -
  obtain new where new: "outbox_messages db' = outbox_messages db @ new" "distinct (map msg_id new)"
    "\<forall>m \<in> set new. fresh_message (uuid_supply db) (uuid_supply db') m" "uuid_supply db \<le> uuid_supply db'"
    using ext by (rule outbox_extendsE)
  have old: "\<forall>m \<in> set (outbox_messages db). msg_id m < uuid_supply db \<and> message_ok transport db m"
    using inv by (simp add: outbox_inv_def)
  have "set (map msg_id (outbox_messages db)) \<inter> set (map msg_id new) = {}"
    using old new(3) by (force simp: fresh_message_def)
  then have "distinct (map msg_id (outbox_messages db'))" using inv new by (simp add: outbox_inv_def)
  moreover have "message_ok transport db' m" if "m \<in> set new" for m
    using new(3) that by (auto simp: fresh_message_def message_ok_def max_attempts_def)
  moreover have "message_ok transport db' m" if "m \<in> set (outbox_messages db)" for m
    using old that keys by (auto intro: message_ok_mono)
  ultimately show ?thesis
    using inv old new keys dist by (auto simp: outbox_inv_def fresh_message_def)
qed

lemma claim_batch_props:
  "set (claim_batch now n db) \<subseteq> {m \<in> set (outbox_messages db). msg_status m = PENDING \<and> next_attempt_at m \<le> now}"
  "sorted (map msg_id (claim_batch now n db))"
  by (auto simp: claim_batch_def sorted_wrt_take simp flip: take_map dest: in_set_takeD)

section \<open>The transport's contract\<close>

text \<open>
  A registry of handlers each of which, also when it raises, keeps the contract of a transaction in
  what it leaves. The worker relies on nothing else.
\<close>

locale event_transport =
  fixes transport :: "'a transport"
  assumes handlers_grow:
    "(c, h) \<in> set (handlers_for transport et) \<Longrightarrow> h now m db = (db', r) \<Longrightarrow> outbox_grows db db'"
begin

lemma consume_once_effect:
  assumes "(c, h) \<in> set (handlers_for transport et)" "consume_once now m c h db = (db', Inr done_by)"
  shows "outbox_extends db db'" "processed_keys db' = processed_keys db @ (if done_by then [(msg_id m, c)] else [])"
    "(msg_id m, c) \<in> set (processed_keys db')" "done_by \<longleftrightarrow> (msg_id m, c) \<notin> set (processed_keys db)"
proof -
  consider "has_processed (msg_id m) c db" "db' = db" "\<not> done_by"
    | d1 where "\<not> has_processed (msg_id m) c db" "h now m db = (d1, Inr ())" "done_by"
      "db' = d1\<lparr>processed_events := processed_events d1 @
        [\<lparr>pe_event_id = msg_id m, pe_consumer_name = c, processed_at = now\<rparr>]\<rparr>"
    using assms(2) by (auto simp: consume_once_def split: if_splits prod.splits sum.splits)
  then have "outbox_extends db db' \<and> processed_keys db' = processed_keys db @ (if done_by then [(msg_id m, c)] else [])
    \<and> (msg_id m, c) \<in> set (processed_keys db') \<and> (done_by \<longleftrightarrow> (msg_id m, c) \<notin> set (processed_keys db))"
  proof cases
    case (2 d1)
    then show ?thesis using handlers_grow [OF assms(1) 2(2)]
      by (auto simp: outbox_grows_def outbox_extends_def processed_keys_def has_processed_iff)
  qed (simp add: has_processed_iff)
  then show "outbox_extends db db'" "processed_keys db' = processed_keys db @ (if done_by then [(msg_id m, c)] else [])"
    "(msg_id m, c) \<in> set (processed_keys db')" "done_by \<longleftrightarrow> (msg_id m, c) \<notin> set (processed_keys db)" by blast+
qed

lemma consume_once_fails:
  assumes "(c, h) \<in> set (handlers_for transport et)" "consume_once now m c h db = (db', Inl e)"
  shows "outbox_extends db db'" "processed_keys db' = processed_keys db"
  using assms(2) handlers_grow [OF assms(1), of now m db]
  by (auto simp: consume_once_def outbox_grows_def processed_keys_def split: if_splits prod.splits sum.splits)

lemma deliver_to_effect:
  assumes "set hs \<subseteq> set (handlers_for transport et)" "deliver_to now m hs db = (db', done_by, fails)"
    "distinct (processed_keys db)"
  shows "outbox_extends db db' \<and> processed_keys db' = processed_keys db @ map (Pair (msg_id m)) done_by
    \<and> distinct (processed_keys db') \<and> (\<forall>c \<in> set (map fst hs). c \<in> set (map fst fails) \<or> (msg_id m, c) \<in> set (processed_keys db'))"
  using assms
proof (induction hs arbitrary: db db' done_by fails)
  case (Cons ch hs)
  obtain c h where ch: "ch = (c, h)" by (cases ch)
  have mem: "(c, h) \<in> set (handlers_for transport et)" and sub: "set hs \<subseteq> set (handlers_for transport et)"
    using Cons.prems(1) ch by auto
  show ?case
  proof (cases "consume_once now m c h db")
    case (Pair d1 r1)
    note c0 = Pair
    show ?thesis
    proof (cases r1)
      case (Inl e)
      then obtain fs where rest: "deliver_to now m hs d1 = (db', done_by, fs)" and fails: "fails = (c, e) # fs"
        using Cons.prems(2) ch c0 by (auto split: prod.splits)
      note eff = consume_once_fails [OF mem c0 [unfolded Inl]]
      note ih = Cons.IH [OF sub rest Cons.prems(3) [folded eff(2)]]
      have "outbox_extends db db'" using ih eff(1) outbox_extends_trans by blast
      moreover have "\<forall>c \<in> set (map fst (ch # hs)). c \<in> set (map fst fails) \<or> (msg_id m, c) \<in> set (processed_keys db')"
        using ih ch fails by (metis fst_conv list.set_intros(1,2) list.simps(9) set_ConsD)
      ultimately show ?thesis using ih unfolding eff(2) by blast
    next
      case (Inr r)
      then have c1: "consume_once now m c h db = (d1, Inr r)" using c0 by simp
      then obtain rn where rest: "deliver_to now m hs d1 = (db', rn, fails)"
        and done_by: "done_by = (if r then c # rn else rn)"
        using Cons.prems(2) ch by (auto split: prod.splits)
      note eff = consume_once_effect [OF mem c1]
      have dist: "distinct (processed_keys d1)" using eff(2,4) Cons.prems(3) by auto
      note ih = Cons.IH [OF sub rest dist]
      have "outbox_extends db db'" using ih eff(1) outbox_extends_trans by blast
      moreover have "processed_keys db' = processed_keys db @ map (Pair (msg_id m)) done_by"
        using ih eff(2) done_by by simp
      moreover have "\<forall>c \<in> set (map fst (ch # hs)). c \<in> set (map fst fails) \<or> (msg_id m, c) \<in> set (processed_keys db')"
        using ih eff(3) ch by auto
      ultimately show ?thesis using ih by blast
    qed
  qed
qed simp

lemma deliver_effect:
  assumes "deliver now transport m db = (db', done_by, fails)" "distinct (processed_keys db)"
  shows "outbox_extends db db'" "processed_keys db' = processed_keys db @ map (Pair (msg_id m)) done_by"
    "distinct (processed_keys db')" "fails = [] \<Longrightarrow> all_processed transport m db'"
proof -
  note eff = deliver_to_effect [OF subset_refl assms(1) [unfolded deliver_def] assms(2)]
  show "outbox_extends db db'" "processed_keys db' = processed_keys db @ map (Pair (msg_id m)) done_by"
    "distinct (processed_keys db')" using eff by blast+
  show "fails = [] \<Longrightarrow> all_processed transport m db'" unfolding all_processed_def using eff by fastforce
qed

text \<open>The settled message of a claimed one, with what an error-free delivery guarantees.\<close>

definition settles :: "worker_env \<Rightarrow> 'a core_db_scheme \<Rightarrow> outbox_message \<Rightarrow> outbox_message \<Rightarrow> bool" where
  "settles env db m s \<longleftrightarrow> (\<exists>fails. s = settle_message env m fails \<and> (fails = [] \<longrightarrow> all_processed transport m db))"

lemma dispatch_effect:
  assumes "dispatch env transport ms db = (db', settled, runs)" "distinct (processed_keys db)"
  shows "outbox_extends db db' \<and> processed_keys db' = processed_keys db @ runs
    \<and> distinct (processed_keys db') \<and> list_all2 (settles env db') ms settled"
  using assms
proof (induction ms arbitrary: db settled runs)
  case (Cons m ms)
  obtain d1 done_by fails where d: "deliver (env_now env) transport m db = (d1, done_by, fails)"
    by (metis prod_cases3)
  note eff = deliver_effect [OF d Cons.prems(2)]
  obtain st rs where rest: "dispatch env transport ms d1 = (db', st, rs)"
    and out: "settled = settle_message env m fails # st" "runs = map (Pair (msg_id m)) done_by @ rs"
    using Cons.prems(1) d by (auto split: prod.splits)
  note ih = Cons.IH [OF rest eff(3)]
  have "settles env db' m (settle_message env m fails)"
    unfolding settles_def using eff(4) ih
    by (intro exI [of _ fails]) (auto intro: all_processed_mono)
  moreover have "outbox_extends db db'" using ih eff(1) outbox_extends_trans by blast
  moreover have "processed_keys db' = processed_keys db @ runs" using ih eff(2) out by simp
  ultimately show ?case unfolding out(1) using ih by (blast intro: list_all2_Cons [THEN iffD2])
qed simp

lemma inv_dispatch:
  assumes "outbox_inv transport db lg" "dispatch env transport ms db = (db', settled, runs)"
  shows "outbox_inv transport db' (lg @ runs)"
proof -
  have lg: "lg = processed_keys db" and dist: "distinct (processed_keys db)"
    using assms(1) unfolding outbox_inv_def by blast+
  show ?thesis
    using dispatch_effect [OF assms(2) dist] unfolding lg by (intro inv_extends [OF assms(1) [unfolded lg]]) metis+
qed

lemma inv_write_settled:
  assumes inv: "outbox_inv transport db lg"
    and st: "list_all2 (settles env db) ms settled"
    and ms: "\<forall>m \<in> set ms. m \<in> set (outbox_messages db) \<and> msg_status m = PENDING"
  shows "outbox_inv transport (write_settled settled db) lg"
proof -
  let ?f = "\<lambda>m. case select_one (\<lambda>s. msg_id s = msg_id m) settled of None \<Rightarrow> m | Some s \<Rightarrow> s"
  have keys [simp]: "processed_keys (write_settled settled db) = processed_keys db"
    by (simp add: processed_keys_def write_settled_def)
  have id: "msg_id (?f m) = msg_id m" for m
    by (auto split: option.splits dest: select_one_SomeD)
  have ok: "message_ok transport db (?f m)" if m: "m \<in> set (outbox_messages db)" for m
  proof (cases "select_one (\<lambda>s. msg_id s = msg_id m) settled")
    case None
    then show ?thesis using inv m by (simp add: outbox_inv_def)
  next
    case (Some s)
    obtain m0 where m0: "m0 \<in> set ms" "settles env db m0 s"
      using select_one_SomeD(1) [OF Some] st by (metis in_set_conv_nth list_all2_conv_all_nth)
    then have "msg_id m0 = msg_id m" using select_one_SomeD(2) [OF Some] by (auto simp: settles_def)
    then have "m0 = m" using inv ms m0(1) m by (auto simp: outbox_inv_def dest: distinct_key_unique)
    then show ?thesis using m0 inv ms Some m
      by (auto simp: settles_def outbox_inv_def intro!: settle_message_ok)
  qed
  have ok': "message_ok transport (write_settled settled db) m" if "message_ok transport db m" for m
    using that by (rule message_ok_mono) simp
  have "map msg_id (outbox_messages (write_settled settled db)) = map msg_id (outbox_messages db)"
    using id by (simp add: write_settled_def)
  moreover have "\<forall>m \<in> set (outbox_messages (write_settled settled db)).
      msg_id m < uuid_supply (write_settled settled db) \<and> message_ok transport (write_settled settled db) m"
    using inv ok ok' id by (auto simp: write_settled_def outbox_inv_def)
  ultimately show ?thesis using inv unfolding outbox_inv_def keys by simp
qed

lemma inv_poll:
  assumes "outbox_inv transport db lg" "poll_once env transport n db = (db', res, runs)"
  shows "outbox_inv transport db' (lg @ runs)"
proof -
  let ?ms = "claim_batch (env_now env) n db"
  obtain d1 settled where d: "dispatch env transport ?ms db = (d1, settled, runs)"
    and db': "db' = write_settled settled d1"
    using assms(2) by (auto simp: poll_once_def Let_def split: prod.splits)
  have eff: "outbox_extends db d1" "list_all2 (settles env d1) ?ms settled"
    using dispatch_effect [OF d] assms(1) by (auto simp: outbox_inv_def)
  have "\<forall>m \<in> set ?ms. m \<in> set (outbox_messages d1) \<and> msg_status m = PENDING"
    using claim_batch_props(1) [of "env_now env" n db] eff(1) by (auto elim!: outbox_extendsE)
  then show ?thesis
    unfolding db' using inv_write_settled inv_dispatch [OF assms(1) d] eff(2) by blast
qed

lemma inv_replay:
  assumes inv: "outbox_inv transport db lg" and "replay now mid db = Inr db'"
  shows "outbox_inv transport db' lg"
proof -
  let ?f = "\<lambda>m. m\<lparr>msg_status := PENDING, attempts := 0, next_attempt_at := now, last_error := None\<rparr>"
  obtain msg where msg: "select_one (\<lambda>m. msg_id m = mid) (outbox_messages db) = Some msg" "msg_status msg = DEAD"
    and db': "db' = db\<lparr>outbox_messages := update_where (\<lambda>m. msg_id m = mid) ?f (outbox_messages db)\<rparr>"
    using assms(2) by (auto simp: replay_def split: option.splits if_splits)
  have keys: "processed_keys db' = processed_keys db" by (simp add: db' processed_keys_def)
  have "published_at m = None" if "m \<in> set (outbox_messages db)" "msg_id m = mid" for m
  proof -
    have "m = msg"
      using that select_one_SomeD [OF msg(1)] inv by (auto simp: outbox_inv_def dest: distinct_key_unique)
    then show ?thesis using inv that msg(2) by (auto simp: outbox_inv_def message_ok_def)
  qed
  then have "message_ok transport db' m" if "m \<in> set (outbox_messages db')" for m
    using that inv message_ok_mono [of transport db _ db'] keys unfolding db'
    by (auto simp: outbox_inv_def message_ok_def max_attempts_def elim!: in_set_update_whereE)
  moreover have "\<forall>m \<in> set (outbox_messages db'). msg_id m < uuid_supply db'"
    using inv by (auto simp: db' outbox_inv_def elim!: in_set_update_whereE)
  moreover have "map msg_id (outbox_messages db') = map msg_id (outbox_messages db)"
    by (simp add: db' map_update_where)
  ultimately show ?thesis using inv keys by (simp add: outbox_inv_def)
qed

lemma inv_step:
  assumes "worker_step transport (db, lg) (db', lg')" "outbox_inv transport db lg"
  shows "outbox_inv transport db' lg'"
proof -
  have "outbox_inv transport db' lg" if "outbox_grows db db'"
  proof -
    have "outbox_extends db db'" "processed_keys db' = processed_keys db @ []"
      using that unfolding outbox_grows_def by (auto simp: processed_keys_def)
    moreover have "distinct (lg @ [])" using assms(2) unfolding outbox_inv_def by simp
    ultimately show ?thesis using inv_extends [OF assms(2)] by force
  qed
  then show ?thesis
    using assms(1) inv_replay [OF assms(2)] inv_poll [OF assms(2)] inv_dispatch [OF assms(2)]
    by (blast elim: worker_stepE)
qed

lemma reachable_inv: "worker_reachable transport db lg \<Longrightarrow> outbox_inv transport db lg"
proof -
  have "(worker_step transport)\<^sup>*\<^sup>* (db0, lg0) (db, lg) \<Longrightarrow> outbox_inv transport db0 lg0 \<Longrightarrow> outbox_inv transport db lg"
    for db0 lg0
    by (induction rule: rtranclp_induct2) (auto intro: inv_step)
  moreover have "empty_outbox db0 \<Longrightarrow> outbox_inv transport db0 []" for db0
    by (simp add: empty_outbox_def outbox_inv_def processed_keys_def)
  ultimately show "worker_reachable transport db lg \<Longrightarrow> outbox_inv transport db lg"
    unfolding worker_reachable_def by blast
qed

text \<open>Progress: when no consumer of a claimed message fails, the poll publishes it.\<close>

lemma deliver_to_total:
  assumes "set hs \<subseteq> set (handlers_for transport et)"
    "\<And>c h d. (c, h) \<in> set hs \<Longrightarrow> \<exists>d'. h now m d = (d', Inr ())"
  shows "\<exists>db' rs. deliver_to now m hs db = (db', rs, [])"
  using assms
proof (induction hs arbitrary: db)
  case (Cons ch hs)
  obtain c h where ch: "ch = (c, h)" by (cases ch)
  have "\<exists>d1 r. consume_once now m c h db = (d1, Inr r)"
  proof (cases "has_processed (msg_id m) c db")
    case False
    obtain d' where d': "h now m db = (d', Inr ())" using Cons.prems(2) ch by (meson list.set_intros(1))
    then have "processed_events d' = processed_events db"
      using handlers_grow [of c h et] Cons.prems(1) ch by (auto simp: outbox_grows_def)
    then have "\<not> has_processed (msg_id m) c d'" using False by (simp add: has_processed_def)
    then show ?thesis using d' False unfolding consume_once_def by auto
  qed (auto simp: consume_once_def)
  then obtain d1 r where "consume_once now m c h db = (d1, Inr r)" by blast
  moreover obtain db' rs where "deliver_to now m hs d1 = (db', rs, [])"
    using Cons.IH [of d1] Cons.prems by (meson list.set_intros(2) set_subset_Cons subset_trans)
  ultimately show ?case using ch by auto
qed simp

lemma dispatch_settled:
  assumes "dispatch env transport ms db = (db', settled, runs)" "m \<in> set ms"
    "\<And>c h d. (c, h) \<in> set (handlers_for transport (event_type m)) \<Longrightarrow> \<exists>d'. h (env_now env) m d = (d', Inr ())"
  shows "settle_message env m [] \<in> set settled"
  using assms
proof (induction ms arbitrary: db settled runs)
  case (Cons a ms)
  obtain d1 done_by fails where d: "deliver (env_now env) transport a db = (d1, done_by, fails)"
    by (metis prod_cases3)
  then obtain st rs where rest: "dispatch env transport ms d1 = (db', st, rs)"
    and out: "settled = settle_message env a fails # st"
    using Cons.prems(1) by (auto split: prod.splits)
  show ?case
  proof (cases "a = m")
    case True
    then have "fails = []"
      using d deliver_to_total [OF subset_refl, of "event_type m" "env_now env" m db] Cons.prems(3)
      by (auto simp: deliver_def)
    then show ?thesis using out True by simp
  next
    case False
    then show ?thesis using Cons.IH [OF rest] Cons.prems(2,3) out by simp
  qed
qed simp

lemma list_all2_msg_id: "list_all2 (settles env db) ms st \<Longrightarrow> map msg_id st = map msg_id ms"
  by (induction rule: list_all2_induct) (auto simp: settles_def)

lemma distinct_claim: "distinct (map msg_id (outbox_messages db)) \<Longrightarrow> distinct (map msg_id (claim_batch now n db))"
proof -
  assume a: "distinct (map msg_id (outbox_messages db))"
  let ?l = "select_all (\<lambda>m. msg_status m = PENDING \<and> next_attempt_at m \<le> now) (outbox_messages db)"
  have "distinct (map msg_id ?l)" using a by (simp add: select_all_def distinct_map_filter)
  then have "distinct (map msg_id (sort_key msg_id ?l))"
    by (simp add: distinct_map inj_on_def)
  then show ?thesis unfolding claim_batch_def by (metis distinct_take take_map)
qed

lemma poll_publishes:
  assumes inv: "outbox_inv transport db lg" and poll: "poll_once env transport n db = (db', res, runs)"
    and m: "m \<in> set (claim_batch (env_now env) n db)"
    and ok: "\<And>c h d. (c, h) \<in> set (handlers_for transport (event_type m)) \<Longrightarrow> \<exists>d'. h (env_now env) m d = (d', Inr ())"
  shows "m\<lparr>msg_status := PUBLISHED, published_at := Some (env_now env)\<rparr> \<in> set (outbox_messages db')"
    "all_processed transport m db'"
proof -
  let ?ms = "claim_batch (env_now env) n db"
  let ?s = "settle_message env m []"
  obtain d1 settled where d: "dispatch env transport ?ms db = (d1, settled, runs)"
    and db': "db' = write_settled settled d1"
    using poll by (auto simp: poll_once_def Let_def split: prod.splits)
  have eff: "outbox_extends db d1" "list_all2 (settles env d1) ?ms settled"
    using dispatch_effect [OF d] inv by (auto simp: outbox_inv_def)
  have s: "?s \<in> set settled" using ok by (rule dispatch_settled [OF d m])
  have "distinct (map msg_id settled)"
    unfolding list_all2_msg_id [OF eff(2)] using inv by (intro distinct_claim) (simp add: outbox_inv_def)
  then have "select_one (\<lambda>x. msg_id x = msg_id m) settled = Some ?s"
    using select_one_key [OF _ s, of msg_id] by simp
  moreover have "m \<in> set (outbox_messages d1)"
    using claim_batch_props(1) [of "env_now env" n db] m eff(1) by (auto elim!: outbox_extendsE)
  ultimately have "?s \<in> set (outbox_messages db')" by (force simp: db' write_settled_def)
  then show mem: "m\<lparr>msg_status := PUBLISHED, published_at := Some (env_now env)\<rparr> \<in> set (outbox_messages db')"
    by (simp add: settle_message_def)
  have "outbox_inv transport db' (lg @ runs)" using inv_poll [OF inv poll] .
  then show "all_processed transport m db'"
    using mem unfolding outbox_inv_def message_ok_def all_processed_def by force
qed

end

section \<open>Backoff\<close>

text \<open>
  C9: the retry delay after \<open>n\<close> failed attempts is at least the capped exponential \<open>min (2^n) 3600\<close>
  seconds and exceeds it by at most a fifth, so it never exceeds 72 minutes; and more attempts never
  give a shorter delay for the same draw.
\<close>

theorem backoff_bounds:
  assumes "0 \<le> u" "u \<le> 1/5"
  shows "int (min (2 ^ n) 3600) * second_us \<le> compute_backoff n u
    \<and> 5 * compute_backoff n u \<le> 6 * int (min (2 ^ n) 3600) * second_us
    \<and> compute_backoff n u \<le> 72 * minute_us
    \<and> (\<forall>k \<le> n. compute_backoff k u \<le> compute_backoff n u)"
proof -
  define cap where "cap k = int (min (2 ^ k) 3600)" for k :: nat
  have eq: "compute_backoff k u = round_half_even ((of_int (cap k) + of_int (cap k) * u) * of_int second_us)" for k
    unfolding compute_backoff_def Let_def cap_def backoff_base_seconds_def backoff_cap_seconds_def
    by (simp only: of_int_of_nat_eq mult_1)
  have cap0: "0 \<le> cap k" "cap k \<le> 3600" for k by (auto simp: cap_def)
  have lower: "cap k * second_us \<le> compute_backoff k u" for k
  proof -
    have "round_half_even (of_int (cap k * second_us)) \<le> compute_backoff k u"
      unfolding eq using assms cap0(1) [of k]
      by (intro round_half_even_mono) (simp add: second_us_def)
    then show ?thesis by (simp only: round_half_even_of_int)
  qed
  have upper: "5 * compute_backoff k u \<le> 6 * cap k * second_us" for k
  proof -
    have "of_int (cap k) * u \<le> of_int (cap k) * (1/5)"
      using assms(2) cap0(1) [of k] by (intro mult_left_mono) auto
    then have "compute_backoff k u \<le> round_half_even (of_int (cap k * 1200000))"
      unfolding eq by (intro round_half_even_mono) (simp add: second_us_def algebra_simps)
    then have "compute_backoff k u \<le> cap k * 1200000" by (simp only: round_half_even_of_int)
    then show ?thesis by (simp add: second_us_def)
  qed
  have "compute_backoff k u \<le> compute_backoff n u" if "k \<le> n" for k
  proof -
    have "(2::nat) ^ k \<le> 2 ^ n" using that by (rule power_increasing) simp
    then have "cap k \<le> cap n" unfolding cap_def by linarith
    then have "(of_int (cap k) :: rat) * (1 + u) * of_int second_us \<le> of_int (cap n) * (1 + u) * of_int second_us"
      using assms(1) by (intro mult_right_mono) (auto simp: second_us_def)
    then show ?thesis unfolding eq by (intro round_half_even_mono) (simp add: algebra_simps)
  qed
  moreover have "compute_backoff n u \<le> 72 * minute_us"
    using upper [of n] cap0(2) [of n] by (simp add: time_units)
  ultimately show ?thesis using lower [of n] upper [of n] by (simp add: cap_def)
qed

theorem backoff_bounds_witness:
  "compute_backoff 4 (1/10) = 17600000 \<and> 16 * second_us \<le> compute_backoff 4 (1/10)
    \<and> compute_backoff 3 (1/10) \<le> compute_backoff 4 (1/10)"
proof -
  have "compute_backoff 4 (1/10) = 17600000"
    by (simp add: compute_backoff_def round_half_even_def time_units backoff_base_seconds_def backoff_cap_seconds_def)
  moreover have "16 * second_us \<le> compute_backoff 4 (1/10)" "compute_backoff 3 (1/10) \<le> compute_backoff 4 (1/10)"
    using backoff_bounds [of "1/10" 4] by (simp_all add: time_units)
  ultimately show ?thesis by blast
qed

end
