(* ===== verification/Core_Validators.thy ===== *)
theory Core_Validators
  imports Dms_Prelude
begin

text \<open>
  The field validators of \<^verbatim>\<open>app/core/validators.py\<close>: the Swiss UID and VAT number with the
  mod-11 check digit, the ISO 13616 IBAN with the mod-97 check, VIN and chassis numbers, phone,
  postal-code and house-number shapes. A validator returns the accepted text or \<open>ValueError\<close>,
  as the functions behind the pydantic types do.

  A compiled pattern \<open>^...$\<close> used with \<open>re.match\<close> also accepts one newline after the text it
  describes: without \<open>re.MULTILINE\<close> the dollar matches at the end and just before a trailing
  newline. \<open>dollar_match\<close> keeps that; the validators that strip or remove whitespace first are
  not affected by it, the others are (\<open>vin_accepts_trailing_newline\<close>).
\<close>

section \<open>Patterns\<close>

definition dollar_match :: "(string \<Rightarrow> bool) \<Rightarrow> string \<Rightarrow> bool" where
  "dollar_match full s \<longleftrightarrow> full s \<or> (s \<noteq> [] \<and> last s = newline_char \<and> full (butlast s))"

definition alnum_upper :: "char \<Rightarrow> bool" where
  "alnum_upper c \<longleftrightarrow> is_upper_char c \<or> is_digit_char c"

definition alnum_char :: "char \<Rightarrow> bool" where
  "alnum_char c \<longleftrightarrow> is_upper_char c \<or> is_lower_char c \<or> is_digit_char c"

fun e164_re :: "string \<Rightarrow> bool" where
  "e164_re (p # d # ds) \<longleftrightarrow> p = CHR ''+'' \<and> is_digit_char d \<and> d \<noteq> CHR ''0''
     \<and> list_all is_digit_char ds \<and> 6 \<le> length ds \<and> length ds \<le> 14"
| "e164_re _ \<longleftrightarrow> False"

definition postal_code_re :: "string \<Rightarrow> bool" where
  "postal_code_re s \<longleftrightarrow> length s = 4 \<and> list_all is_digit_char s"

text \<open>\<open>\d{1,5}\s?[A-Za-z]{0,3}\<close>: the three classes are disjoint, so the split is determined.\<close>

definition house_number_re :: "string \<Rightarrow> bool" where
  "house_number_re s \<longleftrightarrow>
     (let ds = takeWhile is_digit_char s; rest = dropWhile is_digit_char s;
          suffix = (case rest of [] \<Rightarrow> [] | c # t \<Rightarrow> if is_space_char c then t else rest)
      in 1 \<le> length ds \<and> length ds \<le> 5 \<and> length suffix \<le> 3
         \<and> list_all (\<lambda>c. is_upper_char c \<or> is_lower_char c) suffix)"

fun foreign_postal_code_re :: "string \<Rightarrow> bool" where
  "foreign_postal_code_re (c # cs) \<longleftrightarrow> alnum_char c
     \<and> list_all (\<lambda>d. alnum_char d \<or> d = CHR '' '' \<or> d = CHR ''-'') cs
     \<and> 1 \<le> length cs \<and> length cs \<le> 11"
| "foreign_postal_code_re [] \<longleftrightarrow> False"

definition vin_char :: "char \<Rightarrow> bool" where
  "vin_char c \<longleftrightarrow> alnum_upper c \<and> c \<noteq> CHR ''I'' \<and> c \<noteq> CHR ''O'' \<and> c \<noteq> CHR ''Q''"

definition vin_re :: "string \<Rightarrow> bool" where
  "vin_re s \<longleftrightarrow> length s = 17 \<and> list_all vin_char s"

definition chassis_number_re :: "string \<Rightarrow> bool" where
  "chassis_number_re s \<longleftrightarrow> 1 \<le> length s \<and> length s \<le> 17 \<and> list_all alnum_upper s"

definition uid_re :: "string \<Rightarrow> bool" where
  "uid_re s \<longleftrightarrow> length s = 15 \<and> take 4 s = ''CHE-'' \<and> s ! 7 = CHR ''.'' \<and> s ! 11 = CHR ''.''
     \<and> list_all (\<lambda>i. is_digit_char (s ! i)) [4, 5, 6, 8, 9, 10, 12, 13, 14]"

definition iban_re :: "string \<Rightarrow> bool" where
  "iban_re s \<longleftrightarrow> 15 \<le> length s \<and> length s \<le> 34 \<and> list_all is_upper_char (take 2 s)
     \<and> list_all is_digit_char (take 2 (drop 2 s)) \<and> list_all alnum_upper (drop 4 s)"

definition vat_suffixes :: "string list" where
  "vat_suffixes = [''MWST'', ''TVA'', ''IVA'']"

text \<open>The VAT pattern's group 1, the suffix, when the text matches.\<close>

definition vat_number_group :: "string \<Rightarrow> string option" where
  "vat_number_group s =
     (let r = drop 15 s;
          suffix = (case r of [] \<Rightarrow> [] | c # t \<Rightarrow> if c = CHR '' '' then t else r)
      in if uid_re (take 15 s) \<and> List.member vat_suffixes suffix then Some suffix else None)"

definition vat_number_re :: "string \<Rightarrow> string option" where
  "vat_number_re s = (case vat_number_group s of Some g \<Rightarrow> Some g | None \<Rightarrow>
     if s \<noteq> [] \<and> last s = newline_char then vat_number_group (butlast s) else None)"

section \<open>Operations\<close>

definition uid_weights :: "nat list" where
  "uid_weights = [5, 4, 3, 2, 7, 6, 5, 4]"

definition uid_total :: "string \<Rightarrow> nat" where
  "uid_total ds = sum_list (map2 (\<lambda>d w. digit_value d * w) ds uid_weights)"

definition uid_check_digit :: "string \<Rightarrow> nat option" where
  "uid_check_digit first_eight =
     (let check = 11 - uid_total first_eight mod 11
      in if check = 10 then None else Some (if check = 11 then 0 else check))"

definition starts_with :: "string \<Rightarrow> string \<Rightarrow> bool" where
  "starts_with p s \<longleftrightarrow> take (length p) s = p"

definition normalise_phone :: "string option \<Rightarrow> string" where
  "normalise_phone value =
     (let digits = filter is_digit_char (case value of None \<Rightarrow> [] | Some v \<Rightarrow> v)
      in if digits = [] then []
         else if starts_with ''00'' digits then drop 2 digits
         else if starts_with ''0'' digits then ''41'' @ drop 1 digits
         else digits)"

definition canton_codes :: "string list" where
  "canton_codes = [''AG'', ''AI'', ''AR'', ''BE'', ''BL'', ''BS'', ''FR'', ''GE'', ''GL'', ''GR'', ''JU'',
     ''LU'', ''NE'', ''NW'', ''OW'', ''SG'', ''SH'', ''SO'', ''SZ'', ''TG'', ''TI'', ''UR'', ''VD'', ''VS'',
     ''ZG'', ''ZH'']"

definition validate_canton :: "string \<Rightarrow> string result" where
  "validate_canton value = (if \<not> List.member canton_codes value then Inl ValueError else Inr value)"

definition validate_e164_phone :: "string \<Rightarrow> string result" where
  "validate_e164_phone value = (if \<not> dollar_match e164_re value then Inl ValueError else Inr value)"

definition validate_postal_code :: "string \<Rightarrow> string result" where
  "validate_postal_code value = (if \<not> dollar_match postal_code_re value then Inl ValueError else Inr value)"

definition validate_postal_code_for_country :: "string \<Rightarrow> string \<Rightarrow> string result" where
  "validate_postal_code_for_country value country =
     (if upper_text country = ''CH'' then validate_postal_code value
      else if \<not> dollar_match foreign_postal_code_re value then Inl ValueError else Inr value)"

definition validate_house_number :: "string \<Rightarrow> string result" where
  "validate_house_number value = (if \<not> dollar_match house_number_re value then Inl ValueError else Inr value)"

definition validate_vin :: "string \<Rightarrow> string result" where
  "validate_vin value = (if \<not> dollar_match vin_re value then Inl ValueError else Inr value)"

definition is_valid_vin :: "string option \<Rightarrow> bool" where
  "is_valid_vin value = (case value of None \<Rightarrow> False | Some v \<Rightarrow> dollar_match vin_re v)"

text \<open>\<open>str(ord(ch) - 55) if ch.isalpha() else ch\<close>, joined.\<close>

definition iban_digits :: "string \<Rightarrow> string" where
  "iban_digits s = concat (map (\<lambda>c. if is_upper_char c then digits_of_nat (ord_char c - 55) else [c]) s)"

definition iban_is_valid :: "string option \<Rightarrow> bool" where
  "iban_is_valid value =
     (let compact = upper_text (remove_space (case value of None \<Rightarrow> [] | Some v \<Rightarrow> v))
      in if \<not> dollar_match iban_re compact then False
         else let rearranged = drop 4 compact @ take 4 compact
              in nat_of_digits (iban_digits rearranged) mod 97 = 1)"

definition validate_iban :: "string \<Rightarrow> string result" where
  "validate_iban value =
     (let compact = upper_text (remove_space value)
      in if \<not> iban_is_valid (Some compact) then Inl ValueError else Inr compact)"

definition uid_digits :: "string \<Rightarrow> string" where
  "uid_digits normalised = filter (\<lambda>c. c \<noteq> CHR ''.'') (drop 4 normalised)"

definition validate_swiss_uid :: "string \<Rightarrow> string result" where
  "validate_swiss_uid value =
     (let normalised = upper_text (strip_text value)
      in if \<not> dollar_match uid_re normalised then Inl ValueError
         else let digits = uid_digits normalised;
                  expected = uid_check_digit (take 8 digits)
              in if expected = None \<or> expected \<noteq> Some (digit_value (digits ! 8)) then Inl ValueError
                 else Inr normalised)"

text \<open>\<open>str.split()\<close> on runs of whitespace.\<close>

function split_space :: "string \<Rightarrow> string list" where
  "split_space s = (let r = dropWhile is_space_char s in
     if r = [] then []
     else takeWhile (\<lambda>c. \<not> is_space_char c) r # split_space (dropWhile (\<lambda>c. \<not> is_space_char c) r))"
  by pat_completeness auto
termination
proof (relation "measure length", goal_cases)
  case (2 s r)
  then have "\<not> is_space_char (hd r)" "r \<noteq> []"
    using hd_dropWhile [of is_space_char s] by auto
  then have "length (dropWhile (\<lambda>c. \<not> is_space_char c) r) < length r"
    by (cases r) (auto simp: le_imp_less_Suc length_dropWhile_le)
  then show ?case using 2 length_dropWhile_le [of is_space_char s] by auto
qed simp

declare split_space.simps [simp del]

definition join_space :: "string list \<Rightarrow> string" where
  "join_space ws = (case ws of [] \<Rightarrow> [] | w # rest \<Rightarrow> w @ concat (map (\<lambda>v. CHR '' '' # v) rest))"

definition validate_swiss_vat_number :: "string \<Rightarrow> string result" where
  "validate_swiss_vat_number value =
     (let normalised = join_space (split_space (upper_text (strip_text value)))
      in case vat_number_re normalised of
           None \<Rightarrow> Inl ValueError
         | Some g \<Rightarrow> bindR (validate_swiss_uid (take 15 normalised)) (\<lambda>uid. Inr (uid @ '' '' @ g)))"

definition normalise_vin :: "string \<Rightarrow> string" where
  "normalise_vin value = upper_text (remove_space value)"

text \<open>The request type \<open>NormalisedVin\<close>: normalise, then \<open>Vin\<close>'s rule.\<close>

definition normalised_vin :: "string \<Rightarrow> string result" where
  "normalised_vin value = validate_vin (normalise_vin value)"

definition pre_iso_vin_cutoff :: date where
  "pre_iso_vin_cutoff = 4018"  \<comment> \<open>1981-01-01, in days since 1970-01-01\<close>

definition validate_vin_or_chassis_number :: "string \<Rightarrow> string result" where
  "validate_vin_or_chassis_number value =
     (if \<not> dollar_match chassis_number_re value then Inl ValueError else Inr value)"

definition is_chassis_number :: "string option \<Rightarrow> bool" where
  "is_chassis_number value \<longleftrightarrow> (value \<noteq> None \<and> value \<noteq> Some []) \<and> \<not> is_valid_vin value"

definition require_vin_or_pre_1981_chassis_number :: "string option \<Rightarrow> date option \<Rightarrow> unit result" where
  "require_vin_or_pre_1981_chassis_number vin first_registration =
     (if \<not> is_chassis_number vin then Inr ()
      else case first_registration of
             Some d \<Rightarrow> if d < pre_iso_vin_cutoff then Inr ()
               else Inl (UnprocessableEntityError [(''field'', JStr ''vin''),
                 (''reason'', JStr ''chassis_number_requires_pre_1981_registration'')])
           | None \<Rightarrow> Inl (UnprocessableEntityError [(''field'', JStr ''vin''),
                 (''reason'', JStr ''chassis_number_requires_pre_1981_registration'')]))"


section \<open>The Swiss UID\<close>

text \<open>The UID a list of nine digits is written as.\<close>

definition format_uid :: "string \<Rightarrow> string" where
  "format_uid ds = ''CHE-'' @ take 3 ds @ ''.'' @ take 3 (drop 3 ds) @ ''.'' @ drop 6 ds"

lemma nine_digits_cases:
  assumes "length ds = 9"
  obtains a b c d e f g h k where "ds = [a, b, c, d, e, f, g, h, k]"
  using assms by (auto simp: length_Suc_conv eval_nat_numeral)

lemma digit_charD:
  assumes "is_digit_char c"
  shows "upper_char c = [c]" "\<not> is_space_char c" "c \<noteq> CHR ''.''" "digit_value c \<le> 9"
    "c \<noteq> newline_char" "\<not> is_upper_char c"
  using assms by (auto simp: char_classes upper_char_def Let_def digit_value_def newline_char_def ord_char_def)

lemma digit_value_inj: "is_digit_char c \<Longrightarrow> is_digit_char d \<Longrightarrow> digit_value c = digit_value d \<Longrightarrow> c = d"
  by (auto simp: char_classes digit_value_def simp flip: ord_char_inj)

lemma strip_text_id: "s \<noteq> [] \<Longrightarrow> \<not> is_space_char (hd s) \<Longrightarrow> \<not> is_space_char (last s) \<Longrightarrow> strip_text s = s"
proof -
  assume a: "s \<noteq> []" "\<not> is_space_char (hd s)" "\<not> is_space_char (last s)"
  then have "dropWhile is_space_char s = s" by (cases s) auto
  moreover have "dropWhile is_space_char (rev s) = rev s"
    using a by (cases s rule: rev_cases) auto
  ultimately show ?thesis by (simp add: strip_text_def)
qed

lemma uid_letters [simp]:
  "upper_char (CHR ''C'') = ''C''" "upper_char (CHR ''H'') = ''H''" "upper_char (CHR ''E'') = ''E''"
  "upper_char (CHR ''-'') = ''-''" "upper_char (CHR ''.'') = ''.''" "\<not> is_space_char (CHR ''C'')"
  by (simp_all add: upper_char_def Let_def ord_char_def is_space_char_def)

lemma uid_re_format_uid:
  assumes "length ds = 9" "list_all is_digit_char ds"
  shows "uid_re (format_uid ds)" "upper_text (strip_text (format_uid ds)) = format_uid ds"
    "uid_digits (format_uid ds) = ds"
proof -
  obtain a b c d e f g h k where ds: "ds = [a, b, c, d, e, f, g, h, k]"
    using assms(1) by (rule nine_digits_cases)
  show "uid_re (format_uid ds)"
    using assms(2) by (simp add: ds format_uid_def uid_re_def)
  have "strip_text (format_uid ds) = format_uid ds"
    using assms(2) by (intro strip_text_id) (auto simp: ds format_uid_def digit_charD)
  then show "upper_text (strip_text (format_uid ds)) = format_uid ds"
    using assms(2) by (simp add: ds format_uid_def digit_charD)
  show "uid_digits (format_uid ds) = ds"
    using assms(2) by (simp add: ds format_uid_def uid_digits_def digit_charD)
qed

text \<open>The check digit has weight one: a UID is accepted iff its weighted digit sum is divisible by 11.\<close>

definition uid_checksum :: "string \<Rightarrow> nat" where
  "uid_checksum ds = uid_total (take 8 ds) + digit_value (ds ! 8)"

lemma check_digit_iff:
  assumes "(d::nat) \<le> 9"
  shows "(11 - t mod 11 \<noteq> 10 \<and> (if 11 - t mod 11 = 11 then 0 else 11 - t mod 11) = d) \<longleftrightarrow> (t + d) mod 11 = 0"
proof -
  define m where "m = t mod 11"
  have m: "m \<le> 10" by (simp add: m_def)
  have "(t + d) mod 11 = (m + d) mod 11" by (simp add: m_def mod_add_left_eq)
  also have "\<dots> = (if m + d < 11 then m + d else m + d - 11)"
    using m assms by (simp add: le_mod_geq)
  finally show ?thesis using m assms by (auto simp flip: m_def)
qed

lemma validate_format_uid:
  assumes "length ds = 9" "list_all is_digit_char ds"
  shows "validate_swiss_uid (format_uid ds)
    = (if uid_checksum ds mod 11 = 0 then Inr (format_uid ds) else Inl ValueError)"
proof -
  have "digit_value (ds ! 8) \<le> 9"
    using assms by (auto simp: list_all_length digit_charD)
  from check_digit_iff [OF this, of "uid_total (take 8 ds)"]
  have "(uid_check_digit (take 8 ds) \<noteq> None \<and> uid_check_digit (take 8 ds) = Some (digit_value (ds ! 8)))
      \<longleftrightarrow> uid_checksum ds mod 11 = 0"
    by (auto simp: uid_check_digit_def uid_checksum_def Let_def split: if_splits)
  then show ?thesis
    using uid_re_format_uid [OF assms] by (auto simp: validate_swiss_uid_def dollar_match_def Let_def)
qed

lemma uid_checksum_nine:
  "uid_checksum [a, b, c, d, e, f, g, h, k] = 5 * digit_value a + 4 * digit_value b + 3 * digit_value c
    + 2 * digit_value d + 7 * digit_value e + 6 * digit_value f + 5 * digit_value g
    + 4 * digit_value h + digit_value k"
  by (simp add: uid_checksum_def uid_total_def uid_weights_def)

lemma digit_value_zero [simp]: "digit_value (CHR ''0'') = 0"
  by (simp add: digit_value_def ord_char_def)

lemma less_nine_cases:
  "(i::nat) < 9 \<Longrightarrow> i = 0 \<or> i = 1 \<or> i = 2 \<or> i = 3 \<or> i = 4 \<or> i = 5 \<or> i = 6 \<or> i = 7 \<or> i = 8"
  by linarith

text \<open>A small multiple of a digit difference is never divisible by 11.\<close>

lemma eleven_dvd_multiple:
  fixes d :: int
  assumes "u \<in> {1, 2, 3, 4, 5, 6, 7, - 5}" "- 9 \<le> d" "d \<le> 9" "11 dvd u * d"
  shows "d = 0"
proof -
  have "11 dvd d"
  proof -
    from assms(1) consider "u = 1" | "u = 2" | "u = 3" | "u = 4" | "u = 5" | "u = 6" | "u = 7" | "u = - 5"
      by blast
    then show ?thesis using assms(4) by cases (hypsubst, presburger)+
  qed
  then show ?thesis using assms(2,3) by presburger
qed

lemma mod_eleven_difference:
  fixes a b :: nat
  assumes "a mod 11 = 0" "b mod 11 = 0" "int a - int b = u * d"
  shows "11 dvd u * d"
proof -
  have "11 dvd int a" "11 dvd int b" using assms(1,2) by presburger+
  then show ?thesis by (simp flip: assms(3))
qed

lemma weighted_change_detected:
  fixes x y w :: nat
  assumes "w \<in> {1, 2, 3, 4, 5, 6, 7}" "x \<le> 9" "y \<le> 9" "(r + w * x) mod 11 = 0" "(r + w * y) mod 11 = 0"
  shows "x = y"
proof -
  have "11 dvd int w * (int x - int y)"
    by (rule mod_eleven_difference [OF assms(4,5)]) (simp add: algebra_simps)
  moreover have "int w \<in> {1, 2, 3, 4, 5, 6, 7, - 5}" using assms(1) by auto
  ultimately have "int x - int y = 0" using assms(2,3) by (intro eleven_dvd_multiple) auto
  then show ?thesis by simp
qed

lemma adjacent_swap_detected:
  fixes x y v w :: nat
  assumes "(v, w) \<in> {(5, 4), (4, 3), (3, 2), (2, 7), (7, 6), (6, 5), (4, 1)}" "x \<le> 9" "y \<le> 9"
    "(r + v * x + w * y) mod 11 = 0" "(r + v * y + w * x) mod 11 = 0"
  shows "x = y"
proof -
  have "11 dvd (int v - int w) * (int x - int y)"
    by (rule mod_eleven_difference [OF assms(4,5)]) (simp add: algebra_simps)
  moreover have "int v - int w \<in> {1, 2, 3, 4, 5, 6, 7, - 5}" using assms(1) by auto
  ultimately have "int x - int y = 0" using assms(2,3) by (intro eleven_dvd_multiple) auto
  then show ?thesis by simp
qed

lemma uid_checksum_update:
  assumes "length ds = 9" "i < 9"
  obtains r w where "w \<in> {1, 2, 3, 4, 5, 6, 7}" "uid_checksum ds = r + w * digit_value (ds ! i)"
    "\<And>c. uid_checksum (ds[i := c]) = r + w * digit_value c"
proof -
  obtain a b c d e f g h k where ds: "ds = [a, b, c, d, e, f, g, h, k]"
    using assms(1) by (rule nine_digits_cases)
  define w where "w = (uid_weights @ [1]) ! i"
  define r where "r = uid_checksum (ds[i := CHR ''0''])"
  show thesis
  proof (rule that [of w r])
    show "w \<in> {1, 2, 3, 4, 5, 6, 7}"
      using less_nine_cases [OF assms(2)] by (elim disjE; simp add: w_def uid_weights_def)
    show "uid_checksum ds = r + w * digit_value (ds ! i)"
      using less_nine_cases [OF assms(2)]
      by (elim disjE; simp add: r_def w_def ds uid_checksum_nine uid_weights_def)
    show "uid_checksum (ds[i := x]) = r + w * digit_value x" for x
      using less_nine_cases [OF assms(2)]
      by (elim disjE; simp add: r_def w_def ds uid_checksum_nine uid_weights_def)
  qed
qed

lemma uid_checksum_swap:
  assumes "length ds = 9" "i < 8"
  obtains r v w where "(v, w) \<in> {(5, 4), (4, 3), (3, 2), (2, 7), (7, 6), (6, 5), (4, 1)}"
    "uid_checksum ds = r + v * digit_value (ds ! i) + w * digit_value (ds ! Suc i)"
    "uid_checksum (ds[i := ds ! Suc i, Suc i := ds ! i]) = r + v * digit_value (ds ! Suc i) + w * digit_value (ds ! i)"
proof -
  obtain a b c d e f g h k where ds: "ds = [a, b, c, d, e, f, g, h, k]"
    using assms(1) by (rule nine_digits_cases)
  define v where "v = (uid_weights @ [1]) ! i"
  define w where "w = (uid_weights @ [1]) ! Suc i"
  define r where "r = uid_checksum (ds[i := CHR ''0'', Suc i := CHR ''0''])"
  have i: "i = 0 \<or> i = 1 \<or> i = 2 \<or> i = 3 \<or> i = 4 \<or> i = 5 \<or> i = 6 \<or> i = 7"
    using assms(2) by linarith
  show thesis
  proof (rule that [of v w r])
    show "(v, w) \<in> {(5, 4), (4, 3), (3, 2), (2, 7), (7, 6), (6, 5), (4, 1)}"
      using i by (elim disjE; simp add: v_def w_def uid_weights_def)
    show "uid_checksum ds = r + v * digit_value (ds ! i) + w * digit_value (ds ! Suc i)"
      using i by (elim disjE; simp add: r_def v_def w_def ds uid_checksum_nine uid_weights_def)
    show "uid_checksum (ds[i := ds ! Suc i, Suc i := ds ! i])
        = r + v * digit_value (ds ! Suc i) + w * digit_value (ds ! i)"
      using i by (elim disjE; simp add: r_def v_def w_def ds uid_checksum_nine uid_weights_def)
  qed
qed

lemma uid_substitution_detected:
  assumes "length ds = 9" "list_all is_digit_char ds" "uid_checksum ds mod 11 = 0"
    and i: "i < 9" and c: "is_digit_char c" "c \<noteq> ds ! i"
  shows "validate_swiss_uid (format_uid (ds[i := c])) = Inl ValueError"
proof -
  obtain r w where w: "w \<in> {1, 2, 3, 4, 5, 6, 7}" "uid_checksum ds = r + w * digit_value (ds ! i)"
    "uid_checksum (ds[i := c]) = r + w * digit_value c"
    by (rule uid_checksum_update [OF assms(1) i]) blast
  have "is_digit_char (ds ! i)" using assms(1,2) i by (simp add: list_all_length)
  then have "uid_checksum (ds[i := c]) mod 11 \<noteq> 0"
    using weighted_change_detected [OF w(1), of "digit_value (ds ! i)" "digit_value c" r] assms(3) w c
      digit_value_inj digit_charD(4) by metis
  moreover have "list_all is_digit_char (ds[i := c])"
    using assms(1,2) c(1) i by (simp add: list_all_length nth_list_update)
  ultimately show ?thesis
    using validate_format_uid [of "ds[i := c]"] assms(1) by simp
qed

lemma uid_swap_detected:
  assumes "length ds = 9" "list_all is_digit_char ds" "uid_checksum ds mod 11 = 0"
    and i: "i < 8" and ne: "ds ! i \<noteq> ds ! Suc i"
  shows "validate_swiss_uid (format_uid (ds[i := ds ! Suc i, Suc i := ds ! i])) = Inl ValueError"
proof -
  let ?es = "ds[i := ds ! Suc i, Suc i := ds ! i]"
  obtain r v w where w: "(v, w) \<in> {(5, 4), (4, 3), (3, 2), (2, 7), (7, 6), (6, 5), (4, 1)}"
    "uid_checksum ds = r + v * digit_value (ds ! i) + w * digit_value (ds ! Suc i)"
    "uid_checksum ?es = r + v * digit_value (ds ! Suc i) + w * digit_value (ds ! i)"
    by (rule uid_checksum_swap [OF assms(1) i]) blast
  have d: "is_digit_char (ds ! i)" "is_digit_char (ds ! Suc i)"
    using assms(1,2) i by (simp_all add: list_all_length)
  then have "uid_checksum ?es mod 11 \<noteq> 0"
    using adjacent_swap_detected [OF w(1), of "digit_value (ds ! i)" "digit_value (ds ! Suc i)" r] assms(3) w ne
      digit_value_inj digit_charD(4) by metis
  moreover have "list_all is_digit_char ?es"
    using assms(1,2) d i by (simp add: list_all_length nth_list_update)
  ultimately show ?thesis
    using validate_format_uid [of ?es] assms(1) by simp
qed

text \<open>
  C11: the UID check digit catches the two common typing errors. If a nine-digit UID is accepted,
  then no UID that differs from it in exactly one digit is accepted, and none that differs by
  swapping two neighbouring (different) digits is.
\<close>

theorem uid_detects_typing_errors:
  assumes "length ds = 9" and "list_all is_digit_char ds"
    and "validate_swiss_uid (format_uid ds) = Inr (format_uid ds)"
  shows "(\<forall>i c. i < 9 \<and> is_digit_char c \<and> c \<noteq> ds ! i
      \<longrightarrow> validate_swiss_uid (format_uid (ds[i := c])) = Inl ValueError)
    \<and> (\<forall>i. i < 8 \<and> ds ! i \<noteq> ds ! Suc i
      \<longrightarrow> validate_swiss_uid (format_uid (ds[i := ds ! Suc i, Suc i := ds ! i])) = Inl ValueError)"
proof -
  have "uid_checksum ds mod 11 = 0"
    using assms validate_format_uid [OF assms(1,2)] by (auto split: if_splits)
  with assms(1,2) show ?thesis
    by (auto intro: uid_substitution_detected uid_swap_detected)
qed

theorem uid_detects_typing_errors_witness:
  "validate_swiss_uid ''CHE-123.456.788'' = Inr ''CHE-123.456.788''
    \<and> validate_swiss_uid ''CHE-123.456.738'' = Inl ValueError
    \<and> validate_swiss_uid ''CHE-213.456.788'' = Inl ValueError"
proof -
  have a: "validate_swiss_uid (format_uid ''123456788'') = Inr (format_uid ''123456788'')"
    by code_simp
  have len: "length ''123456788'' = 9" and dig: "list_all is_digit_char ''123456788''" by code_simp+
  note t = uid_detects_typing_errors [OF len dig a]
  have "validate_swiss_uid (format_uid (''123456788''[7 := CHR ''3''])) = Inl ValueError"
    using t [THEN conjunct1, rule_format, of 7 "CHR ''3''"] by (simp add: char_classes ord_char_def)
  moreover have "validate_swiss_uid (format_uid (''123456788''[0 := ''123456788'' ! Suc 0, Suc 0 := ''123456788'' ! 0])) = Inl ValueError"
    using t [THEN conjunct2, rule_format, of 0] by simp
  ultimately show ?thesis using a by (simp add: format_uid_def)
qed

section \<open>The IBAN\<close>

lemma nat_of_digits_Cons: "nat_of_digits (c # s) = digit_value c * 10 ^ length s + nat_of_digits s"
  using nat_of_digits_append [of "[c]" s] by (simp add: nat_of_digits_def)

lemma iban_digits_simps [simp]:
  "iban_digits [] = []" "iban_digits (s @ t) = iban_digits s @ iban_digits t"
  by (simp_all add: iban_digits_def)

text \<open>The number a character contributes: its digit, or 10 to 35 for a letter (two digits).\<close>

definition iban_char_value :: "char \<Rightarrow> nat" where
  "iban_char_value c = (if is_upper_char c then ord_char c - 55 else digit_value c)"

definition iban_char_width :: "char \<Rightarrow> nat" where
  "iban_char_width c = (if is_upper_char c then 2 else 1)"

lemma digits_of_two_digit_nat: "10 \<le> n \<Longrightarrow> n < 100 \<Longrightarrow> length (digits_of_nat n) = 2"
  by (subst digits_of_nat.simps, subst digits_of_nat.simps) auto

lemma iban_char_digits:
  assumes "alnum_upper c"
  shows "nat_of_digits (iban_digits [c]) = iban_char_value c" "length (iban_digits [c]) = iban_char_width c"
    "iban_char_value c < 36"
proof -
  have "nat_of_digits [c] = digit_value c" by (simp add: nat_of_digits_def)
  then show "nat_of_digits (iban_digits [c]) = iban_char_value c"
    by (simp add: iban_digits_def iban_char_value_def nat_of_digits_digits)
  show "length (iban_digits [c]) = iban_char_width c"
    by (auto simp: iban_digits_def iban_char_width_def is_upper_char_def intro: digits_of_two_digit_nat)
  show "iban_char_value c < 36"
    using assms by (auto simp: iban_char_value_def alnum_upper_def char_classes digit_value_def)
qed

lemma ninety_seven_dvd_power_ten: "97 dvd 10 ^ k * (x::int) \<Longrightarrow> 97 dvd x"
proof (induction k)
  case (Suc k)
  have "97 dvd y" if a: "97 dvd 10 * y" for y :: int
  proof -
    from a obtain k where "10 * y = 97 * k" unfolding dvd_def by blast
    then have "y = 97 * (68 * k - 7 * y)" by simp
    then show ?thesis by (rule dvdI)
  qed
  moreover have "97 dvd 10 * (10 ^ k * x)" using Suc.prems by (simp add: mult.assoc)
  ultimately show ?case by (blast intro: Suc.IH)
qed simp

lemma ninety_seven_dvd_small: "97 dvd (x::int) \<Longrightarrow> - 36 < x \<Longrightarrow> x < 36 \<Longrightarrow> x = 0"
  by presburger

lemma iban_value_split:
  "nat_of_digits (iban_digits (xs @ [c] @ ys))
    = (nat_of_digits (iban_digits xs) * 10 ^ length (iban_digits [c]) + nat_of_digits (iban_digits [c]))
      * 10 ^ length (iban_digits ys) + nat_of_digits (iban_digits ys)"
  by (simp only: iban_digits_simps nat_of_digits_append append_assoc [symmetric])

lemma iban_char_value_inj:
  assumes "alnum_upper c" "alnum_upper d" "is_upper_char c = is_upper_char d" "iban_char_value c = iban_char_value d"
  shows "c = d"
proof (cases "is_upper_char c")
  case True
  then have "ord_char c - 55 = ord_char d - 55" "65 \<le> ord_char c" "65 \<le> ord_char d"
    using assms(3,4) by (simp_all add: iban_char_value_def, simp_all add: is_upper_char_def)
  then have "ord_char c = ord_char d" by linarith
  then show ?thesis by (simp add: ord_char_inj)
next
  case False
  then show ?thesis using assms digit_value_inj by (simp add: iban_char_value_def alnum_upper_def)
qed

text \<open>Two texts that differ in one character of the same class and both leave remainder 1 are equal.\<close>

lemma iban_same_class_change:
  assumes "alnum_upper c" "alnum_upper d" "is_upper_char c = is_upper_char d"
    and "nat_of_digits (iban_digits (xs @ [c] @ ys)) mod 97 = 1"
    and "nat_of_digits (iban_digits (xs @ [d] @ ys)) mod 97 = 1"
  shows "c = d"
proof -
  let ?k = "length (iban_digits ys)"
  have len: "length (iban_digits [c]) = length (iban_digits [d])"
    using assms(1-3) by (simp add: iban_char_digits iban_char_width_def)
  have "97 dvd int (nat_of_digits (iban_digits (xs @ [c] @ ys))) - int (nat_of_digits (iban_digits (xs @ [d] @ ys)))"
    using assms(4,5) by (metis mod_eq_dvd_iff of_nat_mod of_nat_numeral)
  also have "\<dots> = 10 ^ ?k * (int (iban_char_value c) - int (iban_char_value d))"
    unfolding iban_value_split using assms(1,2) len
    by (simp add: iban_char_digits algebra_simps)
  finally have "97 dvd int (iban_char_value c) - int (iban_char_value d)"
    by (rule ninety_seven_dvd_power_ten)
  then have "int (iban_char_value c) - int (iban_char_value d) = 0"
    using iban_char_digits(3) [OF assms(1)] iban_char_digits(3) [OF assms(2)]
    by (intro ninety_seven_dvd_small) auto
  then have "iban_char_value c = iban_char_value d" by simp
  then show ?thesis using assms(1-3) by (simp add: iban_char_value_inj)
qed

definition iban_rearranged :: "string \<Rightarrow> string" where
  "iban_rearranged s = drop 4 s @ take 4 s"

lemma iban_rearranged_update:
  assumes "i < length s" "4 \<le> length s"
  obtains xs ys where "\<And>c. iban_rearranged (s[i := c]) = xs @ [c] @ ys"
proof (cases "i < 4")
  case True
  then have "take 4 (s[i := c]) = (take 4 s)[i := c]" "drop 4 (s[i := c]) = drop 4 s" for c
    by (simp_all add: take_update_swap)
  then have "iban_rearranged (s[i := c]) = (drop 4 s @ take i (take 4 s)) @ [c] @ drop (Suc i) (take 4 s)" for c
    using assms True by (simp add: iban_rearranged_def upd_conv_take_nth_drop [of i "take 4 s"])
  then show ?thesis by (rule that)
next
  case False
  then have "iban_rearranged (s[i := c]) = drop 4 (take i s) @ [c] @ drop (Suc i) s @ take 4 s" for c
    using assms by (simp add: iban_rearranged_def upd_conv_take_nth_drop)
  then show ?thesis by (rule that)
qed

lemma alnum_upper_fixed: "alnum_upper c \<Longrightarrow> upper_char c = [c] \<and> \<not> is_space_char c \<and> c \<noteq> newline_char"
  by (auto simp: alnum_upper_def char_classes upper_char_def Let_def newline_char_def ord_char_def)

lemma alnum_upper_text:
  "list_all alnum_upper s \<Longrightarrow> upper_text s = s \<and> remove_space s = s \<and> (s \<noteq> [] \<longrightarrow> last s \<noteq> newline_char)"
  by (induction s) (auto simp: alnum_upper_fixed)

lemma iban_re_alnum: "iban_re s \<Longrightarrow> list_all alnum_upper s"
proof -
  assume a: "iban_re s"
  have "s = take 2 s @ take 2 (drop 2 s) @ drop 4 s"
    by (metis append_take_drop_id drop_drop numeral_Bit0 add.commute)
  moreover have "list_all alnum_upper (take 2 s)" "list_all alnum_upper (take 2 (drop 2 s))"
    using a by (auto simp: iban_re_def alnum_upper_def elim: list.pred_mono_strong)
  ultimately show ?thesis using a by (metis iban_re_def list_all_append)
qed

lemma no_newline_upper_remove: "newline_char \<notin> set (upper_text (remove_space v))"
proof -
  have "is_space_char newline_char" by (simp add: newline_char_def is_space_char_def ord_char_def)
  moreover have "\<not> is_space_char c" if "c \<in> set (upper_text (remove_space v))" for c
    using that remove_space_upper_text [of "remove_space v"]
    by (metis (mono_tags, lifting) mem_Collect_eq remove_space_idem set_remove_space)
  ultimately show ?thesis by blast
qed

lemma dollar_match_no_newline: "newline_char \<notin> set s \<Longrightarrow> dollar_match full s = full s"
  by (metis dollar_match_def last_in_set)

lemma validate_iban_iff:
  "validate_iban v = Inr s \<longleftrightarrow> s = upper_text (remove_space v) \<and> iban_re s
     \<and> nat_of_digits (iban_digits (iban_rearranged s)) mod 97 = 1"
proof -
  let ?c = "upper_text (remove_space v)"
  have "upper_text (remove_space ?c) = ?c"
    by (simp add: remove_space_upper_text)
  moreover have "dollar_match iban_re ?c = iban_re ?c"
    by (rule dollar_match_no_newline [OF no_newline_upper_remove])
  ultimately have "validate_iban v
      = (if iban_re ?c \<and> nat_of_digits (iban_digits (iban_rearranged ?c)) mod 97 = 1 then Inr ?c else Inl ValueError)"
    by (simp add: validate_iban_def iban_is_valid_def iban_rearranged_def Let_def)
  then show ?thesis
    by (metis Inl_Inr_False Inr_inject)
qed


lemma iban_example: "validate_iban ''NO93 8601 1117 947'' = Inr ''NO9386011117947''"
  by (simp add: validate_iban_iff iban_re_def iban_rearranged_def iban_digits_def nat_of_digits_def
      digit_value_def digits_of_nat.simps upper_char_def Let_def char_classes alnum_upper_def
      ord_char_def chr_nat_def)


section \<open>VINs, phones and chassis numbers\<close>

lemma vin_char_alnum: "vin_char c \<Longrightarrow> alnum_upper c"
  by (simp add: vin_char_def)

lemma no_newline_normalise_vin: "newline_char \<notin> set (normalise_vin v)"
  by (simp add: normalise_vin_def no_newline_upper_remove)

lemma normalise_vin_alnum: "list_all alnum_upper s \<Longrightarrow> normalise_vin s = s"
  by (simp add: normalise_vin_def alnum_upper_text)

lemma normalised_vin_eq:
  "normalised_vin v = (if vin_re (normalise_vin v) then Inr (normalise_vin v) else Inl ValueError)"
  by (simp add: normalised_vin_def validate_vin_def dollar_match_no_newline no_newline_normalise_vin)

text \<open>
  C13: a VIN accepted from a request is exactly seventeen upper-case letters and digits without
  I, O and Q, a fixed point of the request type, and every spelling with the same letters up to case
  and spacing gives the same VIN, so lookups compare one spelling; the strict type \<open>Vin\<close> accepts the
  result, and it is never taken for a pre-1981 chassis number.
\<close>

theorem normalised_vin_canonical:
  assumes "normalised_vin v = Inr s"
  shows "length s = 17 \<and> list_all vin_char s \<and> normalised_vin s = Inr s \<and> validate_vin s = Inr s
    \<and> \<not> is_chassis_number (Some s)
    \<and> (\<forall>w. upper_text (remove_space w) = upper_text (remove_space v) \<longrightarrow> normalised_vin w = Inr s)"
proof -
  have s: "s = normalise_vin v" "vin_re s"
    using assms by (auto simp: normalised_vin_eq split: if_splits)
  then have len: "length s = 17" "list_all vin_char s" by (simp_all add: vin_re_def)
  then have "list_all alnum_upper s" by (auto simp: list_all_iff vin_char_alnum)
  then have fix1: "normalised_vin s = Inr s" using s(2) by (simp add: normalised_vin_eq normalise_vin_alnum)
  have ok: "validate_vin s = Inr s" "\<not> is_chassis_number (Some s)"
    using s(2) by (simp_all add: validate_vin_def dollar_match_def is_chassis_number_def is_valid_vin_def)
  have "normalised_vin w = Inr s" if "upper_text (remove_space w) = upper_text (remove_space v)" for w
    using that s by (simp add: normalised_vin_eq normalise_vin_def)
  with len fix1 ok show ?thesis by blast
qed

theorem normalised_vin_canonical_witness:
  "normalised_vin ''wvw zzz 1kz6w000001'' = Inr ''WVWZZZ1KZ6W000001''
    \<and> normalised_vin ''WVWZZZ1KZ6W000001'' = Inr ''WVWZZZ1KZ6W000001''"
proof -
  have a: "normalised_vin ''wvw zzz 1kz6w000001'' = Inr ''WVWZZZ1KZ6W000001''"
    by code_simp
  then show ?thesis using normalised_vin_canonical [OF a] by blast
qed

text \<open>
  The strict types accept a newline after the text, because \<open>$\<close> matches before it: a
  seventeen-character rule lets eighteen characters through.
\<close>

lemma vin_accepts_trailing_newline:
  "vin_re s \<Longrightarrow> validate_vin (s @ [newline_char]) = Inr (s @ [newline_char])"
  by (simp add: validate_vin_def dollar_match_def)

lemma filter_filter_tl: "filter P xs = y # ys \<Longrightarrow> filter P ys = ys"
proof -
  assume a: "filter P xs = y # ys"
  have "set ys \<subseteq> {x. P x}" using arg_cong [OF a, of set] by auto
  then show ?thesis by (simp add: filter_id_conv subset_iff)
qed

text \<open>
  C14: the three ways a Swiss number is written, with the trunk zero, with the plus and country code and
  with the international prefix, reduce to the same digits whatever punctuation and spacing is
  used, so search and duplicate matching see one number.
\<close>

theorem phone_spellings_agree:
  assumes "filter is_digit_char national = CHR ''0'' # n"
    and "filter is_digit_char with_plus = ''41'' @ n"
    and "filter is_digit_char prefixed = ''0041'' @ n"
    and "n \<noteq> []" and "hd n \<noteq> CHR ''0''"
  shows "normalise_phone (Some national) = ''41'' @ n \<and> normalise_phone (Some with_plus) = ''41'' @ n
    \<and> normalise_phone (Some prefixed) = ''41'' @ n
    \<and> normalise_phone (Some (normalise_phone (Some national))) = ''41'' @ n"
proof -
  have n: "filter is_digit_char n = n" using assms(1) by (rule filter_filter_tl)
  have "is_digit_char (CHR ''4'')" "is_digit_char (CHR ''1'')"
    by (simp_all add: is_digit_char_def ord_char_def)
  with assms n show ?thesis
    by (cases n) (simp_all add: normalise_phone_def Let_def starts_with_def)
qed

theorem phone_spellings_agree_witness:
  "normalise_phone (Some ''079 123 45 67'') = ''41791234567''
    \<and> normalise_phone (Some ''+41 79 123 45 67'') = ''41791234567''
    \<and> normalise_phone (Some ''0041791234567'') = ''41791234567''"
  using phone_spellings_agree [of "''079 123 45 67''" "''791234567''" "''+41 79 123 45 67''" "''0041791234567''"]
  by (simp add: is_digit_char_def ord_char_def)

lemma chassis_rule_iff:
  "require_vin_or_pre_1981_chassis_number vin reg = Inr () \<longleftrightarrow>
     vin = None \<or> vin = Some [] \<or> is_valid_vin vin \<or> (\<exists>d. reg = Some d \<and> d < pre_iso_vin_cutoff)"
  by (auto simp: require_vin_or_pre_1981_chassis_number_def is_chassis_number_def split: option.splits)

end
