(* ===== verification/Master_Data.thy ===== *)
theory Master_Data
  imports Core_Outbox Core_Validators
begin

text \<open>
  The records the trading contexts read from the contexts that own them: the vehicle register
  (\<^verbatim>\<open>app/vehicle/services/vehicle_mdm.py\<close>), the configurations as a host sees them
  (\<^verbatim>\<open>configuration_host.py, host_configuration.py\<close>), customers and their addresses as far as
  Sales and Valuation use them (\<^verbatim>\<open>app/customer/services/customer.py\<close>) and dealerships. It also
  holds the number series all contexts share (row lock, read, increment), with the fact that a
  series never issues a number twice.
\<close>

section \<open>Number series\<close>

text \<open>
  The \<open>*_number_sequence\<close> tables: one counter per key. A first use inserts the row with value 1
  and re-reads it.
\<close>

type_synonym 'k sequences = "('k \<times> nat) list"

definition next_value :: "'k \<Rightarrow> 'k sequences \<Rightarrow> nat" where
  "next_value k seqs = (case map_of seqs k of None \<Rightarrow> 1 | Some v \<Rightarrow> v)"

definition allocate_value :: "'k \<Rightarrow> 'k sequences \<Rightarrow> nat \<times> 'k sequences" where
  "allocate_value k seqs =
     (let seqs' = (if map_of seqs k = None then seqs @ [(k, 1)] else seqs);
          v = next_value k seqs'
      in (v, AList.update k (v + 1) seqs'))"

lemma fst_allocate_value [simp]: "fst (allocate_value k seqs) = next_value k seqs"
  by (simp add: allocate_value_def next_value_def Let_def map_add_def split: option.split)

lemma next_value_allocate:
  "next_value j (snd (allocate_value k seqs)) = (if j = k then next_value k seqs + 1 else next_value j seqs)"
  by (auto simp: allocate_value_def next_value_def Let_def update_conv' map_add_def split: option.split)

text \<open>
  The rows of a table carry numbers of a series: each was issued before the counter's present value,
  and no two rows of one key have the same number.
\<close>

definition series_inv ::
  "string \<Rightarrow> ('r \<Rightarrow> 'k) \<Rightarrow> ('r \<Rightarrow> string) \<Rightarrow> 'k sequences \<Rightarrow> 'r list \<Rightarrow> bool" where
  "series_inv prefix key number seqs rows \<longleftrightarrow>
     (\<forall>r \<in> set rows. \<exists>v < next_value (key r) seqs. number r = prefix @ pad6 v)
     \<and> distinct (map (\<lambda>r. (key r, number r)) rows)"

lemma series_inv_issue:
  assumes inv: "series_inv prefix key number seqs rows"
    and alloc: "allocate_value (key r) seqs = (v, seqs')" and num: "number r = prefix @ pad6 v"
  shows "series_inv prefix key number seqs' (rows @ [r])"
proof -
  have v: "v = next_value (key r) seqs" using alloc fst_allocate_value by (metis fst_conv)
  have nv: "next_value j seqs' = (if j = key r then v + 1 else next_value j seqs)" for j
    using next_value_allocate [of j "key r" seqs] alloc v by simp
  have "(key s, number s) \<noteq> (key r, number r)" if s: "s \<in> set rows" for s
  proof
    assume eq: "(key s, number s) = (key r, number r)"
    obtain w where w: "w < next_value (key s) seqs" "number s = prefix @ pad6 w"
      using inv s by (auto simp: series_inv_def)
    then have "w = v" using eq num by simp
    then show False using w(1) eq v by simp
  qed
  moreover have "\<exists>w < next_value (key s) seqs'. number s = prefix @ pad6 w" if s: "s \<in> set (rows @ [r])" for s
  proof (cases "s \<in> set rows")
    case True
    then obtain w where w: "w < next_value (key s) seqs" "number s = prefix @ pad6 w"
      using inv by (auto simp: series_inv_def)
    then have "w < next_value (key s) seqs'" using nv v by (auto split: if_splits)
    then show ?thesis using w(2) by blast
  next
    case False
    then show ?thesis using s num nv by (intro exI [of _ v]) auto
  qed
  ultimately show ?thesis using inv by (force simp: series_inv_def)
qed

lemma series_inv_map:
  assumes "series_inv prefix key number seqs rows" "map (\<lambda>r. (key r, number r)) rows' = map (\<lambda>r. (key r, number r)) rows"
  shows "series_inv prefix key number seqs rows'"
proof -
  have "(key r, number r) \<in> (\<lambda>r. (key r, number r)) ` set rows" if "r \<in> set rows'" for r
    using that arg_cong [OF assms(2), of set] by auto
  then show ?thesis using assms unfolding series_inv_def by fastforce
qed

section \<open>Rows\<close>

datatype catalogue_match_status = MATCHED | UNVERIFIED

record vehicle_mdm =
  mdm_id :: uuid
  mdm_vin :: string
  vehicle_number :: string
  stammnummer :: "string option"
  type_approval_number :: "string option"
  mdm_first_registration_date :: "date option"
  catalogue_variant_id :: "uuid option"
  catalogue_match_status :: catalogue_match_status
  mdm_created_by :: "uuid option"

datatype configuration_mode = BUILD | RECORD

record configuration_option =
  co_id :: uuid
  co_sequence :: int
  option_code :: "string option"
  co_description :: string
  co_price :: "decimal option"
  is_included :: bool
  co_selected :: bool

record vehicle_configuration =
  cfg_id :: uuid
  cfg_tenant_id :: uuid
  cfg_version :: nat
  cfg_source :: string
  cfg_mode :: configuration_mode
  cfg_catalogue_match_status :: string
  brand_display_name :: "string option"
  model_group_name :: "string option"
  variant_name :: "string option"
  catalogue_variant_label :: "string option"
  cfg_vin :: "string option"
  licence_plate :: "string option"
  cfg_first_registration_date :: "date option"
  mileage_km :: "int option"
  cfg_vehicle_id :: "uuid option"
  cfg_base_price :: "decimal option"
  cfg_base_price_year :: "int option"
  cfg_options :: "configuration_option list"
  cfg_exterior_colour :: "string option"
  exterior_colour_surcharge :: "decimal option"
  interior_colour :: "string option"
  interior_colour_surcharge :: "decimal option"
  wheels :: "string option"
  wheels_surcharge :: "decimal option"
  cfg_spec :: payload

record configuration_price_line =
  pl_kind :: string
  pl_code :: "string option"
  pl_label :: string
  pl_price :: decimal

record host_configuration =
  hc_id :: uuid
  hc_version :: nat
  hc_mode :: configuration_mode
  hc_source :: string
  hc_catalogue_match_status :: string
  hc_label :: string
  hc_brand_display_name :: "string option"
  hc_model_group_name :: "string option"
  hc_variant_name :: "string option"
  hc_vin :: "string option"
  hc_licence_plate :: "string option"
  hc_first_registration_date :: "date option"
  hc_mileage_km :: "int option"
  hc_vehicle_id :: "uuid option"
  hc_base_price :: "decimal option"
  hc_base_price_year :: "int option"
  hc_price_lines :: "configuration_price_line list"
  hc_spec :: payload

text \<open>A row of the catalogue as the joined load \<open>variant -> model group -> brand\<close> returns it.\<close>

record model_variant =
  mv_id :: uuid
  mv_brand_display_name :: string
  mv_model_group_name :: string
  mv_name :: string
  vehicle_kind :: "string option"

datatype customer_lifecycle_status = PROSPECT | ACTIVE | INACTIVE | MERGED | DO_NOT_CONTACT
datatype customer_type = INDIVIDUAL | BUSINESS

record customer =
  cust_id :: uuid
  group_id :: uuid
  customer_number :: string
  customer_type :: customer_type
  company_name :: "string option"
  first_name :: "string option"
  last_name :: "string option"
  cust_lifecycle_status :: customer_lifecycle_status
  duplicate_of_customer_id :: "uuid option"
  cust_language :: string
  credit_block :: bool
  credit_block_reason :: "string option"
  credit_blocked_at :: "datetime option"
  cust_version :: nat
  cust_updated_by :: "uuid option"

datatype consent_scope = MARKETING | INVOICING_SCOPE | SERVICE
datatype consent_source = FORM | COUNTER | WEB | BY_PHONE
datatype phone_type = MOBILE | LANDLINE | WORK_PHONE | FAX
datatype email_type = PERSONAL | WORK_EMAIL | INVOICING_EMAIL
datatype address_type = DOMICILE | BILLING | DELIVERY

text \<open>The columns phones, emails and addresses share (\<open>ContactChannelMixin\<close> and the row's keys).\<close>

record contact_channel =
  ch_id :: uuid
  ch_group_id :: uuid
  ch_customer_id :: uuid
  ch_label :: "string option"
  is_primary :: bool
  ch_valid_from :: datetime
  ch_valid_to :: "datetime option"
  do_not_use :: bool
  do_not_use_reason :: "string option"
  consent_granted :: bool
  ch_consent_scope :: "consent_scope option"
  ch_consent_source :: "consent_source option"
  consent_timestamp :: "datetime option"
  ch_created_at :: datetime
  ch_created_by :: "uuid option"
  ch_updated_by :: "uuid option"

record customer_phone = contact_channel +
  phone_type :: phone_type
  phone_e164 :: string
  phone_normalised :: string

record customer_email = contact_channel +
  email_type :: email_type
  email_address :: string

record customer_address = contact_channel +
  address_type :: address_type
  address_street :: string
  address_line2 :: "string option"
  address_house_number :: string
  address_postal_code :: string
  address_locality :: string
  address_canton :: "string option"
  address_country :: string

record customer_external_id =
  ext_id :: uuid
  ext_customer_id :: uuid
  system_name :: string
  external_id :: string

record customer_tag =
  tag_customer_id :: uuid
  tag :: string

datatype vehicle_party_role = OWNER | KEEPER | DRIVER

record vehicle_label =
  vl_vin :: string
  vl_vehicle_number :: string
  vl_make :: "string option"
  vl_model :: "string option"
  vl_model_year :: "int option"
  vl_trim :: "string option"

text \<open>
  \<open>vp_label\<close> holds the six \<open>vehicle_*\<close> columns: \<open>None\<close> on a row no label was written to yet.
\<close>

record vehicle_party =
  vp_id :: uuid
  vp_vehicle_id :: uuid
  vp_customer_id :: uuid
  vp_role :: vehicle_party_role
  effective_from :: datetime
  effective_to :: "datetime option"
  merged_into_customer_id :: "uuid option"
  vp_label :: "vehicle_label option"
  vehicle_label_refreshed_at :: "datetime option"

record vehicle_plate =
  plate_id :: uuid
  plate_vehicle_id :: uuid
  plate_text :: string
  plate_canton :: string
  plate_valid_from :: date
  plate_valid_to :: "date option"
  is_interchangeable :: bool
  plate_group_id :: "uuid option"
  recording_tenant_id :: uuid

record vehicle_plate_conflict =
  vpc_plate :: string
  vpc_canton :: string
  first_plate_id :: uuid
  second_plate_id :: uuid
  detected_at :: datetime
  vpc_resolved :: bool

record dealer_plate =
  dp_id :: uuid
  dp_tenant_id :: uuid
  dp_plate :: string
  dp_canton :: string
  dp_active :: bool

record dealer_plate_assignment =
  dpa_id :: uuid
  dpa_dealer_plate_id :: uuid
  dpa_vehicle_id :: uuid
  dpa_tenant_id :: uuid
  dpa_valid_from :: datetime
  dpa_valid_to :: "datetime option"

record dealership =
  dealer_id :: uuid
  dealer_group_id :: uuid
  dealer_legal_name :: string
  dealer_trade_name :: "string option"
  vat_rate :: "decimal option"

datatype user_status = INVITED | ACTIVE_USER | SUSPENDED | DEACTIVATED

datatype employment_status = EMPLOYED | ON_LEAVE | TERMINATED

text \<open>The role set is a list of role texts, stored sorted.\<close>

record user =
  user_id :: uuid
  user_tenant_id :: uuid
  user_first_name :: string
  user_last_name :: string
  user_email :: string
  user_phone :: "string option"
  user_role :: string
  user_access_roles :: "string list"
  user_is_dealer_manager :: bool
  user_employment_status :: employment_status
  user_auth_identity_id :: string
  user_status :: user_status
  user_direct_dial :: "string option"
  user_employee_number :: "string option"
  user_department :: "string option"
  user_line_manager_user_id :: "uuid option"
  user_sales_advisor_code :: "string option"
  user_commission_relevant :: bool
  user_valid_from :: "date option"
  user_valid_to :: "date option"
  user_invited_at :: "datetime option"
  user_last_login_at :: "datetime option"
  user_deactivated_at :: "datetime option"
  user_deactivation_reason :: "string option"
  user_created_at :: datetime
  user_created_by :: "uuid option"
  user_updated_by :: "uuid option"
  user_version :: nat

record dealership_membership =
  mem_user_id :: uuid
  mem_dealership_id :: uuid
  mem_granted_at :: datetime
  mem_granted_by :: "uuid option"
  mem_is_dealer_manager :: bool
  mem_valid_to :: "datetime option"

record transaction =
  txn_id :: uuid
  txn_customer_id :: uuid

record master_db = core_db +
  vehicle_mdms :: "vehicle_mdm list"
  vehicle_number_sequence :: "unit sequences"
  model_variants :: "model_variant list"
  vehicle_configurations :: "vehicle_configuration list"
  vehicle_plates :: "vehicle_plate list"
  vehicle_plate_conflicts :: "vehicle_plate_conflict list"
  dealer_plate_assignments :: "dealer_plate_assignment list"
  customers :: "customer list"
  customer_phones :: "customer_phone list"
  customer_emails :: "customer_email list"
  customer_addresses :: "customer_address list"
  customer_external_ids :: "customer_external_id list"
  customer_tags :: "customer_tag list"
  vehicle_parties :: "vehicle_party list"
  dealerships :: "dealership list"
  users :: "user list"
  dealership_memberships :: "dealership_membership list"
  transactions :: "transaction list"

section \<open>Vehicle register\<close>

definition allocate_vehicle_number :: "'a master_db_scheme \<Rightarrow> string \<times> 'a master_db_scheme" where
  "allocate_vehicle_number db =
     (let (v, seqs) = allocate_value () (vehicle_number_sequence db)
      in (''F-'' @ pad6 v, db\<lparr>vehicle_number_sequence := seqs\<rparr>))"

definition get_vehicle_mdm_by_vin :: "string \<Rightarrow> 'a master_db_scheme \<Rightarrow> vehicle_mdm option" where
  "get_vehicle_mdm_by_vin vin db = select_one (\<lambda>v. mdm_vin v = vin) (vehicle_mdms db)"

text \<open>The flush meets the unique constraint on the VIN: 409 naming it.\<close>

definition create_vehicle_mdm ::
  "string \<Rightarrow> uuid option \<Rightarrow> string option \<Rightarrow> string option \<Rightarrow> date option \<Rightarrow> uuid option
     \<Rightarrow> 'a master_db_scheme \<Rightarrow> ('a master_db_scheme \<times> vehicle_mdm) result" where
  "create_vehicle_mdm vin variant stamm type_approval first_reg actor_id db =
     (let (number, db1) = allocate_vehicle_number db;
          (vid, db2) = draw_uuid db1;
          vehicle = \<lparr>mdm_id = vid, mdm_vin = vin, vehicle_number = number, stammnummer = stamm,
            type_approval_number = type_approval, mdm_first_registration_date = first_reg,
            catalogue_variant_id = variant,
            catalogue_match_status = (if variant \<noteq> None then MATCHED else UNVERIFIED),
            mdm_created_by = actor_id\<rparr>
      in if get_vehicle_mdm_by_vin vin db2 \<noteq> None
            \<or> (stamm \<noteq> None \<and> select_one (\<lambda>v. stammnummer v = stamm) (vehicle_mdms db2) \<noteq> None)
         then Inl (ConflictError [(''vin'', JStr vin)])
         else Inr (db2\<lparr>vehicle_mdms := vehicle_mdms db2 @ [vehicle]\<rparr>, vehicle))"

definition create_or_get_vehicle_mdm ::
  "string \<Rightarrow> uuid option \<Rightarrow> string option \<Rightarrow> string option \<Rightarrow> date option \<Rightarrow> uuid option
     \<Rightarrow> 'a master_db_scheme \<Rightarrow> ('a master_db_scheme \<times> vehicle_mdm \<times> bool) result" where
  "create_or_get_vehicle_mdm vin variant stamm type_approval first_reg actor_id db =
     (case get_vehicle_mdm_by_vin vin db of
        Some existing \<Rightarrow> Inr (db, existing, False)
      | None \<Rightarrow> bindR (create_vehicle_mdm vin variant stamm type_approval first_reg actor_id db)
          (\<lambda>(db', vehicle). Inr (db', vehicle, True)))"

text \<open>
  \<open>_lost_the_insert_race\<close> and the second look: Stock's \<open>resolve_vehicle_mdm_by_vin\<close> and
  Valuation's \<open>_resolve_vehicle_id\<close> are the same code. It commits its own session. \<open>env\<close> is what
  other sessions commit between the two looks.
\<close>

definition lost_the_insert_race :: "exn \<Rightarrow> string \<Rightarrow> bool" where
  "lost_the_insert_race exc vin \<longleftrightarrow>
     (case exc of ConflictError details \<Rightarrow>
        map_of details ''reason'' = None \<and> map_of details ''vin'' = Some (JStr vin) | _ \<Rightarrow> False)"

definition resolve_vehicle_mdm_by_vin ::
  "('a master_db_scheme \<Rightarrow> 'a master_db_scheme) \<Rightarrow> string \<Rightarrow> uuid option \<Rightarrow> uuid option
     \<Rightarrow> 'a master_db_scheme \<Rightarrow> ('a master_db_scheme \<times> vehicle_mdm) result" where
  "resolve_vehicle_mdm_by_vin env vin variant actor_id db =
     (case create_or_get_vehicle_mdm vin variant None None None actor_id db of
        Inr (db', vehicle, created) \<Rightarrow> Inr (db', vehicle)
      | Inl exc \<Rightarrow>
          if \<not> lost_the_insert_race exc vin then Inl exc
          else bindR (create_or_get_vehicle_mdm vin variant None None None actor_id (env db))
            (\<lambda>(db', vehicle, created). Inr (db', vehicle)))"

section \<open>Configurations as a host reads them\<close>

definition em_dash :: string where
  "em_dash = [chr_nat 0x97]"  \<comment> \<open>the one character beyond Latin-1 the model needs, by its Windows-1252 code\<close>

text \<open>\<open>" ".join(p for p in parts if p)\<close>.\<close>

definition join_parts :: "string option list \<Rightarrow> string" where
  "join_parts parts = join_space (filter (\<lambda>p. p \<noteq> []) (List.map_filter id parts))"

definition configuration_label :: "vehicle_configuration \<Rightarrow> string" where
  "configuration_label config =
     (let label = join_parts [brand_display_name config, model_group_name config, variant_name config]
      in take 200 (if label \<noteq> [] then label
         else case catalogue_variant_label config of
                Some l \<Rightarrow> if l \<noteq> [] then l else em_dash
              | None \<Rightarrow> em_dash))"

definition option_line :: "configuration_option \<Rightarrow> configuration_price_line option" where
  "option_line o1 = (case co_price o1 of
     Some p \<Rightarrow> if co_selected o1 \<and> \<not> is_included o1
       then Some \<lparr>pl_kind = ''option'', pl_code = option_code o1, pl_label = co_description o1, pl_price = p\<rparr>
       else None
   | None \<Rightarrow> None)"

definition surcharge_line :: "string \<Rightarrow> string option \<Rightarrow> decimal option \<Rightarrow> configuration_price_line option" where
  "surcharge_line kind label price = (case (label, price) of
     (Some l, Some p) \<Rightarrow> if p \<noteq> 0 \<and> l \<noteq> []
       then Some \<lparr>pl_kind = kind, pl_code = None, pl_label = l, pl_price = p\<rparr> else None
   | _ \<Rightarrow> None)"

definition price_lines :: "vehicle_configuration \<Rightarrow> configuration_price_line list" where
  "price_lines config =
     (if cfg_mode config \<noteq> BUILD then []
      else List.map_filter option_line (sort_key (\<lambda>o1. co_sequence o1) (sort_key co_id (cfg_options config)))
        @ List.map_filter id
           [surcharge_line ''exterior_colour'' (cfg_exterior_colour config) (exterior_colour_surcharge config),
            surcharge_line ''interior_colour'' (interior_colour config) (interior_colour_surcharge config),
            surcharge_line ''wheels'' (wheels config) (wheels_surcharge config)])"

definition get_configuration_for_host ::
  "uuid \<Rightarrow> uuid \<Rightarrow> 'a master_db_scheme \<Rightarrow> host_configuration result" where
  "get_configuration_for_host tenant_id configuration_id db =
     (case select_one (\<lambda>c. cfg_id c = configuration_id \<and> cfg_tenant_id c = tenant_id) (vehicle_configurations db) of
        None \<Rightarrow> Inl (NotFoundError [])
      | Some c \<Rightarrow> Inr \<lparr>hc_id = cfg_id c, hc_version = cfg_version c, hc_mode = cfg_mode c,
          hc_source = cfg_source c, hc_catalogue_match_status = cfg_catalogue_match_status c, hc_label = configuration_label c, hc_brand_display_name = brand_display_name c,
          hc_model_group_name = model_group_name c, hc_variant_name = variant_name c, hc_vin = cfg_vin c,
          hc_licence_plate = licence_plate c, hc_first_registration_date = cfg_first_registration_date c,
          hc_mileage_km = mileage_km c, hc_vehicle_id = cfg_vehicle_id c, hc_base_price = cfg_base_price c,
          hc_base_price_year = cfg_base_price_year c,
          hc_price_lines = price_lines c, hc_spec = cfg_spec c\<rparr>)"

definition mode_text :: "configuration_mode \<Rightarrow> string" where
  "mode_text m = (case m of BUILD \<Rightarrow> ''build'' | RECORD \<Rightarrow> ''record'')"

definition require_mode :: "host_configuration \<Rightarrow> string \<Rightarrow> configuration_mode list \<Rightarrow> unit result" where
  "require_mode hc host allowed =
     (if \<not> List.member allowed (hc_mode hc)
      then Inl (UnprocessableEntityError [(''reason'', JStr ''configuration_mode_not_allowed''),
        (''host'', JStr host), (''mode'', JStr (mode_text (hc_mode hc))),
        (''allowed'', JList (map (JStr \<circ> mode_text) allowed))])
      else Inr ())"

section \<open>Customers and dealerships\<close>

definition get_customer_or_404 :: "uuid \<Rightarrow> uuid \<Rightarrow> 'a master_db_scheme \<Rightarrow> customer result" where
  "get_customer_or_404 gid customer_id db =
     (case select_one (\<lambda>c. cust_id c = customer_id \<and> group_id c = gid) (customers db) of
        None \<Rightarrow> Inl (NotFoundError []) | Some c \<Rightarrow> Inr c)"

definition is_usable_row :: "'a contact_channel_scheme \<Rightarrow> bool" where
  "is_usable_row row \<longleftrightarrow> ch_valid_to row = None \<and> \<not> do_not_use row"

definition has_usable_domicile_address :: "uuid \<Rightarrow> 'a master_db_scheme \<Rightarrow> bool" where
  "has_usable_domicile_address customer_id db =
     list_ex is_usable_row (select_all (\<lambda>a. ch_customer_id a = customer_id \<and> address_type a = DOMICILE)
       (customer_addresses db))"

text \<open>Sales' \<open>resolve_customer_label\<close> and Valuation's private copy of it.\<close>

definition resolve_customer_label :: "customer \<Rightarrow> string" where
  "resolve_customer_label c = (case company_name c of
     Some n \<Rightarrow> if n \<noteq> [] then n
       else let l = join_parts [first_name c, last_name c] in if l \<noteq> [] then l else customer_number c
   | None \<Rightarrow> let l = join_parts [first_name c, last_name c] in if l \<noteq> [] then l else customer_number c)"

definition get_dealership_or_404 :: "uuid \<Rightarrow> 'a master_db_scheme \<Rightarrow> dealership result" where
  "get_dealership_or_404 dealership_id db =
     (case select_one (\<lambda>d. dealer_id d = dealership_id) (dealerships db) of
        None \<Rightarrow> Inl (NotFoundError []) | Some d \<Rightarrow> Inr d)"

section \<open>One VIN, one vehicle\<close>

definition register_inv :: "'a master_db_scheme \<Rightarrow> bool" where
  "register_inv db \<longleftrightarrow> distinct (map mdm_vin (vehicle_mdms db))
     \<and> series_inv ''F-'' (\<lambda>_. ()) vehicle_number (vehicle_number_sequence db) (vehicle_mdms db)"

lemma get_vehicle_mdm_by_vin_SomeD:
  assumes "get_vehicle_mdm_by_vin vin db = Some v"
  shows "mdm_vin v = vin" "v \<in> set (vehicle_mdms db)"
  using assms by (auto simp: get_vehicle_mdm_by_vin_def dest: select_one_SomeD)

lemma get_vehicle_mdm_by_vin_cong:
  "vehicle_mdms db' = vehicle_mdms db \<Longrightarrow> get_vehicle_mdm_by_vin vin db' = get_vehicle_mdm_by_vin vin db"
  by (simp add: get_vehicle_mdm_by_vin_def)

lemma create_vehicle_mdm_new:
  assumes none: "get_vehicle_mdm_by_vin vin db = None" and inv: "register_inv db"
  obtains db' v where "create_vehicle_mdm vin variant None ta fr actor db = Inr (db', v)"
    "mdm_vin v = vin" "vehicle_mdms db' = vehicle_mdms db @ [v]" "register_inv db'"
    "outbox_grows db db'" "catalogue_variant_id v = variant"
proof -
  obtain v seqs where al: "allocate_value () (vehicle_number_sequence db) = (v, seqs)" by (cases "allocate_value () (vehicle_number_sequence db)")
  let ?v = "\<lparr>mdm_id = uuid_supply db, mdm_vin = vin, vehicle_number = ''F-'' @ pad6 v, stammnummer = None,
            type_approval_number = ta, mdm_first_registration_date = fr, catalogue_variant_id = variant,
            catalogue_match_status = (if variant \<noteq> None then MATCHED else UNVERIFIED), mdm_created_by = actor\<rparr>"
  let ?db = "db\<lparr>vehicle_number_sequence := seqs, uuid_supply := uuid_supply db + 1, vehicle_mdms := vehicle_mdms db @ [?v]\<rparr>"
  have "vin \<notin> set (map mdm_vin (vehicle_mdms db))"
    using none by (auto simp: get_vehicle_mdm_by_vin_def select_one_None_iff)
  then have reg: "register_inv ?db"
    using inv series_inv_issue [of "''F-''" "\<lambda>_. ()" vehicle_number "vehicle_number_sequence db" "vehicle_mdms db" ?v v seqs] al
    by (simp add: register_inv_def)
  have cr: "create_vehicle_mdm vin variant None ta fr actor db = Inr (?db, ?v)"
    using al none by (simp add: create_vehicle_mdm_def allocate_vehicle_number_def draw_uuid_def get_vehicle_mdm_by_vin_def Let_def)
  have grow: "outbox_grows db ?db" by (rule outbox_grows_sameI) simp_all
  show thesis
    by (rule that [OF cr _ _ reg grow]) simp_all
qed

lemma resolve_vehicle_known:
  "get_vehicle_mdm_by_vin vin db = Some v \<Longrightarrow> resolve_vehicle_mdm_by_vin env vin variant actor db = Inr (db, v)"
  by (simp add: resolve_vehicle_mdm_by_vin_def create_or_get_vehicle_mdm_def)

lemma resolve_vehicle_cases:
  assumes inv: "register_inv db"
  obtains db' v where "resolve_vehicle_mdm_by_vin env vin variant actor db = Inr (db', v)" "mdm_vin v = vin"
    "get_vehicle_mdm_by_vin vin db' = Some v" "register_inv db'" "outbox_grows db db'"
    "\<exists>new. vehicle_mdms db' = vehicle_mdms db @ new \<and> length new \<le> 1"
proof (cases "get_vehicle_mdm_by_vin vin db")
  case None
  obtain db' v where c: "create_vehicle_mdm vin variant None None None actor db = Inr (db', v)"
    "mdm_vin v = vin" "vehicle_mdms db' = vehicle_mdms db @ [v]" "register_inv db'" "outbox_grows db db'"
    by (rule create_vehicle_mdm_new [OF None inv])
  have "get_vehicle_mdm_by_vin vin db' = Some v"
    using None c(2,3) by (simp add: get_vehicle_mdm_by_vin_def select_one_append)
  moreover have "resolve_vehicle_mdm_by_vin env vin variant actor db = Inr (db', v)"
    using None c(1) by (simp add: resolve_vehicle_mdm_by_vin_def create_or_get_vehicle_mdm_def)
  ultimately show thesis using that c by simp
next
  case (Some v)
  then show thesis using that [of db v] inv by (simp add: resolve_vehicle_known get_vehicle_mdm_by_vin_SomeD)
qed


lemma pad6_one: "pad6 (Suc 0) = ''000001''"
  by code_simp

definition empty_master_db :: master_db where
  "empty_master_db = \<lparr>uuid_supply = 1, outbox_messages = [], processed_events = [], idempotency_records = [],
     audit_events = [], vehicle_mdms = [], vehicle_number_sequence = [], model_variants = [], vehicle_configurations = [], vehicle_plates = [], vehicle_plate_conflicts = [],
     dealer_plate_assignments = [], customers = [], customer_phones = [], customer_emails = [],
     customer_addresses = [], customer_external_ids = [], customer_tags = [], vehicle_parties = [],
     dealerships = [], users = [], dealership_memberships = [], transactions = []\<rparr>"


end
