(* ===== verification/Valuation.thy ===== *)
theory Valuation
  imports Master_Data
begin

text \<open>
  The valuation context (\<^verbatim>\<open>app/valuation\<close>): a dated trade-in opinion, private to the dealership.
  Its status is derived on read from the draft flag, the validity and the use stamp; only a signed
  deal stamps it, and only the compensation of a failed confirmation clears the stamp. The two
  operations other contexts call, \<open>consume_for_contract\<close> and \<open>revert_use\<close>, commit on their own.
\<close>

section \<open>Rows\<close>

datatype valuation_source = AUTO_I_DAT | MANUAL

record valuation =
  val_id :: uuid
  val_tenant_id :: uuid
  valuation_number :: string
  val_vehicle_id :: "uuid option"
  val_vehicle_make :: "string option"
  val_vehicle_model :: "string option"
  val_vehicle_trim :: "string option"
  val_vehicle_plate :: "string option"
  val_vehicle_vin :: "string option"
  val_vehicle_first_registration :: "date option"
  val_mileage :: "int option"
  val_configuration_id :: "uuid option"
  val_configuration_label :: "string option"
  val_configuration_label_refreshed_at :: "datetime option"
  val_customer_id :: "uuid option"
  val_customer_label :: "string option"
  val_source :: valuation_source
  provider_value :: "decimal option"
  final_offer :: decimal
  val_note :: "string option"
  valid_from :: date
  valid_until :: datetime
  is_draft :: bool
  used_at :: "datetime option"
  supersedes_valuation_id :: "uuid option"
  val_version :: nat
  val_created_at :: datetime
  val_updated_at :: datetime
  val_created_by :: "uuid option"
  val_updated_by :: "uuid option"

record valuation_deduction =
  ded_tenant_id :: uuid
  ded_valuation_id :: uuid
  ded_label :: string
  ded_amount :: decimal
  ded_position :: nat

record valuation_db = master_db +
  valuations :: "valuation list"
  valuation_deductions :: "valuation_deduction list"
  valuation_number_sequence :: "uuid sequences"

record valuation_create =
  vc_vin :: "string option"
  vc_vehicle_make :: "string option"
  vc_vehicle_model :: "string option"
  vc_vehicle_trim :: "string option"
  vc_vehicle_plate :: "string option"
  vc_vehicle_first_registration :: "date option"
  vc_mileage :: "int option"
  vc_configuration_id :: "uuid option"
  vc_customer_id :: "uuid option"
  vc_source :: valuation_source
  vc_provider_value :: "decimal option"
  vc_final_offer :: decimal
  vc_deductions :: "(string \<times> decimal) list"
  vc_note :: "string option"
  vc_valid_for_days :: int
  vc_is_draft :: bool
  vc_supersedes_valuation_id :: "uuid option"

section \<open>Reads\<close>

definition allocate_valuation_number :: "uuid \<Rightarrow> 'a valuation_db_scheme \<Rightarrow> string \<times> 'a valuation_db_scheme" where
  "allocate_valuation_number tenant_id db =
     (let (v, seqs) = allocate_value tenant_id (valuation_number_sequence db)
      in (''B-'' @ pad6 v, db\<lparr>valuation_number_sequence := seqs\<rparr>))"

datatype valuation_status = USED | DRAFT | EXPIRED | VALID

definition derive_status :: "datetime \<Rightarrow> valuation \<Rightarrow> valuation_status" where
  "derive_status now v =
     (if used_at v \<noteq> None then USED
      else if is_draft v then DRAFT
      else if valid_until v < now then EXPIRED
      else VALID)"

definition get_valuation_or_404 :: "uuid \<Rightarrow> uuid \<Rightarrow> 'a valuation_db_scheme \<Rightarrow> valuation result" where
  "get_valuation_or_404 tenant_id valuation_id db =
     (case select_one (\<lambda>v. val_id v = valuation_id \<and> val_tenant_id v = tenant_id) (valuations db) of
        None \<Rightarrow> Inl (NotFoundError []) | Some v \<Rightarrow> Inr v)"

definition get_deductions :: "uuid \<Rightarrow> 'a valuation_db_scheme \<Rightarrow> valuation_deduction list" where
  "get_deductions valuation_id db =
     sort_key ded_position (select_all (\<lambda>d. ded_valuation_id d = valuation_id) (valuation_deductions db))"

definition list_valid_valuations_for_vehicle ::
  "datetime \<Rightarrow> uuid \<Rightarrow> uuid \<Rightarrow> 'a valuation_db_scheme \<Rightarrow> valuation list" where
  "list_valid_valuations_for_vehicle now tenant_id vehicle_id db =
     filter (\<lambda>v. derive_status now v = VALID)
       (rev (sort_key val_created_at
         (select_all (\<lambda>v. val_tenant_id v = tenant_id \<and> val_vehicle_id v = Some vehicle_id) (valuations db))))"

definition expiring_soon_window_days :: int where
  "expiring_soon_window_days = 14"

datatype chip = ChipValid | ChipExpiringSoon | ChipExpired | ChipUnattached | ChipMine

text \<open>The chip's predicate of \<open>list_valuations\<close>; search text and paging are applied to its result.\<close>

definition chip_predicate :: "datetime \<Rightarrow> uuid option \<Rightarrow> chip option \<Rightarrow> valuation \<Rightarrow> bool" where
  "chip_predicate now created_by chip v =
     (case chip of
        None \<Rightarrow> True
      | Some ChipValid \<Rightarrow> used_at v = None \<and> \<not> is_draft v \<and> valid_until v \<ge> now
      | Some ChipExpiringSoon \<Rightarrow> used_at v = None \<and> \<not> is_draft v \<and> valid_until v \<ge> now
          \<and> valid_until v \<le> now + expiring_soon_window_days * day_us
      | Some ChipExpired \<Rightarrow> used_at v = None \<and> valid_until v < now
      | Some ChipUnattached \<Rightarrow> val_customer_id v = None
      | Some ChipMine \<Rightarrow> val_created_by v = created_by)"

section \<open>Creation\<close>

text \<open>\<open>_from_configuration\<close>: the value sent, else the configuration's.\<close>

definition from_configuration :: "host_configuration option \<Rightarrow> 'v option \<Rightarrow> (host_configuration \<Rightarrow> 'v option) \<Rightarrow> 'v option" where
  "from_configuration configuration value attribute =
     (if value \<noteq> None then value
      else case configuration of None \<Rightarrow> None | Some c \<Rightarrow> attribute c)"

definition configuration_of_create ::
  "uuid \<Rightarrow> valuation_create \<Rightarrow> 'a valuation_db_scheme \<Rightarrow> host_configuration option result" where
  "configuration_of_create tenant_id data db =
     (case vc_configuration_id data of
        None \<Rightarrow> Inr None
      | Some cid \<Rightarrow> bindR (get_configuration_for_host tenant_id cid db) (\<lambda>c.
          bindR (require_mode c ''valuation'' [RECORD]) (\<lambda>_. Inr (Some c))))"

text \<open>
  The vehicle of a new valuation: none for a chassis number, the configuration's when captured in
  the configurator, else the register's record of the VIN, found or created in its own committed
  session.
\<close>

definition vehicle_of_create ::
  "uuid option \<Rightarrow> valuation_create \<Rightarrow> host_configuration option \<Rightarrow> 'a valuation_db_scheme
     \<Rightarrow> ('a valuation_db_scheme \<times> uuid option) result" where
  "vehicle_of_create actor_id data configuration db =
     (let stored_vin = from_configuration configuration (vc_vin data) hc_vin
      in if is_chassis_number stored_vin then Inr (db, None)
         else case configuration of
             Some c \<Rightarrow> Inr (db, hc_vehicle_id c)
           | None \<Rightarrow> (case vc_vin data of
                 None \<Rightarrow> Inr (db, None)
               | Some vin \<Rightarrow> if vin = [] then Inr (db, None)
                   else bindR (resolve_vehicle_mdm_by_vin id vin None actor_id db) (\<lambda>(db', v). Inr (db', Some (mdm_id v)))))"

definition new_deductions :: "uuid \<Rightarrow> uuid \<Rightarrow> (string \<times> decimal) list \<Rightarrow> valuation_deduction list" where
  "new_deductions tenant_id vid ds =
     map (\<lambda>(p, label, amount). \<lparr>ded_tenant_id = tenant_id, ded_valuation_id = vid, ded_label = label,
       ded_amount = amount, ded_position = p\<rparr>) (zip [0..<length ds] ds)"

definition valuation_event :: "string \<Rightarrow> valuation \<Rightarrow> outbox_event" where
  "valuation_event etype v = plain_event etype (Some (val_tenant_id v)) ''valuation'' ''valuation'' (val_id v)
     [(''valuationNumber'', JStr (valuation_number v))]"

text \<open>
  The result comes with the committed database: the register's record of the VIN is committed by its
  own session and stays when the rest of the request fails.
\<close>

definition build_valuation ::
  "datetime \<Rightarrow> uuid \<Rightarrow> valuation_create \<Rightarrow> uuid option \<Rightarrow> host_configuration option \<Rightarrow> uuid option \<Rightarrow> string option
     \<Rightarrow> uuid \<Rightarrow> string \<Rightarrow> valuation" where
  "build_valuation now tenant_id data actor_id configuration vehicle_id customer_label vid number =
     \<lparr>val_id = vid, val_tenant_id = tenant_id, valuation_number = number,
      val_vehicle_id = vehicle_id,
      val_vehicle_make = from_configuration configuration (vc_vehicle_make data) hc_brand_display_name,
      val_vehicle_model = from_configuration configuration (vc_vehicle_model data) hc_model_group_name,
      val_vehicle_trim = from_configuration configuration (vc_vehicle_trim data) hc_variant_name,
      val_vehicle_plate = from_configuration configuration (vc_vehicle_plate data) hc_licence_plate,
      val_vehicle_vin = from_configuration configuration (vc_vin data) hc_vin,
      val_vehicle_first_registration =
        from_configuration configuration (vc_vehicle_first_registration data) hc_first_registration_date,
      val_mileage = from_configuration configuration (vc_mileage data) hc_mileage_km,
      val_configuration_id = map_option hc_id configuration,
      val_configuration_label = map_option hc_label configuration,
      val_configuration_label_refreshed_at = map_option (\<lambda>_. now) configuration,
      val_customer_id = vc_customer_id data, val_customer_label = customer_label,
      val_source = vc_source data, provider_value = vc_provider_value data,
      final_offer = vc_final_offer data, val_note = vc_note data, valid_from = date_of now,
      valid_until = now + vc_valid_for_days data * day_us, is_draft = vc_is_draft data,
      used_at = None, supersedes_valuation_id = vc_supersedes_valuation_id data, val_version = 1,
      val_created_at = now, val_updated_at = now, val_created_by = actor_id, val_updated_by = actor_id\<rparr>"

definition create_valuation ::
  "datetime \<Rightarrow> uuid \<Rightarrow> uuid \<Rightarrow> valuation_create \<Rightarrow> uuid option \<Rightarrow> 'a valuation_db_scheme
     \<Rightarrow> 'a valuation_db_scheme \<times> valuation result" where
  "create_valuation now tenant_id gid data actor_id db =
     (case bindR (configuration_of_create tenant_id data db) (\<lambda>configuration.
           bindR (require_vin_or_pre_1981_chassis_number
              (from_configuration configuration (vc_vin data) hc_vin)
              (from_configuration configuration (vc_vehicle_first_registration data) hc_first_registration_date)) (\<lambda>_.
           bindR (vehicle_of_create actor_id data configuration db) (\<lambda>(db1, vehicle_id).
           Inr (configuration, db1, vehicle_id)))) of
        Inl e \<Rightarrow> (db, Inl e)
      | Inr (configuration, db1, vehicle_id) \<Rightarrow>
          (case (case vc_customer_id data of None \<Rightarrow> Inr None
                 | Some cid \<Rightarrow> bindR (get_customer_or_404 gid cid db1) (\<lambda>c. Inr (Some (resolve_customer_label c)))) of
             Inl e \<Rightarrow> (db1, Inl e)
           | Inr customer_label \<Rightarrow>
               let (number, db2) = allocate_valuation_number tenant_id db1;
                   (vid, db3) = draw_uuid db2;
                   v = build_valuation now tenant_id data actor_id configuration vehicle_id customer_label vid number;
                   db4 = db3\<lparr>valuations := valuations db3 @ [v],
                     valuation_deductions := valuation_deductions db3 @ new_deductions tenant_id vid (vc_deductions data)\<rparr>
               in (publish now (valuation_event ''valuation.created'' v) db4, Inr v)))"

section \<open>Use\<close>

text \<open>Saving a changed row: every update also moves \<open>updated_at\<close>.\<close>

definition save_valuation :: "datetime \<Rightarrow> valuation \<Rightarrow> 'a valuation_db_scheme \<Rightarrow> 'a valuation_db_scheme" where
  "save_valuation now v db = db\<lparr>valuations := update_where (\<lambda>r. val_id r = val_id v) (\<lambda>_. v\<lparr>val_updated_at := now\<rparr>) (valuations db)\<rparr>"

definition mark_used :: "datetime \<Rightarrow> valuation \<Rightarrow> uuid option \<Rightarrow> 'a valuation_db_scheme \<Rightarrow> 'a valuation_db_scheme" where
  "mark_used now v actor_id db =
     (if used_at v \<noteq> None then db
      else publish now (valuation_event ''valuation.used'' v)
        (save_valuation now (v\<lparr>used_at := Some now, val_updated_by := actor_id, val_version := val_version v + 1\<rparr>) db))"

definition consume_for_contract ::
  "datetime \<Rightarrow> valuation \<Rightarrow> uuid option \<Rightarrow> 'a valuation_db_scheme \<Rightarrow> ('a valuation_db_scheme \<times> bool) result" where
  "consume_for_contract now v actor_id db =
     (if \<not> is_draft v \<and> valid_until v < now
      then Inl (ConflictError [(''reason'', JStr ''valuation_expired''), (''valuationId'', JUuid (val_id v))])
      else if used_at v \<noteq> None then Inr (db, False)
      else Inr (mark_used now v actor_id db, True))"

definition consume_valuation_for_contract ::
  "datetime \<Rightarrow> uuid \<Rightarrow> uuid \<Rightarrow> uuid option \<Rightarrow> 'a valuation_db_scheme \<Rightarrow> ('a valuation_db_scheme \<times> bool) result" where
  "consume_valuation_for_contract now tenant_id valuation_id actor_id db =
     bindR (get_valuation_or_404 tenant_id valuation_id db) (\<lambda>v. consume_for_contract now v actor_id db)"

text \<open>\<open>carried\<close> is Sales' answer: the valuations of this tenant that signed contracts carry.\<close>

definition mark_used_by_hand ::
  "datetime \<Rightarrow> uuid list \<Rightarrow> valuation \<Rightarrow> uuid option \<Rightarrow> 'a valuation_db_scheme \<Rightarrow> 'a valuation_db_scheme result" where
  "mark_used_by_hand now carried v actor_id db =
     (if used_at v \<noteq> None then Inr db
      else if \<not> List.member carried (val_id v)
      then Inl (ConflictError [(''reason'', JStr ''no_signed_contract''), (''valuationId'', JUuid (val_id v))])
      else Inr (mark_used now v actor_id db))"

definition revert_use :: "datetime \<Rightarrow> valuation \<Rightarrow> uuid option \<Rightarrow> 'a valuation_db_scheme \<Rightarrow> 'a valuation_db_scheme" where
  "revert_use now v actor_id db =
     (if used_at v = None then db
      else publish now (valuation_event ''valuation.valuation.use_reverted'' v)
        (save_valuation now (v\<lparr>used_at := None, val_updated_by := actor_id, val_version := val_version v + 1\<rparr>) db))"

definition revert_valuation_use ::
  "datetime \<Rightarrow> uuid \<Rightarrow> uuid \<Rightarrow> uuid option \<Rightarrow> 'a valuation_db_scheme \<Rightarrow> 'a valuation_db_scheme result" where
  "revert_valuation_use now tenant_id valuation_id actor_id db =
     bindR (get_valuation_or_404 tenant_id valuation_id db) (\<lambda>v. Inr (revert_use now v actor_id db))"

section \<open>Status and chips\<close>


section \<open>Consumption\<close>

definition valuation_keys_distinct :: "'a valuation_db_scheme \<Rightarrow> bool" where
  "valuation_keys_distinct db \<longleftrightarrow> distinct (map val_id (valuations db))"

lemma save_valuation_simps [simp]:
  "outbox_messages (save_valuation now v db) = outbox_messages db"
  "processed_events (save_valuation now v db) = processed_events db"
  "idempotency_records (save_valuation now v db) = idempotency_records db"
  "uuid_supply (save_valuation now v db) = uuid_supply db"
  "map val_id (valuations (save_valuation now v db)) = map val_id (valuations db)"
  "valuation_db.more (save_valuation now v db) = valuation_db.more db"
  by (auto simp: save_valuation_def intro!: map_update_where)

lemma publish_valuation_simps [simp]:
  "valuations (publish now e db) = valuations db" "valuation_db.more (publish now e db) = valuation_db.more db"
  by (simp_all add: publish_eq)

lemma get_valuation_SomeD:
  assumes "get_valuation_or_404 t i db = Inr v"
  shows "val_id v = i" "val_tenant_id v = t" "v \<in> set (valuations db)"
  using assms by (auto simp: get_valuation_or_404_def split: option.splits dest: select_one_SomeD)

lemma get_valuation_after_save:
  assumes "get_valuation_or_404 t i db = Inr v" "val_id w = i" "val_tenant_id w = t"
  shows "get_valuation_or_404 t i (save_valuation now w db) = Inr (w\<lparr>val_updated_at := now\<rparr>)"
proof -
  have "select_one (\<lambda>r. val_id r = i \<and> val_tenant_id r = t) rows = Some r
      \<Longrightarrow> select_one (\<lambda>r. val_id r = i \<and> val_tenant_id r = t)
            (update_where (\<lambda>r. val_id r = i) (\<lambda>_. w\<lparr>val_updated_at := now\<rparr>) rows) = Some (w\<lparr>val_updated_at := now\<rparr>)"
    for rows r
    using assms(2,3) by (induction rows) (auto split: if_splits)
  then show ?thesis
    using assms by (auto simp: get_valuation_or_404_def save_valuation_def split: option.splits)
qed

lemma consume_grows:
  "consume_valuation_for_contract now t i actor db = Inr (db', b) \<Longrightarrow> outbox_grows db db'"
  by (auto simp: consume_valuation_for_contract_def consume_for_contract_def mark_used_def bindR_Inr_iff
      intro!: outbox_grows_trans [OF outbox_grows_sameI publish_grows] split: if_splits)

lemma revert_grows: "revert_valuation_use now t i actor db = Inr db' \<Longrightarrow> outbox_grows db db'"
  by (auto simp: revert_valuation_use_def revert_use_def bindR_Inr_iff
      intro!: outbox_grows_trans [OF outbox_grows_sameI publish_grows] split: if_splits)

text \<open>
  C7: consuming a trade-in valuation. A consumption that succeeds leaves it stamped, reports whether
  it set the stamp itself and publishes \<open>valuation.used\<close> exactly when it did; repeating it within the
  validity changes nothing and reports false, so two contracts on one valuation stamp it once; and the
  compensating revert of a consumption that set the stamp makes it unused again.
\<close>

theorem consume_valuation_once:
  assumes consume: "consume_valuation_for_contract now t i actor db = Inr (db', newly)"
  shows "(\<exists>v'. get_valuation_or_404 t i db' = Inr v' \<and> used_at v' \<noteq> None
        \<and> (newly \<longrightarrow> used_at v' = Some now)
        \<and> (is_draft v' \<or> later \<le> valid_until v' \<longrightarrow>
             consume_valuation_for_contract later t i actor2 db' = Inr (db', False)))
    \<and> map event_type (outbox_messages db')
        = map event_type (outbox_messages db) @ (if newly then [''valuation.used''] else [])
    \<and> (newly \<longrightarrow> (\<exists>db'' v''. revert_valuation_use later t i actor2 db' = Inr db''
        \<and> get_valuation_or_404 t i db'' = Inr v'' \<and> used_at v'' = None))"
proof -
  obtain v where v: "get_valuation_or_404 t i db = Inr v" "consume_for_contract now v actor db = Inr (db', newly)"
    using consume by (auto simp: consume_valuation_for_contract_def bindR_Inr_iff)
  note id = get_valuation_SomeD [OF v(1)]
  show ?thesis
  proof (cases "used_at v = None")
    case True
    define w where "w = v\<lparr>used_at := Some now, val_updated_by := actor, val_version := val_version v + 1\<rparr>"
    have db': "db' = publish now (valuation_event ''valuation.used'' v) (save_valuation now w db)" and newly
      using v(2) True by (auto simp: consume_for_contract_def mark_used_def w_def split: if_splits)
    define w' where "w' = w\<lparr>val_updated_at := now\<rparr>"
    have get: "get_valuation_or_404 t i db' = Inr w'"
      using get_valuation_after_save [OF v(1), of w now] id
      by (simp add: db' get_valuation_or_404_def w_def w'_def)
    have again: "consume_valuation_for_contract later t i actor2 db' = Inr (db', False)"
      if "is_draft w' \<or> later \<le> valid_until w'"
      using get that by (auto simp: consume_valuation_for_contract_def consume_for_contract_def w'_def w_def)
    define x where "x = w'\<lparr>used_at := None, val_updated_by := actor2, val_version := val_version w' + 1\<rparr>"
    have rev: "revert_valuation_use later t i actor2 db'
        = Inr (publish later (valuation_event ''valuation.valuation.use_reverted'' w') (save_valuation later x db'))"
      using get by (simp add: revert_valuation_use_def revert_use_def x_def w'_def w_def)
    have "get_valuation_or_404 t i (publish later (valuation_event ''valuation.valuation.use_reverted'' w') (save_valuation later x db'))
        = Inr (x\<lparr>val_updated_at := later\<rparr>)"
      using get_valuation_after_save [OF get, of x later] id
      by (simp add: get_valuation_or_404_def x_def w'_def w_def)
    then show ?thesis
      using get again rev \<open>newly\<close> by (auto simp: w'_def w_def x_def db' valuation_event_def)
  next
    case False
    then have "db' = db" "\<not> newly" using v(2) by (auto simp: consume_for_contract_def split: if_splits)
    then show ?thesis
      using v(1) False by (auto simp: consume_valuation_for_contract_def consume_for_contract_def)
  qed
qed

definition example_valuation :: valuation where
  "example_valuation = \<lparr>val_id = 7, val_tenant_id = 1, valuation_number = ''B-000001'', val_vehicle_id = None,
     val_vehicle_make = None, val_vehicle_model = None, val_vehicle_trim = None, val_vehicle_plate = None,
     val_vehicle_vin = None, val_vehicle_first_registration = None, val_mileage = None,
     val_configuration_id = None, val_configuration_label = None, val_configuration_label_refreshed_at = None,
     val_customer_id = None, val_customer_label = None, val_source = MANUAL, provider_value = None,
     final_offer = 9000, val_note = None, valid_from = 0, valid_until = 100, is_draft = False, used_at = None,
     supersedes_valuation_id = None, val_version = 1, val_created_at = 0, val_updated_at = 0,
     val_created_by = None, val_updated_by = None\<rparr>"

definition example_valuation_db :: valuation_db where
  "example_valuation_db = \<lparr>uuid_supply = 10, outbox_messages = [], processed_events = [], idempotency_records = [],
     audit_events = [], vehicle_mdms = [], vehicle_number_sequence = [], model_variants = [], vehicle_configurations = [], vehicle_plates = [], vehicle_plate_conflicts = [],
     dealer_plate_assignments = [], customers = [], customer_phones = [], customer_emails = [],
     customer_addresses = [], customer_external_ids = [], customer_tags = [], vehicle_parties = [],
     dealerships = [], users = [], dealership_memberships = [], transactions = [], valuations = [example_valuation],
     valuation_deductions = [], valuation_number_sequence = [(1, 2)]\<rparr>"

theorem consume_valuation_once_witness:
  "\<exists>db'. consume_valuation_for_contract 50 1 7 None example_valuation_db = Inr (db', True)
    \<and> map event_type (outbox_messages db') = [''valuation.used'']"
proof -
  obtain db' where c: "consume_valuation_for_contract 50 1 7 None example_valuation_db = Inr (db', True)"
    by (simp add: consume_valuation_for_contract_def consume_for_contract_def get_valuation_or_404_def
        example_valuation_db_def example_valuation_def)
  show ?thesis
    using consume_valuation_once [OF c] c by (auto simp: example_valuation_db_def)
qed

end
