(* ===== verification/Inventory_Stock.thy ===== *)
theory Inventory_Stock
  imports Valuation
begin

text \<open>
  Stock items of the inventory context (\<^verbatim>\<open>app/inventory/models\<close>, \<^verbatim>\<open>services/stock_item.py\<close>,
  \<^verbatim>\<open>purchase.py, ledger.py, pricing.py, valuation.py, invoicing_gate.py\<close>): creation, the purchase
  booking that makes a car invoiceable, the vehicle ledger, factory options with the list price, and
  the exit from stock. A service that works on a loaded row takes the row and returns the database in
  which it is saved; the unique indexes of the table are checked where a write can meet them.
\<close>

section \<open>Rows\<close>

datatype lifecycle_status = PIPELINE | IN_STOCK | STORNO_PENDING
datatype reservation_state = NOT_RESERVED | RESERVED
datatype stock_item_condition = NEW | COND_USED | DEMO | TAGESZ
datatype ageing_bucket = GREEN | AMBER | RED

text \<open>The text \<open>contract:<id>:manual\<close> or \<open>contract:<id>:trade_in\<close>.\<close>

datatype pipeline_role = ManualConfiguration | TradeIn
type_synonym pipeline_reference = "uuid \<times> pipeline_role"

record stock_item =
  si_id :: uuid
  si_tenant_id :: uuid
  stock_number :: string
  si_vehicle_id :: "uuid option"
  si_vin :: "string option"
  si_vehicle_label :: string
  lifecycle_status :: lifecycle_status
  reservation_state :: reservation_state
  reserved_by_contract_id :: "uuid option"
  active_reservation_id :: "uuid option"
  condition :: stock_item_condition
  location_id :: "uuid option"
  odometer_km :: "int option"
  exterior_colour :: "string option"
  body_style :: "string option"
  si_list_price :: "decimal option"
  effective_price :: "decimal option"
  si_first_registration_date :: "date option"
  pipeline_ref :: "pipeline_reference option"
  si_configuration_id :: "uuid option"
  si_configuration_label :: "string option"
  si_configuration_label_refreshed_at :: "datetime option"
  in_stock_at :: "datetime option"
  supplier_name :: "string option"
  supplier_is_vat_registered :: "bool option"
  purchase_date :: "date option"
  purchase_price :: "decimal option"
  purchase_invoice_ref :: "string option"
  landed_cost :: "decimal option"
  notional_input_tax_applicable :: "bool option"
  notional_input_tax_rate :: "decimal option"
  notional_input_tax_amount :: "decimal option"
  notional_input_tax_overridden :: bool
  is_invoiceable :: bool
  left_stock_at :: "datetime option"
  si_base_price :: "decimal option"
  valuation_ref_id :: "uuid option"
  valuation_ref_amount :: "decimal option"
  valuation_ref_valued_at :: "datetime option"
  valuation_ref_source :: "string option"
  si_version :: nat
  si_created_at :: datetime
  si_updated_at :: datetime
  si_created_by :: "uuid option"
  si_updated_by :: "uuid option"

datatype ledger_direction = COST | REVENUE

datatype ledger_category =
    EINSTANDSPREIS | LANDED_COST | AUFBEREITUNG | REPARATUR | GUTACHTEN | STANDKOSTEN | WERBUNG
  | GARANTIE | ABWERTUNG | PROMOTION | SONSTIGE_KOSTEN
  | VERKAUFSERLOES | KICKBACK | ZUSATZERLOES | FOERDERUNG | SONSTIGE_ERTRAEGE

record stock_item_ledger =
  led_tenant_id :: uuid
  led_stock_item_id :: uuid
  led_category :: ledger_category
  led_direction :: ledger_direction
  led_amount :: decimal
  led_occurred_at :: datetime
  source_ref :: string
  is_auto :: bool
  led_created_at :: datetime
  led_created_by :: "uuid option"

record stock_item_option =
  opt_tenant_id :: uuid
  opt_stock_item_id :: uuid
  opt_code :: string
  opt_label :: string
  opt_price :: decimal
  equipment_code :: "string option"

record cancelled_contract =
  cc_tenant_id :: uuid
  cc_contract_id :: uuid
  cc_contract_label :: string
  cc_contract_denorm_refreshed_at :: datetime
  cc_cancelled_at :: datetime

record inventory_db = valuation_db +
  stock_items :: "stock_item list"
  stock_number_sequence :: "uuid sequences"
  cancelled_contracts :: "cancelled_contract list"
  stock_item_ledgers :: "stock_item_ledger list"
  stock_item_options :: "stock_item_option list"

record stock_item_create =
  sc_vehicle_label :: string
  sc_condition :: stock_item_condition
  sc_location_id :: "uuid option"
  sc_odometer_km :: "int option"
  sc_list_price :: "decimal option"
  sc_effective_price :: "decimal option"
  sc_first_registration_date :: "date option"
  sc_vehicle_id :: "uuid option"
  sc_vin :: "string option"
  sc_configuration_id :: "uuid option"

section \<open>Saving and the unique indexes\<close>

definition save_stock_item :: "datetime \<Rightarrow> stock_item \<Rightarrow> 'a inventory_db_scheme \<Rightarrow> 'a inventory_db_scheme" where
  "save_stock_item now item db = db\<lparr>stock_items :=
     update_where (\<lambda>r. si_id r = si_id item) (\<lambda>_. item\<lparr>si_updated_at := now\<rparr>) (stock_items db)\<rparr>"

text \<open>
  The four unique indexes of \<open>stock_item\<close>: the number per dealership, the VIN per dealership among
  the items still in stock, the pipeline reference per dealership, the active reservation.
\<close>

definition vin_keys :: "stock_item list \<Rightarrow> (uuid \<times> string) list" where
  "vin_keys items = List.map_filter (\<lambda>i. if left_stock_at i = None
     then map_option (Pair (si_tenant_id i)) (si_vin i) else None) items"

definition pipeline_keys :: "stock_item list \<Rightarrow> (uuid \<times> pipeline_reference) list" where
  "pipeline_keys items = List.map_filter (\<lambda>i. map_option (Pair (si_tenant_id i)) (pipeline_ref i)) items"

definition reservation_keys :: "stock_item list \<Rightarrow> uuid list" where
  "reservation_keys items = List.map_filter active_reservation_id items"

definition stock_indexes_ok :: "stock_item list \<Rightarrow> bool" where
  "stock_indexes_ok items \<longleftrightarrow> distinct (map (\<lambda>i. (si_tenant_id i, stock_number i)) items)
     \<and> distinct (vin_keys items) \<and> distinct (pipeline_keys items) \<and> distinct (reservation_keys items)"

definition flush_stock_items :: "'a inventory_db_scheme \<Rightarrow> 'a inventory_db_scheme result" where
  "flush_stock_items db = (if stock_indexes_ok (stock_items db) then Inr db else Inl IntegrityError)"

section \<open>Creation\<close>

definition compute_ageing_bucket :: "datetime \<Rightarrow> stock_item \<Rightarrow> ageing_bucket option" where
  "compute_ageing_bucket now item = (case in_stock_at item of
     None \<Rightarrow> None
   | Some t \<Rightarrow> let days = timedelta_days (now - t)
       in Some (if days \<le> 60 then GREEN else if days \<le> 120 then AMBER else RED))"

definition allocate_stock_number :: "uuid \<Rightarrow> 'a inventory_db_scheme \<Rightarrow> string \<times> 'a inventory_db_scheme" where
  "allocate_stock_number tenant_id db =
     (let (v, seqs) = allocate_value tenant_id (stock_number_sequence db)
      in (''S-'' @ pad6 v, db\<lparr>stock_number_sequence := seqs\<rparr>))"

definition find_stock_item :: "uuid \<Rightarrow> uuid \<Rightarrow> 'a inventory_db_scheme \<Rightarrow> stock_item option" where
  "find_stock_item tenant_id stock_item_id db =
     select_one (\<lambda>i. si_id i = stock_item_id \<and> si_tenant_id i = tenant_id) (stock_items db)"

definition get_stock_item_or_404 :: "uuid \<Rightarrow> uuid \<Rightarrow> 'a inventory_db_scheme \<Rightarrow> stock_item result" where
  "get_stock_item_or_404 tenant_id stock_item_id db =
     (case find_stock_item tenant_id stock_item_id db of None \<Rightarrow> Inl (NotFoundError []) | Some i \<Rightarrow> Inr i)"

definition item_in_stock_with_vin :: "uuid \<Rightarrow> string \<Rightarrow> 'a inventory_db_scheme \<Rightarrow> stock_item option" where
  "item_in_stock_with_vin tenant_id vin db =
     select_one (\<lambda>i. si_tenant_id i = tenant_id \<and> si_vin i = Some vin \<and> left_stock_at i = None) (stock_items db)"

definition vin_already_in_stock :: "stock_item \<Rightarrow> exn" where
  "vin_already_in_stock held_by = ConflictError [(''reason'', JStr ''vin_already_in_stock''),
     (''stockItemId'', JUuid (si_id held_by)), (''stockNumber'', JStr (stock_number held_by))]"

definition check_vin_not_in_stock :: "uuid \<Rightarrow> string \<Rightarrow> 'a inventory_db_scheme \<Rightarrow> unit result" where
  "check_vin_not_in_stock tenant_id vin db =
     (case item_in_stock_with_vin tenant_id vin db of
        Some held_by \<Rightarrow> Inl (vin_already_in_stock held_by) | None \<Rightarrow> Inr ())"

definition stock_event :: "string \<Rightarrow> stock_item \<Rightarrow> payload \<Rightarrow> outbox_event" where
  "stock_event etype item pl =
     plain_event etype (Some (si_tenant_id item)) ''inventory'' ''stock_item'' (si_id item) pl"

definition new_stock_item ::
  "datetime \<Rightarrow> uuid \<Rightarrow> stock_item_create \<Rightarrow> uuid option \<Rightarrow> pipeline_reference option \<Rightarrow> string option \<Rightarrow> uuid \<Rightarrow> string
     \<Rightarrow> stock_item" where
  "new_stock_item now tenant_id data actor_id pref cfg_label iid number =
     (let has_vin = (case sc_vin data of None \<Rightarrow> False | Some v \<Rightarrow> v \<noteq> []);
          has_cfg = (sc_configuration_id data \<noteq> None)
      in \<lparr>si_id = iid, si_tenant_id = tenant_id, stock_number = number, si_vehicle_id = sc_vehicle_id data,
        si_vin = sc_vin data, si_vehicle_label = sc_vehicle_label data,
        lifecycle_status = (if has_vin then IN_STOCK else PIPELINE),
        reservation_state = NOT_RESERVED, reserved_by_contract_id = None, active_reservation_id = None,
        condition = sc_condition data, location_id = sc_location_id data, odometer_km = sc_odometer_km data,
        exterior_colour = None, body_style = None, si_list_price = sc_list_price data,
        effective_price = sc_effective_price data, si_first_registration_date = sc_first_registration_date data,
        pipeline_ref = pref, si_configuration_id = sc_configuration_id data,
        si_configuration_label = (if has_cfg then cfg_label else None),
        si_configuration_label_refreshed_at = (if has_cfg then Some now else None),
        in_stock_at = (if has_vin then Some now else None), supplier_name = None,
        supplier_is_vat_registered = None, purchase_date = None, purchase_price = None,
        purchase_invoice_ref = None, landed_cost = None, notional_input_tax_applicable = None,
        notional_input_tax_rate = None, notional_input_tax_amount = None,
        notional_input_tax_overridden = False, is_invoiceable = False, left_stock_at = None,
        si_base_price = None, valuation_ref_id = None, valuation_ref_amount = None,
        valuation_ref_valued_at = None, valuation_ref_source = None, si_version = 1, si_created_at = now,
        si_updated_at = now, si_created_by = actor_id, si_updated_by = actor_id\<rparr>)"

text \<open>The commit-free core. \<open>origin\<close> is merged into the event's payload.\<close>

definition build_and_flush_stock_item ::
  "datetime \<Rightarrow> uuid \<Rightarrow> stock_item_create \<Rightarrow> uuid option \<Rightarrow> pipeline_reference option \<Rightarrow> payload \<Rightarrow> string option
     \<Rightarrow> 'a inventory_db_scheme \<Rightarrow> ('a inventory_db_scheme \<times> stock_item) result" where
  "build_and_flush_stock_item now tenant_id data actor_id pref origin cfg_label db =
     (let (number, db1) = allocate_stock_number tenant_id db;
          (iid, db2) = draw_uuid db1;
          item = new_stock_item now tenant_id data actor_id pref cfg_label iid number
      in bindR (flush_stock_items (db2\<lparr>stock_items := stock_items db2 @ [item]\<rparr>)) (\<lambda>db3.
           Inr (publish now (stock_event ''inventory.stock_item.added'' item
             ([(''stockNumber'', JStr number), (''vehicleLabel'', JStr (si_vehicle_label item))] @ origin)) db3, item)))"

text \<open>The schema's own rule, met before the service runs.\<close>

definition stock_item_create_valid :: "stock_item_create \<Rightarrow> bool" where
  "stock_item_create_valid data \<longleftrightarrow> \<not> (sc_vehicle_id data \<noteq> None \<and> sc_vin data = None)"

definition create_stock_item ::
  "datetime \<Rightarrow> uuid \<Rightarrow> stock_item_create \<Rightarrow> uuid option \<Rightarrow> 'a inventory_db_scheme
     \<Rightarrow> 'a inventory_db_scheme \<times> stock_item result" where
  "create_stock_item now tenant_id data actor_id db =
     (case (case sc_configuration_id data of
              None \<Rightarrow> Inr None
            | Some cid \<Rightarrow> bindR (get_configuration_for_host tenant_id cid db) (\<lambda>c.
                bindR (require_mode c ''stock pipeline'' [BUILD, RECORD]) (\<lambda>_. Inr (Some (hc_label c))))) of
        Inl e \<Rightarrow> (db, Inl e)
      | Inr cfg_label \<Rightarrow>
          (case (case sc_vin data of
                   None \<Rightarrow> Inr (db, data)
                 | Some vin \<Rightarrow> bindR (check_vin_not_in_stock tenant_id vin db) (\<lambda>_.
                     bindR (resolve_vehicle_mdm_by_vin id vin None actor_id db) (\<lambda>(db1, vehicle).
                     Inr (db1, data\<lparr>sc_vehicle_id := Some (mdm_id vehicle), sc_vin := Some (mdm_vin vehicle)\<rparr>)))) of
             Inl e \<Rightarrow> (db, Inl e)
           | Inr (db1, data') \<Rightarrow>
               (case build_and_flush_stock_item now tenant_id data' actor_id None [] cfg_label db1 of
                  Inr (db2, item) \<Rightarrow> (db2, Inr item)
                | Inl IntegrityError \<Rightarrow>
                    (db1, case Option.bind (sc_vin data') (\<lambda>vin. item_in_stock_with_vin tenant_id vin db1) of
                            None \<Rightarrow> Inl IntegrityError | Some held_by \<Rightarrow> Inl (vin_already_in_stock held_by))
                | Inl e \<Rightarrow> (db1, Inl e))))"

section \<open>Purchase, edits, exit\<close>

text \<open>The row as it is after the call, the database, and whether it just became invoiceable.\<close>

definition mark_purchased_if_ready ::
  "datetime \<Rightarrow> stock_item \<Rightarrow> 'a inventory_db_scheme \<Rightarrow> 'a inventory_db_scheme \<times> stock_item \<times> bool" where
  "mark_purchased_if_ready now item db =
     (if is_invoiceable item then (db, item, False)
      else if lifecycle_status item \<noteq> IN_STOCK \<or> purchase_price item = None then (db, item, False)
      else let item' = item\<lparr>is_invoiceable := True\<rparr>
           in (publish now (stock_event ''inventory.stock_item.purchased'' item'
                 [(''stockNumber'', JStr (stock_number item'))]) (save_stock_item now item' db), item', True))"

record stock_item_update =
  su_vehicle_label :: "string option option"
  su_condition :: "stock_item_condition option option"
  su_location_id :: "uuid option option"
  su_odometer_km :: "int option option"
  su_exterior_colour :: "string option option"
  su_body_style :: "string option option"
  su_list_price :: "decimal option option"
  su_effective_price :: "decimal option option"
  su_first_registration_date :: "date option option"

definition set_field :: "'v option \<Rightarrow> 'v \<Rightarrow> 'v" where
  "set_field change old = (case change of None \<Rightarrow> old | Some v \<Rightarrow> v)"

definition updated_item :: "stock_item_update \<Rightarrow> uuid option \<Rightarrow> stock_item \<Rightarrow> stock_item" where
  "updated_item changes actor_id item = item\<lparr>
     si_vehicle_label := (case su_vehicle_label changes of Some (Some l) \<Rightarrow> l | _ \<Rightarrow> si_vehicle_label item),
     condition := (case su_condition changes of Some (Some c) \<Rightarrow> c | _ \<Rightarrow> condition item),
     location_id := set_field (su_location_id changes) (location_id item),
     odometer_km := set_field (su_odometer_km changes) (odometer_km item),
     exterior_colour := set_field (su_exterior_colour changes) (exterior_colour item),
     body_style := set_field (su_body_style changes) (body_style item),
     si_list_price := set_field (su_list_price changes) (si_list_price item),
     effective_price := set_field (su_effective_price changes) (effective_price item),
     si_first_registration_date := set_field (su_first_registration_date changes) (si_first_registration_date item),
     si_updated_by := actor_id, si_version := si_version item + 1\<rparr>"

text \<open>A null sent for a column that is not nullable fails at the flush.\<close>

definition update_stock_item ::
  "datetime \<Rightarrow> stock_item \<Rightarrow> stock_item_update \<Rightarrow> uuid option \<Rightarrow> 'a inventory_db_scheme
     \<Rightarrow> ('a inventory_db_scheme \<times> stock_item) result" where
  "update_stock_item now item changes actor_id db =
     (if su_vehicle_label changes = Some None \<or> su_condition changes = Some None then Inl IntegrityError
      else Inr (save_stock_item now (updated_item changes actor_id item) db, updated_item changes actor_id item))"

definition condition_text :: "stock_item_condition \<Rightarrow> string" where
  "condition_text c = (case c of NEW \<Rightarrow> ''new'' | COND_USED \<Rightarrow> ''used'' | DEMO \<Rightarrow> ''demo'' | TAGESZ \<Rightarrow> ''tagesz'')"

definition change_condition ::
  "datetime \<Rightarrow> stock_item \<Rightarrow> stock_item_condition \<Rightarrow> uuid option \<Rightarrow> 'a inventory_db_scheme \<Rightarrow> 'a inventory_db_scheme" where
  "change_condition now item cond actor_id db =
     (let item' = item\<lparr>condition := cond, si_updated_by := actor_id, si_version := si_version item + 1\<rparr>;
          db1 = save_stock_item now item' db
      in if condition item \<noteq> cond
         then publish now (stock_event ''inventory.stock_item.condition_changed'' item'
           [(''previousCondition'', JStr (condition_text (condition item))), (''condition'', JStr (condition_text cond))]) db1
         else db1)"

definition compute_notional_input_tax :: "decimal \<Rightarrow> decimal option \<Rightarrow> decimal option" where
  "compute_notional_input_tax price rate =
     (case rate of None \<Rightarrow> None | Some r \<Rightarrow> Some (quantize_cents_half_up (price * r / (100 + r))))"

record record_purchase_request =
  rp_supplier_name :: string
  rp_supplier_is_vat_registered :: bool
  rp_purchase_price :: decimal
  rp_purchase_date :: date
  rp_purchase_invoice_ref :: "string option"
  rp_landed_cost :: "decimal option"

text \<open>The row with the booking.\<close>

definition purchased_item :: "dealership \<Rightarrow> record_purchase_request \<Rightarrow> uuid option \<Rightarrow> stock_item \<Rightarrow> stock_item" where
  "purchased_item dealer data actor_id item =
     (let applicable = \<not> rp_supplier_is_vat_registered data
      in item\<lparr>supplier_name := Some (rp_supplier_name data),
        supplier_is_vat_registered := Some (rp_supplier_is_vat_registered data),
        purchase_price := Some (rp_purchase_price data), purchase_date := Some (rp_purchase_date data),
        purchase_invoice_ref := rp_purchase_invoice_ref data, landed_cost := rp_landed_cost data,
        notional_input_tax_applicable := Some applicable,
        notional_input_tax_rate := (if applicable then vat_rate dealer else None),
        notional_input_tax_amount := (if applicable
          then compute_notional_input_tax (rp_purchase_price data) (vat_rate dealer) else None),
        si_updated_by := actor_id, si_version := si_version item + 1\<rparr>)"

definition record_purchase ::
  "datetime \<Rightarrow> stock_item \<Rightarrow> record_purchase_request \<Rightarrow> uuid option \<Rightarrow> 'a inventory_db_scheme
     \<Rightarrow> ('a inventory_db_scheme \<times> stock_item) result" where
  "record_purchase now item data actor_id db =
     bindR (get_dealership_or_404 (si_tenant_id item) db) (\<lambda>dealer.
       let item' = purchased_item dealer data actor_id item;
           (db1, item1, newly) = mark_purchased_if_ready now item' (save_stock_item now item' db)
       in Inr (db1, item1))"

record tax_override_request =
  to_applicable :: bool
  to_rate :: "decimal option"
  to_reason :: string

text \<open>\<open>str(x) if x else None\<close>: a zero is falsy.\<close>

definition truthy_dec :: "decimal option \<Rightarrow> json" where
  "truthy_dec x = (case x of None \<Rightarrow> JNull | Some d \<Rightarrow> if d = 0 then JNull else JDec d)"

definition tax_facts :: "stock_item \<Rightarrow> payload" where
  "tax_facts item = [(''notionalInputTaxApplicable'', json_opt JBool (notional_input_tax_applicable item)),
     (''notionalInputTaxRate'', truthy_dec (notional_input_tax_rate item)),
     (''notionalInputTaxAmount'', truthy_dec (notional_input_tax_amount item))]"

definition override_notional_input_tax ::
  "datetime \<Rightarrow> stock_item \<Rightarrow> tax_override_request \<Rightarrow> uuid option \<Rightarrow> 'a inventory_db_scheme
     \<Rightarrow> 'a inventory_db_scheme \<times> stock_item" where
  "override_notional_input_tax now item data actor_id db =
     (let item' = item\<lparr>notional_input_tax_applicable := Some (to_applicable data),
            notional_input_tax_rate := (if to_applicable data then to_rate data else None),
            notional_input_tax_amount := (if to_applicable data
              then Option.bind (purchase_price item) (\<lambda>p. compute_notional_input_tax p (to_rate data)) else None),
            notional_input_tax_overridden := True, si_updated_by := actor_id, si_version := si_version item + 1\<rparr>
      in (record_audit_event now ''stock_item'' (si_id item') (Some (si_tenant_id item'))
            ''notional_input_tax_override'' actor_id (Some (tax_facts item)) (Some (tax_facts item'))
            (Some (to_reason data)) (save_stock_item now item' db), item'))"

definition lifecycle_text :: "lifecycle_status \<Rightarrow> string" where
  "lifecycle_text s = (case s of PIPELINE \<Rightarrow> ''pipeline'' | IN_STOCK \<Rightarrow> ''in_stock'' | STORNO_PENDING \<Rightarrow> ''storno_pending'')"

text \<open>The alarm's audit row is committed before the refusal is raised.\<close>

definition apply_finance_invoice_issued ::
  "datetime \<Rightarrow> uuid \<Rightarrow> uuid \<Rightarrow> string \<Rightarrow> 'a inventory_db_scheme \<Rightarrow> 'a inventory_db_scheme \<times> stock_item result" where
  "apply_finance_invoice_issued now tenant_id stock_item_id invoice_ref db =
     (case get_stock_item_or_404 tenant_id stock_item_id db of
        Inl e \<Rightarrow> (db, Inl e)
      | Inr item \<Rightarrow>
          if left_stock_at item \<noteq> None then (db, Inr item)
          else if lifecycle_status item \<noteq> IN_STOCK \<or> \<not> is_invoiceable item then
            (record_audit_event now ''stock_item'' (si_id item) (Some (si_tenant_id item)) ''invoicing_gate_alarm'' None
               (Some [(''lifecycleStatus'', JStr (lifecycle_text (lifecycle_status item))),
                      (''isInvoiceable'', JBool (is_invoiceable item))]) None
               (Some (''finance.invoice.issued ('' @ invoice_ref
                  @ '') against a stock item that was not in_stock+invoiceable.'')) db,
             Inl (ConflictError [(''stockItemId'', JUuid stock_item_id), (''invoiceRef'', JStr invoice_ref)]))
          else let item' = item\<lparr>left_stock_at := Some now, si_version := si_version item + 1\<rparr>
               in (publish now (stock_event ''inventory.stock_item.sold'' item' [(''invoiceRef'', JStr invoice_ref)])
                     (save_stock_item now item' db), Inr item'))"

section \<open>Ledger, options, valuation pointer\<close>

fun direction_by_category :: "ledger_category \<Rightarrow> ledger_direction" where
  "direction_by_category VERKAUFSERLOES = REVENUE"
| "direction_by_category KICKBACK = REVENUE"
| "direction_by_category ZUSATZERLOES = REVENUE"
| "direction_by_category FOERDERUNG = REVENUE"
| "direction_by_category SONSTIGE_ERTRAEGE = REVENUE"
| "direction_by_category _ = COST"

fun category_text :: "ledger_category \<Rightarrow> string" where
  "category_text EINSTANDSPREIS = ''einstandspreis''"
| "category_text LANDED_COST = ''landed_cost''"
| "category_text AUFBEREITUNG = ''aufbereitung''"
| "category_text REPARATUR = ''reparatur''"
| "category_text GUTACHTEN = ''gutachten''"
| "category_text STANDKOSTEN = ''standkosten''"
| "category_text WERBUNG = ''werbung''"
| "category_text GARANTIE = ''garantie''"
| "category_text ABWERTUNG = ''abwertung''"
| "category_text PROMOTION = ''promotion''"
| "category_text SONSTIGE_KOSTEN = ''sonstige_kosten''"
| "category_text VERKAUFSERLOES = ''verkaufserloes''"
| "category_text KICKBACK = ''kickback''"
| "category_text ZUSATZERLOES = ''zusatzerloes''"
| "category_text FOERDERUNG = ''foerderung''"
| "category_text SONSTIGE_ERTRAEGE = ''sonstige_ertraege''"

definition automatic_only :: "ledger_category \<Rightarrow> bool" where
  "automatic_only c \<longleftrightarrow> c = VERKAUFSERLOES \<or> c = FOERDERUNG"

definition is_period_closed :: "uuid \<Rightarrow> datetime \<Rightarrow> bool" where
  "is_period_closed tenant_id occurred = False"

definition record_cost ::
  "datetime \<Rightarrow> stock_item \<Rightarrow> ledger_category \<Rightarrow> decimal \<Rightarrow> datetime \<Rightarrow> string \<Rightarrow> uuid option \<Rightarrow> bool
     \<Rightarrow> 'a inventory_db_scheme \<Rightarrow> ('a inventory_db_scheme \<times> stock_item_ledger) result" where
  "record_cost now item category amount occurred ref actor_id auto db =
     (case select_one (\<lambda>l. led_tenant_id l = si_tenant_id item \<and> source_ref l = ref) (stock_item_ledgers db) of
        Some existing \<Rightarrow> Inr (db, existing)
      | None \<Rightarrow>
          if automatic_only category \<and> \<not> auto then Inl (UnprocessableEntityError [(''category'', JStr (category_text category))])
          else if left_stock_at item \<noteq> None then Inl (UnprocessableEntityError [(''stockItemId'', JUuid (si_id item))])
          else if is_period_closed (si_tenant_id item) occurred
          then Inl (UnprocessableEntityError [(''occurredAt'', JTime occurred)])
          else let entry = \<lparr>led_tenant_id = si_tenant_id item, led_stock_item_id = si_id item,
                 led_category = category, led_direction = direction_by_category category, led_amount = amount,
                 led_occurred_at = occurred, source_ref = ref, is_auto = auto, led_created_at = now,
                 led_created_by = actor_id\<rparr>
               in Inr (db\<lparr>stock_item_ledgers := stock_item_ledgers db @ [entry]\<rparr>, entry))"

definition itemizable :: "stock_item_condition \<Rightarrow> bool" where
  "itemizable c \<longleftrightarrow> c = NEW \<or> c = TAGESZ \<or> c = DEMO"

definition list_options :: "uuid \<Rightarrow> uuid \<Rightarrow> 'a inventory_db_scheme \<Rightarrow> stock_item_option list" where
  "list_options tenant_id stock_item_id db =
     select_all (\<lambda>o1. opt_tenant_id o1 = tenant_id \<and> opt_stock_item_id o1 = stock_item_id) (stock_item_options db)"

record option_input =
  oi_code :: string
  oi_label :: string
  oi_price :: decimal
  oi_equipment_code :: "string option"

definition set_options ::
  "datetime \<Rightarrow> stock_item \<Rightarrow> decimal \<Rightarrow> option_input list \<Rightarrow> uuid option \<Rightarrow> 'a inventory_db_scheme
     \<Rightarrow> ('a inventory_db_scheme \<times> stock_item) result" where
  "set_options now item base opts actor_id db =
     (if opts \<noteq> [] \<and> \<not> itemizable (condition item)
      then Inl (ConflictError [(''stockItemId'', JUuid (si_id item)), (''condition'', JStr (condition_text (condition item)))])
      else let kept = delete_where (\<lambda>o1. opt_tenant_id o1 = si_tenant_id item \<and> opt_stock_item_id o1 = si_id item)
                 (stock_item_options db);
               added = map (\<lambda>o1. \<lparr>opt_tenant_id = si_tenant_id item, opt_stock_item_id = si_id item,
                 opt_code = oi_code o1, opt_label = oi_label o1, opt_price = oi_price o1,
                 equipment_code = oi_equipment_code o1\<rparr>) opts;
               item' = item\<lparr>si_base_price := Some base,
                 si_list_price := Some (base + sum_list (map oi_price opts)),
                 si_updated_by := actor_id, si_version := si_version item + 1\<rparr>
           in Inr (save_stock_item now item' (db\<lparr>stock_item_options := kept @ added\<rparr>), item'))"

definition marketplace_equipment_codes :: "stock_item_option list \<Rightarrow> string list" where
  "marketplace_equipment_codes opts = List.map_filter equipment_code opts"

record stock_item_pricing =
  sp_base_price :: "decimal option"
  sp_list_price :: "decimal option"
  sp_effective_price :: "decimal option"
  sp_purchase_price :: "decimal option"
  sp_landed_cost :: "decimal option"
  sp_notional_input_tax_applicable :: "bool option"
  sp_notional_input_tax_rate :: "decimal option"
  sp_notional_input_tax_amount :: "decimal option"
  sp_condition :: string
  sp_options :: "(string \<times> string \<times> decimal) list"

definition get_stock_item_pricing :: "uuid \<Rightarrow> uuid \<Rightarrow> 'a inventory_db_scheme \<Rightarrow> stock_item_pricing result" where
  "get_stock_item_pricing tenant_id stock_item_id db =
     bindR (get_stock_item_or_404 tenant_id stock_item_id db) (\<lambda>item.
       let opts = list_options tenant_id stock_item_id db;
           base = (if si_base_price item = None \<and> opts = []
             then (if effective_price item \<noteq> None then effective_price item else si_list_price item)
             else si_base_price item)
       in Inr \<lparr>sp_base_price = base, sp_list_price = si_list_price item, sp_effective_price = effective_price item,
            sp_purchase_price = purchase_price item, sp_landed_cost = landed_cost item,
            sp_notional_input_tax_applicable = notional_input_tax_applicable item,
            sp_notional_input_tax_rate = notional_input_tax_rate item,
            sp_notional_input_tax_amount = notional_input_tax_amount item,
            sp_condition = condition_text (condition item),
            sp_options = map (\<lambda>o1. (opt_code o1, opt_label o1, opt_price o1)) opts\<rparr>)"

definition apply_valuation_ref :: "uuid \<Rightarrow> decimal \<Rightarrow> datetime \<Rightarrow> string \<Rightarrow> stock_item \<Rightarrow> stock_item" where
  "apply_valuation_ref vid amount valued_at src item =
     item\<lparr>valuation_ref_id := Some vid, valuation_ref_amount := Some amount,
       valuation_ref_valued_at := Some valued_at, valuation_ref_source := Some src\<rparr>"

definition set_valuation_ref ::
  "datetime \<Rightarrow> uuid \<Rightarrow> uuid \<Rightarrow> uuid \<Rightarrow> decimal \<Rightarrow> datetime \<Rightarrow> string \<Rightarrow> string \<Rightarrow> 'a inventory_db_scheme
     \<Rightarrow> ('a inventory_db_scheme \<times> json) result" where
  "set_valuation_ref now tenant_id stock_item_id vid amount valued_at src key db =
     (let path = (''inventory.set_valuation_ref:'', Some stock_item_id);
          request = JObj [(''valuationId'', JUuid vid), (''amount'', JDec (quantize_cents amount)), (''source'', JStr src)]
      in bindR (find_cached_response tenant_id key path request db) (\<lambda>cached.
         case cached of
           Some r \<Rightarrow> Inr (db, response_body r)
         | None \<Rightarrow> bindR (get_stock_item_or_404 tenant_id stock_item_id db) (\<lambda>item.
             let res = JObj [(''valuationId'', JUuid vid), (''amount'', JDec amount), (''valuedAt'', JTime valued_at),
                   (''source'', JStr src)];
                 db1 = save_stock_item now (apply_valuation_ref vid amount valued_at src item) db
             in bindR (store_response now tenant_id key path request 200 res db1) (\<lambda>db2. Inr (db2, res)))))"

section \<open>The invariant of the table\<close>

definition key_unique :: "('r \<Rightarrow> 'k option) \<Rightarrow> 'r list \<Rightarrow> bool" where
  "key_unique f rows \<longleftrightarrow> (\<forall>r \<in> set rows. \<forall>s \<in> set rows. f r \<noteq> None \<and> f r = f s \<longrightarrow> r = s)"

lemma key_unique_Cons:
  assumes "r \<notin> set rows"
  shows "key_unique f (r # rows) \<longleftrightarrow> key_unique f rows \<and> (f r \<noteq> None \<longrightarrow> (\<forall>s \<in> set rows. f s \<noteq> f r))"
proof
  assume a: "key_unique f (r # rows)"
  then have "f s \<noteq> f r" if "f r \<noteq> None" "s \<in> set rows" for s
    using assms that unfolding key_unique_def by (metis list.set_intros)
  with a show "key_unique f rows \<and> (f r \<noteq> None \<longrightarrow> (\<forall>s \<in> set rows. f s \<noteq> f r))"
    unfolding key_unique_def by (meson list.set_intros(2))
next
  assume "key_unique f rows \<and> (f r \<noteq> None \<longrightarrow> (\<forall>s \<in> set rows. f s \<noteq> f r))"
  then show "key_unique f (r # rows)" unfolding key_unique_def by (metis set_ConsD)
qed

lemma distinct_map_filter_iff:
  "distinct rows \<Longrightarrow> distinct (List.map_filter f rows) \<longleftrightarrow> key_unique f rows"
proof (induction rows)
  case (Cons r rows)
  have "set (List.map_filter f rows) = {k. \<exists>s \<in> set rows. f s = Some k}"
    by (force simp: List.map_filter_def)
  then show ?case using Cons by (cases "f r") (auto simp: map_filter_simps key_unique_Cons)
qed (simp add: key_unique_def map_filter_simps)

definition vin_key :: "stock_item \<Rightarrow> (uuid \<times> string) option" where
  "vin_key i = (if left_stock_at i = None then map_option (Pair (si_tenant_id i)) (si_vin i) else None)"

definition pipeline_key :: "stock_item \<Rightarrow> (uuid \<times> pipeline_reference) option" where
  "pipeline_key i = map_option (Pair (si_tenant_id i)) (pipeline_ref i)"

text \<open>
  One row: reserved exactly when it carries a reservation and its contract; in stock exactly when its
  VIN, register record and arrival are known; invoiceable only in stock with a booked purchase; gone
  from stock only when it was invoiceable.
\<close>

definition item_ok_fields ::
  "reservation_state \<Rightarrow> uuid option \<Rightarrow> uuid option \<Rightarrow> lifecycle_status \<Rightarrow> string option \<Rightarrow> uuid option \<Rightarrow> datetime option
     \<Rightarrow> bool \<Rightarrow> decimal option \<Rightarrow> datetime option \<Rightarrow> bool" where
  "item_ok_fields rs act holder lc vin vehicle arrived invoiceable price gone \<longleftrightarrow>
     (rs = RESERVED \<longleftrightarrow> act \<noteq> None) \<and> (act \<noteq> None \<longleftrightarrow> holder \<noteq> None)
     \<and> lc \<noteq> STORNO_PENDING \<and> (lc = IN_STOCK \<longleftrightarrow> vin \<noteq> None) \<and> (vin \<noteq> None \<longleftrightarrow> vehicle \<noteq> None)
     \<and> (vin \<noteq> None \<longleftrightarrow> arrived \<noteq> None) \<and> (\<forall>v. vin = Some v \<longrightarrow> vin_re v)
     \<and> (invoiceable \<longrightarrow> lc = IN_STOCK \<and> price \<noteq> None) \<and> (gone \<noteq> None \<longrightarrow> invoiceable)"

definition item_ok :: "stock_item \<Rightarrow> bool" where
  "item_ok i \<longleftrightarrow> item_ok_fields (reservation_state i) (active_reservation_id i) (reserved_by_contract_id i)
     (lifecycle_status i) (si_vin i) (si_vehicle_id i) (in_stock_at i) (is_invoiceable i) (purchase_price i)
     (left_stock_at i)"

definition stock_inv :: "'a inventory_db_scheme \<Rightarrow> bool" where
  "stock_inv db \<longleftrightarrow> distinct (map si_id (stock_items db))
     \<and> (\<forall>i \<in> set (stock_items db). si_id i < uuid_supply db \<and> item_ok i
          \<and> (\<forall>rid. active_reservation_id i = Some rid \<longrightarrow> rid < uuid_supply db))
     \<and> key_unique vin_key (stock_items db) \<and> key_unique pipeline_key (stock_items db)
     \<and> key_unique active_reservation_id (stock_items db)
     \<and> series_inv ''S-'' si_tenant_id stock_number (stock_number_sequence db) (stock_items db)"

lemma publish_inventory_simps [simp]:
  "stock_items (publish now e db) = stock_items db"
  "stock_number_sequence (publish now e db) = stock_number_sequence db"
  "cancelled_contracts (publish now e db) = cancelled_contracts db"
  "vehicle_mdms (publish now e db) = vehicle_mdms db"
  "vehicle_number_sequence (publish now e db) = vehicle_number_sequence db"
  by (simp_all add: publish_eq)

lemma save_stock_item_simps [simp]:
  "outbox_messages (save_stock_item now i db) = outbox_messages db"
  "processed_events (save_stock_item now i db) = processed_events db"
  "idempotency_records (save_stock_item now i db) = idempotency_records db"
  "uuid_supply (save_stock_item now i db) = uuid_supply db"
  "stock_number_sequence (save_stock_item now i db) = stock_number_sequence db"
  "cancelled_contracts (save_stock_item now i db) = cancelled_contracts db"
  "valuations (save_stock_item now i db) = valuations db"
  "vehicle_mdms (save_stock_item now i db) = vehicle_mdms db"
  by (simp_all add: save_stock_item_def)

lemma stock_items_save: "stock_items (save_stock_item now i db)
    = update_where (\<lambda>r. si_id r = si_id i) (\<lambda>_. i\<lparr>si_updated_at := now\<rparr>) (stock_items db)"
  by (simp add: save_stock_item_def)

lemma distinct_rows: "distinct (map si_id rows) \<Longrightarrow> distinct rows"
  by (simp add: distinct_map)

lemma stock_inv_indexes:
  assumes "stock_inv db"
  shows "stock_indexes_ok (stock_items db)"
proof -
  have d: "distinct (stock_items db)" using assms by (auto simp: stock_inv_def intro: distinct_rows)
  have "vin_keys = List.map_filter vin_key" "pipeline_keys = List.map_filter pipeline_key"
    by (simp_all add: fun_eq_iff vin_keys_def pipeline_keys_def vin_key_def [abs_def] pipeline_key_def [abs_def])
  then have "distinct (vin_keys (stock_items db))" "distinct (pipeline_keys (stock_items db))"
    "distinct (reservation_keys (stock_items db))"
    using assms unfolding reservation_keys_def stock_inv_def
    by (metis distinct_map_filter_iff [OF d])+
  then show ?thesis using assms by (simp add: stock_indexes_ok_def stock_inv_def series_inv_def)
qed

lemma stock_inv_cong:
  assumes "stock_inv db" "stock_items db' = stock_items db" "stock_number_sequence db' = stock_number_sequence db"
    "uuid_supply db \<le> uuid_supply db'"
  shows "stock_inv db'"
  using assms unfolding stock_inv_def by (auto intro: less_le_trans)

lemma stock_inv_publish [intro, step_intros]: "stock_inv db \<Longrightarrow> stock_inv (publish now e db)"
  by (erule stock_inv_cong) (simp_all add: less_imp_le supply_after_less)

lemma item_ok_updated_at [simp]: "item_ok (i\<lparr>si_updated_at := now\<rparr>) = item_ok i"
  by (simp add: item_ok_def)

lemma key_updated_at [simp]:
  "vin_key (i\<lparr>si_updated_at := now\<rparr>) = vin_key i" "pipeline_key (i\<lparr>si_updated_at := now\<rparr>) = pipeline_key i"
  by (simp_all add: vin_key_def pipeline_key_def)

text \<open>A unique key stays unique when one row keeps its key, drops it, or takes one no row has.\<close>

lemma key_unique_update:
  assumes "key_unique f rows" "distinct (map k rows)" "r \<in> set rows" "k s = k r"
    and "f s = f r \<or> f s = None \<or> (\<forall>x \<in> set rows. f x \<noteq> f s)"
  shows "key_unique f (update_where (\<lambda>x. k x = k s) (\<lambda>_. s) rows)"
proof -
  have r: "x = r" if "x \<in> set rows" "k x = k s" for x
    using distinct_key_unique [OF assms(2) that(1) assms(3)] that(2) assms(4) by simp
  have "x = y" if x: "x \<in> set (update_where (\<lambda>x. k x = k s) (\<lambda>_. s) rows)"
    and y: "y \<in> set (update_where (\<lambda>x. k x = k s) (\<lambda>_. s) rows)" and f: "f x \<noteq> None" "f x = f y" for x y
  proof -
    have old: "(z \<in> set rows \<and> k z \<noteq> k s) \<or> z = s"
      if "z \<in> set (update_where (\<lambda>x. k x = k s) (\<lambda>_. s) rows)" for z
      using that by (auto elim: in_set_update_whereE)
    have "u = r" if "u \<in> set rows" "f u = f s" "f s \<noteq> None" for u
      using assms(1,3,5) that unfolding key_unique_def by metis
    then show ?thesis
      using old [OF x] old [OF y] f assms(1,4) unfolding key_unique_def by metis
  qed
  then show ?thesis unfolding key_unique_def by blast
qed

lemma stock_inv_save:
  assumes inv: "stock_inv db" and i: "i \<in> set (stock_items db)"
    and same: "si_id i' = si_id i" "si_tenant_id i' = si_tenant_id i" "stock_number i' = stock_number i"
      "pipeline_ref i' = pipeline_ref i" and ok: "item_ok i'"
    and vin: "vin_key i' = vin_key i \<or> vin_key i' = None \<or> (\<forall>x \<in> set (stock_items db). vin_key x \<noteq> vin_key i')"
    and act: "active_reservation_id i' = active_reservation_id i \<or> active_reservation_id i' = None
      \<or> (\<exists>rid. active_reservation_id i' = Some rid \<and> uuid_supply db \<le> rid \<and> rid < uuid_supply db1)"
    and db1: "stock_items db1 = stock_items db" "stock_number_sequence db1 = stock_number_sequence db"
      "uuid_supply db \<le> uuid_supply db1"
  shows "stock_inv (save_stock_item now i' db1)"
proof -
  let ?i = "i'\<lparr>si_updated_at := now\<rparr>"
  let ?rows = "update_where (\<lambda>x. si_id x = si_id ?i) (\<lambda>_. ?i) (stock_items db)"
  have rows: "stock_items (save_stock_item now i' db1) = ?rows" by (simp add: stock_items_save db1)
  have dist: "distinct (map si_id (stock_items db))" using inv by (simp add: stock_inv_def)
  have only: "x = i" if "x \<in> set (stock_items db)" "si_id x = si_id i'" for x
    using distinct_key_unique [OF dist that(1) i] that(2) same(1) by simp
  have below: "\<And>x rid. x \<in> set (stock_items db) \<Longrightarrow> active_reservation_id x = Some rid \<Longrightarrow> rid < uuid_supply db"
    using inv by (auto simp: stock_inv_def)
  have "map si_id ?rows = map si_id (stock_items db)" by (rule map_update_where) simp
  moreover have "map (\<lambda>r. (si_tenant_id r, stock_number r)) ?rows = map (\<lambda>r. (si_tenant_id r, stock_number r)) (stock_items db)"
    using only same by (auto simp: update_where_def)
  moreover have "key_unique vin_key ?rows" "key_unique pipeline_key ?rows" "key_unique active_reservation_id ?rows"
  proof -
    show "key_unique vin_key ?rows"
      using inv dist i same vin by (intro key_unique_update [where r = i]) (auto simp: stock_inv_def)
    show "key_unique pipeline_key ?rows"
      using inv dist i same by (intro key_unique_update [where r = i]) (auto simp: stock_inv_def pipeline_key_def)
    show "key_unique active_reservation_id ?rows"
      using inv dist i same act below
      by (intro key_unique_update [where r = i]) (auto simp: stock_inv_def, (metis not_le option.inject)?)
  qed
  moreover have "\<forall>x \<in> set ?rows. si_id x < uuid_supply db1 \<and> item_ok x
      \<and> (\<forall>rid. active_reservation_id x = Some rid \<longrightarrow> rid < uuid_supply db1)"
    using inv i same ok act db1(3) by (fastforce simp: stock_inv_def elim!: in_set_update_whereE)
  ultimately show ?thesis
    using inv rows unfolding stock_inv_def by (auto simp: db1 intro: series_inv_map)
qed

section \<open>Creation keeps the invariant\<close>

lemma key_unique_snoc:
  assumes "key_unique f rows" "f r = None \<or> (\<forall>x \<in> set rows. f x \<noteq> f r)"
  shows "key_unique f (rows @ [r])"
  using assms unfolding key_unique_def by (metis in_set_conv_decomp_first rotate1.simps(2) set_ConsD set_rotate1)

lemma stock_inv_insert:
  assumes inv: "stock_inv db" and ok: "item_ok i" "active_reservation_id i = None" "si_id i = uuid_supply db"
    and vin: "vin_key i = None \<or> (\<forall>x \<in> set (stock_items db). vin_key x \<noteq> vin_key i)"
    and pref: "pipeline_key i = None \<or> (\<forall>x \<in> set (stock_items db). pipeline_key x \<noteq> pipeline_key i)"
    and num: "allocate_value (si_tenant_id i) (stock_number_sequence db) = (v, seqs)" "stock_number i = ''S-'' @ pad6 v"
    and db': "stock_items db' = stock_items db @ [i]" "stock_number_sequence db' = seqs" "uuid_supply db < uuid_supply db'"
  shows "stock_inv db'"
proof -
  have "si_id i \<notin> set (map si_id (stock_items db))" using inv ok(3) by (auto simp: stock_inv_def)
  then have "distinct (map si_id (stock_items db'))" using inv db'(1) by (simp add: stock_inv_def)
  moreover have "key_unique vin_key (stock_items db')" "key_unique pipeline_key (stock_items db')"
    "key_unique active_reservation_id (stock_items db')"
    using inv vin pref ok(2) by (auto simp: stock_inv_def db'(1) intro!: key_unique_snoc)
  moreover have "series_inv ''S-'' si_tenant_id stock_number (stock_number_sequence db') (stock_items db')"
    unfolding db'(1,2) using inv num
    by (intro series_inv_issue [where r = i and seqs = "stock_number_sequence db" and v = v]) (simp_all add: stock_inv_def)
  ultimately show ?thesis
    using inv ok db'(1,3) unfolding stock_inv_def by (auto intro: less_trans)
qed

text \<open>What a validated create request gives the core.\<close>

definition create_data_ok :: "stock_item_create \<Rightarrow> bool" where
  "create_data_ok data \<longleftrightarrow> (sc_vin data = None \<longleftrightarrow> sc_vehicle_id data = None) \<and> (\<forall>v. sc_vin data = Some v \<longrightarrow> vin_re v)"

lemma vin_re_not_empty: "vin_re v \<Longrightarrow> v \<noteq> []"
  by (auto simp: vin_re_def)

lemma new_stock_item_simps [simp]:
  "si_id (new_stock_item now t data actor pref cl iid num) = iid"
  "si_tenant_id (new_stock_item now t data actor pref cl iid num) = t"
  "stock_number (new_stock_item now t data actor pref cl iid num) = num"
  "pipeline_ref (new_stock_item now t data actor pref cl iid num) = pref"
  "si_vin (new_stock_item now t data actor pref cl iid num) = sc_vin data"
  "left_stock_at (new_stock_item now t data actor pref cl iid num) = None"
  "active_reservation_id (new_stock_item now t data actor pref cl iid num) = None"
  "reserved_by_contract_id (new_stock_item now t data actor pref cl iid num) = None"
  "reservation_state (new_stock_item now t data actor pref cl iid num) = NOT_RESERVED"
  "is_invoiceable (new_stock_item now t data actor pref cl iid num) = False"
  by (simp_all add: new_stock_item_def Let_def)

lemma new_stock_item_ok: "create_data_ok data \<Longrightarrow> item_ok (new_stock_item now t data actor pref cl iid num)"
  using vin_re_not_empty
  by (cases "sc_vin data") (auto simp: new_stock_item_def item_ok_def item_ok_fields_def create_data_ok_def Let_def)

lemma build_and_flush_ok:
  assumes inv: "stock_inv db" and data: "create_data_ok data"
    and vin: "\<And>v. sc_vin data = Some v \<Longrightarrow> item_in_stock_with_vin t v db = None"
    and pref: "\<And>p. pref = Some p \<Longrightarrow> \<forall>x \<in> set (stock_items db). si_tenant_id x = t \<longrightarrow> pipeline_ref x \<noteq> Some p"
  obtains db' i where "build_and_flush_stock_item now t data actor pref origin cl db = Inr (db', i)"
    "stock_inv db'" "stock_items db' = stock_items db @ [i]" "outbox_grows db db'"
    "si_tenant_id i = t" "pipeline_ref i = pref" "reservation_state i = NOT_RESERVED" "si_id i = uuid_supply db"
    "left_stock_at i = None" "reserved_by_contract_id i = None" "si_vin i = sc_vin data"
    "cancelled_contracts db' = cancelled_contracts db" "vehicle_mdms db' = vehicle_mdms db" "item_ok i"
    "valuations db' = valuations db"
proof -
  obtain v seqs where al: "allocate_value t (stock_number_sequence db) = (v, seqs)"
    by (cases "allocate_value t (stock_number_sequence db)")
  define i where "i = new_stock_item now t data actor pref cl (uuid_supply db) (''S-'' @ pad6 v)"
  define db1 where "db1 = db\<lparr>stock_number_sequence := seqs, uuid_supply := uuid_supply db + 1, stock_items := stock_items db @ [i]\<rparr>"
  have iok: "item_ok i" using data by (simp add: i_def new_stock_item_ok)
  have vk: "vin_key i = None \<or> (\<forall>x \<in> set (stock_items db). vin_key x \<noteq> vin_key i)"
  proof (cases "sc_vin data")
    case (Some w)
    then have "\<forall>x \<in> set (stock_items db). \<not> (si_tenant_id x = t \<and> si_vin x = Some w \<and> left_stock_at x = None)"
      using vin [of w] by (simp add: item_in_stock_with_vin_def select_one_None_iff)
    then show ?thesis using Some by (auto simp: vin_key_def i_def split: if_splits)
  qed (simp add: vin_key_def i_def)
  have pk: "pipeline_key i = None \<or> (\<forall>x \<in> set (stock_items db). pipeline_key x \<noteq> pipeline_key i)"
    using pref by (cases pref) (auto simp: pipeline_key_def i_def)
  have inv1: "stock_inv db1"
    by (rule stock_inv_insert [OF inv iok _ _ vk pk, where v = v and seqs = seqs])
      (simp_all add: i_def db1_def al)
  have fl: "flush_stock_items db1 = Inr db1" using stock_inv_indexes [OF inv1] by (simp add: flush_stock_items_def)
  let ?db = "publish now (stock_event ''inventory.stock_item.added'' i
    ([(''stockNumber'', JStr (''S-'' @ pad6 v)), (''vehicleLabel'', JStr (si_vehicle_label i))] @ origin)) db1"
  have b: "build_and_flush_stock_item now t data actor pref origin cl db = Inr (?db, i)"
    using fl by (simp add: build_and_flush_stock_item_def allocate_stock_number_def al draw_uuid_def Let_def i_def db1_def)
  have "outbox_grows db db1" by (rule outbox_grows_sameI) (simp_all add: db1_def)
  then have grow: "outbox_grows db ?db" by (rule outbox_grows_trans) blast
  show thesis
    by (rule that [OF b]) (use inv1 grow iok in \<open>auto simp: db1_def i_def\<close>)
qed

section \<open>The other operations keep the invariant\<close>

text \<open>The fields the invariant is about, the purchase price apart.\<close>

definition same_core :: "stock_item \<Rightarrow> stock_item \<Rightarrow> bool" where
  "same_core i j \<longleftrightarrow> si_id j = si_id i \<and> si_tenant_id j = si_tenant_id i \<and> stock_number j = stock_number i
     \<and> pipeline_ref j = pipeline_ref i \<and> si_vin j = si_vin i \<and> left_stock_at j = left_stock_at i
     \<and> active_reservation_id j = active_reservation_id i \<and> reservation_state j = reservation_state i
     \<and> reserved_by_contract_id j = reserved_by_contract_id i \<and> lifecycle_status j = lifecycle_status i
     \<and> si_vehicle_id j = si_vehicle_id i \<and> in_stock_at j = in_stock_at i \<and> is_invoiceable j = is_invoiceable i
     \<and> (purchase_price i \<noteq> None \<longrightarrow> purchase_price j \<noteq> None)"

lemma item_ok_same_core: "same_core i j \<Longrightarrow> item_ok i \<Longrightarrow> item_ok j"
  unfolding same_core_def item_ok_def by (auto simp: item_ok_fields_def)

lemma stock_inv_save_plain:
  assumes "stock_inv db" "i \<in> set (stock_items db)" "same_core i i'"
  shows "stock_inv (save_stock_item now i' db)"
proof (rule stock_inv_save [OF assms(1,2)])
  show "item_ok i'" using assms by (auto intro: item_ok_same_core simp: stock_inv_def)
qed (use assms(3) in \<open>simp_all add: same_core_def vin_key_def\<close>)

lemma same_core_edits [simp]:
  "same_core i (updated_item ch actor i)" "same_core i (purchased_item dl data actor i)"
  "same_core i (i\<lparr>condition := c, si_updated_by := actor, si_version := v\<rparr>)"
  "same_core i (apply_valuation_ref vid am vt src i)"
  by (simp_all add: same_core_def updated_item_def purchased_item_def apply_valuation_ref_def Let_def)

lemma save_grows [intro, step_intros]: "outbox_grows db (save_stock_item now i db)"
  by (rule outbox_grows_sameI) simp_all

lemma publish_save_grows [intro, step_intros]: "outbox_grows db (publish now e (save_stock_item now' i db))"
  by (rule outbox_grows_trans [OF save_grows publish_grows])

lemma in_save:
  "stock_inv db \<Longrightarrow> i \<in> set (stock_items db) \<Longrightarrow> si_id i' = si_id i
    \<Longrightarrow> i'\<lparr>si_updated_at := now\<rparr> \<in> set (stock_items (save_stock_item now i' db))"
  by (force simp: stock_items_save set_update_where)

lemma item_ok_of: "stock_inv db \<Longrightarrow> i \<in> set (stock_items db) \<Longrightarrow> item_ok i"
  by (simp add: stock_inv_def)

lemma mark_purchased_keeps:
  assumes "stock_inv (save_stock_item now i db)" "i\<lparr>si_updated_at := now\<rparr> \<in> set (stock_items (save_stock_item now i db))"
    "item_ok i" "mark_purchased_if_ready now i (save_stock_item now i db) = (db', i', newly)"
  shows "stock_inv db'" "outbox_grows db db'"
    "i'\<lparr>si_updated_at := now\<rparr> \<in> set (stock_items db')"
    "is_invoiceable i' \<longleftrightarrow> is_invoiceable i \<or> (lifecycle_status i = IN_STOCK \<and> purchase_price i \<noteq> None)"
    "newly \<longleftrightarrow> is_invoiceable i' \<and> \<not> is_invoiceable i"
proof -
  let ?db = "save_stock_item now i db"
  let ?ready = "\<not> is_invoiceable i \<and> lifecycle_status i = IN_STOCK \<and> purchase_price i \<noteq> None"
  let ?i = "i\<lparr>is_invoiceable := True\<rparr>"
  have "stock_inv db' \<and> outbox_grows db db' \<and> i'\<lparr>si_updated_at := now\<rparr> \<in> set (stock_items db')
    \<and> (is_invoiceable i' \<longleftrightarrow> is_invoiceable i \<or> (lifecycle_status i = IN_STOCK \<and> purchase_price i \<noteq> None))
    \<and> (newly \<longleftrightarrow> is_invoiceable i' \<and> \<not> is_invoiceable i)"
  proof (cases ?ready)
    case False
    then have "mark_purchased_if_ready now i ?db = (?db, i, False)" unfolding mark_purchased_if_ready_def by auto
    then have eq: "db' = ?db" "i' = i" "\<not> newly" using assms(4) by simp_all
    show ?thesis unfolding eq(1,2) using False eq(3) assms(1,2) save_grows by blast
  next
    case True
    then have "mark_purchased_if_ready now i ?db = (publish now (stock_event ''inventory.stock_item.purchased'' ?i
        [(''stockNumber'', JStr (stock_number ?i))]) (save_stock_item now ?i ?db), ?i, True)"
      unfolding mark_purchased_if_ready_def Let_def by simp
    then have eq: "i' = ?i" "newly" "db' = publish now (stock_event ''inventory.stock_item.purchased'' ?i
        [(''stockNumber'', JStr (stock_number ?i))]) (save_stock_item now ?i ?db)"
      using assms(4) by simp_all
    have iok: "item_ok ?i" using assms(3) True unfolding item_ok_def by (auto simp: item_ok_fields_def)
    have inv: "stock_inv (save_stock_item now ?i ?db)"
      by (rule stock_inv_save [OF assms(1,2)]) (simp_all add: vin_key_def iok)
    have "outbox_grows db db'" unfolding eq(3) by (rule outbox_grows_trans [OF save_grows publish_save_grows])
    moreover have "?i\<lparr>si_updated_at := now\<rparr> \<in> set (stock_items (save_stock_item now ?i ?db))"
      by (rule in_save [OF assms(1,2)]) simp
    ultimately show ?thesis using True stock_inv_publish [OF inv] unfolding eq by (simp add: eq(2))
  qed
  then show "stock_inv db'" "outbox_grows db db'"
    "i'\<lparr>si_updated_at := now\<rparr> \<in> set (stock_items db')"
    "is_invoiceable i' \<longleftrightarrow> is_invoiceable i \<or> (lifecycle_status i = IN_STOCK \<and> purchase_price i \<noteq> None)"
    "newly \<longleftrightarrow> is_invoiceable i' \<and> \<not> is_invoiceable i" by blast+
qed

lemma record_purchase_keeps:
  assumes inv: "stock_inv db" and i: "i \<in> set (stock_items db)" and r: "record_purchase now i data actor db = Inr (db', i')"
  shows "stock_inv db'" "outbox_grows db db'"
proof -
  obtain dl newly where m: "mark_purchased_if_ready now (purchased_item dl data actor i)
      (save_stock_item now (purchased_item dl data actor i) db) = (db', i', newly)"
  proof -
    obtain dl where "(let item' = purchased_item dl data actor i;
           (db1, item1, newly) = mark_purchased_if_ready now item' (save_stock_item now item' db)
       in Inr (db1, item1)) = (Inr (db', i') :: exn + _)"
      using r unfolding record_purchase_def bindR_Inr_iff by blast
    then show thesis
      by (cases "mark_purchased_if_ready now (purchased_item dl data actor i) (save_stock_item now (purchased_item dl data actor i) db)")
        (simp add: Let_def that)
  qed
  let ?p = "purchased_item dl data actor i"
  have c: "same_core i ?p" by simp
  then have id: "si_id ?p = si_id i" by (simp add: same_core_def)
  have "stock_inv (save_stock_item now ?p db)" by (rule stock_inv_save_plain [OF inv i c])
  from mark_purchased_keeps [OF this in_save [OF inv i id] item_ok_same_core [OF c item_ok_of [OF inv i]] m]
  show "stock_inv db'" "outbox_grows db db'" by blast+
qed

lemma update_stock_item_keeps:
  assumes inv: "stock_inv db" and i: "i \<in> set (stock_items db)" and u: "update_stock_item now i ch actor db = Inr (db', i')"
  shows "stock_inv db'" "outbox_grows db db'"
proof -
  have db': "db' = save_stock_item now (updated_item ch actor i) db"
    using u by (auto simp: update_stock_item_def split: if_splits)
  show "stock_inv db'" unfolding db' by (rule stock_inv_save_plain [OF inv i]) simp
  show "outbox_grows db db'" unfolding db' ..
qed

lemma change_condition_keeps:
  assumes inv: "stock_inv db" and i: "i \<in> set (stock_items db)"
  shows "stock_inv (change_condition now i c actor db)" "outbox_grows db (change_condition now i c actor db)"
proof -
  let ?i = "i\<lparr>condition := c, si_updated_by := actor, si_version := si_version i + 1\<rparr>"
  have s: "stock_inv (save_stock_item now ?i db)"
    by (rule stock_inv_save_plain [OF inv i]) simp
  show "stock_inv (change_condition now i c actor db)"
    using s by (simp add: change_condition_def Let_def stock_inv_publish)
  show "outbox_grows db (change_condition now i c actor db)"
    by (simp add: change_condition_def Let_def save_grows publish_save_grows)
qed

lemma find_stock_item_SomeD:
  "find_stock_item t sid db = Some i \<Longrightarrow> i \<in> set (stock_items db) \<and> si_id i = sid \<and> si_tenant_id i = t"
  by (auto simp: find_stock_item_def dest: select_one_SomeD)

lemma get_stock_item_InrD:
  "get_stock_item_or_404 t sid db = Inr i \<Longrightarrow> i \<in> set (stock_items db) \<and> si_id i = sid \<and> si_tenant_id i = t"
  by (auto simp: get_stock_item_or_404_def split: option.splits dest: find_stock_item_SomeD)

lemma invoice_issued_keeps:
  assumes inv: "stock_inv db"
  shows "stock_inv (fst (apply_finance_invoice_issued now t sid ref db))"
    "outbox_grows db (fst (apply_finance_invoice_issued now t sid ref db))"
proof -
  have "stock_inv (fst (apply_finance_invoice_issued now t sid ref db))
    \<and> outbox_grows db (fst (apply_finance_invoice_issued now t sid ref db))"
  proof (cases "get_stock_item_or_404 t sid db")
    case (Inr i)
    have i: "i \<in> set (stock_items db)" using get_stock_item_InrD [OF Inr] by simp
    let ?i = "i\<lparr>left_stock_at := Some now, si_version := si_version i + 1\<rparr>"
    have aud: "stock_inv (db\<lparr>audit_events := a\<rparr>)" "outbox_grows db (db\<lparr>audit_events := a\<rparr>)" for a
      using stock_inv_cong [OF inv, of "db\<lparr>audit_events := a\<rparr>"] by (auto intro: outbox_grows_sameI)
    have "stock_inv (save_stock_item now ?i db)" if "is_invoiceable i"
    proof -
      have "item_ok ?i" using item_ok_of [OF inv i] that unfolding item_ok_def by (auto simp: item_ok_fields_def)
      then show ?thesis by (intro stock_inv_save [OF inv i]) (simp_all add: vin_key_def)
    qed
    then show ?thesis
      using aud inv Inr
      by (simp add: apply_finance_invoice_issued_def record_audit_event_def Let_def stock_inv_publish publish_save_grows)
  qed (simp add: apply_finance_invoice_issued_def inv)
  then show "stock_inv (fst (apply_finance_invoice_issued now t sid ref db))"
    "outbox_grows db (fst (apply_finance_invoice_issued now t sid ref db))" by blast+
qed

end
