(* ===== verification/Inventory_Reservation.thy ===== *)
theory Inventory_Reservation
  imports Inventory_Stock
begin

text \<open>
  Reservations and the pipeline (\<^verbatim>\<open>app/inventory/services/reservation.py, pipeline.py,
  reservation_sweep.py\<close>, \<^verbatim>\<open>app/inventory/consumers.py\<close>). A reservation binds a car to a contract; it
  is made by Sales' confirmation, by the HTTP endpoint, or by Stock's own consumer for a car ordered
  in the contract, and it is freed by a release, by the cancellation consumer or by the nightly sweep.
  Row and advisory locks serialise the transactions; the model runs them one after another.
\<close>

section \<open>Reserving and releasing\<close>

definition refuse_if_left_stock :: "stock_item \<Rightarrow> unit result" where
  "refuse_if_left_stock item =
     (if left_stock_at item \<noteq> None
      then Inl (ConflictError [(''reason'', JStr ''vehicle_left_stock''), (''stockItemId'', JUuid (si_id item))])
      else Inr ())"

definition reserve_and_flush ::
  "datetime \<Rightarrow> stock_item \<Rightarrow> uuid \<Rightarrow> 'a inventory_db_scheme \<Rightarrow> 'a inventory_db_scheme \<times> uuid" where
  "reserve_and_flush now item contract_id db =
     (let (reservation_id, db1) = draw_uuid db;
          item' = item\<lparr>reservation_state := RESERVED, reserved_by_contract_id := Some contract_id,
            active_reservation_id := Some reservation_id, si_version := si_version item + 1\<rparr>
      in (publish now (stock_event ''inventory.stock_item.reserved'' item'
            [(''reservationId'', JUuid reservation_id), (''contractId'', JUuid contract_id)])
            (save_stock_item now item' db1), reservation_id))"

definition release_and_flush ::
  "datetime \<Rightarrow> stock_item \<Rightarrow> 'a inventory_db_scheme \<Rightarrow> 'a inventory_db_scheme" where
  "release_and_flush now item db =
     (let item' = item\<lparr>reservation_state := NOT_RESERVED, reserved_by_contract_id := None,
            active_reservation_id := None, si_version := si_version item + 1\<rparr>
      in publish now (stock_event ''inventory.stock_item.released'' item'
           [(''reservationId'', json_opt JUuid (active_reservation_id item))]) (save_stock_item now item' db))"

definition already_reserved :: "uuid \<Rightarrow> exn" where
  "already_reserved stock_item_id = ConflictError [(''stockItemId'', JUuid stock_item_id)]"

definition reserve_response :: "uuid \<Rightarrow> uuid \<Rightarrow> json" where
  "reserve_response reservation_id stock_item_id =
     JObj [(''reservationId'', JUuid reservation_id), (''stockItemId'', JUuid stock_item_id)]"

definition reserve_path :: "uuid \<Rightarrow> string \<times> uuid option" where
  "reserve_path stock_item_id = (''inventory.reserve:'', Some stock_item_id)"

definition contract_body :: "uuid \<Rightarrow> json" where
  "contract_body contract_id = JObj [(''contractId'', JUuid contract_id)]"

text \<open>\<open>_reserve\<close>: \<open>reserve\<close> passes a key, \<open>reserve_without_key\<close> none.\<close>

definition reserve ::
  "datetime \<Rightarrow> uuid \<Rightarrow> uuid \<Rightarrow> uuid \<Rightarrow> string option \<Rightarrow> 'a inventory_db_scheme \<Rightarrow> ('a inventory_db_scheme \<times> json) result" where
  "reserve now tenant_id stock_item_id contract_id key db =
     bindR (case key of None \<Rightarrow> Inr None
            | Some k \<Rightarrow> find_cached_response tenant_id k (reserve_path stock_item_id) (contract_body contract_id) db) (\<lambda>cached.
     case cached of
       Some r \<Rightarrow> Inr (db, response_body r)
     | None \<Rightarrow> bindR (get_stock_item_or_404 tenant_id stock_item_id db) (\<lambda>item.
         bindR (refuse_if_left_stock item) (\<lambda>_.
         if reservation_state item = RESERVED then Inl (already_reserved stock_item_id)
         else let (db1, reservation_id) = reserve_and_flush now item contract_id db;
                  resp = reserve_response reservation_id (si_id item)
              in bindR (case key of None \<Rightarrow> Inr db1
                        | Some k \<Rightarrow> store_response now tenant_id k (reserve_path stock_item_id)
                            (contract_body contract_id) 201 resp db1) (\<lambda>db2. Inr (db2, resp)))))"

text \<open>
  Sales' entry, idempotent by item and contract. The read of the cached response happens under the
  row lock, after the lookup.
\<close>

definition reserve_for_contract ::
  "datetime \<Rightarrow> uuid \<Rightarrow> uuid \<Rightarrow> uuid \<Rightarrow> string \<Rightarrow> 'a inventory_db_scheme \<Rightarrow> ('a inventory_db_scheme \<times> json) result" where
  "reserve_for_contract now tenant_id stock_item_id contract_id key db =
     bindR (get_stock_item_or_404 tenant_id stock_item_id db) (\<lambda>item.
     bindR (find_cached_response tenant_id key (reserve_path stock_item_id) (contract_body contract_id) db) (\<lambda>cached.
     if reservation_state item = RESERVED \<and> reserved_by_contract_id item = Some contract_id
     then Inr (db, JObj [(''reservationId'', json_opt JUuid (active_reservation_id item)), (''stockItemId'', JUuid (si_id item))])
     else bindR (refuse_if_left_stock item) (\<lambda>_.
       if reservation_state item = RESERVED then Inl (already_reserved stock_item_id)
       else let (db1, reservation_id) = reserve_and_flush now item contract_id db;
                resp = reserve_response reservation_id (si_id item)
            in if cached = None
               then bindR (store_response now tenant_id key (reserve_path stock_item_id)
                      (contract_body contract_id) 201 resp db1) (\<lambda>db2. Inr (db2, resp))
               else Inr (db1, resp))))"

definition find_reserved_item :: "uuid \<Rightarrow> uuid \<Rightarrow> 'a inventory_db_scheme \<Rightarrow> stock_item option" where
  "find_reserved_item tenant_id reservation_id db =
     select_one (\<lambda>i. si_tenant_id i = tenant_id \<and> active_reservation_id i = Some reservation_id) (stock_items db)"

text \<open>\<open>_release\<close>.\<close>

definition release ::
  "datetime \<Rightarrow> uuid \<Rightarrow> uuid \<Rightarrow> string option \<Rightarrow> 'a inventory_db_scheme \<Rightarrow> ('a inventory_db_scheme \<times> json) result" where
  "release now tenant_id reservation_id key db =
     (let path = (''inventory.release:'', Some reservation_id); body = JObj []
      in bindR (case key of None \<Rightarrow> Inr None | Some k \<Rightarrow> find_cached_response tenant_id k path body db) (\<lambda>cached.
         case cached of
           Some r \<Rightarrow> Inr (db, response_body r)
         | None \<Rightarrow> (case find_reserved_item tenant_id reservation_id db of
             None \<Rightarrow> Inl (NotFoundError [])
           | Some item \<Rightarrow>
               let db1 = release_and_flush now item db; resp = JObj [(''stockItemId'', JUuid (si_id item))]
               in bindR (case key of None \<Rightarrow> Inr db1
                         | Some k \<Rightarrow> store_response now tenant_id k path body 200 resp db1) (\<lambda>db2. Inr (db2, resp)))))"

section \<open>Cancelled contracts\<close>

definition contract_is_cancelled :: "uuid \<Rightarrow> uuid \<Rightarrow> 'a inventory_db_scheme \<Rightarrow> bool" where
  "contract_is_cancelled tenant_id contract_id db \<longleftrightarrow>
     select_one (\<lambda>c. cc_tenant_id c = tenant_id \<and> cc_contract_id c = contract_id) (cancelled_contracts db) \<noteq> None"

definition held_by :: "uuid \<Rightarrow> uuid \<Rightarrow> stock_item \<Rightarrow> bool" where
  "held_by tenant_id contract_id i \<longleftrightarrow> si_tenant_id i = tenant_id \<and> reserved_by_contract_id i = Some contract_id
     \<and> reservation_state i = RESERVED"

fun release_all :: "datetime \<Rightarrow> stock_item list \<Rightarrow> 'a inventory_db_scheme \<Rightarrow> 'a inventory_db_scheme" where
  "release_all now [] db = db"
| "release_all now (i # is) db = release_all now is (release_and_flush now i db)"

definition record_contract_cancelled ::
  "datetime \<Rightarrow> uuid \<Rightarrow> uuid \<Rightarrow> string \<Rightarrow> datetime \<Rightarrow> 'a inventory_db_scheme \<Rightarrow> 'a inventory_db_scheme" where
  "record_contract_cancelled now tenant_id contract_id label cancelled_at db =
     (let db1 = (if contract_is_cancelled tenant_id contract_id db then db
            else db\<lparr>cancelled_contracts := cancelled_contracts db @
              [\<lparr>cc_tenant_id = tenant_id, cc_contract_id = contract_id, cc_contract_label = label,
                cc_contract_denorm_refreshed_at = cancelled_at, cc_cancelled_at = cancelled_at\<rparr>]\<rparr>)
      in release_all now (select_all (held_by tenant_id contract_id) (stock_items db1)) db1)"

section \<open>Pipeline items of a confirmed contract\<close>

definition find_pipeline_item :: "uuid \<Rightarrow> pipeline_reference \<Rightarrow> 'a inventory_db_scheme \<Rightarrow> stock_item option" where
  "find_pipeline_item tenant_id pref db =
     select_one (\<lambda>i. si_tenant_id i = tenant_id \<and> pipeline_ref i = Some pref) (stock_items db)"

text \<open>
  \<open>db0\<close> is the database at the transaction's start: the rollback after an index violation discards
  all of the transaction's earlier writes.
\<close>

definition create_pipeline_item_idempotent ::
  "datetime \<Rightarrow> 'a inventory_db_scheme \<Rightarrow> uuid \<Rightarrow> string \<Rightarrow> stock_item_condition \<Rightarrow> pipeline_reference \<Rightarrow> payload \<Rightarrow> uuid option
     \<Rightarrow> 'a inventory_db_scheme \<Rightarrow> ('a inventory_db_scheme \<times> stock_item \<times> bool) result" where
  "create_pipeline_item_idempotent now db0 tenant_id label cond pref origin configuration_id db =
     (case find_pipeline_item tenant_id pref db of
        Some existing \<Rightarrow> Inr (db, existing, False)
      | None \<Rightarrow>
          let data = \<lparr>sc_vehicle_label = label, sc_condition = cond, sc_location_id = None, sc_odometer_km = None,
                sc_list_price = None, sc_effective_price = None, sc_first_registration_date = None,
                sc_vehicle_id = None, sc_vin = None, sc_configuration_id = configuration_id\<rparr>
          in case build_and_flush_stock_item now tenant_id data None (Some pref) origin
                 (if configuration_id \<noteq> None then Some label else None) db of
               Inr (db1, item) \<Rightarrow> Inr (db1, item, True)
             | Inl IntegrityError \<Rightarrow> (case find_pipeline_item tenant_id pref db0 of
                 None \<Rightarrow> Inl IntegrityError | Some existing \<Rightarrow> Inr (db0, existing, False))
             | Inl e \<Rightarrow> Inl e)"

text \<open>Reading the event's payload: \<open>payload["k"]\<close>, \<open>payload.get("k")\<close>, and the typed values.\<close>

definition get_item :: "string \<Rightarrow> payload \<Rightarrow> json result" where
  "get_item k pl = (case map_of pl k of None \<Rightarrow> Inl KeyError | Some v \<Rightarrow> Inr v)"

definition get_opt :: "string \<Rightarrow> payload \<Rightarrow> json option" where
  "get_opt k pl = (case map_of pl k of None \<Rightarrow> None | Some JNull \<Rightarrow> None | Some v \<Rightarrow> Some v)"

definition as_uuid :: "json \<Rightarrow> uuid result" where
  "as_uuid j = (case j of JUuid u \<Rightarrow> Inr u | _ \<Rightarrow> Inl ValueError)"

definition as_str :: "json \<Rightarrow> string result" where
  "as_str j = (case j of JStr s \<Rightarrow> Inr s | _ \<Rightarrow> Inl ValueError)"

definition as_obj :: "json \<Rightarrow> payload result" where
  "as_obj j = (case j of JObj kvs \<Rightarrow> Inr kvs | _ \<Rightarrow> Inl TypeError)"

definition condition_of_text :: "json \<Rightarrow> stock_item_condition result" where
  "condition_of_text j = (if j = JStr ''new'' then Inr NEW else if j = JStr ''used'' then Inr COND_USED
     else if j = JStr ''demo'' then Inr DEMO else if j = JStr ''tagesz'' then Inr TAGESZ else Inl ValueError)"

definition opt_uuid :: "json option \<Rightarrow> uuid option result" where
  "opt_uuid j = (case j of None \<Rightarrow> Inr None | Some v \<Rightarrow> bindR (as_uuid v) (\<lambda>u. Inr (Some u)))"

text \<open>\<open>d.get("condition", default)\<close>: the default stands in only for an absent key.\<close>

definition condition_in :: "stock_item_condition \<Rightarrow> payload \<Rightarrow> stock_item_condition result" where
  "condition_in dflt pl = (case map_of pl ''condition'' of None \<Rightarrow> Inr dflt | Some j \<Rightarrow> condition_of_text j)"

definition origin_of :: "uuid \<Rightarrow> string \<Rightarrow> payload" where
  "origin_of contract_id role = [(''originContractId'', JUuid contract_id), (''originRole'', JStr role)]"

text \<open>The vehicle a sub-object of the payload describes: label, condition, configuration.\<close>

definition described_vehicle ::
  "stock_item_condition \<Rightarrow> payload \<Rightarrow> (string \<times> stock_item_condition \<times> uuid option) result" where
  "described_vehicle dflt kvs =
     bindR (bindR (get_item ''vehicleLabel'' kvs) as_str) (\<lambda>label.
     bindR (condition_in dflt kvs) (\<lambda>cond.
     bindR (opt_uuid (get_opt ''configurationId'' kvs)) (\<lambda>cid. Inr (label, cond, cid))))"

definition confirm_manual_configuration ::
  "datetime \<Rightarrow> 'a inventory_db_scheme \<Rightarrow> uuid \<Rightarrow> uuid \<Rightarrow> payload \<Rightarrow> 'a inventory_db_scheme \<Rightarrow> 'a inventory_db_scheme result" where
  "confirm_manual_configuration now db0 tenant_id contract_id kvs db =
     bindR (described_vehicle NEW kvs) (\<lambda>(label, cond, cid).
     bindR (create_pipeline_item_idempotent now db0 tenant_id label cond (contract_id, ManualConfiguration)
        (origin_of contract_id ''manual_configuration'') cid db) (\<lambda>(db1, ordered, created).
     Inr (if created \<and> \<not> contract_is_cancelled tenant_id contract_id db1
          then fst (reserve_and_flush now ordered contract_id db1) else db1)))"

definition source_text :: "valuation_source \<Rightarrow> string" where
  "source_text s = (case s of AUTO_I_DAT \<Rightarrow> ''auto_i_dat'' | MANUAL \<Rightarrow> ''manual'')"

definition confirm_trade_in ::
  "datetime \<Rightarrow> 'a inventory_db_scheme \<Rightarrow> uuid \<Rightarrow> uuid \<Rightarrow> payload \<Rightarrow> 'a inventory_db_scheme \<Rightarrow> 'a inventory_db_scheme result" where
  "confirm_trade_in now db0 tenant_id contract_id kvs db =
     bindR (described_vehicle COND_USED kvs) (\<lambda>(label, cond, cid).
     bindR (create_pipeline_item_idempotent now db0 tenant_id label cond (contract_id, TradeIn)
        (origin_of contract_id ''trade_in'') cid db) (\<lambda>(db1, item, created).
     bindR (opt_uuid (get_opt ''valuationId'' kvs)) (\<lambda>vid.
     case vid of None \<Rightarrow> Inr db1
     | Some v \<Rightarrow> bindR (get_valuation_or_404 tenant_id v db1) (\<lambda>valuation.
         Inr (save_stock_item now (apply_valuation_ref (val_id valuation) (final_offer valuation)
           (val_created_at valuation) (source_text (val_source valuation)) item) db1)))))"

definition handle_sales_contract_confirmed ::
  "datetime \<Rightarrow> uuid \<Rightarrow> payload \<Rightarrow> 'a inventory_db_scheme \<Rightarrow> 'a inventory_db_scheme result" where
  "handle_sales_contract_confirmed now tenant_id pl db =
     bindR (bindR (get_item ''contractId'' pl) as_uuid) (\<lambda>contract_id.
     bindR (case get_opt ''manualConfiguration'' pl of None \<Rightarrow> Inr db
            | Some j \<Rightarrow> bindR (as_obj j) (\<lambda>kvs. confirm_manual_configuration now db tenant_id contract_id kvs db)) (\<lambda>db1.
     case get_opt ''tradeIn'' pl of None \<Rightarrow> Inr db1
     | Some j \<Rightarrow> bindR (as_obj j) (\<lambda>kvs. confirm_trade_in now db tenant_id contract_id kvs db1)))"

section \<open>Promotion\<close>

text \<open>The VIN arrives: the register is resolved on its own committed session.\<close>

definition promote_to_vehicle_mdm ::
  "datetime \<Rightarrow> stock_item \<Rightarrow> string \<Rightarrow> uuid option \<Rightarrow> 'a inventory_db_scheme \<Rightarrow> 'a inventory_db_scheme \<times> stock_item result" where
  "promote_to_vehicle_mdm now item raw_vin variant db =
     (case normalised_vin raw_vin of
        Inl _ \<Rightarrow> (db, Inl (UnprocessableEntityError [(''reason'', JStr ''invalid_vin'')]))
      | Inr vin \<Rightarrow>
          if si_vehicle_id item \<noteq> None \<and> si_vin item = Some vin then (db, Inr item)
          else if lifecycle_status item \<noteq> PIPELINE
          then (db, Inl (ConflictError [(''stockItemId'', JUuid (si_id item))]))
          else (case bindR (check_vin_not_in_stock (si_tenant_id item) vin db)
                       (\<lambda>_. resolve_vehicle_mdm_by_vin id vin variant None db) of
                  Inl e \<Rightarrow> (db, Inl e)
                | Inr (db1, vehicle) \<Rightarrow>
                    let item' = item\<lparr>si_vehicle_id := Some (mdm_id vehicle), si_vin := Some (mdm_vin vehicle),
                          lifecycle_status := IN_STOCK, in_stock_at := Some now, si_version := si_version item + 1\<rparr>
                    in (case flush_stock_items (save_stock_item now item' db1) of
                          Inl e \<Rightarrow> (db1, case item_in_stock_with_vin (si_tenant_id item) vin db1 of
                              None \<Rightarrow> Inl e | Some holder \<Rightarrow> Inl (vin_already_in_stock holder))
                        | Inr db2 \<Rightarrow>
                            let db3 = publish now (stock_event ''inventory.pipeline_vehicle.vin_assigned'' item'
                                  [(''vin'', JStr vin), (''vehicleId'', JUuid (mdm_id vehicle))]) db2;
                                (db4, item2, newly) = mark_purchased_if_ready now item' db3
                            in (db4, Inr item2))))"

section \<open>Consumers\<close>

definition handle_sales_contract_confirmed_message ::
  "datetime \<Rightarrow> outbox_message \<Rightarrow> 'a inventory_db_scheme \<Rightarrow> 'a inventory_db_scheme result" where
  "handle_sales_contract_confirmed_message now m db = (case msg_tenant_id m of
     None \<Rightarrow> Inl ValueError
   | Some tenant_id \<Rightarrow> handle_sales_contract_confirmed now tenant_id (msg_payload m) db)"

definition handle_sales_contract_cancelled_message ::
  "datetime \<Rightarrow> outbox_message \<Rightarrow> 'a inventory_db_scheme \<Rightarrow> 'a inventory_db_scheme result" where
  "handle_sales_contract_cancelled_message now m db = (case msg_tenant_id m of
     None \<Rightarrow> Inl ValueError
   | Some tenant_id \<Rightarrow> bindR (bindR (get_item ''contractNumber'' (msg_payload m)) as_str) (\<lambda>label.
       Inr (record_contract_cancelled now tenant_id (aggregate_id m) label (occurred_at m) db)))"

section \<open>The nightly sweep\<close>

datatype contract_status = CT_PENDING | CT_CONFIRMED | CT_INVOICED | CT_CANCELLED

definition pending_margin :: int where
  "pending_margin = hour_us"

record sweep_reservation =
  sr_tenant_id :: uuid
  sr_stock_item_id :: uuid
  sr_reservation_id :: uuid
  sr_contract_id :: "uuid option"
  sr_reserved_at :: datetime

definition list_reservations :: "'a inventory_db_scheme \<Rightarrow> sweep_reservation list" where
  "list_reservations db = List.map_filter (\<lambda>i. case active_reservation_id i of
       None \<Rightarrow> None
     | Some rid \<Rightarrow> if reservation_state i = RESERVED
         then Some \<lparr>sr_tenant_id = si_tenant_id i, sr_stock_item_id = si_id i, sr_reservation_id = rid,
                sr_contract_id = reserved_by_contract_id i, sr_reserved_at = si_updated_at i\<rparr> else None)
     (sort_key si_tenant_id (sort_key si_id (stock_items db)))"

record sweep_result =
  sweep_released :: "uuid list"
  sweep_kept_signed :: nat
  sweep_kept_recent :: nat
  sweep_changed :: nat
  sweep_failed :: "uuid list"

definition sweep_key :: "uuid \<Rightarrow> string" where
  "sweep_key rid = ''inventory.reservation_sweep:'' @ digits_of_nat rid"

text \<open>One release, on its own session: any failure leaves the database as it was.\<close>

definition release_one ::
  "datetime \<Rightarrow> sweep_reservation \<Rightarrow> 'a inventory_db_scheme \<times> sweep_result \<Rightarrow> 'a inventory_db_scheme \<times> sweep_result" where
  "release_one now r = (\<lambda>(db, res).
     case release now (sr_tenant_id r) (sr_reservation_id r) (Some (sweep_key (sr_reservation_id r))) db of
       Inl (NotFoundError _) \<Rightarrow> (db, res\<lparr>sweep_changed := sweep_changed res + 1\<rparr>)
     | Inl _ \<Rightarrow> (db, res\<lparr>sweep_failed := sweep_failed res @ [sr_stock_item_id r]\<rparr>)
     | Inr (db', _) \<Rightarrow> (db', res\<lparr>sweep_released := sweep_released res @ [sr_stock_item_id r]\<rparr>))"

text \<open>\<open>statuses\<close> is Sales' answer per tenant, read before the tenant's releases.\<close>

definition reservation_status ::
  "(uuid \<Rightarrow> uuid \<Rightarrow> contract_status option) \<Rightarrow> sweep_reservation \<Rightarrow> contract_status option" where
  "reservation_status statuses r = Option.bind (sr_contract_id r) (statuses (sr_tenant_id r))"

definition sweep_reservation_step ::
  "datetime \<Rightarrow> (uuid \<Rightarrow> uuid \<Rightarrow> contract_status option) \<Rightarrow> sweep_reservation
     \<Rightarrow> 'a inventory_db_scheme \<times> sweep_result \<Rightarrow> 'a inventory_db_scheme \<times> sweep_result" where
  "sweep_reservation_step now statuses r st =
     (let status = reservation_status statuses r in
      if status = Some CT_CONFIRMED \<or> status = Some CT_INVOICED
      then apsnd (\<lambda>res. res\<lparr>sweep_kept_signed := sweep_kept_signed res + 1\<rparr>) st
      else if status = Some CT_PENDING \<and> now - sr_reserved_at r < pending_margin
      then apsnd (\<lambda>res. res\<lparr>sweep_kept_recent := sweep_kept_recent res + 1\<rparr>) st
      else release_one now r st)"

definition release_orphaned_reservations ::
  "datetime \<Rightarrow> (uuid \<Rightarrow> uuid \<Rightarrow> contract_status option) \<Rightarrow> 'a inventory_db_scheme \<Rightarrow> 'a inventory_db_scheme \<times> sweep_result" where
  "release_orphaned_reservations now statuses db =
     fold (sweep_reservation_step now statuses) (list_reservations db)
       (db, \<lparr>sweep_released = [], sweep_kept_signed = 0, sweep_kept_recent = 0, sweep_changed = 0, sweep_failed = []\<rparr>)"

section \<open>Lookups after a save\<close>

lemma find_stock_item_iff:
  assumes "distinct (map si_id (stock_items db))"
  shows "find_stock_item t s db = Some x \<longleftrightarrow> x \<in> set (stock_items db) \<and> si_id x = s \<and> si_tenant_id x = t"
proof
  assume x: "x \<in> set (stock_items db) \<and> si_id x = s \<and> si_tenant_id x = t"
  obtain y where y: "find_stock_item t s db = Some y"
    using x unfolding find_stock_item_def
    by (cases "select_one (\<lambda>i. si_id i = s \<and> si_tenant_id i = t) (stock_items db)") (auto simp: select_one_None_iff)
  then have "y = x" using x find_stock_item_SomeD [OF y] distinct_key_unique [OF assms] by metis
  then show "find_stock_item t s db = Some x" using y by simp
qed (auto dest: find_stock_item_SomeD)

lemma option_eqI: "(\<And>x. a = Some x \<longleftrightarrow> b = Some x) \<Longrightarrow> a = b"
  by (metis option.exhaust)

lemma find_stock_item_cong: "stock_items db' = stock_items db \<Longrightarrow> find_stock_item t s db' = find_stock_item t s db"
  by (simp add: find_stock_item_def)

lemma map_id_save: "map si_id (stock_items (save_stock_item now i db)) = map si_id (stock_items db)"
  unfolding stock_items_save by (rule map_update_where) simp

lemma find_save:
  assumes inv: "stock_inv db" and i: "i \<in> set (stock_items db)" "si_id i' = si_id i" "si_tenant_id i' = si_tenant_id i"
  shows "find_stock_item t s (save_stock_item now i' db)
    = (if s = si_id i \<and> t = si_tenant_id i then Some (i'\<lparr>si_updated_at := now\<rparr>) else find_stock_item t s db)"
proof -
  let ?rows = "update_where (\<lambda>r. si_id r = si_id i') (\<lambda>_. i'\<lparr>si_updated_at := now\<rparr>) (stock_items db)"
  have dist: "distinct (map si_id (stock_items db))" using inv by (simp add: stock_inv_def)
  have dist': "distinct (map si_id (stock_items (save_stock_item now i' db)))"
    using dist by (simp only: map_id_save)
  have only: "x = i" if "x \<in> set (stock_items db)" "si_id x = si_id i" for x
    using distinct_key_unique [OF dist that(1) i(1) that(2)] .
  have mem: "x \<in> set ?rows \<longleftrightarrow> (x \<in> set (stock_items db) \<and> si_id x \<noteq> si_id i) \<or> x = i'\<lparr>si_updated_at := now\<rparr>" for x
    using i by (auto simp: set_update_where)
  show ?thesis
    by (rule option_eqI)
      (use only i mem in \<open>auto simp: find_stock_item_iff [OF dist'] find_stock_item_iff [OF dist] stock_items_save\<close>)
qed

section \<open>Reserving and releasing keep the invariant\<close>

text \<open>Who holds a car: the contract and the reservation, when it is reserved.\<close>

definition holder :: "uuid \<Rightarrow> uuid \<Rightarrow> 'a inventory_db_scheme \<Rightarrow> (uuid \<times> uuid) option" where
  "holder t s db = (case find_stock_item t s db of
     None \<Rightarrow> None
   | Some i \<Rightarrow> (case (reservation_state i, reserved_by_contract_id i, active_reservation_id i) of
       (RESERVED, Some c, Some r) \<Rightarrow> Some (c, r) | _ \<Rightarrow> None))"

lemma holder_cong: "stock_items db' = stock_items db \<Longrightarrow> holder t s db' = holder t s db"
  by (simp add: holder_def find_stock_item_def)

lemma holder_iff:
  assumes "stock_inv db" "find_stock_item t s db = Some i"
  shows "holder t s db = Some (c, r) \<longleftrightarrow>
    reservation_state i = RESERVED \<and> reserved_by_contract_id i = Some c \<and> active_reservation_id i = Some r"
  using assms by (auto simp: holder_def split: option.splits reservation_state.splits)

lemma holder_None_iff:
  assumes "stock_inv db" "find_stock_item t s db = Some i"
  shows "holder t s db = None \<longleftrightarrow> reservation_state i = NOT_RESERVED"
proof -
  have "item_ok i" using assms find_stock_item_SomeD item_ok_of by blast
  then show ?thesis
    using assms(2) unfolding item_ok_def item_ok_fields_def holder_def
    by (cases "reservation_state i") (auto split: option.splits)
qed

lemma reserve_and_flush_effect:
  assumes inv: "stock_inv db" and i: "i \<in> set (stock_items db)" and r: "reserve_and_flush now i c db = (db', rid)"
  shows "stock_inv db'" "outbox_grows db db'" "rid = uuid_supply db"
    "holder t s db' = (if s = si_id i \<and> t = si_tenant_id i then Some (c, rid) else holder t s db)"
    "idempotency_records db' = idempotency_records db" "cancelled_contracts db' = cancelled_contracts db"
    "valuations db' = valuations db"
    "\<exists>j. find_stock_item t s db' = (if s = si_id i \<and> t = si_tenant_id i then Some j else find_stock_item t s db)
       \<and> j = i\<lparr>reservation_state := RESERVED, reserved_by_contract_id := Some c, active_reservation_id := Some rid,
              si_version := si_version i + 1, si_updated_at := now\<rparr>"
proof -
  let ?db1 = "db\<lparr>uuid_supply := uuid_supply db + 1\<rparr>"
  let ?i = "i\<lparr>reservation_state := RESERVED, reserved_by_contract_id := Some c,
    active_reservation_id := Some (uuid_supply db), si_version := si_version i + 1\<rparr>"
  have eq: "db' = publish now (stock_event ''inventory.stock_item.reserved'' ?i
      [(''reservationId'', JUuid (uuid_supply db)), (''contractId'', JUuid c)]) (save_stock_item now ?i ?db1)"
    and rid: "rid = uuid_supply db"
    using r by (auto simp: reserve_and_flush_def draw_uuid_def Let_def)
  have "item_ok ?i" using item_ok_of [OF inv i] unfolding item_ok_def by (auto simp: item_ok_fields_def)
  then have "stock_inv (save_stock_item now ?i ?db1)"
    by (intro stock_inv_save [OF inv i]) (simp_all add: vin_key_def)
  then show "stock_inv db'" unfolding eq by (rule stock_inv_publish)
  have inv1: "stock_inv ?db1" by (rule stock_inv_cong [OF inv]) simp_all
  have fnd: "find_stock_item t s db' = (if s = si_id i \<and> t = si_tenant_id i then Some (?i\<lparr>si_updated_at := now\<rparr>)
      else find_stock_item t s db)" for t s
    unfolding eq using find_save [OF inv1, of i ?i t s now] i
    by (simp add: find_stock_item_def cong: if_cong)
  then show "\<exists>j. find_stock_item t s db' = (if s = si_id i \<and> t = si_tenant_id i then Some j else find_stock_item t s db)
       \<and> j = i\<lparr>reservation_state := RESERVED, reserved_by_contract_id := Some c, active_reservation_id := Some rid,
              si_version := si_version i + 1, si_updated_at := now\<rparr>"
    by (simp add: rid)
  show "holder t s db' = (if s = si_id i \<and> t = si_tenant_id i then Some (c, rid) else holder t s db)"
    by (simp add: holder_def fnd rid)
  have "outbox_grows db ?db1" by (rule outbox_grows_sameI) simp_all
  then show "outbox_grows db db'" unfolding eq by (rule outbox_grows_trans) (rule publish_save_grows)
qed (use r in \<open>auto simp: reserve_and_flush_def draw_uuid_def Let_def\<close>)

lemma release_and_flush_effect:
  assumes inv: "stock_inv db" and i: "i \<in> set (stock_items db)"
  shows "stock_inv (release_and_flush now i db)" "outbox_grows db (release_and_flush now i db)"
    "holder t s (release_and_flush now i db) = (if s = si_id i \<and> t = si_tenant_id i then None else holder t s db)"
    "idempotency_records (release_and_flush now i db) = idempotency_records db"
    "cancelled_contracts (release_and_flush now i db) = cancelled_contracts db"
    "find_stock_item t s (release_and_flush now i db) = (if s = si_id i \<and> t = si_tenant_id i
       then Some (i\<lparr>reservation_state := NOT_RESERVED, reserved_by_contract_id := None,
            active_reservation_id := None, si_version := si_version i + 1, si_updated_at := now\<rparr>) else find_stock_item t s db)"
proof -
  let ?i = "i\<lparr>reservation_state := NOT_RESERVED, reserved_by_contract_id := None,
            active_reservation_id := None, si_version := si_version i + 1\<rparr>"
  have eq: "release_and_flush now i db = publish now (stock_event ''inventory.stock_item.released'' ?i
      [(''reservationId'', json_opt JUuid (active_reservation_id i))]) (save_stock_item now ?i db)"
    by (simp add: release_and_flush_def Let_def)
  have "item_ok ?i" using item_ok_of [OF inv i] unfolding item_ok_def by (auto simp: item_ok_fields_def)
  then have "stock_inv (save_stock_item now ?i db)"
    by (intro stock_inv_save [OF inv i]) (simp_all add: vin_key_def)
  then show "stock_inv (release_and_flush now i db)" unfolding eq by (rule stock_inv_publish)
  have fnd: "find_stock_item t s (release_and_flush now i db) = (if s = si_id i \<and> t = si_tenant_id i
      then Some (?i\<lparr>si_updated_at := now\<rparr>) else find_stock_item t s db)" for t s
    unfolding eq using find_save [OF inv i, of ?i t s now] by (simp add: find_stock_item_def cong: if_cong)
  then show "find_stock_item t s (release_and_flush now i db) = (if s = si_id i \<and> t = si_tenant_id i
       then Some (i\<lparr>reservation_state := NOT_RESERVED, reserved_by_contract_id := None,
            active_reservation_id := None, si_version := si_version i + 1, si_updated_at := now\<rparr>) else find_stock_item t s db)"
    by simp
  show "holder t s (release_and_flush now i db) = (if s = si_id i \<and> t = si_tenant_id i then None else holder t s db)"
    by (simp add: holder_def fnd)
  show "outbox_grows db (release_and_flush now i db)" unfolding eq by (rule publish_save_grows)
  show "idempotency_records (release_and_flush now i db) = idempotency_records db"
    "cancelled_contracts (release_and_flush now i db) = cancelled_contracts db" by (simp_all add: eq)
qed

lemma store_response_effect:
  assumes "store_response now t k path body st resp db = Inr db'"
  shows "stock_items db' = stock_items db" "stock_inv db \<Longrightarrow> stock_inv db'" "outbox_grows db db'"
    "\<And>t s. holder t s db' = holder t s db" "cancelled_contracts db' = cancelled_contracts db"
proof -
  obtain rs where db': "db' = db\<lparr>idempotency_records := rs\<rparr>"
    using assms by (auto simp: store_response_def split: if_splits)
  show "stock_items db' = stock_items db" "cancelled_contracts db' = cancelled_contracts db" by (simp_all add: db')
  show "stock_inv db \<Longrightarrow> stock_inv db'" by (erule stock_inv_cong) (simp_all add: db')
  show "outbox_grows db db'" by (rule outbox_grows_sameI) (simp_all add: db')
  show "\<And>t s. holder t s db' = holder t s db" by (rule holder_cong) (simp add: db')
qed

section \<open>The reservation desk\<close>

lemma find_cached_cong:
  "idempotency_records db' = idempotency_records db \<Longrightarrow> find_cached_response t k p b db' = find_cached_response t k p b db"
  by (simp add: find_cached_response_def)

lemma refuse_left_iff [simp]: "refuse_if_left_stock i = Inr u \<longleftrightarrow> left_stock_at i = None"
  by (simp add: refuse_if_left_stock_def)

text \<open>The key may be used for this item and contract: unused, or used for them before.\<close>

definition reserve_key_ok :: "uuid \<Rightarrow> uuid \<Rightarrow> uuid \<Rightarrow> string \<Rightarrow> 'a inventory_db_scheme \<Rightarrow> bool" where
  "reserve_key_ok t s c k db \<longleftrightarrow> is_ok (find_cached_response t k (reserve_path s) (contract_body c) db)"

definition fresh_key :: "uuid \<Rightarrow> string \<Rightarrow> 'a inventory_db_scheme \<Rightarrow> bool" where
  "fresh_key t k db \<longleftrightarrow> (\<forall>r \<in> set (idempotency_records db). \<not> (idempotency_key r = k \<and> idem_tenant_id r = t))"

definition available :: "uuid \<Rightarrow> uuid \<Rightarrow> 'a inventory_db_scheme \<Rightarrow> bool" where
  "available t s db \<longleftrightarrow> (\<exists>i. find_stock_item t s db = Some i \<and> left_stock_at i = None)"

lemma fresh_key_find: "fresh_key t k db \<Longrightarrow> find_cached_response t k p b db = Inr None"
  by (auto simp: fresh_key_def find_cached_response_def select_one_None_iff split: option.splits dest: select_one_SomeD)

lemma fresh_key_store: "fresh_key t k db \<Longrightarrow> \<exists>db'. store_response now t k p b st resp db = Inr db'"
  by (auto simp: fresh_key_def store_response_def select_one_None_iff)

lemma find_None_fresh: "find_cached_response t k p b db = Inr None \<Longrightarrow> fresh_key t k db"
  by (auto simp: fresh_key_def find_cached_response_def select_one_None_iff split: option.splits if_splits)

lemma holder_find: "holder t s db = Some (c, r) \<Longrightarrow> \<exists>i. find_stock_item t s db = Some i \<and> reservation_state i = RESERVED
    \<and> reserved_by_contract_id i = Some c \<and> active_reservation_id i = Some r"
  by (auto simp: holder_def split: option.splits reservation_state.splits)

lemma reserve_again:
  assumes "holder t s db = Some (c, r)" "reserve_key_ok t s c k db"
  shows "reserve_for_contract now t s c k db = Inr (db, reserve_response r s)"
proof -
  obtain i where i: "find_stock_item t s db = Some i" "reservation_state i = RESERVED"
    "reserved_by_contract_id i = Some c" "active_reservation_id i = Some r"
    using holder_find [OF assms(1)] by blast
  moreover have "si_id i = s" using find_stock_item_SomeD [OF i(1)] by simp
  ultimately show ?thesis
    using assms(2) by (auto simp: reserve_for_contract_def get_stock_item_or_404_def reserve_key_ok_def is_ok_def
        reserve_response_def)
qed

lemma reserve_new:
  assumes inv: "stock_inv db" and f: "find_stock_item t s db = Some i" "reservation_state i = NOT_RESERVED"
    "left_stock_at i = None" and k: "reserve_key_ok t s c k db"
  obtains db' where "reserve_for_contract now t s c k db = Inr (db', reserve_response (uuid_supply db) s)"
    "stock_inv db'" "outbox_grows db db'" "reserve_key_ok t s c k db'"
    "\<And>t' s'. holder t' s' db' = (if s' = s \<and> t' = t then Some (c, uuid_supply db) else holder t' s' db)"
    "uuid_supply db < uuid_supply db'" "available t s db'"
    "\<And>t' k'. k' \<noteq> k \<Longrightarrow> fresh_key t' k' db \<Longrightarrow> fresh_key t' k' db'"
proof -
  have i: "i \<in> set (stock_items db)" "si_id i = s" "si_tenant_id i = t" using find_stock_item_SomeD [OF f(1)] by simp_all
  obtain d1 rid where r: "reserve_and_flush now i c db = (d1, rid)" by (cases "reserve_and_flush now i c db")
  note eff = reserve_and_flush_effect [OF inv i(1) r]
  have sup: "uuid_supply db < uuid_supply d1"
    using r by (auto simp: reserve_and_flush_def draw_uuid_def Let_def supply_after_def stock_event_def)
  have av: "available t s d1"
    using eff(8) [of t s] i f(3) by (auto simp: available_def)
  obtain cached where c: "find_cached_response t k (reserve_path s) (contract_body c) db = Inr cached"
    using k by (auto simp: reserve_key_ok_def is_ok_def)
  have c1: "find_cached_response t k (reserve_path s) (contract_body c) d1 = Inr cached"
    using c find_cached_cong [OF eff(5)] by simp
  show thesis
  proof (cases cached)
    case None
    have "fresh_key t k d1" using find_None_fresh c1 None by blast
    then obtain d2 where d2: "store_response now t k (reserve_path s) (contract_body c) 201 (reserve_response rid s) d1 = Inr d2"
      using fresh_key_store by blast
    note st = store_response_effect [OF d2]
    have "reserve_for_contract now t s c k db = Inr (d2, reserve_response (uuid_supply db) s)"
      using f i c None d2 r eff(3) by (auto simp: reserve_for_contract_def get_stock_item_or_404_def refuse_if_left_stock_def Let_def)
    moreover have "reserve_key_ok t s c k d2" using find_after_store [OF d2] by (auto simp: reserve_key_ok_def)
    moreover have "uuid_supply d2 = uuid_supply d1" using d2 by (auto simp: store_response_def split: if_splits)
    moreover have "available t s d2" using av st(1) by (simp add: available_def find_stock_item_def)
    moreover have "fresh_key t' k' d2" if "k' \<noteq> k" "fresh_key t' k' db" for t' k'
      using that d2 eff(5) by (auto simp: fresh_key_def store_response_def split: if_splits)
    ultimately show thesis
      using that [of d2] eff(1,3,4) st(2,4) sup i outbox_grows_trans [OF eff(2) st(3)] by auto
  next
    case (Some x)
    have "reserve_for_contract now t s c k db = Inr (d1, reserve_response (uuid_supply db) s)"
      using f i c Some r eff(3) by (auto simp: reserve_for_contract_def get_stock_item_or_404_def refuse_if_left_stock_def Let_def)
    moreover have "reserve_key_ok t s c k d1" using c1 by (simp add: reserve_key_ok_def)
    moreover have "fresh_key t' k' d1" if "fresh_key t' k' db" for t' k' using that eff(5) by (simp add: fresh_key_def)
    ultimately show thesis using that [of d1] eff(1-4) sup i av by auto
  qed
qed

lemma reserve_for_contract_cases:
  assumes inv: "stock_inv db" and r: "reserve_for_contract now t s c k db = Inr (db', j)"
  obtains (held) r where "holder t s db = Some (c, r)" "db' = db" "j = reserve_response r s" "reserve_key_ok t s c k db"
  | (free) i where "find_stock_item t s db = Some i" "reservation_state i = NOT_RESERVED" "left_stock_at i = None"
      "reserve_key_ok t s c k db"
proof -
  obtain i where i: "find_stock_item t s db = Some i" "reserve_key_ok t s c k db"
    using r by (auto simp: reserve_for_contract_def get_stock_item_or_404_def bindR_Inr_iff reserve_key_ok_def split: option.splits)
  show thesis
  proof (cases "reservation_state i")
    case RESERVED
    then have rb: "reserved_by_contract_id i = Some c"
      using r i by (auto simp: reserve_for_contract_def get_stock_item_or_404_def bindR_Inr_iff split: if_splits)
    have "item_ok i" using inv i(1) find_stock_item_SomeD item_ok_of by blast
    then obtain rid where "active_reservation_id i = Some rid"
      using RESERVED by (auto simp: item_ok_def item_ok_fields_def)
    then have h: "holder t s db = Some (c, rid)" using RESERVED rb i(1) by (simp add: holder_def)
    then show thesis using held [OF h] r reserve_again [OF h i(2)] i(2) by simp
  next
    case NOT_RESERVED
    then have "left_stock_at i = None"
      using r i by (auto simp: reserve_for_contract_def get_stock_item_or_404_def bindR_Inr_iff split: if_splits)
    then show thesis using free i NOT_RESERVED by blast
  qed
qed

lemma reserve_refused:
  assumes inv: "stock_inv db" and "holder t s db = Some (c', r)" "c' \<noteq> c"
  shows "\<exists>e. reserve_for_contract now t s c k db = Inl e"
proof (rule ccontr)
  assume "\<not> ?thesis"
  then obtain db' j where "reserve_for_contract now t s c k db = Inr (db', j)" by (metis sumE surj_pair)
  then show False
  proof (rule reserve_for_contract_cases [OF inv])
    fix i assume "find_stock_item t s db = Some i" "reservation_state i = NOT_RESERVED"
    then show False using holder_None_iff [OF inv] assms(2) by (metis option.distinct(1))
  qed (use assms in auto)
qed

lemma find_reserved_item_holder:
  assumes inv: "stock_inv db" and h: "holder t s db = Some (c, r)"
  obtains i where "find_reserved_item t r db = Some i" "find_stock_item t s db = Some i"
proof -
  obtain i where i: "find_stock_item t s db = Some i" "active_reservation_id i = Some r"
    using holder_find [OF h] by blast
  note m = find_stock_item_SomeD [OF i(1)]
  obtain x where x: "find_reserved_item t r db = Some x"
    using m i(2) unfolding find_reserved_item_def
    by (cases "select_one (\<lambda>i. si_tenant_id i = t \<and> active_reservation_id i = Some r) (stock_items db)")
      (auto simp: select_one_None_iff)
  then have "x \<in> set (stock_items db)" "active_reservation_id x = Some r"
    unfolding find_reserved_item_def by (auto dest: select_one_SomeD)
  then have "x = i" using inv m i(2) unfolding stock_inv_def key_unique_def by (metis option.distinct(1))
  then show thesis using that x i by blast
qed

lemma release_frees:
  assumes inv: "stock_inv db" and h: "holder t s db = Some (c, r)" and k: "fresh_key t k db"
  obtains db' where "release now t r (Some k) db = Inr (db', JObj [(''stockItemId'', JUuid s)])" "stock_inv db'"
    "outbox_grows db db'" "\<And>t' s'. holder t' s' db' = (if s' = s \<and> t' = t then None else holder t' s' db)"
    "available t s db \<Longrightarrow> available t s db'"
    "\<And>c' k'. k' \<noteq> k \<Longrightarrow> reserve_key_ok t s c' k' db \<Longrightarrow> reserve_key_ok t s c' k' db'"
    "uuid_supply db \<le> uuid_supply db'" "\<And>t' k'. k' \<noteq> k \<Longrightarrow> fresh_key t' k' db \<Longrightarrow> fresh_key t' k' db'"
proof -
  obtain i where i: "find_reserved_item t r db = Some i" "find_stock_item t s db = Some i"
    by (rule find_reserved_item_holder [OF inv h])
  note m = find_stock_item_SomeD [OF i(2)]
  let ?d = "release_and_flush now i db"
  have mi: "i \<in> set (stock_items db)" using m by simp
  note eff = release_and_flush_effect [OF inv mi]
  have "fresh_key t k ?d" using k eff(4) by (simp add: fresh_key_def)
  then obtain d2 where d2: "store_response now t k (''inventory.release:'', Some r) (JObj []) 200
      (JObj [(''stockItemId'', JUuid s)]) ?d = Inr d2"
    using fresh_key_store by blast
  note st = store_response_effect [OF d2]
  have rel: "release now t r (Some k) db = Inr (d2, JObj [(''stockItemId'', JUuid s)])"
    using i m d2 fresh_key_find [OF k] by (simp add: release_def Let_def)
  have av: "available t s d2" if "available t s db"
    using that i(2) eff(6) [of t s now] st(1) m by (simp add: available_def find_stock_item_def)
  have keys: "reserve_key_ok t s c' k' d2" if "k' \<noteq> k" "reserve_key_ok t s c' k' db" for c' k'
  proof -
    have "select_one (\<lambda>r. idempotency_key r = k' \<and> idem_tenant_id r = t) (idempotency_records d2)
        = select_one (\<lambda>r. idempotency_key r = k' \<and> idem_tenant_id r = t) (idempotency_records db)"
      using d2 that(1) eff(4)
      by (auto simp: store_response_def select_one_append split: if_splits option.splits)
    then show ?thesis using that(2) by (simp add: reserve_key_ok_def find_cached_response_def)
  qed
  have unused: "fresh_key t' k' d2" if "k' \<noteq> k" "fresh_key t' k' db" for t' k'
    using that d2 eff(4) by (auto simp: fresh_key_def store_response_def split: if_splits)
  have "uuid_supply db \<le> uuid_supply d2"
    using st(3) eff(2) unfolding outbox_grows_def outbox_extends_def by (meson le_trans)
  then show thesis
    using that [OF rel st(2) [OF eff(1)] outbox_grows_trans [OF eff(2) st(3)] _ av keys _ unused] st(4) eff(3) m by auto
qed

text \<open>
  What a caller in another context relies on: the operations, the view \<open>holder\<close> of who holds a car,
  and the laws between them. The client's facts follow from the laws alone.
\<close>

locale reservation_desk =
  fixes reserve_op :: "datetime \<Rightarrow> uuid \<Rightarrow> uuid \<Rightarrow> uuid \<Rightarrow> string \<Rightarrow> 'db \<Rightarrow> ('db \<times> json) result"
    and release_op :: "datetime \<Rightarrow> uuid \<Rightarrow> uuid \<Rightarrow> string option \<Rightarrow> 'db \<Rightarrow> ('db \<times> json) result"
    and held :: "uuid \<Rightarrow> uuid \<Rightarrow> 'db \<Rightarrow> (uuid \<times> uuid) option"
    and good :: "'db \<Rightarrow> bool"
    and free :: "uuid \<Rightarrow> uuid \<Rightarrow> 'db \<Rightarrow> bool"
    and key_ok :: "uuid \<Rightarrow> uuid \<Rightarrow> uuid \<Rightarrow> string \<Rightarrow> 'db \<Rightarrow> bool"
    and unused :: "uuid \<Rightarrow> string \<Rightarrow> 'db \<Rightarrow> bool"
  assumes reserve_free: "good db \<Longrightarrow> held t s db = None \<Longrightarrow> free t s db \<Longrightarrow> key_ok t s c k db \<Longrightarrow>
      \<exists>db' r. reserve_op now t s c k db = Inr (db', reserve_response r s) \<and> good db' \<and> key_ok t s c k db' \<and> free t s db'
        \<and> held t s db' = Some (c, r) \<and> (\<forall>t' s'. (t', s') \<noteq> (t, s) \<longrightarrow> held t' s' db' = held t' s' db)
        \<and> (\<forall>t' k'. k' \<noteq> k \<longrightarrow> unused t' k' db \<longrightarrow> unused t' k' db')"
    and reserve_held: "good db \<Longrightarrow> held t s db = Some (c, r) \<Longrightarrow> key_ok t s c k db \<Longrightarrow>
      reserve_op now t s c k db = Inr (db, reserve_response r s)"
    and reserve_taken: "good db \<Longrightarrow> held t s db = Some (c', r) \<Longrightarrow> c' \<noteq> c \<Longrightarrow> \<exists>e. reserve_op now t s c k db = Inl e"
    and release_held: "good db \<Longrightarrow> held t s db = Some (c, r) \<Longrightarrow> unused t k db \<Longrightarrow>
      \<exists>db' j. release_op now t r (Some k) db = Inr (db', j) \<and> good db' \<and> held t s db' = None
        \<and> (\<forall>t' s'. (t', s') \<noteq> (t, s) \<longrightarrow> held t' s' db' = held t' s' db)
        \<and> (free t s db \<longrightarrow> free t s db') \<and> (\<forall>c' k'. k' \<noteq> k \<longrightarrow> key_ok t s c' k' db \<longrightarrow> key_ok t s c' k' db')"
begin

lemma one_contract_at_a_time:
  assumes "good db" "held t s db = None" "free t s db" "key_ok t s c k db" "c' \<noteq> c"
  shows "\<exists>db' j. reserve_op now t s c k db = Inr (db', j) \<and> (\<forall>later. reserve_op later t s c k db' = Inr (db', j))
    \<and> (\<forall>later k'. \<exists>e. reserve_op later t s c' k' db' = Inl e)"
proof -
  obtain db' r where r: "reserve_op now t s c k db = Inr (db', reserve_response r s)" "good db'" "key_ok t s c k db'"
    "held t s db' = Some (c, r)"
    using reserve_free [OF assms(1-4)] by blast
  have "c \<noteq> c'" using assms(5) by simp
  then show ?thesis
    by (intro exI [of _ db'] exI [of _ "reserve_response r s"] conjI allI)
      (use r(1) reserve_held [OF r(2,4,3)] reserve_taken [OF r(2,4)] in auto)
qed

text \<open>The confirmation's compensation and its retry under the same key.\<close>

lemma compensate_and_retry:
  assumes "good db" "held t s db = None" "free t s db" "key_ok t s c k db" "unused t k2 db" "k \<noteq> k2"
  shows "\<exists>db1 r1 db2 j2 db3 r3. reserve_op now t s c k db = Inr (db1, reserve_response r1 s)
    \<and> release_op later t r1 (Some k2) db1 = Inr (db2, j2) \<and> held t s db2 = None
    \<and> reserve_op again t s c k db2 = Inr (db3, reserve_response r3 s) \<and> held t s db3 = Some (c, r3)"
proof -
  obtain db1 r1 where 1: "reserve_op now t s c k db = Inr (db1, reserve_response r1 s)" "good db1" "key_ok t s c k db1"
    "free t s db1" "held t s db1 = Some (c, r1)" "unused t k2 db1"
    using reserve_free [OF assms(1-4), of now] assms(5,6) by metis
  obtain db2 j2 where 2: "release_op later t r1 (Some k2) db1 = Inr (db2, j2)" "good db2" "held t s db2 = None"
    "free t s db2" "key_ok t s c k db2"
    using release_held [OF 1(2,5,6), of later] 1(3,4) assms(6) by blast
  obtain db3 r3 where "reserve_op again t s c k db2 = Inr (db3, reserve_response r3 s)" "held t s db3 = Some (c, r3)"
    using reserve_free [OF 2(2-5), of again] by blast
  with 1 2 show ?thesis by blast
qed

end

interpretation desk: reservation_desk reserve_for_contract release holder stock_inv available reserve_key_ok fresh_key
proof
  fix db :: "'a inventory_db_scheme" and now t s c k
  assume a: "stock_inv db" "holder t s db = None" "available t s db" "reserve_key_ok t s c k db"
  obtain i where i: "find_stock_item t s db = Some i" "left_stock_at i = None" using a(3) by (auto simp: available_def)
  have n: "reservation_state i = NOT_RESERVED" using holder_None_iff [OF a(1) i(1)] a(2) by simp
  obtain db' where "reserve_for_contract now t s c k db = Inr (db', reserve_response (uuid_supply db) s)"
    "stock_inv db'" "reserve_key_ok t s c k db'" "available t s db'"
    "\<And>t' s'. holder t' s' db' = (if s' = s \<and> t' = t then Some (c, uuid_supply db) else holder t' s' db)"
    "\<And>t' k'. k' \<noteq> k \<Longrightarrow> fresh_key t' k' db \<Longrightarrow> fresh_key t' k' db'"
    by (rule reserve_new [OF a(1) i(1) n i(2) a(4)]) blast
  then show "\<exists>db' r. reserve_for_contract now t s c k db = Inr (db', reserve_response r s) \<and> stock_inv db'
      \<and> reserve_key_ok t s c k db' \<and> available t s db' \<and> holder t s db' = Some (c, r)
      \<and> (\<forall>t' s'. (t', s') \<noteq> (t, s) \<longrightarrow> holder t' s' db' = holder t' s' db)
      \<and> (\<forall>t' k'. k' \<noteq> k \<longrightarrow> fresh_key t' k' db \<longrightarrow> fresh_key t' k' db')"
    by (intro exI [of _ db'] exI [of _ "uuid_supply db"]) simp
next
  fix db :: "'a inventory_db_scheme" and now t s c r k
  assume "stock_inv db" "holder t s db = Some (c, r)" "reserve_key_ok t s c k db"
  then show "reserve_for_contract now t s c k db = Inr (db, reserve_response r s)" by (intro reserve_again)
next
  fix db :: "'a inventory_db_scheme" and now t s c' r c k
  assume "stock_inv db" "holder t s db = Some (c', r)" "c' \<noteq> c"
  then show "\<exists>e. reserve_for_contract now t s c k db = Inl e" by (rule reserve_refused)
next
  fix db :: "'a inventory_db_scheme" and now t s c r k
  assume a: "stock_inv db" "holder t s db = Some (c, r)" "fresh_key t k db"
  obtain db' where "release now t r (Some k) db = Inr (db', JObj [(''stockItemId'', JUuid s)])" "stock_inv db'"
    "\<And>t' s'. holder t' s' db' = (if s' = s \<and> t' = t then None else holder t' s' db)"
    "available t s db \<Longrightarrow> available t s db'"
    "\<And>c' k'. k' \<noteq> k \<Longrightarrow> reserve_key_ok t s c' k' db \<Longrightarrow> reserve_key_ok t s c' k' db'"
    by (rule release_frees [OF a]) blast
  then show "\<exists>db' j. release now t r (Some k) db = Inr (db', j) \<and> stock_inv db' \<and> holder t s db' = None
      \<and> (\<forall>t' s'. (t', s') \<noteq> (t, s) \<longrightarrow> holder t' s' db' = holder t' s' db)
      \<and> (available t s db \<longrightarrow> available t s db')
      \<and> (\<forall>c' k'. k' \<noteq> k \<longrightarrow> reserve_key_ok t s c' k' db \<longrightarrow> reserve_key_ok t s c' k' db')"
    by (intro exI [of _ db'] exI [of _ "JObj [(''stockItemId'', JUuid s)]"]) auto
qed

section \<open>One contract per car\<close>

text \<open>
  C1: one contract per car. A car in stock that nobody holds can be reserved by Sales for a contract;
  asking again for the same contract, with the same key at any later time, gives the same answer and
  changes nothing; and a request for another contract is refused, whatever its key.
\<close>

theorem one_contract_per_car:
  assumes "stock_inv db" "holder t s db = None" "available t s db" "reserve_key_ok t s c k db" "c' \<noteq> c"
  shows "\<exists>db' j. reserve_for_contract now t s c k db = Inr (db', j)
    \<and> (\<forall>later. reserve_for_contract later t s c k db' = Inr (db', j))
    \<and> (\<forall>later k'. \<exists>e. reserve_for_contract later t s c' k' db' = Inl e)"
  using assms by (rule desk.one_contract_at_a_time)

definition example_item :: stock_item where
  "example_item = new_stock_item 0 3 \<lparr>sc_vehicle_label = ''Golf'', sc_condition = COND_USED, sc_location_id = None,
     sc_odometer_km = None, sc_list_price = None, sc_effective_price = None, sc_first_registration_date = None,
     sc_vehicle_id = None, sc_vin = None, sc_configuration_id = None\<rparr> None None None 5 (''S-'' @ pad6 1)"

definition example_stock_db :: inventory_db where
  "example_stock_db = valuation_db.extend example_valuation_db
     (inventory_db.fields [example_item] [(3, 2)] [] [] [])"

lemma example_stock_simps [simp]:
  "stock_items example_stock_db = [example_item]" "stock_number_sequence example_stock_db = [(3, 2)]"
  "uuid_supply example_stock_db = 10" "idempotency_records example_stock_db = []"
  "cancelled_contracts example_stock_db = []" "outbox_messages example_stock_db = []"
  "valuations example_stock_db = [example_valuation]" "dealerships example_stock_db = []"
  "vehicle_mdms example_stock_db = []" "processed_events example_stock_db = []"
  by (simp_all add: example_stock_db_def example_valuation_db_def valuation_db.defs inventory_db.defs)

lemma example_item_simps [simp]:
  "si_id example_item = 5" "si_tenant_id example_item = 3" "reservation_state example_item = NOT_RESERVED"
  "left_stock_at example_item = None" "lifecycle_status example_item = PIPELINE"
  by (simp_all add: example_item_def new_stock_item_def)

lemma example_stock_inv [simp]: "stock_inv example_stock_db"
proof -
  have "item_ok example_item"
    unfolding example_item_def by (rule new_stock_item_ok) (simp add: create_data_ok_def)
  moreover have "series_inv ''S-'' si_tenant_id stock_number [(3, 2)] [example_item]"
    by (simp add: series_inv_def example_item_def next_value_def)
  ultimately show ?thesis
    by (simp add: stock_inv_def key_unique_def example_item_def)
qed

lemma example_desk [simp]:
  "find_stock_item 3 5 example_stock_db = Some example_item" "holder 3 5 example_stock_db = None"
  "available 3 5 example_stock_db" "fresh_key t k example_stock_db" "reserve_key_ok t s c k example_stock_db"
  by (simp_all add: find_stock_item_def holder_def available_def fresh_key_def reserve_key_ok_def
      find_cached_response_def)

theorem one_contract_per_car_witness:
  "\<exists>db' j. reserve_for_contract 0 3 5 20 ''k'' example_stock_db = Inr (db', j)
    \<and> (\<forall>later. reserve_for_contract later 3 5 20 ''k'' db' = Inr (db', j))
    \<and> (\<forall>later k'. \<exists>e. reserve_for_contract later 3 5 21 k' db' = Inl e)"
  by (rule one_contract_per_car) simp_all

text \<open>
  C2: a reservation that is compensated can be retried under the same key. When Sales reserved a car,
  released it again because a later step of the confirmation failed, and confirms again with the key
  of the first attempt, it really holds the car again: the retry is not answered from the record of
  the first attempt, whose reservation is gone.
\<close>

theorem retry_after_compensation_holds_car:
  assumes "stock_inv db" "holder t s db = None" "available t s db" "reserve_key_ok t s c k db"
    "fresh_key t k2 db" "k \<noteq> k2"
  shows "\<exists>db1 r1 db2 j2 db3 r3. reserve_for_contract now t s c k db = Inr (db1, reserve_response r1 s)
    \<and> release later t r1 (Some k2) db1 = Inr (db2, j2) \<and> holder t s db2 = None
    \<and> reserve_for_contract again t s c k db2 = Inr (db3, reserve_response r3 s) \<and> holder t s db3 = Some (c, r3)"
  using assms by (rule desk.compensate_and_retry)

theorem retry_after_compensation_holds_car_witness:
  "\<exists>db1 r1 db2 j2 db3 r3. reserve_for_contract 0 3 5 20 ''a'' example_stock_db = Inr (db1, reserve_response r1 5)
    \<and> release 1 3 r1 (Some ''b'') db1 = Inr (db2, j2) \<and> holder 3 5 db2 = None
    \<and> reserve_for_contract 2 3 5 20 ''a'' db2 = Inr (db3, reserve_response r3 5) \<and> holder 3 5 db3 = Some (20, r3)"
  by (rule retry_after_compensation_holds_car) simp_all

end
