(* ===== verification/Inventory_Consumers.thy ===== *)
theory Inventory_Consumers
  imports Inventory_Reservation
begin

text \<open>
  What Stock's consumers and the nightly sweep guarantee (\<^verbatim>\<open>app/inventory/consumers.py\<close>,
  \<^verbatim>\<open>services/pipeline.py, reservation.py, reservation_sweep.py\<close>): the confirmation and the
  cancellation of a contract arrive in any order and leave nothing held by a cancelled contract; the
  sweep frees exactly the reservations no contract stands behind. The definitions are in
  \<open>Inventory_Reservation\<close>.
\<close>

section \<open>Releasing what a contract holds\<close>

definition nothing_held :: "uuid \<Rightarrow> uuid \<Rightarrow> 'a inventory_db_scheme \<Rightarrow> bool" where
  "nothing_held t c db \<longleftrightarrow> (\<forall>i \<in> set (stock_items db). \<not> held_by t c i)"

lemma nothing_held_cong: "stock_items db' = stock_items db \<Longrightarrow> nothing_held t c db' = nothing_held t c db"
  by (simp add: nothing_held_def)

lemma stock_items_release:
  assumes "stock_inv db" "i \<in> set (stock_items db)"
  shows "x \<in> set (stock_items (release_and_flush now i db)) \<longleftrightarrow>
    (x \<in> set (stock_items db) \<and> x \<noteq> i)
      \<or> x = i\<lparr>reservation_state := NOT_RESERVED, reserved_by_contract_id := None,
            active_reservation_id := None, si_version := si_version i + 1, si_updated_at := now\<rparr>"
proof -
  have "distinct (map si_id (stock_items db))" using assms(1) by (simp add: stock_inv_def)
  then have "y = i" if "y \<in> set (stock_items db)" "si_id y = si_id i" for y
    using distinct_key_unique [OF _ that(1) assms(2) that(2)] by blast
  then show ?thesis
    using assms(2) by (auto simp: release_and_flush_def Let_def stock_items_save set_update_where)
qed

lemma stock_items_releaseD:
  assumes "stock_inv db" "i \<in> set (stock_items db)" "x \<in> set (stock_items (release_and_flush now i db))"
  shows "(x \<in> set (stock_items db) \<and> x \<noteq> i) \<or> reservation_state x = NOT_RESERVED"
  using assms(3) unfolding stock_items_release [OF assms(1,2)] by (elim disjE) simp_all

lemma release_all_effect:
  assumes "stock_inv db" "set is \<subseteq> set (stock_items db)" "distinct is"
  shows "stock_inv (release_all now is db) \<and> outbox_grows db (release_all now is db)
    \<and> cancelled_contracts (release_all now is db) = cancelled_contracts db
    \<and> (\<forall>x \<in> set (stock_items (release_all now is db)).
         (x \<in> set (stock_items db) \<and> x \<notin> set is) \<or> reservation_state x = NOT_RESERVED)
    \<and> (\<forall>x \<in> set (stock_items db). x \<notin> set is \<longrightarrow> x \<in> set (stock_items (release_all now is db)))"
  using assms
proof (induction "is" arbitrary: db)
  case (Cons i "is")
  let ?d = "release_and_flush now i db"
  have i: "i \<in> set (stock_items db)" using Cons.prems by simp
  note eff = release_and_flush_effect [OF Cons.prems(1) i]
  note mem = stock_items_release [OF Cons.prems(1) i]
  have "set is \<subseteq> set (stock_items ?d)" using Cons.prems by (auto simp: mem)
  then have ih: "stock_inv (release_all now is ?d) \<and> outbox_grows ?d (release_all now is ?d)
    \<and> cancelled_contracts (release_all now is ?d) = cancelled_contracts ?d
    \<and> (\<forall>x \<in> set (stock_items (release_all now is ?d)).
         (x \<in> set (stock_items ?d) \<and> x \<notin> set is) \<or> reservation_state x = NOT_RESERVED)
    \<and> (\<forall>x \<in> set (stock_items ?d). x \<notin> set is \<longrightarrow> x \<in> set (stock_items (release_all now is ?d)))"
    using Cons.prems eff(1) by (intro Cons.IH) auto
  have "outbox_grows db (release_all now is ?d)" using ih outbox_grows_trans [OF eff(2)] by blast
  moreover have "x \<in> set (stock_items db) \<and> x \<notin> set (i # is) \<or> reservation_state x = NOT_RESERVED"
    if "x \<in> set (stock_items (release_all now is ?d))" for x
  proof -
    have "(x \<in> set (stock_items ?d) \<and> x \<notin> set is) \<or> reservation_state x = NOT_RESERVED" using ih that by blast
    then show ?thesis using stock_items_releaseD [OF Cons.prems(1) i, of x now] by auto
  qed
  ultimately show ?case using ih eff(5) by (auto simp: mem)
qed auto

lemma record_contract_cancelled_effect:
  assumes inv: "stock_inv db" and eq: "record_contract_cancelled now t c label since db = db'"
  shows "stock_inv db'" "outbox_grows db db'" "nothing_held t c db'" "contract_is_cancelled t c db'"
    "\<And>x. x \<in> set (stock_items db) \<Longrightarrow> \<not> held_by t c x \<Longrightarrow> x \<in> set (stock_items db')"
proof -
  define d1 where "d1 = (if contract_is_cancelled t c db then db
            else db\<lparr>cancelled_contracts := cancelled_contracts db @
              [\<lparr>cc_tenant_id = t, cc_contract_id = c, cc_contract_label = label,
                cc_contract_denorm_refreshed_at = since, cc_cancelled_at = since\<rparr>]\<rparr>)"
  have same: "stock_items d1 = stock_items db" by (simp add: d1_def)
  have inv1: "stock_inv d1" by (rule stock_inv_cong [OF inv]) (simp_all add: d1_def)
  have g1: "outbox_grows db d1" by (rule outbox_grows_sameI) (simp_all add: d1_def)
  have canc: "contract_is_cancelled t c d1"
    by (simp add: d1_def contract_is_cancelled_def select_one_append split: option.split)
  let ?is = "select_all (held_by t c) (stock_items d1)"
  have db': "db' = release_all now ?is d1" by (simp add: eq [symmetric] record_contract_cancelled_def d1_def Let_def)
  have "distinct ?is" using inv1 by (auto simp: select_all_def stock_inv_def intro: distinct_filter distinct_rows)
  then have eff: "stock_inv db' \<and> outbox_grows d1 db' \<and> cancelled_contracts db' = cancelled_contracts d1
    \<and> (\<forall>x \<in> set (stock_items db'). (x \<in> set (stock_items d1) \<and> x \<notin> set ?is) \<or> reservation_state x = NOT_RESERVED)
    \<and> (\<forall>x \<in> set (stock_items d1). x \<notin> set ?is \<longrightarrow> x \<in> set (stock_items db'))"
    unfolding db' by (intro release_all_effect [OF inv1]) auto
  then show "stock_inv db'" by blast
  show "outbox_grows db db'" using eff outbox_grows_trans [OF g1] by blast
  show "nothing_held t c db'" using eff by (auto simp: nothing_held_def held_by_def)
  show "contract_is_cancelled t c db'" using eff canc by (simp add: contract_is_cancelled_def)
  show "\<And>x. x \<in> set (stock_items db) \<Longrightarrow> \<not> held_by t c x \<Longrightarrow> x \<in> set (stock_items db')"
    using eff by (auto simp: same)
qed

section \<open>The pipeline item of a confirmed contract\<close>

lemma pipeline_item_effect:
  assumes inv: "stock_inv db"
  obtains db' item created where
    "create_pipeline_item_idempotent now db0 t label cond pref origin cid db = Inr (db', item, created)"
    "stock_inv db'" "outbox_grows db db'" "item \<in> set (stock_items db')" "si_tenant_id item = t" "pipeline_ref item = Some pref"
    "stock_items db' = stock_items db @ (if created then [item] else [])" "\<not> created \<Longrightarrow> db' = db"
    "created \<Longrightarrow> reservation_state item = NOT_RESERVED" "cancelled_contracts db' = cancelled_contracts db"
    "valuations db' = valuations db"
proof (cases "find_pipeline_item t pref db")
  case None
  let ?data = "\<lparr>sc_vehicle_label = label, sc_condition = cond, sc_location_id = None, sc_odometer_km = None,
                sc_list_price = None, sc_effective_price = None, sc_first_registration_date = None,
                sc_vehicle_id = None, sc_vin = None, sc_configuration_id = cid\<rparr>"
  have free: "\<forall>x \<in> set (stock_items db). si_tenant_id x = t \<longrightarrow> pipeline_ref x \<noteq> Some pref"
    using None by (auto simp: find_pipeline_item_def select_one_None_iff)
  have data: "create_data_ok ?data" by (simp add: create_data_ok_def)
  obtain db' i where b: "build_and_flush_stock_item now t ?data None (Some pref) origin
      (if cid \<noteq> None then Some label else None) db = Inr (db', i)"
    "stock_inv db'" "stock_items db' = stock_items db @ [i]" "outbox_grows db db'"
    "si_tenant_id i = t" "pipeline_ref i = Some pref" "reservation_state i = NOT_RESERVED"
    "cancelled_contracts db' = cancelled_contracts db" "valuations db' = valuations db"
    by (rule build_and_flush_ok [OF inv data, where now = now and actor = None and origin = origin and t = t
          and pref = "Some pref" and cl = "if cid \<noteq> None then Some label else None"])
      (use free in simp_all)
  show thesis
    by (rule that [of db' i True]) (use None b in \<open>simp_all add: create_pipeline_item_idempotent_def\<close>)
next
  case (Some e)
  have "e \<in> set (stock_items db) \<and> si_tenant_id e = t \<and> pipeline_ref e = Some pref"
    using Some by (auto simp: find_pipeline_item_def dest: select_one_SomeD)
  then show thesis
    by (intro that [of db e False]) (use Some inv in \<open>simp_all add: create_pipeline_item_idempotent_def\<close>)
qed

lemma stock_items_saved:
  assumes "stock_inv db" "i \<in> set (stock_items db)" "si_id i' = si_id i" "stock_items db1 = stock_items db"
  shows "x \<in> set (stock_items (save_stock_item now i' db1)) \<longleftrightarrow>
    (x \<in> set (stock_items db) \<and> x \<noteq> i) \<or> x = i'\<lparr>si_updated_at := now\<rparr>"
proof -
  have "distinct (map si_id (stock_items db))" using assms(1) by (simp add: stock_inv_def)
  then have "y = i" if "y \<in> set (stock_items db)" "si_id y = si_id i" for y
    using distinct_key_unique [OF _ that(1) assms(2) that(2)] by blast
  then show ?thesis using assms(2-4) by (auto simp: stock_items_save set_update_where)
qed

lemma stock_items_reserve:
  assumes "stock_inv db" "i \<in> set (stock_items db)"
  shows "x \<in> set (stock_items (fst (reserve_and_flush now i c db))) \<longleftrightarrow>
    (x \<in> set (stock_items db) \<and> x \<noteq> i)
      \<or> x = i\<lparr>reservation_state := RESERVED, reserved_by_contract_id := Some c,
            active_reservation_id := Some (uuid_supply db), si_version := si_version i + 1, si_updated_at := now\<rparr>"
  using stock_items_saved [OF assms, of "i\<lparr>reservation_state := RESERVED, reserved_by_contract_id := Some c,
            active_reservation_id := Some (uuid_supply db), si_version := si_version i + 1\<rparr>"
      "db\<lparr>uuid_supply := uuid_supply db + 1\<rparr>" x now]
  by (simp add: reserve_and_flush_def draw_uuid_def Let_def)

definition has_item :: "uuid \<Rightarrow> pipeline_reference \<Rightarrow> 'a inventory_db_scheme \<Rightarrow> bool" where
  "has_item t pref db \<longleftrightarrow> (\<exists>i \<in> set (stock_items db). si_tenant_id i = t \<and> pipeline_ref i = Some pref)"

text \<open>What one handled part of a confirmation does, as far as reservations are concerned.\<close>

definition confirm_effect :: "uuid \<Rightarrow> uuid \<Rightarrow> 'a inventory_db_scheme \<Rightarrow> 'a inventory_db_scheme \<Rightarrow> bool" where
  "confirm_effect t c db db' \<longleftrightarrow> stock_inv db' \<and> outbox_grows db db' \<and> cancelled_contracts db' = cancelled_contracts db
     \<and> (contract_is_cancelled t c db \<and> nothing_held t c db \<longrightarrow> nothing_held t c db')
     \<and> (\<forall>i \<in> set (stock_items db). held_by t c i \<longrightarrow> (\<exists>j \<in> set (stock_items db'). held_by t c j \<and> pipeline_ref j = pipeline_ref i))
     \<and> (\<forall>p. has_item t p db \<longrightarrow> has_item t p db')"

lemma confirm_effect_refl: "stock_inv db \<Longrightarrow> confirm_effect t c db db"
  by (auto simp: confirm_effect_def)

lemma confirm_effect_trans:
  assumes "confirm_effect t c a b" "confirm_effect t c b d"
  shows "confirm_effect t c a d"
proof -
  have "outbox_grows a d" using assms outbox_grows_trans unfolding confirm_effect_def by blast
  moreover have "contract_is_cancelled t c b = contract_is_cancelled t c a"
    using assms by (simp add: confirm_effect_def contract_is_cancelled_def)
  ultimately show ?thesis using assms unfolding confirm_effect_def by (auto; metis)
qed

lemma confirm_manual_effect:
  assumes inv: "stock_inv db" and c: "confirm_manual_configuration now db0 t c kvs db = Inr db'"
  shows "confirm_effect t c db db'" "has_item t (c, ManualConfiguration) db'" "valuations db' = valuations db"
    "\<not> contract_is_cancelled t c db \<Longrightarrow> \<not> has_item t (c, ManualConfiguration) db
       \<Longrightarrow> \<exists>i \<in> set (stock_items db'). held_by t c i \<and> pipeline_ref i = Some (c, ManualConfiguration)"
proof -
  obtain label cond cid where d: "described_vehicle NEW kvs = Inr (label, cond, cid)"
    using c by (auto simp: confirm_manual_configuration_def bindR_Inr_iff)
  obtain db1 item created where p:
    "create_pipeline_item_idempotent now db0 t label cond (c, ManualConfiguration)
        (origin_of c ''manual_configuration'') cid db = Inr (db1, item, created)"
    "stock_inv db1" "outbox_grows db db1" "item \<in> set (stock_items db1)" "si_tenant_id item = t"
    "pipeline_ref item = Some (c, ManualConfiguration)" "stock_items db1 = stock_items db @ (if created then [item] else [])"
    "\<not> created \<Longrightarrow> db1 = db" "created \<Longrightarrow> reservation_state item = NOT_RESERVED"
    "cancelled_contracts db1 = cancelled_contracts db" "valuations db1 = valuations db"
    by (rule pipeline_item_effect [OF inv]) blast
  let ?r = "created \<and> \<not> contract_is_cancelled t c db1"
  have db': "db' = (if ?r then fst (reserve_and_flush now item c db1) else db1)"
    using c d p(1) by (simp add: confirm_manual_configuration_def)
  have canc: "contract_is_cancelled t c db1 = contract_is_cancelled t c db" using p(10) by (simp add: contract_is_cancelled_def)
  obtain d2 rid where r: "reserve_and_flush now item c db1 = (d2, rid)" by (cases "reserve_and_flush now item c db1")
  note eff = reserve_and_flush_effect [OF p(2,4) r]
  have db'': "db' = (if ?r then d2 else db1)" by (simp add: db' r)
  note mem = stock_items_reserve [OF p(2,4), of _ now c, unfolded r fst_conv]
  have new: "\<exists>j \<in> set (stock_items d2). si_tenant_id j = t \<and> pipeline_ref j = pipeline_ref item \<and> held_by t c j"
    by (rule bexI [of _ "item\<lparr>reservation_state := RESERVED, reserved_by_contract_id := Some c,
            active_reservation_id := Some (uuid_supply db1), si_version := si_version item + 1, si_updated_at := now\<rparr>"])
      (use p(5) in \<open>simp_all add: mem held_by_def\<close>)
  have keep: "x \<in> set (stock_items db')" if "x \<in> set (stock_items db)" "held_by t c x" for x
    using that p(7,9) by (auto simp: db'' mem held_by_def)
  have has: "has_item t q d2" if "has_item t q db1" for q
  proof -
    obtain x where x: "x \<in> set (stock_items db1)" "si_tenant_id x = t" "pipeline_ref x = Some q"
      using \<open>has_item t q db1\<close> by (auto simp: has_item_def)
    show ?thesis
    proof (cases "x = item")
      case True
      then show ?thesis using x new by (auto simp: has_item_def)
    qed (use x mem in \<open>auto simp: has_item_def\<close>)
  qed
  have has1: "has_item t q db1" if "has_item t q db" for q using that p(7) by (auto simp: has_item_def)
  have "nothing_held t c db'" if "contract_is_cancelled t c db" "nothing_held t c db"
    using that p(7,9) canc by (auto simp: db'' nothing_held_def held_by_def split: if_splits)
  moreover have "outbox_grows db db'" using p(3) outbox_grows_trans [OF p(3) eff(2)] by (simp add: db'')
  ultimately show "confirm_effect t c db db'"
    using p(2,10) eff(1,6) keep has has1 unfolding confirm_effect_def db'' by auto
  have "has_item t (c, ManualConfiguration) db1" using p(4,5,6) by (auto simp: has_item_def)
  then show "has_item t (c, ManualConfiguration) db'" using has by (auto simp: db'')
  show "valuations db' = valuations db" using p(11) eff(7) by (simp add: db'')
  assume "\<not> contract_is_cancelled t c db" "\<not> has_item t (c, ManualConfiguration) db"
  then have "?r" using p(4-8) canc by (auto simp: has_item_def)
  then show "\<exists>i \<in> set (stock_items db'). held_by t c i \<and> pipeline_ref i = Some (c, ManualConfiguration)"
    using p(6) new by (auto simp: db'')
qed

lemma as_uuid_Inr [simp]: "as_uuid j = Inr u \<longleftrightarrow> j = JUuid u"
  by (auto simp: as_uuid_def split: json.splits)

lemma confirm_effect_save:
  assumes inv: "stock_inv db" and i: "i \<in> set (stock_items db)"
    and s: "same_core i i'"
  shows "confirm_effect t c db (save_stock_item now i' db)"
proof -
  have id: "si_id i' = si_id i" and core: "si_tenant_id i' = si_tenant_id i" "pipeline_ref i' = pipeline_ref i"
    "held_by t c i' = held_by t c i" using s by (simp_all add: same_core_def held_by_def)
  note mem = stock_items_saved [OF inv i id refl, of _ now]
  have new: "i'\<lparr>si_updated_at := now\<rparr> \<in> set (stock_items (save_stock_item now i' db))" by (simp add: mem)
  have *: "\<exists>j \<in> set (stock_items (save_stock_item now i' db)). si_tenant_id j = si_tenant_id x
      \<and> pipeline_ref j = pipeline_ref x \<and> held_by t c j = held_by t c x" if "x \<in> set (stock_items db)" for x
  proof (cases "x = i")
    case True
    then show ?thesis using core by (intro bexI [OF _ new]) (simp add: held_by_def)
  qed (use that in \<open>auto simp: mem\<close>)
  have "nothing_held t c (save_stock_item now i' db)" if "nothing_held t c db"
    using that core i by (auto simp: nothing_held_def mem held_by_def)
  then show ?thesis
    using stock_inv_save_plain [OF inv i s] * unfolding confirm_effect_def has_item_def by (auto; metis)
qed

lemma confirm_trade_in_effect:
  assumes inv: "stock_inv db" and c: "confirm_trade_in now db0 t c kvs db = Inr db'"
  shows "confirm_effect t c db db'" "has_item t (c, TradeIn) db'"
proof -
  obtain label cond cid where d: "described_vehicle COND_USED kvs = Inr (label, cond, cid)"
    using c by (auto simp: confirm_trade_in_def bindR_Inr_iff)
  obtain db1 item created where p:
    "create_pipeline_item_idempotent now db0 t label cond (c, TradeIn) (origin_of c ''trade_in'') cid db = Inr (db1, item, created)"
    "stock_inv db1" "outbox_grows db db1" "item \<in> set (stock_items db1)" "si_tenant_id item = t"
    "pipeline_ref item = Some (c, TradeIn)" "stock_items db1 = stock_items db @ (if created then [item] else [])"
    "created \<Longrightarrow> reservation_state item = NOT_RESERVED" "cancelled_contracts db1 = cancelled_contracts db"
    by (rule pipeline_item_effect [OF inv]) blast
  have e1: "confirm_effect t c db db1"
    using p(2,3,7,8,9) by (auto simp: confirm_effect_def nothing_held_def held_by_def has_item_def)
  have h1: "has_item t (c, TradeIn) db1" using p(4,5,6) by (auto simp: has_item_def)
  have db': "db' = db1 \<or> (\<exists>v am vt src. db' = save_stock_item now (apply_valuation_ref v am vt src item) db1)"
    using c d p(1) by (auto simp: confirm_trade_in_def bindR_Inr_iff split: option.splits) blast
  then have e2: "confirm_effect t c db1 db'"
    using confirm_effect_refl [OF p(2)] confirm_effect_save [OF p(2,4)] by auto
  show "confirm_effect t c db db'" by (rule confirm_effect_trans [OF e1 e2])
  show "has_item t (c, TradeIn) db'" using e2 h1 by (simp add: confirm_effect_def)
qed

lemma handle_confirmed_effect:
  assumes inv: "stock_inv db" and h: "handle_sales_contract_confirmed now t pl db = Inr db'"
  obtains c where "get_item ''contractId'' pl = Inr (JUuid c)" "confirm_effect t c db db'"
    "get_opt ''manualConfiguration'' pl \<noteq> None \<Longrightarrow> has_item t (c, ManualConfiguration) db'"
    "get_opt ''tradeIn'' pl \<noteq> None \<Longrightarrow> has_item t (c, TradeIn) db'"
    "get_opt ''manualConfiguration'' pl \<noteq> None \<Longrightarrow> \<not> contract_is_cancelled t c db
       \<Longrightarrow> \<not> has_item t (c, ManualConfiguration) db
       \<Longrightarrow> \<exists>i \<in> set (stock_items db'). held_by t c i \<and> pipeline_ref i = Some (c, ManualConfiguration)"
proof -
  obtain c d1 where c: "get_item ''contractId'' pl = Inr (JUuid c)"
    and m: "(case get_opt ''manualConfiguration'' pl of None \<Rightarrow> Inr db
            | Some j \<Rightarrow> bindR (as_obj j) (\<lambda>kvs. confirm_manual_configuration now db t c kvs db)) = Inr d1"
    and tr: "(case get_opt ''tradeIn'' pl of None \<Rightarrow> Inr d1
            | Some j \<Rightarrow> bindR (as_obj j) (\<lambda>kvs. confirm_trade_in now db t c kvs d1)) = Inr db'"
    using h by (auto simp: handle_sales_contract_confirmed_def bindR_Inr_iff)
  have e1: "confirm_effect t c db d1" "get_opt ''manualConfiguration'' pl \<noteq> None \<longrightarrow> has_item t (c, ManualConfiguration) d1"
    "get_opt ''manualConfiguration'' pl \<noteq> None \<and> \<not> contract_is_cancelled t c db \<and> \<not> has_item t (c, ManualConfiguration) db
       \<longrightarrow> (\<exists>i \<in> set (stock_items d1). held_by t c i \<and> pipeline_ref i = Some (c, ManualConfiguration))"
    using m confirm_effect_refl [OF inv] confirm_manual_effect [OF inv]
    by (auto simp: bindR_Inr_iff split: option.splits)
  have inv1: "stock_inv d1" using e1(1) by (simp add: confirm_effect_def)
  have e2: "confirm_effect t c d1 db'" "get_opt ''tradeIn'' pl \<noteq> None \<longrightarrow> has_item t (c, TradeIn) db'"
    using tr confirm_effect_refl [OF inv1] confirm_trade_in_effect [OF inv1]
    by (auto simp: bindR_Inr_iff split: option.splits)
  have "has_item t p d1 \<longrightarrow> has_item t p db'"
    "(\<exists>i \<in> set (stock_items d1). held_by t c i \<and> pipeline_ref i = Some p)
      \<longrightarrow> (\<exists>i \<in> set (stock_items db'). held_by t c i \<and> pipeline_ref i = Some p)" for p
    using e2(1) unfolding confirm_effect_def by (blast, metis)
  then show thesis
    using that [OF c confirm_effect_trans [OF e1(1) e2(1)]] e1(2,3) e2(2) by blast
qed

lemma confirm_manual_total:
  assumes inv: "stock_inv db" and d: "described_vehicle NEW kvs = Inr v"
  shows "\<exists>db'. confirm_manual_configuration now db0 t c kvs db = Inr db'"
proof -
  obtain label cond cid where v: "v = (label, cond, cid)" by (cases v)
  obtain db1 item created where "create_pipeline_item_idempotent now db0 t label cond (c, ManualConfiguration)
        (origin_of c ''manual_configuration'') cid db = Inr (db1, item, created)"
    by (rule pipeline_item_effect [OF inv])
  then show ?thesis using d v by (simp add: confirm_manual_configuration_def)
qed

lemma confirm_trade_in_total:
  assumes inv: "stock_inv db" and d: "described_vehicle COND_USED kvs = Inr v"
    and val: "get_opt ''valuationId'' kvs = None
      \<or> (\<exists>vid x. get_opt ''valuationId'' kvs = Some (JUuid vid) \<and> get_valuation_or_404 t vid db = Inr x)"
  shows "\<exists>db'. confirm_trade_in now db0 t c kvs db = Inr db'"
proof -
  obtain label cond cid where v: "v = (label, cond, cid)" by (cases v)
  obtain db1 item created where p: "create_pipeline_item_idempotent now db0 t label cond (c, TradeIn)
        (origin_of c ''trade_in'') cid db = Inr (db1, item, created)" "valuations db1 = valuations db"
    by (rule pipeline_item_effect [OF inv]) blast
  have "get_valuation_or_404 t vid db1 = get_valuation_or_404 t vid db" for vid
    using p(2) by (simp add: get_valuation_or_404_def)
  then show ?thesis using d v p(1) val by (auto simp: confirm_trade_in_def opt_uuid_def as_uuid_def)
qed

section \<open>Confirmation and cancellation in any order\<close>

text \<open>
  C3: a contract's confirmation and cancellation reach Stock in either order. Whichever is handled
  last, no car of the dealership is held by the cancelled contract afterwards; the ordered car of a
  manual configuration exists in the pipeline all the same; and a confirmation that arrives while the
  contract is not cancelled does reserve the car it creates.
\<close>

theorem cancelled_contract_holds_nothing:
  assumes inv: "stock_inv db"
    and m: "msg_tenant_id m1 = Some t" "map_of (msg_payload m1) ''contractId'' = Some (JUuid c)"
      "get_opt ''manualConfiguration'' (msg_payload m1) \<noteq> None" "msg_tenant_id m2 = Some t" "aggregate_id m2 = c"
    and confirm: "handle_sales_contract_confirmed_message t1 m1 d1 = Inr d2"
    and cancel: "handle_sales_contract_cancelled_message t2 m2 d3 = Inr d4"
  shows "(d3 = d2 \<and> d1 = db \<longrightarrow> nothing_held t c d4)
    \<and> (d3 = db \<and> d1 = d4 \<longrightarrow> nothing_held t c d2 \<and> has_item t (c, ManualConfiguration) d2)
    \<and> (d1 = db \<and> \<not> contract_is_cancelled t c db \<and> \<not> has_item t (c, ManualConfiguration) db \<longrightarrow>
        (\<exists>i \<in> set (stock_items d2). held_by t c i \<and> pipeline_ref i = Some (c, ManualConfiguration)))"
proof -
  have hc: "handle_sales_contract_confirmed t1 t (msg_payload m1) d1 = Inr d2"
    using confirm m by (simp add: handle_sales_contract_confirmed_message_def)
  obtain label where lab: "record_contract_cancelled t2 t c label (occurred_at m2) d3 = d4"
    using cancel m by (auto simp: handle_sales_contract_cancelled_message_def bindR_Inr_iff)
  have cid: "c' = c" if "get_item ''contractId'' (msg_payload m1) = Inr (JUuid c')" for c'
    using that m(2) by (simp add: get_item_def)
  have con: "confirm_effect t c d1 d2 \<and> has_item t (c, ManualConfiguration) d2
      \<and> (\<not> contract_is_cancelled t c d1 \<and> \<not> has_item t (c, ManualConfiguration) d1 \<longrightarrow>
         (\<exists>i \<in> set (stock_items d2). held_by t c i \<and> pipeline_ref i = Some (c, ManualConfiguration)))"
    if "stock_inv d1"
    by (rule handle_confirmed_effect [OF that hc]) (use m(3) cid in blast)
  have can: "stock_inv d4 \<and> nothing_held t c d4 \<and> contract_is_cancelled t c d4" if "stock_inv d3"
    using record_contract_cancelled_effect [OF that lab] by blast
  show ?thesis using con can inv by (auto simp: confirm_effect_def)
qed

definition example_message :: "string \<Rightarrow> uuid \<Rightarrow> payload \<Rightarrow> outbox_message" where
  "example_message etype aggregate pl = new_message 0 (plain_event etype (Some 3) ''sales'' ''contract'' aggregate pl)
     example_stock_db"

theorem cancelled_contract_holds_nothing_witness:
  "\<exists>d4 d2. handle_sales_contract_cancelled_message 0 (example_message ''sales.contract.cancelled'' 20
        [(''contractNumber'', JStr ''K-1'')]) example_stock_db = Inr d4
    \<and> handle_sales_contract_confirmed_message 1 (example_message ''sales.contract.confirmed'' 20
        [(''contractId'', JUuid 20), (''manualConfiguration'', JObj [(''vehicleLabel'', JStr ''Polo'')])]) d4 = Inr d2
    \<and> nothing_held 3 20 d2"
proof -
  let ?m1 = "example_message ''sales.contract.confirmed'' 20
        [(''contractId'', JUuid 20), (''manualConfiguration'', JObj [(''vehicleLabel'', JStr ''Polo'')])]"
  let ?m2 = "example_message ''sales.contract.cancelled'' 20 [(''contractNumber'', JStr ''K-1'')]"
  obtain d4 where 4: "handle_sales_contract_cancelled_message 0 ?m2 example_stock_db = Inr d4" "stock_inv d4"
    using record_contract_cancelled_effect(1) [OF example_stock_inv refl]
    by (auto simp: handle_sales_contract_cancelled_message_def example_message_def get_item_def as_str_def)
  have "described_vehicle NEW [(''vehicleLabel'', JStr ''Polo'')] = Inr (''Polo'', NEW, None)"
    by (simp add: described_vehicle_def get_item_def as_str_def condition_in_def get_opt_def opt_uuid_def)
  then obtain d2 where "confirm_manual_configuration 1 d4 3 20 [(''vehicleLabel'', JStr ''Polo'')] d4 = Inr d2"
    using confirm_manual_total [OF 4(2)] by blast
  then have 2: "handle_sales_contract_confirmed_message 1 ?m1 d4 = Inr d2"
    by (simp add: handle_sales_contract_confirmed_message_def handle_sales_contract_confirmed_def example_message_def
        get_item_def get_opt_def as_obj_def as_uuid_def)
  have "nothing_held 3 20 d2"
    using cancelled_contract_holds_nothing [OF example_stock_inv _ _ _ _ _ 2 4(1), of 3 20]
    by (simp add: example_message_def get_opt_def)
  then show ?thesis using 4(1) 2 by blast
qed

text \<open>
  C5: a car that has left stock is not reserved any more. Neither Sales' entry nor the endpoint changes
  anything for it: Sales gets an answer only when its contract already held the car when it left, the
  endpoint only the stored answer of an earlier request with the same key.
\<close>

theorem sold_car_not_reserved:
  assumes inv: "stock_inv db" and i: "find_stock_item t s db = Some i" "left_stock_at i \<noteq> None"
  shows "(reserve_for_contract now t s c k db = Inr (db', j) \<longrightarrow> db' = db \<and> (\<exists>r. holder t s db = Some (c, r)))
    \<and> (reserve now t s c key db = Inr (db'', j') \<longrightarrow> db'' = db \<and> key \<noteq> None)"
proof
  show "reserve_for_contract now t s c k db = Inr (db', j) \<longrightarrow> db' = db \<and> (\<exists>r. holder t s db = Some (c, r))"
  proof
    assume "reserve_for_contract now t s c k db = Inr (db', j)"
    then show "db' = db \<and> (\<exists>r. holder t s db = Some (c, r))"
      by (rule reserve_for_contract_cases [OF inv]) (use i in auto)
  qed
  show "reserve now t s c key db = Inr (db'', j') \<longrightarrow> db'' = db \<and> key \<noteq> None"
    using i by (auto simp: reserve_def get_stock_item_or_404_def refuse_if_left_stock_def bindR_Inr_iff
        split: option.splits)
qed

definition example_sold_item :: stock_item where
  "example_sold_item = example_item\<lparr>si_vin := Some ''WVWZZZ1JZXW000001'', si_vehicle_id := Some 6, lifecycle_status := IN_STOCK,
     in_stock_at := Some 0, purchase_price := Some 9000, is_invoiceable := True, left_stock_at := Some 1\<rparr>"

definition example_sold_db :: inventory_db where
  "example_sold_db = example_stock_db\<lparr>stock_items := [example_sold_item]\<rparr>"

lemma example_sold_inv: "stock_inv example_sold_db"
proof -
  have "vin_re ''WVWZZZ1JZXW000001''" by code_simp
  then have "item_ok example_sold_item"
    by (simp add: item_ok_def item_ok_fields_def example_sold_item_def example_item_def new_stock_item_def)
  moreover have "series_inv ''S-'' si_tenant_id stock_number [(3, 2)] [example_sold_item]"
    by (simp add: series_inv_def example_sold_item_def example_item_def next_value_def)
  ultimately show ?thesis
    by (simp add: stock_inv_def key_unique_def example_sold_db_def) (simp add: example_sold_item_def example_item_def)
qed

theorem sold_car_not_reserved_witness:
  "left_stock_at example_sold_item \<noteq> None \<and> find_stock_item 3 5 example_sold_db = Some example_sold_item
    \<and> (\<forall>db' j. reserve_for_contract 2 3 5 20 ''k'' example_sold_db \<noteq> Inr (db', j))"
proof -
  have f: "find_stock_item 3 5 example_sold_db = Some example_sold_item" "left_stock_at example_sold_item \<noteq> None"
    by (simp_all add: find_stock_item_def example_sold_db_def example_sold_item_def)
  have "holder 3 5 example_sold_db = None" by (simp add: holder_def f(1)) (simp add: example_sold_item_def)
  then have "reserve_for_contract 2 3 5 20 ''k'' example_sold_db \<noteq> Inr (db', j)" for db' j
    using sold_car_not_reserved [OF example_sold_inv f, THEN conjunct1, of 2 20 "''k''" db' j] by auto
  then show ?thesis using f by simp
qed

section \<open>The nightly sweep\<close>

definition swept :: "datetime \<Rightarrow> (uuid \<Rightarrow> uuid \<Rightarrow> contract_status option) \<Rightarrow> sweep_reservation \<Rightarrow> bool" where
  "swept now statuses r \<longleftrightarrow> (let status = reservation_status statuses r in
     status = None \<or> status = Some CT_CANCELLED \<or> (status = Some CT_PENDING \<and> pending_margin \<le> now - sr_reserved_at r))"

lemma sweep_key_inject [simp]: "sweep_key a = sweep_key b \<longleftrightarrow> a = b"
  by (metis append_same_eq nat_of_digits_digits same_append_eq sweep_key_def)

definition sweepable :: "'a inventory_db_scheme \<Rightarrow> sweep_reservation \<Rightarrow> bool" where
  "sweepable db r \<longleftrightarrow> (\<exists>c. holder (sr_tenant_id r) (sr_stock_item_id r) db = Some (c, sr_reservation_id r))
     \<and> fresh_key (sr_tenant_id r) (sweep_key (sr_reservation_id r)) db"

lemma release_one_effect:
  assumes inv: "stock_inv db" and r: "sweepable db r"
  obtains db' where "release_one now r (db, res) = (db', res\<lparr>sweep_released := sweep_released res @ [sr_stock_item_id r]\<rparr>)"
    "stock_inv db'" "outbox_grows db db'"
    "\<And>t s. holder t s db' = (if s = sr_stock_item_id r \<and> t = sr_tenant_id r then None else holder t s db)"
    "\<And>x. sweepable db x \<Longrightarrow> sr_stock_item_id x \<noteq> sr_stock_item_id r \<Longrightarrow> sr_reservation_id x \<noteq> sr_reservation_id r
       \<Longrightarrow> sweepable db' x"
proof -
  obtain c where h: "holder (sr_tenant_id r) (sr_stock_item_id r) db = Some (c, sr_reservation_id r)"
    and k: "fresh_key (sr_tenant_id r) (sweep_key (sr_reservation_id r)) db" using r by (auto simp: sweepable_def)
  obtain db' where rel: "release now (sr_tenant_id r) (sr_reservation_id r) (Some (sweep_key (sr_reservation_id r))) db
      = Inr (db', JObj [(''stockItemId'', JUuid (sr_stock_item_id r))])" "stock_inv db'" "outbox_grows db db'"
    "\<And>t s. holder t s db' = (if s = sr_stock_item_id r \<and> t = sr_tenant_id r then None else holder t s db)"
    "\<And>t' k'. k' \<noteq> sweep_key (sr_reservation_id r) \<Longrightarrow> fresh_key t' k' db \<Longrightarrow> fresh_key t' k' db'"
    by (rule release_frees [OF inv h k]) blast
  show thesis
    by (rule that [of db']) (use rel in \<open>auto simp: release_one_def sweepable_def\<close>)
qed

definition sweeps ::
  "datetime \<Rightarrow> (uuid \<Rightarrow> uuid \<Rightarrow> contract_status option) \<Rightarrow> uuid \<Rightarrow> uuid \<Rightarrow> sweep_reservation list \<Rightarrow> bool" where
  "sweeps now statuses t s rs \<longleftrightarrow> (\<exists>r \<in> set rs. sr_tenant_id r = t \<and> sr_stock_item_id r = s \<and> swept now statuses r)"

lemma sweeps_Cons: "sweeps now statuses t s (r # rs) \<longleftrightarrow>
    (sr_tenant_id r = t \<and> sr_stock_item_id r = s \<and> swept now statuses r) \<or> sweeps now statuses t s rs"
  by (auto simp: sweeps_def)

lemma sweep_fold:
  assumes "stock_inv db" "\<forall>r \<in> set rs. sweepable db r" "distinct (map sr_stock_item_id rs)"
    "distinct (map sr_reservation_id rs)"
  shows "\<exists>db' res'. fold (sweep_reservation_step now statuses) rs (db, res) = (db', res') \<and> stock_inv db' \<and> outbox_grows db db'
    \<and> (\<forall>t s. holder t s db' = (if sweeps now statuses t s rs then None else holder t s db))
    \<and> sweep_failed res' = sweep_failed res
    \<and> sweep_released res' = sweep_released res @ map sr_stock_item_id (filter (swept now statuses) rs)"
  using assms
proof (induction rs arbitrary: db res)
  case (Cons r rs)
  show ?case
  proof (cases "swept now statuses r")
    case True
    obtain db' where d: "release_one now r (db, res) = (db', res\<lparr>sweep_released := sweep_released res @ [sr_stock_item_id r]\<rparr>)"
      "stock_inv db'" "outbox_grows db db'"
      "\<And>t s. holder t s db' = (if s = sr_stock_item_id r \<and> t = sr_tenant_id r then None else holder t s db)"
      "\<And>x. sweepable db x \<Longrightarrow> sr_stock_item_id x \<noteq> sr_stock_item_id r \<Longrightarrow> sr_reservation_id x \<noteq> sr_reservation_id r
         \<Longrightarrow> sweepable db' x"
      by (rule release_one_effect [OF Cons.prems(1)]) (use Cons.prems(2) in auto)
    have step: "sweep_reservation_step now statuses r (db, res) = release_one now r (db, res)"
      using True by (auto simp: sweep_reservation_step_def swept_def Let_def)
    have all: "\<forall>x \<in> set rs. sweepable db' x"
    proof
      fix x assume that: "x \<in> set rs"
      show "sweepable db' x"
        by (rule d(5)) (use that Cons.prems in \<open>auto simp: image_iff\<close>)
    qed
    have dist: "distinct (map sr_stock_item_id rs)" "distinct (map sr_reservation_id rs)" using Cons.prems(3,4) by simp_all
    obtain db'' res'' where "fold (sweep_reservation_step now statuses) rs (db', res\<lparr>sweep_released := sweep_released res @ [sr_stock_item_id r]\<rparr>)
        = (db'', res'')" "stock_inv db''" "outbox_grows db' db''"
      "\<forall>t s. holder t s db'' = (if sweeps now statuses t s rs then None else holder t s db')"
      "sweep_failed res'' = sweep_failed res"
      "sweep_released res'' = sweep_released res @ sr_stock_item_id r # map sr_stock_item_id (filter (swept now statuses) rs)"
      using Cons.IH [OF d(2) all dist, of "res\<lparr>sweep_released := sweep_released res @ [sr_stock_item_id r]\<rparr>"]
      by (elim exE conjE) simp
    then show ?thesis
      using True outbox_grows_trans [OF d(3)] by (simp add: step d(1,4) sweeps_Cons)
  next
    case False
    obtain res' where step: "sweep_reservation_step now statuses r (db, res) = (db, res')"
      "sweep_failed res' = sweep_failed res" "sweep_released res' = sweep_released res"
    proof -
      obtain a where "reservation_status statuses r = Some a" "a \<noteq> CT_CANCELLED"
        "a = CT_PENDING \<longrightarrow> now - sr_reserved_at r < pending_margin"
        using False by (cases "reservation_status statuses r") (auto simp: swept_def Let_def)
      then show thesis
        by (cases a) (auto simp: sweep_reservation_step_def Let_def intro: that)
    qed
    have "sweeps now statuses t s (r # rs) = sweeps now statuses t s rs" for t s using False by (simp add: sweeps_Cons)
    then show ?thesis using Cons.IH [OF Cons.prems(1), of res'] Cons.prems(2-4) False by (simp add: step)
  qed
qed (simp add: sweeps_def)

lemma set_map_filter_eq: "set (List.map_filter f xs) = {y. \<exists>x \<in> set xs. f x = Some y}"
  by (force simp: List.map_filter_def)

lemma key_unique_set: "set xs = set ys \<Longrightarrow> key_unique f xs = key_unique f ys"
  by (simp add: key_unique_def)

lemma distinct_map_filter_key:
  assumes "distinct rows" "key_unique k rows" "\<And>x y. f x = Some y \<Longrightarrow> k x = Some (h y)"
  shows "distinct (map h (List.map_filter f rows))"
  using assms(1,2)
proof (induction rows)
  case (Cons x rows)
  have "h y \<noteq> h z" if "f x = Some y" "w \<in> set rows" "f w = Some z" for y z w
    using that Cons.prems assms(3) by (auto simp: key_unique_Cons)
  then show ?case
    using Cons by (cases "f x") (auto simp: map_filter_simps key_unique_Cons set_map_filter_eq)
qed (simp add: map_filter_simps)

definition reservation_of :: "stock_item \<Rightarrow> sweep_reservation option" where
  "reservation_of i = (case active_reservation_id i of
       None \<Rightarrow> None
     | Some rid \<Rightarrow> if reservation_state i = RESERVED
         then Some \<lparr>sr_tenant_id = si_tenant_id i, sr_stock_item_id = si_id i, sr_reservation_id = rid,
                sr_contract_id = reserved_by_contract_id i, sr_reserved_at = si_updated_at i\<rparr> else None)"

lemma list_reservations_eq: "list_reservations db
    = List.map_filter reservation_of (sort_key si_tenant_id (sort_key si_id (stock_items db)))"
  by (simp add: list_reservations_def reservation_of_def [abs_def])

lemma list_reservations_distinct:
  assumes "stock_inv db"
  shows "distinct (map sr_stock_item_id (list_reservations db))" "distinct (map sr_reservation_id (list_reservations db))"
proof -
  let ?rows = "sort_key si_tenant_id (sort_key si_id (stock_items db))"
  have d: "distinct ?rows" using assms by (auto simp: stock_inv_def intro: distinct_rows)
  have "key_unique (\<lambda>i. Some (si_id i)) ?rows"
    using assms by (auto simp: stock_inv_def key_unique_def distinct_map inj_on_def)
  then show "distinct (map sr_stock_item_id (list_reservations db))"
    unfolding list_reservations_eq
    by (rule distinct_map_filter_key [OF d]) (auto simp: reservation_of_def split: option.splits if_splits)
  have "key_unique active_reservation_id ?rows"
    using assms by (subst key_unique_set [of _ "stock_items db"]) (simp_all add: stock_inv_def)
  then show "distinct (map sr_reservation_id (list_reservations db))"
    unfolding list_reservations_eq
    by (rule distinct_map_filter_key [OF d]) (auto simp: reservation_of_def split: option.splits if_splits)
qed

lemma in_list_reservations:
  assumes inv: "stock_inv db"
  shows "r \<in> set (list_reservations db) \<longleftrightarrow> (\<exists>i c. find_stock_item (sr_tenant_id r) (sr_stock_item_id r) db = Some i
    \<and> holder (sr_tenant_id r) (sr_stock_item_id r) db = Some (c, sr_reservation_id r) \<and> sr_contract_id r = Some c
    \<and> sr_reserved_at r = si_updated_at i)"
proof
  have dist: "distinct (map si_id (stock_items db))" using inv by (simp add: stock_inv_def)
  assume "r \<in> set (list_reservations db)"
  then obtain i where i: "i \<in> set (stock_items db)" "reservation_of i = Some r"
    by (auto simp: list_reservations_eq set_map_filter_eq)
  moreover have "item_ok i" using item_ok_of [OF inv i(1)] .
  ultimately show "\<exists>i c. find_stock_item (sr_tenant_id r) (sr_stock_item_id r) db = Some i
    \<and> holder (sr_tenant_id r) (sr_stock_item_id r) db = Some (c, sr_reservation_id r) \<and> sr_contract_id r = Some c
    \<and> sr_reserved_at r = si_updated_at i"
    using find_stock_item_iff [OF dist, of "si_tenant_id i" "si_id i" i]
    by (auto simp: reservation_of_def holder_def item_ok_def item_ok_fields_def split: option.splits if_splits)
next
  assume "\<exists>i c. find_stock_item (sr_tenant_id r) (sr_stock_item_id r) db = Some i
    \<and> holder (sr_tenant_id r) (sr_stock_item_id r) db = Some (c, sr_reservation_id r) \<and> sr_contract_id r = Some c
    \<and> sr_reserved_at r = si_updated_at i"
  then obtain i c where i: "find_stock_item (sr_tenant_id r) (sr_stock_item_id r) db = Some i"
    "holder (sr_tenant_id r) (sr_stock_item_id r) db = Some (c, sr_reservation_id r)" "sr_contract_id r = Some c"
    "sr_reserved_at r = si_updated_at i" by blast
  then have "reservation_of i = Some r"
    using find_stock_item_SomeD [OF i(1)] holder_iff [OF inv i(1)] by (simp add: reservation_of_def)
  then show "r \<in> set (list_reservations db)"
    using find_stock_item_SomeD [OF i(1)] by (auto simp: list_reservations_eq set_map_filter_eq)
qed

text \<open>What the sweep leaves alone: a signed contract's car, and a pending one's for the first hour.\<close>

definition sweep_keeps :: "datetime \<Rightarrow> contract_status option \<Rightarrow> stock_item \<Rightarrow> bool" where
  "sweep_keeps now status i \<longleftrightarrow> status = Some CT_CONFIRMED \<or> status = Some CT_INVOICED
     \<or> (status = Some CT_PENDING \<and> now - si_updated_at i < hour_us)"

lemma not_swept_iff: "\<not> swept now statuses r \<longleftrightarrow> (let status = reservation_status statuses r in
    status = Some CT_CONFIRMED \<or> status = Some CT_INVOICED \<or> (status = Some CT_PENDING \<and> now - sr_reserved_at r < hour_us))"
  by (cases "reservation_status statuses r") (auto simp: swept_def Let_def pending_margin_def intro: contract_status.exhaust)

text \<open>
  C4: the nightly sweep frees exactly the reservations no contract stands behind. Whatever Sales
  reports, a car held by a confirmed or invoiced contract, or by a pending one reserved within the last
  hour, stays held; every other held car is free afterwards and in the result's list; nothing fails, no
  other car is touched and the table's invariant holds.
\<close>

theorem sweep_frees_exactly_orphans:
  assumes inv: "stock_inv db"
    and keys: "\<forall>i \<in> set (stock_items db). \<forall>rid. active_reservation_id i = Some rid \<longrightarrow> fresh_key (si_tenant_id i) (sweep_key rid) db"
    and sweep: "release_orphaned_reservations now statuses db = (db', res)"
  shows "stock_inv db' \<and> sweep_failed res = []
    \<and> (\<forall>t s. holder t s db = None \<longrightarrow> holder t s db' = None)
    \<and> (\<forall>t s i c r. find_stock_item t s db = Some i \<and> holder t s db = Some (c, r) \<longrightarrow>
        (if sweep_keeps now (statuses t c) i then holder t s db' = Some (c, r)
         else holder t s db' = None \<and> s \<in> set (sweep_released res)))"
proof -
  let ?rs = "list_reservations db"
  have "sweepable db r" if r: "r \<in> set ?rs" for r
  proof -
    obtain i c where i: "find_stock_item (sr_tenant_id r) (sr_stock_item_id r) db = Some i"
      "holder (sr_tenant_id r) (sr_stock_item_id r) db = Some (c, sr_reservation_id r)"
      using r in_list_reservations [OF inv] by blast
    then show ?thesis using find_stock_item_SomeD [OF i(1)] holder_iff [OF inv i(1)] keys by (auto simp: sweepable_def)
  qed
  then obtain d e where f: "fold (sweep_reservation_step now statuses) ?rs (db, \<lparr>sweep_released = [], sweep_kept_signed = 0,
      sweep_kept_recent = 0, sweep_changed = 0, sweep_failed = []\<rparr>) = (d, e)" "stock_inv d"
    "\<forall>t s. holder t s d = (if sweeps now statuses t s ?rs then None else holder t s db)"
    "sweep_failed e = []" "sweep_released e = map sr_stock_item_id (filter (swept now statuses) ?rs)"
    using sweep_fold [OF inv _ list_reservations_distinct [OF inv], where now = now and statuses = statuses and
        res = "\<lparr>sweep_released = [], sweep_kept_signed = 0, sweep_kept_recent = 0, sweep_changed = 0, sweep_failed = []\<rparr>"]
    by (elim meta_impE exE conjE) simp_all
  have eq: "db' = d" "res = e" using sweep f(1) by (simp_all add: release_orphaned_reservations_def)
  have each: "if sweep_keeps now (statuses t c) i then holder t s d = Some (c, r)
         else holder t s d = None \<and> s \<in> set (sweep_released e)"
    if h: "find_stock_item t s db = Some i" "holder t s db = Some (c, r)" for t s i c r
  proof -
    let ?r = "\<lparr>sr_tenant_id = t, sr_stock_item_id = s, sr_reservation_id = r, sr_contract_id = Some c,
      sr_reserved_at = si_updated_at i\<rparr>"
    have mem: "?r \<in> set ?rs" using h in_list_reservations [OF inv, of ?r] by simp
    have only: "x = ?r" if "x \<in> set ?rs" "sr_stock_item_id x = s" for x
      using distinct_key_unique [OF list_reservations_distinct(1) [OF inv] that(1) mem] that(2) by simp
    have "sweeps now statuses t s ?rs \<longleftrightarrow> swept now statuses ?r"
    proof
      assume "sweeps now statuses t s ?rs"
      then obtain x where x: "x \<in> set ?rs" "sr_stock_item_id x = s" "swept now statuses x" unfolding sweeps_def by blast
      show "swept now statuses ?r" using x(3) unfolding only [OF x(1,2)] .
    next
      assume "swept now statuses ?r"
      then show "sweeps now statuses t s ?rs" unfolding sweeps_def by (intro bexI [OF _ mem]) simp
    qed
    moreover have "swept now statuses ?r \<longleftrightarrow> \<not> sweep_keeps now (statuses t c) i"
      using not_swept_iff [of now statuses ?r] by (auto simp: sweep_keeps_def reservation_status_def Let_def)
    moreover have "s \<in> set (sweep_released e)" if "swept now statuses ?r"
      unfolding f(5) using mem that by (auto simp: image_iff intro!: bexI [of _ ?r])
    ultimately show ?thesis using f(3) [rule_format, of t s] h(2) by (cases "sweep_keeps now (statuses t c) i") simp_all
  qed
  have "holder t s d = None" if "holder t s db = None" for t s using f(3) that by simp
  then show ?thesis unfolding eq using f(2,4) each by blast
qed

definition example_reserved_db :: inventory_db where
  "example_reserved_db = fst (reserve_and_flush 0 example_item 20 example_stock_db)"

theorem sweep_frees_exactly_orphans_witness:
  "holder 3 5 example_reserved_db = Some (20, 10)
    \<and> holder 3 5 (fst (release_orphaned_reservations hour_us (\<lambda>_ _. Some CT_PENDING) example_reserved_db)) = None
    \<and> holder 3 5 (fst (release_orphaned_reservations hour_us (\<lambda>_ _. Some CT_CONFIRMED) example_reserved_db)) = Some (20, 10)"
proof -
  obtain d r where d: "reserve_and_flush 0 example_item 20 example_stock_db = (d, r)"
    by (cases "reserve_and_flush 0 example_item 20 example_stock_db")
  have "example_item \<in> set (stock_items example_stock_db)" by simp
  note eff = reserve_and_flush_effect [OF example_stock_inv this d]
  have ex: "example_reserved_db = d" by (simp add: example_reserved_db_def d)
  have h: "holder 3 5 d = Some (20, 10)" using eff(3) eff(4) [of 3 5] by simp
  obtain i where i: "find_stock_item 3 5 d = Some i" "si_updated_at i = 0" using eff(8) [of 3 5] by auto
  have k: "fresh_key t k d" for t k using eff(5) by (simp add: fresh_key_def)
  have "holder 3 5 (fst (release_orphaned_reservations hour_us st d)) = (if sweep_keeps hour_us (st 3 20) i then Some (20, 10) else None)"
    for st
    using sweep_frees_exactly_orphans [OF eff(1), of hour_us st "fst (release_orphaned_reservations hour_us st d)"
        "snd (release_orphaned_reservations hour_us st d)"] h i(1) k by (auto split: if_splits)
  then show ?thesis using h i(2) by (simp add: ex sweep_keeps_def)
qed

end
