(* ===== verification/Customer_Contacts.thy ===== *)
theory Customer_Contacts
  imports Master_Data
begin

text \<open>
  The contact channels of a customer (\<^verbatim>\<open>app/customer/services/customer.py\<close>, phones, emails and
  addresses): one code for the primary flag of all three tables, which the source writes over the
  model class and its type column and this theory over \<open>type_of\<close>; creation, PATCH and deletion of a
  row in each table; the floor of one usable contact point; and the projections a customer is read
  with. A PATCH carries, per column, nothing, a value, or for a nullable column \<open>null\<close>; the NOT NULL
  columns a request sets to \<open>null\<close> are listed in \<open>cc_null_columns\<close>, and the flush refuses them.
\<close>

section \<open>Requests\<close>

record 't contact_create =
  cr_type :: 't
  cr_label :: "string option"
  cr_is_primary :: bool
  cr_consent_granted :: bool
  cr_consent_scope :: "consent_scope option"
  cr_consent_source :: "consent_source option"

record customer_phone_create = "phone_type contact_create" +
  cr_phone_e164 :: string

record customer_email_create = "email_type contact_create" +
  cr_email_address :: string

record customer_address_create = "address_type contact_create" +
  cr_address_street :: string
  cr_address_line2 :: "string option"
  cr_address_house_number :: string
  cr_address_postal_code :: string
  cr_address_locality :: string
  cr_address_country :: string

record 't contact_update =
  cc_type :: "'t option"
  cc_label :: "string option option"
  cc_is_primary :: "bool option"
  cc_valid_to :: "datetime option option"
  cc_do_not_use :: "bool option"
  cc_do_not_use_reason :: "string option option"
  cc_consent_granted :: "bool option"
  cc_consent_scope :: "consent_scope option option"
  cc_consent_source :: "consent_source option option"
  cc_null_columns :: "string list"

record customer_phone_update = "phone_type contact_update" +
  cc_phone_e164 :: "string option"

record customer_email_update = "email_type contact_update" +
  cc_email_address :: "string option"

record customer_address_update = "address_type contact_update" +
  cc_address_street :: "string option"
  cc_address_line2 :: "string option option"
  cc_address_house_number :: "string option"
  cc_address_postal_code :: "string option"
  cc_address_locality :: "string option"
  cc_address_country :: "string option"

text \<open>\<open>changes.get(column, current)\<close>.\<close>

definition patched :: "'v option \<Rightarrow> 'v \<Rightarrow> 'v" where
  "patched change current = (case change of Some v \<Rightarrow> v | None \<Rightarrow> current)"

lemma patched_simps [simp]: "patched None v = v" "patched (Some w) v = w"
  by (simp_all add: patched_def)

section \<open>The primary flag\<close>

definition in_group :: "('a contact_channel_scheme \<Rightarrow> 't) \<Rightarrow> uuid \<Rightarrow> 't \<Rightarrow> 'a contact_channel_scheme \<Rightarrow> bool" where
  "in_group type_of cid t row \<longleftrightarrow> ch_customer_id row = cid \<and> type_of row = t"

definition flag_where ::
  "('a contact_channel_scheme \<Rightarrow> bool) \<Rightarrow> bool \<Rightarrow> 'a contact_channel_scheme list \<Rightarrow> 'a contact_channel_scheme list" where
  "flag_where P b rows = update_where P (\<lambda>r. r\<lparr>is_primary := b\<rparr>) rows"

definition fixup_single_primary ::
  "('a contact_channel_scheme \<Rightarrow> 't) \<Rightarrow> uuid \<Rightarrow> 't \<Rightarrow> 'a contact_channel_scheme list \<Rightarrow> 'a contact_channel_scheme list" where
  "fixup_single_primary type_of cid t table =
     (let rows = sort_key ch_created_at (select_all (in_group type_of cid t) table);
          table1 = flag_where (\<lambda>r. in_group type_of cid t r \<and> is_primary r \<and> \<not> is_usable_row r) False table;
          usable = filter is_usable_row rows;
          primaries = filter is_primary usable
      in if length primaries > 1
         then flag_where (\<lambda>r. ch_id r \<in> set (map ch_id (tl primaries))) False table1
         else if primaries = [] \<and> usable \<noteq> []
         then flag_where (\<lambda>r. ch_id r = ch_id (hd usable)) True table1
         else table1)"

definition has_usable_primary ::
  "('a contact_channel_scheme \<Rightarrow> 't) \<Rightarrow> uuid \<Rightarrow> 't \<Rightarrow> 'a contact_channel_scheme list \<Rightarrow> bool" where
  "has_usable_primary type_of cid t table =
     list_ex is_usable_row (select_all (\<lambda>r. in_group type_of cid t r \<and> is_primary r) table)"

definition unset_other_primaries ::
  "('a contact_channel_scheme \<Rightarrow> 't) \<Rightarrow> uuid \<Rightarrow> 't \<Rightarrow> 'a contact_channel_scheme list \<Rightarrow> 'a contact_channel_scheme list" where
  "unset_other_primaries type_of cid t table =
     flag_where (\<lambda>r. in_group type_of cid t r \<and> is_primary r) False table"

definition usable_after :: "('t, 'b) contact_update_scheme \<Rightarrow> 'a contact_channel_scheme \<Rightarrow> bool" where
  "usable_after changes row \<longleftrightarrow> patched (cc_valid_to changes) (ch_valid_to row) = None
     \<and> \<not> patched (cc_do_not_use changes) (do_not_use row)"

text \<open>
  Returns the table, the row and the groups to settle. In the third branch the source demotes the row
  it is about to change.
\<close>

definition prepare_primary_change ::
  "('a contact_channel_scheme \<Rightarrow> 't) \<Rightarrow> 'a contact_channel_scheme \<Rightarrow> ('t, 'b) contact_update_scheme
     \<Rightarrow> 'a contact_channel_scheme list
     \<Rightarrow> ('a contact_channel_scheme list \<times> 'a contact_channel_scheme \<times> 't list) result" where
  "prepare_primary_change type_of row changes table =
     (let cid = ch_customer_id row; old_type = type_of row; new_type = patched (cc_type changes) old_type;
          moves = (new_type \<noteq> old_type);
          groups = (if moves then [old_type, new_type]
            else if is_usable_row row \<noteq> usable_after changes row then [new_type]
            else if cc_is_primary changes \<noteq> None then [new_type] else [])
      in if cc_is_primary changes = Some True
         then Inr (if (\<not> is_primary row \<or> moves) \<and> usable_after changes row
           then unset_other_primaries type_of cid new_type table else table, row, groups)
         else if cc_is_primary changes = Some False \<and> is_primary row then Inl (BadRequestError [])
         else if moves \<and> is_primary row \<and> has_usable_primary type_of cid new_type table
         then Inr (table, row\<lparr>is_primary := False\<rparr>, groups)
         else Inr (table, row, groups))"

text \<open>The fields every channel has in common, set as \<open>setattr\<close> sets them.\<close>

definition apply_changes ::
  "datetime \<Rightarrow> ('t, 'b) contact_update_scheme \<Rightarrow> uuid option \<Rightarrow> 'a contact_channel_scheme \<Rightarrow> 'a contact_channel_scheme" where
  "apply_changes now changes actor_id row =
     row\<lparr>ch_label := patched (cc_label changes) (ch_label row),
         is_primary := patched (cc_is_primary changes) (is_primary row),
         ch_valid_to := patched (cc_valid_to changes) (ch_valid_to row),
         do_not_use := patched (cc_do_not_use changes) (do_not_use row),
         do_not_use_reason := patched (cc_do_not_use_reason changes) (do_not_use_reason row),
         consent_granted := patched (cc_consent_granted changes) (consent_granted row),
         ch_consent_scope := patched (cc_consent_scope changes) (ch_consent_scope row),
         ch_consent_source := patched (cc_consent_source changes) (ch_consent_source row),
         consent_timestamp := (if cc_consent_granted changes = Some True \<and> \<not> consent_granted row
           then Some now else consent_timestamp row),
         ch_updated_by := actor_id\<rparr>"

text \<open>The row written back and the groups of its customer settled one after the other.\<close>

definition write_row :: "'a contact_channel_scheme \<Rightarrow> 'a contact_channel_scheme list \<Rightarrow> 'a contact_channel_scheme list" where
  "write_row row table = update_where (\<lambda>r. ch_id r = ch_id row) (\<lambda>_. row) table"

definition settle_groups ::
  "('a contact_channel_scheme \<Rightarrow> 't) \<Rightarrow> uuid \<Rightarrow> 't list \<Rightarrow> 'a contact_channel_scheme list \<Rightarrow> 'a contact_channel_scheme list" where
  "settle_groups type_of cid groups table = fold (fixup_single_primary type_of cid) groups table"

section \<open>Usable contact points\<close>

definition usable_count :: "uuid \<Rightarrow> uuid \<Rightarrow> 'a contact_channel_scheme list \<Rightarrow> nat" where
  "usable_count cid except table =
     length (select_all (\<lambda>r. ch_customer_id r = cid \<and> ch_id r \<noteq> except \<and> ch_valid_to r = None \<and> \<not> do_not_use r) table)"

definition assert_not_last_contact_point :: "'r contact_channel_scheme \<Rightarrow> 'a master_db_scheme \<Rightarrow> unit result" where
  "assert_not_last_contact_point row db =
     (if ch_valid_to row \<noteq> None \<or> do_not_use row then Inr ()
      else if usable_count (ch_customer_id row) (ch_id row) (customer_phones db)
            + usable_count (ch_customer_id row) (ch_id row) (customer_emails db) = 0
      then Inl (BadRequestError []) else Inr ())"

definition becomes_unusable :: "('t, 'b) contact_update_scheme \<Rightarrow> 'a contact_channel_scheme \<Rightarrow> bool" where
  "becomes_unusable changes row \<longleftrightarrow>
     (case cc_valid_to changes of Some (Some t) \<Rightarrow> ch_valid_to row = None | _ \<Rightarrow> False)
     \<or> cc_do_not_use changes = Some True \<and> \<not> do_not_use row"

definition channel_authorises_marketing :: "'a contact_channel_scheme \<Rightarrow> bool" where
  "channel_authorises_marketing row \<longleftrightarrow>
     consent_granted row \<and> (ch_consent_scope row = None \<or> ch_consent_scope row = Some MARKETING)"

section \<open>Audit payloads\<close>

fun scope_value :: "consent_scope \<Rightarrow> string" where
  "scope_value MARKETING = ''marketing''" | "scope_value INVOICING_SCOPE = ''invoicing''"
| "scope_value SERVICE = ''service''"

fun source_value :: "consent_source \<Rightarrow> string" where
  "source_value FORM = ''form''" | "source_value COUNTER = ''counter''" | "source_value WEB = ''web''"
| "source_value BY_PHONE = ''phone''"

fun phone_type_value :: "phone_type \<Rightarrow> string" where
  "phone_type_value MOBILE = ''mobile''" | "phone_type_value LANDLINE = ''landline''"
| "phone_type_value WORK_PHONE = ''work''" | "phone_type_value FAX = ''fax''"

fun email_type_value :: "email_type \<Rightarrow> string" where
  "email_type_value PERSONAL = ''personal''" | "email_type_value WORK_EMAIL = ''work''"
| "email_type_value INVOICING_EMAIL = ''invoicing''"

fun address_type_value :: "address_type \<Rightarrow> string" where
  "address_type_value DOMICILE = ''domicile''" | "address_type_value BILLING = ''billing''"
| "address_type_value DELIVERY = ''delivery''"

definition consent_snapshot :: "'a contact_channel_scheme \<Rightarrow> payload" where
  "consent_snapshot row =
     [(''consentGranted'', JBool (consent_granted row)),
      (''consentScope'', json_opt (JStr \<circ> scope_value) (ch_consent_scope row)),
      (''consentSource'', json_opt (JStr \<circ> source_value) (ch_consent_source row)),
      (''consentTimestamp'', json_opt JTime (consent_timestamp row))]"

definition phone_audit_payload :: "customer_phone \<Rightarrow> payload" where
  "phone_audit_payload p =
     [(''phoneType'', JStr (phone_type_value (phone_type p))), (''label'', json_opt JStr (ch_label p)),
      (''phoneE164'', JStr (phone_e164 p)), (''isPrimary'', JBool (is_primary p))]"

definition email_audit_payload :: "customer_email \<Rightarrow> payload" where
  "email_audit_payload e =
     [(''emailType'', JStr (email_type_value (email_type e))), (''label'', json_opt JStr (ch_label e)),
      (''emailAddress'', JStr (email_address e)), (''isPrimary'', JBool (is_primary e))]"

definition address_audit_payload :: "customer_address \<Rightarrow> payload" where
  "address_audit_payload a =
     [(''addressType'', JStr (address_type_value (address_type a))), (''label'', json_opt JStr (ch_label a)),
      (''addressStreet'', JStr (address_street a)), (''addressLine2'', json_opt JStr (address_line2 a)),
      (''addressHouseNumber'', JStr (address_house_number a)),
      (''addressPostalCode'', JStr (address_postal_code a)), (''addressLocality'', JStr (address_locality a)),
      (''addressCanton'', json_opt JStr (address_canton a)), (''addressCountry'', JStr (address_country a)),
      (''isPrimary'', JBool (is_primary a))] @ consent_snapshot a"

section \<open>Phones\<close>

definition phone_key :: "customer_phone \<Rightarrow> uuid \<times> string" where
  "phone_key p = (ch_customer_id p, phone_e164 p)"

definition audit_contact ::
  "datetime \<Rightarrow> string \<Rightarrow> uuid option \<Rightarrow> 'r contact_channel_scheme \<Rightarrow> payload option \<Rightarrow> payload option
     \<Rightarrow> 'a core_db_scheme \<Rightarrow> 'a core_db_scheme" where
  "audit_contact now action actor_id row before after =
     record_audit_event now ''customer'' (ch_customer_id row) (Some (ch_group_id row)) action actor_id before after None"

definition new_phone ::
  "datetime \<Rightarrow> customer \<Rightarrow> customer_phone_create \<Rightarrow> uuid option \<Rightarrow> uuid \<Rightarrow> bool \<Rightarrow> customer_phone" where
  "new_phone now c data actor_id pid primary =
     \<lparr>ch_id = pid, ch_group_id = group_id c, ch_customer_id = cust_id c, ch_label = cr_label data,
      is_primary = primary, ch_valid_from = now, ch_valid_to = None, do_not_use = False, do_not_use_reason = None,
      consent_granted = cr_consent_granted data, ch_consent_scope = cr_consent_scope data,
      ch_consent_source = cr_consent_source data,
      consent_timestamp = (if cr_consent_granted data then Some now else None), ch_created_at = now,
      ch_created_by = actor_id, ch_updated_by = actor_id, phone_type = cr_type data,
      phone_e164 = cr_phone_e164 data, phone_normalised = normalise_phone (Some (cr_phone_e164 data))\<rparr>"

definition create_customer_phone ::
  "datetime \<Rightarrow> customer \<Rightarrow> customer_phone_create \<Rightarrow> uuid option \<Rightarrow> 'a master_db_scheme
     \<Rightarrow> ('a master_db_scheme \<times> customer_phone) result" where
  "create_customer_phone now c data actor_id db =
     (let primary = (cr_is_primary data
            \<or> \<not> has_usable_primary phone_type (cust_id c) (cr_type data) (customer_phones db));
          table = (if primary then unset_other_primaries phone_type (cust_id c) (cr_type data) (customer_phones db)
            else customer_phones db);
          (pid, db1) = draw_uuid db;
          phone = new_phone now c data actor_id pid primary
      in if \<not> distinct (map phone_key (table @ [phone]))
         then Inl (ConflictError [(''phoneE164'', JStr (cr_phone_e164 data))])
         else Inr (audit_contact now ''phone_add'' actor_id phone None
             (Some (phone_audit_payload phone @ consent_snapshot phone)) (db1\<lparr>customer_phones := table @ [phone]\<rparr>),
           phone))"

definition apply_phone_changes :: "datetime \<Rightarrow> customer_phone_update \<Rightarrow> uuid option \<Rightarrow> customer_phone \<Rightarrow> customer_phone" where
  "apply_phone_changes now changes actor_id phone =
     (let p = apply_changes now changes actor_id phone
      in p\<lparr>phone_type := patched (cc_type changes) (phone_type p),
           phone_e164 := patched (cc_phone_e164 changes) (phone_e164 p),
           phone_normalised := (case cc_phone_e164 changes of Some e \<Rightarrow> normalise_phone (Some e) | None \<Rightarrow> phone_normalised p)\<rparr>)"

definition update_customer_phone ::
  "datetime \<Rightarrow> customer_phone \<Rightarrow> customer_phone_update \<Rightarrow> uuid option \<Rightarrow> 'a master_db_scheme
     \<Rightarrow> 'a master_db_scheme result" where
  "update_customer_phone now phone changes actor_id db =
     bindR (if becomes_unusable changes phone then assert_not_last_contact_point phone db else Inr ()) (\<lambda>_.
     bindR (prepare_primary_change phone_type phone changes (customer_phones db)) (\<lambda>(table, row, groups).
       let row' = apply_phone_changes now changes actor_id row;
           flushed = write_row row' table
       in if cc_null_columns changes \<noteq> [] \<or> \<not> distinct (map phone_key flushed)
          then Inl (ConflictError [(''phoneE164'', json_opt JStr (cc_phone_e164 changes))])
          else let settled = settle_groups phone_type (ch_customer_id phone) groups flushed;
                   after = (case select_one (\<lambda>r. ch_id r = ch_id phone) settled of Some r \<Rightarrow> r | None \<Rightarrow> row')
               in Inr (audit_contact now ''phone_update'' actor_id phone
                    (Some (phone_audit_payload phone @ consent_snapshot phone))
                    (Some (phone_audit_payload after @ consent_snapshot after))
                    (db\<lparr>customer_phones := settled\<rparr>))))"

definition delete_customer_phone ::
  "datetime \<Rightarrow> customer_phone \<Rightarrow> uuid option \<Rightarrow> 'a master_db_scheme \<Rightarrow> 'a master_db_scheme result" where
  "delete_customer_phone now phone actor_id db =
     bindR (assert_not_last_contact_point phone db) (\<lambda>_.
       let table = delete_where (\<lambda>r. ch_id r = ch_id phone) (customer_phones db)
       in Inr (audit_contact now ''phone_remove'' actor_id phone (Some (phone_audit_payload phone)) None
            (db\<lparr>customer_phones := fixup_single_primary phone_type (ch_customer_id phone) (phone_type phone) table\<rparr>)))"

section \<open>Emails\<close>

definition email_key :: "customer_email \<Rightarrow> uuid \<times> string" where
  "email_key e = (ch_customer_id e, email_address e)"

definition new_email ::
  "datetime \<Rightarrow> customer \<Rightarrow> customer_email_create \<Rightarrow> uuid option \<Rightarrow> uuid \<Rightarrow> bool \<Rightarrow> customer_email" where
  "new_email now c data actor_id eid primary =
     \<lparr>ch_id = eid, ch_group_id = group_id c, ch_customer_id = cust_id c, ch_label = cr_label data,
      is_primary = primary, ch_valid_from = now, ch_valid_to = None, do_not_use = False, do_not_use_reason = None,
      consent_granted = cr_consent_granted data, ch_consent_scope = cr_consent_scope data,
      ch_consent_source = cr_consent_source data,
      consent_timestamp = (if cr_consent_granted data then Some now else None), ch_created_at = now,
      ch_created_by = actor_id, ch_updated_by = actor_id, email_type = cr_type data,
      email_address = cr_email_address data\<rparr>"

definition create_customer_email ::
  "datetime \<Rightarrow> customer \<Rightarrow> customer_email_create \<Rightarrow> uuid option \<Rightarrow> 'a master_db_scheme
     \<Rightarrow> ('a master_db_scheme \<times> customer_email) result" where
  "create_customer_email now c data actor_id db =
     (let primary = (cr_is_primary data
            \<or> \<not> has_usable_primary email_type (cust_id c) (cr_type data) (customer_emails db));
          table = (if primary then unset_other_primaries email_type (cust_id c) (cr_type data) (customer_emails db)
            else customer_emails db);
          (eid, db1) = draw_uuid db;
          email = new_email now c data actor_id eid primary
      in if \<not> distinct (map email_key (table @ [email]))
         then Inl (ConflictError [(''emailAddress'', JStr (cr_email_address data))])
         else Inr (audit_contact now ''email_add'' actor_id email None
             (Some (email_audit_payload email @ consent_snapshot email)) (db1\<lparr>customer_emails := table @ [email]\<rparr>),
           email))"

definition apply_email_changes :: "datetime \<Rightarrow> customer_email_update \<Rightarrow> uuid option \<Rightarrow> customer_email \<Rightarrow> customer_email" where
  "apply_email_changes now changes actor_id email =
     (let e = apply_changes now changes actor_id email
      in e\<lparr>email_type := patched (cc_type changes) (email_type e),
           email_address := patched (cc_email_address changes) (email_address e)\<rparr>)"

definition update_customer_email ::
  "datetime \<Rightarrow> customer_email \<Rightarrow> customer_email_update \<Rightarrow> uuid option \<Rightarrow> 'a master_db_scheme
     \<Rightarrow> 'a master_db_scheme result" where
  "update_customer_email now email changes actor_id db =
     bindR (if becomes_unusable changes email then assert_not_last_contact_point email db else Inr ()) (\<lambda>_.
     bindR (prepare_primary_change email_type email changes (customer_emails db)) (\<lambda>(table, row, groups).
       let row' = apply_email_changes now changes actor_id row;
           flushed = write_row row' table
       in if cc_null_columns changes \<noteq> [] \<or> \<not> distinct (map email_key flushed)
          then Inl (ConflictError [(''emailAddress'', json_opt JStr (cc_email_address changes))])
          else let settled = settle_groups email_type (ch_customer_id email) groups flushed;
                   after = (case select_one (\<lambda>r. ch_id r = ch_id email) settled of Some r \<Rightarrow> r | None \<Rightarrow> row')
               in Inr (audit_contact now ''email_update'' actor_id email
                    (Some (email_audit_payload email @ consent_snapshot email))
                    (Some (email_audit_payload after @ consent_snapshot after))
                    (db\<lparr>customer_emails := settled\<rparr>))))"

definition delete_customer_email ::
  "datetime \<Rightarrow> customer_email \<Rightarrow> uuid option \<Rightarrow> 'a master_db_scheme \<Rightarrow> 'a master_db_scheme result" where
  "delete_customer_email now email actor_id db =
     bindR (assert_not_last_contact_point email db) (\<lambda>_.
       let table = delete_where (\<lambda>r. ch_id r = ch_id email) (customer_emails db)
       in Inr (audit_contact now ''email_remove'' actor_id email (Some (email_audit_payload email)) None
            (db\<lparr>customer_emails := fixup_single_primary email_type (ch_customer_id email) (email_type email) table\<rparr>)))"

section \<open>Addresses\<close>

text \<open>
  \<open>countries\<close> is the active codes of the platform's country list (\<open>None\<close> when it is not seeded) and
  \<open>canton_of\<close> the postal-code table \<open>POSTAL_CODE_CANTON\<close>.
\<close>

definition validate_country_code :: "string list option \<Rightarrow> string \<Rightarrow> unit result" where
  "validate_country_code countries code =
     (case countries of None \<Rightarrow> Inl RuntimeError
      | Some valid \<Rightarrow> if code \<in> set valid then Inr ()
          else Inl (UnprocessableEntityError [(''invalid'', JObj [(''addressCountry'', JStr code)])]))"

definition derive_canton :: "(string \<Rightarrow> string option) \<Rightarrow> string \<Rightarrow> string \<Rightarrow> string option" where
  "derive_canton canton_of postal_code country =
     (if country \<noteq> ''CH'' \<or> postal_code = [] then None else canton_of postal_code)"

definition new_address ::
  "(string \<Rightarrow> string option) \<Rightarrow> datetime \<Rightarrow> customer \<Rightarrow> customer_address_create \<Rightarrow> uuid option \<Rightarrow> uuid \<Rightarrow> bool
     \<Rightarrow> customer_address" where
  "new_address canton_of now c data actor_id aid primary =
     \<lparr>ch_id = aid, ch_group_id = group_id c, ch_customer_id = cust_id c, ch_label = cr_label data,
      is_primary = primary, ch_valid_from = now, ch_valid_to = None, do_not_use = False, do_not_use_reason = None,
      consent_granted = cr_consent_granted data, ch_consent_scope = cr_consent_scope data,
      ch_consent_source = cr_consent_source data,
      consent_timestamp = (if cr_consent_granted data then Some now else None), ch_created_at = now,
      ch_created_by = actor_id, ch_updated_by = actor_id, address_type = cr_type data,
      address_street = cr_address_street data, address_line2 = cr_address_line2 data,
      address_house_number = cr_address_house_number data, address_postal_code = cr_address_postal_code data,
      address_locality = cr_address_locality data,
      address_canton = derive_canton canton_of (cr_address_postal_code data) (cr_address_country data),
      address_country = cr_address_country data\<rparr>"

definition create_customer_address ::
  "string list option \<Rightarrow> (string \<Rightarrow> string option) \<Rightarrow> datetime \<Rightarrow> customer \<Rightarrow> customer_address_create \<Rightarrow> uuid option
     \<Rightarrow> 'a master_db_scheme \<Rightarrow> ('a master_db_scheme \<times> customer_address) result" where
  "create_customer_address countries canton_of now c data actor_id db =
     bindR (validate_country_code countries (cr_address_country data)) (\<lambda>_.
     let primary = (cr_is_primary data
            \<or> \<not> has_usable_primary address_type (cust_id c) (cr_type data) (customer_addresses db));
          table = (if primary then unset_other_primaries address_type (cust_id c) (cr_type data) (customer_addresses db)
            else customer_addresses db);
          (aid, db1) = draw_uuid db;
          address = new_address canton_of now c data actor_id aid primary
      in Inr (audit_contact now ''address_add'' actor_id address None (Some (address_audit_payload address))
           (db1\<lparr>customer_addresses := table @ [address]\<rparr>), address))"

definition apply_address_changes ::
  "(string \<Rightarrow> string option) \<Rightarrow> datetime \<Rightarrow> customer_address_update \<Rightarrow> uuid option \<Rightarrow> customer_address \<Rightarrow> customer_address" where
  "apply_address_changes canton_of now changes actor_id address =
     (let a = apply_changes now changes actor_id address;
          b = a\<lparr>address_type := patched (cc_type changes) (address_type a),
            address_street := patched (cc_address_street changes) (address_street a),
            address_line2 := patched (cc_address_line2 changes) (address_line2 a),
            address_house_number := patched (cc_address_house_number changes) (address_house_number a),
            address_postal_code := patched (cc_address_postal_code changes) (address_postal_code a),
            address_locality := patched (cc_address_locality changes) (address_locality a),
            address_country := patched (cc_address_country changes) (address_country a)\<rparr>
      in if cc_address_postal_code changes \<noteq> None \<or> cc_address_country changes \<noteq> None
         then b\<lparr>address_canton := derive_canton canton_of (address_postal_code b) (address_country b)\<rparr> else b)"

definition update_customer_address ::
  "string list option \<Rightarrow> (string \<Rightarrow> string option) \<Rightarrow> datetime \<Rightarrow> customer_address \<Rightarrow> customer_address_update
     \<Rightarrow> uuid option \<Rightarrow> 'a master_db_scheme \<Rightarrow> 'a master_db_scheme result" where
  "update_customer_address countries canton_of now address changes actor_id db =
     bindR (case cc_address_country changes of None \<Rightarrow> Inr () | Some code \<Rightarrow> validate_country_code countries code) (\<lambda>_.
     bindR (prepare_primary_change address_type address changes (customer_addresses db)) (\<lambda>(table, row, groups).
       let row' = apply_address_changes canton_of now changes actor_id row;
           flushed = write_row row' table
       in if cc_null_columns changes \<noteq> [] then Inl IntegrityError
          else let settled = settle_groups address_type (ch_customer_id address) groups flushed;
                   after = (case select_one (\<lambda>r. ch_id r = ch_id address) settled of Some r \<Rightarrow> r | None \<Rightarrow> row')
               in Inr (audit_contact now ''address_update'' actor_id address
                    (Some (address_audit_payload address)) (Some (address_audit_payload after))
                    (db\<lparr>customer_addresses := settled\<rparr>))))"

definition delete_customer_address ::
  "datetime \<Rightarrow> customer_address \<Rightarrow> uuid option \<Rightarrow> 'a master_db_scheme \<Rightarrow> 'a master_db_scheme" where
  "delete_customer_address now address actor_id db =
     (let table = delete_where (\<lambda>r. ch_id r = ch_id address) (customer_addresses db)
      in audit_contact now ''address_remove'' actor_id address (Some (address_audit_payload address)) None
           (db\<lparr>customer_addresses :=
             fixup_single_primary address_type (ch_customer_id address) (address_type address) table\<rparr>))"

section \<open>Projections\<close>

definition primary_of_type ::
  "('a contact_channel_scheme \<Rightarrow> 't) \<Rightarrow> 't \<Rightarrow> 'a contact_channel_scheme list \<Rightarrow> 'a contact_channel_scheme option" where
  "primary_of_type type_of t rows =
     (let of_type = filter (\<lambda>r. type_of r = t) rows
      in case List.find is_primary of_type of Some r \<Rightarrow> Some r
         | None \<Rightarrow> (case of_type of [] \<Rightarrow> None | r # _ \<Rightarrow> Some r))"

definition usable_rows :: "uuid \<Rightarrow> 'a contact_channel_scheme list \<Rightarrow> 'a contact_channel_scheme list" where
  "usable_rows cid table =
     filter is_usable_row (sort_key ch_created_at (select_all (\<lambda>r. ch_customer_id r = cid) table))"

record customer_projections =
  phone_mobile :: "string option"
  phone_landline :: "string option"
  phone_work :: "string option"
  pr_email :: "string option"
  email_secondary :: "string option"
  pr_address :: "customer_address option"
  pr_tags :: "string list"

text \<open>\<open>email_work is not email_row\<close> compares row objects: two rows are the same when their ids are.\<close>

definition compute_customer_projections :: "uuid \<Rightarrow> 'a master_db_scheme \<Rightarrow> customer_projections" where
  "compute_customer_projections cid db =
     (let phones = usable_rows cid (customer_phones db);
          emails = usable_rows cid (customer_emails db);
          email_work = primary_of_type email_type WORK_EMAIL emails;
          email_row = (case primary_of_type email_type PERSONAL emails of Some r \<Rightarrow> Some r | None \<Rightarrow> email_work)
      in \<lparr>phone_mobile = map_option phone_e164 (primary_of_type phone_type MOBILE phones),
          phone_landline = map_option phone_e164 (primary_of_type phone_type LANDLINE phones),
          phone_work = map_option phone_e164 (primary_of_type phone_type WORK_PHONE phones),
          pr_email = map_option email_address email_row,
          email_secondary = (if map_option ch_id email_work \<noteq> map_option ch_id email_row
            then map_option email_address email_work else None),
          pr_address = primary_of_type address_type DOMICILE (usable_rows cid (customer_addresses db)),
          pr_tags = sort (map tag (select_all (\<lambda>r. tag_customer_id r = cid) (customer_tags db)))\<rparr>)"

section \<open>Settled groups\<close>

text \<open>
  In a settled group the flagged row is usable and unique, and there is one as soon as a row is usable.
\<close>

definition settled_group ::
  "('a contact_channel_scheme \<Rightarrow> 't) \<Rightarrow> uuid \<Rightarrow> 't \<Rightarrow> 'a contact_channel_scheme list \<Rightarrow> bool" where
  "settled_group type_of cid t rows \<longleftrightarrow>
     (\<forall>r \<in> set rows. in_group type_of cid t r \<and> is_primary r \<longrightarrow> is_usable_row r)
     \<and> (\<forall>r \<in> set rows. \<forall>s \<in> set rows. in_group type_of cid t r \<and> in_group type_of cid t s
          \<and> is_primary r \<and> is_primary s \<longrightarrow> r = s)
     \<and> ((\<exists>r \<in> set rows. in_group type_of cid t r \<and> is_usable_row r)
          \<longrightarrow> (\<exists>r \<in> set rows. in_group type_of cid t r \<and> is_primary r))"

definition primaries_settled :: "('a contact_channel_scheme \<Rightarrow> 't) \<Rightarrow> 'a contact_channel_scheme list \<Rightarrow> bool" where
  "primaries_settled type_of rows \<longleftrightarrow> distinct (map ch_id rows) \<and> (\<forall>cid t. settled_group type_of cid t rows)"

text \<open>The election as one choice: the oldest usable flagged row, else the oldest usable one.\<close>

definition elected :: "('a contact_channel_scheme \<Rightarrow> 't) \<Rightarrow> uuid \<Rightarrow> 't \<Rightarrow> 'a contact_channel_scheme list \<Rightarrow> uuid option" where
  "elected type_of cid t table =
     (let usable = filter is_usable_row (sort_key ch_created_at (select_all (in_group type_of cid t) table))
      in case filter is_primary usable of p # _ \<Rightarrow> Some (ch_id p)
         | [] \<Rightarrow> (case usable of [] \<Rightarrow> None | u # _ \<Rightarrow> Some (ch_id u)))"

lemma settled_group_cong:
  assumes "{r \<in> set rows. in_group type_of cid t r} = {r \<in> set rows'. in_group type_of cid t r}"
  shows "settled_group type_of cid t rows = settled_group type_of cid t rows'"
proof -
  have "r \<in> set rows \<and> in_group type_of cid t r \<longleftrightarrow> r \<in> set rows' \<and> in_group type_of cid t r" for r
    using assms by blast
  then show ?thesis unfolding settled_group_def by (intro conj_cong) blast+
qed

lemma is_usable_flag [simp]: "is_usable_row (r\<lparr>is_primary := b\<rparr>) = is_usable_row r"
  by (simp add: is_usable_row_def)

lemma flag_same: "is_primary r = b \<Longrightarrow> r\<lparr>is_primary := b\<rparr> = r"
  by (cases r) simp

lemma flag_flag [simp]: "r\<lparr>is_primary := b, is_primary := c\<rparr> = r\<lparr>is_primary := c\<rparr>"
  by (cases r) simp

locale contact_table =
  fixes type_of :: "'a contact_channel_scheme \<Rightarrow> 't"
    and apply_fields :: "datetime \<Rightarrow> ('t, 'b) contact_update_scheme \<Rightarrow> uuid option
      \<Rightarrow> 'a contact_channel_scheme \<Rightarrow> 'a contact_channel_scheme"
  assumes type_flag [simp]: "type_of (r\<lparr>is_primary := b\<rparr>) = type_of r"
    and apply_id [simp]: "ch_id (apply_fields now changes actor r) = ch_id r"
    and apply_customer [simp]: "ch_customer_id (apply_fields now changes actor r) = ch_customer_id r"
    and apply_primary [simp]: "is_primary (apply_fields now changes actor r) = patched (cc_is_primary changes) (is_primary r)"
    and apply_usable [simp]: "is_usable_row (apply_fields now changes actor r) = usable_after changes r"
    and apply_type [simp]: "type_of (apply_fields now changes actor r) = patched (cc_type changes) (type_of r)"
begin

lemma in_group_flag [simp]: "in_group type_of cid t (r\<lparr>is_primary := b\<rparr>) = in_group type_of cid t r"
  by (simp add: in_group_def)

lemma fixup_eq:
  assumes dist: "distinct (map ch_id table)"
  shows "fixup_single_primary type_of cid t table =
    map (\<lambda>r. if in_group type_of cid t r then r\<lparr>is_primary := (elected type_of cid t table = Some (ch_id r))\<rparr> else r) table"
proof -
  let ?G = "in_group type_of cid t"
  define rows where "rows = sort_key ch_created_at (select_all ?G table)"
  define usable where "usable = filter is_usable_row rows"
  define primaries where "primaries = filter is_primary usable"
  have mem: "r \<in> set usable \<longleftrightarrow> r \<in> set table \<and> ?G r \<and> is_usable_row r"
    "r \<in> set primaries \<longleftrightarrow> r \<in> set table \<and> ?G r \<and> is_usable_row r \<and> is_primary r" for r
    by (auto simp: usable_def primaries_def rows_def)
  have uniq: "r = s" if "r \<in> set table" "s \<in> set table" "ch_id r = ch_id s" for r s
    using that dist by (simp add: distinct_map inj_on_def)
  have "distinct (map ch_id rows)"
    unfolding rows_def using dist by (simp add: select_all_def distinct_map inj_on_def)
  then have dprim: "distinct (map ch_id primaries)"
    by (simp add: primaries_def usable_def distinct_map inj_on_def)
  have el: "elected type_of cid t table = (case primaries of p # _ \<Rightarrow> Some (ch_id p)
      | [] \<Rightarrow> (case usable of [] \<Rightarrow> None | u # _ \<Rightarrow> Some (ch_id u)))"
    by (simp only: elected_def Let_def primaries_def usable_def rows_def)
  have fx: "fixup_single_primary type_of cid t table =
      (let table1 = flag_where (\<lambda>r. ?G r \<and> is_primary r \<and> \<not> is_usable_row r) False table
       in if length primaries > 1 then flag_where (\<lambda>r. ch_id r \<in> set (map ch_id (tl primaries))) False table1
          else if primaries = [] \<and> usable \<noteq> [] then flag_where (\<lambda>r. ch_id r = ch_id (hd usable)) True table1
          else table1)"
    by (simp only: fixup_single_primary_def Let_def primaries_def usable_def rows_def)
  show ?thesis
  proof (cases primaries)
    case Nil
    then have no: "\<not> (?G r \<and> is_usable_row r \<and> is_primary r)" if "r \<in> set table" for r
      using mem(2) [of r] that by simp
    show ?thesis
    proof (cases usable)
      case Nil
      have "(if ?G r \<and> is_primary r \<and> \<not> is_usable_row r then r\<lparr>is_primary := False\<rparr> else r)
          = (if ?G r then r\<lparr>is_primary := False\<rparr> else r)" if "r \<in> set table" for r
        using no [OF that] by (cases "is_primary r") (auto simp: flag_same)
      then show ?thesis using Nil \<open>primaries = []\<close> unfolding fx el
        by (simp add: flag_where_def update_where_def Let_def)
    next
      case (Cons u us)
      then have u: "u \<in> set table" "?G u" using mem(1) [of u] by simp_all
      let ?f = "\<lambda>r. if ?G r \<and> is_primary r \<and> \<not> is_usable_row r then r\<lparr>is_primary := False\<rparr> else r"
      have "(if ch_id (?f r) = ch_id u then (?f r)\<lparr>is_primary := True\<rparr> else ?f r)
          = (if ?G r then r\<lparr>is_primary := (ch_id u = ch_id r)\<rparr> else r)" if "r \<in> set table" for r
      proof (cases "ch_id r = ch_id u")
        case True
        then have "r = u" using uniq [OF that u(1)] by simp
        then show ?thesis using u(2) by simp
      next
        case False
        then show ?thesis using no [OF that] by (cases "is_primary r") (auto simp: flag_same)
      qed
      then show ?thesis using Cons \<open>primaries = []\<close> unfolding fx el
        by (simp add: flag_where_def update_where_def Let_def)
    qed
  next
    case (Cons p ps)
    have p: "p \<in> set table" "?G p" "is_usable_row p" "is_primary p" using mem(2) [of p] Cons by simp_all
    have ps: "s \<in> set table \<and> ?G s \<and> is_usable_row s \<and> is_primary s" if "s \<in> set ps" for s
      using mem(2) [of s] Cons that by simp
    have out: "ch_id r \<notin> ch_id ` set ps" if "r \<in> set table" "\<not> ?G r" for r
      using that ps uniq by blast
    have notp: "ch_id p \<notin> ch_id ` set ps" using dprim Cons by auto
    have flagged: "r = p \<or> ch_id r \<in> ch_id ` set ps" if "r \<in> set table" "?G r" "is_usable_row r" "is_primary r" for r
      using mem(2) [of r] that Cons by auto
    have key: "r = p \<longleftrightarrow> ch_id p = ch_id r" if "r \<in> set table" for r using uniq that p(1) by metis
    have "fixup_single_primary type_of cid t table =
        flag_where (\<lambda>r. ch_id r \<in> ch_id ` set ps) False
          (flag_where (\<lambda>r. ?G r \<and> is_primary r \<and> \<not> is_usable_row r) False table)"
      using Cons unfolding fx Let_def by (cases ps) (simp_all add: flag_where_def update_where_def)
    also have "\<dots> = map (\<lambda>r. if ?G r then r\<lparr>is_primary := (ch_id p = ch_id r)\<rparr> else r) table"
    proof -
      let ?f = "\<lambda>r. if ?G r \<and> is_primary r \<and> \<not> is_usable_row r then r\<lparr>is_primary := False\<rparr> else r"
      have "(if ch_id (?f r) \<in> ch_id ` set ps then (?f r)\<lparr>is_primary := False\<rparr> else ?f r)
          = (if ?G r then r\<lparr>is_primary := (ch_id p = ch_id r)\<rparr> else r)" if "r \<in> set table" for r
      proof (cases "ch_id p = ch_id r")
        case True
        then have "r = p" using key [OF that] by simp
        then show ?thesis using p notp flag_same [of p True] by simp
      next
        case False
        then have "r \<noteq> p" by blast
        then show ?thesis using False out [OF that] flagged [OF that] by (cases "is_primary r") (auto simp: flag_same)
      qed
      then show ?thesis by (simp add: flag_where_def update_where_def)
    qed
    finally show ?thesis using Cons unfolding el by simp
  qed
qed

end

lemma filter_map_fixed:
  assumes "\<And>r. r \<in> set rows \<Longrightarrow> P (f r) = P r" "\<And>r. r \<in> set rows \<Longrightarrow> P r \<Longrightarrow> f r = r"
  shows "{r \<in> set (map f rows). P r} = {r \<in> set rows. P r}"
  using assms by force

context contact_table
begin

lemma elected_SomeD:
  "elected type_of cid t table = Some i \<Longrightarrow> \<exists>r \<in> set table. in_group type_of cid t r \<and> is_usable_row r \<and> ch_id r = i"
proof -
  let ?u = "filter is_usable_row (sort_key ch_created_at (select_all (in_group type_of cid t) table))"
  have sub: "r \<in> set ?u \<Longrightarrow> r \<in> set table \<and> in_group type_of cid t r \<and> is_usable_row r" for r by simp
  assume el: "elected type_of cid t table = Some i"
  have "\<exists>r \<in> set ?u. ch_id r = i"
  proof (cases "filter is_primary ?u")
    case Nil
    then show ?thesis using el unfolding elected_def Let_def by (cases ?u) auto
  next
    case (Cons p ps)
    then have "p \<in> set (filter is_primary ?u)" by (simp only: list.set_intros)
    then have "p \<in> set ?u" by simp
    then show ?thesis using el Cons unfolding elected_def Let_def by force
  qed
  then show ?thesis using sub by blast
qed

lemma elected_NoneD:
  "elected type_of cid t table = None \<Longrightarrow> r \<in> set table \<Longrightarrow> in_group type_of cid t r \<Longrightarrow> \<not> is_usable_row r"
proof -
  let ?u = "filter is_usable_row (sort_key ch_created_at (select_all (in_group type_of cid t) table))"
  assume "elected type_of cid t table = None" and r: "r \<in> set table" "in_group type_of cid t r"
  then have "?u = []" unfolding elected_def Let_def by (auto split: list.splits)
  then have "set ?u = {}" by simp
  then show ?thesis using r by auto
qed

text \<open>A flagged usable row of the group that is the only one is the one the election keeps.\<close>

lemma elected_unique:
  assumes "r \<in> set table" "in_group type_of cid t r" "is_usable_row r" "is_primary r"
    and only: "\<And>s. s \<in> set table \<Longrightarrow> in_group type_of cid t s \<Longrightarrow> is_usable_row s \<Longrightarrow> is_primary s \<Longrightarrow> ch_id s = ch_id r"
  shows "elected type_of cid t table = Some (ch_id r)"
proof -
  let ?p = "filter is_primary (filter is_usable_row (sort_key ch_created_at (select_all (in_group type_of cid t) table)))"
  have set_p: "set ?p = {s \<in> set table. in_group type_of cid t s \<and> is_usable_row s \<and> is_primary s}" by auto
  then have "?p \<noteq> []" using assms(1-4) by (metis (mono_tags, lifting) empty_iff list.set(1) mem_Collect_eq)
  then obtain p ps where p: "?p = p # ps" using list.exhaust by blast
  then have "p \<in> set ?p" by (simp only: list.set_intros)
  then have "ch_id p = ch_id r" using only unfolding set_p by blast
  then show ?thesis unfolding elected_def Let_def p by simp
qed

lemma fixup_ids:
  assumes "distinct (map ch_id table)"
  shows "map ch_id (fixup_single_primary type_of cid t table) = map ch_id table"
  unfolding fixup_eq [OF assms] by (simp add: comp_def)

lemma fixup_settles:
  assumes dist: "distinct (map ch_id table)"
  shows "settled_group type_of cid t (fixup_single_primary type_of cid t table)"
proof -
  let ?e = "elected type_of cid t table"
  let ?f = "\<lambda>r. if in_group type_of cid t r then r\<lparr>is_primary := (?e = Some (ch_id r))\<rparr> else r"
  have f: "in_group type_of cid t (?f r) = in_group type_of cid t r" "is_usable_row (?f r) = is_usable_row r"
    "in_group type_of cid t r \<Longrightarrow> is_primary (?f r) = (?e = Some (ch_id r))" for r by auto
  have uniq: "r = s" if "r \<in> set table" "s \<in> set table" "ch_id r = ch_id s" for r s
    using distinct_key_unique [OF dist] that by blast
  have usable: "is_usable_row r" if "r \<in> set table" "?e = Some (ch_id r)" for r
    using elected_SomeD [OF that(2)] uniq that(1) by metis
  have some: "\<exists>s \<in> set table. in_group type_of cid t s \<and> ?e = Some (ch_id s)"
    if "r \<in> set table" "in_group type_of cid t r" "is_usable_row r" for r
    using that elected_SomeD [of cid t table] elected_NoneD [of cid t table r] by (cases ?e) auto
  show ?thesis unfolding fixup_eq [OF dist] settled_group_def
  proof (intro conjI ballI impI)
    fix r assume "r \<in> set (map ?f table)" "in_group type_of cid t r \<and> is_primary r"
    then show "is_usable_row r" using f usable by (metis (no_types, lifting) imageE list.set_map)
  next
    fix r s assume r: "r \<in> set (map ?f table)" and s: "s \<in> set (map ?f table)"
      and p: "in_group type_of cid t r \<and> in_group type_of cid t s \<and> is_primary r \<and> is_primary s"
    obtain r0 s0 where "r0 \<in> set table" "r = ?f r0" "s0 \<in> set table" "s = ?f s0" using r s by auto
    then have r0: "r0 \<in> set table" "r = ?f r0" and s0: "s0 \<in> set table" "s = ?f s0" by blast+
    have "?e = Some (ch_id r0)" "?e = Some (ch_id s0)"
      using p f(1,3) [of r0] f(1,3) [of s0] unfolding r0(2) s0(2) by blast+
    then have "r0 = s0" using uniq [OF r0(1) s0(1)] by simp
    then show "r = s" using r0(2) s0(2) by blast
  next
    assume "\<exists>r \<in> set (map ?f table). in_group type_of cid t r \<and> is_usable_row r"
    then obtain r where "r \<in> set table" "in_group type_of cid t r" "is_usable_row r" using f by auto
    then obtain s where "s \<in> set table" "in_group type_of cid t s" "?e = Some (ch_id s)" using some by blast
    then have "?f s \<in> set (map ?f table)" "in_group type_of cid t (?f s)" "is_primary (?f s)"
      using f(1,3) [of s] by (force, blast, blast)
    then show "\<exists>r \<in> set (map ?f table). in_group type_of cid t r \<and> is_primary r" by blast
  qed
qed

lemma fixup_other:
  assumes "distinct (map ch_id table)" "cid' \<noteq> cid \<or> t' \<noteq> t"
  shows "{r \<in> set (fixup_single_primary type_of cid t table). in_group type_of cid' t' r}
    = {r \<in> set table. in_group type_of cid' t' r}"
proof -
  have "\<not> (in_group type_of cid t r \<and> in_group type_of cid' t' r)" for r
    using assms(2) by (auto simp: in_group_def)
  then have g: "in_group type_of cid' t' r \<Longrightarrow> \<not> in_group type_of cid t r" for r by blast
  show ?thesis unfolding fixup_eq [OF assms(1)] by (rule filter_map_fixed) (auto dest: g)
qed

lemma settle_groups_effect:
  assumes "distinct (map ch_id table)"
  shows "map ch_id (settle_groups type_of cid groups table) = map ch_id table
    \<and> (\<forall>t \<in> set groups. settled_group type_of cid t (settle_groups type_of cid groups table))
    \<and> (\<forall>cid' t'. cid' \<noteq> cid \<or> t' \<notin> set groups \<longrightarrow>
        {r \<in> set (settle_groups type_of cid groups table). in_group type_of cid' t' r}
          = {r \<in> set table. in_group type_of cid' t' r})"
  using assms unfolding settle_groups_def
proof (induction groups arbitrary: table)
  case (Cons g gs)
  let ?t = "fixup_single_primary type_of cid g table"
  have ids: "map ch_id ?t = map ch_id table" using Cons.prems by (rule fixup_ids)
  then have ih: "map ch_id (fold (fixup_single_primary type_of cid) gs ?t) = map ch_id ?t"
    "\<forall>t \<in> set gs. settled_group type_of cid t (fold (fixup_single_primary type_of cid) gs ?t)"
    "\<And>cid' t'. cid' \<noteq> cid \<or> t' \<notin> set gs \<Longrightarrow>
        {r \<in> set (fold (fixup_single_primary type_of cid) gs ?t). in_group type_of cid' t' r}
          = {r \<in> set ?t. in_group type_of cid' t' r}"
    using Cons.IH [of ?t] Cons.prems by simp_all
  have "settled_group type_of cid g (fold (fixup_single_primary type_of cid) gs ?t)"
  proof (cases "g \<in> set gs")
    case False
    then show ?thesis using settled_group_cong [OF ih(3)] fixup_settles [OF Cons.prems] by blast
  qed (use ih(2) in blast)
  moreover have "{r \<in> set (fold (fixup_single_primary type_of cid) gs ?t). in_group type_of cid' t' r}
          = {r \<in> set table. in_group type_of cid' t' r}" if "cid' \<noteq> cid \<or> t' \<notin> set (g # gs)" for cid' t'
    using ih(3) [of cid' t'] fixup_other [OF Cons.prems, of cid' cid t' g] that by auto
  ultimately show ?case using ih(1,2) ids by simp
qed simp

lemma settled_after_settle:
  assumes dist: "distinct (map ch_id table)"
    and rest: "\<And>cid' t'. cid' \<noteq> cid \<or> t' \<notin> set groups \<Longrightarrow> settled_group type_of cid' t' table"
  shows "primaries_settled type_of (settle_groups type_of cid groups table)"
proof -
  note eff = settle_groups_effect [OF dist, of cid groups]
  have "settled_group type_of cid' t' (settle_groups type_of cid groups table)" for cid' t'
  proof (cases "cid' = cid \<and> t' \<in> set groups")
    case False
    then have "{r \<in> set (settle_groups type_of cid groups table). in_group type_of cid' t' r}
        = {r \<in> set table. in_group type_of cid' t' r}" using eff by blast
    then show ?thesis using rest [of cid' t'] False settled_group_cong by metis
  qed (use eff in blast)
  moreover have "distinct (map ch_id (settle_groups type_of cid groups table))" using eff dist by simp
  ultimately show ?thesis unfolding primaries_settled_def by blast
qed

end

context contact_table
begin

lemma unset_eq:
  "unset_other_primaries type_of cid t table =
     map (\<lambda>r. if in_group type_of cid t r \<and> is_primary r then r\<lparr>is_primary := False\<rparr> else r) table"
  by (simp add: unset_other_primaries_def flag_where_def update_where_def)

lemma unset_ids [simp]: "map ch_id (unset_other_primaries type_of cid t table) = map ch_id table"
  by (simp add: unset_eq comp_def)

lemma unset_other:
  "cid' \<noteq> cid \<or> t' \<noteq> t \<Longrightarrow> {r \<in> set (unset_other_primaries type_of cid t table). in_group type_of cid' t' r}
    = {r \<in> set table. in_group type_of cid' t' r}"
  unfolding unset_eq by (rule filter_map_fixed) (auto simp: in_group_def)

lemma unset_none:
  "r \<in> set (unset_other_primaries type_of cid t table) \<Longrightarrow> in_group type_of cid t r \<Longrightarrow> \<not> is_primary r"
  by (auto simp: unset_eq split: if_splits)

lemma has_usable_primary_iff:
  "has_usable_primary type_of cid t table \<longleftrightarrow>
     (\<exists>r \<in> set table. in_group type_of cid t r \<and> is_primary r \<and> is_usable_row r)"
  by (auto simp: has_usable_primary_def list_ex_iff)

lemma settled_create:
  assumes inv: "primaries_settled type_of table" and fresh: "ch_id row \<notin> set (map ch_id table)"
    and usable: "is_usable_row row"
    and flag: "is_primary row = (wanted \<or> \<not> has_usable_primary type_of (ch_customer_id row) (type_of row) table)"
    and table': "table' = (if is_primary row
      then unset_other_primaries type_of (ch_customer_id row) (type_of row) table else table)"
  shows "primaries_settled type_of (table' @ [row])"
proof -
  let ?G = "in_group type_of (ch_customer_id row) (type_of row)"
  have row: "?G row" by (simp add: in_group_def)
  have "settled_group type_of cid t (table' @ [row])" for cid t
  proof (cases "cid = ch_customer_id row \<and> t = type_of row")
    case True
    have "settled_group type_of (ch_customer_id row) (type_of row) (table' @ [row])"
    proof (cases "is_primary row")
      case True
      then have "\<And>r. r \<in> set table' \<Longrightarrow> ?G r \<Longrightarrow> \<not> is_primary r" using table' unset_none by simp
      then show ?thesis using True usable row unfolding settled_group_def by auto
    next
      case False
      then have "has_usable_primary type_of (ch_customer_id row) (type_of row) table" using flag by blast
      moreover have "settled_group type_of (ch_customer_id row) (type_of row) table"
        using inv by (simp add: primaries_settled_def)
      ultimately show ?thesis using False table' unfolding settled_group_def has_usable_primary_iff by auto
    qed
    then show ?thesis using True by simp
  next
    case False
    have "{r \<in> set (table' @ [row]). in_group type_of cid t r} = {r \<in> set table'. in_group type_of cid t r}"
      using False by (auto simp: in_group_def)
    also have "\<dots> = {r \<in> set table. in_group type_of cid t r}"
      using False unset_other unfolding table' by (auto simp del: mem_Collect_eq)
    finally show ?thesis using inv settled_group_cong unfolding primaries_settled_def by metis
  qed
  moreover have "map ch_id table' = map ch_id table" unfolding table' by simp
  then have "distinct (map ch_id (table' @ [row]))"
    using inv fresh unfolding primaries_settled_def map_append by simp
  ultimately show ?thesis unfolding primaries_settled_def by blast
qed

lemma settled_delete:
  assumes inv: "primaries_settled type_of table" and row: "row \<in> set table"
  shows "primaries_settled type_of
    (fixup_single_primary type_of (ch_customer_id row) (type_of row) (delete_where (\<lambda>r. ch_id r = ch_id row) table))"
proof -
  let ?d = "delete_where (\<lambda>r. ch_id r = ch_id row) table"
  have dist: "distinct (map ch_id ?d)"
    using inv unfolding primaries_settled_def delete_where_def by (simp add: distinct_map inj_on_def)
  have "settled_group type_of cid t ?d" if "cid \<noteq> ch_customer_id row \<or> t \<notin> set [type_of row]" for cid t
  proof -
    have "r = row" if "r \<in> set table" "ch_id r = ch_id row" for r
      using inv row that unfolding primaries_settled_def by (blast intro: distinct_key_unique)
    then have "{r \<in> set ?d. in_group type_of cid t r} = {r \<in> set table. in_group type_of cid t r}"
      using that by (auto simp: in_group_def)
    then show ?thesis using inv settled_group_cong unfolding primaries_settled_def by metis
  qed
  then have "primaries_settled type_of (settle_groups type_of (ch_customer_id row) [type_of row] ?d)"
    using settled_after_settle [OF dist] by blast
  then show ?thesis by (simp add: settle_groups_def)
qed

text \<open>A row that stays in its group with the same flag and the same usability.\<close>

lemma settled_group_map:
  assumes "settled_group type_of cid t table"
    "\<And>r. r \<in> set table \<Longrightarrow> in_group type_of cid t (f r) = in_group type_of cid t r"
    "\<And>r. r \<in> set table \<Longrightarrow> is_primary (f r) = is_primary r"
    "\<And>r. r \<in> set table \<Longrightarrow> is_usable_row (f r) = is_usable_row r"
  shows "settled_group type_of cid t (map f table)"
  using assms unfolding settled_group_def by (simp add: ball_simps) blast

lemma write_row_eq: "write_row row table = map (\<lambda>r. if ch_id r = ch_id row then row else r) table"
  by (simp add: write_row_def update_where_def)

lemma write_row_ids [simp]: "map ch_id (write_row row table) = map ch_id table"
  by (simp add: write_row_eq comp_def if_distrib)

lemma prepare_cases:
  assumes "prepare_primary_change type_of row changes table = Inr (table1, row1, groups)"
  shows "table1 = table \<or> cc_is_primary changes = Some True
      \<and> table1 = unset_other_primaries type_of (ch_customer_id row) (patched (cc_type changes) (type_of row)) table"
    "row1 = row \<or> row1 = row\<lparr>is_primary := False\<rparr> \<and> cc_is_primary changes \<noteq> Some True
      \<and> patched (cc_type changes) (type_of row) \<noteq> type_of row"
    "groups = (let new_type = patched (cc_type changes) (type_of row)
      in if new_type \<noteq> type_of row then [type_of row, new_type]
         else if is_usable_row row \<noteq> usable_after changes row \<or> cc_is_primary changes \<noteq> None then [new_type] else [])"
  using assms unfolding prepare_primary_change_def Let_def by (auto split: if_splits)

end

context contact_table
begin

lemma write_row_other:
  assumes "\<not> in_group type_of cid t row" "\<And>r. r \<in> set table \<Longrightarrow> ch_id r = ch_id row \<Longrightarrow> \<not> in_group type_of cid t r"
  shows "{r \<in> set (write_row row table). in_group type_of cid t r} = {r \<in> set table. in_group type_of cid t r}"
  unfolding write_row_eq by (rule filter_map_fixed) (use assms in auto)

lemma write_row_mem:
  assumes "s \<in> set (write_row row table)"
  shows "s = row \<or> s \<in> set table \<and> ch_id s \<noteq> ch_id row"
  using assms by (auto simp: write_row_eq split: if_splits)

lemma settle_keeps:
  assumes "distinct (map ch_id table)" "r \<in> set table" "is_primary r" "is_usable_row r"
    and "\<And>s. s \<in> set table \<Longrightarrow> in_group type_of (ch_customer_id r) (type_of r) s \<Longrightarrow> is_usable_row s
      \<Longrightarrow> is_primary s \<Longrightarrow> s = r"
  shows "r \<in> set (settle_groups type_of cid groups table)"
  using assms unfolding settle_groups_def
proof (induction groups arbitrary: table)
  case (Cons g gs)
  let ?G = "in_group type_of (ch_customer_id r) (type_of r)"
  let ?t = "fixup_single_primary type_of cid g table"
  note dist = Cons.prems(1)
  have r: "r \<in> set ?t \<and> (\<forall>s \<in> set ?t. ?G s \<longrightarrow> is_usable_row s \<longrightarrow> is_primary s \<longrightarrow> s = r)"
  proof (cases "cid = ch_customer_id r \<and> g = type_of r")
    case True
    then have rg: "in_group type_of cid g r" by (simp add: in_group_def)
    have "elected type_of cid g table = Some (ch_id r)"
    proof (rule elected_unique [OF Cons.prems(2) rg Cons.prems(4,3)])
      fix s assume "s \<in> set table" "in_group type_of cid g s" "is_usable_row s" "is_primary s"
      then have "s = r" using Cons.prems(5) [of s] True by blast
      then show "ch_id s = ch_id r" by (rule arg_cong)
    qed
    then have "(if in_group type_of cid g r then r\<lparr>is_primary := (elected type_of cid g table = Some (ch_id r))\<rparr> else r) = r"
      using rg Cons.prems(3) by (simp add: flag_same)
    then have "r \<in> set ?t"
      unfolding fixup_eq [OF dist] set_map by (intro image_eqI [of r _ r, OF sym Cons.prems(2)])
    moreover have "settled_group type_of cid g ?t" by (rule fixup_settles [OF dist])
    ultimately show ?thesis using rg True Cons.prems(3) unfolding settled_group_def by blast
  next
    case False
    then have "{s \<in> set ?t. ?G s} = {s \<in> set table. ?G s}" 
      by (intro fixup_other [OF dist]) auto
    moreover have "?G r" by (simp add: in_group_def)
    ultimately show ?thesis using Cons.prems(2,5) by blast
  qed
  then show ?case using Cons.IH [of ?t] Cons.prems fixup_ids [OF dist] by simp
qed simp

end

context contact_table
begin

lemma settled_update:
  assumes inv: "primaries_settled type_of table" and row: "row \<in> set table"
    and prep: "prepare_primary_change type_of row changes table = Inr (table1, row1, groups)"
  shows "primaries_settled type_of
    (settle_groups type_of (ch_customer_id row) groups (write_row (apply_fields now changes actor row1) table1))"
proof -
  let ?new = "patched (cc_type changes) (type_of row)"
  let ?row = "apply_fields now changes actor row1"
  note cases = prepare_cases [OF prep]
  have row1: "ch_id row1 = ch_id row" "ch_customer_id row1 = ch_customer_id row" "type_of row1 = type_of row"
    using cases(2) by auto
  have t1: "{r \<in> set table1. in_group type_of cid t r} = {r \<in> set table. in_group type_of cid t r}"
    if "cid \<noteq> ch_customer_id row \<or> t \<noteq> ?new" for cid t
    using cases(1) unset_other [OF that] by (elim disjE conjE) simp_all
  have ids: "map ch_id table1 = map ch_id table" using cases(1) by auto
  have keyed: "type_of r = type_of row \<and> ch_customer_id r = ch_customer_id row"
    if r: "r \<in> set table1" "ch_id r = ch_id row" for r
  proof -
    have "distinct (map ch_id table)" using inv by (simp add: primaries_settled_def)
    then have same: "s = row" if "s \<in> set table" "ch_id s = ch_id row" for s
      using distinct_key_unique row that by metis
    have "\<exists>s \<in> set table. ch_id s = ch_id r \<and> type_of s = type_of r \<and> ch_customer_id s = ch_customer_id r"
      using cases(1) r(1) by (auto simp: unset_eq split: if_splits) force+
    then show ?thesis using same r(2) by metis
  qed
  have "settled_group type_of cid t (write_row ?row table1)"
    if out: "cid \<noteq> ch_customer_id row \<or> t \<notin> set groups" for cid t
  proof (cases "cid = ch_customer_id row \<and> (t = type_of row \<or> t = ?new)")
    case True
    then have "groups = []" using out unfolding cases(3) Let_def by (auto split: if_splits)
    then have same: "?new = type_of row" "is_usable_row row = usable_after changes row" "cc_is_primary changes = None"
      unfolding cases(3) Let_def by (auto split: if_splits)
    then have "row1 = row" "table1 = table" using cases by auto
    moreover have "r = row" if "r \<in> set table" "ch_id r = ch_id row" for r
      using inv row that unfolding primaries_settled_def by (blast intro: distinct_key_unique)
    ultimately show ?thesis unfolding write_row_eq
      using inv same by (intro settled_group_map) (auto simp: primaries_settled_def in_group_def)
  next
    case False
    have "{r \<in> set (write_row ?row table1). in_group type_of cid t r} = {r \<in> set table1. in_group type_of cid t r}"
      by (rule write_row_other) (use False row1 keyed in \<open>auto simp: in_group_def\<close>)
    also have "\<dots> = {r \<in> set table. in_group type_of cid t r}" by (rule t1) (use False in blast)
    finally have "settled_group type_of cid t (write_row ?row table1) = settled_group type_of cid t table"
      by (rule settled_group_cong)
    then show ?thesis using inv unfolding primaries_settled_def by blast
  qed
  moreover have "distinct (map ch_id (write_row ?row table1))"
    using inv ids unfolding primaries_settled_def by simp
  ultimately show ?thesis by (rule settled_after_settle [rotated])
qed

text \<open>
  Who holds the flag afterwards: the patched row when the request asks for it and the row is usable;
  otherwise every other row that held it before.
\<close>

lemma update_takes_flag:
  assumes inv: "primaries_settled type_of table" and row: "row \<in> set table"
    and prep: "prepare_primary_change type_of row changes table = Inr (table1, row1, groups)"
    and wants: "cc_is_primary changes = Some True" "usable_after changes row"
  shows "apply_fields now changes actor row1 \<in> set
    (settle_groups type_of (ch_customer_id row) groups (write_row (apply_fields now changes actor row1) table1))"
proof -
  let ?new = "patched (cc_type changes) (type_of row)"
  let ?row = "apply_fields now changes actor row1"
  let ?U = "unset_other_primaries type_of (ch_customer_id row) ?new table"
  have row1: "row1 = row" using prepare_cases(2) [OF prep] wants(1) by blast
  have t1: "table1 = (if \<not> is_primary row \<or> ?new \<noteq> type_of row then ?U else table)"
    using prep wants unfolding prepare_primary_change_def Let_def by (auto split: if_splits)
  have ids: "map ch_id table1 = map ch_id table" unfolding t1 by simp
  have mem: "?row \<in> set (write_row ?row table1)"
  proof -
    have "ch_id row \<in> set (map ch_id table1)" using row unfolding ids by simp
    then obtain r where "r \<in> set table1" "ch_id r = ch_id row" by auto
    then show ?thesis unfolding write_row_eq using row1 by force
  qed
  show ?thesis
  proof (rule settle_keeps)
    show "distinct (map ch_id (write_row ?row table1))" using inv ids unfolding primaries_settled_def by simp
    show "?row \<in> set (write_row ?row table1)" by (rule mem)
    show "is_primary ?row" "is_usable_row ?row" using wants row1 by simp_all
    fix s assume s: "s \<in> set (write_row ?row table1)" "in_group type_of (ch_customer_id ?row) (type_of ?row) s"
      "is_usable_row s" "is_primary s"
    have g: "in_group type_of (ch_customer_id row) ?new s" using s(2) row1 by simp
    show "s = ?row"
    proof (rule ccontr)
      assume "s \<noteq> ?row"
      then have other: "s \<in> set table1" "ch_id s \<noteq> ch_id row" using write_row_mem [OF s(1)] row1 by auto
      show False
      proof (cases "\<not> is_primary row \<or> ?new \<noteq> type_of row")
        case True
        then have "s \<in> set ?U" using other(1) unfolding t1 by simp
        then show False using unset_none [OF _ g] s(4) by blast
      next
        case False
        then have "s \<in> set table" "in_group type_of (ch_customer_id row) ?new row" "is_primary row"
          using other(1) unfolding t1 by (simp_all add: in_group_def)
        then have "s = row" using inv row g s(4) unfolding primaries_settled_def settled_group_def by metis
        then show False using other(2) by blast
      qed
    qed
  qed
qed

lemma update_keeps_flag:
  assumes inv: "primaries_settled type_of table" and row: "row \<in> set table"
    and prep: "prepare_primary_change type_of row changes table = Inr (table1, row1, groups)"
    and wants: "cc_is_primary changes \<noteq> Some True"
    and r: "r \<in> set table" "ch_id r \<noteq> ch_id row" "is_primary r"
  shows "r \<in> set (settle_groups type_of (ch_customer_id row) groups (write_row (apply_fields now changes actor row1) table1))"
proof (rule settle_keeps)
  let ?row = "apply_fields now changes actor row1"
  let ?G = "in_group type_of (ch_customer_id r) (type_of r)"
  have t1: "table1 = table" using prepare_cases(1) [OF prep] wants by blast
  have row1: "ch_id row1 = ch_id row" "ch_customer_id row1 = ch_customer_id row" "type_of row1 = type_of row"
    using prepare_cases(2) [OF prep] by auto
  have Gr: "?G r" by (simp add: in_group_def)
  have one: "s = r" if "s \<in> set table" "?G s" "is_primary s" for s
    using inv r Gr that unfolding primaries_settled_def settled_group_def by metis
  show "distinct (map ch_id (write_row ?row table1))" using inv unfolding t1 primaries_settled_def by simp
  show "r \<in> set (write_row ?row table1)" using r(1,2) row1 unfolding t1 write_row_eq by force
  show "is_primary r" by (rule r(3))
  show usable: "is_usable_row r"
    using inv r(1,3) Gr unfolding primaries_settled_def settled_group_def by blast
  fix s assume s: "s \<in> set (write_row ?row table1)" "?G s" "is_usable_row s" "is_primary s"
  show "s = r"
  proof (rule ccontr)
    assume "s \<noteq> r"
    then have "s = ?row" using write_row_mem [OF s(1)] one s(2,4) unfolding t1 by blast
    then have "is_primary row1" "cc_is_primary changes = None" and g: "?G ?row"
      using s(2,4) wants by (auto simp: patched_def split: option.splits)
    then have prim: "is_primary row" "row1 = row" using prepare_cases(2) [OF prep] by auto
    have new: "ch_customer_id r = ch_customer_id row" "type_of r = patched (cc_type changes) (type_of row)"
      using g row1 by (simp_all add: in_group_def)
    show False
    proof (cases "patched (cc_type changes) (type_of row) = type_of row")
      case True
      then have "?G row" using new by (simp add: in_group_def)
      then show False using one [OF row _ prim(1)] r(2) by blast
    next
      case False
      have "has_usable_primary type_of (ch_customer_id row) (patched (cc_type changes) (type_of row)) table"
        unfolding has_usable_primary_iff using r(1,3) usable new by (auto simp: in_group_def)
      then have "row1 = row\<lparr>is_primary := False\<rparr>"
        using prep False prim(1) wants \<open>cc_is_primary changes = None\<close>
        unfolding prepare_primary_change_def Let_def by (auto split: if_splits)
      then have "\<not> is_primary row1" by simp
      then show False using \<open>is_primary row1\<close> by blast
    qed
  qed
qed

end

lemmas apply_defs = apply_phone_changes_def apply_email_changes_def apply_address_changes_def apply_changes_def
  is_usable_row_def usable_after_def Let_def

interpretation phones: contact_table phone_type apply_phone_changes
  by unfold_locales (simp_all add: apply_defs)

interpretation emails: contact_table email_type apply_email_changes
  by unfold_locales (simp_all add: apply_defs)

interpretation addresses: contact_table address_type "apply_address_changes canton_of" for canton_of
  by unfold_locales (simp_all add: apply_defs)

section \<open>The contact tables\<close>

definition ids_below :: "uuid \<Rightarrow> 'r contact_channel_scheme list \<Rightarrow> bool" where
  "ids_below n rows \<longleftrightarrow> (\<forall>r \<in> set rows. ch_id r < n)"

definition contacts_settled :: "'a master_db_scheme \<Rightarrow> bool" where
  "contacts_settled db \<longleftrightarrow> primaries_settled phone_type (customer_phones db)
     \<and> primaries_settled email_type (customer_emails db) \<and> primaries_settled address_type (customer_addresses db)
     \<and> ids_below (uuid_supply db) (customer_phones db) \<and> ids_below (uuid_supply db) (customer_emails db)
     \<and> ids_below (uuid_supply db) (customer_addresses db)"

definition has_contact_point :: "uuid \<Rightarrow> 'a master_db_scheme \<Rightarrow> bool" where
  "has_contact_point cid db \<longleftrightarrow> (\<exists>p \<in> set (customer_phones db). ch_customer_id p = cid \<and> is_usable_row p)
     \<or> (\<exists>e \<in> set (customer_emails db). ch_customer_id e = cid \<and> is_usable_row e)"

text \<open>The requests on the contact tables; each works on a row of the table it read.\<close>

inductive contact_step :: "'a master_db_scheme \<Rightarrow> 'a master_db_scheme \<Rightarrow> bool" where
  phone_create: "create_customer_phone now c pdata actor db = Inr (db', p) \<Longrightarrow> contact_step db db'"
| phone_update: "phone \<in> set (customer_phones db) \<Longrightarrow> update_customer_phone now phone pchanges actor db = Inr db'
    \<Longrightarrow> contact_step db db'"
| phone_delete: "phone \<in> set (customer_phones db) \<Longrightarrow> delete_customer_phone now phone actor db = Inr db'
    \<Longrightarrow> contact_step db db'"
| email_create: "create_customer_email now c edata actor db = Inr (db', e) \<Longrightarrow> contact_step db db'"
| email_update: "email \<in> set (customer_emails db) \<Longrightarrow> update_customer_email now email echanges actor db = Inr db'
    \<Longrightarrow> contact_step db db'"
| email_delete: "email \<in> set (customer_emails db) \<Longrightarrow> delete_customer_email now email actor db = Inr db'
    \<Longrightarrow> contact_step db db'"
| address_create: "create_customer_address countries canton_of now c adata actor db = Inr (db', a) \<Longrightarrow> contact_step db db'"
| address_update: "address \<in> set (customer_addresses db)
    \<Longrightarrow> update_customer_address countries canton_of now address achanges actor db = Inr db' \<Longrightarrow> contact_step db db'"
| address_delete: "address \<in> set (customer_addresses db) \<Longrightarrow> contact_step db (delete_customer_address now address actor db)"

lemma audit_contact_simps [simp]:
  "customer_phones (audit_contact now action actor row b a db) = customer_phones db"
  "customer_emails (audit_contact now action actor row b a db) = customer_emails db"
  "customer_addresses (audit_contact now action actor row b a db) = customer_addresses db"
  "uuid_supply (audit_contact now action actor row b a db) = uuid_supply db"
  by (simp_all add: audit_contact_def record_audit_event_def)

text \<open>What each request leaves in its table.\<close>

lemma create_phone_eq:
  assumes "create_customer_phone now c data actor db = Inr (db', p)"
  shows "customer_emails db' = customer_emails db" "customer_addresses db' = customer_addresses db"
    "uuid_supply db' = uuid_supply db + 1"
    "p = new_phone now c data actor (uuid_supply db) (cr_is_primary data
       \<or> \<not> has_usable_primary phone_type (cust_id c) (cr_type data) (customer_phones db))"
    "customer_phones db' = (if is_primary p
       then unset_other_primaries phone_type (cust_id c) (cr_type data) (customer_phones db)
       else customer_phones db) @ [p]"
  using assms unfolding create_customer_phone_def Let_def draw_uuid_def
  by (auto simp: new_phone_def split: if_splits)

lemma create_email_eq:
  assumes "create_customer_email now c data actor db = Inr (db', e)"
  shows "customer_phones db' = customer_phones db" "customer_addresses db' = customer_addresses db"
    "uuid_supply db' = uuid_supply db + 1"
    "e = new_email now c data actor (uuid_supply db) (cr_is_primary data
       \<or> \<not> has_usable_primary email_type (cust_id c) (cr_type data) (customer_emails db))"
    "customer_emails db' = (if is_primary e
       then unset_other_primaries email_type (cust_id c) (cr_type data) (customer_emails db)
       else customer_emails db) @ [e]"
  using assms unfolding create_customer_email_def Let_def draw_uuid_def
  by (auto simp: new_email_def split: if_splits)

lemma create_address_eq:
  assumes "create_customer_address countries canton_of now c data actor db = Inr (db', a)"
  shows "customer_phones db' = customer_phones db" "customer_emails db' = customer_emails db"
    "uuid_supply db' = uuid_supply db + 1"
    "a = new_address canton_of now c data actor (uuid_supply db) (cr_is_primary data
       \<or> \<not> has_usable_primary address_type (cust_id c) (cr_type data) (customer_addresses db))"
    "customer_addresses db' = (if is_primary a
       then unset_other_primaries address_type (cust_id c) (cr_type data) (customer_addresses db)
       else customer_addresses db) @ [a]"
  using assms unfolding create_customer_address_def Let_def draw_uuid_def
  by (auto simp: new_address_def validate_country_code_def bindR_Inr_iff split: if_splits option.splits)

lemma update_phoneE:
  assumes "update_customer_phone now phone changes actor db = Inr db'"
  obtains table row groups where
    "prepare_primary_change phone_type phone changes (customer_phones db) = Inr (table, row, groups)"
    "customer_phones db' = settle_groups phone_type (ch_customer_id phone) groups
       (write_row (apply_phone_changes now changes actor row) table)"
    "customer_emails db' = customer_emails db" "customer_addresses db' = customer_addresses db"
    "uuid_supply db' = uuid_supply db"
    "becomes_unusable changes phone \<Longrightarrow> assert_not_last_contact_point phone db = Inr ()"
  using assms unfolding update_customer_phone_def Let_def
  by (auto simp: bindR_Inr_iff split: if_splits)

lemma update_emailE:
  assumes "update_customer_email now email changes actor db = Inr db'"
  obtains table row groups where
    "prepare_primary_change email_type email changes (customer_emails db) = Inr (table, row, groups)"
    "customer_emails db' = settle_groups email_type (ch_customer_id email) groups
       (write_row (apply_email_changes now changes actor row) table)"
    "customer_phones db' = customer_phones db" "customer_addresses db' = customer_addresses db"
    "uuid_supply db' = uuid_supply db"
    "becomes_unusable changes email \<Longrightarrow> assert_not_last_contact_point email db = Inr ()"
  using assms unfolding update_customer_email_def Let_def
  by (auto simp: bindR_Inr_iff split: if_splits)

lemma update_addressE:
  assumes "update_customer_address countries canton_of now address changes actor db = Inr db'"
  obtains table row groups where
    "prepare_primary_change address_type address changes (customer_addresses db) = Inr (table, row, groups)"
    "customer_addresses db' = settle_groups address_type (ch_customer_id address) groups
       (write_row (apply_address_changes canton_of now changes actor row) table)"
    "customer_phones db' = customer_phones db" "customer_emails db' = customer_emails db"
    "uuid_supply db' = uuid_supply db"
  using assms unfolding update_customer_address_def Let_def
  by (auto simp: bindR_Inr_iff split: if_splits)

definition reach_key :: "'r contact_channel_scheme \<Rightarrow> uuid \<times> uuid \<times> bool" where
  "reach_key r = (ch_id r, ch_customer_id r, is_usable_row r)"

lemma ids_below_map:
  fixes rows rows' :: "'r contact_channel_scheme list"
  shows "map ch_id rows' = map ch_id rows \<Longrightarrow> ids_below n rows' = ids_below n rows"
proof -
  have "ids_below n xs = (\<forall>i \<in> set (map ch_id xs). i < n)" for xs :: "'r contact_channel_scheme list"
    by (simp add: ids_below_def)
  then show "map ch_id rows' = map ch_id rows \<Longrightarrow> ids_below n rows' = ids_below n rows" by metis
qed

context contact_table
begin

lemma unset_reach [simp]: "map reach_key (unset_other_primaries type_of cid t table) = map reach_key table"
  by (simp add: unset_eq reach_key_def)

lemma settle_reach:
  assumes "distinct (map ch_id table)"
  shows "map reach_key (settle_groups type_of cid groups table) = map reach_key table"
  using assms unfolding settle_groups_def
proof (induction groups arbitrary: table)
  case (Cons g gs)
  have "map reach_key (fixup_single_primary type_of cid g table) = map reach_key table"
    unfolding fixup_eq [OF Cons.prems] by (simp add: reach_key_def)
  then show ?case using Cons.IH fixup_ids [OF Cons.prems] Cons.prems by simp
qed simp

lemma update_keys:
  assumes inv: "primaries_settled type_of table"
    and prep: "prepare_primary_change type_of row changes table = Inr (table1, row1, groups)"
    and table': "table' = settle_groups type_of (ch_customer_id row) groups
       (write_row (apply_fields now changes actor row1) table1)"
  shows "map ch_id table' = map ch_id table"
    "r \<in> set table \<Longrightarrow> ch_id r \<noteq> ch_id row \<Longrightarrow> reach_key r \<in> reach_key ` set table'"
    "row \<in> set table \<Longrightarrow> (ch_id row, ch_customer_id row, usable_after changes row) \<in> reach_key ` set table'"
proof -
  let ?row = "apply_fields now changes actor row1"
  let ?w = "write_row ?row table1"
  have row1: "ch_id row1 = ch_id row" "ch_customer_id row1 = ch_customer_id row"
    "usable_after changes row1 = usable_after changes row"
    using prepare_cases(2) [OF prep] by (auto simp: usable_after_def)
  have r1: "map reach_key table1 = map reach_key table" and i1: "map ch_id table1 = map ch_id table"
    using prepare_cases(1) [OF prep] by auto
  have dist: "distinct (map ch_id ?w)" using inv i1 unfolding primaries_settled_def by simp
  show "map ch_id table' = map ch_id table"
    using settle_groups_effect [OF dist] i1 unfolding table' by simp
  have core: "reach_key ` set table' = reach_key ` set ?w"
    using arg_cong [OF settle_reach [OF dist], of set "ch_customer_id row" groups] unfolding table' by simp
  { assume "r \<in> set table" and ne: "ch_id r \<noteq> ch_id row"
    then have "reach_key r \<in> set (map reach_key table1)" unfolding r1 by simp
    then obtain s where s: "s \<in> set table1" "reach_key s = reach_key r" by auto
    then have "ch_id s \<noteq> ch_id ?row" using ne row1 by (simp add: reach_key_def)
    then have "s \<in> set ?w" using s(1) unfolding write_row_eq by force
    then show "reach_key r \<in> reach_key ` set table'" 
      unfolding core s(2) [symmetric] by (rule imageI) }
  { assume "row \<in> set table"
    then have "ch_id row \<in> set (map ch_id table1)" unfolding i1 by simp
    then have "?row \<in> set ?w" unfolding write_row_eq using row1 by force
    moreover have "reach_key ?row = (ch_id row, ch_customer_id row, usable_after changes row)"
      using row1 by (simp add: reach_key_def)
    ultimately show "(ch_id row, ch_customer_id row, usable_after changes row) \<in> reach_key ` set table'"
      unfolding core by (metis image_eqI) }
qed

end

lemma not_usable_after: "is_usable_row row \<Longrightarrow> \<not> usable_after changes row \<Longrightarrow> becomes_unusable changes row"
  unfolding is_usable_row_def usable_after_def becomes_unusable_def patched_def
  by (auto split: option.splits)

lemma last_contact_point_kept:
  assumes "assert_not_last_contact_point row db = Inr ()" "is_usable_row row"
  shows "(\<exists>p \<in> set (customer_phones db). ch_customer_id p = ch_customer_id row \<and> is_usable_row p \<and> ch_id p \<noteq> ch_id row)
    \<or> (\<exists>e \<in> set (customer_emails db). ch_customer_id e = ch_customer_id row \<and> is_usable_row e \<and> ch_id e \<noteq> ch_id row)"
proof -
  have "select_all (\<lambda>r. ch_customer_id r = ch_customer_id row \<and> ch_id r \<noteq> ch_id row \<and> ch_valid_to r = None
        \<and> \<not> do_not_use r) (customer_phones db) \<noteq> []
    \<or> select_all (\<lambda>r. ch_customer_id r = ch_customer_id row \<and> ch_id r \<noteq> ch_id row \<and> ch_valid_to r = None
        \<and> \<not> do_not_use r) (customer_emails db) \<noteq> []"
    using assms by (auto simp: assert_not_last_contact_point_def usable_count_def is_usable_row_def split: if_splits)
  then show ?thesis by (auto simp: select_all_def filter_empty_conv is_usable_row_def)
qed

definition reachable_by :: "uuid \<Rightarrow> 'r contact_channel_scheme list \<Rightarrow> bool" where
  "reachable_by cid rows \<longleftrightarrow> (\<exists>r \<in> set rows. ch_customer_id r = cid \<and> is_usable_row r)"

lemma has_contact_point_iff:
  "has_contact_point cid db \<longleftrightarrow> reachable_by cid (customer_phones db) \<or> reachable_by cid (customer_emails db)"
  by (simp add: has_contact_point_def reachable_by_def)

lemma reachable_byI: "(i, cid, True) \<in> reach_key ` set rows \<Longrightarrow> reachable_by cid rows"
  by (auto simp: reach_key_def reachable_by_def)

lemma reachable_by_map:
  fixes rows rows' :: "'r contact_channel_scheme list"
  assumes "map reach_key rows' = map reach_key rows"
  shows "reachable_by cid rows' = reachable_by cid rows"
proof -
  have "reachable_by cid xs \<longleftrightarrow> (\<exists>i. (i, cid, True) \<in> set (map reach_key xs))" for xs :: "'r contact_channel_scheme list"
    by (force simp: reach_key_def reachable_by_def)
  then show ?thesis using assms by metis
qed

context contact_table
begin

lemma reachable_create:
  "reachable_by cid ((if b then unset_other_primaries type_of c t table else table) @ [row]) \<longleftrightarrow>
     reachable_by cid table \<or> (ch_customer_id row = cid \<and> is_usable_row row)"
  using reachable_by_map [OF unset_reach, of cid c t table] by (cases b) (auto simp: reachable_by_def)

lemma reachable_update:
  assumes inv: "primaries_settled type_of table" and row: "row \<in> set table"
    and prep: "prepare_primary_change type_of row changes table = Inr (table1, row1, groups)"
    and table': "table' = settle_groups type_of (ch_customer_id row) groups
       (write_row (apply_fields now changes actor row1) table1)"
  shows "r \<in> set table \<Longrightarrow> ch_id r \<noteq> ch_id row \<Longrightarrow> is_usable_row r \<Longrightarrow> reachable_by (ch_customer_id r) table'"
    "reachable_by cid table \<Longrightarrow> reachable_by cid table'
      \<or> ch_customer_id row = cid \<and> is_usable_row row \<and> becomes_unusable changes row"
proof -
  note keys = update_keys [OF inv prep table']
  { fix r assume "r \<in> set table" "ch_id r \<noteq> ch_id row" "is_usable_row r"
    then show "reachable_by (ch_customer_id r) table'"
      using keys(2) [of r] reachable_byI [of "ch_id r" "ch_customer_id r" table'] by (simp add: reach_key_def) }
  note others = this
  assume "reachable_by cid table"
  then obtain r where r: "r \<in> set table" "ch_customer_id r = cid" "is_usable_row r" by (auto simp: reachable_by_def)
  show "reachable_by cid table' \<or> ch_customer_id row = cid \<and> is_usable_row row \<and> becomes_unusable changes row"
  proof (cases "ch_id r = ch_id row")
    case True
    then have "r = row" using inv row r(1) unfolding primaries_settled_def by (blast intro: distinct_key_unique)
    then show ?thesis
      using r keys(3) [OF row] reachable_byI [of "ch_id row" cid table'] not_usable_after [of row changes]
      by (cases "usable_after changes row") simp_all
  next
    case False
    then show ?thesis using others [OF r(1)] r by blast
  qed
qed

lemma reachable_delete:
  assumes inv: "primaries_settled type_of table" and row: "row \<in> set table"
    and table': "table' = fixup_single_primary type_of (ch_customer_id row) (type_of row)
       (delete_where (\<lambda>r. ch_id r = ch_id row) table)"
  shows "r \<in> set table \<Longrightarrow> ch_id r \<noteq> ch_id row \<Longrightarrow> is_usable_row r \<Longrightarrow> reachable_by (ch_customer_id r) table'"
    "reachable_by cid table \<Longrightarrow> reachable_by cid table' \<or> ch_customer_id row = cid \<and> is_usable_row row"
proof -
  let ?d = "delete_where (\<lambda>r. ch_id r = ch_id row) table"
  have "distinct (map ch_id ?d)"
    using inv unfolding primaries_settled_def delete_where_def by (simp add: distinct_map inj_on_def)
  then have "map reach_key table' = map reach_key ?d"
    using settle_reach [of ?d "ch_customer_id row" "[type_of row]"] unfolding table' settle_groups_def by simp
  then have eq: "reachable_by cid table' = reachable_by cid ?d" for cid by (rule reachable_by_map)
  { assume "r \<in> set table" "ch_id r \<noteq> ch_id row" "is_usable_row r"
    then show "reachable_by (ch_customer_id r) table'" unfolding eq by (auto simp: reachable_by_def) }
  assume "reachable_by cid table"
  moreover have "r = row" if "r \<in> set table" "ch_id r = ch_id row" for r
    using inv row that unfolding primaries_settled_def by (blast intro: distinct_key_unique)
  ultimately show "reachable_by cid table' \<or> ch_customer_id row = cid \<and> is_usable_row row"
    unfolding eq by (auto simp: reachable_by_def)
qed

end

text \<open>
  The floor: a request on one table takes a customer's last usable row only when the check found
  another, in that table or in the other one.
\<close>

lemma contact_floor:
  assumes "reachable_by cid rows \<or> reachable_by cid others"
    and "\<And>r. r \<in> set rows \<Longrightarrow> ch_id r \<noteq> i \<Longrightarrow> is_usable_row r \<Longrightarrow> reachable_by (ch_customer_id r) rows'"
    and "reachable_by cid rows \<Longrightarrow> reachable_by cid rows' \<or> rcid = cid \<and> lost"
    and "lost \<Longrightarrow> (\<exists>r \<in> set rows. ch_customer_id r = rcid \<and> is_usable_row r \<and> ch_id r \<noteq> i)
      \<or> (\<exists>r \<in> set others. ch_customer_id r = rcid \<and> is_usable_row r \<and> ch_id r \<noteq> i)"
  shows "reachable_by cid rows' \<or> reachable_by cid others"
  using assms unfolding reachable_by_def [of _ others] by blast

lemma contact_step_reachable:
  assumes "contact_step db db'" "contacts_settled db" "has_contact_point cid db"
  shows "has_contact_point cid db'"
  using assms
proof (cases rule: contact_step.cases)
  case (phone_create now c pdata actor p)
  then show ?thesis using assms(3) create_phone_eq [OF phone_create] phones.reachable_create
    unfolding has_contact_point_iff by metis
next
  case (phone_update phone now pchanges actor)
  obtain table row groups where u:
    "prepare_primary_change phone_type phone pchanges (customer_phones db) = Inr (table, row, groups)"
    "customer_phones db' = settle_groups phone_type (ch_customer_id phone) groups
       (write_row (apply_phone_changes now pchanges actor row) table)"
    "customer_emails db' = customer_emails db"
    "becomes_unusable pchanges phone \<Longrightarrow> assert_not_last_contact_point phone db = Inr ()"
    by (rule update_phoneE [OF phone_update(2)]) blast
  note step = phones.reachable_update [OF _ phone_update(1) u(1,2)]
  have "reachable_by cid (customer_phones db') \<or> reachable_by cid (customer_emails db)"
    by (rule contact_floor [where lost = "is_usable_row phone \<and> becomes_unusable pchanges phone" and rcid = "ch_customer_id phone"
          and rows = "customer_phones db" and i = "ch_id phone"])
      (use assms(2,3) step u(4) last_contact_point_kept [of phone db] in \<open>auto simp: has_contact_point_iff contacts_settled_def\<close>)
  then show ?thesis using u(3) unfolding has_contact_point_iff by auto
next
  case (phone_delete phone now actor)
  then have d: "customer_phones db' = fixup_single_primary phone_type (ch_customer_id phone) (phone_type phone)
       (delete_where (\<lambda>r. ch_id r = ch_id phone) (customer_phones db))"
    "customer_emails db' = customer_emails db" "assert_not_last_contact_point phone db = Inr ()"
    by (auto simp: delete_customer_phone_def Let_def bindR_Inr_iff)
  note step = phones.reachable_delete [OF _ phone_delete(1) d(1)]
  have "reachable_by cid (customer_phones db') \<or> reachable_by cid (customer_emails db)"
    by (rule contact_floor [where lost = "is_usable_row phone" and rcid = "ch_customer_id phone"
          and rows = "customer_phones db" and i = "ch_id phone"])
      (use assms(2,3) step d(3) last_contact_point_kept [of phone db] in \<open>auto simp: has_contact_point_iff contacts_settled_def\<close>)
  then show ?thesis using d(2) unfolding has_contact_point_iff by auto
next
  case (email_create now c edata actor e)
  then show ?thesis using assms(3) create_email_eq [OF email_create] emails.reachable_create
    unfolding has_contact_point_iff by metis
next
  case (email_update email now echanges actor)
  obtain table row groups where u:
    "prepare_primary_change email_type email echanges (customer_emails db) = Inr (table, row, groups)"
    "customer_emails db' = settle_groups email_type (ch_customer_id email) groups
       (write_row (apply_email_changes now echanges actor row) table)"
    "customer_phones db' = customer_phones db"
    "becomes_unusable echanges email \<Longrightarrow> assert_not_last_contact_point email db = Inr ()"
    by (rule update_emailE [OF email_update(2)]) blast
  note step = emails.reachable_update [OF _ email_update(1) u(1,2)]
  have "reachable_by cid (customer_emails db') \<or> reachable_by cid (customer_phones db)"
    by (rule contact_floor [where lost = "is_usable_row email \<and> becomes_unusable echanges email" and rcid = "ch_customer_id email"
          and rows = "customer_emails db" and i = "ch_id email"])
      (use assms(2,3) step u(4) last_contact_point_kept [of email db] in \<open>auto simp: has_contact_point_iff contacts_settled_def\<close>)
  then show ?thesis using u(3) unfolding has_contact_point_iff by auto
next
  case (email_delete email now actor)
  then have d: "customer_emails db' = fixup_single_primary email_type (ch_customer_id email) (email_type email)
       (delete_where (\<lambda>r. ch_id r = ch_id email) (customer_emails db))"
    "customer_phones db' = customer_phones db" "assert_not_last_contact_point email db = Inr ()"
    by (auto simp: delete_customer_email_def Let_def bindR_Inr_iff)
  note step = emails.reachable_delete [OF _ email_delete(1) d(1)]
  have "reachable_by cid (customer_emails db') \<or> reachable_by cid (customer_phones db)"
    by (rule contact_floor [where lost = "is_usable_row email" and rcid = "ch_customer_id email"
          and rows = "customer_emails db" and i = "ch_id email"])
      (use assms(2,3) step d(3) last_contact_point_kept [of email db] in \<open>auto simp: has_contact_point_iff contacts_settled_def\<close>)
  then show ?thesis using d(2) unfolding has_contact_point_iff by auto
next
  case (address_create countries canton_of now c adata actor a)
  then show ?thesis using assms(3) create_address_eq(1,2) [OF address_create] unfolding has_contact_point_def by metis
next
  case (address_update address countries canton_of now achanges actor)
  then have "customer_phones db' = customer_phones db" "customer_emails db' = customer_emails db"
    by (blast elim: update_addressE)+
  then show ?thesis using assms(3) unfolding has_contact_point_def by metis
next
  case (address_delete address now actor)
  then show ?thesis using assms(3) by (simp add: has_contact_point_def delete_customer_address_def Let_def)
qed

lemma ids_below_Suc: "ids_below n rows \<Longrightarrow> ids_below (Suc n) rows"
  by (auto simp: ids_below_def less_SucI)

context contact_table
begin

lemma create_invariant:
  assumes "primaries_settled type_of table" "ids_below n table"
    and "ch_id row = n" "is_usable_row row" "ch_customer_id row = c" "type_of row = t"
    and "is_primary row = (wanted \<or> \<not> has_usable_primary type_of c t table)"
  shows "primaries_settled type_of ((if is_primary row then unset_other_primaries type_of c t table else table) @ [row])"
    "ids_below (n + 1) ((if is_primary row then unset_other_primaries type_of c t table else table) @ [row])"
proof -
  have fresh: "ch_id row \<notin> set (map ch_id table)" using assms(2,3) by (auto simp: ids_below_def)
  show "primaries_settled type_of ((if is_primary row then unset_other_primaries type_of c t table else table) @ [row])"
    by (rule settled_create [OF assms(1) fresh assms(4), where wanted = wanted]) (use assms in simp_all)
  have "ids_below n (if is_primary row then unset_other_primaries type_of c t table else table)"
    using assms(2) ids_below_map [OF unset_ids, of n c t table] by simp
  then show "ids_below (n + 1) ((if is_primary row then unset_other_primaries type_of c t table else table) @ [row])"
    using assms(3) by (auto simp: ids_below_def less_SucI)
qed

lemma update_invariant:
  assumes "primaries_settled type_of table" "ids_below n table" "row \<in> set table"
    and prep: "prepare_primary_change type_of row changes table = Inr (table1, row1, groups)"
    and table': "table' = settle_groups type_of (ch_customer_id row) groups
       (write_row (apply_fields now changes actor row1) table1)"
  shows "primaries_settled type_of table'" "ids_below n table'"
  using settled_update [OF assms(1,3) prep] ids_below_map [OF update_keys(1) [OF assms(1) prep table']] assms(2)
  unfolding table' by auto

lemma delete_invariant:
  assumes "primaries_settled type_of table" "ids_below n table" "row \<in> set table"
    and table': "table' = fixup_single_primary type_of (ch_customer_id row) (type_of row)
       (delete_where (\<lambda>r. ch_id r = ch_id row) table)"
  shows "primaries_settled type_of table'" "ids_below n table'"
proof -
  let ?d = "delete_where (\<lambda>r. ch_id r = ch_id row) table"
  show "primaries_settled type_of table'" unfolding table' by (rule settled_delete [OF assms(1,3)])
  have "distinct (map ch_id ?d)"
    using assms(1) unfolding primaries_settled_def delete_where_def by (simp add: distinct_map inj_on_def)
  then have "ids_below n table' = ids_below n ?d" unfolding table' by (intro ids_below_map fixup_ids)
  then show "ids_below n table'" using assms(2) by (auto simp: ids_below_def)
qed

end

lemma contact_step_settled:
  assumes "contact_step db db'" "contacts_settled db"
  shows "contacts_settled db'"
  using assms(1)
proof (cases rule: contact_step.cases)
  case (phone_create now c pdata actor p)
  note eq = create_phone_eq [OF phone_create]
  have "primaries_settled phone_type (customer_phones db')" "ids_below (uuid_supply db') (customer_phones db')"
    using phones.create_invariant [of "customer_phones db" "uuid_supply db" p "cust_id c" "cr_type pdata" "cr_is_primary pdata"]
      assms(2) eq(4) unfolding eq(3,5) by (simp_all add: contacts_settled_def new_phone_def is_usable_row_def)
  then show ?thesis using assms(2) eq(1-3) by (simp add: contacts_settled_def ids_below_Suc)
next
  case (phone_update phone now pchanges actor)
  obtain table row groups where u:
    "prepare_primary_change phone_type phone pchanges (customer_phones db) = Inr (table, row, groups)"
    "customer_phones db' = settle_groups phone_type (ch_customer_id phone) groups
       (write_row (apply_phone_changes now pchanges actor row) table)"
    "customer_emails db' = customer_emails db" "customer_addresses db' = customer_addresses db" "uuid_supply db' = uuid_supply db"
    by (rule update_phoneE [OF phone_update(2)]) blast
  show ?thesis using assms(2) phones.update_invariant [OF _ _ phone_update(1) u(1,2)] u(3-5)
    unfolding contacts_settled_def by metis
next
  case (phone_delete phone now actor)
  then have d: "customer_phones db' = fixup_single_primary phone_type (ch_customer_id phone) (phone_type phone)
       (delete_where (\<lambda>r. ch_id r = ch_id phone) (customer_phones db))"
    "customer_emails db' = customer_emails db" "customer_addresses db' = customer_addresses db" "uuid_supply db' = uuid_supply db"
    by (auto simp: delete_customer_phone_def Let_def bindR_Inr_iff)
  show ?thesis using assms(2) phones.delete_invariant [OF _ _ phone_delete(1) d(1)] d(2-4)
    unfolding contacts_settled_def by metis
next
  case (email_create now c edata actor e)
  note eq = create_email_eq [OF email_create]
  have "primaries_settled email_type (customer_emails db')" "ids_below (uuid_supply db') (customer_emails db')"
    using emails.create_invariant [of "customer_emails db" "uuid_supply db" e "cust_id c" "cr_type edata" "cr_is_primary edata"]
      assms(2) eq(4) unfolding eq(3,5) by (simp_all add: contacts_settled_def new_email_def is_usable_row_def)
  then show ?thesis using assms(2) eq(1-3) by (simp add: contacts_settled_def ids_below_Suc)
next
  case (email_update email now echanges actor)
  obtain table row groups where u:
    "prepare_primary_change email_type email echanges (customer_emails db) = Inr (table, row, groups)"
    "customer_emails db' = settle_groups email_type (ch_customer_id email) groups
       (write_row (apply_email_changes now echanges actor row) table)"
    "customer_phones db' = customer_phones db" "customer_addresses db' = customer_addresses db" "uuid_supply db' = uuid_supply db"
    by (rule update_emailE [OF email_update(2)]) blast
  show ?thesis using assms(2) emails.update_invariant [OF _ _ email_update(1) u(1,2)] u(3-5)
    unfolding contacts_settled_def by metis
next
  case (email_delete email now actor)
  then have d: "customer_emails db' = fixup_single_primary email_type (ch_customer_id email) (email_type email)
       (delete_where (\<lambda>r. ch_id r = ch_id email) (customer_emails db))"
    "customer_phones db' = customer_phones db" "customer_addresses db' = customer_addresses db" "uuid_supply db' = uuid_supply db"
    by (auto simp: delete_customer_email_def Let_def bindR_Inr_iff)
  show ?thesis using assms(2) emails.delete_invariant [OF _ _ email_delete(1) d(1)] d(2-4)
    unfolding contacts_settled_def by metis
next
  case (address_create countries canton_of now c adata actor a)
  note eq = create_address_eq [OF address_create]
  have "primaries_settled address_type (customer_addresses db')" "ids_below (uuid_supply db') (customer_addresses db')"
    using addresses.create_invariant [of "customer_addresses db" "uuid_supply db" a "cust_id c" "cr_type adata" "cr_is_primary adata"]
      assms(2) eq(4) unfolding eq(3,5) by (simp_all add: contacts_settled_def new_address_def is_usable_row_def)
  then show ?thesis using assms(2) eq(1-3) by (simp add: contacts_settled_def ids_below_Suc)
next
  case (address_update address countries canton_of now achanges actor)
  obtain table row groups where u:
    "prepare_primary_change address_type address achanges (customer_addresses db) = Inr (table, row, groups)"
    "customer_addresses db' = settle_groups address_type (ch_customer_id address) groups
       (write_row (apply_address_changes canton_of now achanges actor row) table)"
    "customer_phones db' = customer_phones db" "customer_emails db' = customer_emails db" "uuid_supply db' = uuid_supply db"
    by (rule update_addressE [OF address_update(2)]) blast
  show ?thesis using assms(2) addresses.update_invariant [OF _ _ address_update(1) u(1,2)] u(3-5)
    unfolding contacts_settled_def by metis
next
  case (address_delete address now actor)
  have d: "customer_addresses db' = fixup_single_primary address_type (ch_customer_id address) (address_type address)
       (delete_where (\<lambda>r. ch_id r = ch_id address) (customer_addresses db))"
    "customer_phones db' = customer_phones db" "customer_emails db' = customer_emails db" "uuid_supply db' = uuid_supply db"
    unfolding address_delete(1) by (simp_all add: delete_customer_address_def Let_def)
  show ?thesis using assms(2) addresses.delete_invariant [OF _ _ address_delete(2) d(1)] d(2-4)
    unfolding contacts_settled_def by metis
qed

lemma contact_steps_kept:
  assumes "contact_step\<^sup>*\<^sup>* db db'" "contacts_settled db"
  shows "contacts_settled db' \<and> (has_contact_point cid db \<longrightarrow> has_contact_point cid db')"
  using assms(1)
proof (induction rule: rtranclp_induct)
  case base
  then show ?case using assms(2) by simp
next
  case (step d d')
  then show ?case using contact_step_settled contact_step_reachable by blast
qed

section \<open>Properties\<close>

text \<open>
  C15: whatever sequence of requests creates, patches, closes, flags, reopens, moves or deletes phones,
  emails and addresses, every group of a customer's rows of one type keeps exactly one primary when it
  has a usable row and none otherwise, the primary is a usable row, and a customer who had a usable
  phone or email keeps one.
\<close>

theorem contacts_keep_one_primary:
  assumes "contacts_settled db" "contact_step\<^sup>*\<^sup>* db db'"
  shows "contacts_settled db' \<and> (\<forall>cid. has_contact_point cid db \<longrightarrow> has_contact_point cid db')"
  using contact_steps_kept [OF assms(2,1)] by blast


lemma primary_of_type_iff:
  "primary_of_type type_of t (usable_rows cid table) = None \<longleftrightarrow>
     (\<forall>r \<in> set table. in_group type_of cid t r \<longrightarrow> \<not> is_usable_row r)"
proof -
  let ?l = "filter (\<lambda>r. type_of r = t) (usable_rows cid table)"
  have "primary_of_type type_of t (usable_rows cid table) = None \<longleftrightarrow> ?l = []"
    unfolding primary_of_type_def Let_def by (cases ?l) (auto split: option.splits)
  also have "\<dots> \<longleftrightarrow> set ?l = {}" by (rule set_empty [symmetric])
  also have "\<dots> \<longleftrightarrow> (\<forall>r \<in> set table. in_group type_of cid t r \<longrightarrow> \<not> is_usable_row r)"
    by (auto simp: usable_rows_def in_group_def)
  finally show ?thesis .
qed

lemma primary_of_type_flagged:
  assumes "settled_group type_of cid t table" "r \<in> set table" "in_group type_of cid t r" "is_primary r"
  shows "primary_of_type type_of t (usable_rows cid table) = Some r"
proof -
  let ?l = "filter (\<lambda>r. type_of r = t) (usable_rows cid table)"
  have l: "s \<in> set ?l \<longleftrightarrow> s \<in> set table \<and> in_group type_of cid t s \<and> is_usable_row s" for s
    by (auto simp: usable_rows_def in_group_def)
  have "is_usable_row r" using assms unfolding settled_group_def by blast
  then have "r \<in> set ?l" using assms l by blast
  then obtain s where s: "List.find is_primary ?l = Some s"
    using assms(4) by (cases "List.find is_primary ?l") (auto simp: find_None_iff)
  then have "s \<in> set ?l" "is_primary s" by (auto simp: find_Some_iff set_conv_nth)
  then have "s = r" using assms l unfolding settled_group_def by blast
  then show ?thesis using s unfolding primary_of_type_def Let_def by simp
qed


subsection \<open>An example\<close>

definition example_phone :: customer_phone where
  "example_phone = \<lparr>ch_id = 2, ch_group_id = 7, ch_customer_id = 6, ch_label = None, is_primary = True,
     ch_valid_from = 0, ch_valid_to = None, do_not_use = False, do_not_use_reason = None, consent_granted = False,
     ch_consent_scope = None, ch_consent_source = None, consent_timestamp = None, ch_created_at = 0,
     ch_created_by = None, ch_updated_by = None, phone_type = MOBILE, phone_e164 = ''+41791234567'',
     phone_normalised = ''41791234567''\<rparr>"

definition example_phone_2 :: customer_phone where
  "example_phone_2 = example_phone\<lparr>ch_id := 3, is_primary := False, ch_created_at := 5, phone_e164 := ''+41441234567'',
     phone_normalised := ''41441234567''\<rparr>"

definition example_contacts_db :: master_db where
  "example_contacts_db = empty_master_db\<lparr>uuid_supply := 10, customer_phones := [example_phone, example_phone_2]\<rparr>"

text \<open>The second number becomes the primary one.\<close>

definition example_changes :: customer_phone_update where
  "example_changes = \<lparr>cc_type = None, cc_label = None, cc_is_primary = Some True, cc_valid_to = None,
     cc_do_not_use = None, cc_do_not_use_reason = None, cc_consent_granted = None, cc_consent_scope = None,
     cc_consent_source = None, cc_null_columns = [], cc_phone_e164 = None\<rparr>"

lemmas example_contact_defs = example_contacts_db_def example_phone_def example_phone_2_def empty_master_db_def
  example_changes_def

lemma example_contacts_settled: "contacts_settled example_contacts_db"
  by (auto simp: contacts_settled_def primaries_settled_def settled_group_def ids_below_def in_group_def
      is_usable_row_def example_contact_defs)

lemma example_phone_update:
  "\<exists>db'. update_customer_phone 20 example_phone_2 example_changes None example_contacts_db = Inr db'"
  by (simp add: update_customer_phone_def prepare_primary_change_def becomes_unusable_def usable_after_def
      is_usable_row_def unset_other_primaries_def flag_where_def in_group_def write_row_def phone_key_def
      apply_phone_changes_def apply_changes_def example_contact_defs Let_def)

theorem contacts_keep_one_primary_witness:
  "\<exists>db'. contact_step example_contacts_db db' \<and> contacts_settled db' \<and> has_contact_point 6 db'"
proof -
  obtain db' where u: "update_customer_phone 20 example_phone_2 example_changes None example_contacts_db = Inr db'"
    using example_phone_update by blast
  have "example_phone_2 \<in> set (customer_phones example_contacts_db)" by (simp add: example_contacts_db_def)
  then have "contact_step example_contacts_db db'" using u by (rule contact_step.phone_update)
  moreover have "has_contact_point 6 example_contacts_db"
    by (simp add: has_contact_point_def is_usable_row_def example_contact_defs)
  ultimately show ?thesis
    using contacts_keep_one_primary [OF example_contacts_settled r_into_rtranclp, of db'] by blast
qed



end
