(* ===== verification/Customer_Parties.thy ===== *)
theory Customer_Parties
  imports Customer_Contacts
begin

text \<open>
  Who holds which role on which car (\<^verbatim>\<open>app/customer/services/customer.py\<close>, the \<open>VehicleParty\<close>
  part): linking, patching, disconnecting and allocating a holder, the labels copied from the vehicle
  context, the credit block, and the merge of two customers with everything it re-points. The
  advisory and row locks of the source make each of these run alone on its rows; the model runs them
  one after the other, so the two refusals \<open>merge_vehicle_party_busy\<close>, which only answer a lock held
  by another transaction, do not occur.
\<close>

section \<open>Vehicle labels\<close>

text \<open>\<open>date.year\<close> of Python's proleptic calendar; day 0 is 1970-01-01, ordinal 719163.\<close>

definition year_of_date :: "date \<Rightarrow> int" where
  "year_of_date d =
     (let n = d + 719163 - 1; n400 = n div 146097; m = n mod 146097;
          n100 = m div 36524; m2 = m mod 36524; n4 = m2 div 1461; m3 = m2 mod 1461; n1 = m3 div 365;
          year = n400 * 400 + 1 + n100 * 100 + n4 * 4 + n1
      in if n1 = 4 \<or> n100 = 4 then year - 1 else year)"

definition catalogue_variant_of :: "vehicle_mdm \<Rightarrow> 'a master_db_scheme \<Rightarrow> model_variant option" where
  "catalogue_variant_of v db = (case catalogue_variant_id v of None \<Rightarrow> None
     | Some vid \<Rightarrow> select_one (\<lambda>m. mv_id m = vid) (model_variants db))"

definition get_vehicle_summary :: "uuid \<Rightarrow> 'a master_db_scheme \<Rightarrow> vehicle_label option" where
  "get_vehicle_summary vehicle_id db =
     map_option (\<lambda>v. \<lparr>vl_vin = mdm_vin v, vl_vehicle_number = vehicle_number v,
         vl_make = map_option mv_brand_display_name (catalogue_variant_of v db),
         vl_model = map_option mv_model_group_name (catalogue_variant_of v db),
         vl_model_year = map_option year_of_date (mdm_first_registration_date v),
         vl_trim = map_option mv_name (catalogue_variant_of v db)\<rparr>)
       (select_one (\<lambda>v. mdm_id v = vehicle_id) (vehicle_mdms db))"

definition write_vehicle_label :: "datetime \<Rightarrow> 'a master_db_scheme \<Rightarrow> vehicle_party \<Rightarrow> vehicle_party" where
  "write_vehicle_label now db party = (case get_vehicle_summary (vp_vehicle_id party) db of
     None \<Rightarrow> party
   | Some summary \<Rightarrow> party\<lparr>vp_label := Some summary, vehicle_label_refreshed_at := Some now\<rparr>)"

definition save_party :: "vehicle_party \<Rightarrow> 'a master_db_scheme \<Rightarrow> 'a master_db_scheme" where
  "save_party party db = db\<lparr>vehicle_parties :=
     update_where (\<lambda>r. vp_id r = vp_id party) (\<lambda>_. party) (vehicle_parties db)\<rparr>"

text \<open>The nightly refresh; \<open>batch\<close> rows a commit, all rows in id order, the changed labels counted.\<close>

definition refresh_vehicle_party_labels :: "datetime \<Rightarrow> 'a master_db_scheme \<Rightarrow> 'a master_db_scheme \<times> nat" where
  "refresh_vehicle_party_labels now db =
     (db\<lparr>vehicle_parties := map (write_vehicle_label now db) (vehicle_parties db)\<rparr>,
      length (filter (\<lambda>p. \<exists>s \<in> set_option (get_vehicle_summary (vp_vehicle_id p) db). vp_label p \<noteq> Some s)
        (vehicle_parties db)))"

definition oldest_vehicle_party_label_age :: "datetime \<Rightarrow> 'a master_db_scheme \<Rightarrow> int option" where
  "oldest_vehicle_party_label_age now db =
     (case List.map_filter vehicle_label_refreshed_at (vehicle_parties db) of
        [] \<Rightarrow> None | t # ts \<Rightarrow> Some (now - fold min ts t))"

section \<open>Holders\<close>

fun role_value :: "vehicle_party_role \<Rightarrow> string" where
  "role_value OWNER = ''owner''" | "role_value KEEPER = ''keeper''" | "role_value DRIVER = ''driver''"

definition is_open :: "datetime \<Rightarrow> datetime option \<Rightarrow> bool" where
  "is_open now until \<longleftrightarrow> (case until of None \<Rightarrow> True | Some t \<Rightarrow> now < t)"

definition validate_effective_range :: "datetime option \<Rightarrow> datetime option \<Rightarrow> unit result" where
  "validate_effective_range eff_from eff_to = (case eff_to of None \<Rightarrow> Inr ()
     | Some t \<Rightarrow> (case eff_from of None \<Rightarrow> Inl TypeError
         | Some f \<Rightarrow> if t \<le> f then Inl (BadRequestError []) else Inr ()))"

definition vehicle_party_payload :: "vehicle_party \<Rightarrow> payload" where
  "vehicle_party_payload p =
     [(''vehiclePartyId'', JUuid (vp_id p)), (''vehicleId'', JUuid (vp_vehicle_id p)),
      (''customerId'', JUuid (vp_customer_id p)), (''role'', JStr (role_value (vp_role p))),
      (''effectiveFrom'', JTime (effective_from p)), (''effectiveTo'', json_opt JTime (effective_to p)),
      (''mergedIntoCustomerId'', json_opt JUuid (merged_into_customer_id p))]"

definition party_event :: "string \<Rightarrow> uuid \<Rightarrow> vehicle_party \<Rightarrow> outbox_event" where
  "party_event etype gid p =
     plain_event etype (Some gid) ''customer'' ''vehicle_party'' (vp_id p) (vehicle_party_payload p)"

text \<open>\<open>party\<close> is the row as read; the flush writes the changed columns.\<close>

definition close_vehicle_party ::
  "datetime \<Rightarrow> vehicle_party \<Rightarrow> uuid option \<Rightarrow> uuid \<Rightarrow> datetime option \<Rightarrow> uuid option
     \<Rightarrow> 'a master_db_scheme \<Rightarrow> 'a master_db_scheme" where
  "close_vehicle_party now party actor_id gid eff_to merged_into db =
     (let close = (\<lambda>p. p\<lparr>effective_to := Some (case eff_to of Some t \<Rightarrow> t | None \<Rightarrow> now),
            merged_into_customer_id := (if merged_into \<noteq> None then merged_into else merged_into_customer_id p)\<rparr>);
          before = [(''vehicleId'', JUuid (vp_vehicle_id party)), (''role'', JStr (role_value (vp_role party))),
            (''effectiveFrom'', JTime (effective_from party)), (''effectiveTo'', json_opt JTime (effective_to party))];
          after = (''effectiveTo'', json_opt JTime (effective_to (close party)))
            # (case merged_into of None \<Rightarrow> [] | Some m \<Rightarrow> [(''mergedIntoCustomerId'', JUuid m)])
      in publish now (party_event ''customer.vehicle_party.unlinked'' gid (close party))
           (record_audit_event now ''customer'' (vp_customer_id party) (Some gid) ''vehicle_party_remove'' actor_id
             (Some before) (Some after) None
             (db\<lparr>vehicle_parties := update_where (\<lambda>r. vp_id r = vp_id party) close (vehicle_parties db)\<rparr>)))"

definition customer_group :: "uuid \<Rightarrow> 'a master_db_scheme \<Rightarrow> uuid option" where
  "customer_group cid db = map_option group_id (select_one (\<lambda>c. cust_id c = cid) (customers db))"

definition open_holders_in_group ::
  "datetime \<Rightarrow> uuid \<Rightarrow> vehicle_party_role \<Rightarrow> uuid \<Rightarrow> uuid option \<Rightarrow> 'a master_db_scheme \<Rightarrow> vehicle_party list" where
  "open_holders_in_group now vehicle_id role gid excluding db =
     sort_key effective_from (select_all (\<lambda>p. vp_vehicle_id p = vehicle_id \<and> vp_role p = role
       \<and> customer_group (vp_customer_id p) db = Some gid \<and> is_open now (effective_to p)
       \<and> Some (vp_id p) \<noteq> excluding) (vehicle_parties db))"

definition refuse_merged_customer :: "uuid \<Rightarrow> 'a master_db_scheme \<Rightarrow> unit result" where
  "refuse_merged_customer cid db = (case select_one (\<lambda>c. cust_id c = cid) (customers db) of
     None \<Rightarrow> Inl NoResultFound
   | Some c \<Rightarrow> if cust_lifecycle_status c = MERGED
       then Inl (ConflictError [(''reason'', JStr ''customer_merged''),
         (''mergedIntoCustomerId'', json_opt JUuid (duplicate_of_customer_id c))])
       else Inr ())"

text \<open>The unique constraint on (vehicle, customer, role, start).\<close>

definition party_key :: "vehicle_party \<Rightarrow> uuid \<times> uuid \<times> vehicle_party_role \<times> datetime" where
  "party_key p = (vp_vehicle_id p, vp_customer_id p, vp_role p, effective_from p)"

definition vehicle_party_exists :: "uuid \<Rightarrow> vehicle_party_role \<Rightarrow> datetime option \<Rightarrow> exn" where
  "vehicle_party_exists vehicle_id role eff_from = ConflictError ([(''reason'', JStr ''vehicle_party_exists''),
     (''vehicleId'', JUuid vehicle_id), (''role'', JStr (role_value role))]
     @ (case eff_from of None \<Rightarrow> [] | Some t \<Rightarrow> [(''effectiveFrom'', JTime t)]))"

definition new_vehicle_party ::
  "datetime \<Rightarrow> 'a master_db_scheme \<Rightarrow> uuid \<Rightarrow> uuid \<Rightarrow> uuid \<Rightarrow> vehicle_party_role \<Rightarrow> datetime \<Rightarrow> datetime option
     \<Rightarrow> vehicle_party" where
  "new_vehicle_party now db pid vehicle_id cid role eff_from eff_to =
     write_vehicle_label now db \<lparr>vp_id = pid, vp_vehicle_id = vehicle_id, vp_customer_id = cid, vp_role = role,
       effective_from = eff_from, effective_to = eff_to, merged_into_customer_id = None, vp_label = None,
       vehicle_label_refreshed_at = None\<rparr>"

definition insert_party :: "vehicle_party \<Rightarrow> 'a master_db_scheme \<Rightarrow> 'a master_db_scheme result" where
  "insert_party party db =
     (if party_key party \<in> set (map party_key (vehicle_parties db))
      then Inl (vehicle_party_exists (vp_vehicle_id party) (vp_role party) (Some (effective_from party)))
      else Inr (db\<lparr>vehicle_parties := vehicle_parties db @ [party]\<rparr>))"

definition open_vehicle_party ::
  "datetime \<Rightarrow> uuid \<Rightarrow> uuid \<Rightarrow> vehicle_party_role \<Rightarrow> uuid \<Rightarrow> uuid option \<Rightarrow> datetime \<Rightarrow> datetime option
     \<Rightarrow> vehicle_party list \<Rightarrow> 'a master_db_scheme \<Rightarrow> ('a master_db_scheme \<times> vehicle_party) result" where
  "open_vehicle_party now vehicle_id cid role gid actor_id eff_from eff_to incumbents db =
     (let db1 = fold (\<lambda>p. close_vehicle_party now p actor_id gid None None) incumbents db;
          (pid, db2) = draw_uuid db1;
          party = new_vehicle_party now db2 pid vehicle_id cid role eff_from eff_to;
          after = [(''vehicleId'', JUuid vehicle_id), (''role'', JStr (role_value role)),
            (''effectiveFrom'', JTime eff_from)]
            @ (case eff_to of None \<Rightarrow> [] | Some t \<Rightarrow> [(''effectiveTo'', JTime t)])
      in bindR (insert_party party db2) (\<lambda>db3.
         Inr (publish now (party_event ''customer.vehicle_party.linked'' gid party)
           (record_audit_event now ''customer'' cid (Some gid) ''vehicle_party_add'' actor_id None (Some after) None db3),
           party)))"

definition allocate_vehicle_party ::
  "datetime \<Rightarrow> uuid \<Rightarrow> uuid \<Rightarrow> vehicle_party_role \<Rightarrow> uuid \<Rightarrow> uuid option \<Rightarrow> datetime option \<Rightarrow> datetime option
     \<Rightarrow> 'a master_db_scheme \<Rightarrow> ('a master_db_scheme \<times> vehicle_party) result" where
  "allocate_vehicle_party now vehicle_id cid role gid actor_id eff_from eff_to db =
     bindR (get_customer_or_404 gid cid db) (\<lambda>_.
     bindR (refuse_merged_customer cid db) (\<lambda>_.
     let start = (case eff_from of Some t \<Rightarrow> t | None \<Rightarrow> now);
         incumbents = open_holders_in_group now vehicle_id role gid None db
     in if eff_to = None \<and> length incumbents = 1 \<and> vp_customer_id (hd incumbents) = cid
        then (let incumbent = hd incumbents
              in if vehicle_label_refreshed_at incumbent = None
                 then Inr (save_party (write_vehicle_label now db incumbent) db, write_vehicle_label now db incumbent)
                 else Inr (db, incumbent))
        else open_vehicle_party now vehicle_id cid role gid actor_id start eff_to incumbents db))"

section \<open>The customer's vehicles\<close>

record customer_vehicle_create =
  cv_vehicle_id :: uuid
  cv_role :: vehicle_party_role
  cv_effective_from :: "datetime option"
  cv_effective_to :: "datetime option"

record customer_vehicle_update =
  cu_effective_from :: "datetime option option"
  cu_effective_to :: "datetime option option"

definition get_vehicle_mdm_or_404 :: "uuid \<Rightarrow> 'a master_db_scheme \<Rightarrow> vehicle_mdm result" where
  "get_vehicle_mdm_or_404 vehicle_id db = (case select_one (\<lambda>v. mdm_id v = vehicle_id) (vehicle_mdms db) of
     None \<Rightarrow> Inl (NotFoundError []) | Some v \<Rightarrow> Inr v)"

definition create_customer_vehicle ::
  "datetime \<Rightarrow> customer \<Rightarrow> customer_vehicle_create \<Rightarrow> uuid option \<Rightarrow> 'a master_db_scheme
     \<Rightarrow> ('a master_db_scheme \<times> vehicle_party) result" where
  "create_customer_vehicle now c data actor_id db =
     bindR (get_vehicle_mdm_or_404 (cv_vehicle_id data) db) (\<lambda>vehicle.
     let start = (case cv_effective_from data of Some t \<Rightarrow> t | None \<Rightarrow> now)
     in bindR (validate_effective_range (Some start) (cv_effective_to data)) (\<lambda>_.
        if is_open now (cv_effective_to data)
        then allocate_vehicle_party now (mdm_id vehicle) (cust_id c) (cv_role data) (group_id c) actor_id
          (Some start) (cv_effective_to data) db
        else bindR (refuse_merged_customer (cust_id c) db) (\<lambda>_.
          let (pid, db1) = draw_uuid db;
              party = new_vehicle_party now db1 pid (mdm_id vehicle) (cust_id c) (cv_role data) start (cv_effective_to data);
              after = [(''vehicleId'', JUuid (mdm_id vehicle)), (''role'', JStr (role_value (cv_role data))),
                (''effectiveFrom'', JTime start), (''effectiveTo'', json_opt JTime (cv_effective_to data))]
          in bindR (insert_party party db1) (\<lambda>db2.
             Inr (publish now (party_event ''customer.vehicle_party.linked'' (group_id c) party)
               (record_audit_event now ''customer'' (cust_id c) (Some (group_id c)) ''vehicle_party_add'' actor_id
                 None (Some after) None db2), party)))))"

text \<open>\<open>_lock_party\<close>: the committed row, labelled when it has no label yet.\<close>

definition lock_party :: "datetime \<Rightarrow> uuid \<Rightarrow> 'a master_db_scheme \<Rightarrow> ('a master_db_scheme \<times> vehicle_party) result" where
  "lock_party now party_id db = (case select_one (\<lambda>p. vp_id p = party_id) (vehicle_parties db) of
     None \<Rightarrow> Inl (NotFoundError [])
   | Some p \<Rightarrow> if vehicle_label_refreshed_at p = None
       then Inr (save_party (write_vehicle_label now db p) db, write_vehicle_label now db p) else Inr (db, p))"

definition period_payload :: "vehicle_party \<Rightarrow> payload" where
  "period_payload p = [(''effectiveFrom'', JTime (effective_from p)), (''effectiveTo'', json_opt JTime (effective_to p))]"

text \<open>The writes of a PATCH once it is accepted: the row, the other holders, the constraint, the event, the audit row.\<close>

definition write_party_period ::
  "datetime \<Rightarrow> vehicle_party \<Rightarrow> datetime \<Rightarrow> datetime option \<Rightarrow> bool \<Rightarrow> bool \<Rightarrow> uuid option \<Rightarrow> uuid
     \<Rightarrow> 'a master_db_scheme \<Rightarrow> ('a master_db_scheme \<times> vehicle_party) result" where
  "write_party_period now party new_from new_to holds_after ends_now actor_id gid db =
     (let held_before = is_open now (effective_to party);
          party' = party\<lparr>effective_from := new_from, effective_to := new_to\<rparr>;
          others = (if holds_after
            then open_holders_in_group now (vp_vehicle_id party) (vp_role party) gid (Some (vp_id party)) db else []);
          db1 = save_party party' db;
          db2 = fold (\<lambda>p. close_vehicle_party now p actor_id gid None None) others db1;
          db3 = (if holds_after \<and> \<not> held_before \<or> ends_now
            then publish now (party_event (if holds_after then ''customer.vehicle_party.linked''
                else ''customer.vehicle_party.unlinked'') gid party') db2
            else db2)
      in if \<not> distinct (map party_key (vehicle_parties db2))
         then Inl (vehicle_party_exists (vp_vehicle_id party) (vp_role party) None)
         else Inr (record_audit_event now ''customer'' (vp_customer_id party) (Some gid) ''vehicle_party_update'' actor_id
             (Some (period_payload party)) (Some (period_payload party')) None db3, party'))"

definition update_customer_vehicle ::
  "datetime \<Rightarrow> uuid \<Rightarrow> customer_vehicle_update \<Rightarrow> uuid option \<Rightarrow> uuid \<Rightarrow> 'a master_db_scheme
     \<Rightarrow> ('a master_db_scheme \<times> vehicle_party) result" where
  "update_customer_vehicle now party_id changes actor_id gid db =
     (let holds_after = (case cu_effective_to changes of Some e \<Rightarrow> is_open now e | None \<Rightarrow> False)
      in bindR (lock_party now party_id db) (\<lambda>(db1, party).
         bindR (case merged_into_customer_id party of
             Some m \<Rightarrow> if holds_after then Inl (ConflictError [(''reason'', JStr ''merged_party_row''),
               (''mergedIntoCustomerId'', JUuid m)]) else Inr ()
           | None \<Rightarrow> Inr ()) (\<lambda>_.
         bindR (if holds_after then refuse_merged_customer (vp_customer_id party) db1 else Inr ()) (\<lambda>_.
         let new_from = patched (cu_effective_from changes) (Some (effective_from party));
             new_to = patched (cu_effective_to changes) (effective_to party);
             ends_now = (is_open now (effective_to party) \<and> cu_effective_to changes \<noteq> None \<and> \<not> holds_after)
         in bindR (validate_effective_range new_from new_to) (\<lambda>_.
            case new_from of
              None \<Rightarrow> Inl (vehicle_party_exists (vp_vehicle_id party) (vp_role party) None)
            | Some f \<Rightarrow> write_party_period now party f new_to holds_after ends_now actor_id gid db1)))))"

definition delete_customer_vehicle ::
  "datetime \<Rightarrow> uuid \<Rightarrow> uuid option \<Rightarrow> uuid \<Rightarrow> 'a master_db_scheme \<Rightarrow> 'a master_db_scheme result" where
  "delete_customer_vehicle now party_id actor_id gid db =
     bindR (lock_party now party_id db) (\<lambda>(db1, party).
       if \<not> is_open now (effective_to party) then Inr db
       else Inr (close_vehicle_party now party actor_id gid None None db1))"

text \<open>A vehicle merge moves the duplicate's rows to the survivor; the commit meets the unique constraint.\<close>

definition repoint_vehicle_party ::
  "datetime \<Rightarrow> uuid \<Rightarrow> uuid \<Rightarrow> 'a master_db_scheme \<Rightarrow> ('a master_db_scheme \<times> nat) result" where
  "repoint_vehicle_party now duplicate_vehicle_id survivor_vehicle_id db =
     (let parties = update_where (\<lambda>p. vp_vehicle_id p = duplicate_vehicle_id)
            (\<lambda>p. write_vehicle_label now db (p\<lparr>vp_vehicle_id := survivor_vehicle_id\<rparr>)) (vehicle_parties db)
      in if \<not> distinct (map party_key parties) then Inl IntegrityError
         else Inr (db\<lparr>vehicle_parties := parties\<rparr>,
           length (select_all (\<lambda>p. vp_vehicle_id p = duplicate_vehicle_id) (vehicle_parties db))))"

definition set_credit_block ::
  "datetime \<Rightarrow> customer \<Rightarrow> bool \<Rightarrow> string option \<Rightarrow> uuid option \<Rightarrow> 'a master_db_scheme
     \<Rightarrow> ('a master_db_scheme \<times> customer) result" where
  "set_credit_block now c blocked reason actor_id db =
     (if blocked \<and> (case reason of None \<Rightarrow> True | Some r \<Rightarrow> r = []) then Inl (ConflictError [])
      else let snapshot = (\<lambda>x. [(''creditBlock'', JBool (credit_block x)),
             (''creditBlockReason'', json_opt JStr (credit_block_reason x))]);
           c' = c\<lparr>credit_block := blocked, credit_block_reason := (if blocked then reason else None),
             credit_blocked_at := (if blocked then Some now else None), cust_updated_by := actor_id,
             cust_version := cust_version c + 1\<rparr>
      in Inr (record_audit_event now ''customer'' (cust_id c) (Some (group_id c)) ''credit_block_changed'' actor_id
           (Some (snapshot c)) (Some (snapshot c')) None
           (db\<lparr>customers := update_where (\<lambda>r. cust_id r = cust_id c) (\<lambda>_. c') (customers db)\<rparr>), c'))"

section \<open>Merging two customers\<close>

definition lock_merge_customers :: "uuid \<Rightarrow> uuid \<Rightarrow> 'a master_db_scheme \<Rightarrow> unit result" where
  "lock_merge_customers duplicate_id target_id db =
     (case (select_one (\<lambda>c. cust_id c = target_id) (customers db), select_one (\<lambda>c. cust_id c = duplicate_id) (customers db)) of
        (Some t, Some d) \<Rightarrow>
          if cust_lifecycle_status t = MERGED
          then Inl (ConflictError [(''reason'', JStr ''merge_target_merged''), (''duplicateOfCustomerId'', JUuid target_id)])
          else if cust_lifecycle_status d = MERGED
          then Inl (ConflictError [(''reason'', JStr ''customer_already_merged''), (''currentLifecycleStatus'', JStr ''merged'')])
          else Inr ()
      | _ \<Rightarrow> Inl KeyError)"

definition role_key :: "vehicle_party \<Rightarrow> uuid \<times> vehicle_party_role \<times> datetime" where
  "role_key p = (vp_vehicle_id p, vp_role p, effective_from p)"

text \<open>
  One row of the duplicate: kept and closed when the survivor has the same vehicle, role and start,
  re-pointed otherwise. The accumulator holds the survivor's keys, the number re-pointed, the ids kept.
\<close>

definition repoint_one_party ::
  "datetime \<Rightarrow> uuid \<Rightarrow> uuid option \<Rightarrow> uuid \<Rightarrow> vehicle_party
     \<Rightarrow> 'a master_db_scheme \<times> (uuid \<times> vehicle_party_role \<times> datetime) list \<times> nat \<times> uuid list
     \<Rightarrow> 'a master_db_scheme \<times> (uuid \<times> vehicle_party_role \<times> datetime) list \<times> nat \<times> uuid list" where
  "repoint_one_party now target_id actor_id gid party acc =
     (case acc of (db, target_keys, repointed, kept) \<Rightarrow>
        if role_key party \<in> set target_keys
        then (if \<not> is_open now (effective_to party)
              then db\<lparr>vehicle_parties := update_where (\<lambda>r. vp_id r = vp_id party)
                (\<lambda>r. r\<lparr>merged_into_customer_id := Some target_id\<rparr>) (vehicle_parties db)\<rparr>
              else close_vehicle_party now party actor_id gid (Some (effective_from party)) (Some target_id) db,
              target_keys, repointed, kept @ [vp_id party])
        else (db\<lparr>vehicle_parties := update_where (\<lambda>r. vp_id r = vp_id party)
                (\<lambda>r. r\<lparr>vp_customer_id := target_id\<rparr>) (vehicle_parties db)\<rparr>,
              role_key party # target_keys, repointed + 1, kept))"

definition repoint_vehicle_parties ::
  "datetime \<Rightarrow> uuid \<Rightarrow> uuid \<Rightarrow> uuid option \<Rightarrow> uuid \<Rightarrow> 'a master_db_scheme
     \<Rightarrow> ('a master_db_scheme \<times> nat \<times> uuid list) result" where
  "repoint_vehicle_parties now duplicate_id target_id actor_id gid db =
     bindR (lock_merge_customers duplicate_id target_id db) (\<lambda>_.
       let target_keys = map role_key (select_all (\<lambda>p. vp_customer_id p = target_id) (vehicle_parties db));
           rows = sort_key vp_id (select_all (\<lambda>p. vp_customer_id p = duplicate_id) (vehicle_parties db));
           (db', _, repointed, kept) = fold (repoint_one_party now target_id actor_id gid) rows (db, target_keys, 0, [])
       in Inr (db', repointed, kept))"

definition repoint_earlier_merges ::
  "datetime \<Rightarrow> uuid \<Rightarrow> uuid \<Rightarrow> uuid option \<Rightarrow> uuid \<Rightarrow> 'a master_db_scheme \<Rightarrow> 'a master_db_scheme \<times> uuid list" where
  "repoint_earlier_merges now duplicate_id target_id actor_id gid db =
     (let names_d = (\<lambda>c. duplicate_of_customer_id c = Some duplicate_id \<and> group_id c = gid);
          earlier = sort_key cust_id (select_all names_d (customers db));
          parties = update_where (\<lambda>p. merged_into_customer_id p = Some duplicate_id
              \<and> customer_group (vp_customer_id p) db = Some gid)
            (\<lambda>p. p\<lparr>merged_into_customer_id := Some target_id\<rparr>) (vehicle_parties db);
          custs = update_where names_d (\<lambda>c. c\<lparr>duplicate_of_customer_id := Some target_id, cust_updated_by := actor_id,
            cust_version := cust_version c + 1\<rparr>) (customers db);
          audit = (\<lambda>c. record_audit_event now ''customer'' (cust_id c) (Some gid) ''merge_survivor_repointed'' actor_id
            (Some [(''duplicateOfCustomerId'', JUuid duplicate_id)]) (Some [(''duplicateOfCustomerId'', JUuid target_id)]) None)
      in (fold audit earlier (db\<lparr>vehicle_parties := parties, customers := custs\<rparr>), map cust_id earlier))"

text \<open>\<open>_repoint_contacts\<close>, one code for the three tables: the walk over the rows, then the flags.\<close>

fun repoint_rows ::
  "('a contact_channel_scheme \<Rightarrow> 'k) \<Rightarrow> uuid \<Rightarrow> uuid \<Rightarrow> 'k list \<Rightarrow> 'a contact_channel_scheme list
     \<Rightarrow> 'a contact_channel_scheme list \<times> nat \<times> nat" where
  "repoint_rows key duplicate_id target_id keys [] = ([], 0, 0)"
| "repoint_rows key duplicate_id target_id keys (r # rs) =
     (if ch_customer_id r \<noteq> duplicate_id
      then (let (rs', m, d) = repoint_rows key duplicate_id target_id keys rs in (r # rs', m, d))
      else if key r \<in> set keys
      then (let (rs', m, d) = repoint_rows key duplicate_id target_id keys rs in (rs', m, d + 1))
      else (let (rs', m, d) = repoint_rows key duplicate_id target_id (key r # keys) rs
            in (r\<lparr>ch_customer_id := target_id\<rparr> # rs', m + 1, d)))"

definition repoint_contacts ::
  "('a contact_channel_scheme \<Rightarrow> 't) \<Rightarrow> ('a contact_channel_scheme \<Rightarrow> 'k) \<Rightarrow> uuid \<Rightarrow> uuid
     \<Rightarrow> 'a contact_channel_scheme list \<Rightarrow> 'a contact_channel_scheme list \<times> nat \<times> nat" where
  "repoint_contacts type_of key duplicate_id target_id table =
     (let target_keys = map key (select_all (\<lambda>r. ch_customer_id r = target_id) table);
          (table', repointed, dropped) = repoint_rows key duplicate_id target_id target_keys table
      in if repointed > 0
         then (settle_groups type_of target_id
             (remdups (map type_of (select_all (\<lambda>r. ch_customer_id r = target_id) table'))) table', repointed, dropped)
         else (table', repointed, dropped))"

text \<open>External ids by system and tags by text: the survivor's own row wins.\<close>

fun repoint_keyed ::
  "('r \<Rightarrow> uuid) \<Rightarrow> (uuid \<Rightarrow> 'r \<Rightarrow> 'r) \<Rightarrow> ('r \<Rightarrow> 'k) \<Rightarrow> uuid \<Rightarrow> uuid \<Rightarrow> 'k list \<Rightarrow> 'r list \<Rightarrow> 'r list \<times> nat \<times> nat" where
  "repoint_keyed owner set_owner key duplicate_id target_id keys [] = ([], 0, 0)"
| "repoint_keyed owner set_owner key duplicate_id target_id keys (r # rs) =
     (if owner r \<noteq> duplicate_id
      then (let (rs', m, d) = repoint_keyed owner set_owner key duplicate_id target_id keys rs in (r # rs', m, d))
      else if key r \<in> set keys
      then (let (rs', m, d) = repoint_keyed owner set_owner key duplicate_id target_id keys rs in (rs', m, d + 1))
      else (let (rs', m, d) = repoint_keyed owner set_owner key duplicate_id target_id (key r # keys) rs
            in (set_owner target_id r # rs', m + 1, d)))"

definition repoint_external_ids ::
  "uuid \<Rightarrow> uuid \<Rightarrow> customer_external_id list \<Rightarrow> customer_external_id list \<times> nat \<times> nat" where
  "repoint_external_ids duplicate_id target_id table =
     repoint_keyed ext_customer_id (\<lambda>t r. r\<lparr>ext_customer_id := t\<rparr>) system_name duplicate_id target_id
       (map system_name (select_all (\<lambda>r. ext_customer_id r = target_id) table)) table"

definition repoint_customer_tags :: "uuid \<Rightarrow> uuid \<Rightarrow> customer_tag list \<Rightarrow> customer_tag list \<times> nat \<times> nat" where
  "repoint_customer_tags duplicate_id target_id table =
     repoint_keyed tag_customer_id (\<lambda>t r. r\<lparr>tag_customer_id := t\<rparr>) tag duplicate_id target_id
       (map tag (select_all (\<lambda>r. tag_customer_id r = target_id) table)) table"

definition repoint_customer_transactions :: "uuid \<Rightarrow> uuid \<Rightarrow> 'a master_db_scheme \<Rightarrow> 'a master_db_scheme \<times> nat" where
  "repoint_customer_transactions duplicate_id target_id db =
     (db\<lparr>transactions := update_where (\<lambda>t. txn_customer_id t = duplicate_id) (\<lambda>t. t\<lparr>txn_customer_id := target_id\<rparr>)
        (transactions db)\<rparr>,
      length (select_all (\<lambda>t. txn_customer_id t = duplicate_id) (transactions db)))"

definition address_key :: "customer_address \<Rightarrow> address_type \<times> string \<times> string \<times> string \<times> string" where
  "address_key a = (address_type a, address_street a, address_house_number a, address_postal_code a, address_country a)"

fun lifecycle_value :: "customer_lifecycle_status \<Rightarrow> string" where
  "lifecycle_value PROSPECT = ''prospect''" | "lifecycle_value ACTIVE = ''active''"
| "lifecycle_value INACTIVE = ''inactive''" | "lifecycle_value MERGED = ''merged''"
| "lifecycle_value DO_NOT_CONTACT = ''do_not_contact''"

definition customer_label_payload :: "customer \<Rightarrow> payload" where
  "customer_label_payload c =
     [(''customerId'', JUuid (cust_id c)), (''customerNumber'', JStr (customer_number c)),
      (''customerType'', JStr (case customer_type c of INDIVIDUAL \<Rightarrow> ''individual'' | BUSINESS \<Rightarrow> ''business'')),
      (''firstName'', json_opt JStr (first_name c)), (''lastName'', json_opt JStr (last_name c)),
      (''companyName'', json_opt JStr (company_name c))]"

definition merge_counts ::
  "uuid \<Rightarrow> nat \<times> uuid list \<Rightarrow> nat \<Rightarrow> nat \<times> nat \<Rightarrow> nat \<times> nat \<Rightarrow> nat \<times> nat \<Rightarrow> nat \<times> nat \<Rightarrow> nat \<times> nat \<Rightarrow> uuid list
     \<Rightarrow> payload" where
  "merge_counts target_id parties txns phones emails addresses ext_ids tags earlier =
     [(''lifecycleStatus'', JStr ''merged''), (''duplicateOfCustomerId'', JUuid target_id),
      (''vehiclePartiesRepointed'', JInt (int (fst parties))),
      (''vehiclePartiesKeptClosed'', JInt (int (length (snd parties)))),
      (''vehiclePartiesKeptClosedIds'', JList (map JUuid (snd parties))),
      (''transactionsRepointed'', JInt (int txns)),
      (''phonesRepointed'', JInt (int (fst phones))), (''phonesDropped'', JInt (int (snd phones))),
      (''emailsRepointed'', JInt (int (fst emails))), (''emailsDropped'', JInt (int (snd emails))),
      (''addressesRepointed'', JInt (int (fst addresses))), (''addressesDropped'', JInt (int (snd addresses))),
      (''externalIdsRepointed'', JInt (int (fst ext_ids))), (''externalIdsDropped'', JInt (int (snd ext_ids))),
      (''tagsRepointed'', JInt (int (fst tags))), (''tagsDropped'', JInt (int (snd tags))),
      (''earlierMergesRepointedIds'', JList (map JUuid earlier))]"

text \<open>The rows of the duplicate, in the order the merge moves them; the statuses are read twice.\<close>

definition merge_rows ::
  "datetime \<Rightarrow> customer \<Rightarrow> customer \<Rightarrow> uuid option \<Rightarrow> 'a master_db_scheme \<Rightarrow> ('a master_db_scheme \<times> payload) result" where
  "merge_rows now c target actor_id db =
     (let dup = cust_id c; tgt = cust_id target; gid = group_id c
      in bindR (repoint_vehicle_parties now dup tgt actor_id gid db) (\<lambda>(db1, moved, kept).
         let (db2, txns) = repoint_customer_transactions dup tgt db1;
             (phones, pm, pd) = repoint_contacts phone_type phone_e164 dup tgt (customer_phones db2);
             (emails, em, ed) = repoint_contacts email_type email_address dup tgt (customer_emails db2);
             (addresses, am, ad) = repoint_contacts address_type address_key dup tgt (customer_addresses db2);
             (exts, xm, xd) = repoint_external_ids dup tgt (customer_external_ids db2);
             (tags, tm, td) = repoint_customer_tags dup tgt (customer_tags db2);
             (db3, earlier) = repoint_earlier_merges now dup tgt actor_id gid
               (db2\<lparr>customer_phones := phones, customer_emails := emails, customer_addresses := addresses,
                    customer_external_ids := exts, customer_tags := tags\<rparr>)
         in Inr (db3, merge_counts tgt (moved, kept) txns (pm, pd) (em, ed) (am, ad) (xm, xd) (tm, td) earlier)))"

definition merge_keys_ok :: "'a master_db_scheme \<Rightarrow> bool" where
  "merge_keys_ok db \<longleftrightarrow> distinct (map party_key (vehicle_parties db)) \<and> distinct (map phone_key (customer_phones db))
     \<and> distinct (map email_key (customer_emails db))
     \<and> distinct (map (\<lambda>r. (ext_customer_id r, system_name r)) (customer_external_ids db))
     \<and> distinct (map (\<lambda>r. (tag_customer_id r, tag r)) (customer_tags db))"

text \<open>
  The transaction of a merge. After its commit the source lets Sales re-point the offers and
  contracts in a transaction of their own.
\<close>

definition merge_customer ::
  "datetime \<Rightarrow> customer \<Rightarrow> uuid \<Rightarrow> uuid option \<Rightarrow> 'a master_db_scheme \<Rightarrow> 'a master_db_scheme result" where
  "merge_customer now c target_id actor_id db =
     (if target_id = cust_id c then Inl (BadRequestError [(''reason'', JStr ''merge_into_self'')])
      else bindR (get_customer_or_404 (group_id c) target_id db) (\<lambda>target.
      if cust_lifecycle_status target = MERGED
      then Inl (ConflictError [(''reason'', JStr ''merge_target_merged''), (''duplicateOfCustomerId'', JUuid target_id)])
      else if cust_lifecycle_status c = MERGED
      then Inl (ConflictError [(''reason'', JStr ''customer_already_merged''), (''currentLifecycleStatus'', JStr ''merged'')])
      else bindR (merge_rows now c target actor_id db) (\<lambda>(db1, counts).
        let db2 = db1\<lparr>customers := update_where (\<lambda>r. cust_id r = cust_id c)
              (\<lambda>r. r\<lparr>cust_lifecycle_status := MERGED, duplicate_of_customer_id := Some target_id,
                     cust_updated_by := actor_id, cust_version := cust_version r + 1\<rparr>) (customers db1)\<rparr>;
            db3 = record_audit_event now ''customer'' (cust_id c) (Some (group_id c)) ''merge'' actor_id
              (Some [(''lifecycleStatus'', JStr (lifecycle_value (cust_lifecycle_status c))),
                (''duplicateOfCustomerId'', JNull)]) (Some counts) None db2;
            db4 = publish now (plain_event ''customer.merged'' (Some (group_id c)) ''customer'' ''customer'' (cust_id c)
              (AList.update ''duplicateOfCustomerId'' (JUuid target_id)
                (AList.update ''customerId'' (JUuid (cust_id c)) (customer_label_payload target)))) db3
        in if merge_keys_ok db4 then Inr db4
           else Inl (ConflictError [(''reason'', JStr ''merge_conflict_on_survivor'')]))))"

section \<open>One holder per role and group\<close>

definition party_group :: "'a master_db_scheme \<Rightarrow> vehicle_party \<Rightarrow> uuid option" where
  "party_group db p = customer_group (vp_customer_id p) db"

definition one_holder :: "datetime \<Rightarrow> 'a master_db_scheme \<Rightarrow> bool" where
  "one_holder now db \<longleftrightarrow> (\<forall>p \<in> set (vehicle_parties db). \<forall>q \<in> set (vehicle_parties db).
     is_open now (effective_to p) \<and> is_open now (effective_to q) \<and> vp_vehicle_id p = vp_vehicle_id q
     \<and> vp_role p = vp_role q \<and> party_group db p = party_group db q \<and> party_group db p \<noteq> None \<longrightarrow> p = q)"

definition parties_inv :: "datetime \<Rightarrow> 'a master_db_scheme \<Rightarrow> bool" where
  "parties_inv now db \<longleftrightarrow> one_holder now db \<and> distinct (map vp_id (vehicle_parties db))
     \<and> (\<forall>p \<in> set (vehicle_parties db). vp_id p < uuid_supply db)"

text \<open>
  The requests that write party rows, at the time they run. A party is patched or disconnected in
  the group of its customer, through whom the route found it.
\<close>

inductive party_step :: "datetime \<times> 'a master_db_scheme \<Rightarrow> datetime \<times> 'a master_db_scheme \<Rightarrow> bool" where
  allocate: "t \<le> now \<Longrightarrow> allocate_vehicle_party now vid cid role gid actor eff_from eff_to db = Inr (db', p)
    \<Longrightarrow> party_step (t, db) (now, db')"
| link: "t \<le> now \<Longrightarrow> create_customer_vehicle now c data actor db = Inr (db', p) \<Longrightarrow> party_step (t, db) (now, db')"
| patch: "t \<le> now \<Longrightarrow> p \<in> set (vehicle_parties db) \<Longrightarrow> party_group db p = Some gid
    \<Longrightarrow> update_customer_vehicle now (vp_id p) changes actor gid db = Inr (db', p') \<Longrightarrow> party_step (t, db) (now, db')"
| disconnect: "t \<le> now \<Longrightarrow> p \<in> set (vehicle_parties db) \<Longrightarrow> party_group db p = Some gid
    \<Longrightarrow> delete_customer_vehicle now (vp_id p) actor gid db = Inr db' \<Longrightarrow> party_step (t, db) (now, db')"
| refresh: "t \<le> now \<Longrightarrow> party_step (t, db) (now, fst (refresh_vehicle_party_labels now db))"
| merge: "t \<le> now \<Longrightarrow> select_one (\<lambda>r. cust_id r = cust_id c) (customers db) = Some c
    \<Longrightarrow> merge_customer now c target_id actor db = Inr db' \<Longrightarrow> party_step (t, db) (now, db')"

subsection \<open>Effects\<close>

lemma customer_group_cong:
  "customers db' = customers db \<Longrightarrow> customer_group cid db' = customer_group cid db"
  by (simp add: customer_group_def)

lemma record_audit_simps [simp]:
  "vehicle_parties (record_audit_event now a b c d e f g h db) = vehicle_parties db"
  "customers (record_audit_event now a b c d e f g h db) = customers db"
  "uuid_supply (record_audit_event now a b c d e f g h db) = uuid_supply db"
  by (simp_all add: record_audit_event_def)

lemma publish_party_simps [simp]:
  "vehicle_parties (publish now ev db) = vehicle_parties db"
  "customers (publish now ev db) = customers db"
  by (simp_all add: publish_eq)

lemma close_effect:
  "vehicle_parties (close_vehicle_party now p actor gid eff_to merged db) =
     update_where (\<lambda>r. vp_id r = vp_id p)
       (\<lambda>r. r\<lparr>effective_to := Some (case eff_to of Some t \<Rightarrow> t | None \<Rightarrow> now),
              merged_into_customer_id := (if merged \<noteq> None then merged else merged_into_customer_id r)\<rparr>)
       (vehicle_parties db)"
  "customers (close_vehicle_party now p actor gid eff_to merged db) = customers db"
  "uuid_supply db \<le> uuid_supply (close_vehicle_party now p actor gid eff_to merged db)"
  by (simp_all add: close_vehicle_party_def Let_def publish_eq supply_after_def split: option.split)

lemma same_merged: "r\<lparr>effective_to := x, merged_into_customer_id := merged_into_customer_id r\<rparr> = r\<lparr>effective_to := x\<rparr>"
  by (cases r) simp

lemma fold_close:
  "vehicle_parties (fold (\<lambda>p. close_vehicle_party now p actor gid None None) ps db) =
     map (\<lambda>r. if vp_id r \<in> vp_id ` set ps then r\<lparr>effective_to := Some now\<rparr> else r) (vehicle_parties db)
   \<and> customers (fold (\<lambda>p. close_vehicle_party now p actor gid None None) ps db) = customers db
   \<and> uuid_supply db \<le> uuid_supply (fold (\<lambda>p. close_vehicle_party now p actor gid None None) ps db)"
proof (induction ps arbitrary: db)
  case (Cons p ps)
  let ?d = "close_vehicle_party now p actor gid None None db"
  have "map (\<lambda>r. if vp_id r \<in> vp_id ` set ps then r\<lparr>effective_to := Some now\<rparr> else r) (vehicle_parties ?d)
      = map (\<lambda>r. if vp_id r \<in> vp_id ` set (p # ps) then r\<lparr>effective_to := Some now\<rparr> else r) (vehicle_parties db)"
    by (auto simp: close_effect update_where_def same_merged)
  moreover have "customers ?d = customers db" "uuid_supply db \<le> uuid_supply ?d" by (rule close_effect)+
  ultimately show ?case using Cons.IH [of ?d] by (auto intro: le_trans)
qed simp

lemma write_label_simps [simp]:
  "vp_id (write_vehicle_label now db p) = vp_id p" "vp_vehicle_id (write_vehicle_label now db p) = vp_vehicle_id p"
  "vp_customer_id (write_vehicle_label now db p) = vp_customer_id p" "vp_role (write_vehicle_label now db p) = vp_role p"
  "effective_from (write_vehicle_label now db p) = effective_from p"
  "effective_to (write_vehicle_label now db p) = effective_to p"
  "merged_into_customer_id (write_vehicle_label now db p) = merged_into_customer_id p"
  by (simp_all add: write_vehicle_label_def split: option.split)

lemma new_party_simps [simp]:
  "vp_id (new_vehicle_party now db pid vid cid role ef et) = pid"
  "vp_vehicle_id (new_vehicle_party now db pid vid cid role ef et) = vid"
  "vp_customer_id (new_vehicle_party now db pid vid cid role ef et) = cid"
  "vp_role (new_vehicle_party now db pid vid cid role ef et) = role"
  "effective_to (new_vehicle_party now db pid vid cid role ef et) = et"
  "effective_from (new_vehicle_party now db pid vid cid role ef et) = ef"
  by (simp_all add: new_vehicle_party_def)

lemma insert_party_Inr:
  "insert_party p db = Inr db' \<Longrightarrow> db' = db\<lparr>vehicle_parties := vehicle_parties db @ [p]\<rparr>"
  by (simp add: insert_party_def split: if_splits)

lemma open_effect:
  assumes "open_vehicle_party now vid cid role gid actor ef et incumbents db = Inr (db', p)"
  shows "vehicle_parties db' = map (\<lambda>r. if vp_id r \<in> vp_id ` set incumbents then r\<lparr>effective_to := Some now\<rparr> else r)
      (vehicle_parties db) @ [p]"
    "customers db' = customers db" "uuid_supply db \<le> vp_id p" "vp_id p < uuid_supply db'"
    "vp_vehicle_id p = vid" "vp_customer_id p = cid" "vp_role p = role" "effective_to p = et"
proof -
  let ?d = "fold (\<lambda>p. close_vehicle_party now p actor gid None None) incumbents db"
  note fc = fold_close [of now actor gid incumbents db]
  obtain db3 ev au where p: "p = new_vehicle_party now (?d\<lparr>uuid_supply := uuid_supply ?d + 1\<rparr>) (uuid_supply ?d) vid cid role ef et"
    and ins: "insert_party p (?d\<lparr>uuid_supply := uuid_supply ?d + 1\<rparr>) = Inr db3"
    and db': "db' = publish now ev (record_audit_event now ''customer'' cid (Some gid) ''vehicle_party_add'' actor None au None db3)"
    using assms unfolding open_vehicle_party_def draw_uuid_def Let_def by (auto simp: bindR_Inr_iff)
  note i = insert_party_Inr [OF ins]
  show "vehicle_parties db' = map (\<lambda>r. if vp_id r \<in> vp_id ` set incumbents then r\<lparr>effective_to := Some now\<rparr> else r)
      (vehicle_parties db) @ [p]" "customers db' = customers db"
    using fc unfolding db' i by simp_all
  have "uuid_supply ?d + 1 \<le> uuid_supply db'" 
    unfolding db' i by (simp add: publish_eq supply_after_def split: option.split)
  then show "uuid_supply db \<le> vp_id p" "vp_id p < uuid_supply db'" using fc unfolding p by simp_all
  show "vp_vehicle_id p = vid" "vp_customer_id p = cid" "vp_role p = role" "effective_to p = et"
    unfolding p by simp_all
qed

subsection \<open>The invariant\<close>

lemma is_open_earlier: "is_open now x \<Longrightarrow> t \<le> now \<Longrightarrow> is_open t x"
  by (auto simp: is_open_def split: option.splits)

lemma not_open_now [simp]: "\<not> is_open now (Some now)"
  by (simp add: is_open_def)

lemma parties_inv_later: "parties_inv t db \<Longrightarrow> t \<le> now \<Longrightarrow> parties_inv now db"
  unfolding parties_inv_def one_holder_def by (blast intro: is_open_earlier)

text \<open>A row and what a request made of it: the same role on the same car in the same group, open only if it was.\<close>

definition party_refines ::
  "datetime \<Rightarrow> 'a master_db_scheme \<Rightarrow> 'b master_db_scheme \<Rightarrow> vehicle_party \<Rightarrow> vehicle_party \<Rightarrow> bool" where
  "party_refines now db db' p p' \<longleftrightarrow> vp_id p' = vp_id p \<and> vp_vehicle_id p' = vp_vehicle_id p \<and> vp_role p' = vp_role p
     \<and> party_group db' p' = party_group db p \<and> (is_open now (effective_to p') \<longrightarrow> is_open now (effective_to p))"

lemma parties_inv_refine:
  assumes inv: "parties_inv now db" and rel: "list_all2 (party_refines now db db') (vehicle_parties db) (vehicle_parties db')"
    and grows: "uuid_supply db \<le> uuid_supply db'"
  shows "parties_inv now db'"
proof -
  have ids: "map vp_id (vehicle_parties db') = map vp_id (vehicle_parties db)"
    using rel by (induction rule: list_all2_induct) (simp_all add: party_refines_def)
  have pre: "\<exists>p \<in> set (vehicle_parties db). party_refines now db db' p p'" if "p' \<in> set (vehicle_parties db')" for p'
    using rel that by (induction rule: list_all2_induct) auto
  have dist: "distinct (map vp_id (vehicle_parties db'))" using inv ids by (simp add: parties_inv_def)
  have "p' = q'" if p': "p' \<in> set (vehicle_parties db')" and q': "q' \<in> set (vehicle_parties db')"
    and hold: "is_open now (effective_to p') \<and> is_open now (effective_to q') \<and> vp_vehicle_id p' = vp_vehicle_id q'
      \<and> vp_role p' = vp_role q' \<and> party_group db' p' = party_group db' q' \<and> party_group db' p' \<noteq> None" for p' q'
  proof -
    obtain p q where pq: "p \<in> set (vehicle_parties db)" "party_refines now db db' p p'"
      "q \<in> set (vehicle_parties db)" "party_refines now db db' q q'" using pre p' q' by meson
    then have "p = q" using inv hold unfolding parties_inv_def one_holder_def party_refines_def by metis
    then have "vp_id p' = vp_id q'" using pq by (simp add: party_refines_def)
    then show ?thesis using distinct_key_unique [OF dist p' q'] by blast
  qed
  then have "one_holder now db'" unfolding one_holder_def by blast
  moreover have "\<forall>i \<in> set (map vp_id (vehicle_parties db')). i < uuid_supply db'"
    unfolding ids using inv grows by (auto simp: parties_inv_def intro: less_le_trans)
  then have "\<forall>p \<in> set (vehicle_parties db'). vp_id p < uuid_supply db'" by simp
  ultimately show ?thesis using dist unfolding parties_inv_def by blast
qed

lemma parties_inv_map:
  assumes "parties_inv now db" "vehicle_parties db' = map f (vehicle_parties db)" "uuid_supply db \<le> uuid_supply db'"
    and "\<And>p. p \<in> set (vehicle_parties db) \<Longrightarrow> party_refines now db db' p (f p)"
  shows "parties_inv now db'"
  by (rule parties_inv_refine [OF assms(1) _ assms(3)]) (use assms(2,4) in \<open>auto simp: list_all2_map2 list_all2_same\<close>)

lemma parties_inv_add:
  assumes inv: "parties_inv now db" and eq: "vehicle_parties db' = vehicle_parties db @ [p]"
    and cust: "customers db' = customers db" and fresh: "uuid_supply db \<le> vp_id p" "vp_id p < uuid_supply db'"
    and free: "\<And>q. is_open now (effective_to p) \<Longrightarrow> party_group db p \<noteq> None \<Longrightarrow> q \<in> set (vehicle_parties db)
      \<Longrightarrow> is_open now (effective_to q) \<Longrightarrow> vp_vehicle_id q = vp_vehicle_id p \<Longrightarrow> vp_role q = vp_role p
      \<Longrightarrow> party_group db q = party_group db p \<Longrightarrow> False"
  shows "parties_inv now db'"
proof -
  have group: "party_group db' q = party_group db q" for q by (simp add: party_group_def customer_group_cong [OF cust])
  have "vp_id p \<notin> set (map vp_id (vehicle_parties db))" using inv fresh(1) by (force simp: parties_inv_def)
  then have "distinct (map vp_id (vehicle_parties db'))" using inv unfolding eq parties_inv_def by simp
  moreover have "\<forall>q \<in> set (vehicle_parties db'). vp_id q < uuid_supply db'"
    using inv fresh unfolding eq parties_inv_def by fastforce
  moreover have "one_holder now db'"
    unfolding one_holder_def group
  proof (intro ballI impI)
    fix a b assume a: "a \<in> set (vehicle_parties db')" and b: "b \<in> set (vehicle_parties db')"
      and hold: "is_open now (effective_to a) \<and> is_open now (effective_to b) \<and> vp_vehicle_id a = vp_vehicle_id b
        \<and> vp_role a = vp_role b \<and> party_group db a = party_group db b \<and> party_group db a \<noteq> None"
    have "a \<in> set (vehicle_parties db) \<or> a = p" "b \<in> set (vehicle_parties db) \<or> b = p" using a b unfolding eq by auto
    then consider "a \<in> set (vehicle_parties db)" "b \<in> set (vehicle_parties db)" | "a = p" "b = p"
      | "a = p" "b \<in> set (vehicle_parties db)" | "b = p" "a \<in> set (vehicle_parties db)" by blast
    then show "a = b"
    proof cases
      case 1
      then show ?thesis using inv hold unfolding parties_inv_def one_holder_def by blast
    next
      case 3
      have False using free [of b] 3 hold by metis
      then show ?thesis ..
    next
      case 4
      have False using free [of a] 4 hold by metis
      then show ?thesis ..
    qed blast
  qed
  ultimately show ?thesis unfolding parties_inv_def by blast
qed

lemma party_unique:
  "parties_inv now db \<Longrightarrow> p \<in> set (vehicle_parties db) \<Longrightarrow> q \<in> set (vehicle_parties db) \<Longrightarrow> vp_id p = vp_id q \<Longrightarrow> p = q"
  unfolding parties_inv_def by (blast intro: distinct_key_unique)

lemma save_simps [simp]:
  "customers (save_party p db) = customers db" "uuid_supply (save_party p db) = uuid_supply db"
  "vehicle_parties (save_party p db) = map (\<lambda>r. if vp_id r = vp_id p then p else r) (vehicle_parties db)"
  by (simp_all add: save_party_def update_where_def)

lemma save_label_inv:
  assumes "parties_inv now db" "p \<in> set (vehicle_parties db)"
  shows "parties_inv now (save_party (write_vehicle_label now db p) db)"
proof (rule parties_inv_map [OF assms(1)])
  let ?f = "\<lambda>r. if vp_id r = vp_id (write_vehicle_label now db p) then write_vehicle_label now db p else r"
  show "vehicle_parties (save_party (write_vehicle_label now db p) db) = map ?f (vehicle_parties db)" by (rule save_simps)
  fix r assume "r \<in> set (vehicle_parties db)"
  then have "vp_id r = vp_id p \<Longrightarrow> r = p" using party_unique [OF assms(1) _ assms(2)] by blast
  then show "party_refines now db (save_party (write_vehicle_label now db p) db) r (?f r)"
    by (cases "vp_id r = vp_id p") (simp_all add: party_refines_def party_group_def customer_group_def)
qed simp

lemma lock_party_inv:
  assumes "lock_party now i db = Inr (db', p)" "parties_inv now db"
  shows "parties_inv now db'" "p \<in> set (vehicle_parties db')" "vp_id p = i" "customers db' = customers db"
    "\<exists>q \<in> set (vehicle_parties db). vp_id q = i \<and> vp_customer_id p = vp_customer_id q"
    "uuid_supply db' = uuid_supply db"
proof -
  obtain q where q: "select_one (\<lambda>p. vp_id p = i) (vehicle_parties db) = Some q"
    using assms(1) by (auto simp: lock_party_def split: option.splits)
  note q' = select_one_SomeD [OF q]
  let ?q = "write_vehicle_label now db q"
  have or: "db' = save_party ?q db \<and> p = ?q \<or> db' = db \<and> p = q"
    using assms(1) q by (auto simp: lock_party_def split: if_splits)
  show "parties_inv now db'" using or save_label_inv [OF assms(2) q'(1)] assms(2) by blast
  have "?q \<in> set (vehicle_parties (save_party ?q db))" using q'(1) by (simp add: image_iff) (metis write_label_simps(1))
  then show "p \<in> set (vehicle_parties db')" using or q'(1) by blast
  show "vp_id p = i" "customers db' = customers db" "uuid_supply db' = uuid_supply db"
    "\<exists>q \<in> set (vehicle_parties db). vp_id q = i \<and> vp_customer_id p = vp_customer_id q"
    using or q' by auto
qed

lemma in_open_holders:
  "p \<in> set (open_holders_in_group now vid role gid excl db) \<longleftrightarrow> p \<in> set (vehicle_parties db) \<and> vp_vehicle_id p = vid
     \<and> vp_role p = role \<and> party_group db p = Some gid \<and> is_open now (effective_to p) \<and> Some (vp_id p) \<noteq> excl"
  by (auto simp: open_holders_in_group_def party_group_def)

lemma close_some_inv:
  assumes "parties_inv now db"
  shows "parties_inv now (db\<lparr>vehicle_parties :=
    map (\<lambda>r. if vp_id r \<in> I then r\<lparr>effective_to := Some now\<rparr> else r) (vehicle_parties db)\<rparr>)"
  by (rule parties_inv_map [OF assms, where f = "\<lambda>r. if vp_id r \<in> I then r\<lparr>effective_to := Some now\<rparr> else r"])
    (simp_all add: party_refines_def party_group_def customer_group_def)

lemma open_inv:
  assumes op: "open_vehicle_party now vid cid role gid actor ef et (open_holders_in_group now vid role gid None db) db
      = Inr (db', p)"
    and inv: "parties_inv now db" and group: "customer_group cid db = Some gid"
  shows "parties_inv now db'"
proof -
  let ?I = "vp_id ` set (open_holders_in_group now vid role gid None db)"
  let ?d = "db\<lparr>vehicle_parties := map (\<lambda>r. if vp_id r \<in> ?I then r\<lparr>effective_to := Some now\<rparr> else r) (vehicle_parties db)\<rparr>"
  note eff = open_effect [OF op]
  show ?thesis
  proof (rule parties_inv_add [OF close_some_inv [OF inv, of ?I]])
    show "vehicle_parties db' = vehicle_parties ?d @ [p]" "customers db' = customers ?d"
      "uuid_supply ?d \<le> vp_id p" "vp_id p < uuid_supply db'" using eff by simp_all
    fix q assume q: "q \<in> set (vehicle_parties ?d)" "is_open now (effective_to q)" "vp_vehicle_id q = vp_vehicle_id p"
      "vp_role q = vp_role p" "party_group ?d q = party_group ?d p"
    obtain r where r: "r \<in> set (vehicle_parties db)" "q = (if vp_id r \<in> ?I then r\<lparr>effective_to := Some now\<rparr> else r)"
      using q(1) by auto
    have "vp_id r \<notin> ?I" using q(2) r(2) by auto
    then have "q = r" using r(2) by simp
    then have "r \<in> set (open_holders_in_group now vid role gid None db)"
      unfolding in_open_holders using q r(1) eff group by (simp add: party_group_def customer_group_def)
    then show False using \<open>vp_id r \<notin> ?I\<close> by blast
  qed
qed

lemma get_customer_group:
  "get_customer_or_404 gid cid db = Inr c \<Longrightarrow> distinct (map cust_id (customers db)) \<Longrightarrow> customer_group cid db = Some gid"
proof -
  assume g: "get_customer_or_404 gid cid db = Inr c" and d: "distinct (map cust_id (customers db))"
  from g have "select_one (\<lambda>x. cust_id x = cid \<and> group_id x = gid) (customers db) = Some c"
    by (auto simp: get_customer_or_404_def split: option.splits)
  from select_one_SomeD [OF this] have "c \<in> set (customers db)" "cust_id c = cid" "group_id c = gid" by simp_all
  then show ?thesis using select_one_key [OF d, of c] by (simp add: customer_group_def)
qed

lemma allocate_cases:
  assumes "allocate_vehicle_party now vid cid role gid actor ef et db = Inr (db', p)"
    and dist: "distinct (map cust_id (customers db))"
  obtains (kept) q where "q \<in> set (vehicle_parties db)" "vp_customer_id q = cid" "vp_vehicle_id q = vid" "vp_role q = role"
      "is_open now (effective_to q)" "p = q \<and> db' = db \<or> p = write_vehicle_label now db q \<and> db' = save_party p db"
      "customer_group cid db = Some gid"
    | (opened) start where "open_vehicle_party now vid cid role gid actor start et
        (open_holders_in_group now vid role gid None db) db = Inr (db', p)" "customer_group cid db = Some gid"
proof -
  let ?h = "open_holders_in_group now vid role gid None db"
  obtain c where c: "get_customer_or_404 gid cid db = Inr c" "refuse_merged_customer cid db = Inr ()"
    and rest: "(if et = None \<and> length ?h = 1 \<and> vp_customer_id (hd ?h) = cid
        then (if vehicle_label_refreshed_at (hd ?h) = None
              then Inr (save_party (write_vehicle_label now db (hd ?h)) db, write_vehicle_label now db (hd ?h))
              else Inr (db, hd ?h))
        else open_vehicle_party now vid cid role gid actor (case ef of Some t \<Rightarrow> t | None \<Rightarrow> now) et ?h db) = Inr (db', p)"
    using assms(1) unfolding allocate_vehicle_party_def Let_def by (auto simp: bindR_Inr_iff)
  note group = get_customer_group [OF c(1) dist]
  show thesis
  proof (cases "et = None \<and> length ?h = 1 \<and> vp_customer_id (hd ?h) = cid")
    case True
    then have "hd ?h \<in> set ?h" by (cases ?h) auto
    then show thesis using kept [of "hd ?h"] True rest group unfolding in_open_holders by (auto split: if_splits)
  next
    case False
    have "open_vehicle_party now vid cid role gid actor (case ef of Some t \<Rightarrow> t | None \<Rightarrow> now) et ?h db = Inr (db', p)"
      using rest by (simp only: if_not_P [OF False])
    then show thesis using group by (rule opened)
  qed
qed

lemma allocate_inv:
  assumes "allocate_vehicle_party now vid cid role gid actor ef et db = Inr (db', p)" "parties_inv now db"
    "distinct (map cust_id (customers db))"
  shows "parties_inv now db'" "customers db' = customers db"
proof -
  show "parties_inv now db'"
    using assms(1,3)
  proof (cases rule: allocate_cases)
    case (kept q)
    then show ?thesis using save_label_inv [OF assms(2) kept(1)] assms(2) by auto
  next
    case (opened start)
    then show ?thesis using open_inv [OF opened(1) assms(2)] by blast
  qed
  show "customers db' = customers db"
    using assms(1,3) by (cases rule: allocate_cases) (auto dest: open_effect(2))
qed

lemma link_inv:
  assumes "create_customer_vehicle now c data actor db = Inr (db', p)" "parties_inv now db"
    "distinct (map cust_id (customers db))"
  shows "parties_inv now db'" "customers db' = customers db"
proof -
  let ?start = "case cv_effective_from data of Some t \<Rightarrow> t | None \<Rightarrow> now"
  have both: "parties_inv now db' \<and> customers db' = customers db"
  proof (cases "is_open now (cv_effective_to data)")
    case True
    then obtain vid where al: "allocate_vehicle_party now vid (cust_id c) (cv_role data) (group_id c) actor
          (Some ?start) (cv_effective_to data) db = Inr (db', p)"
      using assms(1) unfolding create_customer_vehicle_def Let_def by (auto simp: bindR_Inr_iff)
    then show ?thesis using allocate_inv [OF al assms(2,3)] by blast
  next
    case False
    then obtain vid db2 ev au where p: "p = new_vehicle_party now (db\<lparr>uuid_supply := uuid_supply db + 1\<rparr>) (uuid_supply db)
        vid (cust_id c) (cv_role data) ?start (cv_effective_to data)"
      and ins: "insert_party p (db\<lparr>uuid_supply := uuid_supply db + 1\<rparr>) = Inr db2"
      and db': "db' = publish now ev (record_audit_event now ''customer'' (cust_id c) (Some (group_id c))
        ''vehicle_party_add'' actor None au None db2)"
      using assms(1) unfolding create_customer_vehicle_def Let_def by (auto simp: bindR_Inr_iff draw_uuid_def)
    note i = insert_party_Inr [OF ins]
    have "parties_inv now db'"
    proof (rule parties_inv_add [OF assms(2)])
      show "vehicle_parties db' = vehicle_parties db @ [p]" "customers db' = customers db"
        "uuid_supply db \<le> vp_id p" "vp_id p < uuid_supply db'"
        unfolding db' i p by (simp_all add: publish_eq supply_after_def split: option.split)
      assume "is_open now (effective_to p)"
      then show False using False unfolding p by simp
    qed
    then show ?thesis unfolding db' i by simp
  qed
  then show "parties_inv now db'" "customers db' = customers db" by blast+
qed

lemma party_group_update [simp]:
  "party_group db (p\<lparr>effective_from := f\<rparr>) = party_group db p" "party_group db (p\<lparr>effective_to := t\<rparr>) = party_group db p"
  "party_group db (p\<lparr>merged_into_customer_id := m\<rparr>) = party_group db p"
  by (simp_all add: party_group_def)

lemma patch_table_inv:
  assumes inv: "parties_inv now db" and p: "p \<in> set (vehicle_parties db)" and gid: "party_group db p = Some gid"
    and others: "others = (if holds then open_holders_in_group now (vp_vehicle_id p) (vp_role p) gid (Some (vp_id p)) db else [])"
    and quiet: "\<not> holds \<Longrightarrow> is_open now et \<Longrightarrow> is_open now (effective_to p)"
    and cust: "customers db' = customers db" and supply_le: "uuid_supply db \<le> uuid_supply db'"
    and table: "vehicle_parties db' = map (\<lambda>r. if vp_id r \<in> vp_id ` set others then r\<lparr>effective_to := Some now\<rparr> else r)
      (map (\<lambda>r. if vp_id r = vp_id p then p\<lparr>effective_from := ef, effective_to := et\<rparr> else r) (vehicle_parties db))"
  shows "parties_inv now db'"
proof -
  let ?g = "\<lambda>r. if vp_id r = vp_id p then p\<lparr>effective_from := ef, effective_to := et\<rparr>
    else if vp_id r \<in> vp_id ` set others then r\<lparr>effective_to := Some now\<rparr> else r"
  have notin: "vp_id p \<notin> vp_id ` set others" unfolding others by (auto simp: in_open_holders)
  have table': "vehicle_parties db' = map ?g (vehicle_parties db)" unfolding table using notin by auto
  have same: "r = p" if "r \<in> set (vehicle_parties db)" "vp_id r = vp_id p" for r using party_unique [OF inv that(1) p that(2)] .
  have grp: "party_group db' q = party_group db q" for q by (simp add: party_group_def customer_group_cong [OF cust])
  show ?thesis
  proof (cases holds)
    case False
    show ?thesis
    proof (rule parties_inv_map [OF inv table' supply_le])
      fix r assume r: "r \<in> set (vehicle_parties db)"
      show "party_refines now db db' r (?g r)"
      proof (cases "vp_id r = vp_id p")
        case True
        then show ?thesis using same [OF r] quiet [OF False] unfolding party_refines_def grp by simp
      next
        case ne: False
        then show ?thesis unfolding party_refines_def grp others using False by simp
      qed
    qed
  next
    case True
    have ids: "map vp_id (vehicle_parties db') = map vp_id (vehicle_parties db)" unfolding table' by (simp add: comp_def)
    have below: "\<forall>i \<in> set (map vp_id (vehicle_parties db')). i < uuid_supply db'"
      unfolding ids using inv supply_le by (auto simp: parties_inv_def intro: less_le_trans)
    have alone: False if r: "r \<in> set (vehicle_parties db)" "vp_id r \<noteq> vp_id p" and hold: "is_open now (effective_to (?g r))"
      "vp_vehicle_id r = vp_vehicle_id p" "vp_role r = vp_role p" "party_group db r = party_group db p" for r
    proof -
      have "vp_id r \<notin> vp_id ` set others" using r(2) hold(1) by auto
      moreover have "r \<in> set others" unfolding others using r hold gid True calculation by (simp add: in_open_holders)
      ultimately show False by blast
    qed
    have one: "?g a = ?g b" if a: "a \<in> set (vehicle_parties db)" and b: "b \<in> set (vehicle_parties db)"
      and hold: "is_open now (effective_to (?g a)) \<and> is_open now (effective_to (?g b))
        \<and> vp_vehicle_id (?g a) = vp_vehicle_id (?g b) \<and> vp_role (?g a) = vp_role (?g b)
        \<and> party_group db (?g a) = party_group db (?g b) \<and> party_group db (?g a) \<noteq> None" for a b
    proof -
      have frame: "vp_vehicle_id (?g r) = vp_vehicle_id r" "vp_role (?g r) = vp_role r" "party_group db (?g r) = party_group db r"
        if "r \<in> set (vehicle_parties db)" for r using same [OF that] by (auto simp: party_group_def)
      consider "vp_id a = vp_id p" "vp_id b = vp_id p" | "vp_id a = vp_id p" "vp_id b \<noteq> vp_id p"
        | "vp_id a \<noteq> vp_id p" "vp_id b = vp_id p" | "vp_id a \<noteq> vp_id p" "vp_id b \<noteq> vp_id p" by blast
      then show ?thesis
      proof cases
        case 2
        then show ?thesis using alone [OF b] same [OF a] hold frame [OF a] frame [OF b] by metis
      next
        case 3
        then show ?thesis using alone [OF a] same [OF b] hold frame [OF a] frame [OF b] by metis
      next
        case 4
        then have "is_open now (effective_to a)" "is_open now (effective_to b)" using hold by (auto split: if_splits)
        then have "a = b" using inv a b hold frame [OF a] frame [OF b] unfolding parties_inv_def one_holder_def by metis
        then show ?thesis by simp
      qed simp
    qed
    have "one_holder now db'" unfolding one_holder_def grp
    proof (intro ballI impI)
      fix a' b' assume "a' \<in> set (vehicle_parties db')" "b' \<in> set (vehicle_parties db')"
      then obtain a b where "a \<in> set (vehicle_parties db)" "a' = ?g a" "b \<in> set (vehicle_parties db)" "b' = ?g b"
        unfolding table' by auto
      moreover assume "is_open now (effective_to a') \<and> is_open now (effective_to b') \<and> vp_vehicle_id a' = vp_vehicle_id b'
        \<and> vp_role a' = vp_role b' \<and> party_group db a' = party_group db b' \<and> party_group db a' \<noteq> None"
      ultimately show "a' = b'" using one by blast
    qed
    moreover have "\<forall>r \<in> set (vehicle_parties db'). vp_id r < uuid_supply db'" using below by simp
    ultimately show ?thesis using inv ids unfolding parties_inv_def by simp
  qed
qed

lemma patch_inv:
  assumes up: "update_customer_vehicle now i changes actor gid db = Inr (db', p')" and inv: "parties_inv now db"
    and grp: "p \<in> set (vehicle_parties db)" "vp_id p = i" "party_group db p = Some gid"
  shows "parties_inv now db'" "customers db' = customers db"
proof -
  let ?holds = "case cu_effective_to changes of Some e \<Rightarrow> is_open now e | None \<Rightarrow> False"
  obtain db1 q f where lock: "lock_party now i db = Inr (db1, q)"
    and wr: "write_party_period now q f (patched (cu_effective_to changes) (effective_to q)) ?holds
      (is_open now (effective_to q) \<and> cu_effective_to changes \<noteq> None \<and> \<not> ?holds) actor gid db1 = Inr (db', p')"
    using up unfolding update_customer_vehicle_def Let_def by (auto simp: bindR_Inr_iff split: option.splits if_splits)
  note l = lock_party_inv [OF lock inv]
  have q: "party_group db1 q = Some gid"
    using l(3-5) grp party_unique [OF inv] by (metis customer_group_cong party_group_def)
  let ?et = "patched (cu_effective_to changes) (effective_to q)"
  let ?others = "if ?holds then open_holders_in_group now (vp_vehicle_id q) (vp_role q) gid (Some (vp_id q)) db1 else []"
  let ?d = "fold (\<lambda>p. close_vehicle_party now p actor gid None None) ?others
    (save_party (q\<lparr>effective_from := f, effective_to := ?et\<rparr>) db1)"
  note fc = fold_close [of now actor gid ?others "save_party (q\<lparr>effective_from := f, effective_to := ?et\<rparr>) db1"]
  have d: "vehicle_parties db' = vehicle_parties ?d \<and> customers db' = customers ?d \<and> uuid_supply ?d \<le> uuid_supply db'"
    using wr unfolding write_party_period_def Let_def
    by (auto simp: publish_eq supply_after_def split: if_splits option.splits)
  show cust: "customers db' = customers db" using d fc l(4) by simp
  show "parties_inv now db'"
  proof (rule patch_table_inv [OF l(1,2) q, of ?others ?holds ?et db' f])
    show "?others = (if ?holds then open_holders_in_group now (vp_vehicle_id q) (vp_role q) gid (Some (vp_id q)) db1 else [])"
      by (rule refl)
    show "customers db' = customers db1" using cust l(4) by simp
    show "uuid_supply db1 \<le> uuid_supply db'" using d fc by simp
    show "vehicle_parties db' = map (\<lambda>r. if vp_id r \<in> vp_id ` set ?others then r\<lparr>effective_to := Some now\<rparr> else r)
      (map (\<lambda>r. if vp_id r = vp_id q then q\<lparr>effective_from := f, effective_to := ?et\<rparr> else r) (vehicle_parties db1))"
      using d fc by simp
    assume "\<not> ?holds" "is_open now ?et"
    then show "is_open now (effective_to q)" by (auto split: option.splits)
  qed
qed

lemma disconnect_inv:
  assumes del: "delete_customer_vehicle now i actor gid db = Inr db'" and inv: "parties_inv now db"
  shows "parties_inv now db'" "customers db' = customers db"
proof -
  obtain db1 p where lock: "lock_party now i db = Inr (db1, p)"
    and or: "db' = db \<or> db' = close_vehicle_party now p actor gid None None db1"
    using del by (auto simp: delete_customer_vehicle_def bindR_Inr_iff split: if_splits)
  note l = lock_party_inv [OF lock inv]
  note fc = fold_close [of now actor gid "[p]" db1]
  have "parties_inv now (close_vehicle_party now p actor gid None None db1)"
    by (rule parties_inv_map [OF l(1), where f = "\<lambda>r. if vp_id r \<in> vp_id ` set [p] then r\<lparr>effective_to := Some now\<rparr> else r"])
      (use fc l in \<open>auto simp: party_refines_def party_group_def customer_group_def\<close>)
  then show "parties_inv now db'" "customers db' = customers db" using or inv l(4) fc by auto
qed

lemma refresh_inv:
  assumes "parties_inv now db"
  shows "parties_inv now (fst (refresh_vehicle_party_labels now db))"
  by (rule parties_inv_map [OF assms, where f = "write_vehicle_label now db"])
    (simp_all add: refresh_vehicle_party_labels_def party_refines_def party_group_def customer_group_def)

subsection \<open>What a merge does to the party rows\<close>

definition merge_refines :: "datetime \<Rightarrow> uuid \<Rightarrow> uuid \<Rightarrow> vehicle_party \<Rightarrow> vehicle_party \<Rightarrow> bool" where
  "merge_refines now dup tgt p p' \<longleftrightarrow> vp_id p' = vp_id p \<and> vp_vehicle_id p' = vp_vehicle_id p \<and> vp_role p' = vp_role p
     \<and> effective_from p' = effective_from p \<and> (is_open now (effective_to p') \<longrightarrow> is_open now (effective_to p))
     \<and> (vp_customer_id p' = vp_customer_id p \<or> vp_customer_id p = dup \<and> vp_customer_id p' = tgt)"

text \<open>A row the merge has dealt with: on the survivor, or kept, marked and no longer open unless its start is to come.\<close>

definition merge_done :: "datetime \<Rightarrow> uuid \<Rightarrow> vehicle_party \<Rightarrow> bool" where
  "merge_done now tgt p \<longleftrightarrow> vp_customer_id p = tgt
     \<or> merged_into_customer_id p = Some tgt \<and> (is_open now (effective_to p) \<longrightarrow> now < effective_from p)"

lemma merge_refines_refl [simp]: "merge_refines now dup tgt p p"
  by (simp add: merge_refines_def)

lemma merge_refines_trans:
  assumes "merge_refines now dup tgt p q" "merge_refines now dup tgt q r" "dup \<noteq> tgt"
  shows "merge_refines now dup tgt p r"
  using assms unfolding merge_refines_def by (elim conjE) (intro conjI; metis)

lemma list_all2_merge_trans:
  assumes "list_all2 (merge_refines now dup tgt) xs ys" "list_all2 (merge_refines now dup tgt) ys zs" "dup \<noteq> tgt"
  shows "list_all2 (merge_refines now dup tgt) xs zs"
  by (rule list_all2_trans [OF _ assms(1,2)]) (rule merge_refines_trans [OF _ _ assms(3)])

lemma repoint_one_effect:
  assumes step: "repoint_one_party now tgt actor gid party (db, acc) = (db', acc')"
    and party: "party \<in> set (vehicle_parties db)" "vp_customer_id party = dup"
    and dist: "distinct (map vp_id (vehicle_parties db))"
  shows "list_all2 (merge_refines now dup tgt) (vehicle_parties db) (vehicle_parties db')"
    "customers db' = customers db" "uuid_supply db \<le> uuid_supply db'"
    "\<And>p. p \<in> set (vehicle_parties db') \<Longrightarrow> vp_id p = vp_id party \<and> merge_done now tgt p
      \<or> vp_id p \<noteq> vp_id party \<and> p \<in> set (vehicle_parties db)"
    "\<And>p. p \<in> set (vehicle_parties db) \<Longrightarrow> vp_id p \<noteq> vp_id party \<Longrightarrow> p \<in> set (vehicle_parties db')"
proof -
  obtain keys m k where acc: "acc = (keys, m, k)" by (cases acc)
  have "\<exists>h. vehicle_parties db' = update_where (\<lambda>r. vp_id r = vp_id party) h (vehicle_parties db)
      \<and> customers db' = customers db \<and> uuid_supply db \<le> uuid_supply db'
      \<and> merge_refines now dup tgt party (h party) \<and> merge_done now tgt (h party)"
  proof -
    consider (mark) "role_key party \<in> set keys" "\<not> is_open now (effective_to party)"
      | (close) "role_key party \<in> set keys" "is_open now (effective_to party)"
      | (move) "role_key party \<notin> set keys" by blast
    then show ?thesis
    proof cases
      case mark
      then show ?thesis using step unfolding repoint_one_party_def acc
        by (intro exI [of _ "\<lambda>r. r\<lparr>merged_into_customer_id := Some tgt\<rparr>"]) (auto simp: merge_refines_def merge_done_def)
    next
      case close
      then have db': "db' = close_vehicle_party now party actor gid (Some (effective_from party)) (Some tgt) db"
        using step unfolding repoint_one_party_def acc by simp
      show ?thesis unfolding db' using close
        by (intro exI [of _ "\<lambda>r. r\<lparr>effective_to := Some (effective_from party), merged_into_customer_id := Some tgt\<rparr>"])
          (auto simp: close_effect merge_refines_def merge_done_def is_open_def)
    next
      case move
      then show ?thesis using step party(2) unfolding repoint_one_party_def acc
        by (intro exI [of _ "\<lambda>r. r\<lparr>vp_customer_id := tgt\<rparr>"]) (auto simp: merge_refines_def merge_done_def)
    qed
  qed
  then obtain h where h: "vehicle_parties db' = update_where (\<lambda>r. vp_id r = vp_id party) h (vehicle_parties db)"
    "customers db' = customers db" "uuid_supply db \<le> uuid_supply db'"
    "merge_refines now dup tgt party (h party)" "merge_done now tgt (h party)" by blast
  have same: "r = party" if "r \<in> set (vehicle_parties db)" "vp_id r = vp_id party" for r
    using distinct_key_unique [OF dist that(1) party(1) that(2)] .
  have hid: "vp_id (h party) = vp_id party" using h(4) by (simp add: merge_refines_def)
  show "list_all2 (merge_refines now dup tgt) (vehicle_parties db) (vehicle_parties db')"
    unfolding h(1) update_where_def using same h(4) by (auto simp: list_all2_map2 list_all2_same)
  show "customers db' = customers db" "uuid_supply db \<le> uuid_supply db'" by (rule h)+
  show "vp_id p = vp_id party \<and> merge_done now tgt p \<or> vp_id p \<noteq> vp_id party \<and> p \<in> set (vehicle_parties db)"
    if "p \<in> set (vehicle_parties db')" for p
    using that same h(5) hid unfolding h(1) by (auto elim!: in_set_update_whereE)
  show "p \<in> set (vehicle_parties db')" if "p \<in> set (vehicle_parties db)" "vp_id p \<noteq> vp_id party" for p
    using that unfolding h(1) set_update_where by force
qed

lemma list_all2_ids: "list_all2 (merge_refines now dup tgt) xs ys \<Longrightarrow> map vp_id ys = map vp_id xs"
  by (induction rule: list_all2_induct) (simp_all add: merge_refines_def)

lemma repoint_fold:
  assumes "fold (repoint_one_party now tgt actor gid) rows (db, acc) = (db', acc')"
    and "set rows \<subseteq> set (vehicle_parties db)" "distinct (map vp_id rows)" "\<forall>p \<in> set rows. vp_customer_id p = dup"
    and "distinct (map vp_id (vehicle_parties db))" "dup \<noteq> tgt"
  shows "list_all2 (merge_refines now dup tgt) (vehicle_parties db) (vehicle_parties db') \<and> customers db' = customers db
    \<and> uuid_supply db \<le> uuid_supply db'
    \<and> (\<forall>p \<in> set (vehicle_parties db'). (vp_id p \<in> vp_id ` set rows \<longrightarrow> merge_done now tgt p)
        \<and> (vp_id p \<notin> vp_id ` set rows \<longrightarrow> p \<in> set (vehicle_parties db)))"
  using assms
proof (induction rows arbitrary: db acc)
  case Nil
  then show ?case by (simp add: list_all2_same)
next
  case (Cons r rs)
  obtain d a where step: "repoint_one_party now tgt actor gid r (db, acc) = (d, a)" by (metis surj_pair)
  note one = repoint_one_effect [OF step, of dup]
  have r: "r \<in> set (vehicle_parties db)" "vp_customer_id r = dup" using Cons.prems by auto
  note e = one [OF r Cons.prems(5)]
  have rest: "fold (repoint_one_party now tgt actor gid) rs (d, a) = (db', acc')" using Cons.prems(1) step by simp
  have nr: "vp_id r \<notin> vp_id ` set rs" using Cons.prems(3) by simp
  then have notin: "vp_id p \<noteq> vp_id r" if "p \<in> set rs" for p using that by (metis image_eqI)
  have ih: "list_all2 (merge_refines now dup tgt) (vehicle_parties d) (vehicle_parties db')" "customers db' = customers d"
    "uuid_supply d \<le> uuid_supply db'" "\<And>p. p \<in> set (vehicle_parties db') \<Longrightarrow> vp_id p \<in> vp_id ` set rs \<Longrightarrow> merge_done now tgt p"
    "\<And>p. p \<in> set (vehicle_parties db') \<Longrightarrow> vp_id p \<notin> vp_id ` set rs \<Longrightarrow> p \<in> set (vehicle_parties d)"
    using Cons.IH [OF rest] Cons.prems e(5) notin list_all2_ids [OF e(1)] by auto
  have "merge_done now tgt p" if "p \<in> set (vehicle_parties db')" "vp_id p \<in> vp_id ` set (r # rs)" for p
    using that ih(4,5) [of p] e(4) [of p] nr by auto
  moreover have "p \<in> set (vehicle_parties db)" if "p \<in> set (vehicle_parties db')" "vp_id p \<notin> vp_id ` set (r # rs)" for p
    using that ih(5) [of p] e(4) [of p] by auto
  ultimately show ?case using ih(2,3) e(2,3) list_all2_merge_trans [OF e(1) ih(1) Cons.prems(6)] by auto
qed

lemma fold_audit_simps:
  "vehicle_parties (fold (\<lambda>c. record_audit_event now a (cust_id c) b d e f g h) cs db) = vehicle_parties db"
  "customers (fold (\<lambda>c. record_audit_event now a (cust_id c) b d e f g h) cs db) = customers db"
  "uuid_supply (fold (\<lambda>c. record_audit_event now a (cust_id c) b d e f g h) cs db) = uuid_supply db"
  by (induction cs arbitrary: db) simp_all

definition repoint_survivor :: "uuid \<Rightarrow> uuid \<Rightarrow> uuid option \<Rightarrow> uuid \<Rightarrow> customer list \<Rightarrow> customer list" where
  "repoint_survivor dup tgt actor gid custs = update_where (\<lambda>c. duplicate_of_customer_id c = Some dup \<and> group_id c = gid)
     (\<lambda>c. c\<lparr>duplicate_of_customer_id := Some tgt, cust_updated_by := actor, cust_version := cust_version c + 1\<rparr>) custs"

lemma earlier_effect:
  assumes "repoint_earlier_merges now dup tgt actor gid db = (db', ids)"
  shows "vehicle_parties db' = update_where (\<lambda>p. merged_into_customer_id p = Some dup
        \<and> customer_group (vp_customer_id p) db = Some gid)
      (\<lambda>p. p\<lparr>merged_into_customer_id := Some tgt\<rparr>) (vehicle_parties db)"
    "customers db' = repoint_survivor dup tgt actor gid (customers db)" "uuid_supply db' = uuid_supply db"
  using assms unfolding repoint_earlier_merges_def Let_def repoint_survivor_def by (auto simp: fold_audit_simps)

lemma merge_rowsE:
  assumes "merge_rows now c target actor db = Inr (db', counts)"
  obtains db1 moved kept db3 earlier where
    "repoint_vehicle_parties now (cust_id c) (cust_id target) actor (group_id c) db = Inr (db1, moved, kept)"
    "repoint_earlier_merges now (cust_id c) (cust_id target) actor (group_id c) db3 = (db', earlier)"
    "vehicle_parties db3 = vehicle_parties db1" "customers db3 = customers db1" "uuid_supply db3 = uuid_supply db1"
proof -
  let ?dup = "cust_id c" and ?tgt = "cust_id target"
  let ?D = "\<lambda>d. (fst (repoint_customer_transactions ?dup ?tgt d))
    \<lparr>customer_phones := fst (repoint_contacts phone_type phone_e164 ?dup ?tgt (customer_phones (fst (repoint_customer_transactions ?dup ?tgt d)))),
     customer_emails := fst (repoint_contacts email_type email_address ?dup ?tgt (customer_emails (fst (repoint_customer_transactions ?dup ?tgt d)))),
     customer_addresses := fst (repoint_contacts address_type address_key ?dup ?tgt (customer_addresses (fst (repoint_customer_transactions ?dup ?tgt d)))),
     customer_external_ids := fst (repoint_external_ids ?dup ?tgt (customer_external_ids (fst (repoint_customer_transactions ?dup ?tgt d)))),
     customer_tags := fst (repoint_customer_tags ?dup ?tgt (customer_tags (fst (repoint_customer_transactions ?dup ?tgt d))))\<rparr>"
  obtain x where x: "repoint_vehicle_parties now ?dup ?tgt actor (group_id c) db = Inr x"
    and e: "fst (repoint_earlier_merges now ?dup ?tgt actor (group_id c) (?D (fst x))) = db'"
    using assms unfolding merge_rows_def Let_def split_beta bindR_Inr_iff by auto
  show thesis
  proof (rule that)
    show "repoint_vehicle_parties now ?dup ?tgt actor (group_id c) db = Inr (fst x, fst (snd x), snd (snd x))" using x by simp
    show "repoint_earlier_merges now ?dup ?tgt actor (group_id c) (?D (fst x))
      = (db', snd (repoint_earlier_merges now ?dup ?tgt actor (group_id c) (?D (fst x))))"
      using e by (metis prod.collapse)
  qed (simp_all add: repoint_customer_transactions_def)
qed

lemma merge_rows_effect:
  assumes rows: "merge_rows now c target actor db = Inr (db', counts)"
    and dist: "distinct (map vp_id (vehicle_parties db))" and ne: "cust_id c \<noteq> cust_id target"
  shows "list_all2 (merge_refines now (cust_id c) (cust_id target)) (vehicle_parties db) (vehicle_parties db')"
    "customers db' = repoint_survivor (cust_id c) (cust_id target) actor (group_id c) (customers db)"
    "uuid_supply db \<le> uuid_supply db'"
    "\<And>p. p \<in> set (vehicle_parties db') \<Longrightarrow> vp_customer_id p = cust_id c \<Longrightarrow> merge_done now (cust_id target) p"
proof -
  let ?dup = "cust_id c" and ?tgt = "cust_id target"
  obtain db1 moved kept db3 earlier where m:
    "repoint_vehicle_parties now ?dup ?tgt actor (group_id c) db = Inr (db1, moved, kept)"
    "repoint_earlier_merges now ?dup ?tgt actor (group_id c) db3 = (db', earlier)"
    "vehicle_parties db3 = vehicle_parties db1" "customers db3 = customers db1" "uuid_supply db3 = uuid_supply db1"
    using merge_rowsE [OF rows] by blast
  let ?rows = "sort_key vp_id (select_all (\<lambda>p. vp_customer_id p = ?dup) (vehicle_parties db))"
  let ?keys = "map role_key (select_all (\<lambda>p. vp_customer_id p = ?tgt) (vehicle_parties db))"
  obtain d acc where F: "fold (repoint_one_party now ?tgt actor (group_id c)) ?rows (db, ?keys, 0, []) = (d, acc)"
    by (metis surj_pair)
  then have "d = db1"
    using m(1) unfolding repoint_vehicle_parties_def Let_def by (cases acc) (auto simp: bindR_Inr_iff)
  then have fold: "fold (repoint_one_party now ?tgt actor (group_id c)) ?rows (db, ?keys, 0, []) = (db1, acc)" using F by simp
  have "distinct (map vp_id (select_all (\<lambda>p. vp_customer_id p = ?dup) (vehicle_parties db)))"
    using dist by (simp add: select_all_def distinct_map_filter)
  then have rows: "distinct (map vp_id ?rows)" by (simp add: distinct_map)
  have sub: "set ?rows \<subseteq> set (vehicle_parties db)" "\<forall>p \<in> set ?rows. vp_customer_id p = ?dup" by auto
  note R = repoint_fold [OF fold sub(1) rows sub(2) dist ne]
  have f: "list_all2 (merge_refines now ?dup ?tgt) (vehicle_parties db) (vehicle_parties db1)" "customers db1 = customers db"
    "uuid_supply db \<le> uuid_supply db1"
    "\<And>p. p \<in> set (vehicle_parties db1) \<Longrightarrow> vp_id p \<in> vp_id ` set ?rows \<Longrightarrow> merge_done now ?tgt p"
    "\<And>p. p \<in> set (vehicle_parties db1) \<Longrightarrow> vp_id p \<notin> vp_id ` set ?rows \<Longrightarrow> p \<in> set (vehicle_parties db)"
    using R by blast+
  note e = earlier_effect [OF m(2)]
  have "list_all2 (merge_refines now ?dup ?tgt) (vehicle_parties db1) (vehicle_parties db')"
    unfolding e(1) m(3) update_where_def by (auto simp: list_all2_map2 list_all2_same merge_refines_def)
  then show "list_all2 (merge_refines now ?dup ?tgt) (vehicle_parties db) (vehicle_parties db')"
    using list_all2_merge_trans [OF f(1) _ ne] by blast
  show "customers db' = repoint_survivor ?dup ?tgt actor (group_id c) (customers db)" using e(2) m(4) f(2) by simp
  show "uuid_supply db \<le> uuid_supply db'" using e(3) m(5) f(3) by simp
  have done1: "merge_done now ?tgt p" if p: "p \<in> set (vehicle_parties db1)" "vp_customer_id p = ?dup" for p
  proof (cases "vp_id p \<in> vp_id ` set ?rows")
    case False
    then have "p \<in> set (vehicle_parties db)" using f(5) p(1) by blast
    then have "p \<in> set ?rows" using p(2) by simp
    then show ?thesis using False by blast
  qed (use f(4) p in blast)
  show "merge_done now ?tgt p" if "p \<in> set (vehicle_parties db')" "vp_customer_id p = ?dup" for p
    using that done1 unfolding e(1) m(3) by (auto elim!: in_set_update_whereE simp: merge_done_def)
qed

lemma mergeE:
  assumes "merge_customer now c target_id actor db = Inr db'"
  obtains target db1 counts where "get_customer_or_404 (group_id c) target_id db = Inr target" "cust_id target = target_id"
    "target \<in> set (customers db)" "cust_lifecycle_status target \<noteq> MERGED" "target_id \<noteq> cust_id c" "merge_rows now c target actor db = Inr (db1, counts)"
    "vehicle_parties db' = vehicle_parties db1" "uuid_supply db1 \<le> uuid_supply db'"
    "customers db' = update_where (\<lambda>r. cust_id r = cust_id c)
      (\<lambda>r. r\<lparr>cust_lifecycle_status := MERGED, duplicate_of_customer_id := Some target_id,
             cust_updated_by := actor, cust_version := cust_version r + 1\<rparr>) (customers db1)"
proof -
  obtain target db1 counts where t: "get_customer_or_404 (group_id c) target_id db = Inr target"
    and r: "merge_rows now c target actor db = Inr (db1, counts)"
    and rest: "target_id \<noteq> cust_id c" "cust_lifecycle_status target \<noteq> MERGED"
    and d: "vehicle_parties db' = vehicle_parties db1 \<and> uuid_supply db1 \<le> uuid_supply db'
      \<and> customers db' = update_where (\<lambda>r. cust_id r = cust_id c)
      (\<lambda>r. r\<lparr>cust_lifecycle_status := MERGED, duplicate_of_customer_id := Some target_id,
             cust_updated_by := actor, cust_version := cust_version r + 1\<rparr>) (customers db1)"
    using assms unfolding merge_customer_def Let_def
    by (auto simp: bindR_Inr_iff publish_eq supply_after_def split: if_splits option.splits)
  have "cust_id target = target_id" "target \<in> set (customers db)"
    using t by (auto simp: get_customer_or_404_def split: option.splits dest: select_one_SomeD)
  then show thesis using t r rest d by (intro that) simp_all
qed

lemma customer_group_keys:
  assumes "map (\<lambda>c. (cust_id c, group_id c)) (customers db') = map (\<lambda>c. (cust_id c, group_id c)) (customers db)"
  shows "customer_group cid db' = customer_group cid db"
proof -
  have "map_option group_id (select_one (\<lambda>c. cust_id c = cid) cs)
      = map_option snd (select_one (\<lambda>k. fst k = cid) (map (\<lambda>c. (cust_id c, group_id c)) cs))" for cs :: "customer list"
    by (induction cs) auto
  then show ?thesis unfolding customer_group_def using assms by simp
qed

lemma merge_inv:
  assumes m: "merge_customer now c target_id actor db = Inr db'" and inv: "parties_inv now db"
    and c: "select_one (\<lambda>r. cust_id r = cust_id c) (customers db) = Some c" and dist: "distinct (map cust_id (customers db))"
  shows "parties_inv now db'" "map (\<lambda>c. (cust_id c, group_id c)) (customers db') = map (\<lambda>c. (cust_id c, group_id c)) (customers db)"
proof -
  obtain target db1 counts where t: "get_customer_or_404 (group_id c) target_id db = Inr target" "cust_id target = target_id"
    "target_id \<noteq> cust_id c" "merge_rows now c target actor db = Inr (db1, counts)"
    "vehicle_parties db' = vehicle_parties db1" "uuid_supply db1 \<le> uuid_supply db'"
    "customers db' = update_where (\<lambda>r. cust_id r = cust_id c)
      (\<lambda>r. r\<lparr>cust_lifecycle_status := MERGED, duplicate_of_customer_id := Some target_id,
             cust_updated_by := actor, cust_version := cust_version r + 1\<rparr>) (customers db1)"
    by (rule mergeE [OF m])
  have ids: "distinct (map vp_id (vehicle_parties db))" using inv by (simp add: parties_inv_def)
  have ne: "cust_id c \<noteq> cust_id target" using t(2,3) by simp
  note r = merge_rows_effect [OF t(4) ids ne]
  show keys: "map (\<lambda>c. (cust_id c, group_id c)) (customers db') = map (\<lambda>c. (cust_id c, group_id c)) (customers db)"
    unfolding t(7) r(2) repoint_survivor_def by (simp add: map_update_where)
  have dup: "customer_group (cust_id c) db = Some (group_id c)" using c by (simp add: customer_group_def)
  have tgt: "customer_group (cust_id target) db = Some (group_id c)" using get_customer_group [OF t(1) dist] t(2) by simp
  show "parties_inv now db'"
  proof (rule parties_inv_refine [OF inv])
    have "party_refines now db db' p p'" if "merge_refines now (cust_id c) (cust_id target) p p'" for p p'
      using that dup tgt customer_group_keys [OF keys] unfolding merge_refines_def party_refines_def party_group_def by auto
    then show "list_all2 (party_refines now db db') (vehicle_parties db) (vehicle_parties db')"
      unfolding t(5) using r(1) by (rule list_all2_mono [rotated])
    show "uuid_supply db \<le> uuid_supply db'" using r(3) t(6) by simp
  qed
qed

section \<open>Properties\<close>

definition history_kept :: "'a master_db_scheme \<Rightarrow> 'a master_db_scheme \<Rightarrow> bool" where
  "history_kept db db' \<longleftrightarrow> vp_id ` set (vehicle_parties db) \<subseteq> vp_id ` set (vehicle_parties db')"

lemma history_kept_map:
  "map vp_id (vehicle_parties db') = map vp_id (vehicle_parties db) @ new \<Longrightarrow> history_kept db db'"
proof -
  assume "map vp_id (vehicle_parties db') = map vp_id (vehicle_parties db) @ new"
  from arg_cong [OF this, of set] show "history_kept db db'" by (auto simp: history_kept_def)
qed

lemma close_ids: "map vp_id (map (\<lambda>r. if P r then r\<lparr>effective_to := x\<rparr> else r) rows) = map vp_id rows"
  by (simp add: comp_def)

lemma open_history: "open_vehicle_party now vid cid role gid actor ef et incumbents db = Inr (db', p) \<Longrightarrow> history_kept db db'"
  by (rule history_kept_map [of _ _ "[vp_id p]"]) (simp add: open_effect(1) comp_def)

lemma save_history: "history_kept db (save_party p db)"
  by (rule history_kept_map [of _ _ "[]"]) (simp add: comp_def if_distrib)

lemma history_kept_refl [simp]: "history_kept db db"
  by (simp add: history_kept_def)

lemma history_kept_trans: "history_kept a b \<Longrightarrow> history_kept b c \<Longrightarrow> history_kept a c"
  by (auto simp: history_kept_def)

lemma allocate_history:
  assumes "allocate_vehicle_party now vid cid role gid actor ef et db = Inr (db', p)" "distinct (map cust_id (customers db))"
  shows "history_kept db db'"
  using assms by (cases rule: allocate_cases) (auto intro: open_history save_history)

lemma link_history:
  assumes "create_customer_vehicle now c data actor db = Inr (db', p)" "distinct (map cust_id (customers db))"
  shows "history_kept db db'"
proof (cases "is_open now (cv_effective_to data)")
  case True
  then obtain vid start where al: "allocate_vehicle_party now vid (cust_id c) (cv_role data) (group_id c) actor
          start (cv_effective_to data) db = Inr (db', p)"
    using assms(1) unfolding create_customer_vehicle_def Let_def by (auto simp: bindR_Inr_iff)
  show ?thesis by (rule allocate_history [OF al assms(2)])
next
  case False
  then show ?thesis using assms(1) unfolding create_customer_vehicle_def Let_def
    by (auto simp: bindR_Inr_iff draw_uuid_def history_kept_def dest!: insert_party_Inr)
qed

lemma lock_history: "lock_party now i db = Inr (db', p) \<Longrightarrow> history_kept db db'"
  by (auto simp: lock_party_def intro: save_history split: option.splits if_splits)

lemma close_history: "history_kept db (fold (\<lambda>p. close_vehicle_party now p actor gid None None) ps db)"
  using fold_close [of now actor gid ps db] by (intro history_kept_map [of _ _ "[]"]) (simp add: comp_def)

lemma patch_history:
  assumes "update_customer_vehicle now i changes actor gid db = Inr (db', p')"
  shows "history_kept db db'"
proof -
  obtain db1 q f et holds ends where lock: "lock_party now i db = Inr (db1, q)"
    and wr: "write_party_period now q f et holds ends actor gid db1 = Inr (db', p')"
    using assms unfolding update_customer_vehicle_def Let_def by (auto simp: bindR_Inr_iff split: option.splits if_splits)
  let ?d = "fold (\<lambda>p. close_vehicle_party now p actor gid None None)
    (if holds then open_holders_in_group now (vp_vehicle_id q) (vp_role q) gid (Some (vp_id q)) db1 else [])
    (save_party (q\<lparr>effective_from := f, effective_to := et\<rparr>) db1)"
  have "vehicle_parties db' = vehicle_parties ?d"
    using wr unfolding write_party_period_def Let_def by (auto split: if_splits)
  then have "history_kept ?d db'" by (simp add: history_kept_def)
  then show ?thesis
    by (rule history_kept_trans [OF lock_history [OF lock] history_kept_trans [OF save_history history_kept_trans [OF close_history]]])
qed

lemma disconnect_history:
  assumes "delete_customer_vehicle now i actor gid db = Inr db'"
  shows "history_kept db db'"
proof -
  obtain db1 p where lock: "lock_party now i db = Inr (db1, p)"
    and or: "db' = db \<or> db' = close_vehicle_party now p actor gid None None db1"
    using assms by (auto simp: delete_customer_vehicle_def bindR_Inr_iff split: if_splits)
  have "history_kept db1 (close_vehicle_party now p actor gid None None db1)"
    using close_history [of db1 now actor gid "[p]"] by simp
  from history_kept_trans [OF lock_history [OF lock] this] show ?thesis using or by auto
qed

lemma merge_history:
  assumes m: "merge_customer now c target_id actor db = Inr db'" and inv: "parties_inv now db"
  shows "history_kept db db'"
proof -
  obtain target db1 counts where t: "cust_id target = target_id" "target_id \<noteq> cust_id c"
    "merge_rows now c target actor db = Inr (db1, counts)" "vehicle_parties db' = vehicle_parties db1" by (rule mergeE [OF m])
  have "list_all2 (merge_refines now (cust_id c) (cust_id target)) (vehicle_parties db) (vehicle_parties db1)"
    by (rule merge_rows_effect(1) [OF t(3)]) (use inv t in \<open>auto simp: parties_inv_def\<close>)
  from list_all2_ids [OF this] show ?thesis using t(4) by (intro history_kept_map [of _ _ "[]"]) simp
qed

lemma distinct_customers_keys:
  "map (\<lambda>c. (cust_id c, group_id c)) (customers db') = map (\<lambda>c. (cust_id c, group_id c)) (customers db)
    \<Longrightarrow> map cust_id (customers db') = map cust_id (customers db)"
  by (drule arg_cong [of _ _ "map fst"]) (simp add: comp_def)

lemma party_step_inv:
  assumes "party_step (t, db) (t', db')" "parties_inv t db" "distinct (map cust_id (customers db))"
  shows "parties_inv t' db' \<and> distinct (map cust_id (customers db')) \<and> history_kept db db'"
  using assms(1)
proof (cases rule: party_step.cases)
  case (allocate vid cid role gid actor eff_from eff_to p)
  then show ?thesis using allocate_inv [OF allocate(2)] allocate_history [OF allocate(2) assms(3)]
      parties_inv_later [OF assms(2) allocate(1)] assms(3) by simp
next
  case (link c data actor p)
  then show ?thesis using link_inv [OF link(2)] link_history [OF link(2) assms(3)]
      parties_inv_later [OF assms(2) link(1)] assms(3) by simp
next
  case (patch p gid changes actor p')
  then show ?thesis using patch_inv [OF patch(4) _ patch(2) refl patch(3)] patch_history [OF patch(4)]
      parties_inv_later [OF assms(2) patch(1)] assms(3) by simp
next
  case (disconnect p gid actor)
  then show ?thesis using disconnect_inv [OF disconnect(4)] disconnect_history [OF disconnect(4)]
      parties_inv_later [OF assms(2) disconnect(1)] assms(3) by simp
next
  case refresh
  have "history_kept db db'" unfolding refresh(1)
    by (rule history_kept_map [of _ _ "[]"]) (simp add: refresh_vehicle_party_labels_def comp_def)
  then show ?thesis using refresh refresh_inv parties_inv_later [OF assms(2) refresh(2)] assms(3)
    by (auto simp: refresh_vehicle_party_labels_def)
next
  case (merge c target_id actor)
  note inv = parties_inv_later [OF assms(2) merge(1)]
  show ?thesis using merge_inv [OF merge(3) inv merge(2) assms(3)] merge_history [OF merge(3) inv]
      distinct_customers_keys assms(3) by metis
qed

lemma party_steps_inv:
  assumes "party_step\<^sup>*\<^sup>* (t, db) (t', db')" "parties_inv t db" "distinct (map cust_id (customers db))"
  shows "parties_inv t' db' \<and> distinct (map cust_id (customers db')) \<and> history_kept db db'"
  using assms(1)
proof (induction rule: rtranclp_induct2)
  case refl
  then show ?case using assms by simp
next
  case (step a b c d)
  then show ?case using party_step_inv [OF step(2)] history_kept_trans [of db b d] by simp
qed

lemma sole_holder:
  assumes inv: "parties_inv now db" and p: "p \<in> set (vehicle_parties db)" "is_open now (effective_to p)" "party_group db p = Some gid"
  shows "open_holders_in_group now (vp_vehicle_id p) (vp_role p) gid None db = [p]"
proof -
  let ?l = "open_holders_in_group now (vp_vehicle_id p) (vp_role p) gid None db"
  have "set ?l = {p}"
    using inv p unfolding parties_inv_def one_holder_def by (auto simp: in_open_holders)
  moreover have "distinct ?l"
    using inv unfolding parties_inv_def open_holders_in_group_def by (auto simp: select_all_def distinct_map)
  ultimately show ?thesis by (metis (no_types, opaque_lifting) distinct_length_2_or_more empty_iff insertI1 list.exhaust list.set(1) list.set_intros(1) list.set_intros(2) singletonD)
qed

lemma allocate_result:
  assumes al: "allocate_vehicle_party now vid cid role gid actor ef et db = Inr (db', p)" and inv: "parties_inv now db"
    and dist: "distinct (map cust_id (customers db))" and op: "is_open now et"
  shows "p \<in> set (vehicle_parties db')" "vp_vehicle_id p = vid" "vp_role p = role" "vp_customer_id p = cid"
    "is_open now (effective_to p)" "party_group db' p = Some gid"
    "\<And>q. q \<in> set (vehicle_parties db) \<Longrightarrow> party_group db q \<noteq> Some gid \<Longrightarrow> q \<in> set (vehicle_parties db')"
proof -
  have cust: "customers db' = customers db" using allocate_inv(2) [OF al inv dist] .
  have "p \<in> set (vehicle_parties db') \<and> vp_vehicle_id p = vid \<and> vp_role p = role \<and> vp_customer_id p = cid
      \<and> is_open now (effective_to p) \<and> party_group db' p = Some gid
      \<and> (\<forall>q \<in> set (vehicle_parties db). party_group db q \<noteq> Some gid \<longrightarrow> q \<in> set (vehicle_parties db'))"
    using al dist
  proof (cases rule: allocate_cases)
    case (kept q)
    have same: "r = q" if "r \<in> set (vehicle_parties db)" "vp_id r = vp_id q" for r
      using party_unique [OF inv that(1) kept(1) that(2)] .
    have "p \<in> set (vehicle_parties db')" using kept(1,6) by (auto simp: image_iff)
    moreover have "r \<in> set (vehicle_parties db')" if r: "r \<in> set (vehicle_parties db)" "party_group db r \<noteq> Some gid" for r
    proof -
      have "vp_id r \<noteq> vp_id q" using same [OF r(1)] r(2) kept(2,7) by (auto simp: party_group_def)
      then show ?thesis using kept(6) r(1) by (auto simp: image_iff)
    qed
    ultimately show ?thesis using kept by (auto simp: party_group_def customer_group_cong [OF cust])
  next
    case (opened start)
    note e = open_effect [OF opened(1)]
    have "q \<in> set (vehicle_parties db')" if q: "q \<in> set (vehicle_parties db)" "party_group db q \<noteq> Some gid" for q
    proof -
      have "vp_id q \<notin> vp_id ` set (open_holders_in_group now vid role gid None db)"
      proof
        assume "vp_id q \<in> vp_id ` set (open_holders_in_group now vid role gid None db)"
        then obtain h where h: "h \<in> set (open_holders_in_group now vid role gid None db)" "vp_id q = vp_id h" by blast
        then have "q = h" using party_unique [OF inv q(1) _ h(2)] by (simp add: in_open_holders)
        then show False using h(1) q(2) by (simp add: in_open_holders)
      qed
      then show ?thesis unfolding e(1) using q(1) by (auto simp: image_iff)
    qed
    then show ?thesis using e op opened(2) by (auto simp: party_group_def customer_group_cong [OF cust])
  qed
  then show "p \<in> set (vehicle_parties db')" "vp_vehicle_id p = vid" "vp_role p = role" "vp_customer_id p = cid"
    "is_open now (effective_to p)" "party_group db' p = Some gid"
    "\<And>q. q \<in> set (vehicle_parties db) \<Longrightarrow> party_group db q \<noteq> Some gid \<Longrightarrow> q \<in> set (vehicle_parties db')" by blast+
qed

text \<open>
  C18: a car has one holder per role and dealer group. Starting where that holds, no sequence of links,
  patches, disconnects, allocations, label refreshes and customer merges, at advancing times, leaves
  two open holders of one role on one car in one group, and none of them removes a party row.
\<close>

theorem one_holder_per_role_and_group:
  assumes "parties_inv t db" "distinct (map cust_id (customers db))" "party_step\<^sup>*\<^sup>* (t, db) (t', db')"
  shows "(\<forall>p \<in> set (vehicle_parties db'). \<forall>q \<in> set (vehicle_parties db').
      is_open t' (effective_to p) \<and> is_open t' (effective_to q) \<and> vp_vehicle_id p = vp_vehicle_id q
      \<and> vp_role p = vp_role q \<and> party_group db' p = party_group db' q \<and> party_group db' p \<noteq> None \<longrightarrow> p = q)
    \<and> vp_id ` set (vehicle_parties db) \<subseteq> vp_id ` set (vehicle_parties db')"
  using party_steps_inv [OF assms(3,1,2)] unfolding parties_inv_def one_holder_def history_kept_def by blast


definition merge_links_ok :: "'a master_db_scheme \<Rightarrow> bool" where
  "merge_links_ok db \<longleftrightarrow> (\<forall>x \<in> set (customers db). cust_lifecycle_status x = MERGED \<longrightarrow>
     (\<exists>y \<in> set (customers db). duplicate_of_customer_id x = Some (cust_id y) \<and> group_id y = group_id x
        \<and> cust_lifecycle_status y \<noteq> MERGED))"

lemma merge_links_kept:
  assumes ok: "merge_links_ok db" and c: "c \<in> set (customers db)" and dist: "distinct (map cust_id (customers db))"
    and t: "target \<in> set (customers db)" "cust_lifecycle_status target \<noteq> MERGED" "cust_id target \<noteq> cust_id c"
      "group_id target = group_id c"
    and cust: "customers db' = update_where (\<lambda>r. cust_id r = cust_id c)
      (\<lambda>r. r\<lparr>cust_lifecycle_status := MERGED, duplicate_of_customer_id := Some (cust_id target),
             cust_updated_by := actor, cust_version := cust_version r + 1\<rparr>)
      (repoint_survivor (cust_id c) (cust_id target) actor (group_id c) (customers db))"
  shows "merge_links_ok db'"
proof -
  let ?s = "\<lambda>r. if duplicate_of_customer_id r = Some (cust_id c) \<and> group_id r = group_id c
    then r\<lparr>duplicate_of_customer_id := Some (cust_id target), cust_updated_by := actor, cust_version := cust_version r + 1\<rparr> else r"
  let ?m = "\<lambda>r. if cust_id r = cust_id c then r\<lparr>cust_lifecycle_status := MERGED,
    duplicate_of_customer_id := Some (cust_id target), cust_updated_by := actor, cust_version := cust_version r + 1\<rparr> else r"
  define f :: "customer \<Rightarrow> customer" where "f r = ?m (?s r)" for r
  have custs: "customers db' = map f (customers db)"
    unfolding cust repoint_survivor_def update_where_def f_def by simp
  have f: "cust_id (f r) = cust_id r" "group_id (f r) = group_id r"
    "cust_id r \<noteq> cust_id c \<Longrightarrow> cust_lifecycle_status (f r) = cust_lifecycle_status r"
    "cust_id r = cust_id c \<Longrightarrow> duplicate_of_customer_id (f r) = Some (cust_id target)"
    "cust_id r \<noteq> cust_id c \<Longrightarrow> duplicate_of_customer_id (f r) =
      (if duplicate_of_customer_id r = Some (cust_id c) \<and> group_id r = group_id c then Some (cust_id target)
       else duplicate_of_customer_id r)" for r :: customer unfolding f_def by simp_all
  have live: "f target \<in> set (customers db')" "cust_lifecycle_status (f target) \<noteq> MERGED"
    using t f(3) [of target] unfolding custs by simp_all
  show ?thesis unfolding merge_links_ok_def
  proof (intro ballI impI)
    fix x' assume "x' \<in> set (customers db')" and merged: "cust_lifecycle_status x' = MERGED"
    then obtain x where x: "x \<in> set (customers db)" "x' = f x" unfolding custs by auto
    show "\<exists>y \<in> set (customers db'). duplicate_of_customer_id x' = Some (cust_id y) \<and> group_id y = group_id x'
        \<and> cust_lifecycle_status y \<noteq> MERGED"
    proof (cases "cust_id x = cust_id c")
      case True
      then have "x = c" using distinct_key_unique [OF dist x(1) c] by blast
      then show ?thesis using live t(4) x(2) f by (intro bexI [OF _ live(1)]) simp
    next
      case False
      then have "cust_lifecycle_status x = MERGED" using merged f(3) [of x] x(2) by simp
      then obtain y where y: "y \<in> set (customers db)" "duplicate_of_customer_id x = Some (cust_id y)"
        "group_id y = group_id x" "cust_lifecycle_status y \<noteq> MERGED" using ok x(1) unfolding merge_links_ok_def by blast
      show ?thesis
      proof (cases "cust_id y = cust_id c")
        case True
        then have "y = c" using distinct_key_unique [OF dist y(1) c] by blast
        then have "duplicate_of_customer_id x' = Some (cust_id target)" using False y x(2) f(5) [of x] by simp
        then show ?thesis using live t(4) y(3) \<open>y = c\<close> x(2) f(1,2) by (intro bexI [OF _ live(1)]) simp
      next
        case ne: False
        then have "duplicate_of_customer_id x' = Some (cust_id y)" using False y x(2) f(5) [of x] by simp
        moreover have "f y \<in> set (customers db')" unfolding custs using y(1) by simp
        ultimately show ?thesis using ne y f(1,2,3) [of y] f(2) [of x] x(2) by (intro bexI [of _ "f y"]) simp_all
      qed
    qed
  qed
qed

text \<open>
  C20: after a merge the chain of merged customers still has length one: whoever is merged names a
  customer of the same group who is not merged, also those merged into the duplicate earlier; and a
  party row left on the merged customer is marked with the survivor and no longer open, unless its
  own start lies in the future.
\<close>

theorem merge_names_live_survivor:
  assumes "parties_inv now db" "distinct (map cust_id (customers db))" "merge_links_ok db"
    "select_one (\<lambda>r. cust_id r = cust_id c) (customers db) = Some c"
    "merge_customer now c target_id actor db = Inr db'"
  shows "merge_links_ok db'
    \<and> (\<forall>p \<in> set (vehicle_parties db'). vp_customer_id p = cust_id c \<longrightarrow> merged_into_customer_id p = Some target_id
        \<and> (is_open now (effective_to p) \<longrightarrow> now < effective_from p))"
proof -
  obtain target db1 counts where t: "get_customer_or_404 (group_id c) target_id db = Inr target" "cust_id target = target_id"
    "target \<in> set (customers db)" "cust_lifecycle_status target \<noteq> MERGED" "target_id \<noteq> cust_id c"
    "merge_rows now c target actor db = Inr (db1, counts)" "vehicle_parties db' = vehicle_parties db1"
    "customers db' = update_where (\<lambda>r. cust_id r = cust_id c)
      (\<lambda>r. r\<lparr>cust_lifecycle_status := MERGED, duplicate_of_customer_id := Some target_id,
             cust_updated_by := actor, cust_version := cust_version r + 1\<rparr>) (customers db1)"
    by (rule mergeE [OF assms(5)])
  have "distinct (map vp_id (vehicle_parties db))" using assms(1) by (simp add: parties_inv_def)
  note r = merge_rows_effect [OF t(6) this]
  have ne: "cust_id c \<noteq> cust_id target" using t(2,5) by simp
  have grp: "group_id target = group_id c" using t(1) by (auto simp: get_customer_or_404_def split: option.splits dest: select_one_SomeD)
  have "merge_links_ok db'"
    by (rule merge_links_kept [OF assms(3) select_one_SomeD(1) [OF assms(4)] assms(2) t(3,4) _ grp])
      (use t(2,5,8) r(2) [OF ne] in simp_all)
  moreover have "merged_into_customer_id p = Some target_id \<and> (is_open now (effective_to p) \<longrightarrow> now < effective_from p)"
    if "p \<in> set (vehicle_parties db')" "vp_customer_id p = cust_id c" for p
    using r(4) [OF ne, of p] that t(2,5,7) by (auto simp: merge_done_def)
  ultimately show ?thesis by blast
qed

subsection \<open>An example\<close>

definition example_customer :: "uuid \<Rightarrow> customer" where
  "example_customer i = \<lparr>cust_id = i, group_id = 7, customer_number = ''K-000006'', customer_type = INDIVIDUAL,
     company_name = None, first_name = Some ''Anna'', last_name = Some ''Muster'', cust_lifecycle_status = ACTIVE,
     duplicate_of_customer_id = None, cust_language = ''de'', credit_block = False, credit_block_reason = None,
     credit_blocked_at = None, cust_version = 3, cust_updated_by = None\<rparr>"

definition example_party :: "uuid \<Rightarrow> uuid \<Rightarrow> uuid \<Rightarrow> datetime \<Rightarrow> datetime option \<Rightarrow> vehicle_party" where
  "example_party i vid cid start end_at = \<lparr>vp_id = i, vp_vehicle_id = vid, vp_customer_id = cid, vp_role = OWNER,
     effective_from = start, effective_to = end_at, merged_into_customer_id = None, vp_label = None,
     vehicle_label_refreshed_at = None\<rparr>"

definition parties_db :: "vehicle_party list \<Rightarrow> master_db" where
  "parties_db ps = empty_master_db\<lparr>uuid_supply := 20, customers := [example_customer 6, example_customer 8], vehicle_parties := ps\<rparr>"

lemmas parties_eval = parties_db_def example_customer_def example_party_def empty_master_db_def parties_inv_def one_holder_def
  is_open_def party_group_def customer_group_def

definition owned_db :: master_db where "owned_db = parties_db [example_party 2 4 6 0 None]"

lemma owned_db_ok: "parties_inv 100 owned_db" "distinct (map cust_id (customers owned_db))"
  "merge_links_ok owned_db" "select_one (\<lambda>r. cust_id r = cust_id (example_customer 6)) (customers owned_db) = Some (example_customer 6)"
  by (simp_all add: owned_db_def parties_eval merge_links_ok_def)

lemma owned_allocate: "\<exists>db' p. allocate_vehicle_party 100 4 8 OWNER 7 None None None owned_db = Inr (db', p)"
  by (simp add: allocate_vehicle_party_def get_customer_or_404_def refuse_merged_customer_def open_holders_in_group_def
      open_vehicle_party_def close_vehicle_party_def insert_party_def new_vehicle_party_def write_vehicle_label_def
      get_vehicle_summary_def party_key_def draw_uuid_def publish_eq record_audit_event_def owned_db_def parties_eval Let_def)


theorem one_holder_per_role_and_group_witness:
  "\<exists>db'. party_step (100, owned_db) (100, db') \<and> (\<forall>p \<in> set (vehicle_parties db'). \<forall>q \<in> set (vehicle_parties db').
      is_open 100 (effective_to p) \<and> is_open 100 (effective_to q) \<and> vp_vehicle_id p = vp_vehicle_id q
      \<and> vp_role p = vp_role q \<and> party_group db' p = party_group db' q \<and> party_group db' p \<noteq> None \<longrightarrow> p = q)"
proof -
  obtain db' p where al: "allocate_vehicle_party 100 4 8 OWNER 7 None None None owned_db = Inr (db', p)"
    using owned_allocate by blast
  have "party_step (100, owned_db) (100, db')" by (rule party_step.allocate [OF _ al]) simp
  then show ?thesis
    using one_holder_per_role_and_group [OF owned_db_ok(1,2) r_into_rtranclp, of 100 db'] by blast
qed

lemmas merge_eval = merge_customer_def merge_rows_def repoint_vehicle_parties_def lock_merge_customers_def
  repoint_one_party_def role_key_def repoint_customer_transactions_def repoint_contacts_def repoint_external_ids_def
  repoint_customer_tags_def repoint_earlier_merges_def merge_keys_ok_def party_key_def get_customer_or_404_def
  close_vehicle_party_def publish_eq record_audit_event_def parties_eval Let_def

lemma owned_merge: "\<exists>db'. merge_customer 100 (example_customer 6) 8 None owned_db = Inr db'"
  by (simp add: merge_eval owned_db_def)

theorem merge_names_live_survivor_witness:
  "\<exists>db'. merge_customer 100 (example_customer 6) 8 None owned_db = Inr db' \<and> merge_links_ok db'
    \<and> (\<forall>p \<in> set (vehicle_parties db'). vp_customer_id p = 6 \<longrightarrow> merged_into_customer_id p = Some 8)"
proof -
  obtain db' where m: "merge_customer 100 (example_customer 6) 8 None owned_db = Inr db'" using owned_merge by blast
  from merge_names_live_survivor [OF owned_db_ok m] show ?thesis using m by (simp add: example_customer_def)
qed

text \<open>
  Two findings on concrete rows. A vehicle merge re-points without closing anyone, so the surviving
  car can have two open owners in one group. And the copy a customer merge keeps is closed at its own
  start: when that lies in the future, the merged customer goes on holding the role until then.
\<close>

lemma vehicle_merge_leaves_two_owners:
  "\<exists>db'. repoint_vehicle_party 100 5 4 (parties_db [example_party 2 4 6 0 None, example_party 3 5 8 0 None]) = Inr (db', 1)
    \<and> parties_inv 100 (parties_db [example_party 2 4 6 0 None, example_party 3 5 8 0 None]) \<and> \<not> one_holder 100 db'"
  by (simp add: repoint_vehicle_party_def write_vehicle_label_def get_vehicle_summary_def party_key_def parties_eval Let_def)

lemma kept_copy_with_future_start_stays_open:
  "\<exists>db'. merge_customer 100 (example_customer 6) 8 None
      (parties_db [example_party 2 4 6 500 None, example_party 3 4 8 500 (Some 50)]) = Inr db'
    \<and> (\<exists>p \<in> set (vehicle_parties db'). vp_customer_id p = 6 \<and> is_open 100 (effective_to p))"
  by (simp add: merge_eval)

end
