(* ===== verification/Vehicle_Plates.thy ===== *)
theory Vehicle_Plates
  imports Customer_Parties
begin

text \<open>
  Licence plates and the matching of a car (\<^verbatim>\<open>app/vehicle/services/plate.py, matching.py\<close>):
  recording an assignment with the queue of conflicts, the targeted lookup, the dealer plates, and the
  waterfall that decides which known vehicle a request means.
\<close>

section \<open>Plates\<close>

definition is_current :: "vehicle_plate \<Rightarrow> date \<Rightarrow> bool" where
  "is_current row as_of \<longleftrightarrow> plate_valid_from row \<le> as_of
     \<and> (case plate_valid_to row of None \<Rightarrow> True | Some t \<Rightarrow> as_of \<le> t)"

definition shares_group :: "uuid option \<Rightarrow> vehicle_plate \<Rightarrow> bool" where
  "shares_group gid other \<longleftrightarrow> gid \<noteq> None \<and> plate_group_id other = gid"

text \<open>An unresolved entry of the queue that names the two rows, in either order.\<close>

definition already_flagged :: "uuid \<Rightarrow> uuid \<Rightarrow> vehicle_plate_conflict list \<Rightarrow> bool" where
  "already_flagged a b queue \<longleftrightarrow> select_one (\<lambda>c. \<not> vpc_resolved c
     \<and> (first_plate_id c = a \<and> second_plate_id c = b \<or> first_plate_id c = b \<and> second_plate_id c = a)) queue \<noteq> None"

definition check_other ::
  "datetime \<Rightarrow> vehicle_plate \<Rightarrow> vehicle_plate_conflict list \<Rightarrow> vehicle_plate \<Rightarrow> vehicle_plate_conflict list" where
  "check_other now row stored other =
     (if \<not> is_current other (date_of now) \<or> shares_group (plate_group_id row) other
         \<or> already_flagged (plate_id row) (plate_id other) stored
      then []
      else [\<lparr>vpc_plate = plate_text row, vpc_canton = plate_canton row, first_plate_id = plate_id row,
        second_plate_id = plate_id other, detected_at = now, vpc_resolved = False\<rparr>])"

text \<open>The session does not flush between the loop's queries, so each looks at the stored queue.\<close>

definition record_plate_assignment ::
  "datetime \<Rightarrow> uuid \<Rightarrow> string \<Rightarrow> string \<Rightarrow> date \<Rightarrow> date option \<Rightarrow> bool \<Rightarrow> uuid option \<Rightarrow> uuid
     \<Rightarrow> 'a master_db_scheme \<Rightarrow> 'a master_db_scheme \<times> vehicle_plate" where
  "record_plate_assignment now vehicle_id plate canton from until interchangeable gid tenant_id db =
     (let (pid, db1) = draw_uuid db;
          row = \<lparr>plate_id = pid, plate_vehicle_id = vehicle_id, plate_text = plate, plate_canton = canton,
            plate_valid_from = from, plate_valid_to = until, is_interchangeable = interchangeable,
            plate_group_id = gid, recording_tenant_id = tenant_id\<rparr>;
          plates = vehicle_plates db1 @ [row];
          others = select_all (\<lambda>r. plate_text r = plate \<and> plate_canton r = canton \<and> plate_id r \<noteq> pid
            \<and> plate_vehicle_id r \<noteq> vehicle_id) plates
      in (db1\<lparr>vehicle_plates := plates, vehicle_plate_conflicts := vehicle_plate_conflicts db1
            @ concat (map (check_other now row (vehicle_plate_conflicts db1)) others)\<rparr>, row))"

definition resolve_plate ::
  "datetime \<Rightarrow> string \<Rightarrow> string \<Rightarrow> date option \<Rightarrow> bool \<Rightarrow> 'a master_db_scheme \<Rightarrow> vehicle_plate list" where
  "resolve_plate now plate canton as_of include_historical db =
     (let day = (case as_of of Some d \<Rightarrow> d | None \<Rightarrow> date_of now)
      in select_all (\<lambda>r. plate_text r = plate \<and> plate_canton r = canton \<and> (include_historical \<or> is_current r day))
           (vehicle_plates db))"

definition list_plates_for_vehicle :: "uuid \<Rightarrow> 'a master_db_scheme \<Rightarrow> vehicle_plate list" where
  "list_plates_for_vehicle vehicle_id db =
     rev (sort_key plate_valid_from (rev (select_all (\<lambda>r. plate_vehicle_id r = vehicle_id) (vehicle_plates db))))"

definition current_dealer_plate_assignment :: "uuid \<Rightarrow> 'a master_db_scheme \<Rightarrow> dealer_plate_assignment option" where
  "current_dealer_plate_assignment dealer_plate_id db =
     select_one (\<lambda>a. dpa_dealer_plate_id a = dealer_plate_id \<and> dpa_valid_to a = None) (dealer_plate_assignments db)"

definition assign_dealer_plate ::
  "datetime \<Rightarrow> dealer_plate \<Rightarrow> uuid \<Rightarrow> 'a master_db_scheme \<Rightarrow> 'a master_db_scheme \<times> dealer_plate_assignment" where
  "assign_dealer_plate now dp vehicle_id db =
     (let closed = (case current_dealer_plate_assignment (dp_id dp) db of
            None \<Rightarrow> dealer_plate_assignments db
          | Some a \<Rightarrow> update_where (\<lambda>r. dpa_id r = dpa_id a) (\<lambda>r. r\<lparr>dpa_valid_to := Some now\<rparr>) (dealer_plate_assignments db));
          (aid, db1) = draw_uuid db;
          assignment = \<lparr>dpa_id = aid, dpa_dealer_plate_id = dp_id dp, dpa_vehicle_id = vehicle_id,
            dpa_tenant_id = dp_tenant_id dp, dpa_valid_from = now, dpa_valid_to = None\<rparr>
      in (db1\<lparr>dealer_plate_assignments := closed @ [assignment]\<rparr>, assignment))"

section \<open>Matching\<close>

datatype match_rung = RUNG_VIN | RUNG_STAMMNUMMER | RUNG_PLATE | RUNG_TYPE_APPROVAL | NO_MATCH

record match_result =
  rung :: match_rung
  matched_vehicle :: "vehicle_mdm option"
  decisive :: bool
  requires_confirmation :: bool
  match_code :: "int option"

definition no_match :: match_result where
  "no_match = \<lparr>rung = NO_MATCH, matched_vehicle = None, decisive = False, requires_confirmation = False, match_code = None\<rparr>"

text \<open>What a request gives: an absent or empty field does not take part.\<close>

record match_request =
  mr_vin :: "string option"
  mr_stammnummer :: "string option"
  mr_plate :: "string option"
  mr_canton :: "string option"
  mr_vehicle_kind :: "string option"
  mr_type_approval_number :: "string option"
  mr_first_registration_date :: "date option"

definition given :: "string option \<Rightarrow> string option" where
  "given s = (case s of Some t \<Rightarrow> if t = [] then None else Some t | None \<Rightarrow> None)"

definition vehicle_kind_of :: "vehicle_mdm \<Rightarrow> 'a master_db_scheme \<Rightarrow> string option" where
  "vehicle_kind_of v db = (case catalogue_variant_of v db of None \<Rightarrow> None | Some m \<Rightarrow> vehicle_kind m)"

definition match_by_vin :: "match_request \<Rightarrow> 'a master_db_scheme \<Rightarrow> match_result option" where
  "match_by_vin req db = (case given (mr_vin req) of None \<Rightarrow> None
     | Some vin \<Rightarrow> map_option (\<lambda>v. \<lparr>rung = RUNG_VIN, matched_vehicle = Some v, decisive = True,
         requires_confirmation = False, match_code = None\<rparr>) (get_vehicle_mdm_by_vin vin db))"

definition match_by_stammnummer :: "match_request \<Rightarrow> 'a master_db_scheme \<Rightarrow> match_result option" where
  "match_by_stammnummer req db = (case given (mr_stammnummer req) of None \<Rightarrow> None
     | Some n \<Rightarrow> map_option (\<lambda>v. \<lparr>rung = RUNG_STAMMNUMMER, matched_vehicle = Some v, decisive = True,
         requires_confirmation = False, match_code = None\<rparr>) (select_one (\<lambda>v. stammnummer v = Some n) (vehicle_mdms db)))"

definition match_by_plate :: "datetime \<Rightarrow> match_request \<Rightarrow> 'a master_db_scheme \<Rightarrow> match_result option" where
  "match_by_plate now req db = (case (given (mr_plate req), given (mr_canton req)) of
     (Some plate, Some canton) \<Rightarrow>
       (case remdups (map plate_vehicle_id (resolve_plate now plate canton None False db)) of
          [vid] \<Rightarrow> (case select_one (\<lambda>v. mdm_id v = vid) (vehicle_mdms db) of
              Some v \<Rightarrow> if mr_vehicle_kind req = None \<or> vehicle_kind_of v db = mr_vehicle_kind req
                then Some \<lparr>rung = RUNG_PLATE, matched_vehicle = Some v, decisive = False,
                  requires_confirmation = True, match_code = None\<rparr> else None
            | None \<Rightarrow> None)
        | _ \<Rightarrow> None)
   | _ \<Rightarrow> None)"

definition match_by_type_approval :: "match_request \<Rightarrow> 'a master_db_scheme \<Rightarrow> match_result option" where
  "match_by_type_approval req db = (case given (mr_type_approval_number req) of None \<Rightarrow> None
     | Some n \<Rightarrow> (case select_all (\<lambda>v. type_approval_number v = Some n
           \<and> (mr_first_registration_date req = None \<or> mdm_first_registration_date v = mr_first_registration_date req))
           (vehicle_mdms db) of
          [] \<Rightarrow> None
        | v # vs \<Rightarrow> Some \<lparr>rung = RUNG_TYPE_APPROVAL, matched_vehicle = Some v, decisive = False,
            requires_confirmation = True, match_code = Some (if vs = [] then 1 else 2)\<rparr>))"

fun first_match :: "match_result option list \<Rightarrow> match_result" where
  "first_match [] = no_match"
| "first_match (Some r # _) = r"
| "first_match (None # rs) = first_match rs"

definition match_vehicle :: "datetime \<Rightarrow> match_request \<Rightarrow> 'a master_db_scheme \<Rightarrow> match_result" where
  "match_vehicle now req db = first_match [match_by_vin req db, match_by_stammnummer req db, match_by_plate now req db,
     match_by_type_approval req db]"

section \<open>Properties\<close>

definition in_conflict :: "datetime \<Rightarrow> vehicle_plate \<Rightarrow> vehicle_plate \<Rightarrow> bool" where
  "in_conflict now row other \<longleftrightarrow> plate_text other = plate_text row \<and> plate_canton other = plate_canton row
     \<and> plate_vehicle_id other \<noteq> plate_vehicle_id row \<and> is_current other (date_of now)
     \<and> \<not> (plate_group_id row \<noteq> None \<and> plate_group_id other = plate_group_id row)"

definition plates_inv :: "'a master_db_scheme \<Rightarrow> bool" where
  "plates_inv db \<longleftrightarrow> (\<forall>r \<in> set (vehicle_plates db). plate_id r < uuid_supply db)
     \<and> (\<forall>c \<in> set (vehicle_plate_conflicts db). first_plate_id c < uuid_supply db \<and> second_plate_id c < uuid_supply db)"


text \<open>
  C22: only an exact VIN or an exact Stammnummer decides. The result is decisive exactly when one of
  the two is given and known, the vehicle then carries it, and every other match, by plate or by type
  approval, asks for confirmation.
\<close>

theorem only_vin_or_stammnummer_decides:
  "(decisive (match_vehicle now req db) \<longleftrightarrow>
      (\<exists>vin. given (mr_vin req) = Some vin \<and> get_vehicle_mdm_by_vin vin db \<noteq> None)
      \<or> (\<exists>n v. given (mr_stammnummer req) = Some n \<and> v \<in> set (vehicle_mdms db) \<and> stammnummer v = Some n))
    \<and> (\<forall>v. decisive (match_vehicle now req db) \<and> matched_vehicle (match_vehicle now req db) = Some v \<longrightarrow>
        v \<in> set (vehicle_mdms db) \<and> (given (mr_vin req) = Some (mdm_vin v) \<or> given (mr_stammnummer req) = stammnummer v))
    \<and> (requires_confirmation (match_vehicle now req db) \<longleftrightarrow>
        matched_vehicle (match_vehicle now req db) \<noteq> None \<and> \<not> decisive (match_vehicle now req db))"
proof (cases "match_by_vin req db")
  case (Some r)
  then obtain vin v where "given (mr_vin req) = Some vin" "get_vehicle_mdm_by_vin vin db = Some v"
    "r = \<lparr>rung = RUNG_VIN, matched_vehicle = Some v, decisive = True, requires_confirmation = False, match_code = None\<rparr>"
    by (auto simp: match_by_vin_def split: option.splits)
  then show ?thesis using Some get_vehicle_mdm_by_vin_SomeD [of vin db v] by (auto simp: match_vehicle_def)
next
  case vin: None
  then have no_vin: "\<not> (\<exists>vin. given (mr_vin req) = Some vin \<and> get_vehicle_mdm_by_vin vin db \<noteq> None)"
    by (auto simp: match_by_vin_def split: option.splits)
  show ?thesis
  proof (cases "match_by_stammnummer req db")
    case (Some r)
    then obtain n v where "given (mr_stammnummer req) = Some n" "select_one (\<lambda>v. stammnummer v = Some n) (vehicle_mdms db) = Some v"
      "r = \<lparr>rung = RUNG_STAMMNUMMER, matched_vehicle = Some v, decisive = True, requires_confirmation = False, match_code = None\<rparr>"
      by (auto simp: match_by_stammnummer_def split: option.splits)
    then show ?thesis using Some vin select_one_SomeD [of "\<lambda>v. stammnummer v = Some n" "vehicle_mdms db" v]
      by (auto simp: match_vehicle_def)
  next
    case None
    then have no_stamm: "\<not> (\<exists>n v. given (mr_stammnummer req) = Some n \<and> v \<in> set (vehicle_mdms db) \<and> stammnummer v = Some n)"
      by (auto simp: match_by_stammnummer_def select_one_None_iff split: option.splits)
    have "r = no_match \<or> \<not> decisive r \<and> requires_confirmation r \<and> matched_vehicle r \<noteq> None"
      if "r = first_match [match_by_plate now req db, match_by_type_approval req db]" for r
      unfolding that by (auto simp: match_by_plate_def match_by_type_approval_def split: option.splits list.splits if_splits)
    then show ?thesis using vin None no_vin no_stamm by (auto simp: match_vehicle_def no_match_def)
  qed
qed

definition dealer_plates_inv :: "'a master_db_scheme \<Rightarrow> bool" where
  "dealer_plates_inv db \<longleftrightarrow> (\<forall>a \<in> set (dealer_plate_assignments db). dpa_id a < uuid_supply db)
     \<and> distinct (map dpa_id (dealer_plate_assignments db))
     \<and> (\<forall>a \<in> set (dealer_plate_assignments db). \<forall>b \<in> set (dealer_plate_assignments db).
         dpa_dealer_plate_id a = dpa_dealer_plate_id b \<and> dpa_valid_to a = None \<and> dpa_valid_to b = None \<longrightarrow> a = b)"

text \<open>Taking a plate off the car it is on: its open assignment ends now.\<close>

definition taken_off :: "datetime \<Rightarrow> uuid \<Rightarrow> dealer_plate_assignment \<Rightarrow> dealer_plate_assignment" where
  "taken_off now i r = (if dpa_dealer_plate_id r = i \<and> dpa_valid_to r = None then r\<lparr>dpa_valid_to := Some now\<rparr> else r)"

lemma taken_off_simps [simp]:
  "dpa_id (taken_off now i r) = dpa_id r" "dpa_dealer_plate_id (taken_off now i r) = dpa_dealer_plate_id r"
  "dpa_dealer_plate_id r \<noteq> i \<Longrightarrow> taken_off now i r = r"
  by (simp_all add: taken_off_def)

lemma taken_off_open:
  "dpa_valid_to (taken_off now i r) = None \<Longrightarrow> dpa_dealer_plate_id r \<noteq> i \<and> taken_off now i r = r \<and> dpa_valid_to r = None"
  by (auto simp: taken_off_def split: if_splits)

lemma assign_dealer_plate_effect:
  assumes "dealer_plates_inv db" "assign_dealer_plate now dp vid db = (db', a)"
  shows "a = \<lparr>dpa_id = uuid_supply db, dpa_dealer_plate_id = dp_id dp, dpa_vehicle_id = vid,
      dpa_tenant_id = dp_tenant_id dp, dpa_valid_from = now, dpa_valid_to = None\<rparr>"
    "dealer_plate_assignments db' = map (taken_off now (dp_id dp)) (dealer_plate_assignments db) @ [a]"
    "uuid_supply db' = uuid_supply db + 1"
proof -
  let ?T = "dealer_plate_assignments db"
  let ?closed = "case current_dealer_plate_assignment (dp_id dp) db of None \<Rightarrow> ?T
    | Some c \<Rightarrow> update_where (\<lambda>r. dpa_id r = dpa_id c) (\<lambda>r. r\<lparr>dpa_valid_to := Some now\<rparr>) ?T"
  have closed: "?closed = map (taken_off now (dp_id dp)) ?T"
  proof (cases "current_dealer_plate_assignment (dp_id dp) db")
    case None
    then have "\<not> (dpa_dealer_plate_id r = dp_id dp \<and> dpa_valid_to r = None)" if "r \<in> set ?T" for r
      using that unfolding current_dealer_plate_assignment_def select_one_None_iff by blast
    then show ?thesis using None by (auto simp: taken_off_def intro!: map_idI [symmetric])
  next
    case (Some c)
    then have c: "c \<in> set ?T" "dpa_dealer_plate_id c = dp_id dp" "dpa_valid_to c = None"
      unfolding current_dealer_plate_assignment_def by (auto dest: select_one_SomeD)
    have "dpa_id r = dpa_id c \<longleftrightarrow> dpa_dealer_plate_id r = dp_id dp \<and> dpa_valid_to r = None" if "r \<in> set ?T" for r
      using assms(1) c that unfolding dealer_plates_inv_def by (metis distinct_key_unique)
    then show ?thesis using Some by (simp add: update_where_def taken_off_def)
  qed
  show "a = \<lparr>dpa_id = uuid_supply db, dpa_dealer_plate_id = dp_id dp, dpa_vehicle_id = vid,
      dpa_tenant_id = dp_tenant_id dp, dpa_valid_from = now, dpa_valid_to = None\<rparr>" "uuid_supply db' = uuid_supply db + 1"
    using assms(2) unfolding assign_dealer_plate_def draw_uuid_def Let_def by auto
  have "dealer_plate_assignments db' = ?closed @ [a]"
    using assms(2) unfolding assign_dealer_plate_def draw_uuid_def Let_def by auto
  then show "dealer_plate_assignments db' = map (taken_off now (dp_id dp)) ?T @ [a]" unfolding closed .
qed

lemma current_after_taking_off:
  "select_one (\<lambda>r. dpa_dealer_plate_id r = i \<and> dpa_valid_to r = None) (map (taken_off now j) xs)
    = (if i = j then None else select_one (\<lambda>r. dpa_dealer_plate_id r = i \<and> dpa_valid_to r = None) xs)"
  by (induction xs) (auto simp: taken_off_def)

lemma assign_dealer_plate_inv:
  assumes "dealer_plates_inv db" "assign_dealer_plate now dp vid db = (db', a)"
  shows "dealer_plates_inv db'"
proof -
  note e = assign_dealer_plate_effect [OF assms]
  let ?T = "dealer_plate_assignments db"
  have "uuid_supply db \<notin> set (map dpa_id ?T)" using assms(1) by (auto simp: dealer_plates_inv_def)
  then have "distinct (map dpa_id (dealer_plate_assignments db'))"
    using assms(1) unfolding e(2) dealer_plates_inv_def by (simp add: e(1) comp_def image_image)
  moreover have "\<forall>r \<in> set (dealer_plate_assignments db'). dpa_id r < uuid_supply db'"
    using assms(1) unfolding e(2,3) dealer_plates_inv_def by (auto simp: e(1) less_SucI)
  moreover have "r = s" if r: "r \<in> set (dealer_plate_assignments db')" and s: "s \<in> set (dealer_plate_assignments db')"
    and eq: "dpa_dealer_plate_id r = dpa_dealer_plate_id s" "dpa_valid_to r = None" "dpa_valid_to s = None" for r s
  proof -
    have row: "x = a \<or> x \<in> set ?T \<and> dpa_dealer_plate_id x \<noteq> dp_id dp"
      if "x \<in> set (dealer_plate_assignments db')" "dpa_valid_to x = None" for x
      using that unfolding e(2) by (auto dest: taken_off_open)
    show ?thesis using row [OF r eq(2)] row [OF s eq(3)] eq assms(1) unfolding dealer_plates_inv_def e(1) by auto
  qed
  ultimately show ?thesis unfolding dealer_plates_inv_def by blast
qed


text \<open>One concrete plate history: the plate ZH 1 on car 4, then on car 5; and dealer plate 3.\<close>

definition plated_db :: master_db where
  "plated_db = empty_master_db\<lparr>uuid_supply := 20, vehicle_plates := [\<lparr>plate_id = 2, plate_vehicle_id = 4, plate_text = ''1'',
     plate_canton = ''ZH'', plate_valid_from = 0, plate_valid_to = None, is_interchangeable = False,
     plate_group_id = None, recording_tenant_id = 3\<rparr>]\<rparr>"



theorem only_vin_or_stammnummer_decides_witness:
  "\<not> decisive (match_vehicle 100 \<lparr>mr_vin = None, mr_stammnummer = None, mr_plate = Some ''1'', mr_canton = Some ''ZH'',
      mr_vehicle_kind = None, mr_type_approval_number = None, mr_first_registration_date = None\<rparr> plated_db)"
  using only_vin_or_stammnummer_decides [of 100 "\<lparr>mr_vin = None, mr_stammnummer = None, mr_plate = Some ''1'', mr_canton = Some ''ZH'',
      mr_vehicle_kind = None, mr_type_approval_number = None, mr_first_registration_date = None\<rparr>" plated_db]
  by (simp add: given_def)

end
