(* ===== verification/Platform_Users.thy ===== *)
theory Platform_Users
  imports Master_Data
begin

text \<open>
  Who may act where (\<^verbatim>\<open>app/platform/services/user.py\<close>, \<^verbatim>\<open>models/dealership_membership.py\<close>): a
  user acts in the home dealership and in every dealership an active membership names; a record
  that is still open may only be held by a user who acts there and is active or invited.
\<close>

definition is_active_membership :: "datetime \<Rightarrow> dealership_membership \<Rightarrow> bool" where
  "is_active_membership now m \<longleftrightarrow> (case mem_valid_to m of None \<Rightarrow> True | Some t \<Rightarrow> t > now)"

definition list_membership_dealership_ids :: "datetime \<Rightarrow> uuid \<Rightarrow> 'a master_db_scheme \<Rightarrow> uuid list" where
  "list_membership_dealership_ids now uid db =
     map mem_dealership_id (select_all (\<lambda>m. mem_user_id m = uid \<and> is_active_membership now m) (dealership_memberships db))"

definition get_user :: "uuid \<Rightarrow> 'a master_db_scheme \<Rightarrow> user option" where
  "get_user uid db = select_one (\<lambda>u. user_id u = uid) (users db)"

definition list_user_dealership_ids :: "datetime \<Rightarrow> uuid \<Rightarrow> 'a master_db_scheme \<Rightarrow> uuid list" where
  "list_user_dealership_ids now uid db =
     (case get_user uid db of None \<Rightarrow> []
      | Some u \<Rightarrow> user_tenant_id u # list_membership_dealership_ids now uid db)"

definition get_user_acting_in :: "datetime \<Rightarrow> uuid \<Rightarrow> uuid \<Rightarrow> 'a master_db_scheme \<Rightarrow> user option" where
  "get_user_acting_in now dealership_id uid db =
     (case get_user uid db of None \<Rightarrow> None
      | Some u \<Rightarrow> if user_tenant_id u = dealership_id
                  \<or> List.member (list_membership_dealership_ids now uid db) dealership_id then Some u else None)"

definition is_active_user :: "user \<Rightarrow> bool" where
  "is_active_user u \<longleftrightarrow> user_status u = INVITED \<or> user_status u = ACTIVE_USER"

definition get_active_user_acting_in :: "datetime \<Rightarrow> uuid \<Rightarrow> uuid \<Rightarrow> 'a master_db_scheme \<Rightarrow> user option" where
  "get_active_user_acting_in now dealership_id uid db =
     (case get_user_acting_in now dealership_id uid db of None \<Rightarrow> None
      | Some u \<Rightarrow> if is_active_user u then Some u else None)"

lemma get_user_acting_in_iff:
  "get_user_acting_in now d uid db = Some u \<longleftrightarrow>
     get_user uid db = Some u \<and> d \<in> set (list_user_dealership_ids now uid db)"
  by (auto simp: get_user_acting_in_def list_user_dealership_ids_def split: option.splits)

end
