(* ===== verification/Sales_Deals.thy ===== *)
theory Sales_Deals
  imports Inventory_Consumers Customer_Parties Vehicle_Plates Platform_Users
begin

text \<open>
  The Sales context's data and what an offer and a pending contract share
  (\<^verbatim>\<open>app/sales/models\<close>, \<^verbatim>\<open>services/priced_deal.py, pricing.py, snapshot.py, line_items.py,
  deal_editing.py, deal_projection.py, contract_completeness.py, numbering.py, ownership.py\<close>).

  \<open>SalesOffer\<close> and \<open>SalesContract\<close> have the same vehicle, price and trade-in columns; here they are
  the record \<open>priced_deal\<close>, held by both rows. The union \<open>PricedDeal\<close> is the datatype \<open>deal\<close>. A
  function that changes a deal returns the changed row; \<open>save_deal\<close> is its flush. The column
  \<open>updated_at\<close>, which the ORM stamps and no service reads, is left out.
\<close>

section \<open>Rows\<close>

text \<open>
  \<open>_identity\<close> of a snapshot. The three texts \<open>stock:..\<close>, \<open>configuration:..:..\<close> and \<open>manual:..\<close>
  differ in their prefix and format identifiers injectively; the last one keeps its text, since a
  label may contain the separator.
\<close>

datatype vehicle_identity =
    StockIdentity uuid
  | ConfigurationIdentity uuid nat
  | ManualIdentity string

record vehicle_snapshot =
  snap_identity :: vehicle_identity
  snap_vehicle_label :: "string option"
  snap_condition :: "string option"
  snap_configuration_id :: "uuid option"
  snap_configuration_version :: "nat option"
  snap_base_price :: "decimal option"
  snap_base_price_year :: "int option"
  snap_list_price :: "decimal option"
  snap_effective_price :: "decimal option"
  snap_purchase_price :: "decimal option"
  snap_landed_cost :: "decimal option"
  snap_notional_input_tax_applicable :: "bool option"
  snap_notional_input_tax_rate :: "decimal option"
  snap_notional_input_tax_amount :: "decimal option"
  snap_spec :: "payload option"

record priced_deal =
  pd_id :: uuid
  pd_tenant_id :: uuid
  pd_version :: nat
  pd_created_at :: datetime
  pd_created_by :: "uuid option"
  pd_updated_by :: "uuid option"
  pd_customer_id :: "uuid option"
  pd_customer_label :: "string option"
  pd_customer_locality :: "string option"
  pd_customer_denorm_refreshed_at :: "datetime option"
  pd_customer_language :: "string option"
  owner_user_id :: "uuid option"
  owner_label :: "string option"
  owner_label_refreshed_at :: "datetime option"
  vehicle_source :: "string option"
  pd_stock_item_id :: "uuid option"
  pd_vehicle_label :: "string option"
  manual_vehicle_condition :: "string option"
  pd_configuration_id :: "uuid option"
  pd_configuration_label :: "string option"
  pd_configuration_label_refreshed_at :: "datetime option"
  manual_base_price :: "decimal option"
  vehicle_snapshot :: "vehicle_snapshot option"
  vehicle_snapshot_frozen_at :: "datetime option"
  base_price :: "decimal option"
  options_total :: "decimal option"
  pd_list_price :: "decimal option"
  accessories_total :: "decimal option"
  total_before_discount :: "decimal option"
  discount_type :: "string option"
  discount_value :: "decimal option"
  discount_amount :: "decimal option"
  gross_price :: "decimal option"
  cost_basis :: "decimal option"
  margin :: "decimal option"
  trade_in_vehicle_id :: "uuid option"
  trade_in_label :: "string option"
  trade_in_vin :: "string option"
  trade_in_configuration_id :: "uuid option"
  trade_in_configuration_label_refreshed_at :: "datetime option"
  trade_in_valuation_id :: "uuid option"
  trade_in_value :: "decimal option"
  trade_in_purchase_price :: "decimal option"
  payable :: "decimal option"
  cancelled_reason :: "string option"

datatype offer_status = OF_DRAFT | OF_OPEN | OF_CANCELLED

record sales_offer =
  off_deal :: priced_deal
  offer_number :: string
  offer_status :: offer_status
  leasing_down_payment :: "decimal option"
  leasing_term_months :: "int option"
  leasing_km_per_year :: "int option"
  copied_from_offer_id :: "uuid option"

datatype financing_kind = CASH | LEASING | CREDIT

record sales_contract =
  con_deal :: priced_deal
  contract_number :: string
  con_offer_id :: "uuid option"
  con_offer_number :: "string option"
  contract_status :: contract_status
  stock_item_label :: "string option"
  stock_item_denorm_refreshed_at :: "datetime option"
  financing :: "financing_kind option"
  reservation_id :: "uuid option"
  signed_at :: "datetime option"
  delivery_date :: "date option"
  invoice_ref :: "string option"
  legacy_transaction_id :: "uuid option"

datatype line_item_kind = FACTORY_OPTION | ACCESSORY

record sales_line_item =
  li_id :: uuid
  li_tenant_id :: uuid
  li_offer_id :: "uuid option"
  li_contract_id :: "uuid option"
  li_kind :: line_item_kind
  li_code :: string
  li_label :: string
  unit_price :: decimal
  quantity :: int
  included :: bool
  li_discount_type :: "string option"
  li_discount_value :: "decimal option"
  discount_resolved_amount :: "decimal option"
  discount_suppressed_reason :: "string option"
  li_position :: nat

datatype entity_type = OFFER_ENTITY | CONTRACT_ENTITY

text \<open>The grid's row. Its status column holds either entity's status text.\<close>

record sales_deal =
  sd_id :: uuid
  sd_tenant_id :: uuid
  sd_entity_type :: entity_type
  sd_number :: string
  sd_status :: string
  sd_offer_id :: "uuid option"
  sd_offer_number :: "string option"
  sd_contract_id :: "uuid option"
  sd_contract_number :: "string option"
  sd_customer_id :: "uuid option"
  sd_customer_label :: "string option"
  sd_customer_locality :: "string option"
  sd_customer_denorm_refreshed_at :: "datetime option"
  sd_vehicle_label :: "string option"
  sd_owner_user_id :: "uuid option"
  sd_owner_label :: "string option"
  sd_owner_label_refreshed_at :: "datetime option"
  sd_gross_price :: "decimal option"
  sd_margin :: "decimal option"
  documents_count :: nat

text \<open>
  The frozen content of a document, before translation: a label is the key its text is looked up by
  in the recorded correspondence language (\<^verbatim>\<open>app/sales/i18n.py\<close>).
\<close>

datatype line_style = LINE_NORMAL | LINE_SUB | LINE_TOTAL | LINE_GRAND

datatype line_label =
    LabelBasePrice | LabelOption string | LabelOptionsTotal | LabelListPrice | LabelAccessoriesTotal
  | LabelDiscountAmount | LabelGrossPrice | LabelTradeInValue | LabelPayable | LabelIncludedVat decimal

record document_line =
  dl_label :: line_label
  dl_amount :: decimal
  dl_style :: line_style

record document_content =
  dc_title :: "entity_type \<times> string"
  dc_date :: date
  dc_addressee :: string
  dc_greeting :: bool
  dc_vehicle :: string
  dc_lines :: "document_line list"

record sales_document =
  doc_id :: uuid
  doc_tenant_id :: uuid
  doc_owner_type :: entity_type
  doc_owner_id :: uuid
  doc_version :: nat
  correspondence_language :: string
  content_definition :: document_content
  rendered_at :: datetime
  rendered_by :: "uuid option"

record sales_stock_item_purchase =
  ssp_tenant_id :: uuid
  ssp_stock_item_id :: uuid
  ssp_stock_item_label :: "string option"
  ssp_stock_item_denorm_refreshed_at :: "datetime option"
  ssp_recorded_at :: datetime
  ssp_source_event_id :: "uuid option"

record sales_db = inventory_db +
  sales_offers :: "sales_offer list"
  sales_contracts :: "sales_contract list"
  sales_line_items :: "sales_line_item list"
  sales_deals :: "sales_deal list"
  sales_documents :: "sales_document list"
  sales_number_sequence :: "(uuid \<times> string) sequences"
  sales_stock_item_purchases :: "sales_stock_item_purchase list"

section \<open>A priced deal\<close>

datatype deal = OfferDeal sales_offer | ContractDeal sales_contract

fun columns :: "deal \<Rightarrow> priced_deal" where
  "columns (OfferDeal o1) = off_deal o1"
| "columns (ContractDeal c) = con_deal c"

fun set_columns :: "priced_deal \<Rightarrow> deal \<Rightarrow> deal" where
  "set_columns p (OfferDeal o1) = OfferDeal (o1\<lparr>off_deal := p\<rparr>)"
| "set_columns p (ContractDeal c) = ContractDeal (c\<lparr>con_deal := p\<rparr>)"

abbreviation off_id :: "sales_offer \<Rightarrow> uuid" where "off_id o1 \<equiv> pd_id (off_deal o1)"
abbreviation con_id :: "sales_contract \<Rightarrow> uuid" where "con_id c \<equiv> pd_id (con_deal c)"
abbreviation deal_id :: "deal \<Rightarrow> uuid" where "deal_id d \<equiv> pd_id (columns d)"

fun deal_number :: "deal \<Rightarrow> string" where
  "deal_number (ContractDeal c) = contract_number c"
| "deal_number (OfferDeal o1) = offer_number o1"

definition save_offer :: "sales_offer \<Rightarrow> 'a sales_db_scheme \<Rightarrow> 'a sales_db_scheme" where
  "save_offer o1 db = db\<lparr>sales_offers := update_where (\<lambda>r. off_id r = off_id o1) (\<lambda>_. o1) (sales_offers db)\<rparr>"

definition save_contract :: "sales_contract \<Rightarrow> 'a sales_db_scheme \<Rightarrow> 'a sales_db_scheme" where
  "save_contract c db = db\<lparr>sales_contracts := update_where (\<lambda>r. con_id r = con_id c) (\<lambda>_. c) (sales_contracts db)\<rparr>"

fun save_deal :: "deal \<Rightarrow> 'a sales_db_scheme \<Rightarrow> 'a sales_db_scheme" where
  "save_deal (OfferDeal o1) db = save_offer o1 db"
| "save_deal (ContractDeal c) db = save_contract c db"

text \<open>\<open>updated_by\<close> and the optimistic-lock version, as every write of a deal sets them.\<close>

definition touch :: "uuid option \<Rightarrow> priced_deal \<Rightarrow> priced_deal" where
  "touch actor_id p = p\<lparr>pd_updated_by := actor_id, pd_version := pd_version p + 1\<rparr>"

section \<open>Numbers\<close>

definition allocate_sales_number :: "uuid \<Rightarrow> string \<Rightarrow> string \<Rightarrow> 'a sales_db_scheme \<Rightarrow> string \<times> 'a sales_db_scheme" where
  "allocate_sales_number tenant_id series prefix db =
     (let (v, seqs) = allocate_value (tenant_id, series) (sales_number_sequence db)
      in (prefix @ ''-'' @ pad6 v, db\<lparr>sales_number_sequence := seqs\<rparr>))"

definition allocate_offer_number :: "uuid \<Rightarrow> 'a sales_db_scheme \<Rightarrow> string \<times> 'a sales_db_scheme" where
  "allocate_offer_number tenant_id = allocate_sales_number tenant_id ''offer'' ''O''"

definition allocate_contract_number :: "uuid \<Rightarrow> 'a sales_db_scheme \<Rightarrow> string \<times> 'a sales_db_scheme" where
  "allocate_contract_number tenant_id = allocate_sales_number tenant_id ''contract'' ''C''"

section \<open>Deal grid\<close>

fun offer_status_text :: "offer_status \<Rightarrow> string" where
  "offer_status_text OF_DRAFT = ''draft''"
| "offer_status_text OF_OPEN = ''open''"
| "offer_status_text OF_CANCELLED = ''cancelled''"

fun contract_status_text :: "contract_status \<Rightarrow> string" where
  "contract_status_text CT_PENDING = ''pending''"
| "contract_status_text CT_CONFIRMED = ''confirmed''"
| "contract_status_text CT_INVOICED = ''invoiced''"
| "contract_status_text CT_CANCELLED = ''cancelled''"

definition count_documents :: "uuid \<Rightarrow> entity_type \<Rightarrow> uuid \<Rightarrow> 'a sales_db_scheme \<Rightarrow> nat" where
  "count_documents tenant_id owner_type owner_id db = length (select_all (\<lambda>d. doc_tenant_id d = tenant_id
     \<and> doc_owner_type d = owner_type \<and> doc_owner_id d = owner_id) (sales_documents db))"

definition is_live_contract_of :: "sales_offer \<Rightarrow> sales_contract \<Rightarrow> bool" where
  "is_live_contract_of o1 c \<longleftrightarrow> pd_tenant_id (con_deal c) = pd_tenant_id (off_deal o1)
     \<and> con_offer_id c = Some (off_id o1) \<and> contract_status c \<noteq> CT_CANCELLED"

text \<open>Newest first, limit one.\<close>

definition live_contract_of :: "sales_offer \<Rightarrow> 'a sales_db_scheme \<Rightarrow> sales_contract option" where
  "live_contract_of o1 db =
     (case rev (sort_key (\<lambda>c. pd_created_at (con_deal c)) (select_all (is_live_contract_of o1) (sales_contracts db))) of
        [] \<Rightarrow> None | c # _ \<Rightarrow> Some c)"

definition contract_row :: "sales_contract \<Rightarrow> 'a sales_db_scheme \<Rightarrow> sales_deal" where
  "contract_row c db = (let p = con_deal c in
     \<lparr>sd_id = (case con_offer_id c of Some i \<Rightarrow> i | None \<Rightarrow> con_id c), sd_tenant_id = pd_tenant_id p,
      sd_entity_type = CONTRACT_ENTITY, sd_number = contract_number c,
      sd_status = contract_status_text (contract_status c), sd_offer_id = con_offer_id c,
      sd_offer_number = con_offer_number c, sd_contract_id = Some (con_id c),
      sd_contract_number = Some (contract_number c), sd_customer_id = pd_customer_id p,
      sd_customer_label = pd_customer_label p, sd_customer_locality = pd_customer_locality p,
      sd_customer_denorm_refreshed_at = pd_customer_denorm_refreshed_at p,
      sd_vehicle_label = pd_vehicle_label p, sd_owner_user_id = owner_user_id p,
      sd_owner_label = owner_label p, sd_owner_label_refreshed_at = owner_label_refreshed_at p,
      sd_gross_price = gross_price p, sd_margin = margin p,
      documents_count = (case con_offer_id c of
          Some i \<Rightarrow> count_documents (pd_tenant_id p) OFFER_ENTITY i db | None \<Rightarrow> 0)
        + count_documents (pd_tenant_id p) CONTRACT_ENTITY (con_id c) db\<rparr>)"

definition offer_row :: "sales_offer \<Rightarrow> 'a sales_db_scheme \<Rightarrow> sales_deal" where
  "offer_row o1 db = (let p = off_deal o1 in
     \<lparr>sd_id = off_id o1, sd_tenant_id = pd_tenant_id p, sd_entity_type = OFFER_ENTITY,
      sd_number = offer_number o1, sd_status = offer_status_text (offer_status o1),
      sd_offer_id = Some (off_id o1), sd_offer_number = Some (offer_number o1), sd_contract_id = None,
      sd_contract_number = None, sd_customer_id = pd_customer_id p, sd_customer_label = pd_customer_label p,
      sd_customer_locality = pd_customer_locality p,
      sd_customer_denorm_refreshed_at = pd_customer_denorm_refreshed_at p,
      sd_vehicle_label = pd_vehicle_label p, sd_owner_user_id = owner_user_id p,
      sd_owner_label = owner_label p, sd_owner_label_refreshed_at = owner_label_refreshed_at p,
      sd_gross_price = gross_price p, sd_margin = None,
      documents_count = count_documents (pd_tenant_id p) OFFER_ENTITY (off_id o1) db\<rparr>)"

text \<open>
  \<open>db.get\<close>, insert when absent, then every column but the two fixed at the insert (the key and the
  tenant) is written.
\<close>

definition write_deal_row :: "sales_deal \<Rightarrow> 'a sales_db_scheme \<Rightarrow> 'a sales_db_scheme" where
  "write_deal_row row db =
     (if select_one (\<lambda>d. sd_id d = sd_id row) (sales_deals db) = None
      then db\<lparr>sales_deals := sales_deals db @ [row]\<rparr>
      else db\<lparr>sales_deals := update_where (\<lambda>d. sd_id d = sd_id row)
        (\<lambda>d. row\<lparr>sd_tenant_id := sd_tenant_id d\<rparr>) (sales_deals db)\<rparr>)"

definition project_contract :: "sales_contract \<Rightarrow> 'a sales_db_scheme \<Rightarrow> 'a sales_db_scheme" where
  "project_contract c db = write_deal_row (contract_row c db) db"

definition project_offer :: "sales_offer \<Rightarrow> 'a sales_db_scheme \<Rightarrow> 'a sales_db_scheme" where
  "project_offer o1 db = write_deal_row (offer_row o1 db) db"

definition project_live_entity :: "sales_offer \<Rightarrow> 'a sales_db_scheme \<Rightarrow> 'a sales_db_scheme" where
  "project_live_entity o1 db =
     (case live_contract_of o1 db of Some c \<Rightarrow> project_contract c db | None \<Rightarrow> project_offer o1 db)"

fun upsert_deal_projection :: "deal \<Rightarrow> 'a sales_db_scheme \<Rightarrow> 'a sales_db_scheme" where
  "upsert_deal_projection (ContractDeal c) db =
     (if contract_status c \<noteq> CT_CANCELLED then project_contract c db
      else case con_offer_id c of
        None \<Rightarrow> project_contract c db
      | Some oid \<Rightarrow> (case select_one (\<lambda>r. off_id r = oid) (sales_offers db) of
          None \<Rightarrow> project_contract c db
        | Some freed \<Rightarrow> project_live_entity freed db))"
| "upsert_deal_projection (OfferDeal o1) db = project_live_entity o1 db"

section \<open>Completeness and editability\<close>

definition has_vehicle :: "priced_deal \<Rightarrow> bool" where
  "has_vehicle p \<longleftrightarrow> vehicle_source p \<noteq> None \<and> (pd_stock_item_id p \<noteq> None \<or> pd_vehicle_label p \<noteq> None)"

definition has_base_price :: "priced_deal \<Rightarrow> bool" where
  "has_base_price p \<longleftrightarrow> (vehicle_source p = Some ''manual'' \<and> manual_base_price p \<noteq> None)
     \<or> (vehicle_source p = Some ''stock'' \<and> (case vehicle_snapshot p of None \<Rightarrow> False
          | Some s \<Rightarrow> snap_base_price s \<noteq> None))"

definition is_priced_without_inputs :: "sales_contract \<Rightarrow> bool" where
  "is_priced_without_inputs c \<longleftrightarrow> vehicle_snapshot (con_deal c) = None \<and> gross_price (con_deal c) \<noteq> None"

definition has_price :: "sales_contract \<Rightarrow> bool" where
  "has_price c \<longleftrightarrow> gross_price (con_deal c) \<noteq> None"

definition reason_error :: "string \<Rightarrow> exn" where
  "reason_error r = ConflictError [(''reason'', JStr r)]"

definition require_complete :: "sales_contract \<Rightarrow> unit result" where
  "require_complete c =
     bindR (raise_if (\<not> has_vehicle (con_deal c)) (reason_error ''missing_vehicle'')) (\<lambda>_.
     raise_if (\<not> has_price c) (reason_error ''missing_price''))"

definition require_no_live_contract :: "sales_offer \<Rightarrow> 'a sales_db_scheme \<Rightarrow> unit result" where
  "require_no_live_contract o1 db = (case live_contract_of o1 db of None \<Rightarrow> Inr ()
     | Some c \<Rightarrow> Inl (ConflictError [(''reason'', JStr ''offer_has_contract''), (''contractId'', JUuid (con_id c)),
         (''contractNumber'', JStr (contract_number c))]))"

definition require_pending :: "sales_contract \<Rightarrow> unit result" where
  "require_pending c = raise_if (contract_status c \<noteq> CT_PENDING)
     (ConflictError [(''reason'', JStr ''contract_not_pending''),
       (''status'', JStr (contract_status_text (contract_status c)))])"

fun require_editable :: "deal \<Rightarrow> 'a sales_db_scheme \<Rightarrow> unit result" where
  "require_editable (ContractDeal c) db =
     bindR (require_pending c) (\<lambda>_.
     raise_if (is_priced_without_inputs c) (reason_error ''contract_priced_without_inputs''))"
| "require_editable (OfferDeal o1) db =
     bindR (raise_if (offer_status o1 \<noteq> OF_DRAFT) (ConflictError [])) (\<lambda>_. require_no_live_contract o1 db)"

text \<open>\<open>db.refresh(deal)\<close>: the row as committed; a row that is gone cannot be refreshed.\<close>

fun refresh_deal :: "deal \<Rightarrow> 'a sales_db_scheme \<Rightarrow> deal result" where
  "refresh_deal (OfferDeal o1) db = (case select_one (\<lambda>r. off_id r = off_id o1) (sales_offers db) of
     None \<Rightarrow> Inl NoResultFound | Some r \<Rightarrow> Inr (OfferDeal r))"
| "refresh_deal (ContractDeal c) db = (case select_one (\<lambda>r. con_id r = con_id c) (sales_contracts db) of
     None \<Rightarrow> Inl NoResultFound | Some r \<Rightarrow> Inr (ContractDeal r))"

definition lock_editable :: "deal \<Rightarrow> nat \<Rightarrow> 'a sales_db_scheme \<Rightarrow> deal result" where
  "lock_editable d version_seen db =
     bindR (refresh_deal d db) (\<lambda>d'.
     bindR (require_editable d' db) (\<lambda>_.
     bindR (check_version (pd_version (columns d')) version_seen) (\<lambda>_. Inr d')))"

datatype requirement = REQUIRED | OPTIONAL
datatype container_status = NOT_STARTED | IN_PROGRESS | COMPLETE | PLACEHOLDER

record container_state =
  container_id :: string
  container_requirement :: requirement
  container_status :: container_status

definition compute_containers :: "deal \<Rightarrow> container_state list" where
  "compute_containers d =
     (let p = columns d; vehicle = has_vehicle p;
          priced = has_base_price p \<or> (case d of ContractDeal c \<Rightarrow> is_priced_without_inputs c | OfferDeal _ \<Rightarrow> False)
      in [\<lparr>container_id = ''customer'', container_requirement = REQUIRED,
           container_status = (if pd_customer_id p \<noteq> None then COMPLETE else NOT_STARTED)\<rparr>,
          \<lparr>container_id = ''vehicle'', container_requirement = REQUIRED,
           container_status = (if vehicle then COMPLETE else NOT_STARTED)\<rparr>,
          \<lparr>container_id = ''pricing'', container_requirement = REQUIRED,
           container_status = (if priced then COMPLETE else if vehicle then IN_PROGRESS else NOT_STARTED)\<rparr>,
          \<lparr>container_id = ''trade_in'', container_requirement = OPTIONAL,
           container_status = (if trade_in_vehicle_id p \<noteq> None then COMPLETE else NOT_STARTED)\<rparr>]
         @ (case d of OfferDeal _ \<Rightarrow> [\<lparr>container_id = ''leasing'', container_requirement = OPTIONAL,
              container_status = PLACEHOLDER\<rparr>] | ContractDeal _ \<Rightarrow> []))"

section \<open>Price build-up\<close>

fun line_item_owner_clause :: "deal \<Rightarrow> sales_line_item \<Rightarrow> bool" where
  "line_item_owner_clause (ContractDeal c) li \<longleftrightarrow> li_contract_id li = Some (con_id c)"
| "line_item_owner_clause (OfferDeal o1) li \<longleftrightarrow> li_offer_id li = Some (off_id o1)"

fun line_item_owner :: "deal \<Rightarrow> uuid option \<times> uuid option" where
  "line_item_owner (ContractDeal c) = (None, Some (con_id c))"
| "line_item_owner (OfferDeal o1) = (Some (off_id o1), None)"

definition vehicle_condition :: "deal \<Rightarrow> string option" where
  "vehicle_condition d = (let p = columns d in
     if vehicle_source p = Some ''manual'' then manual_vehicle_condition p
     else case vehicle_snapshot p of Some s \<Rightarrow> snap_condition s | None \<Rightarrow> None)"

definition resolve_discount :: "string option \<Rightarrow> decimal option \<Rightarrow> decimal \<Rightarrow> decimal" where
  "resolve_discount dtype dvalue base_amount = (case (dtype, dvalue) of
     (Some t, Some v) \<Rightarrow> if t = ''percent'' then quantize_cents (base_amount * v / 100) else v
   | _ \<Rightarrow> 0)"

definition or_zero :: "decimal option \<Rightarrow> decimal" where
  "or_zero x = (case x of Some v \<Rightarrow> v | None \<Rightarrow> 0)"

definition cost_basis_from_snapshot :: "vehicle_snapshot \<Rightarrow> decimal option" where
  "cost_basis_from_snapshot s =
     (let credit = or_zero (snap_notional_input_tax_amount s)
      in case snap_landed_cost s of Some c \<Rightarrow> Some (c - credit)
         | None \<Rightarrow> map_option (\<lambda>p. p - credit) (snap_purchase_price s))"

definition line_amount :: "sales_line_item \<Rightarrow> decimal" where
  "line_amount li = unit_price li * of_int (quantity li) - or_zero (discount_resolved_amount li)"

definition line_total :: "line_item_kind \<Rightarrow> sales_line_item list \<Rightarrow> decimal" where
  "line_total kind lis = sum_list (map line_amount (filter (\<lambda>li. li_kind li = kind \<and> included li) lis))"

record price_build_up =
  bu_base_price :: decimal
  bu_options_total :: decimal
  bu_list_price :: decimal
  bu_accessories_total :: decimal
  bu_total_before_discount :: decimal
  bu_discount_amount :: decimal
  bu_gross_price :: decimal
  bu_cost_basis :: "decimal option"
  bu_margin :: "decimal option"

text \<open>A deal with no snapshot reads the empty dict: no base price and no cost.\<close>

definition build_up :: "deal \<Rightarrow> 'a sales_db_scheme \<Rightarrow> price_build_up" where
  "build_up d db =
     (let p = columns d;
          (base, cost) = (if vehicle_source p = Some ''manual'' then (or_zero (manual_base_price p), None)
            else case vehicle_snapshot p of None \<Rightarrow> (0, None)
              | Some s \<Rightarrow> (or_zero (snap_base_price s), cost_basis_from_snapshot s));
          lis = select_all (line_item_owner_clause d) (sales_line_items db);
          opts = line_total FACTORY_OPTION lis; acc = line_total ACCESSORY lis;
          lp = base + opts; total = lp + acc;
          disc = resolve_discount (discount_type p) (discount_value p) total;
          gross = total - disc
      in \<lparr>bu_base_price = base, bu_options_total = opts, bu_list_price = lp, bu_accessories_total = acc,
          bu_total_before_discount = total, bu_discount_amount = disc, bu_gross_price = gross,
          bu_cost_basis = cost, bu_margin = map_option (\<lambda>c. gross - c) cost\<rparr>)"

definition with_build_up :: "price_build_up \<Rightarrow> priced_deal \<Rightarrow> priced_deal" where
  "with_build_up r p = p\<lparr>base_price := Some (bu_base_price r), options_total := Some (bu_options_total r),
     pd_list_price := Some (bu_list_price r), accessories_total := Some (bu_accessories_total r),
     total_before_discount := Some (bu_total_before_discount r), discount_amount := Some (bu_discount_amount r),
     gross_price := Some (bu_gross_price r), cost_basis := bu_cost_basis r, margin := bu_margin r,
     payable := Some (bu_gross_price r - or_zero (trade_in_value p))\<rparr>"

definition apply_build_up :: "deal \<Rightarrow> 'a sales_db_scheme \<Rightarrow> deal" where
  "apply_build_up d db = set_columns (with_build_up (build_up d db) (columns d)) d"

section \<open>Frozen vehicle snapshot\<close>

record seller_edit =
  se_included :: bool
  se_discount_type :: "string option"
  se_discount_value :: "decimal option"
  se_discount_suppressed_reason :: "string option"

definition seller_edit_of :: "sales_line_item \<Rightarrow> seller_edit" where
  "seller_edit_of li = \<lparr>se_included = included li, se_discount_type = li_discount_type li,
     se_discount_value = li_discount_value li, se_discount_suppressed_reason = discount_suppressed_reason li\<rparr>"

definition apply_seller_edit :: "seller_edit \<Rightarrow> sales_line_item \<Rightarrow> sales_line_item" where
  "apply_seller_edit e li =
     (let li' = li\<lparr>included := se_included e\<rparr>
      in if se_discount_type e \<noteq> None \<and> se_discount_value e \<noteq> None
         then li'\<lparr>li_discount_type := se_discount_type e, li_discount_value := se_discount_value e,
           discount_suppressed_reason := se_discount_suppressed_reason e,
           discount_resolved_amount := Some (resolve_discount (se_discount_type e) (se_discount_value e) (unit_price li))\<rparr>
         else li')"

definition vehicle_identity_of :: "priced_deal \<Rightarrow> host_configuration option \<Rightarrow> vehicle_identity option" where
  "vehicle_identity_of p configuration =
     (case (vehicle_source p = Some ''stock'', pd_stock_item_id p) of
        (True, Some i) \<Rightarrow> Some (StockIdentity i)
      | _ \<Rightarrow> (case configuration of
          Some c \<Rightarrow> Some (ConfigurationIdentity (hc_id c) (hc_version c))
        | None \<Rightarrow> (case (vehicle_source p = Some ''manual'', pd_vehicle_label p) of
            (True, Some l) \<Rightarrow> Some (ManualIdentity (l @ '':'' @
               (case manual_vehicle_condition p of None \<Rightarrow> ''None'' | Some c \<Rightarrow> c)))
          | _ \<Rightarrow> None)))"

text \<open>A new row, its identifier drawn at the flush; no discount.\<close>

definition new_line_item ::
  "deal \<Rightarrow> line_item_kind \<Rightarrow> nat \<Rightarrow> string \<times> string \<times> decimal \<Rightarrow> uuid \<Rightarrow> sales_line_item" where
  "new_line_item d kind position = (\<lambda>(code, label, price) iid.
     \<lparr>li_id = iid, li_tenant_id = pd_tenant_id (columns d), li_offer_id = fst (line_item_owner d),
      li_contract_id = snd (line_item_owner d), li_kind = kind, li_code = code, li_label = label,
      unit_price = price, quantity = 1, included = True, li_discount_type = None, li_discount_value = None,
      discount_resolved_amount = None, discount_suppressed_reason = None, li_position = position\<rparr>)"

text \<open>\<open>for position, row in enumerate(...): db.add(...)\<close>, then the flush.\<close>

definition add_line_items :: "(uuid \<Rightarrow> sales_line_item) list \<Rightarrow> 'a sales_db_scheme \<Rightarrow> 'a sales_db_scheme" where
  "add_line_items rows db = db\<lparr>uuid_supply := uuid_supply db + length rows,
     sales_line_items := sales_line_items db @ map2 (\<lambda>f i. f (uuid_supply db + i)) rows [0..<length rows]\<rparr>"

definition option_lines :: "deal \<Rightarrow> (string \<times> string \<times> decimal) list \<Rightarrow> (uuid \<Rightarrow> sales_line_item) list" where
  "option_lines d opts = map2 (new_line_item d FACTORY_OPTION) [0..<length opts] opts"

definition stock_snapshot :: "vehicle_identity \<Rightarrow> string option \<Rightarrow> stock_item_pricing \<Rightarrow> vehicle_snapshot" where
  "stock_snapshot ident label pr =
     \<lparr>snap_identity = ident, snap_vehicle_label = label, snap_condition = Some (sp_condition pr),
      snap_configuration_id = None, snap_configuration_version = None, snap_base_price = sp_base_price pr,
      snap_base_price_year = None, snap_list_price = sp_list_price pr, snap_effective_price = sp_effective_price pr,
      snap_purchase_price = sp_purchase_price pr, snap_landed_cost = sp_landed_cost pr,
      snap_notional_input_tax_applicable = sp_notional_input_tax_applicable pr,
      snap_notional_input_tax_rate = sp_notional_input_tax_rate pr,
      snap_notional_input_tax_amount = sp_notional_input_tax_amount pr, snap_spec = None\<rparr>"

definition manual_snapshot ::
  "vehicle_identity \<Rightarrow> string option \<Rightarrow> string option \<Rightarrow> host_configuration option \<Rightarrow> vehicle_snapshot" where
  "manual_snapshot ident label cond configuration =
     \<lparr>snap_identity = ident, snap_vehicle_label = label, snap_condition = cond,
      snap_configuration_id = map_option hc_id configuration,
      snap_configuration_version = map_option hc_version configuration, snap_base_price = None,
      snap_base_price_year = (case configuration of Some c \<Rightarrow> hc_base_price_year c | None \<Rightarrow> None),
      snap_list_price = None, snap_effective_price = None, snap_purchase_price = None, snap_landed_cost = None,
      snap_notional_input_tax_applicable = None, snap_notional_input_tax_rate = None,
      snap_notional_input_tax_amount = None, snap_spec = map_option hc_spec configuration\<rparr>"

text \<open>\<open>line.code or line.kind\<close> and \<open>line.label[:200]\<close>.\<close>

definition price_line_entry :: "configuration_price_line \<Rightarrow> string \<times> string \<times> decimal" where
  "price_line_entry l =
     ((case pl_code l of Some c \<Rightarrow> if c \<noteq> [] then c else pl_kind l | None \<Rightarrow> pl_kind l), take 200 (pl_label l), pl_price l)"

definition is_factory_option_of :: "deal \<Rightarrow> sales_line_item \<Rightarrow> bool" where
  "is_factory_option_of d li \<longleftrightarrow> line_item_owner_clause d li \<and> li_kind li = FACTORY_OPTION"

definition host_configuration_of :: "priced_deal \<Rightarrow> 'a sales_db_scheme \<Rightarrow> host_configuration option result" where
  "host_configuration_of p db = (case pd_configuration_id p of
     Some cid \<Rightarrow> if vehicle_source p = Some ''manual''
       then bindR (get_configuration_for_host (pd_tenant_id p) cid db) (\<lambda>c. Inr (Some c)) else Inr None
   | None \<Rightarrow> Inr None)"

text \<open>What the seller did to the lines of an earlier version of the same configuration.\<close>

definition kept_edits ::
  "deal \<Rightarrow> host_configuration option \<Rightarrow> 'a sales_db_scheme \<Rightarrow> ((string \<times> string) \<times> seller_edit) list" where
  "kept_edits d configuration db = (case (configuration, vehicle_snapshot (columns d)) of
     (Some c, Some s) \<Rightarrow> if snap_configuration_id s = Some (hc_id c)
       then rev (map (\<lambda>li. ((li_code li, li_label li), seller_edit_of li))
         (select_all (is_factory_option_of d) (sales_line_items db))) else []
   | _ \<Rightarrow> [])"

definition configuration_lines ::
  "deal \<Rightarrow> ((string \<times> string) \<times> seller_edit) list \<Rightarrow> host_configuration \<Rightarrow> (uuid \<Rightarrow> sales_line_item) list" where
  "configuration_lines d kept c =
     map (\<lambda>f i. let row = f i in case map_of kept (li_code row, li_label row) of
           Some e \<Rightarrow> apply_seller_edit e row | None \<Rightarrow> row)
       (option_lines d (map price_line_entry (hc_price_lines c)))"

text \<open>The snapshot and the factory-option lines of the vehicle as it is now.\<close>

definition snapshot_of ::
  "deal \<Rightarrow> vehicle_identity \<Rightarrow> host_configuration option \<Rightarrow> ((string \<times> string) \<times> seller_edit) list \<Rightarrow> 'a sales_db_scheme
     \<Rightarrow> (vehicle_snapshot \<times> (uuid \<Rightarrow> sales_line_item) list) result" where
  "snapshot_of d ident configuration kept db =
     (let p = columns d in
      case (vehicle_source p = Some ''stock'', pd_stock_item_id p) of
        (True, Some i) \<Rightarrow> bindR (get_stock_item_pricing (pd_tenant_id p) i db) (\<lambda>pr.
          Inr (stock_snapshot ident (pd_vehicle_label p) pr, option_lines d (sp_options pr)))
      | _ \<Rightarrow> Inr (manual_snapshot ident (pd_vehicle_label p) (manual_vehicle_condition p) configuration,
               case configuration of Some c \<Rightarrow> configuration_lines d kept c | None \<Rightarrow> []))"

definition freeze_vehicle_snapshot ::
  "datetime \<Rightarrow> deal \<Rightarrow> 'a sales_db_scheme \<Rightarrow> ('a sales_db_scheme \<times> deal \<times> bool) result" where
  "freeze_vehicle_snapshot now d db =
     bindR (host_configuration_of (columns d) db) (\<lambda>configuration.
     case vehicle_identity_of (columns d) configuration of
       None \<Rightarrow> Inr (db, d, False)
     | Some ident \<Rightarrow>
         if vehicle_snapshot_frozen_at (columns d) \<noteq> None
            \<and> map_option snap_identity (vehicle_snapshot (columns d)) = Some ident
         then Inr (db, d, False)
         else let kept = kept_edits d configuration db;
                  db1 = db\<lparr>sales_line_items := delete_where (is_factory_option_of d) (sales_line_items db)\<rparr>
              in bindR (snapshot_of d ident configuration kept db1) (\<lambda>(snapshot, rows).
                 let d' = set_columns ((columns d)\<lparr>vehicle_snapshot := Some snapshot,
                       vehicle_snapshot_frozen_at := Some now\<rparr>) d
                 in Inr (save_deal d' (add_line_items rows db1), d', True)))"

section \<open>The shared vehicle and price edit\<close>

text \<open>A PATCH body: absent, null or a value per field. A contract's schema has no leasing fields.\<close>

record deal_changes =
  ch_customer_id :: "uuid option option"
  ch_owner_user_id :: "uuid option option"
  ch_vehicle_source :: "string option option"
  ch_stock_item_id :: "uuid option option"
  ch_vehicle_label :: "string option option"
  ch_manual_vehicle_condition :: "string option option"
  ch_manual_base_price :: "decimal option option"
  ch_configuration_id :: "uuid option option"
  ch_discount_type :: "string option option"
  ch_discount_value :: "decimal option option"
  ch_leasing_down_payment :: "decimal option option"
  ch_leasing_term_months :: "int option option"
  ch_leasing_km_per_year :: "int option option"

definition no_changes :: deal_changes where
  "no_changes = \<lparr>ch_customer_id = None, ch_owner_user_id = None, ch_vehicle_source = None, ch_stock_item_id = None,
     ch_vehicle_label = None, ch_manual_vehicle_condition = None, ch_manual_base_price = None,
     ch_configuration_id = None, ch_discount_type = None, ch_discount_value = None, ch_leasing_down_payment = None,
     ch_leasing_term_months = None, ch_leasing_km_per_year = None\<rparr>"

definition clear_configuration :: "priced_deal \<Rightarrow> priced_deal" where
  "clear_configuration p = p\<lparr>pd_configuration_id := None, pd_configuration_label := None,
     pd_configuration_label_refreshed_at := None\<rparr>"

definition attach_configuration ::
  "datetime \<Rightarrow> priced_deal \<Rightarrow> uuid option \<Rightarrow> deal_changes \<Rightarrow> string \<Rightarrow> 'a sales_db_scheme
     \<Rightarrow> (priced_deal \<times> deal_changes) result" where
  "attach_configuration now p configuration_id changes host db = (case configuration_id of
     None \<Rightarrow> Inr (clear_configuration p, changes)
   | Some cid \<Rightarrow>
       bindR (get_configuration_for_host (pd_tenant_id p) cid db) (\<lambda>c.
       bindR (require_mode c host [BUILD]) (\<lambda>_.
       let is_new = (pd_configuration_id p \<noteq> Some (hc_id c));
           p1 = p\<lparr>pd_configuration_id := Some (hc_id c), pd_configuration_label := Some (hc_label c),
             pd_configuration_label_refreshed_at := Some now, vehicle_source := Some ''manual'',
             pd_stock_item_id := None, pd_vehicle_label := Some (hc_label c),
             manual_vehicle_condition := Some ''new''\<rparr>;
           p2 = (if ch_manual_base_price changes = None \<and> (is_new \<or> manual_base_price p = None)
             then p1\<lparr>manual_base_price := hc_base_price c\<rparr> else p1)
       in Inr (p2, changes\<lparr>ch_vehicle_source := None, ch_stock_item_id := None, ch_vehicle_label := None,
            ch_manual_vehicle_condition := None\<rparr>))))"

definition set_changed_columns :: "deal_changes \<Rightarrow> priced_deal \<Rightarrow> priced_deal" where
  "set_changed_columns ch p = p\<lparr>vehicle_source := patched (ch_vehicle_source ch) (vehicle_source p),
     pd_stock_item_id := patched (ch_stock_item_id ch) (pd_stock_item_id p),
     pd_vehicle_label := patched (ch_vehicle_label ch) (pd_vehicle_label p),
     manual_vehicle_condition := patched (ch_manual_vehicle_condition ch) (manual_vehicle_condition p),
     manual_base_price := patched (ch_manual_base_price ch) (manual_base_price p),
     discount_type := patched (ch_discount_type ch) (discount_type p),
     discount_value := patched (ch_discount_value ch) (discount_value p)\<rparr>"

fun set_changed_fields :: "deal_changes \<Rightarrow> deal \<Rightarrow> deal" where
  "set_changed_fields ch (OfferDeal o1) = OfferDeal (o1\<lparr>off_deal := set_changed_columns ch (off_deal o1),
     leasing_down_payment := patched (ch_leasing_down_payment ch) (leasing_down_payment o1),
     leasing_term_months := patched (ch_leasing_term_months ch) (leasing_term_months o1),
     leasing_km_per_year := patched (ch_leasing_km_per_year ch) (leasing_km_per_year o1)\<rparr>)"
| "set_changed_fields ch (ContractDeal c) = ContractDeal (c\<lparr>con_deal := set_changed_columns ch (con_deal c)\<rparr>)"

text \<open>The end of every touch: freeze, and rebuild the price once a snapshot exists.\<close>

definition freeze_and_price :: "datetime \<Rightarrow> deal \<Rightarrow> 'a sales_db_scheme \<Rightarrow> ('a sales_db_scheme \<times> deal) result" where
  "freeze_and_price now d db =
     bindR (freeze_vehicle_snapshot now d db) (\<lambda>(db1, d1, froze).
     if vehicle_snapshot (columns d1) \<noteq> None
     then let d2 = apply_build_up d1 db1 in Inr (save_deal d2 db1, d2)
     else Inr (db1, d1))"

definition apply_vehicle_and_pricing_changes ::
  "datetime \<Rightarrow> deal \<Rightarrow> deal_changes \<Rightarrow> uuid option \<Rightarrow> string \<Rightarrow> 'a sales_db_scheme \<Rightarrow> ('a sales_db_scheme \<times> deal) result" where
  "apply_vehicle_and_pricing_changes now d changes actor_id host db =
     bindR (case ch_configuration_id changes of
              Some cid \<Rightarrow> attach_configuration now (columns d) cid changes host db
            | None \<Rightarrow> Inr (if ch_vehicle_source changes = Some (Some ''stock'') then clear_configuration (columns d)
                else columns d, changes)) (\<lambda>(p, changes').
     let d1 = set_changed_fields changes' (set_columns p d);
         d2 = set_columns (touch actor_id (columns d1)) d1
     in freeze_and_price now d2 (save_deal d2 db))"

section \<open>Line items\<close>

definition list_line_items :: "deal \<Rightarrow> 'a sales_db_scheme \<Rightarrow> sales_line_item list" where
  "list_line_items d db =
     (let rows = sort_key li_position (select_all (\<lambda>li. li_tenant_id li = pd_tenant_id (columns d)
        \<and> line_item_owner_clause d li) (sales_line_items db))
      in filter (\<lambda>li. li_kind li = ACCESSORY) rows @ filter (\<lambda>li. li_kind li = FACTORY_OPTION) rows)"

record accessory_input =
  ai_id :: "uuid option"
  ai_code :: string
  ai_label :: string
  ai_unit_price :: decimal
  ai_quantity :: int
  ai_discount_type :: "string option"
  ai_discount_value :: "decimal option"
  ai_discount_suppressed_reason :: "string option"

record factory_option_patch =
  fp_id :: uuid
  fp_included :: bool
  fp_discount_type :: "string option"
  fp_discount_value :: "decimal option"
  fp_discount_suppressed_reason :: "string option"

text \<open>\<open>shown_id\<close> is \<open>str(row.id)\<close>, which is \<open>None\<close> for a row not flushed yet.\<close>

definition apply_discount ::
  "json \<Rightarrow> string option \<Rightarrow> decimal option \<Rightarrow> string option \<Rightarrow> bool \<Rightarrow> sales_line_item \<Rightarrow> sales_line_item result" where
  "apply_discount shown_id dtype dvalue why used_vehicle row =
     (let wants = (dtype \<noteq> None \<and> dvalue \<noteq> None)
      in if wants \<and> used_vehicle \<and> (why = None \<or> why = Some '''')
         then Inl (ConflictError [(''lineItemId'', shown_id), (''code'', JStr (li_code row))])
         else Inr (row\<lparr>li_discount_type := (if wants then dtype else None),
           li_discount_value := (if wants then dvalue else None),
           discount_suppressed_reason := (if wants then why else None),
           discount_resolved_amount := (if wants
             then Some (resolve_discount dtype dvalue (unit_price row * of_int (quantity row))) else None)\<rparr>))"

definition save_line_item :: "sales_line_item \<Rightarrow> 'a sales_db_scheme \<Rightarrow> 'a sales_db_scheme" where
  "save_line_item li db = db\<lparr>sales_line_items :=
     update_where (\<lambda>r. li_id r = li_id li) (\<lambda>_. li) (sales_line_items db)\<rparr>"

definition find_line_item :: "uuid \<Rightarrow> line_item_kind \<Rightarrow> sales_line_item list \<Rightarrow> sales_line_item result" where
  "find_line_item iid kind existing = (case select_one (\<lambda>li. li_id li = iid) existing of
     None \<Rightarrow> Inl (NotFoundError [])
   | Some li \<Rightarrow> if li_kind li \<noteq> kind then Inl (NotFoundError []) else Inr li)"

text \<open>
  One accessory of the body. \<open>existing\<close> are the rows loaded before the loop: an identifier given
  twice finds the same object, so the later entry reads what the earlier one wrote; every column it
  reads it writes first.
\<close>

definition put_accessory ::
  "deal \<Rightarrow> sales_line_item list \<Rightarrow> bool \<Rightarrow> nat \<times> accessory_input \<Rightarrow> 'a sales_db_scheme \<Rightarrow> 'a sales_db_scheme result" where
  "put_accessory d existing used_vehicle = (\<lambda>(position, a) db.
     bindR (case ai_id a of
         Some i \<Rightarrow> bindR (find_line_item i ACCESSORY existing) (\<lambda>li. Inr (db, li))
       | None \<Rightarrow> let li = new_line_item d ACCESSORY position (ai_code a, ai_label a, ai_unit_price a) (uuid_supply db)
           in Inr (db\<lparr>uuid_supply := uuid_supply db + 1, sales_line_items := sales_line_items db @ [li]\<rparr>, li))
       (\<lambda>(db1, row).
     bindR (apply_discount (case ai_id a of Some i \<Rightarrow> JUuid i | None \<Rightarrow> JStr ''None'') (ai_discount_type a)
         (ai_discount_value a) (ai_discount_suppressed_reason a) used_vehicle
         (row\<lparr>li_code := ai_code a, li_label := ai_label a, unit_price := ai_unit_price a,
           quantity := ai_quantity a, li_position := position\<rparr>)) (\<lambda>row'. Inr (save_line_item row' db1))))"

definition patch_factory_option ::
  "sales_line_item list \<Rightarrow> bool \<Rightarrow> factory_option_patch \<Rightarrow> 'a sales_db_scheme \<Rightarrow> 'a sales_db_scheme result" where
  "patch_factory_option existing used_vehicle patch db =
     bindR (find_line_item (fp_id patch) FACTORY_OPTION existing) (\<lambda>row.
     bindR (apply_discount (JUuid (fp_id patch)) (fp_discount_type patch) (fp_discount_value patch)
         (fp_discount_suppressed_reason patch) used_vehicle (row\<lparr>included := fp_included patch\<rparr>)) (\<lambda>row'. Inr (save_line_item row' db)))"

fun foldR :: "('x \<Rightarrow> 's \<Rightarrow> 's result) \<Rightarrow> 'x list \<Rightarrow> 's \<Rightarrow> 's result" where
  "foldR f [] s = Inr s"
| "foldR f (x # xs) s = bindR (f x s) (foldR f xs)"

definition replace_line_items ::
  "deal \<Rightarrow> accessory_input list \<Rightarrow> factory_option_patch list \<Rightarrow> uuid option \<Rightarrow> 'a sales_db_scheme
     \<Rightarrow> ('a sales_db_scheme \<times> deal) result" where
  "replace_line_items d accessories patches actor_id db =
     bindR (lock_editable d (pd_version (columns d)) db) (\<lambda>d1.
     let used_vehicle = (vehicle_condition d1 = Some ''used'');
         existing = list_line_items d1 db;
         incoming = List.map_filter ai_id accessories;
         gone = (\<lambda>li. List.member (map li_id existing) (li_id li) \<and> li_kind li = ACCESSORY \<and> \<not> List.member incoming (li_id li));
         db1 = db\<lparr>sales_line_items := delete_where gone (sales_line_items db)\<rparr>
     in bindR (foldR (put_accessory d1 existing used_vehicle) (List.enumerate 0 accessories) db1) (\<lambda>db2.
        bindR (foldR (patch_factory_option existing used_vehicle) patches db2) (\<lambda>db3.
        let d2 = apply_build_up d1 db3;
            d3 = set_columns (touch actor_id (columns d2)) d2;
            db4 = save_deal d3 db3
        in Inr (upsert_deal_projection d3 db4, d3))))"

end
