(* ===== verification/Sales_Contracts.thy ===== *)
theory Sales_Contracts
  imports Sales_Deals
begin

text \<open>
  Offers, trade-ins, contracts and the seller of a deal (\<^verbatim>\<open>app/sales/services/offer.py, trade_in.py,
  contract.py, contract_status.py, ownership.py, pipeline_link.py, stock_item_purchase.py,
  customer_merge.py\<close> and \<^verbatim>\<open>app/sales/consumers.py\<close>).

  Confirmation and cancellation call Stock and the valuation context on sessions of their own, which
  commit; such an operation returns the committed database beside its outcome, so an error still
  shows what it left behind.
\<close>

section \<open>Responsible seller\<close>

type_synonym owner_columns = "uuid option \<times> string option \<times> datetime option"

definition no_owner :: owner_columns where "no_owner = (None, None, None)"

definition seller_in :: "datetime \<Rightarrow> uuid \<Rightarrow> uuid option \<Rightarrow> 'a sales_db_scheme \<Rightarrow> user option" where
  "seller_in now tenant_id uid db = (case uid of None \<Rightarrow> None
     | Some u \<Rightarrow> get_active_user_acting_in now tenant_id u db)"

definition seller_label :: "user \<Rightarrow> string" where
  "seller_label u = strip_text (user_first_name u @ '' '' @ user_last_name u)"

definition default_owner :: "datetime \<Rightarrow> uuid \<Rightarrow> uuid option \<Rightarrow> 'a sales_db_scheme \<Rightarrow> owner_columns" where
  "default_owner now tenant_id actor_id db = (case seller_in now tenant_id actor_id db of
     None \<Rightarrow> no_owner | Some u \<Rightarrow> (actor_id, Some (seller_label u), Some now))"

definition inherited_owner :: "datetime \<Rightarrow> uuid \<Rightarrow> sales_offer \<Rightarrow> uuid option \<Rightarrow> 'a sales_db_scheme \<Rightarrow> owner_columns" where
  "inherited_owner now tenant_id o1 actor_id db =
     (if seller_in now tenant_id (owner_user_id (off_deal o1)) db \<noteq> None
      then (owner_user_id (off_deal o1), owner_label (off_deal o1), owner_label_refreshed_at (off_deal o1))
      else default_owner now tenant_id actor_id db)"

definition resolve_owner_change :: "datetime \<Rightarrow> uuid \<Rightarrow> uuid option \<Rightarrow> 'a sales_db_scheme \<Rightarrow> owner_columns result" where
  "resolve_owner_change now tenant_id uid db = (case uid of
     None \<Rightarrow> Inr no_owner
   | Some i \<Rightarrow> (case seller_in now tenant_id uid db of
       None \<Rightarrow> Inl (UnprocessableEntityError [(''ownerUserId'', JUuid i)])
     | Some u \<Rightarrow> Inr (uid, Some (seller_label u), Some now)))"

definition apply_owner :: "owner_columns \<Rightarrow> priced_deal \<Rightarrow> priced_deal" where
  "apply_owner = (\<lambda>(uid, label, refreshed) p.
     p\<lparr>owner_user_id := uid, owner_label := label, owner_label_refreshed_at := refreshed\<rparr>)"

section \<open>Buyer\<close>

definition apply_customer_change ::
  "datetime \<Rightarrow> uuid \<Rightarrow> uuid option \<Rightarrow> priced_deal \<Rightarrow> 'a sales_db_scheme \<Rightarrow> priced_deal result" where
  "apply_customer_change now gid customer_id p db = (case customer_id of
     None \<Rightarrow> Inr (p\<lparr>pd_customer_id := None, pd_customer_label := None, pd_customer_language := None,
       pd_customer_denorm_refreshed_at := None\<rparr>)
   | Some cid \<Rightarrow> bindR (get_customer_or_404 gid cid db) (\<lambda>c.
       if cust_lifecycle_status c = DO_NOT_CONTACT then Inl (ConflictError [])
       else Inr (p\<lparr>pd_customer_id := Some (cust_id c), pd_customer_label := Some (resolve_customer_label c),
         pd_customer_language := Some (cust_language c), pd_customer_denorm_refreshed_at := Some now\<rparr>)))"

section \<open>Offers\<close>

definition sales_event :: "string \<Rightarrow> string \<Rightarrow> priced_deal \<Rightarrow> payload \<Rightarrow> outbox_event" where
  "sales_event etype atype p pl = plain_event etype (Some (pd_tenant_id p)) ''sales'' atype (pd_id p) pl"

definition get_offer_or_404 :: "uuid \<Rightarrow> uuid \<Rightarrow> 'a sales_db_scheme \<Rightarrow> sales_offer result" where
  "get_offer_or_404 tenant_id offer_id db =
     (case select_one (\<lambda>r. off_id r = offer_id \<and> pd_tenant_id (off_deal r) = tenant_id) (sales_offers db) of
        None \<Rightarrow> Inl (NotFoundError []) | Some r \<Rightarrow> Inr r)"

definition get_contract_or_404 :: "uuid \<Rightarrow> uuid \<Rightarrow> 'a sales_db_scheme \<Rightarrow> sales_contract result" where
  "get_contract_or_404 tenant_id contract_id db =
     (case select_one (\<lambda>r. con_id r = contract_id \<and> pd_tenant_id (con_deal r) = tenant_id) (sales_contracts db) of
        None \<Rightarrow> Inl (NotFoundError []) | Some r \<Rightarrow> Inr r)"

text \<open>The columns of a row whose constructor names only its tenant: version 1, everything else null.\<close>

definition blank_deal :: "datetime \<Rightarrow> uuid \<Rightarrow> uuid \<Rightarrow> uuid option \<Rightarrow> owner_columns \<Rightarrow> priced_deal" where
  "blank_deal now iid tenant_id actor_id own =
     \<lparr>pd_id = iid, pd_tenant_id = tenant_id, pd_version = 1, pd_created_at = now,
      pd_created_by = actor_id, pd_updated_by = actor_id, pd_customer_id = None, pd_customer_label = None,
      pd_customer_locality = None, pd_customer_denorm_refreshed_at = None, pd_customer_language = None,
      owner_user_id = fst own, owner_label = fst (snd own), owner_label_refreshed_at = snd (snd own),
      vehicle_source = None, pd_stock_item_id = None, pd_vehicle_label = None, manual_vehicle_condition = None,
      pd_configuration_id = None, pd_configuration_label = None, pd_configuration_label_refreshed_at = None,
      manual_base_price = None, vehicle_snapshot = None, vehicle_snapshot_frozen_at = None, base_price = None,
      options_total = None, pd_list_price = None, accessories_total = None, total_before_discount = None,
      discount_type = None, discount_value = None, discount_amount = None, gross_price = None,
      cost_basis = None, margin = None, trade_in_vehicle_id = None, trade_in_label = None, trade_in_vin = None,
      trade_in_configuration_id = None, trade_in_configuration_label_refreshed_at = None,
      trade_in_valuation_id = None, trade_in_value = None, trade_in_purchase_price = None, payable = None,
      cancelled_reason = None\<rparr>"

definition add_offer :: "sales_offer \<Rightarrow> 'a sales_db_scheme \<Rightarrow> 'a sales_db_scheme" where
  "add_offer o1 db = db\<lparr>sales_offers := sales_offers db @ [o1]\<rparr>"

definition create_offer :: "datetime \<Rightarrow> uuid \<Rightarrow> uuid option \<Rightarrow> 'a sales_db_scheme \<Rightarrow> 'a sales_db_scheme \<times> sales_offer" where
  "create_offer now tenant_id actor_id db =
     (let (number, db1) = allocate_offer_number tenant_id db;
          (iid, db2) = draw_uuid db1;
          o1 = \<lparr>off_deal = blank_deal now iid tenant_id actor_id (default_owner now tenant_id actor_id db),
            offer_number = number, offer_status = OF_DRAFT, leasing_down_payment = None,
            leasing_term_months = None, leasing_km_per_year = None, copied_from_offer_id = None\<rparr>;
          db3 = publish now (sales_event ''sales.offer.created'' ''sales_offer'' (off_deal o1)
            [(''offerNumber'', JStr number)]) (add_offer o1 db2)
      in (upsert_deal_projection (OfferDeal o1) db3, o1))"

text \<open>What the two PATCH bodies share: the buyer, then the seller.\<close>

definition apply_party_changes ::
  "datetime \<Rightarrow> uuid \<Rightarrow> deal_changes \<Rightarrow> deal \<Rightarrow> 'a sales_db_scheme \<Rightarrow> deal result" where
  "apply_party_changes now gid changes d db =
     bindR (case ch_customer_id changes of None \<Rightarrow> Inr (columns d)
            | Some cid \<Rightarrow> apply_customer_change now gid cid (columns d) db) (\<lambda>p.
     bindR (case ch_owner_user_id changes of None \<Rightarrow> Inr p
            | Some uid \<Rightarrow> bindR (resolve_owner_change now (pd_tenant_id p) uid db) (\<lambda>own. Inr (apply_owner own p))) (\<lambda>p'.
     Inr (set_columns p' d)))"

definition update_offer ::
  "datetime \<Rightarrow> sales_offer \<Rightarrow> uuid \<Rightarrow> deal_changes \<Rightarrow> uuid option \<Rightarrow> 'a sales_db_scheme \<Rightarrow> ('a sales_db_scheme \<times> deal) result" where
  "update_offer now o1 gid changes actor_id db =
     bindR (require_editable (OfferDeal o1) db) (\<lambda>_.
     bindR (apply_party_changes now gid changes (OfferDeal o1) db) (\<lambda>d1.
     bindR (apply_vehicle_and_pricing_changes now d1 changes actor_id ''offer workspace'' db) (\<lambda>(db1, d2).
     Inr (upsert_deal_projection d2 db1, d2))))"

text \<open>The columns \<open>copy_offer\<close> carries over; the rest start blank.\<close>

definition copied_columns :: "priced_deal \<Rightarrow> priced_deal \<Rightarrow> priced_deal" where
  "copied_columns s p = p\<lparr>pd_customer_id := pd_customer_id s, pd_customer_label := pd_customer_label s,
     pd_customer_locality := pd_customer_locality s, pd_customer_language := pd_customer_language s,
     pd_customer_denorm_refreshed_at := pd_customer_denorm_refreshed_at s, vehicle_source := vehicle_source s,
     pd_stock_item_id := pd_stock_item_id s, pd_vehicle_label := pd_vehicle_label s,
     manual_vehicle_condition := manual_vehicle_condition s, manual_base_price := manual_base_price s,
     pd_configuration_id := pd_configuration_id s, pd_configuration_label := pd_configuration_label s,
     pd_configuration_label_refreshed_at := pd_configuration_label_refreshed_at s,
     discount_type := discount_type s, discount_value := discount_value s,
     trade_in_vehicle_id := trade_in_vehicle_id s, trade_in_label := trade_in_label s, trade_in_vin := trade_in_vin s,
     trade_in_valuation_id := trade_in_valuation_id s, trade_in_configuration_id := trade_in_configuration_id s,
     trade_in_configuration_label_refreshed_at := trade_in_configuration_label_refreshed_at s,
     trade_in_value := trade_in_value s, trade_in_purchase_price := trade_in_purchase_price s\<rparr>"

definition copy_offer ::
  "datetime \<Rightarrow> sales_offer \<Rightarrow> uuid option \<Rightarrow> 'a sales_db_scheme \<Rightarrow> ('a sales_db_scheme \<times> deal) result" where
  "copy_offer now source actor_id db =
     (let tenant_id = pd_tenant_id (off_deal source);
          (number, db1) = allocate_offer_number tenant_id db;
          (iid, db2) = draw_uuid db1;
          o1 = \<lparr>off_deal = copied_columns (off_deal source)
              (blank_deal now iid tenant_id actor_id (default_owner now tenant_id actor_id db)),
            offer_number = number, offer_status = OF_DRAFT, leasing_down_payment = leasing_down_payment source,
            leasing_term_months = leasing_term_months source, leasing_km_per_year = leasing_km_per_year source,
            copied_from_offer_id = Some (off_id source)\<rparr>
      in bindR (freeze_and_price now (OfferDeal o1) (add_offer o1 db2)) (\<lambda>(db3, d).
         Inr (upsert_deal_projection d (publish now (sales_event ''sales.offer.created'' ''sales_offer'' (columns d)
           [(''offerNumber'', JStr number), (''copiedFromOfferId'', JUuid (off_id source))]) db3), d)))"

definition missing_containers :: "deal \<Rightarrow> string list" where
  "missing_containers d = map container_id (filter (\<lambda>c. container_requirement c = REQUIRED
     \<and> container_status c \<noteq> COMPLETE) (compute_containers d))"

definition finalize_offer ::
  "sales_offer \<Rightarrow> uuid option \<Rightarrow> 'a sales_db_scheme \<Rightarrow> ('a sales_db_scheme \<times> sales_offer) result" where
  "finalize_offer o1 actor_id db =
     bindR (raise_if (offer_status o1 \<noteq> OF_DRAFT) (ConflictError [])) (\<lambda>_.
     bindR (require_no_live_contract o1 db) (\<lambda>_.
     let missing = missing_containers (OfferDeal o1)
     in if missing \<noteq> [] then Inl (ConflictError [(''missingContainers'', JList (map JStr missing))])
        else let o2 = o1\<lparr>offer_status := OF_OPEN, off_deal := touch actor_id (off_deal o1)\<rparr>
             in Inr (upsert_deal_projection (OfferDeal o2) (save_offer o2 db), o2)))"

definition cancel_offer ::
  "datetime \<Rightarrow> sales_offer \<Rightarrow> string \<Rightarrow> uuid option \<Rightarrow> 'a sales_db_scheme \<Rightarrow> ('a sales_db_scheme \<times> sales_offer) result" where
  "cancel_offer now o1 reason actor_id db =
     bindR (raise_if (offer_status o1 = OF_CANCELLED) (ConflictError [])) (\<lambda>_.
     bindR (require_no_live_contract o1 db) (\<lambda>_.
     let o2 = o1\<lparr>offer_status := OF_CANCELLED, off_deal := (touch actor_id (off_deal o1))\<lparr>cancelled_reason := Some reason\<rparr>\<rparr>;
         db1 = publish now (sales_event ''sales.offer.cancelled'' ''sales_offer'' (off_deal o2)
           [(''offerNumber'', JStr (offer_number o2)), (''reason'', JStr reason)]) (save_offer o2 db)
     in Inr (upsert_deal_projection (OfferDeal o2) db1, o2)))"

section \<open>Trade-in\<close>

definition resolve_trade_in_vin ::
  "datetime \<Rightarrow> string option \<Rightarrow> string option \<Rightarrow> string option \<Rightarrow> 'a sales_db_scheme \<Rightarrow> string result" where
  "resolve_trade_in_vin now vin plate canton db = (case given vin of
     Some v \<Rightarrow> Inr v
   | None \<Rightarrow> (case given plate of
       Some p \<Rightarrow> (let r = match_vehicle now \<lparr>mr_vin = None, mr_stammnummer = None, mr_plate = plate, mr_canton = canton,
             mr_vehicle_kind = None, mr_type_approval_number = None, mr_first_registration_date = None\<rparr> db
           in case matched_vehicle r of
                Some v \<Rightarrow> if \<not> requires_confirmation r then Inr (mdm_vin v)
                  else Inl (ConflictError [(''plate'', JStr p), (''canton'', json_opt JStr canton)])
              | None \<Rightarrow> Inl (ConflictError [(''plate'', JStr p), (''canton'', json_opt JStr canton)]))
     | None \<Rightarrow> Inl (ConflictError [])))"

definition attach_valuation :: "datetime \<Rightarrow> valuation \<Rightarrow> priced_deal \<Rightarrow> priced_deal" where
  "attach_valuation now v p =
     (let p1 = p\<lparr>trade_in_valuation_id := Some (val_id v)\<rparr>;
          p2 = (if val_configuration_id v = None then p1
            else let q = p1\<lparr>trade_in_configuration_id := val_configuration_id v,
                   trade_in_configuration_label_refreshed_at := Some now\<rparr>
                 in if trade_in_vehicle_id p \<noteq> None then q
                    else q\<lparr>trade_in_label := (case given (val_configuration_label v) of Some l \<Rightarrow> Some l | None \<Rightarrow> trade_in_label p),
                      trade_in_vin := val_vehicle_vin v, trade_in_vehicle_id := val_vehicle_id v\<rparr>);
          p3 = p2\<lparr>trade_in_value := Some (final_offer v)\<rparr>
      in if trade_in_purchase_price p = None then p3\<lparr>trade_in_purchase_price := Some (final_offer v)\<rparr> else p3)"

definition recompute_payable :: "priced_deal \<Rightarrow> priced_deal" where
  "recompute_payable p = p\<lparr>payable := map_option (\<lambda>g. g - or_zero (trade_in_value p)) (gross_price p)\<rparr>"

text \<open>The end both trade-in writes share.\<close>

definition finish_trade_in :: "uuid option \<Rightarrow> deal \<Rightarrow> 'a sales_db_scheme \<Rightarrow> 'a sales_db_scheme \<times> deal" where
  "finish_trade_in actor_id d db =
     (let d' = set_columns (recompute_payable (touch actor_id (columns d))) d
      in (upsert_deal_projection d' (save_deal d' db), d'))"

definition allocate_trade_in_party ::
  "datetime \<Rightarrow> uuid \<Rightarrow> uuid option \<Rightarrow> vehicle_party_role \<Rightarrow> uuid \<Rightarrow> uuid \<Rightarrow> 'a sales_db_scheme
     \<Rightarrow> 'a sales_db_scheme result" where
  "allocate_trade_in_party now vehicle_id customer_id role gid actor_id db = (case customer_id of
     None \<Rightarrow> Inr db
   | Some cid \<Rightarrow> bindR (allocate_vehicle_party now vehicle_id cid role gid (Some actor_id) None None db)
       (\<lambda>(db', _). Inr db'))"

text \<open>
  Each foreign write commits on its own: the vehicle on a session of its own (\<open>env1\<close> is what a
  concurrent writer commits when the insert race is lost), the two party rows on the request's.
  \<open>env2\<close> is what other requests commit before the deal is locked again.
\<close>

definition set_trade_in ::
  "('a sales_db_scheme \<Rightarrow> 'a sales_db_scheme) \<Rightarrow> ('a sales_db_scheme \<Rightarrow> 'a sales_db_scheme) \<Rightarrow> datetime \<Rightarrow> deal \<Rightarrow> uuid
     \<Rightarrow> string option \<Rightarrow> string option \<Rightarrow> string option \<Rightarrow> string \<Rightarrow> uuid option \<Rightarrow> uuid \<Rightarrow> 'a sales_db_scheme
     \<Rightarrow> 'a sales_db_scheme \<times> deal result" where
  "set_trade_in env1 env2 now d gid vin plate canton vlabel customer_id actor_id db =
     (let party = (case customer_id of Some c \<Rightarrow> Some c | None \<Rightarrow> pd_customer_id (columns d)) in
      case bindR (require_editable d db) (\<lambda>_.
           bindR (case party of None \<Rightarrow> Inr () | Some c \<Rightarrow> bindR (get_customer_or_404 gid c db) (\<lambda>_. Inr ())) (\<lambda>_.
           bindR (resolve_trade_in_vin now vin plate canton db) (\<lambda>v.
           resolve_vehicle_mdm_by_vin env1 v None (Some actor_id) db))) of
        Inl e \<Rightarrow> (db, Inl e)
      | Inr (db1, vehicle) \<Rightarrow>
          (case allocate_trade_in_party now (mdm_id vehicle) party OWNER gid actor_id db1 of
             Inl e \<Rightarrow> (db1, Inl e)
           | Inr db2 \<Rightarrow> (case allocate_trade_in_party now (mdm_id vehicle) party KEEPER gid actor_id db2 of
               Inl e \<Rightarrow> (db2, Inl e)
             | Inr db3 \<Rightarrow> let db4 = env2 db3 in
                 (case lock_editable d (pd_version (columns d)) db4 of
                    Inl e \<Rightarrow> (db4, Inl e)
                  | Inr d1 \<Rightarrow>
                      let p = (columns d1)\<lparr>trade_in_vehicle_id := Some (mdm_id vehicle),
                            trade_in_vin := Some (mdm_vin vehicle), trade_in_label := Some vlabel\<rparr>;
                          p' = (case list_valid_valuations_for_vehicle now (pd_tenant_id p) (mdm_id vehicle) db4 of
                            [] \<Rightarrow> p | v # _ \<Rightarrow> attach_valuation now v p);
                          (db5, d2) = finish_trade_in (Some actor_id) (set_columns p' d1) db4
                      in (db5, Inr d2)))))"

definition attach_trade_in_valuation ::
  "datetime \<Rightarrow> deal \<Rightarrow> uuid \<Rightarrow> uuid option \<Rightarrow> 'a sales_db_scheme \<Rightarrow> ('a sales_db_scheme \<times> deal) result" where
  "attach_trade_in_valuation now d valuation_id actor_id db =
     bindR (require_editable d db) (\<lambda>_.
     bindR (get_valuation_or_404 (pd_tenant_id (columns d)) valuation_id db) (\<lambda>v.
     Inr (finish_trade_in actor_id (set_columns (attach_valuation now v (columns d)) d) db)))"

section \<open>Creating and editing a contract\<close>

text \<open>The offer's working fields, as \<open>create_contract\<close> copies them.\<close>

definition contract_columns_of_offer :: "priced_deal \<Rightarrow> priced_deal \<Rightarrow> priced_deal" where
  "contract_columns_of_offer s p = (copied_columns s p)\<lparr>vehicle_snapshot := vehicle_snapshot s,
     vehicle_snapshot_frozen_at := vehicle_snapshot_frozen_at s, total_before_discount := total_before_discount s,
     cost_basis := cost_basis s, base_price := base_price s, options_total := options_total s,
     pd_list_price := pd_list_price s, accessories_total := accessories_total s,
     discount_amount := discount_amount s, gross_price := gross_price s, margin := margin s, payable := payable s\<rparr>"

definition contract_columns_of_customer :: "datetime \<Rightarrow> customer \<Rightarrow> priced_deal \<Rightarrow> priced_deal" where
  "contract_columns_of_customer now c p = p\<lparr>pd_customer_id := Some (cust_id c),
     pd_customer_label := Some (resolve_customer_label c), pd_customer_denorm_refreshed_at := Some now,
     pd_customer_language := Some (cust_language c)\<rparr>"

definition copy_line_items :: "sales_offer \<Rightarrow> sales_contract \<Rightarrow> 'a sales_db_scheme \<Rightarrow> 'a sales_db_scheme" where
  "copy_line_items o1 c db = add_line_items
     (map (\<lambda>r iid. r\<lparr>li_id := iid, li_tenant_id := pd_tenant_id (con_deal c), li_offer_id := None, li_contract_id := Some (con_id c)\<rparr>)
        (select_all (\<lambda>r. li_tenant_id r = pd_tenant_id (off_deal o1) \<and> li_offer_id r = Some (off_id o1)) (sales_line_items db))) db"

text \<open>The customer a direct contract is for; a missing group is a programming error.\<close>

definition customer_of_create ::
  "uuid option \<Rightarrow> uuid option \<Rightarrow> 'a sales_db_scheme \<Rightarrow> customer option result" where
  "customer_of_create gid customer_id db = (case customer_id of
     None \<Rightarrow> Inr None
   | Some cid \<Rightarrow> (case gid of None \<Rightarrow> Inl ValueError
     | Some g \<Rightarrow> bindR (get_customer_or_404 g cid db) (\<lambda>c.
         if cust_lifecycle_status c = DO_NOT_CONTACT then Inl (ConflictError []) else Inr (Some c))))"

text \<open>The offer re-read under its row lock, and the one-live-contract rule.\<close>

definition offer_of_create ::
  "uuid \<Rightarrow> sales_offer option \<Rightarrow> 'a sales_db_scheme \<Rightarrow> sales_offer option result" where
  "offer_of_create tenant_id offer db = (case offer of
     None \<Rightarrow> Inr None
   | Some o0 \<Rightarrow> (case select_one (\<lambda>r. off_id r = off_id o0) (sales_offers db) of
       None \<Rightarrow> Inl NoResultFound
     | Some o1 \<Rightarrow> (case select_one (\<lambda>c. pd_tenant_id (con_deal c) = tenant_id \<and> con_offer_id c = Some (off_id o1)
           \<and> contract_status c \<noteq> CT_CANCELLED) (sales_contracts db) of
         Some live \<Rightarrow> Inl (ConflictError [(''reason'', JStr ''offer_already_contracted''),
           (''contractNumber'', JStr (contract_number live))])
       | None \<Rightarrow> Inr (Some o1))))"

definition new_contract ::
  "datetime \<Rightarrow> uuid \<Rightarrow> uuid \<Rightarrow> string \<Rightarrow> sales_offer option \<Rightarrow> customer option \<Rightarrow> uuid option \<Rightarrow> owner_columns
     \<Rightarrow> sales_contract" where
  "new_contract now iid tenant_id number offer customer actor_id own =
     (let blank = blank_deal now iid tenant_id actor_id own;
          p = (case offer of Some o1 \<Rightarrow> contract_columns_of_offer (off_deal o1) blank
            | None \<Rightarrow> (case customer of Some c \<Rightarrow> contract_columns_of_customer now c blank | None \<Rightarrow> blank))
      in \<lparr>con_deal = p, contract_number = number, con_offer_id = map_option off_id offer,
          con_offer_number = map_option offer_number offer, contract_status = CT_PENDING,
          stock_item_label = None, stock_item_denorm_refreshed_at = None,
          financing = Some (case offer of Some o1 \<Rightarrow> if leasing_term_months o1 \<noteq> None then LEASING else CASH | None \<Rightarrow> CASH),
          reservation_id = None, signed_at = None, delivery_date = None, invoice_ref = None,
          legacy_transaction_id = None\<rparr>)"

definition add_contract :: "sales_contract \<Rightarrow> 'a sales_db_scheme \<Rightarrow> 'a sales_db_scheme" where
  "add_contract c db = db\<lparr>sales_contracts := sales_contracts db @ [c]\<rparr>"

definition create_contract ::
  "datetime \<Rightarrow> uuid \<Rightarrow> sales_offer option \<Rightarrow> uuid option \<Rightarrow> uuid option \<Rightarrow> uuid option \<Rightarrow> uuid option \<Rightarrow> string option
     \<Rightarrow> 'a sales_db_scheme \<Rightarrow> ('a sales_db_scheme \<times> deal) result" where
  "create_contract now tenant_id offer actor_id customer_id gid stock_item vlabel db =
     bindR (customer_of_create gid customer_id db) (\<lambda>customer.
     bindR (offer_of_create tenant_id offer db) (\<lambda>offer'.
     let (number, db1) = allocate_contract_number tenant_id db;
         own = (case offer' of Some o1 \<Rightarrow> inherited_owner now tenant_id o1 actor_id db
           | None \<Rightarrow> default_owner now tenant_id actor_id db);
         (iid, db2) = draw_uuid db1;
         c = new_contract now iid tenant_id number offer' customer actor_id own;
         db3 = add_contract c db2;
         db4 = (case offer' of Some o1 \<Rightarrow> copy_line_items o1 c db3 | None \<Rightarrow> db3)
     in bindR (case stock_item of
           None \<Rightarrow> Inr (db4, ContractDeal c)
         | Some i \<Rightarrow> apply_vehicle_and_pricing_changes now (ContractDeal c)
             (no_changes\<lparr>ch_vehicle_source := Some (Some ''stock''), ch_stock_item_id := Some (Some i),
               ch_vehicle_label := Some vlabel\<rparr>) actor_id ''contract'' db4) (\<lambda>(db5, d).
        Inr (upsert_deal_projection d (publish now (sales_event ''sales.contract.created'' ''sales_contract'' (columns d)
          [(''contractNumber'', JStr number), (''offerId'', json_opt JUuid (map_option off_id offer')),
           (''customerId'', json_opt JUuid (pd_customer_id (columns d)))]) db5), d))))"

definition gives_a_buyer_only :: "sales_contract \<Rightarrow> deal_changes \<Rightarrow> bool" where
  "gives_a_buyer_only c ch \<longleftrightarrow> is_priced_without_inputs c \<and> pd_customer_id (con_deal c) = None
     \<and> (\<exists>cid. ch = no_changes\<lparr>ch_customer_id := Some (Some cid)\<rparr>)"

lemma gives_a_buyer_only_code [code]:
  "gives_a_buyer_only c ch \<longleftrightarrow> is_priced_without_inputs c \<and> pd_customer_id (con_deal c) = None
     \<and> (case ch_customer_id ch of Some (Some cid) \<Rightarrow> ch = no_changes\<lparr>ch_customer_id := Some (Some cid)\<rparr> | _ \<Rightarrow> False)"
  by (auto simp: gives_a_buyer_only_def no_changes_def split: option.splits)

definition update_contract ::
  "datetime \<Rightarrow> sales_contract \<Rightarrow> uuid \<Rightarrow> deal_changes \<Rightarrow> uuid option \<Rightarrow> 'a sales_db_scheme \<Rightarrow> ('a sales_db_scheme \<times> deal) result" where
  "update_contract now c gid changes actor_id db =
     (if gives_a_buyer_only c changes then
        bindR (require_pending c) (\<lambda>_.
        bindR (apply_customer_change now gid (case ch_customer_id changes of Some cid \<Rightarrow> cid | None \<Rightarrow> None) (con_deal c) db) (\<lambda>p.
        let c' = c\<lparr>con_deal := touch actor_id p\<rparr>
        in Inr (upsert_deal_projection (ContractDeal c') (save_contract c' db), ContractDeal c')))
      else
        bindR (require_editable (ContractDeal c) db) (\<lambda>_.
        bindR (apply_party_changes now gid changes (ContractDeal c) db) (\<lambda>d1.
        bindR (apply_vehicle_and_pricing_changes now d1 changes actor_id ''contract'' db) (\<lambda>(db1, d2).
        Inr (upsert_deal_projection d2 db1, d2)))))"

section \<open>Confirmation\<close>

definition pricing_snapshot :: "priced_deal \<Rightarrow> payload" where
  "pricing_snapshot p = [(''currency'', JStr ''CHF''), (''basePrice'', json_opt JDec (base_price p)),
     (''optionsTotal'', json_opt JDec (options_total p)), (''listPrice'', json_opt JDec (pd_list_price p)),
     (''accessoriesTotal'', json_opt JDec (accessories_total p)), (''discountAmount'', json_opt JDec (discount_amount p)),
     (''grossPrice'', json_opt JDec (gross_price p)), (''tradeInValue'', json_opt JDec (trade_in_value p)),
     (''payable'', json_opt JDec (payable p))]"

definition optional_key :: "string \<Rightarrow> uuid option \<Rightarrow> payload" where
  "optional_key k x = (case x of Some i \<Rightarrow> [(k, JUuid i)] | None \<Rightarrow> [])"

definition confirmed_event_payload :: "sales_contract \<Rightarrow> payload" where
  "confirmed_event_payload c =
     (let p = con_deal c;
          manual = (if vehicle_source p = Some ''manual''
            then JObj ([(''vehicleLabel'', json_opt JStr (pd_vehicle_label p)),
                (''condition'', json_opt JStr (manual_vehicle_condition p))] @
                optional_key ''configurationId'' (pd_configuration_id p))
            else JNull);
          trade = (if trade_in_vehicle_id p \<noteq> None \<or> trade_in_configuration_id p \<noteq> None
            then JObj ([(''vehicleLabel'', json_opt JStr (trade_in_label p)), (''condition'', JStr ''used'')] @
                optional_key ''configurationId'' (trade_in_configuration_id p) @
                optional_key ''valuationId'' (trade_in_valuation_id p))
            else JNull)
      in [(''contractId'', JUuid (con_id c)),
          (''vehicleSource'', JStr (if vehicle_source p = Some ''stock'' then ''existing'' else ''manual'')),
          (''manualConfiguration'', manual), (''tradeIn'', trade), (''pricingSnapshot'', JObj (pricing_snapshot p))])"

definition confirm_key :: "uuid \<Rightarrow> string" where
  "confirm_key contract_id = ''sales.contract.confirm:'' @ digits_of_nat contract_id"

definition compensate_key :: "uuid \<Rightarrow> uuid \<Rightarrow> string" where
  "compensate_key contract_id rid =
     ''sales.contract.confirm-compensate:'' @ digits_of_nat contract_id @ '':'' @ digits_of_nat rid"

definition cancel_key :: "uuid \<Rightarrow> string" where
  "cancel_key contract_id = ''sales.contract.cancel:'' @ digits_of_nat contract_id"

text \<open>The refusals before anything is written, in the source's order.\<close>

definition confirm_guards :: "sales_contract \<Rightarrow> uuid \<Rightarrow> 'a sales_db_scheme \<Rightarrow> unit result" where
  "confirm_guards c gid db =
     bindR (raise_if (contract_status c \<noteq> CT_PENDING)
       (ConflictError [(''reason'', JStr ''bad_status''), (''status'', JStr (contract_status_text (contract_status c)))])) (\<lambda>_.
     bindR (case pd_customer_id (con_deal c) of
         None \<Rightarrow> Inl (reason_error ''missing_customer'')
       | Some cid \<Rightarrow> bindR (get_customer_or_404 gid cid db) (\<lambda>customer.
           bindR (raise_if (cust_lifecycle_status customer = DO_NOT_CONTACT) (reason_error ''do_not_contact'')) (\<lambda>_.
           bindR (raise_if (credit_block customer) (ConflictError [(''reason'', JStr ''credit_block''),
             (''creditBlockReason'', json_opt JStr (credit_block_reason customer))])) (\<lambda>_.
           raise_if (\<not> has_usable_domicile_address (cust_id customer) db) (reason_error ''missing_address''))))) (\<lambda>_.
     require_complete c))"

text \<open>The trade-in valuation, consumed on a session of its own; an expired one is renamed.\<close>

definition consume_trade_in_valuation ::
  "datetime \<Rightarrow> sales_contract \<Rightarrow> uuid \<Rightarrow> 'a sales_db_scheme \<Rightarrow> ('a sales_db_scheme \<times> bool) result" where
  "consume_trade_in_valuation now c actor_id db = (case trade_in_valuation_id (con_deal c) of
     None \<Rightarrow> Inr (db, False)
   | Some vid \<Rightarrow> (case consume_valuation_for_contract now (pd_tenant_id (con_deal c)) vid (Some actor_id) db of
       Inr r \<Rightarrow> Inr r
     | Inl (ConflictError ds) \<Rightarrow> if map_of ds ''reason'' = Some (JStr ''valuation_expired'')
         then Inl (ConflictError [(''reason'', JStr ''trade_in_valuation_expired''), (''valuationId'', JUuid vid)])
         else Inl (ConflictError ds)
     | Inl e \<Rightarrow> Inl e))"

record confirmation_ids =
  ci_tenant_id :: uuid
  ci_contract_id :: uuid
  ci_valuation_id :: "uuid option"

definition signed_elsewhere :: "confirmation_ids \<Rightarrow> uuid \<Rightarrow> 'a sales_db_scheme \<Rightarrow> bool" where
  "signed_elsewhere ids vid db \<longleftrightarrow> select_one (\<lambda>r. pd_tenant_id (con_deal r) = ci_tenant_id ids
     \<and> trade_in_valuation_id (con_deal r) = Some vid \<and> con_id r \<noteq> ci_contract_id ids \<and> signed_at r \<noteq> None)
     (sales_contracts db) \<noteq> None"

text \<open>Each action on its own session: a failure is logged and leaves the database as it was.\<close>

definition compensate_release ::
  "datetime \<Rightarrow> confirmation_ids \<Rightarrow> uuid option \<Rightarrow> 'a sales_db_scheme \<Rightarrow> 'a sales_db_scheme" where
  "compensate_release now ids rid db = (case rid of
     None \<Rightarrow> db
   | Some r \<Rightarrow> (case release now (ci_tenant_id ids) r (Some (compensate_key (ci_contract_id ids) r)) db of
       Inr (db', _) \<Rightarrow> db' | Inl _ \<Rightarrow> db))"

definition compensate_valuation ::
  "datetime \<Rightarrow> confirmation_ids \<Rightarrow> bool \<Rightarrow> uuid \<Rightarrow> 'a sales_db_scheme \<Rightarrow> 'a sales_db_scheme" where
  "compensate_valuation now ids newly_used actor_id db = (case ci_valuation_id ids of
     None \<Rightarrow> db
   | Some vid \<Rightarrow> if newly_used \<and> \<not> signed_elsewhere ids vid db
       then (case revert_valuation_use now (ci_tenant_id ids) vid (Some actor_id) db of Inr db' \<Rightarrow> db' | Inl _ \<Rightarrow> db)
       else db)"

text \<open>Nothing is undone once the contract is signed, which a second confirmation may have done meanwhile.\<close>

definition compensate_confirmation ::
  "datetime \<Rightarrow> confirmation_ids \<Rightarrow> uuid option \<Rightarrow> bool \<Rightarrow> uuid \<Rightarrow> 'a sales_db_scheme \<Rightarrow> 'a sales_db_scheme" where
  "compensate_confirmation now ids rid newly_used actor_id db =
     (case select_one (\<lambda>r. pd_tenant_id (con_deal r) = ci_tenant_id ids \<and> con_id r = ci_contract_id ids) (sales_contracts db) of
        Some r \<Rightarrow> if signed_at r \<noteq> None then db
          else compensate_valuation now ids newly_used actor_id (compensate_release now ids rid db)
      | None \<Rightarrow> compensate_valuation now ids newly_used actor_id (compensate_release now ids rid db))"

definition reserve_contract_car ::
  "datetime \<Rightarrow> sales_contract \<Rightarrow> 'a sales_db_scheme \<Rightarrow> ('a sales_db_scheme \<times> uuid option) result" where
  "reserve_contract_car now c db =
     (case (vehicle_source (con_deal c) = Some ''stock'', pd_stock_item_id (con_deal c)) of
        (True, Some i) \<Rightarrow>
          bindR (reserve_for_contract now (pd_tenant_id (con_deal c)) i (con_id c) (confirm_key (con_id c)) db) (\<lambda>(db1, resp).
          bindR (as_obj resp) (\<lambda>kvs. bindR (bindR (get_item ''reservationId'' kvs) as_uuid) (\<lambda>r. Inr (db1, Some r))))
      | _ \<Rightarrow> Inr (db, None))"

definition sign_contract :: "datetime \<Rightarrow> uuid option \<Rightarrow> uuid \<Rightarrow> sales_contract \<Rightarrow> sales_contract" where
  "sign_contract now rid actor_id c = c\<lparr>contract_status := CT_CONFIRMED, signed_at := Some now, reservation_id := rid,
     con_deal := touch (Some actor_id) (con_deal c)\<rparr>"

definition write_confirmation :: "datetime \<Rightarrow> sales_contract \<Rightarrow> 'a sales_db_scheme \<Rightarrow> 'a sales_db_scheme" where
  "write_confirmation now c db = upsert_deal_projection (ContractDeal c)
     (publish now (sales_event ''sales.contract.confirmed'' ''sales_contract'' (con_deal c) (confirmed_event_payload c))
       (save_contract c db))"

text \<open>
  \<open>commit_error\<close> is the outcome of the request's own flush and commit, which the database may refuse
  (a lost connection, a failed flush); \<open>env\<close> is what other requests commit between the rollback and
  the compensation's row lock. The confirmation's own row lock keeps the contract itself unchanged
  before that.
\<close>

definition confirm_contract ::
  "exn option \<Rightarrow> ('a sales_db_scheme \<Rightarrow> 'a sales_db_scheme) \<Rightarrow> datetime \<Rightarrow> sales_contract \<Rightarrow> uuid \<Rightarrow> uuid
     \<Rightarrow> 'a sales_db_scheme \<Rightarrow> 'a sales_db_scheme \<times> sales_contract result" where
  "confirm_contract commit_error env now c gid actor_id db =
     (case confirm_guards c gid db of
        Inl e \<Rightarrow> (db, Inl e)
      | Inr _ \<Rightarrow>
        let ids = \<lparr>ci_tenant_id = pd_tenant_id (con_deal c), ci_contract_id = con_id c,
              ci_valuation_id = trade_in_valuation_id (con_deal c)\<rparr>
        in case consume_trade_in_valuation now c actor_id db of
             Inl e \<Rightarrow> (db, Inl e)
           | Inr (db1, newly_used) \<Rightarrow>
             (case reserve_contract_car now c db1 of
                Inl e \<Rightarrow> (compensate_confirmation now ids None newly_used actor_id (env db1), Inl e)
              | Inr (db2, rid) \<Rightarrow>
                let c' = sign_contract now rid actor_id c
                in (case commit_error of
                      None \<Rightarrow> (write_confirmation now c' db2, Inr c')
                    | Some e \<Rightarrow> (compensate_confirmation now ids rid newly_used actor_id (env db2), Inl e))))"

section \<open>Invoice request and cancellation\<close>

definition contract_is_invoiceable :: "sales_contract \<Rightarrow> 'a sales_db_scheme \<Rightarrow> bool" where
  "contract_is_invoiceable c db \<longleftrightarrow> select_one (\<lambda>r. ssp_tenant_id r = pd_tenant_id (con_deal c)
     \<and> Some (ssp_stock_item_id r) = pd_stock_item_id (con_deal c)) (sales_stock_item_purchases db) \<noteq> None"

definition request_invoice :: "datetime \<Rightarrow> sales_contract \<Rightarrow> 'a sales_db_scheme \<Rightarrow> 'a sales_db_scheme result" where
  "request_invoice now c db =
     (if contract_status c \<noteq> CT_CONFIRMED then Inl (ConflictError [])
      else if legacy_transaction_id c \<noteq> None then Inl (reason_error ''legacy_sale'')
      else if \<not> contract_is_invoiceable c db then Inl (reason_error ''vehicle_not_purchased'')
      else Inr (publish now (sales_event ''sales.contract.invoice_requested'' ''sales_contract'' (con_deal c)
        [(''contractNumber'', JStr (contract_number c)), (''stockItemId'', json_opt JUuid (pd_stock_item_id (con_deal c))),
         (''grossPrice'', json_opt JDec (gross_price (con_deal c))),
         (''deliveryDate'', json_opt (\<lambda>d. JTime (d * day_us)) (delivery_date c))]) db))"

definition cancel_guards :: "sales_contract \<Rightarrow> unit result" where
  "cancel_guards c =
     bindR (raise_if (contract_status c \<noteq> CT_PENDING \<and> contract_status c \<noteq> CT_CONFIRMED)
       (ConflictError [(''status'', JStr (contract_status_text (contract_status c)))])) (\<lambda>_.
     raise_if (legacy_transaction_id c \<noteq> None) (reason_error ''legacy_sale''))"

text \<open>A reservation that is already gone does not stop the cancellation.\<close>

definition release_contract_car :: "datetime \<Rightarrow> sales_contract \<Rightarrow> 'a sales_db_scheme \<Rightarrow> 'a sales_db_scheme result" where
  "release_contract_car now c db = (case (contract_status c, reservation_id c) of
     (CT_CONFIRMED, Some r) \<Rightarrow>
       (case release now (pd_tenant_id (con_deal c)) r (Some (cancel_key (con_id c))) db of
          Inr (db', _) \<Rightarrow> Inr db' | Inl (NotFoundError _) \<Rightarrow> Inr db | Inl e \<Rightarrow> Inl e)
   | _ \<Rightarrow> Inr db)"

text \<open>
  The release commits first, on its own session; \<open>commit_error\<close> is the outcome of the request's own
  commit, as in the confirmation.
\<close>

definition write_cancellation :: "datetime \<Rightarrow> sales_contract \<Rightarrow> string \<Rightarrow> 'a sales_db_scheme \<Rightarrow> 'a sales_db_scheme" where
  "write_cancellation now c reason db = upsert_deal_projection (ContractDeal c)
     (publish now (sales_event ''sales.contract.cancelled'' ''sales_contract'' (con_deal c)
        [(''contractNumber'', JStr (contract_number c)), (''reason'', JStr reason)]) (save_contract c db))"

definition cancel_contract ::
  "exn option \<Rightarrow> datetime \<Rightarrow> sales_contract \<Rightarrow> string \<Rightarrow> uuid option \<Rightarrow> 'a sales_db_scheme
     \<Rightarrow> 'a sales_db_scheme \<times> sales_contract result" where
  "cancel_contract commit_error now c reason actor_id db =
     (case bindR (cancel_guards c) (\<lambda>_. release_contract_car now c db) of
        Inl e \<Rightarrow> (db, Inl e)
      | Inr db1 \<Rightarrow>
          let c' = c\<lparr>contract_status := CT_CANCELLED,
                con_deal := (touch actor_id (con_deal c))\<lparr>cancelled_reason := Some reason\<rparr>\<rparr>
          in (case commit_error of
                None \<Rightarrow> (write_cancellation now c' reason db1, Inr c') | Some e \<Rightarrow> (db1, Inl e)))"

section \<open>Reads for other contexts\<close>

definition valuations_carried_by_signed_contracts :: "uuid \<Rightarrow> uuid list \<Rightarrow> 'a sales_db_scheme \<Rightarrow> uuid list" where
  "valuations_carried_by_signed_contracts tenant_id vids db = remdups (List.map_filter (\<lambda>r. trade_in_valuation_id (con_deal r))
     (select_all (\<lambda>r. pd_tenant_id (con_deal r) = tenant_id \<and> signed_at r \<noteq> None
        \<and> (case trade_in_valuation_id (con_deal r) of Some v \<Rightarrow> List.member vids v | None \<Rightarrow> False)) (sales_contracts db)))"

definition status_chunk :: nat where "status_chunk = 1000"

definition chunk_statuses :: "uuid \<Rightarrow> uuid list \<Rightarrow> 'a sales_db_scheme \<Rightarrow> (uuid \<times> contract_status) list" where
  "chunk_statuses tenant_id chunk db = map (\<lambda>r. (con_id r, contract_status r))
     (select_all (\<lambda>r. pd_tenant_id (con_deal r) = tenant_id \<and> List.member chunk (con_id r)) (sales_contracts db))"

text \<open>\<open>for start in range(0, len(ids), _CHUNK): statuses.update(...)\<close>.\<close>

function status_loop ::
  "uuid \<Rightarrow> uuid list \<Rightarrow> nat \<Rightarrow> 'a sales_db_scheme \<Rightarrow> (uuid \<rightharpoonup> contract_status) \<Rightarrow> (uuid \<rightharpoonup> contract_status)" where
  "status_loop tenant_id ids start db statuses =
     (if start < length ids
      then status_loop tenant_id ids (start + status_chunk) db
        (statuses ++ map_of (rev (chunk_statuses tenant_id (take status_chunk (drop start ids)) db)))
      else statuses)"
  by pat_completeness auto
termination by (relation "measure (\<lambda>(_, ids, start, _). length ids - start)") (auto simp: status_chunk_def)

definition get_contract_statuses :: "uuid \<Rightarrow> uuid list \<Rightarrow> 'a sales_db_scheme \<Rightarrow> (uuid \<rightharpoonup> contract_status)" where
  "get_contract_statuses tenant_id contract_ids db = status_loop tenant_id (rev (remdups (rev contract_ids))) 0 db Map.empty"

section \<open>Consumers\<close>

definition link_manual_configuration_to_pipeline_item ::
  "uuid \<Rightarrow> uuid \<Rightarrow> uuid \<Rightarrow> string option \<Rightarrow> datetime \<Rightarrow> 'a sales_db_scheme \<Rightarrow> 'a sales_db_scheme" where
  "link_manual_configuration_to_pipeline_item tenant_id contract_id item_id label refreshed db =
     (case select_one (\<lambda>r. pd_tenant_id (con_deal r) = tenant_id \<and> con_id r = contract_id) (sales_contracts db) of
        None \<Rightarrow> db
      | Some c \<Rightarrow>
          if vehicle_source (con_deal c) \<noteq> Some ''manual'' then db
          else if pd_stock_item_id (con_deal c) \<noteq> None \<and> pd_stock_item_id (con_deal c) \<noteq> Some item_id then db
          else if pd_stock_item_id (con_deal c) = Some item_id \<and> stock_item_label c = label then db
          else save_contract (c\<lparr>con_deal := (con_deal c)\<lparr>pd_stock_item_id := Some item_id,
              pd_version := pd_version (con_deal c) + 1\<rparr>,
            stock_item_label := label, stock_item_denorm_refreshed_at := Some refreshed\<rparr>) db)"

definition record_stock_item_purchased ::
  "uuid \<Rightarrow> uuid \<Rightarrow> uuid option \<Rightarrow> string option \<Rightarrow> datetime \<Rightarrow> 'a sales_db_scheme \<Rightarrow> 'a sales_db_scheme" where
  "record_stock_item_purchased tenant_id item_id event_id label recorded db =
     (let is_item = (\<lambda>r. ssp_tenant_id r = tenant_id \<and> ssp_stock_item_id r = item_id) in
      case select_one is_item (sales_stock_item_purchases db) of
        Some r \<Rightarrow> if label \<noteq> None \<and> ssp_stock_item_label r \<noteq> label
          then db\<lparr>sales_stock_item_purchases := update_where is_item (\<lambda>r. r\<lparr>ssp_stock_item_label := label,
            ssp_stock_item_denorm_refreshed_at := Some recorded\<rparr>) (sales_stock_item_purchases db)\<rparr>
          else db
      | None \<Rightarrow> db\<lparr>sales_stock_item_purchases := sales_stock_item_purchases db @ [\<lparr>ssp_tenant_id = tenant_id,
          ssp_stock_item_id = item_id, ssp_stock_item_label = label,
          ssp_stock_item_denorm_refreshed_at = (if label \<noteq> None then Some recorded else None),
          ssp_recorded_at = recorded, ssp_source_event_id = event_id\<rparr>]\<rparr>)"

text \<open>\<open>payload.get(key)\<close> where a text is expected: null and absent are both none.\<close>

definition text_of :: "json option \<Rightarrow> string option" where
  "text_of j = (case j of Some (JStr s) \<Rightarrow> Some s | _ \<Rightarrow> None)"

definition handle_stock_item_purchased_message ::
  "datetime \<Rightarrow> outbox_message \<Rightarrow> 'a sales_db_scheme \<Rightarrow> 'a sales_db_scheme result" where
  "handle_stock_item_purchased_message now m db = (case msg_tenant_id m of
     None \<Rightarrow> Inl ValueError
   | Some tenant_id \<Rightarrow> Inr (record_stock_item_purchased tenant_id (aggregate_id m) (Some (msg_id m))
       (text_of (map_of (msg_payload m) ''stockNumber'')) (occurred_at m) db))"

text \<open>\<open>not payload.get("originContractId")\<close>: absent, null and the empty text are ignored.\<close>

definition handle_stock_item_added_message ::
  "datetime \<Rightarrow> outbox_message \<Rightarrow> 'a sales_db_scheme \<Rightarrow> 'a sales_db_scheme result" where
  "handle_stock_item_added_message now m db = (case msg_tenant_id m of
     None \<Rightarrow> Inl ValueError
   | Some tenant_id \<Rightarrow>
       if map_of (msg_payload m) ''originRole'' \<noteq> Some (JStr ''manual_configuration'') then Inr db
       else (case map_of (msg_payload m) ''originContractId'' of
          None \<Rightarrow> Inr db | Some JNull \<Rightarrow> Inr db | Some (JStr []) \<Rightarrow> Inr db
        | Some j \<Rightarrow> bindR (as_uuid j) (\<lambda>cid. Inr (link_manual_configuration_to_pipeline_item tenant_id cid (aggregate_id m)
            (text_of (map_of (msg_payload m) ''stockNumber'')) (occurred_at m) db))))"

section \<open>Customer merge\<close>

definition repoint_deal :: "uuid \<Rightarrow> priced_deal \<Rightarrow> priced_deal" where
  "repoint_deal target_id p = p\<lparr>pd_customer_id := Some target_id\<rparr>"

definition repoint_customer_sales_records :: "uuid \<Rightarrow> uuid \<Rightarrow> 'a sales_db_scheme \<Rightarrow> 'a sales_db_scheme \<times> nat" where
  "repoint_customer_sales_records duplicate_id target_id db =
     (db\<lparr>sales_offers := update_where (\<lambda>r. pd_customer_id (off_deal r) = Some duplicate_id)
          (\<lambda>r. r\<lparr>off_deal := repoint_deal target_id (off_deal r)\<rparr>) (sales_offers db),
        sales_contracts := update_where (\<lambda>r. pd_customer_id (con_deal r) = Some duplicate_id)
          (\<lambda>r. r\<lparr>con_deal := repoint_deal target_id (con_deal r)\<rparr>) (sales_contracts db),
        sales_deals := update_where (\<lambda>r. sd_customer_id r = Some duplicate_id)
          (\<lambda>r. r\<lparr>sd_customer_id := Some target_id\<rparr>) (sales_deals db)\<rparr>,
      length (select_all (\<lambda>r. pd_customer_id (off_deal r) = Some duplicate_id) (sales_offers db))
      + length (select_all (\<lambda>r. pd_customer_id (con_deal r) = Some duplicate_id) (sales_contracts db)))"

section \<open>Hand-over of a leaver's deals\<close>

text \<open>\<open>offer_is_open\<close>: draft or open, and no live contract of any tenant made from it.\<close>

definition offer_is_open :: "'a sales_db_scheme \<Rightarrow> sales_offer \<Rightarrow> bool" where
  "offer_is_open db o1 \<longleftrightarrow> (offer_status o1 = OF_DRAFT \<or> offer_status o1 = OF_OPEN)
     \<and> select_one (\<lambda>c. con_offer_id c = Some (off_id o1) \<and> contract_status c \<noteq> CT_CANCELLED) (sales_contracts db) = None"

datatype owned_group = OFFERS_GROUP | CONTRACTS_GROUP

definition open_rows :: "uuid \<Rightarrow> owned_group \<Rightarrow> 'a sales_db_scheme \<Rightarrow> deal list" where
  "open_rows uid grp db = (case grp of
     OFFERS_GROUP \<Rightarrow> map OfferDeal (sort_key off_id
       (select_all (\<lambda>r. owner_user_id (off_deal r) = Some uid \<and> offer_is_open db r) (sales_offers db)))
   | CONTRACTS_GROUP \<Rightarrow> map ContractDeal (sort_key con_id
       (select_all (\<lambda>r. owner_user_id (con_deal r) = Some uid \<and> contract_status r = CT_PENDING) (sales_contracts db))))"

definition list_open :: "uuid \<Rightarrow> 'a sales_db_scheme \<Rightarrow> (owned_group \<times> nat) list" where
  "list_open uid db = filter (\<lambda>(_, n). n \<noteq> 0)
     [(OFFERS_GROUP, length (select_all (\<lambda>r. owner_user_id (off_deal r) = Some uid \<and> offer_is_open db r) (sales_offers db))),
      (CONTRACTS_GROUP, length (select_all (\<lambda>r. owner_user_id (con_deal r) = Some uid \<and> contract_status r = CT_PENDING)
        (sales_contracts db)))]"

text \<open>How many of the rows lie in a dealership the colleague cannot act in.\<close>

definition rows_elsewhere :: "datetime \<Rightarrow> uuid option \<Rightarrow> deal list \<Rightarrow> 'a sales_db_scheme \<Rightarrow> nat" where
  "rows_elsewhere now to_user rows db = (case to_user of
     None \<Rightarrow> 0
   | Some u \<Rightarrow> length (filter (\<lambda>d. \<not> List.member (list_user_dealership_ids now u db) (pd_tenant_id (columns d))) rows))"

definition group_text :: "owned_group \<Rightarrow> string" where
  "group_text g = (case g of OFFERS_GROUP \<Rightarrow> ''offers'' | CONTRACTS_GROUP \<Rightarrow> ''contracts'')"

definition hand_over_row :: "owner_columns \<Rightarrow> uuid option \<Rightarrow> deal \<Rightarrow> 'a sales_db_scheme \<Rightarrow> 'a sales_db_scheme" where
  "hand_over_row own actor_id d db =
     (let d' = set_columns (touch actor_id (apply_owner own (columns d))) d
      in upsert_deal_projection d' (save_deal d' db))"

definition transfer_group ::
  "datetime \<Rightarrow> uuid \<Rightarrow> owned_group \<Rightarrow> uuid option \<Rightarrow> string option \<Rightarrow> uuid option \<Rightarrow> 'a sales_db_scheme
     \<Rightarrow> ('a sales_db_scheme \<times> nat) result" where
  "transfer_group now from_user grp to_user to_label actor_id db =
     (let own = (to_user, (if to_user \<noteq> None then to_label else None), (if to_user \<noteq> None then Some now else None));
          rows = open_rows from_user grp db;
          elsewhere = rows_elsewhere now to_user rows db
      in if elsewhere \<noteq> 0 then Inl (UnprocessableEntityError [(''module'', JStr ''sales''), (''group'', JStr (group_text grp)),
             (''toUserId'', json_opt JUuid to_user), (''reason'', JStr ''colleague_cannot_act_there''),
             (''count'', JInt (int elsewhere))])
         else Inr (fold (hand_over_row own actor_id) rows db, length rows))"

end
