(* ===== verification/Sales_Documents.thy ===== *)
theory Sales_Documents
  imports Sales_Contracts
begin

text \<open>
  Documents of an offer or a contract (\<^verbatim>\<open>app/sales/services/document.py\<close>): the printed price
  build-up with its one VAT line, the frozen content and its version. A document is rendered from
  the frozen content alone; the rendering itself (the platform's block renderer) is not modelled.
\<close>

section \<open>Content\<close>

definition compute_vat_amount :: "decimal \<Rightarrow> decimal \<Rightarrow> decimal" where
  "compute_vat_amount gross rate = quantize_cents_half_up (gross * rate / (100 + rate))"

definition line_if :: "bool \<Rightarrow> line_label \<Rightarrow> decimal \<Rightarrow> line_style \<Rightarrow> document_line list" where
  "line_if b label amount style = (if b then [\<lparr>dl_label = label, dl_amount = amount, dl_style = style\<rparr>] else [])"

definition price_build_up_lines ::
  "priced_deal \<Rightarrow> (string \<times> decimal) list \<Rightarrow> decimal option \<Rightarrow> document_line list" where
  "price_build_up_lines p opts rate =
     line_if (base_price p \<noteq> None) LabelBasePrice (or_zero (base_price p)) LINE_NORMAL
     @ map (\<lambda>(label, amount). \<lparr>dl_label = LabelOption label, dl_amount = amount, dl_style = LINE_NORMAL\<rparr>) opts
     @ line_if (or_zero (options_total p) > 0) LabelOptionsTotal (or_zero (options_total p)) LINE_SUB
     @ line_if (pd_list_price p \<noteq> None) LabelListPrice (or_zero (pd_list_price p)) LINE_TOTAL
     @ line_if (or_zero (accessories_total p) > 0) LabelAccessoriesTotal (or_zero (accessories_total p)) LINE_SUB
     @ line_if (or_zero (discount_amount p) > 0) LabelDiscountAmount (- or_zero (discount_amount p)) LINE_NORMAL
     @ line_if (gross_price p \<noteq> None) LabelGrossPrice (or_zero (gross_price p)) LINE_GRAND
     @ line_if (trade_in_value p \<noteq> None) LabelTradeInValue (- or_zero (trade_in_value p)) LINE_NORMAL
     @ line_if (payable p \<noteq> None) LabelPayable (or_zero (payable p)) LINE_GRAND
     @ (case (gross_price p, rate) of
          (Some g, Some r) \<Rightarrow> [\<lparr>dl_label = LabelIncludedVat r, dl_amount = compute_vat_amount g r, dl_style = LINE_SUB\<rparr>]
        | _ \<Rightarrow> [])"

text \<open>\<open>label or "\<dots>"\<close>: an empty or absent text prints the dash.\<close>

definition or_dash :: "string option \<Rightarrow> string" where
  "or_dash s = (case given s of Some t \<Rightarrow> t | None \<Rightarrow> em_dash)"

definition build_offer_content ::
  "datetime \<Rightarrow> sales_offer \<Rightarrow> decimal option \<Rightarrow> (string \<times> decimal) list \<Rightarrow> document_content" where
  "build_offer_content now o1 rate opts =
     \<lparr>dc_title = (OFFER_ENTITY, offer_number o1), dc_date = date_of now,
      dc_addressee = or_dash (pd_customer_label (off_deal o1)), dc_greeting = True,
      dc_vehicle = or_dash (pd_vehicle_label (off_deal o1)), dc_lines = price_build_up_lines (off_deal o1) opts rate\<rparr>"

definition build_contract_content :: "datetime \<Rightarrow> sales_contract \<Rightarrow> decimal option \<Rightarrow> document_content" where
  "build_contract_content now c rate =
     \<lparr>dc_title = (CONTRACT_ENTITY, contract_number c), dc_date = date_of now,
      dc_addressee = or_dash (pd_customer_label (con_deal c)), dc_greeting = False,
      dc_vehicle = or_dash (pd_vehicle_label (con_deal c)), dc_lines = price_build_up_lines (con_deal c) [] rate\<rparr>"

section \<open>Generation\<close>

definition next_document_version :: "uuid \<Rightarrow> entity_type \<Rightarrow> uuid \<Rightarrow> 'a sales_db_scheme \<Rightarrow> nat" where
  "next_document_version tenant_id owner_type owner_id db =
     fold max (map doc_version (select_all (\<lambda>d. doc_tenant_id d = tenant_id \<and> doc_owner_type d = owner_type
       \<and> doc_owner_id d = owner_id) (sales_documents db))) 0 + 1"

definition included_option_lines :: "sales_offer \<Rightarrow> 'a sales_db_scheme \<Rightarrow> (string \<times> decimal) list" where
  "included_option_lines o1 db = (if pd_configuration_id (off_deal o1) = None then []
     else map (\<lambda>li. (li_label li, line_amount li)) (sort_key li_position (sort_key li_id
       (select_all (\<lambda>li. li_offer_id li = Some (off_id o1) \<and> li_kind li = FACTORY_OPTION \<and> included li) (sales_line_items db)))))"

definition swiss_languages :: "string list" where
  "swiss_languages = [''de'', ''fr'', ''it'', ''en'']"

text \<open>\<open>SwissLanguage(text)\<close> raises on an unknown code; no language means German.\<close>

definition document_language :: "string option \<Rightarrow> string result" where
  "document_language l = (case given l of None \<Rightarrow> Inr ''de''
     | Some s \<Rightarrow> if List.member swiss_languages s then Inr s else Inl ValueError)"

definition add_document ::
  "datetime \<Rightarrow> entity_type \<Rightarrow> priced_deal \<Rightarrow> string \<Rightarrow> document_content \<Rightarrow> uuid option \<Rightarrow> 'a sales_db_scheme
     \<Rightarrow> 'a sales_db_scheme \<times> sales_document" where
  "add_document now owner_type p language content actor_id db =
     (let (iid, db1) = draw_uuid db;
          doc = \<lparr>doc_id = iid, doc_tenant_id = pd_tenant_id p, doc_owner_type = owner_type, doc_owner_id = pd_id p,
            doc_version = next_document_version (pd_tenant_id p) owner_type (pd_id p) db,
            correspondence_language = language, content_definition = content, rendered_at = now, rendered_by = actor_id\<rparr>
      in (db1\<lparr>sales_documents := sales_documents db1 @ [doc]\<rparr>, doc))"

definition generate_offer_document ::
  "datetime \<Rightarrow> sales_offer \<Rightarrow> uuid option \<Rightarrow> 'a sales_db_scheme \<Rightarrow> ('a sales_db_scheme \<times> sales_document) result" where
  "generate_offer_document now o1 actor_id db =
     bindR (document_language (pd_customer_language (off_deal o1))) (\<lambda>language.
     bindR (get_dealership_or_404 (pd_tenant_id (off_deal o1)) db) (\<lambda>dealership.
     let content = build_offer_content now o1 (vat_rate dealership) (included_option_lines o1 db);
         (db1, doc) = add_document now OFFER_ENTITY (off_deal o1) language content actor_id db
     in Inr (upsert_deal_projection (OfferDeal o1) db1, doc)))"

definition generate_contract_document ::
  "datetime \<Rightarrow> sales_contract \<Rightarrow> uuid option \<Rightarrow> 'a sales_db_scheme \<Rightarrow> ('a sales_db_scheme \<times> sales_document) result" where
  "generate_contract_document now c actor_id db =
     bindR (require_complete c) (\<lambda>_.
     bindR (document_language (pd_customer_language (con_deal c))) (\<lambda>language.
     bindR (get_dealership_or_404 (pd_tenant_id (con_deal c)) db) (\<lambda>dealership.
     let content = build_contract_content now c (vat_rate dealership);
         (db1, doc) = add_document now CONTRACT_ENTITY (con_deal c) language content actor_id db
     in Inr (upsert_deal_projection (ContractDeal c) db1, doc))))"

definition list_documents :: "uuid \<Rightarrow> entity_type \<Rightarrow> uuid \<Rightarrow> 'a sales_db_scheme \<Rightarrow> sales_document list" where
  "list_documents tenant_id owner_type owner_id db = rev (sort_key doc_version (select_all (\<lambda>d. doc_tenant_id d = tenant_id
     \<and> doc_owner_type d = owner_type \<and> doc_owner_id d = owner_id) (sales_documents db)))"

end
