(* ===== verification/Sales_Grid.thy ===== *)
theory Sales_Grid
  imports Sales_Documents
begin

text \<open>
  The deal grid as a refinement. \<open>sales_deal\<close> is a table the services write beside every offer and
  contract; \<open>grid_view\<close> is the query it stands for, one row per deal lineage, read from the offers,
  the contracts and the documents. Every write of the Sales context keeps the table equal to the
  query, and keeps at most one live contract per offer.
\<close>

section \<open>The query the table stands for\<close>

definition grid_view :: "'a sales_db_scheme \<Rightarrow> uuid \<Rightarrow> sales_deal option" where
  "grid_view db i = (case select_one (\<lambda>r. off_id r = i) (sales_offers db) of
     Some o1 \<Rightarrow> Some (case live_contract_of o1 db of Some c \<Rightarrow> contract_row c db | None \<Rightarrow> offer_row o1 db)
   | None \<Rightarrow> map_option (\<lambda>c. contract_row c db)
       (select_one (\<lambda>c. con_id c = i \<and> con_offer_id c = None) (sales_contracts db)))"

text \<open>The tables the query reads, and the grid.\<close>

definition sales_core :: "'a sales_db_scheme \<Rightarrow> sales_offer list \<times> sales_contract list \<times> sales_deal list \<times> sales_document list" where
  "sales_core db = (sales_offers db, sales_contracts db, sales_deals db, sales_documents db)"

definition live :: "sales_contract \<Rightarrow> bool" where
  "live c \<longleftrightarrow> contract_status c \<noteq> CT_CANCELLED"

definition deal_keys :: "'a sales_db_scheme \<Rightarrow> uuid list" where
  "deal_keys db = map off_id (sales_offers db) @ map con_id (sales_contracts db)"

definition one_live_each :: "sales_contract list \<Rightarrow> bool" where
  "one_live_each cs \<longleftrightarrow> (\<forall>c \<in> set cs. \<forall>c' \<in> set cs. con_offer_id c \<noteq> None \<longrightarrow>
     con_offer_id c = con_offer_id c' \<longrightarrow> live c \<longrightarrow> live c' \<longrightarrow> c = c')"

definition lineages_ok :: "sales_offer list \<Rightarrow> sales_contract list \<Rightarrow> bool" where
  "lineages_ok os cs \<longleftrightarrow> (\<forall>c \<in> set cs. \<forall>i. con_offer_id c = Some i \<longrightarrow>
     (\<exists>o1 \<in> set os. off_id o1 = i \<and> pd_tenant_id (off_deal o1) = pd_tenant_id (con_deal c)))"

definition sales_structure :: "'a sales_db_scheme \<Rightarrow> bool" where
  "sales_structure db \<longleftrightarrow> distinct (deal_keys db) \<and> (\<forall>i \<in> set (deal_keys db). i < uuid_supply db)
     \<and> one_live_each (sales_contracts db) \<and> lineages_ok (sales_offers db) (sales_contracts db)"

definition grid_agrees :: "'a sales_db_scheme \<Rightarrow> bool" where
  "grid_agrees db \<longleftrightarrow> distinct (map sd_id (sales_deals db))
     \<and> (\<forall>i. select_one (\<lambda>d. sd_id d = i) (sales_deals db) = grid_view db i)"

definition sales_inv :: "'a sales_db_scheme \<Rightarrow> bool" where
  "sales_inv db \<longleftrightarrow> sales_structure db \<and> grid_agrees db"

section \<open>Rows found by key\<close>

lemma select_one_update_where_on:
  assumes "\<And>r. r \<in> set rows \<Longrightarrow> P r \<Longrightarrow> Q (f r) = Q r"
  shows "select_one Q (update_where P f rows) = map_option (\<lambda>r. if P r then f r else r) (select_one Q rows)"
  using assms by (induction rows) auto

lemma select_one_replaced:
  assumes "\<exists>r \<in> set rows. k r = k x"
  shows "select_one (\<lambda>r. k r = k x) (update_where (\<lambda>r. k r = k x) (\<lambda>_. x) rows) = Some x"
  using assms by (induction rows) auto

lemma filter_unique:
  assumes "distinct xs" "\<And>x y. x \<in> set xs \<Longrightarrow> y \<in> set xs \<Longrightarrow> P x \<Longrightarrow> P y \<Longrightarrow> x = y"
  shows "filter P xs = (case select_one P xs of None \<Rightarrow> [] | Some x \<Rightarrow> [x])"
  using assms
proof (induction xs)
  case (Cons a xs)
  show ?case
  proof (cases "P a")
    case True
    then have "\<forall>x \<in> set xs. \<not> P x" using Cons.prems by fastforce
    then show ?thesis using True by (simp add: filter_empty_conv)
  qed (use Cons in auto)
qed simp

lemma core_eqD:
  assumes "sales_core db = sales_core db'"
  shows "sales_offers db = sales_offers db'" "sales_contracts db = sales_contracts db'"
    "sales_deals db = sales_deals db'" "sales_documents db = sales_documents db'"
  using assms by (simp_all add: sales_core_def)

lemma count_documents_core: "sales_core db = sales_core db' \<Longrightarrow> count_documents t e i db = count_documents t e i db'"
  by (simp add: count_documents_def sales_core_def)

lemma rows_core:
  assumes "sales_documents db = sales_documents db'"
  shows "contract_row c db = contract_row c db'" "offer_row o1 db = offer_row o1 db'"
  using assms by (simp_all add: contract_row_def offer_row_def count_documents_def Let_def split: option.split)

lemma grid_view_core:
  assumes "sales_offers db = sales_offers db'" "sales_contracts db = sales_contracts db'" "sales_documents db = sales_documents db'"
  shows "grid_view db = grid_view db'"
proof
  fix i
  have "live_contract_of o1 db = live_contract_of o1 db'" for o1 using assms by (simp add: live_contract_of_def)
  then show "grid_view db i = grid_view db' i"
    using assms(1,2) rows_core [OF assms(3)] by (simp add: grid_view_def split: option.split)
qed

lemma one_live_contract:
  "one_live_each cs \<Longrightarrow> c \<in> set cs \<Longrightarrow> c' \<in> set cs \<Longrightarrow> con_offer_id c = Some i \<Longrightarrow> con_offer_id c' = Some i
    \<Longrightarrow> live c \<Longrightarrow> live c' \<Longrightarrow> c = c'"
  by (simp add: one_live_each_def)

lemma lineage_offer:
  assumes "lineages_ok os cs" "c \<in> set cs" "con_offer_id c = Some i"
  obtains o1 where "o1 \<in> set os" "off_id o1 = i" "pd_tenant_id (off_deal o1) = pd_tenant_id (con_deal c)"
  using assms by (auto simp: lineages_ok_def)

lemma structureD:
  assumes "sales_structure db"
  shows "distinct (map off_id (sales_offers db))" "distinct (map con_id (sales_contracts db))"
    "o1 \<in> set (sales_offers db) \<Longrightarrow> c \<in> set (sales_contracts db) \<Longrightarrow> off_id o1 \<noteq> con_id c"
    "one_live_each (sales_contracts db)" "lineages_ok (sales_offers db) (sales_contracts db)"
    "o1 \<in> set (sales_offers db) \<Longrightarrow> off_id o1 < uuid_supply db"
    "c \<in> set (sales_contracts db) \<Longrightarrow> con_id c < uuid_supply db"
  using assms by (auto simp: sales_structure_def deal_keys_def)

lemma live_contract_of_unique:
  assumes "sales_structure db"
  shows "live_contract_of o1 db = select_one (is_live_contract_of o1) (sales_contracts db)"
proof -
  have "distinct (sales_contracts db)" using structureD(2) [OF assms] by (simp add: distinct_map)
  moreover have "c = c'" if "c \<in> set (sales_contracts db)" "c' \<in> set (sales_contracts db)"
    "is_live_contract_of o1 c" "is_live_contract_of o1 c'" for c c'
    using one_live_contract [OF structureD(4) [OF assms] that(1,2), of "off_id o1"] that(3,4) by (simp add: is_live_contract_of_def live_def)
  ultimately have "select_all (is_live_contract_of o1) (sales_contracts db)
    = (case select_one (is_live_contract_of o1) (sales_contracts db) of None \<Rightarrow> [] | Some c \<Rightarrow> [c])"
    unfolding select_all_def by (intro filter_unique) auto
  then show ?thesis by (simp add: live_contract_of_def split: option.split)
qed

lemma grid_view_alt:
  assumes "sales_structure db"
  shows "grid_view db i = (case select_one (\<lambda>r. off_id r = i) (sales_offers db) of
     Some o1 \<Rightarrow> Some (case select_one (is_live_contract_of o1) (sales_contracts db) of
       Some c \<Rightarrow> contract_row c db | None \<Rightarrow> offer_row o1 db)
   | None \<Rightarrow> map_option (\<lambda>c. contract_row c db)
       (select_one (\<lambda>c. con_id c = i \<and> con_offer_id c = None) (sales_contracts db)))"
  by (simp add: grid_view_def live_contract_of_unique [OF assms] split: option.split)

lemma find_offer: "sales_structure db \<Longrightarrow> o1 \<in> set (sales_offers db) \<Longrightarrow> select_one (\<lambda>r. off_id r = off_id o1) (sales_offers db) = Some o1"
  using select_one_key [of off_id] structureD(1) by blast

lemma find_contract:
  "sales_structure db \<Longrightarrow> c \<in> set (sales_contracts db) \<Longrightarrow> select_one (\<lambda>r. con_id r = con_id c) (sales_contracts db) = Some c"
  using select_one_key [of con_id] structureD(2) by blast

lemma row_ids:
  "sd_id (contract_row c db) = (case con_offer_id c of Some i \<Rightarrow> i | None \<Rightarrow> con_id c)"
  "sd_tenant_id (contract_row c db) = pd_tenant_id (con_deal c)"
  "sd_id (offer_row o1 db) = off_id o1" "sd_tenant_id (offer_row o1 db) = pd_tenant_id (off_deal o1)"
  by (simp_all add: contract_row_def offer_row_def Let_def)

section \<open>Writing one row of the grid\<close>

fun lineage :: "deal \<Rightarrow> uuid" where
  "lineage (OfferDeal o1) = off_id o1"
| "lineage (ContractDeal c) = (case con_offer_id c of Some i \<Rightarrow> i | None \<Rightarrow> con_id c)"

fun has_row :: "deal \<Rightarrow> 'a sales_db_scheme \<Rightarrow> bool" where
  "has_row (OfferDeal o1) db \<longleftrightarrow> o1 \<in> set (sales_offers db)"
| "has_row (ContractDeal c) db \<longleftrightarrow> c \<in> set (sales_contracts db)"

text \<open>The projection of a stored deal writes the row the query has for its lineage.\<close>

lemma upsert_writes_view:
  assumes s: "sales_structure db" and d: "has_row d db"
  obtains row where "upsert_deal_projection d db = write_deal_row row db" "grid_view db (lineage d) = Some row"
    "sd_id row = lineage d" "sd_tenant_id row = pd_tenant_id (columns d)"
proof (cases d)
  case (OfferDeal o1)
  have f: "select_one (\<lambda>r. off_id r = off_id o1) (sales_offers db) = Some o1" using find_offer s d OfferDeal by simp
  show ?thesis
  proof (cases "select_one (is_live_contract_of o1) (sales_contracts db)")
    case None
    then show ?thesis using that [of "offer_row o1 db"] f OfferDeal s
      by (simp add: grid_view_alt live_contract_of_unique project_live_entity_def project_offer_def row_ids)
  next
    case (Some c)
    then have "is_live_contract_of o1 c" by (rule select_one_SomeD)
    then show ?thesis using that [of "contract_row c db"] f OfferDeal s Some
      by (simp add: grid_view_alt live_contract_of_unique project_live_entity_def project_contract_def row_ids is_live_contract_of_def)
  qed
next
  case (ContractDeal c)
  have c: "c \<in> set (sales_contracts db)" using d ContractDeal by simp
  show ?thesis
  proof (cases "con_offer_id c")
    case None
    have "select_one (\<lambda>r. off_id r = con_id c) (sales_offers db) = None"
      using structureD(3) [OF s _ c] by (simp add: select_one_None_iff)
    moreover have "select_one (\<lambda>r. con_id r = con_id c \<and> con_offer_id r = None) (sales_contracts db) = Some c"
    proof -
      have "r = c" if "r \<in> set (sales_contracts db)" "con_id r = con_id c" for r
        using distinct_key_unique [OF structureD(2) [OF s] that(1) c that(2)] .
      then have "select_one (\<lambda>r. con_id r = con_id c \<and> con_offer_id r = None) (sales_contracts db)
        = select_one (\<lambda>r. con_id r = con_id c) (sales_contracts db)"
        using None by (intro select_one_cong) auto
      then show ?thesis using find_contract [OF s c] by simp
    qed
    ultimately show ?thesis using that [of "contract_row c db"] ContractDeal None
      by (simp add: grid_view_def project_contract_def row_ids)
  next
    case (Some i)
    obtain o1 where o1: "o1 \<in> set (sales_offers db)" "off_id o1 = i" "pd_tenant_id (off_deal o1) = pd_tenant_id (con_deal c)"
      using lineage_offer [OF structureD(5) [OF s] c Some] by blast
    have f: "select_one (\<lambda>r. off_id r = i) (sales_offers db) = Some o1" using find_offer [OF s o1(1)] o1(2) by simp
    show ?thesis
    proof (cases "live c")
      case True
      have "is_live_contract_of o1 c" using o1 Some True by (simp add: is_live_contract_of_def live_def)
      then obtain c' where c': "select_one (is_live_contract_of o1) (sales_contracts db) = Some c'"
        using c by (cases "select_one (is_live_contract_of o1) (sales_contracts db)") (auto simp: select_one_None_iff)
      then have "c' \<in> set (sales_contracts db)" "is_live_contract_of o1 c'" using select_one_SomeD by metis+
      then have "c' = c" using one_live_contract [OF structureD(4) [OF s] _ c, of c' i] True Some o1(2) by (simp add: is_live_contract_of_def live_def)
      then show ?thesis using that [of "contract_row c db"] ContractDeal Some True f c' s
        by (simp add: grid_view_alt project_contract_def row_ids live_def)
    next
      case False
      show ?thesis
      proof (cases "select_one (is_live_contract_of o1) (sales_contracts db)")
        case None
        then show ?thesis using that [of "offer_row o1 db"] ContractDeal Some False f s o1
          by (simp add: grid_view_alt live_contract_of_unique project_live_entity_def project_offer_def row_ids live_def)
      next
        case (Some c')
        then have "is_live_contract_of o1 c'" by (rule select_one_SomeD)
        then show ?thesis using that [of "contract_row c' db"] ContractDeal \<open>con_offer_id c = Some i\<close> False f s o1 Some
          by (simp add: grid_view_alt live_contract_of_unique project_live_entity_def project_contract_def row_ids live_def is_live_contract_of_def)
      qed
    qed
  qed
qed

lemma write_deal_row_simps [simp]:
  "sales_offers (write_deal_row row db) = sales_offers db" "sales_contracts (write_deal_row row db) = sales_contracts db"
  "sales_documents (write_deal_row row db) = sales_documents db" "uuid_supply (write_deal_row row db) = uuid_supply db"
  by (simp_all add: write_deal_row_def)

lemma write_deal_row_lookup:
  assumes "\<And>d. select_one (\<lambda>d. sd_id d = sd_id row) (sales_deals db) = Some d \<Longrightarrow> sd_tenant_id d = sd_tenant_id row"
  shows "select_one (\<lambda>d. sd_id d = j) (sales_deals (write_deal_row row db))
    = (if j = sd_id row then Some row else select_one (\<lambda>d. sd_id d = j) (sales_deals db))"
proof (cases "select_one (\<lambda>d. sd_id d = sd_id row) (sales_deals db)")
  case None
  then show ?thesis by (simp add: write_deal_row_def select_one_append split: option.split)
next
  case (Some d)
  have "select_one (\<lambda>d. sd_id d = j) (update_where (\<lambda>d. sd_id d = sd_id row) (\<lambda>d. row\<lparr>sd_tenant_id := sd_tenant_id d\<rparr>) (sales_deals db))
    = map_option (\<lambda>d. if sd_id d = sd_id row then row\<lparr>sd_tenant_id := sd_tenant_id d\<rparr> else d) (select_one (\<lambda>d. sd_id d = j) (sales_deals db))"
    by (rule select_one_update_where) simp
  moreover have "row\<lparr>sd_tenant_id := sd_tenant_id d\<rparr> = row" using assms [OF Some] by simp
  moreover have "sd_id d = sd_id row" using select_one_SomeD(2) [OF Some] .
  ultimately show ?thesis
    using Some by (cases "select_one (\<lambda>d. sd_id d = j) (sales_deals db)")
      (auto simp: write_deal_row_def dest: select_one_SomeD(2))
qed

lemma write_deal_row_distinct:
  "distinct (map sd_id (sales_deals db)) \<Longrightarrow> distinct (map sd_id (sales_deals (write_deal_row row db)))"
proof -
  assume d: "distinct (map sd_id (sales_deals db))"
  have "map sd_id (update_where (\<lambda>d. sd_id d = sd_id row) (\<lambda>d. row\<lparr>sd_tenant_id := sd_tenant_id d\<rparr>) (sales_deals db))
    = map sd_id (sales_deals db)" by (rule map_update_where) simp
  then show ?thesis using d by (auto simp: write_deal_row_def select_one_None_iff)
qed

text \<open>
  When everything outside one lineage agrees, projecting that lineage makes the whole grid agree.
\<close>

lemma upsert_restores:
  assumes s: "sales_structure db" and d: "has_row d db" and dist: "distinct (map sd_id (sales_deals db))"
    and others: "\<And>j. j \<noteq> lineage d \<Longrightarrow> select_one (\<lambda>r. sd_id r = j) (sales_deals db) = grid_view db j"
    and tenant: "\<And>r. select_one (\<lambda>r. sd_id r = lineage d) (sales_deals db) = Some r \<Longrightarrow> sd_tenant_id r = pd_tenant_id (columns d)"
  shows "sales_inv (upsert_deal_projection d db)"
proof -
  obtain row where row: "upsert_deal_projection d db = write_deal_row row db" "grid_view db (lineage d) = Some row"
    "sd_id row = lineage d" "sd_tenant_id row = pd_tenant_id (columns d)"
    using upsert_writes_view [OF s d] by metis
  have v: "grid_view (write_deal_row row db) = grid_view db" by (rule grid_view_core) simp_all
  have "select_one (\<lambda>r. sd_id r = j) (sales_deals (write_deal_row row db)) = grid_view db j" for j
    using write_deal_row_lookup [of row db j] tenant others [of j] row(2-4) by simp
  moreover have "sales_structure (write_deal_row row db)" using s by (simp add: sales_structure_def deal_keys_def)
  ultimately show ?thesis
    using write_deal_row_distinct [OF dist, of row] by (simp add: sales_inv_def grid_agrees_def row(1) v)
qed

section \<open>Rewriting and inserting a deal\<close>

fun same_entity :: "deal \<Rightarrow> deal \<Rightarrow> bool" where
  "same_entity (OfferDeal o0) (OfferDeal o1) \<longleftrightarrow> off_id o1 = off_id o0 \<and> pd_tenant_id (off_deal o1) = pd_tenant_id (off_deal o0)"
| "same_entity (ContractDeal c0) (ContractDeal c) \<longleftrightarrow> con_id c = con_id c0 \<and> pd_tenant_id (con_deal c) = pd_tenant_id (con_deal c0)
     \<and> con_offer_id c = con_offer_id c0 \<and> (live c \<longrightarrow> live c0)"
| "same_entity _ _ \<longleftrightarrow> False"

lemma same_entity_lineage: "same_entity d0 d \<Longrightarrow> lineage d = lineage d0 \<and> pd_tenant_id (columns d) = pd_tenant_id (columns d0)"
  by (cases d0; cases d) (auto split: option.split)

lemma save_deal_simps [simp]:
  "sales_deals (save_deal d db) = sales_deals db" "sales_documents (save_deal d db) = sales_documents db"
  "uuid_supply (save_deal d db) = uuid_supply db"
  by (cases d; simp add: save_offer_def save_contract_def)+

lemma structure_save:
  assumes s: "sales_structure db" and d0: "has_row d0 db" and same: "same_entity d0 d"
  shows "sales_structure (save_deal d db)" "has_row d (save_deal d db)"
proof -
  have "sales_structure (save_deal d db) \<and> has_row d (save_deal d db)"
  proof (cases d)
    case (OfferDeal o1)
    then obtain o0 where o0: "d0 = OfferDeal o0" "off_id o1 = off_id o0" "pd_tenant_id (off_deal o1) = pd_tenant_id (off_deal o0)"
      "o0 \<in> set (sales_offers db)" using d0 same by (cases d0) auto
    let ?os = "update_where (\<lambda>r. off_id r = off_id o1) (\<lambda>_. o1) (sales_offers db)"
    have "map off_id ?os = map off_id (sales_offers db)" by (rule map_update_where) simp
    moreover have "lineages_ok ?os (sales_contracts db)"
      unfolding lineages_ok_def
    proof (intro ballI allI impI)
      fix c i assume c: "c \<in> set (sales_contracts db)" "con_offer_id c = Some i"
      obtain r where r: "r \<in> set (sales_offers db)" "off_id r = i" "pd_tenant_id (off_deal r) = pd_tenant_id (con_deal c)"
        using lineage_offer [OF structureD(5) [OF s] c] by blast
      have "off_id r = off_id o1 \<Longrightarrow> r = o0" using distinct_key_unique [OF structureD(1) [OF s] r(1) o0(4)] o0(2) by simp
      then show "\<exists>o1 \<in> set ?os. off_id o1 = i \<and> pd_tenant_id (off_deal o1) = pd_tenant_id (con_deal c)"
        using r o0 by (intro bexI [of _ "if off_id r = off_id o1 then o1 else r"]) (auto simp: set_update_where)
    qed
    moreover have "o1 \<in> set ?os" using o0(2,4) by (force simp: set_update_where)
    ultimately show ?thesis using s by (simp add: OfferDeal save_offer_def sales_structure_def deal_keys_def)
  next
    case (ContractDeal c)
    then obtain c0 where c0: "d0 = ContractDeal c0" "con_id c = con_id c0" "pd_tenant_id (con_deal c) = pd_tenant_id (con_deal c0)"
      "con_offer_id c = con_offer_id c0" "live c \<longrightarrow> live c0" "c0 \<in> set (sales_contracts db)" using d0 same by (cases d0) auto
    let ?cs = "update_where (\<lambda>r. con_id r = con_id c) (\<lambda>_. c) (sales_contracts db)"
    have keys: "map con_id ?cs = map con_id (sales_contracts db)" by (rule map_update_where) simp
    have mem: "x = c \<or> (x \<in> set (sales_contracts db) \<and> con_id x \<noteq> con_id c)" if "x \<in> set ?cs" for x
      using that by (auto elim!: in_set_update_whereE)
    have clash: False if "x \<in> set (sales_contracts db)" "con_id x \<noteq> con_id c" "con_offer_id x = Some i" "con_offer_id c = Some i"
      "live x" "live c" for x i
      using one_live_contract [OF structureD(4) [OF s] that(1) c0(6) that(3)] that c0 by auto
    have live1: "one_live_each ?cs"
      unfolding one_live_each_def
    proof (intro ballI impI)
      fix x y assume xy: "x \<in> set ?cs" "y \<in> set ?cs" "con_offer_id x \<noteq> None" "con_offer_id x = con_offer_id y" "live x" "live y"
      then obtain i where i: "con_offer_id x = Some i" "con_offer_id y = Some i" by auto
      show "x = y" using mem [OF xy(1)] mem [OF xy(2)] clash i xy(5,6) one_live_contract [OF structureD(4) [OF s] _ _ i] by blast
    qed
    have lin: "lineages_ok (sales_offers db) ?cs"
      unfolding lineages_ok_def
    proof (intro ballI allI impI)
      fix x i assume x: "x \<in> set ?cs" "con_offer_id x = Some i"
      have "\<exists>x0 \<in> set (sales_contracts db). con_offer_id x0 = Some i \<and> pd_tenant_id (con_deal x0) = pd_tenant_id (con_deal x)"
        using mem [OF x(1)] x(2) c0 by auto
      then show "\<exists>o1 \<in> set (sales_offers db). off_id o1 = i \<and> pd_tenant_id (off_deal o1) = pd_tenant_id (con_deal x)"
        using lineage_offer [OF structureD(5) [OF s]] by metis
    qed
    have row: "c \<in> set ?cs" using c0(2,6) by (force simp: set_update_where)
    show ?thesis using keys live1 lin row s by (simp add: ContractDeal save_contract_def sales_structure_def deal_keys_def)
  qed
  then show "sales_structure (save_deal d db)" "has_row d (save_deal d db)" by simp_all
qed

text \<open>A write of one deal changes the query in its own lineage only.\<close>

lemma grid_view_save:
  assumes s: "sales_structure db" and d0: "has_row d0 db" and same: "same_entity d0 d" and j: "j \<noteq> lineage d"
  shows "grid_view (save_deal d db) j = grid_view db j"
proof (cases d)
  case (OfferDeal o1)
  let ?f = "\<lambda>r. if off_id r = off_id o1 then o1 else r"
  have "select_one (\<lambda>r. off_id r = j) (sales_offers (save_deal d db)) = map_option ?f (select_one (\<lambda>r. off_id r = j) (sales_offers db))"
    unfolding OfferDeal save_deal.simps save_offer_def by (simp, rule select_one_update_where_on) simp
  moreover have "off_id r \<noteq> off_id o1" if "select_one (\<lambda>r. off_id r = j) (sales_offers db) = Some r" for r
    using select_one_SomeD(2) [OF that] j OfferDeal by simp
  ultimately have "select_one (\<lambda>r. off_id r = j) (sales_offers (save_deal d db)) = select_one (\<lambda>r. off_id r = j) (sales_offers db)"
    by (cases "select_one (\<lambda>r. off_id r = j) (sales_offers db)") auto
  moreover have "sales_contracts (save_deal d db) = sales_contracts db" by (simp add: OfferDeal save_offer_def)
  moreover have "sales_documents (save_deal d db) = sales_documents db" by simp
  ultimately show ?thesis
    by (simp add: grid_view_def live_contract_of_def rows_core [of "save_deal d db" db] split: option.split)
next
  case (ContractDeal c)
  obtain c0 where c0: "d0 = ContractDeal c0" "con_id c = con_id c0" "con_offer_id c = con_offer_id c0" "c0 \<in> set (sales_contracts db)"
    using d0 same ContractDeal by (cases d0) auto
  let ?cs = "update_where (\<lambda>r. con_id r = con_id c) (\<lambda>_. c) (sales_contracts db)"
  have only: "r = c0" if "r \<in> set (sales_contracts db)" "con_id r = con_id c" for r
    using distinct_key_unique [OF structureD(2) [OF s] that(1) c0(4)] that(2) c0(2) by simp
  have keep: "select_one Q ?cs = select_one Q (sales_contracts db)" if "\<not> Q c" "\<not> Q c0" for Q
  proof -
    have "select_one Q ?cs = map_option (\<lambda>r. if con_id r = con_id c then c else r) (select_one Q (sales_contracts db))"
      using only that by (intro select_one_update_where_on) metis
    moreover have "con_id r \<noteq> con_id c" if "select_one Q (sales_contracts db) = Some r" for r
      using only select_one_SomeD [OF that] \<open>\<not> Q c0\<close> by blast
    ultimately show ?thesis by (cases "select_one Q (sales_contracts db)") auto
  qed
  have live: "select_one (is_live_contract_of r) ?cs = select_one (is_live_contract_of r) (sales_contracts db)"
    if "off_id r = j" for r
    using that j ContractDeal c0(3) by (intro keep) (auto simp: is_live_contract_of_def)
  have direct: "select_one (\<lambda>x. con_id x = j \<and> con_offer_id x = None) ?cs
    = select_one (\<lambda>x. con_id x = j \<and> con_offer_id x = None) (sales_contracts db)"
    using j ContractDeal c0(2,3) by (intro keep) (auto split: option.splits)
  have tables: "sales_contracts (save_deal d db) = ?cs" "sales_offers (save_deal d db) = sales_offers db"
    by (simp_all add: ContractDeal save_contract_def)
  show ?thesis
  proof (cases "select_one (\<lambda>r. off_id r = j) (sales_offers db)")
    case None
    then show ?thesis using direct tables by (simp add: grid_view_def rows_core(1) [of "save_deal d db" db])
  next
    case (Some r)
    have "off_id r = j" using select_one_SomeD(2) [OF Some] .
    then show ?thesis using live [of r] Some tables s structure_save(1) [OF s d0 same]
      by (simp add: grid_view_alt rows_core [of "save_deal d db" db] split: option.split)
  qed
qed

lemma structure_mono:
  assumes "sales_structure db" "sales_offers db' = sales_offers db" "sales_contracts db' = sales_contracts db" "uuid_supply db \<le> uuid_supply db'"
  shows "sales_structure db'"
  using assms unfolding sales_structure_def deal_keys_def by (auto intro: less_le_trans)

lemma has_row_core: "sales_core db = sales_core db' \<Longrightarrow> has_row d db = has_row d db'"
  by (cases d) (simp_all add: sales_core_def)

lemma sales_inv_rewrite:
  assumes inv: "sales_inv db" and d0: "has_row d0 db" and same: "same_entity d0 d"
    and core: "sales_core db1 = sales_core (save_deal d db)" and sup: "uuid_supply db \<le> uuid_supply db1"
  shows "sales_inv (upsert_deal_projection d db1)"
proof (rule upsert_restores)
  have s: "sales_structure db" and g: "grid_agrees db" using inv by (simp_all add: sales_inv_def)
  note tables = core_eqD [OF core]
  show "sales_structure db1"
    using structure_mono [OF structure_save(1) [OF s d0 same]] tables sup by simp
  show "has_row d db1" using structure_save(2) [OF s d0 same] has_row_core [OF core] by simp
  show "distinct (map sd_id (sales_deals db1))" using g tables by (simp add: grid_agrees_def)
  fix j
  have v: "grid_view db1 = grid_view (save_deal d db)" by (rule grid_view_core) (use tables in simp_all)
  show "select_one (\<lambda>r. sd_id r = j) (sales_deals db1) = grid_view db1 j" if "j \<noteq> lineage d"
    using g tables grid_view_save [OF s d0 same that] by (simp add: v grid_agrees_def)
next
  fix r assume r: "select_one (\<lambda>r. sd_id r = lineage d) (sales_deals db1) = Some r"
  have s: "sales_structure db" and g: "grid_agrees db" using inv by (simp_all add: sales_inv_def)
  have "grid_view db (lineage d) = Some r" using r g core_eqD(3) [OF core] by (simp add: grid_agrees_def)
  then show "sd_tenant_id r = pd_tenant_id (columns d)"
    using same_entity_lineage [OF same] upsert_writes_view [OF s d0] by (metis option.inject)
qed

fun add_deal :: "deal \<Rightarrow> 'a sales_db_scheme \<Rightarrow> 'a sales_db_scheme" where
  "add_deal (OfferDeal o1) db = add_offer o1 db"
| "add_deal (ContractDeal c) db = add_contract c db"

text \<open>A new deal: a fresh identifier, and for a contract an offer of its tenant without a live contract.\<close>

fun may_add :: "deal \<Rightarrow> 'a sales_db_scheme \<Rightarrow> bool" where
  "may_add (OfferDeal o1) db \<longleftrightarrow> uuid_supply db \<le> off_id o1"
| "may_add (ContractDeal c) db \<longleftrightarrow> uuid_supply db \<le> con_id c \<and> (\<forall>i. con_offer_id c = Some i \<longrightarrow>
     (\<exists>o1 \<in> set (sales_offers db). off_id o1 = i \<and> pd_tenant_id (off_deal o1) = pd_tenant_id (con_deal c))
     \<and> (\<forall>c' \<in> set (sales_contracts db). con_offer_id c' = Some i \<longrightarrow> \<not> live c'))"

lemma add_deal_simps [simp]:
  "sales_deals (add_deal d db) = sales_deals db" "sales_documents (add_deal d db) = sales_documents db"
  "uuid_supply (add_deal d db) = uuid_supply db" "has_row d (add_deal d db)"
  by (cases d; simp add: add_offer_def add_contract_def)+

lemma structure_add:
  assumes s: "sales_structure db" and new: "may_add d db" and id: "deal_id d < n"
    and le: "uuid_supply db \<le> n"
  shows "sales_structure ((add_deal d db)\<lparr>uuid_supply := n\<rparr>)"
proof (cases d)
  case (OfferDeal o1)
  have "off_id o1 \<notin> set (deal_keys db)" using s new OfferDeal by (auto simp: sales_structure_def)
  moreover have "lineages_ok (sales_offers db @ [o1]) (sales_contracts db)"
    using structureD(5) [OF s] by (auto simp: lineages_ok_def)
  moreover have "distinct (deal_keys db)" "\<forall>i \<in> set (deal_keys db). i < n" "one_live_each (sales_contracts db)" "off_id o1 < n"
    using s id le OfferDeal by (auto simp: sales_structure_def)
  ultimately show ?thesis by (auto simp: OfferDeal add_offer_def sales_structure_def deal_keys_def)
next
  case (ContractDeal c)
  have "con_id c \<notin> set (deal_keys db)" using s new ContractDeal by (auto simp: sales_structure_def)
  moreover have "lineages_ok (sales_offers db) (sales_contracts db @ [c])"
    using structureD(5) [OF s] new ContractDeal by (auto simp: lineages_ok_def)
  moreover have "one_live_each (sales_contracts db @ [c])"
    using structureD(4) [OF s] new ContractDeal by (fastforce simp: one_live_each_def)
  moreover have "distinct (deal_keys db)" "\<forall>i \<in> set (deal_keys db). i < n" "con_id c < n"
    using s id le ContractDeal by (auto simp: sales_structure_def)
  ultimately show ?thesis by (auto simp: ContractDeal add_contract_def sales_structure_def deal_keys_def)
qed

lemma grid_view_add:
  assumes s: "sales_structure db" and new: "may_add d db" and j: "j \<noteq> lineage d"
  shows "grid_view (add_deal d db) j = grid_view db j"
proof (cases d)
  case (OfferDeal o1)
  have "select_one (\<lambda>r. off_id r = j) (sales_offers (add_deal d db)) = select_one (\<lambda>r. off_id r = j) (sales_offers db)"
    using j OfferDeal by (simp add: add_offer_def select_one_append split: option.split)
  moreover have "sales_contracts (add_deal d db) = sales_contracts db" by (simp add: OfferDeal add_offer_def)
  ultimately show ?thesis
    by (simp add: grid_view_def live_contract_of_def rows_core [of "add_deal d db" db] split: option.split)
next
  case (ContractDeal c)
  have t: "sales_contracts (add_deal d db) = sales_contracts db @ [c]" "sales_offers (add_deal d db) = sales_offers db"
    by (simp_all add: ContractDeal add_contract_def)
  have live: "live_contract_of r (add_deal d db) = live_contract_of r db" if "off_id r = j" for r
  proof -
    have "\<not> is_live_contract_of r c" using that j ContractDeal by (auto simp: is_live_contract_of_def)
    then show ?thesis by (simp add: live_contract_of_def t)
  qed
  have direct: "select_one (\<lambda>x. con_id x = j \<and> con_offer_id x = None) (sales_contracts db @ [c])
    = select_one (\<lambda>x. con_id x = j \<and> con_offer_id x = None) (sales_contracts db)"
    using j ContractDeal by (auto simp: select_one_append split: option.splits)
  show ?thesis
  proof (cases "select_one (\<lambda>r. off_id r = j) (sales_offers db)")
    case None
    then show ?thesis using direct by (simp add: grid_view_def t rows_core [of "add_deal d db" db])
  next
    case (Some r)
    then show ?thesis using live [OF select_one_SomeD(2) [OF Some]]
      by (simp add: grid_view_def t rows_core [of "add_deal d db" db] split: option.split)
  qed
qed

lemma grid_view_key: "grid_view db i = Some r \<Longrightarrow> i \<in> set (deal_keys db)"
proof -
  assume g: "grid_view db i = Some r"
  show ?thesis
  proof (cases "select_one (\<lambda>r. off_id r = i) (sales_offers db)")
    case None
    then obtain c where "select_one (\<lambda>c. con_id c = i \<and> con_offer_id c = None) (sales_contracts db) = Some c"
      using g by (auto simp: grid_view_def)
    then show ?thesis using select_one_SomeD [of _ "sales_contracts db" c] by (fastforce simp: deal_keys_def)
  next
    case (Some o1)
    then show ?thesis using select_one_SomeD [OF Some] by (auto simp: deal_keys_def)
  qed
qed

lemma sales_inv_insert:
  assumes inv: "sales_inv db" and new: "may_add d db" and core: "sales_core db1 = sales_core (add_deal d db)"
    and id: "deal_id d < uuid_supply db1" and sup: "uuid_supply db \<le> uuid_supply db1"
  shows "sales_inv (upsert_deal_projection d db1)"
proof (rule upsert_restores)
  have s: "sales_structure db" and g: "grid_agrees db" using inv by (simp_all add: sales_inv_def)
  note tables = core_eqD [OF core]
  show "sales_structure db1"
    by (rule structure_mono [OF structure_add [OF s new id sup]]) (use tables in simp_all)
  show "has_row d db1" using has_row_core [OF core] by simp
  show "distinct (map sd_id (sales_deals db1))" using g tables by (simp add: grid_agrees_def)
  have v: "grid_view db1 = grid_view (add_deal d db)" by (rule grid_view_core) (use tables in simp_all)
  show "select_one (\<lambda>r. sd_id r = j) (sales_deals db1) = grid_view db1 j" if "j \<noteq> lineage d" for j
    using g tables grid_view_add [OF s new that] by (simp add: v grid_agrees_def)
  fix r assume r: "select_one (\<lambda>r. sd_id r = lineage d) (sales_deals db1) = Some r"
  then have r': "grid_view db (lineage d) = Some r" using g tables by (simp add: grid_agrees_def)
  show "sd_tenant_id r = pd_tenant_id (columns d)"
  proof (cases "\<exists>i. lineage d = i \<and> i < uuid_supply db")
    case False
    then show ?thesis using grid_view_key [OF r'] s by (auto simp: sales_structure_def)
  next
    case True
    then obtain c i where c: "d = ContractDeal c" "con_offer_id c = Some i" using new by (cases d) (auto split: option.splits)
    then obtain o1 where o1: "o1 \<in> set (sales_offers db)" "off_id o1 = i" "pd_tenant_id (off_deal o1) = pd_tenant_id (con_deal c)"
      using new by auto
    have "has_row (OfferDeal o1) db" using o1(1) by simp
    then obtain row where "grid_view db i = Some row" "sd_tenant_id row = pd_tenant_id (off_deal o1)"
      using upsert_writes_view [OF s, of "OfferDeal o1"] o1(2) by auto
    then show ?thesis using r' o1 c by simp
  qed
qed

section \<open>What the operations do to the tables\<close>

lemma core_simps [simp]:
  "sales_core (publish now e db) = sales_core db" "sales_core (add_line_items rows db) = sales_core db"
  "sales_core (db\<lparr>sales_line_items := ls\<rparr>) = sales_core db" "sales_core (db\<lparr>uuid_supply := n\<rparr>) = sales_core db"
  "sales_core (db\<lparr>sales_number_sequence := sq\<rparr>) = sales_core db"
  by (simp_all add: sales_core_def publish_eq add_line_items_def)

lemma core_save_cong: "sales_core db = sales_core db' \<Longrightarrow> sales_core (save_deal d db) = sales_core (save_deal d db')"
  by (cases d) (simp_all add: sales_core_def save_offer_def save_contract_def)

lemma core_add_cong: "sales_core db = sales_core db' \<Longrightarrow> sales_core (add_deal d db) = sales_core (add_deal d db')"
  by (cases d) (simp_all add: sales_core_def add_offer_def add_contract_def)

lemma core_save_save: "same_entity d0 d \<Longrightarrow> sales_core (save_deal d (save_deal d0 db)) = sales_core (save_deal d db)"
  by (cases d0; cases d) (auto simp: sales_core_def save_offer_def save_contract_def update_where_def)

lemma core_save_add:
  assumes "sales_structure db" "may_add d0 db" "same_entity d0 d"
  shows "sales_core (save_deal d (add_deal d0 db)) = sales_core (add_deal d db)"
proof (cases d)
  case (OfferDeal o1)
  then obtain o0 where o0: "d0 = OfferDeal o0" "off_id o1 = off_id o0" using assms(3) by (cases d0) auto
  have "off_id r \<noteq> off_id o1" if "r \<in> set (sales_offers db)" for r
    using structureD(6) [OF assms(1) that] assms(2) o0 by auto
  then show ?thesis using OfferDeal o0 by (simp add: sales_core_def save_offer_def add_offer_def update_where_none)
next
  case (ContractDeal c)
  then obtain c0 where c0: "d0 = ContractDeal c0" "con_id c = con_id c0" using assms(3) by (cases d0) auto
  have "con_id r \<noteq> con_id c" if "r \<in> set (sales_contracts db)" for r
    using structureD(7) [OF assms(1) that] assms(2) c0 by auto
  then show ?thesis using ContractDeal c0 by (simp add: sales_core_def save_contract_def add_contract_def update_where_none)
qed

lemma same_entity_refl [simp]: "same_entity d d"
  by (cases d) auto

lemma same_entity_trans: "same_entity a b \<Longrightarrow> same_entity b c \<Longrightarrow> same_entity a c"
  by (cases a; cases b; cases c) auto

lemma same_entity_set_columns [intro]:
  "pd_id p = deal_id d \<Longrightarrow> pd_tenant_id p = pd_tenant_id (columns d) \<Longrightarrow> same_entity d (set_columns p d)"
  by (cases d) (auto simp: live_def)

lemma columns_set_columns [simp]: "columns (set_columns p d) = p"
  by (cases d) auto

lemma columns_changed [simp]: "columns (set_changed_fields ch d) = set_changed_columns ch (columns d)"
  by (cases d) auto

lemma same_entity_changed: "same_entity d (set_changed_fields ch d)"
  by (cases d) (auto simp: set_changed_columns_def live_def)

lemma column_ids [simp]:
  "pd_id (touch a p) = pd_id p" "pd_tenant_id (touch a p) = pd_tenant_id p"
  "pd_id (clear_configuration p) = pd_id p" "pd_tenant_id (clear_configuration p) = pd_tenant_id p"
  "pd_id (set_changed_columns ch p) = pd_id p" "pd_tenant_id (set_changed_columns ch p) = pd_tenant_id p"
  "pd_id (with_build_up r p) = pd_id p" "pd_tenant_id (with_build_up r p) = pd_tenant_id p"
  "pd_id (apply_owner own p) = pd_id p" "pd_tenant_id (apply_owner own p) = pd_tenant_id p"
  "pd_id (recompute_payable p) = pd_id p" "pd_tenant_id (recompute_payable p) = pd_tenant_id p"
  "pd_id (attach_valuation now v p) = pd_id p" "pd_tenant_id (attach_valuation now v p) = pd_tenant_id p"
  "pd_id (copied_columns s p) = pd_id p" "pd_tenant_id (copied_columns s p) = pd_tenant_id p"
  "pd_id (contract_columns_of_offer s p) = pd_id p" "pd_tenant_id (contract_columns_of_offer s p) = pd_tenant_id p"
  "pd_id (contract_columns_of_customer now c p) = pd_id p" "pd_tenant_id (contract_columns_of_customer now c p) = pd_tenant_id p"
  "pd_id (blank_deal now iid t a own) = iid" "pd_tenant_id (blank_deal now iid t a own) = t"
  by (simp_all add: touch_def clear_configuration_def set_changed_columns_def with_build_up_def apply_owner_def split_beta
      recompute_payable_def attach_valuation_def Let_def copied_columns_def contract_columns_of_offer_def
      contract_columns_of_customer_def blank_deal_def)

text \<open>
  A write in progress: the deal in hand is the stored one's, the tables are those with the deal
  saved (or still the old ones, when nothing was written), and identifiers were only drawn.
\<close>

definition writes :: "deal \<Rightarrow> 'a sales_db_scheme \<Rightarrow> deal \<Rightarrow> 'a sales_db_scheme \<Rightarrow> bool" where
  "writes d db d' db' \<longleftrightarrow> same_entity d d' \<and> uuid_supply db \<le> uuid_supply db' \<and>
     (sales_core db' = sales_core (save_deal d' db) \<or> d' = d \<and> sales_core db' = sales_core db)"

lemma writes_refl: "writes d db d db"
  by (simp add: writes_def)

lemma writes_save: "same_entity d d' \<Longrightarrow> writes d db d' (save_deal d' db)"
  by (simp add: writes_def)

lemma writes_trans:
  assumes "writes d0 db0 d1 db1" "writes d1 db1 d2 db2"
  shows "writes d0 db0 d2 db2"
proof -
  have same: "same_entity d0 d2" "same_entity d1 d2" using assms same_entity_trans by (auto simp: writes_def)
  have "sales_core (save_deal d2 db1) = sales_core (save_deal d2 db0)"
  proof -
    have "sales_core (save_deal d2 db1) = sales_core (save_deal d2 (save_deal d1 db0)) \<or> sales_core db1 = sales_core db0"
      using assms(1) core_save_cong by (auto simp: writes_def)
    then show ?thesis using core_save_save [OF same(2)] core_save_cong by metis
  qed
  then show ?thesis using assms same by (auto simp: writes_def)
qed

lemma attach_configuration_ids:
  "attach_configuration now p cid ch host db = Inr (p', ch') \<Longrightarrow> pd_id p' = pd_id p \<and> pd_tenant_id p' = pd_tenant_id p"
  by (auto simp: attach_configuration_def bindR_Inr_iff Let_def split: option.splits)

lemma freeze_writes:
  assumes "freeze_vehicle_snapshot now d db = Inr (db', d', b)"
  shows "writes d db d' db'"
proof -
  consider "db' = db" "d' = d" | p rows ls where "d' = set_columns p d" "pd_id p = deal_id d" "pd_tenant_id p = pd_tenant_id (columns d)"
    "db' = save_deal d' (add_line_items rows (db\<lparr>sales_line_items := ls\<rparr>))"
    using assms by (auto simp: freeze_vehicle_snapshot_def bindR_Inr_iff Let_def split: option.splits if_splits)
  then show ?thesis
  proof cases
    case 2
    have "sales_core db' = sales_core (save_deal d' db)" unfolding 2(4) by (rule core_save_cong) simp
    then show ?thesis using 2 by (auto simp: writes_def add_line_items_def)
  qed (simp add: writes_refl)
qed

lemma apply_build_up_same: "same_entity d (apply_build_up d db)"
  by (auto simp: apply_build_up_def)

lemma freeze_and_price_writes:
  assumes "freeze_and_price now d db = Inr (db', d')"
  shows "writes d db d' db'"
proof -
  obtain db1 d1 b where f: "freeze_vehicle_snapshot now d db = Inr (db1, d1, b)"
    and r: "(db', d') = (if vehicle_snapshot (columns d1) \<noteq> None then (save_deal (apply_build_up d1 db1) db1, apply_build_up d1 db1) else (db1, d1))"
    using assms by (auto simp: freeze_and_price_def bindR_Inr_iff Let_def split: if_splits)
  have "writes d1 db1 d' db'" using r writes_save [OF apply_build_up_same] writes_refl by (auto split: if_splits)
  then show ?thesis using writes_trans [OF freeze_writes [OF f]] by blast
qed

lemma apply_changes_writes:
  assumes "apply_vehicle_and_pricing_changes now d ch actor host db = Inr (db', d')"
  shows "same_entity d d'" "sales_core db' = sales_core (save_deal d' db)" "uuid_supply db \<le> uuid_supply db'"
proof -
  obtain p ch' where p: "pd_id p = deal_id d" "pd_tenant_id p = pd_tenant_id (columns d)"
    and f: "let d1 = set_changed_fields ch' (set_columns p d); d2 = set_columns (touch actor (columns d1)) d1
      in freeze_and_price now d2 (save_deal d2 db) = Inr (db', d')"
  proof -
    define start where "start = (case ch_configuration_id ch of
        Some cid \<Rightarrow> attach_configuration now (columns d) cid ch host db
      | None \<Rightarrow> Inr (if ch_vehicle_source ch = Some (Some ''stock'') then clear_configuration (columns d) else columns d, ch))"
    obtain p ch' where st: "start = Inr (p, ch')" and f: "let d1 = set_changed_fields ch' (set_columns p d);
        d2 = set_columns (touch actor (columns d1)) d1 in freeze_and_price now d2 (save_deal d2 db) = Inr (db', d')"
      using assms unfolding apply_vehicle_and_pricing_changes_def start_def [symmetric]
      by (auto simp: bindR_Inr_iff Let_def)
    have "pd_id p = deal_id d \<and> pd_tenant_id p = pd_tenant_id (columns d)"
      using st unfolding start_def by (cases "ch_configuration_id ch") (auto split: if_splits dest: attach_configuration_ids)
    then show thesis using that f by blast
  qed
  define d1 where "d1 = set_changed_fields ch' (set_columns p d)"
  define d2 where "d2 = set_columns (touch actor (columns d1)) d1"
  have "same_entity d (set_columns p d)" using p by blast
  moreover have "same_entity (set_columns p d) d1" unfolding d1_def by (rule same_entity_changed)
  moreover have "same_entity d1 d2" unfolding d2_def by (rule same_entity_set_columns) simp_all
  ultimately have s2: "same_entity d d2" using same_entity_trans by blast
  have w: "writes d2 (save_deal d2 db) d' db'"
    using freeze_and_price_writes f by (simp add: Let_def d1_def d2_def)
  show "same_entity d d'" using w s2 same_entity_trans by (auto simp: writes_def)
  show "sales_core db' = sales_core (save_deal d' db)"
    using w core_save_save by (auto simp: writes_def)
  show "uuid_supply db \<le> uuid_supply db'" using w by (simp add: writes_def)
qed

section \<open>Calls into the other contexts\<close>

text \<open>A call into another context: the tables of Sales stay, identifiers are only drawn.\<close>

definition foreign :: "'a sales_db_scheme \<Rightarrow> 'a sales_db_scheme \<Rightarrow> bool" where
  "foreign db db' \<longleftrightarrow> inventory_db.more db' = inventory_db.more db \<and> uuid_supply db \<le> uuid_supply db'"

lemma foreign_refl [simp]: "foreign db db"
  by (simp add: foreign_def)

lemma foreign_trans: "foreign a b \<Longrightarrow> foreign b c \<Longrightarrow> foreign a c"
  by (auto simp: foreign_def)

lemma foreign_tables:
  assumes "foreign db db'"
  shows "sales_offers db' = sales_offers db" "sales_contracts db' = sales_contracts db" "sales_deals db' = sales_deals db"
    "sales_documents db' = sales_documents db" "sales_line_items db' = sales_line_items db"
    "sales_stock_item_purchases db' = sales_stock_item_purchases db"
  using assms by (cases db; cases db'; simp add: foreign_def)+

lemma foreign_core: "foreign db db' \<Longrightarrow> sales_core db' = sales_core db"
  by (simp add: sales_core_def foreign_tables)

lemma foreign_publish: "foreign db (publish now e db)"
  by (simp add: foreign_def publish_eq less_imp_le supply_after_less)

lemma foreign_save_stock: "foreign db (save_stock_item now i db)"
  by (simp add: foreign_def save_stock_item_def)

lemma foreign_save_valuation: "foreign db (save_valuation now v db)"
  by (simp add: foreign_def save_valuation_def)

lemma foreign_consume:
  assumes "consume_valuation_for_contract now t v a db = Inr (db', b)"
  shows "foreign db db'"
  using assms foreign_trans [OF foreign_save_valuation foreign_publish]
  by (auto simp: consume_valuation_for_contract_def consume_for_contract_def mark_used_def bindR_Inr_iff split: if_splits)

lemma foreign_revert:
  assumes "revert_valuation_use now t v a db = Inr db'"
  shows "foreign db db'"
  using assms foreign_trans [OF foreign_save_valuation foreign_publish]
  by (auto simp: revert_valuation_use_def revert_use_def bindR_Inr_iff)

lemma foreign_store: "store_response now t k path body st resp db = Inr db' \<Longrightarrow> foreign db db'"
  by (auto simp: store_response_def foreign_def split: if_splits)

lemma foreign_reserve_and_flush: "foreign db (fst (reserve_and_flush now i c db))"
proof -
  have "foreign db (db\<lparr>uuid_supply := n\<rparr>)" if "uuid_supply db \<le> n" for n using that by (simp add: foreign_def)
  then show ?thesis unfolding reserve_and_flush_def
    by (auto simp: Let_def draw_uuid_def intro!: foreign_trans [OF _ foreign_publish] foreign_trans [OF _ foreign_save_stock])
qed

lemma foreign_reserve:
  assumes "reserve_for_contract now t s c k db = Inr (db', r)"
  shows "foreign db db'"
  using assms
  by (auto simp: reserve_for_contract_def bindR_Inr_iff Let_def split_beta split: if_splits
      intro: foreign_reserve_and_flush foreign_trans [OF foreign_reserve_and_flush foreign_store])

lemma foreign_release_and_flush: "foreign db (release_and_flush now i db)"
  unfolding release_and_flush_def Let_def by (rule foreign_trans [OF foreign_save_stock foreign_publish])

lemma foreign_release:
  assumes "release now t r k db = Inr (db', j)"
  shows "foreign db db'"
  using assms
  by (auto simp: release_def bindR_Inr_iff Let_def split: option.splits
      intro: foreign_release_and_flush foreign_trans [OF foreign_release_and_flush foreign_store])

text \<open>The vehicle register and the party table lie below the tables of Stock.\<close>

lemma foreign_below:
  assumes "master_db.more db' = master_db.more db" "uuid_supply db \<le> uuid_supply db'"
  shows "foreign db db'"
  using assms by (cases db; cases db') (simp add: foreign_def)

lemma foreign_resolve_vehicle:
  assumes "resolve_vehicle_mdm_by_vin env vin variant actor db = Inr (db', v)"
    and env: "\<And>x. foreign x (env x)"
  shows "foreign db db'"
proof -
  have create: "foreign x y" if "create_or_get_vehicle_mdm vin variant None None None actor x = Inr (y, w, b)" for x y w b
    using that by (intro foreign_below) (auto simp: create_or_get_vehicle_mdm_def create_vehicle_mdm_def allocate_vehicle_number_def
        bindR_Inr_iff Let_def split_beta draw_uuid_def split: option.splits if_splits)
  show ?thesis using assms(1) create foreign_trans [OF env create]
    by (auto simp: resolve_vehicle_mdm_by_vin_def bindR_Inr_iff split: sum.splits if_splits)
qed

lemma foreign_publish_after: "foreign db db1 \<Longrightarrow> foreign db (publish now e db1)"
  using foreign_trans foreign_publish by blast

lemma foreign_parties: "foreign db db1 \<Longrightarrow> foreign db (db1\<lparr>vehicle_parties := ps\<rparr>)"
  by (simp add: foreign_def)

lemma foreign_audit: "foreign db db1 \<Longrightarrow> foreign db (record_audit_event now et ei t act a b af r db1)"
  by (simp add: foreign_def record_audit_event_def)

lemma foreign_close_party: "foreign db db1 \<Longrightarrow> foreign db (close_vehicle_party now p a g e m db1)"
  unfolding close_vehicle_party_def Let_def by (intro foreign_publish_after foreign_audit foreign_parties)

lemma foreign_close_all: "foreign db db1 \<Longrightarrow> foreign db (fold (\<lambda>p. close_vehicle_party now p a g e m) ps db1)"
  by (induction ps arbitrary: db1) (auto intro: foreign_close_party)

lemma foreign_allocate:
  assumes "allocate_vehicle_party now v c role g a ef et db = Inr (db', p)"
  shows "foreign db db'"
proof -
  have draw: "foreign db (snd (draw_uuid x))" if "foreign db x" for x using that by (auto simp: foreign_def)
  have op: "foreign db y" if "open_vehicle_party now v c role g a st et inc db = Inr (y, q)" for st inc y q
    using that unfolding open_vehicle_party_def Let_def split_beta bindR_Inr_iff insert_party_def
    by (auto split: if_splits simp del: draw_uuid_simps intro!: foreign_publish_after foreign_audit foreign_parties draw foreign_close_all)
  show ?thesis using assms op foreign_parties [OF foreign_refl]
    by (auto simp: allocate_vehicle_party_def bindR_Inr_iff Let_def save_party_def split: if_splits)
qed

lemma foreign_trade_in_party:
  "allocate_trade_in_party now v c role g a db = Inr db' \<Longrightarrow> foreign db db'"
  by (auto simp: allocate_trade_in_party_def bindR_Inr_iff split: option.splits intro: foreign_allocate)

lemma sales_inv_foreign:
  assumes "sales_inv db" "foreign db db'"
  shows "sales_inv db'"
proof -
  have "grid_view db' = grid_view db" by (rule grid_view_core) (simp_all add: foreign_tables [OF assms(2)])
  moreover have "sales_structure db'"
    using assms structure_mono foreign_tables [OF assms(2)] by (auto simp: sales_inv_def foreign_def)
  ultimately show ?thesis using assms foreign_tables(3) [OF assms(2)] by (simp add: sales_inv_def grid_agrees_def)
qed

section \<open>Every operation keeps the invariant\<close>

lemma create_offer_inv:
  assumes "sales_inv db" "create_offer now t a db = (db', o1)"
  shows "sales_inv db'"
proof -
  obtain number seqs where n: "allocate_offer_number t db = (number, db\<lparr>sales_number_sequence := seqs\<rparr>)"
    by (simp add: allocate_offer_number_def allocate_sales_number_def split_beta Let_def)
  define db1 where "db1 = publish now (sales_event ''sales.offer.created'' ''sales_offer'' (off_deal o1) [(''offerNumber'', JStr number)])
    (add_offer o1 (db\<lparr>sales_number_sequence := seqs, uuid_supply := uuid_supply db + 1\<rparr>))"
  have id: "off_id o1 = uuid_supply db" and db': "db' = upsert_deal_projection (OfferDeal o1) db1"
    using assms(2) unfolding create_offer_def n db1_def by (auto simp: Let_def draw_uuid_def)
  have "uuid_supply db1 = uuid_supply db + 3" by (simp add: db1_def sales_event_def add_offer_def)
  moreover have "sales_core db1 = sales_core (add_deal (OfferDeal o1) db)"
    unfolding db1_def by (simp add: sales_core_def add_offer_def publish_eq)
  ultimately show ?thesis unfolding db' using assms(1) id by (intro sales_inv_insert) auto
qed

text \<open>An edit that ends in the projection of the deal it wrote.\<close>

lemma edit_inv:
  assumes "sales_inv db" "has_row d0 db" "same_entity d0 d" "sales_core db1 = sales_core (save_deal d db)" "uuid_supply db \<le> uuid_supply db1"
  shows "sales_inv (upsert_deal_projection d db1)"
  using sales_inv_rewrite assms .

lemma save_inv:
  assumes "sales_inv db" "has_row d0 db" "same_entity d0 d"
  shows "sales_inv (upsert_deal_projection d (save_deal d db))" "sales_inv (upsert_deal_projection d (publish now e (save_deal d db)))"
  by (rule edit_inv [OF assms]; simp add: less_imp_le supply_after_less order_trans [OF _ less_imp_le [OF supply_after_less]])+

lemma customer_change_ids:
  "apply_customer_change now g c p db = Inr p' \<Longrightarrow> pd_id p' = pd_id p \<and> pd_tenant_id p' = pd_tenant_id p"
  by (auto simp: apply_customer_change_def bindR_Inr_iff split: option.splits if_splits)

lemma party_changes_same:
  assumes "apply_party_changes now g ch d db = Inr d'"
  shows "same_entity d d'"
proof -
  obtain p where "d' = set_columns p d" "pd_id p = deal_id d" "pd_tenant_id p = pd_tenant_id (columns d)"
    using assms by (auto simp: apply_party_changes_def bindR_Inr_iff split: option.splits dest!: customer_change_ids)
  then show ?thesis by auto
qed

lemma update_offer_inv:
  assumes inv: "sales_inv db" "has_row (OfferDeal o1) db" and "update_offer now o1 g ch a db = Inr (db', d)"
  shows "sales_inv db'"
proof -
  obtain d1 db1 where d1: "apply_party_changes now g ch (OfferDeal o1) db = Inr d1"
    and e: "apply_vehicle_and_pricing_changes now d1 ch a ''offer workspace'' db = Inr (db1, d)" "db' = upsert_deal_projection d db1"
    using assms(3) by (auto simp: update_offer_def bindR_Inr_iff)
  have "same_entity (OfferDeal o1) d"
    using same_entity_trans [OF party_changes_same [OF d1] apply_changes_writes(1) [OF e(1)]] .
  then show ?thesis unfolding e(2) using edit_inv [OF inv] apply_changes_writes(2,3) [OF e(1)] by blast
qed

lemma copy_offer_inv:
  assumes inv: "sales_inv db" and "copy_offer now src a db = Inr (db', d)"
  shows "sales_inv db'"
proof -
  obtain number seqs where n: "allocate_offer_number (pd_tenant_id (off_deal src)) db = (number, db\<lparr>sales_number_sequence := seqs\<rparr>)"
    by (simp add: allocate_offer_number_def allocate_sales_number_def split_beta Let_def)
  define x where "x = db\<lparr>sales_number_sequence := seqs, uuid_supply := uuid_supply db + 1\<rparr>"
  obtain o1 db3 e where o1: "off_id o1 = uuid_supply db" and f: "freeze_and_price now (OfferDeal o1) (add_offer o1 x) = Inr (db3, d)"
    and db': "db' = upsert_deal_projection d (publish now (sales_event ''sales.offer.created'' ''sales_offer'' (columns d) e) db3)"
  proof -
    let ?p = "pd_tenant_id (off_deal src)"
    let ?o = "\<lparr>off_deal = copied_columns (off_deal src) (blank_deal now (uuid_supply db) ?p a (default_owner now ?p a db)),
      offer_number = number, offer_status = OF_DRAFT, leasing_down_payment = leasing_down_payment src,
      leasing_term_months = leasing_term_months src, leasing_km_per_year = leasing_km_per_year src,
      copied_from_offer_id = Some (off_id src)\<rparr>"
    show thesis using assms(2) that [of ?o] unfolding copy_offer_def Let_def n
      by (auto simp: draw_uuid_def bindR_Inr_iff x_def)
  qed
  have s: "sales_structure db" using inv by (simp add: sales_inv_def)
  have new: "may_add (OfferDeal o1) db" using o1 by simp
  have w: "writes (OfferDeal o1) (add_deal (OfferDeal o1) x) d db3" using freeze_and_price_writes [OF f] by simp
  have x: "sales_core x = sales_core db" by (simp add: x_def sales_core_def)
  have "sales_core db3 = sales_core (add_deal d x)"
  proof -
    have "sales_core (save_deal d (add_deal (OfferDeal o1) x)) = sales_core (save_deal d (add_deal (OfferDeal o1) db))"
      by (rule core_save_cong, rule core_add_cong, rule x)
    also have "\<dots> = sales_core (add_deal d db)" using core_save_add [OF s new] w by (auto simp: writes_def)
    also have "\<dots> = sales_core (add_deal d x)" using core_add_cong [OF x] by metis
    finally show ?thesis using w by (auto simp: writes_def)
  qed
  then have core: "sales_core (publish now (sales_event ''sales.offer.created'' ''sales_offer'' (columns d) e) db3) = sales_core (add_deal d db)"
    using core_add_cong [OF x, of d] by simp
  have sup: "uuid_supply db < uuid_supply db3" using w by (auto simp: writes_def x_def add_offer_def)
  have d: "may_add d db" "deal_id d = uuid_supply db" using w o1 by (cases d; auto simp: writes_def)+
  show ?thesis unfolding db'
    by (rule sales_inv_insert [OF inv d(1) core]) (use d sup in \<open>simp_all add: sales_event_def\<close>)
qed

lemma finalize_offer_inv:
  assumes "sales_inv db" "has_row (OfferDeal o1) db" "finalize_offer o1 a db = Inr (db', o2)"
  shows "sales_inv db'"
proof -
  have s: "same_entity (OfferDeal o1) (OfferDeal o2)" and db': "db' = upsert_deal_projection (OfferDeal o2) (save_deal (OfferDeal o2) db)"
    using assms(3) by (auto simp: finalize_offer_def bindR_Inr_iff Let_def split: if_splits)
  show ?thesis unfolding db' by (rule save_inv(1) [OF assms(1,2) s])
qed

lemma cancel_offer_inv:
  assumes "sales_inv db" "has_row (OfferDeal o1) db" "cancel_offer now o1 reason a db = Inr (db', o2)"
  shows "sales_inv db'"
proof -
  obtain e where s: "same_entity (OfferDeal o1) (OfferDeal o2)"
    and db': "db' = upsert_deal_projection (OfferDeal o2) (publish now e (save_deal (OfferDeal o2) db))"
    using assms(3) by (auto simp: cancel_offer_def bindR_Inr_iff Let_def split: if_splits)
  show ?thesis unfolding db' by (rule save_inv(2) [OF assms(1,2) s])
qed

lemma foldR_keeps:
  assumes "foldR f xs s = Inr s'" "P s" "\<And>x s s'. f x s = Inr s' \<Longrightarrow> P s \<Longrightarrow> P s'"
  shows "P s'"
  using assms(1,2) by (induction xs arbitrary: s) (auto simp: bindR_Inr_iff intro: assms(3))

lemma lock_editable_row: "lock_editable d v db = Inr d' \<Longrightarrow> has_row d' db \<and> same_entity d' d' \<and> deal_id d' = deal_id d"
  by (cases d) (auto simp: lock_editable_def bindR_Inr_iff split: option.splits dest: select_one_SomeD)

lemma replace_line_items_inv:
  fixes db :: "'a sales_db_scheme"
  assumes inv: "sales_inv db" and "replace_line_items d acc pat a db = Inr (db', d')"
  shows "sales_inv db'"
proof -
  obtain d1 where d1: "lock_editable d (pd_version (columns d)) db = Inr d1"
    and rest: "replace_line_items d acc pat a db = Inr (db', d')"
    using assms(2) by (auto simp: replace_line_items_def bindR_Inr_iff)
  define ok where "ok x \<longleftrightarrow> sales_core x = sales_core db \<and> uuid_supply db \<le> uuid_supply x" for x :: "'a sales_db_scheme"
  obtain db0 db2 db3 :: "'a sales_db_scheme" and existing used where db0: "ok db0"
    and put: "foldR (put_accessory d1 existing used) (List.enumerate 0 acc) db0 = Inr db2"
    and pa: "foldR (patch_factory_option existing used) pat db2 = Inr db3"
    and d': "d' = set_columns (touch a (columns (apply_build_up d1 db3))) (apply_build_up d1 db3)"
    and db': "db' = upsert_deal_projection d' (save_deal d' db3)"
  proof -
    let ?ex = "list_line_items d1 db" and ?inc = "List.map_filter ai_id acc"
    let ?db0 = "db\<lparr>sales_line_items := delete_where (\<lambda>li. List.member (map li_id ?ex) (li_id li) \<and> li_kind li = ACCESSORY
      \<and> \<not> List.member ?inc (li_id li)) (sales_line_items db)\<rparr>"
    have "ok ?db0" by (simp add: ok_def)
    then show thesis using rest d1 that [of ?db0 ?ex "vehicle_condition d1 = Some ''used''"]
      unfolding replace_line_items_def by (simp add: Let_def bindR_Inr_iff) blast
  qed
  have "ok db2" by (rule foldR_keeps [where P = ok, OF put db0])
    (auto simp: put_accessory_def bindR_Inr_iff save_line_item_def ok_def Let_def sales_core_def split: option.splits)
  then have "ok db3" by (rule foldR_keeps [where P = ok, OF pa])
    (auto simp: patch_factory_option_def bindR_Inr_iff save_line_item_def ok_def sales_core_def)
  then have core: "sales_core (save_deal d' db3) = sales_core (save_deal d' db)" "uuid_supply db \<le> uuid_supply db3"
    using core_save_cong by (auto simp: ok_def)
  have row: "has_row d1 db" using lock_editable_row [OF d1] by simp
  have "same_entity (apply_build_up d1 db3) d'" unfolding d' by (rule same_entity_set_columns) simp_all
  then have "same_entity d1 d'" using apply_build_up_same same_entity_trans by blast
  then show ?thesis unfolding db' using edit_inv [OF inv row _ core(1)] core(2) by simp
qed

lemma finish_trade_in_inv:
  assumes inv: "sales_inv db" "has_row d db" and p: "pd_id p = deal_id d" "pd_tenant_id p = pd_tenant_id (columns d)"
    and f: "finish_trade_in a (set_columns p d) db = (db', d')"
  shows "sales_inv db'"
proof -
  have s: "same_entity d (set_columns p d)" using p by blast
  have s': "same_entity (set_columns p d) d'" and db': "db' = upsert_deal_projection d' (save_deal d' db)"
    using f by (auto simp: finish_trade_in_def Let_def)
  show ?thesis unfolding db' by (rule save_inv(1) [OF inv same_entity_trans [OF s s']])
qed

lemma attach_trade_in_valuation_inv:
  assumes inv: "sales_inv db" "has_row d db" and "attach_trade_in_valuation now d v a db = Inr (db', d')"
  shows "sales_inv db'"
proof -
  obtain val where "finish_trade_in a (set_columns (attach_valuation now val (columns d)) d) db = (db', d')"
    using assms(3) by (auto simp: attach_trade_in_valuation_def bindR_Inr_iff)
  then show ?thesis by (rule finish_trade_in_inv [OF inv, rotated 2]) simp_all
qed

lemma set_trade_in_inv:
  assumes inv: "sales_inv db" and env: "\<And>x. foreign x (env1 x)" "\<And>x. sales_inv x \<Longrightarrow> sales_inv (env2 x)"
    and t: "set_trade_in env1 env2 now d g vin plate canton vl c a db = (db', r)"
  shows "sales_inv db'"
proof -
  note keep = sales_inv_foreign [OF inv]
  consider "foreign db db'" | x where "foreign db x" "db' = env2 x"
    | x d1 p d2 where "foreign db x" "lock_editable d (pd_version (columns d)) (env2 x) = Inr d1"
      "pd_id p = deal_id d1" "pd_tenant_id p = pd_tenant_id (columns d1)"
      "finish_trade_in (Some a) (set_columns p d1) (env2 x) = (db', d2)"
  proof -
    define party where "party = (case c of Some c' \<Rightarrow> Some c' | None \<Rightarrow> pd_customer_id (columns d))"
    define start where "start = bindR (require_editable d db) (\<lambda>_.
           bindR (case party of None \<Rightarrow> Inr () | Some c \<Rightarrow> bindR (get_customer_or_404 g c db) (\<lambda>_. Inr ())) (\<lambda>_.
           bindR (resolve_trade_in_vin now vin plate canton db) (\<lambda>v.
           resolve_vehicle_mdm_by_vin env1 v None (Some a) db)))"
    note t' = t [unfolded set_trade_in_def Let_def, folded party_def, folded start_def]
    show thesis
    proof (cases start)
      case (Inl e)
      then have "db' = db" using t' by simp
      then show thesis using that(1) by simp
    next
      case (Inr r1)
      obtain db1 v where r1: "r1 = (db1, v)" by (cases r1)
      have f1: "foreign db db1" using Inr env(1) unfolding start_def r1 by (auto simp: bindR_Inr_iff intro: foreign_resolve_vehicle)
      show thesis
      proof (cases "allocate_trade_in_party now (mdm_id v) party OWNER g a db1")
        case (Inl e)
        then have "db' = db1" using t' Inr r1 by simp
        then show thesis using that(1) f1 by simp
      next
        case I2: (Inr db2)
        have f2: "foreign db db2" using foreign_trans [OF f1 foreign_trade_in_party [OF I2]] .
        show thesis
        proof (cases "allocate_trade_in_party now (mdm_id v) party KEEPER g a db2")
          case (Inl e)
          then have "db' = db2" using t' Inr r1 I2 by simp
          then show thesis using that(1) f2 by simp
        next
          case I3: (Inr db3)
          have f3: "foreign db db3" using foreign_trans [OF f2 foreign_trade_in_party [OF I3]] .
          show thesis
          proof (cases "lock_editable d (pd_version (columns d)) (env2 db3)")
            case (Inl e)
            then have "db' = env2 db3" using t' Inr r1 I2 I3 by simp
            then show thesis using that(2) f3 by blast
          next
            case I4: (Inr d1)
            let ?p = "(columns d1)\<lparr>trade_in_vehicle_id := Some (mdm_id v), trade_in_vin := Some (mdm_vin v), trade_in_label := Some vl\<rparr>"
            let ?q = "case list_valid_valuations_for_vehicle now (pd_tenant_id ?p) (mdm_id v) (env2 db3) of [] \<Rightarrow> ?p | v # _ \<Rightarrow> attach_valuation now v ?p"
            have "fst (finish_trade_in (Some a) (set_columns ?q d1) (env2 db3)) = db'"
              using t' Inr r1 I2 I3 I4 by (simp add: split_beta)
            then obtain d2 where "finish_trade_in (Some a) (set_columns ?q d1) (env2 db3) = (db', d2)" by (metis prod.collapse)
            moreover have "pd_id ?q = deal_id d1" "pd_tenant_id ?q = pd_tenant_id (columns d1)" by (simp_all split: list.split)
            ultimately show thesis using that(3) [OF f3 I4] by blast
          qed
        qed
      qed
    qed
  qed
  then show ?thesis
  proof cases
    case 3
    then show ?thesis using finish_trade_in_inv [OF env(2) [OF keep]] lock_editable_row by blast
  qed (use keep env(2) in auto)
qed

lemma offer_of_create_may_add:
  assumes "sales_structure db" "offer_of_create t offer db = Inr offer'" "con_offer_id c = map_option off_id offer'"
    "pd_tenant_id (con_deal c) = t" "uuid_supply db \<le> con_id c"
    and "\<And>o1. offer = Some o1 \<Longrightarrow> has_row (OfferDeal o1) db \<and> pd_tenant_id (off_deal o1) = t"
  shows "may_add (ContractDeal c) db"
proof (cases offer)
  case None
  then show ?thesis using assms by (simp add: offer_of_create_def)
next
  case (Some o0)
  have o0: "o0 \<in> set (sales_offers db)" "pd_tenant_id (off_deal o0) = t" using assms(6) [OF Some] by simp_all
  have "select_one (\<lambda>r. off_id r = off_id o0) (sales_offers db) = Some o0" using find_offer [OF assms(1) o0(1)] .
  then have o': "offer' = Some o0" and n: "select_one (\<lambda>c. pd_tenant_id (con_deal c) = t \<and> con_offer_id c = Some (off_id o0)
    \<and> contract_status c \<noteq> CT_CANCELLED) (sales_contracts db) = None"
    using assms(2) Some by (auto simp: offer_of_create_def split: option.splits)
  have "\<not> live c'" if c': "c' \<in> set (sales_contracts db)" "con_offer_id c' = Some (off_id o0)" for c'
  proof -
    obtain o1 where o1: "o1 \<in> set (sales_offers db)" "off_id o1 = off_id o0" "pd_tenant_id (off_deal o1) = pd_tenant_id (con_deal c')"
      using lineage_offer [OF structureD(5) [OF assms(1)] c'] by blast
    then have "o1 = o0" using distinct_key_unique [OF structureD(1) [OF assms(1)] o1(1) o0(1)] by simp
    then show ?thesis using n c' o1(3) o0(2) by (auto simp: select_one_None_iff live_def)
  qed
  then show ?thesis using assms(3-5) o' o0 by auto
qed

lemma new_contract_simps [simp]:
  "con_id (new_contract now iid t n offer cust a own) = iid"
  "pd_tenant_id (con_deal (new_contract now iid t n offer cust a own)) = t"
  "con_offer_id (new_contract now iid t n offer cust a own) = map_option off_id offer"
  by (simp_all add: new_contract_def Let_def split: option.split)

lemma create_contract_inv:
  assumes inv: "sales_inv db" and off: "\<And>o1. offer = Some o1 \<Longrightarrow> has_row (OfferDeal o1) db \<and> pd_tenant_id (off_deal o1) = t"
    and r: "create_contract now t offer a cust g si vl db = Inr (db', d)"
  shows "sales_inv db'"
proof -
  have s: "sales_structure db" using inv by (simp add: sales_inv_def)
  obtain number seqs where n: "allocate_contract_number t db = (number, db\<lparr>sales_number_sequence := seqs\<rparr>)"
    by (simp add: allocate_contract_number_def allocate_sales_number_def split_beta Let_def)
  define x where "x = db\<lparr>sales_number_sequence := seqs, uuid_supply := uuid_supply db + 1\<rparr>"
  obtain offer' customer where o': "offer_of_create t offer db = Inr offer'" and cu: "customer_of_create g cust db = Inr customer"
    using r by (auto simp: create_contract_def bindR_Inr_iff)
  define c where "c = new_contract now (uuid_supply db) t number offer' customer a
    (case offer' of Some o1 \<Rightarrow> inherited_owner now t o1 a db | None \<Rightarrow> default_owner now t a db)"
  define db4 where "db4 = (case offer' of Some o1 \<Rightarrow> copy_line_items o1 c (add_contract c x) | None \<Rightarrow> add_contract c x)"
  obtain db5 e where st: "(si = None \<and> db5 = db4 \<and> d = ContractDeal c) \<or>
      (\<exists>ch. apply_vehicle_and_pricing_changes now (ContractDeal c) ch a ''contract'' db4 = Inr (db5, d))"
    and db': "db' = upsert_deal_projection d (publish now (sales_event ''sales.contract.created'' ''sales_contract'' (columns d) e) db5)"
    using r unfolding create_contract_def o' cu n bindR.simps Let_def split_beta
    by (auto simp: bindR_Inr_iff draw_uuid_def c_def db4_def x_def split: option.splits)
  have new: "may_add (ContractDeal c) db"
    by (rule offer_of_create_may_add [OF s o' _ _ _ off]) (simp_all add: c_def)
  have x: "sales_core x = sales_core db" by (simp add: x_def sales_core_def)
  have db4: "sales_core db4 = sales_core (add_deal (ContractDeal c) x)" "uuid_supply x \<le> uuid_supply db4"
    by (simp_all add: db4_def copy_line_items_def add_line_items_def add_contract_def sales_core_def split: option.split)
  have w: "same_entity (ContractDeal c) d" "uuid_supply db4 \<le> uuid_supply db5"
    "sales_core db5 = sales_core (save_deal d db4) \<or> d = ContractDeal c \<and> sales_core db5 = sales_core db4"
    using st by (auto dest: apply_changes_writes)
  have "sales_core (save_deal d db4) = sales_core (add_deal d db)"
    using core_save_cong [OF db4(1)] core_save_cong [OF core_add_cong [OF x]] core_save_add [OF s new w(1)] by metis
  moreover have "sales_core db4 = sales_core (add_deal (ContractDeal c) db)" using db4(1) core_add_cong [OF x] by metis
  ultimately have core: "sales_core db5 = sales_core (add_deal d db)" using w(3) by auto
  have sup: "uuid_supply db < uuid_supply db5" using db4(2) w(2) by (simp add: x_def)
  obtain c' where c': "d = ContractDeal c'" "con_id c' = uuid_supply db" "con_offer_id c' = con_offer_id c"
    "pd_tenant_id (con_deal c') = pd_tenant_id (con_deal c)"
    using w(1) by (cases d) (auto simp: c_def)
  have "may_add d db" using new c' by (simp add: c_def)
  then show ?thesis unfolding db' using core sup c'
    by (intro sales_inv_insert [OF inv]) (simp_all add: sales_event_def)
qed

lemma update_contract_inv:
  assumes inv: "sales_inv db" "has_row (ContractDeal c) db" and r: "update_contract now c g ch a db = Inr (db', d)"
  shows "sales_inv db'"
proof (cases "gives_a_buyer_only c ch")
  case True
  obtain p where p: "apply_customer_change now g (case ch_customer_id ch of Some cid \<Rightarrow> cid | None \<Rightarrow> None) (con_deal c) db = Inr p"
    and d: "d = ContractDeal (c\<lparr>con_deal := touch a p\<rparr>)" and db': "db' = upsert_deal_projection d (save_deal d db)"
    using r True by (auto simp: update_contract_def bindR_Inr_iff Let_def)
  have "same_entity (ContractDeal c) d" using customer_change_ids [OF p] by (simp add: d live_def)
  then show ?thesis unfolding db' by (rule save_inv(1) [OF inv])
next
  case False
  obtain d1 db1 where d1: "apply_party_changes now g ch (ContractDeal c) db = Inr d1"
    and e: "apply_vehicle_and_pricing_changes now d1 ch a ''contract'' db = Inr (db1, d)" "db' = upsert_deal_projection d db1"
    using r False by (auto simp: update_contract_def bindR_Inr_iff)
  have "same_entity (ContractDeal c) d"
    using same_entity_trans [OF party_changes_same [OF d1] apply_changes_writes(1) [OF e(1)]] .
  then show ?thesis unfolding e(2) using edit_inv [OF inv] apply_changes_writes(2,3) [OF e(1)] by blast
qed

lemma foreign_consume_trade_in:
  "consume_trade_in_valuation now c a db = Inr (db', b) \<Longrightarrow> foreign db db'"
  by (auto simp: consume_trade_in_valuation_def split: option.splits sum.splits exn.splits if_splits intro: foreign_consume)

lemma foreign_reserve_car: "reserve_contract_car now c db = Inr (db', r) \<Longrightarrow> foreign db db'"
  by (auto simp: reserve_contract_car_def bindR_Inr_iff split: option.splits bool.splits intro: foreign_reserve)

lemma foreign_compensate: "foreign db (compensate_confirmation now ids r b a db)"
proof -
  have "foreign db (compensate_release now ids r db)"
    by (auto simp: compensate_release_def split: option.split sum.split intro: foreign_release)
  moreover have "foreign x (compensate_valuation now ids b a x)" for x
    by (auto simp: compensate_valuation_def split: option.split sum.split intro: foreign_revert)
  ultimately show ?thesis using foreign_trans by (auto simp: compensate_confirmation_def split: option.split)
qed

lemma foreign_has_row: "foreign db db' \<Longrightarrow> has_row d db' = has_row d db"
  by (cases d) (simp_all add: foreign_tables)

lemma confirm_contract_inv:
  assumes inv: "sales_inv db" "has_row (ContractDeal c) db" and env: "\<And>x. sales_inv x \<Longrightarrow> sales_inv (env x)"
    and r: "confirm_contract ce env now c g a db = (db', res)"
  shows "sales_inv db'"
proof -
  have comp: "sales_inv (compensate_confirmation now ids rid b a (env x))" if "foreign db x" for ids rid b x
    using sales_inv_foreign [OF env [OF sales_inv_foreign [OF inv(1) that]] foreign_compensate] .
  have sign: "sales_inv (write_confirmation now (sign_contract now rid a c) x)" if x: "foreign db x" and l: "live c" for rid x
  proof -
    have "same_entity (ContractDeal c) (ContractDeal (sign_contract now rid a c))"
      using l by (simp add: sign_contract_def live_def)
    then show ?thesis unfolding write_confirmation_def
      using save_inv(2) [OF sales_inv_foreign [OF inv(1) x], of "ContractDeal c"] foreign_has_row [OF x] inv(2)
      by (metis save_deal.simps(2))
  qed
  have pending: "live c" if "confirm_guards c g db = Inr u" for u
    using that by (auto simp: confirm_guards_def bindR_Inr_iff live_def)
  show ?thesis
  proof (cases "confirm_guards c g db")
    case (Inl e)
    then show ?thesis using r inv(1) by (simp add: confirm_contract_def)
  next
    case g: (Inr u)
    show ?thesis
    proof (cases "consume_trade_in_valuation now c a db")
      case (Inl e)
      then show ?thesis using r inv(1) g by (simp add: confirm_contract_def)
    next
      case (Inr q)
      then obtain db1 b where v: "consume_trade_in_valuation now c a db = Inr (db1, b)" by (cases q) auto
      have f1: "foreign db db1" using foreign_consume_trade_in [OF v] .
      show ?thesis
      proof (cases "reserve_contract_car now c db1")
        case (Inl e)
        then show ?thesis using r g v comp [OF f1] by (auto simp: confirm_contract_def)
      next
        case (Inr q)
        then obtain db2 rid where k: "reserve_contract_car now c db1 = Inr (db2, rid)" by (cases q) auto
        have "foreign db db2" using foreign_trans [OF f1 foreign_reserve_car [OF k]] .
        then show ?thesis using r g v k comp sign pending [OF g]
          by (auto simp: confirm_contract_def Let_def split: option.splits)
      qed
    qed
  qed
qed

lemma cancel_contract_inv:
  assumes inv: "sales_inv db" "has_row (ContractDeal c) db" and r: "cancel_contract ce now c reason a db = (db', res)"
  shows "sales_inv db'"
proof (cases "bindR (cancel_guards c) (\<lambda>_. release_contract_car now c db)")
  case (Inl e)
  then show ?thesis using r inv(1) by (simp add: cancel_contract_def)
next
  case (Inr x)
  then have f: "foreign db x"
    by (auto simp: release_contract_car_def bindR_Inr_iff split: contract_status.splits option.splits sum.splits exn.splits intro: foreign_release)
  define c' where "c' = c\<lparr>contract_status := CT_CANCELLED, con_deal := (touch a (con_deal c))\<lparr>cancelled_reason := Some reason\<rparr>\<rparr>"
  have "same_entity (ContractDeal c) (ContractDeal c')" by (simp add: c'_def live_def)
  then have "sales_inv (write_cancellation now c' reason x)" unfolding write_cancellation_def
    using save_inv(2) [OF sales_inv_foreign [OF inv(1) f]] foreign_has_row [OF f] inv(2) by (metis save_deal.simps(2))
  then show ?thesis using r Inr sales_inv_foreign [OF inv(1) f] by (auto simp: cancel_contract_def c'_def Let_def split: option.splits)
qed

text \<open>A new document moves the count of its own deal's row only.\<close>

fun owner_kind :: "deal \<Rightarrow> entity_type" where
  "owner_kind (OfferDeal _) = OFFER_ENTITY"
| "owner_kind (ContractDeal _) = CONTRACT_ENTITY"

lemma document_inv:
  assumes inv: "sales_inv db" "has_row d db"
    and doc: "doc_owner_type doc = owner_kind d" "doc_owner_id doc = deal_id d"
    and db1: "db1 = db\<lparr>uuid_supply := n, sales_documents := sales_documents db @ [doc]\<rparr>" "uuid_supply db \<le> n"
  shows "sales_inv (upsert_deal_projection d db1)"
proof (rule upsert_restores)
  have s: "sales_structure db" and g: "grid_agrees db" using inv(1) by (simp_all add: sales_inv_def)
  show s1: "sales_structure db1" by (rule structure_mono [OF s]) (simp_all add: db1)
  show "has_row d db1" using inv(2) by (cases d) (simp_all add: db1)
  show "distinct (map sd_id (sales_deals db1))" using g by (simp add: db1 grid_agrees_def)
  show "sd_tenant_id r = pd_tenant_id (columns d)" if r: "select_one (\<lambda>r. sd_id r = lineage d) (sales_deals db1) = Some r" for r
  proof -
    have "grid_view db (lineage d) = Some r" using r g by (simp add: db1 grid_agrees_def)
    then show ?thesis using upsert_writes_view [OF s inv(2)] by (metis option.inject)
  qed
  have off: "offer_row o1 db1 = offer_row o1 db" if "off_id o1 \<noteq> lineage d" for o1
    using that doc by (cases d) (simp_all add: offer_row_def count_documents_def db1 Let_def)
  have con: "contract_row c db1 = contract_row c db"
    if "c \<in> set (sales_contracts db)" "lineage (ContractDeal c) \<noteq> lineage d" for c
  proof (cases d)
    case (OfferDeal o1)
    then show ?thesis using that(2) doc by (auto simp: contract_row_def count_documents_def db1 Let_def split: option.split)
  next
    case (ContractDeal c0)
    have "c = c0" if "con_id c = con_id c0"
      using distinct_key_unique [OF structureD(2) [OF s]] inv(2) ContractDeal \<open>c \<in> set (sales_contracts db)\<close> that by auto
    then have "con_id c \<noteq> con_id c0" using that(2) ContractDeal by auto
    then show ?thesis using doc ContractDeal by (simp add: contract_row_def count_documents_def db1 Let_def split: option.split)
  qed
  show "select_one (\<lambda>r. sd_id r = j) (sales_deals db1) = grid_view db1 j" if j: "j \<noteq> lineage d" for j
  proof -
    have "grid_view db1 j = grid_view db j"
    proof (cases "select_one (\<lambda>r. off_id r = j) (sales_offers db)")
      case None
      show ?thesis
      proof (cases "select_one (\<lambda>c. con_id c = j \<and> con_offer_id c = None) (sales_contracts db)")
        case (Some c)
        have "contract_row c db1 = contract_row c db"
          using select_one_SomeD [OF Some] j by (intro con) auto
        then show ?thesis using None Some by (simp add: grid_view_def db1(1) [symmetric]) (simp add: db1(1))
      qed (use None in \<open>simp add: grid_view_def db1\<close>)
    next
      case (Some o1)
      have o1: "off_id o1 = j" using select_one_SomeD(2) [OF Some] .
      show ?thesis
      proof (cases "select_one (is_live_contract_of o1) (sales_contracts db)")
        case None
        then show ?thesis using Some off [of o1] o1 j s s1 by (simp add: grid_view_alt) (simp add: db1(1))
      next
        case live: (Some c)
        have "contract_row c db1 = contract_row c db"
          using select_one_SomeD [OF live] o1 j by (intro con) (auto simp: is_live_contract_of_def)
        then show ?thesis using Some live s s1 by (simp add: grid_view_alt) (simp add: db1(1))
      qed
    qed
    then show ?thesis using g by (simp add: grid_agrees_def) (simp add: db1(1))
  qed
qed

lemma add_document_eq:
  assumes "add_document now ot p l ct a db = (db1, doc)"
  shows "db1 = db\<lparr>uuid_supply := uuid_supply db + 1, sales_documents := sales_documents db @ [doc]\<rparr>"
    "doc_owner_type doc = ot" "doc_owner_id doc = pd_id p"
  using assms by (auto simp: add_document_def draw_uuid_def Let_def)

lemma generate_offer_document_inv:
  assumes inv: "sales_inv db" "has_row (OfferDeal o1) db" and r: "generate_offer_document now o1 a db = Inr (db', doc)"
  shows "sales_inv db'"
proof -
  obtain l ct where e0: "doc = snd (add_document now OFFER_ENTITY (off_deal o1) l ct a db)"
    and db': "db' = upsert_deal_projection (OfferDeal o1) (fst (add_document now OFFER_ENTITY (off_deal o1) l ct a db))"
    using r by (auto simp: generate_offer_document_def bindR_Inr_iff Let_def split_beta)
  have e: "add_document now OFFER_ENTITY (off_deal o1) l ct a db = (fst (add_document now OFFER_ENTITY (off_deal o1) l ct a db), doc)"
    by (simp add: e0)
  show ?thesis unfolding db' by (rule document_inv [OF inv _ _ add_document_eq(1) [OF e]]) (use add_document_eq(2,3) [OF e] in simp_all)
qed

lemma generate_contract_document_inv:
  assumes inv: "sales_inv db" "has_row (ContractDeal c) db" and r: "generate_contract_document now c a db = Inr (db', doc)"
  shows "sales_inv db'"
proof -
  obtain l ct where e0: "doc = snd (add_document now CONTRACT_ENTITY (con_deal c) l ct a db)"
    and db': "db' = upsert_deal_projection (ContractDeal c) (fst (add_document now CONTRACT_ENTITY (con_deal c) l ct a db))"
    using r by (auto simp: generate_contract_document_def bindR_Inr_iff Let_def split_beta)
  have e: "add_document now CONTRACT_ENTITY (con_deal c) l ct a db = (fst (add_document now CONTRACT_ENTITY (con_deal c) l ct a db), doc)"
    by (simp add: e0)
  show ?thesis unfolding db' by (rule document_inv [OF inv _ _ add_document_eq(1) [OF e]]) (use add_document_eq(2,3) [OF e] in simp_all)
qed

text \<open>The link to a pipeline item writes no column the grid shows.\<close>

lemma link_configuration_inv:
  assumes inv: "sales_inv db"
  shows "sales_inv (link_manual_configuration_to_pipeline_item t cid i l rf db)"
proof -
  have s: "sales_structure db" and g: "grid_agrees db" using inv by (simp_all add: sales_inv_def)
  have "sales_inv (save_contract (c\<lparr>con_deal := (con_deal c)\<lparr>pd_stock_item_id := Some i, pd_version := v\<rparr>, stock_item_label := l,
      stock_item_denorm_refreshed_at := Some rf\<rparr>) db)" (is "sales_inv (save_contract ?c db)") if c: "c \<in> set (sales_contracts db)" for c v
  proof -
    have same: "same_entity (ContractDeal c) (ContractDeal ?c)" by (simp add: live_def)
    have c0: "has_row (ContractDeal c) db" using c by simp
    define db1 where "db1 = save_deal (ContractDeal ?c) db"
    have s1: "sales_structure db1" and c1: "has_row (ContractDeal ?c) db1"
      using structure_save [OF s c0 same] by (simp_all add: db1_def)
    obtain row where row: "grid_view db1 (lineage (ContractDeal ?c)) = Some row" "upsert_deal_projection (ContractDeal ?c) db1 = write_deal_row row db1"
      using upsert_writes_view [OF s1 c1] by metis
    obtain row0 where row0: "grid_view db (lineage (ContractDeal c)) = Some row0" "upsert_deal_projection (ContractDeal c) db = write_deal_row row0 db"
      using upsert_writes_view [OF s c0] by metis
    have same_row: "contract_row ?c db1 = contract_row c db"
      by (simp add: contract_row_def count_documents_def db1_def Let_def save_contract_def split: option.split)
    have docs: "sales_documents db1 = sales_documents db" by (simp add: db1_def save_contract_def)
    have "grid_view db1 j = grid_view db j" for j
    proof (cases "j = lineage (ContractDeal ?c)")
      case True
      define F where "F = (\<lambda>r. if con_id r = con_id ?c then ?c else r)"
      have keep: "select_one Q (sales_contracts db1) = map_option F (select_one Q (sales_contracts db))" if "Q ?c = Q c" for Q
        unfolding db1_def save_deal.simps save_contract_def F_def
        using that distinct_key_unique [OF structureD(2) [OF s] _ c] by (simp, intro select_one_update_where_on) auto
      have frow: "contract_row (F r) db1 = contract_row r db" if "r \<in> set (sales_contracts db)" for r
        unfolding F_def using that same_row rows_core(1) [OF docs] distinct_key_unique [OF structureD(2) [OF s] that c] by auto
      have l: "select_one (is_live_contract_of o1) (sales_contracts db1) = map_option F (select_one (is_live_contract_of o1) (sales_contracts db))" for o1
        by (rule keep) (simp add: is_live_contract_of_def)
      have k: "select_one (\<lambda>r. con_id r = j \<and> con_offer_id r = None) (sales_contracts db1)
        = map_option F (select_one (\<lambda>r. con_id r = j \<and> con_offer_id r = None) (sales_contracts db))"
        by (rule keep) simp
      have o: "sales_offers db1 = sales_offers db" by (simp add: db1_def save_contract_def)
      show ?thesis unfolding grid_view_alt [OF s1] grid_view_alt [OF s] l k o
        using frow [OF select_one_SomeD(1)] rows_core(2) [OF docs]
        by (cases "select_one (\<lambda>c. con_id c = j \<and> con_offer_id c = None) (sales_contracts db)") (auto split: option.split)
    next
      case False
      then show ?thesis unfolding db1_def by (rule grid_view_save [OF s c0 same])
    qed
    then have "grid_agrees db1" using g by (simp add: grid_agrees_def) (simp add: db1_def save_contract_def)
    then show ?thesis using s1 by (simp add: sales_inv_def db1_def)
  qed
  then show ?thesis using inv
    by (auto simp: link_manual_configuration_to_pipeline_item_def split: option.split dest!: select_one_SomeD(1))
qed
text \<open>A customer merge renames the buyer in the three tables alike.\<close>

lemma repoint_inv:
  assumes inv: "sales_inv db"
  shows "sales_inv (fst (repoint_customer_sales_records dup target db))"
proof -
  have s: "sales_structure db" and g: "grid_agrees db" using inv by (simp_all add: sales_inv_def)
  define fo where "fo r = (if pd_customer_id (off_deal r) = Some dup then r\<lparr>off_deal := repoint_deal target (off_deal r)\<rparr> else r)" for r :: sales_offer
  define fc where "fc r = (if pd_customer_id (con_deal r) = Some dup then r\<lparr>con_deal := repoint_deal target (con_deal r)\<rparr> else r)" for r :: sales_contract
  define fd where "fd r = (if sd_customer_id r = Some dup then r\<lparr>sd_customer_id := Some target\<rparr> else r)" for r :: sales_deal
  define db1 where "db1 = fst (repoint_customer_sales_records dup target db)"
  have t: "sales_offers db1 = map fo (sales_offers db)" "sales_contracts db1 = map fc (sales_contracts db)"
    "sales_deals db1 = map fd (sales_deals db)" "sales_documents db1 = sales_documents db" "uuid_supply db1 = uuid_supply db"
    by (simp_all add: db1_def repoint_customer_sales_records_def update_where_def fo_def fc_def fd_def)
  have o: "off_id (fo r) = off_id r" "pd_tenant_id (off_deal (fo r)) = pd_tenant_id (off_deal r)" for r
    by (simp_all add: fo_def repoint_deal_def)
  have c: "con_id (fc r) = con_id r" "pd_tenant_id (con_deal (fc r)) = pd_tenant_id (con_deal r)" "con_offer_id (fc r) = con_offer_id r"
    "live (fc r) = live r" "contract_status (fc r) = contract_status r" for r
    by (simp_all add: fc_def repoint_deal_def live_def)
  have d: "sd_id (fd r) = sd_id r" for r by (simp add: fd_def)
  have find: "select_one P (map f xs) = map_option f (select_one (\<lambda>x. P (f x)) xs)" for P and f :: "'x \<Rightarrow> 'y" and xs
    by (induction xs) auto
  have rows: "contract_row (fc r) db1 = fd (contract_row r db)" "offer_row (fo r1) db1 = fd (offer_row r1 db)" for r r1
    using rows_core [OF t(4)]
    by (auto simp: contract_row_def offer_row_def count_documents_def t(4) Let_def fc_def fo_def fd_def repoint_deal_def split: option.split)
  have live: "is_live_contract_of (fo r) (fc x) = is_live_contract_of r x" for r x
    by (simp add: is_live_contract_of_def o c)
  have s1: "sales_structure db1"
  proof -
    have "deal_keys db1 = deal_keys db" by (simp add: deal_keys_def t o c comp_def)
    moreover have "one_live_each (sales_contracts db1)"
      using structureD(4) [OF s] unfolding one_live_each_def t(2) by (auto simp: c)
    moreover have "lineages_ok (sales_offers db1) (sales_contracts db1)"
      using structureD(5) [OF s] unfolding lineages_ok_def t(1,2) by (fastforce simp: c o)
    ultimately show ?thesis using s by (simp add: sales_structure_def t)
  qed
  have "grid_view db1 j = map_option fd (grid_view db j)" for j
    unfolding grid_view_alt [OF s1] grid_view_alt [OF s] t(1,2) find
    by (simp add: o c live rows option.map_comp comp_def split: option.split)
  moreover have "select_one (\<lambda>r. sd_id r = j) (sales_deals db1) = map_option fd (select_one (\<lambda>r. sd_id r = j) (sales_deals db))" for j
    unfolding t(3) find by (simp add: d)
  moreover have "distinct (map sd_id (sales_deals db1))"
    using g by (simp add: t grid_agrees_def d comp_def)
  ultimately show ?thesis using s1 g by (simp add: sales_inv_def grid_agrees_def flip: db1_def)
qed

text \<open>A hand-over: one row after the other, none touching another's.\<close>

lemma upsert_tables:
  "sales_offers (upsert_deal_projection d db) = sales_offers db" "sales_contracts (upsert_deal_projection d db) = sales_contracts db"
  "uuid_supply (upsert_deal_projection d db) = uuid_supply db"
  by (cases d; simp add: project_contract_def project_offer_def project_live_entity_def split: option.split)+

fun key_of :: "deal \<Rightarrow> uuid" where
  "key_of (OfferDeal o1) = off_id o1"
| "key_of (ContractDeal c) = con_id c"

lemma hand_over_step:
  assumes inv: "sales_inv db" "has_row d db"
  shows "sales_inv (hand_over_row own a d db)"
    "has_row e db \<Longrightarrow> key_of e \<noteq> key_of d \<Longrightarrow> has_row e (hand_over_row own a d db)"
proof -
  define d' where "d' = set_columns (touch a (apply_owner own (columns d))) d"
  have eq: "hand_over_row own a d db = upsert_deal_projection d' (save_deal d' db)" by (simp add: hand_over_row_def d'_def Let_def)
  have same: "same_entity d d'" unfolding d'_def by (rule same_entity_set_columns) simp_all
  show "sales_inv (hand_over_row own a d db)" unfolding eq by (rule save_inv(1) [OF inv same])
  have "key_of d' = key_of d" using same by (cases d; cases d') auto
  then show "has_row e (hand_over_row own a d db)" if "has_row e db" "key_of e \<noteq> key_of d"
  proof -
    have "has_row e (save_deal d' db)"
      using that \<open>key_of d' = key_of d\<close> by (cases e; cases d') (auto simp: save_offer_def save_contract_def set_update_where)
    then show ?thesis unfolding eq by (cases e) (simp_all only: has_row.simps upsert_tables)
  qed
qed

lemma hand_over_all:
  assumes "sales_inv db" "\<forall>d \<in> set ds. has_row d db" "distinct (map key_of ds)"
  shows "sales_inv (fold (hand_over_row own a) ds db)"
  using assms
proof (induction ds arbitrary: db)
  case (Cons d ds)
  have "has_row e (hand_over_row own a d db)" if "e \<in> set ds" for e
    by (rule hand_over_step(2)) (use Cons.prems that in \<open>auto simp: image_iff\<close>)
  then show ?case using Cons hand_over_step(1) [of db d] by simp
qed simp

lemma open_rows_stored:
  assumes "sales_structure db"
  shows "\<forall>d \<in> set (open_rows u grp db). has_row d db" "distinct (map key_of (open_rows u grp db))"
proof -
  have "distinct (map off_id (sort_key off_id (select_all P (sales_offers db))))" for P
    using structureD(1) [OF assms] by (simp add: select_all_def distinct_map inj_on_def)
  moreover have "distinct (map con_id (sort_key con_id (select_all P (sales_contracts db))))" for P
    using structureD(2) [OF assms] by (simp add: select_all_def distinct_map inj_on_def)
  ultimately show "\<forall>d \<in> set (open_rows u grp db). has_row d db" "distinct (map key_of (open_rows u grp db))"
    by (auto simp: open_rows_def comp_def split: owned_group.split)
qed

lemma transfer_group_inv:
  assumes "sales_inv db" "transfer_group now f grp to_u lbl a db = Inr (db', n)"
  shows "sales_inv db'"
proof -
  have s: "sales_structure db" using assms(1) by (simp add: sales_inv_def)
  obtain own where "db' = fold (hand_over_row own a) (open_rows f grp db) db"
    using assms(2) by (auto simp: transfer_group_def Let_def split: if_splits)
  then show ?thesis using hand_over_all [OF assms(1) open_rows_stored [OF s]] by simp
qed

section \<open>The Sales context as a state machine\<close>

text \<open>
  One committed operation. A deal is loaded before it is written, so it is a stored row; a trade-in
  and a confirmation let other requests commit in between (\<open>env\<close>), which are steps again; a call
  into another context leaves these tables alone.
\<close>

inductive sales_step :: "'a sales_db_scheme \<Rightarrow> 'a sales_db_scheme \<Rightarrow> bool" where
  step_create_offer: "create_offer now t a db = (db', o1) \<Longrightarrow> sales_step db db'"
| step_update_offer: "has_row (OfferDeal o1) db \<Longrightarrow> update_offer now o1 g ch a db = Inr (db', d) \<Longrightarrow> sales_step db db'"
| step_copy_offer: "copy_offer now o1 a db = Inr (db', d) \<Longrightarrow> sales_step db db'"
| step_finalize_offer: "has_row (OfferDeal o1) db \<Longrightarrow> finalize_offer o1 a db = Inr (db', o2) \<Longrightarrow> sales_step db db'"
| step_cancel_offer: "has_row (OfferDeal o1) db \<Longrightarrow> cancel_offer now o1 reason a db = Inr (db', o2) \<Longrightarrow> sales_step db db'"
| step_line_items: "replace_line_items d acc pat a db = Inr (db', d') \<Longrightarrow> sales_step db db'"
| step_set_trade_in: "(\<forall>x. foreign x (env1 x)) \<Longrightarrow> (\<forall>x. sales_step\<^sup>*\<^sup>* x (env2 x))
    \<Longrightarrow> set_trade_in env1 env2 now d g vin plate canton vl cid a db = (db', r) \<Longrightarrow> sales_step db db'"
| step_attach_valuation: "has_row d db \<Longrightarrow> attach_trade_in_valuation now d v a db = Inr (db', d') \<Longrightarrow> sales_step db db'"
| step_create_contract: "(\<forall>o1. offer = Some o1 \<longrightarrow> has_row (OfferDeal o1) db \<and> pd_tenant_id (off_deal o1) = t)
    \<Longrightarrow> create_contract now t offer a cust g si vl db = Inr (db', d) \<Longrightarrow> sales_step db db'"
| step_update_contract: "has_row (ContractDeal c) db \<Longrightarrow> update_contract now c g ch a db = Inr (db', d) \<Longrightarrow> sales_step db db'"
| step_confirm: "has_row (ContractDeal c) db \<Longrightarrow> (\<forall>x. sales_step\<^sup>*\<^sup>* x (env x))
    \<Longrightarrow> confirm_contract ce env now c g a db = (db', res) \<Longrightarrow> sales_step db db'"
| step_cancel: "has_row (ContractDeal c) db \<Longrightarrow> cancel_contract ce now c reason a db = (db', res) \<Longrightarrow> sales_step db db'"
| step_request_invoice: "request_invoice now c db = Inr db' \<Longrightarrow> sales_step db db'"
| step_offer_document: "has_row (OfferDeal o1) db \<Longrightarrow> generate_offer_document now o1 a db = Inr (db', doc) \<Longrightarrow> sales_step db db'"
| step_contract_document: "has_row (ContractDeal c) db \<Longrightarrow> generate_contract_document now c a db = Inr (db', doc) \<Longrightarrow> sales_step db db'"
| step_item_added: "handle_stock_item_added_message now m db = Inr db' \<Longrightarrow> sales_step db db'"
| step_item_purchased: "handle_stock_item_purchased_message now m db = Inr db' \<Longrightarrow> sales_step db db'"
| step_merge: "repoint_customer_sales_records dup target db = (db', n) \<Longrightarrow> sales_step db db'"
| step_transfer: "transfer_group now f grp to_u lbl a db = Inr (db', n) \<Longrightarrow> sales_step db db'"
| step_foreign: "foreign db db' \<Longrightarrow> sales_step db db'"

definition no_sales :: "'a sales_db_scheme \<Rightarrow> bool" where
  "no_sales db \<longleftrightarrow> sales_core db = ([], [], [], [])"

definition sales_reachable :: "'a sales_db_scheme \<Rightarrow> bool" where
  "sales_reachable db \<longleftrightarrow> (\<exists>db0. no_sales db0 \<and> sales_step\<^sup>*\<^sup>* db0 db)"

lemma no_sales_inv: "no_sales db \<Longrightarrow> sales_inv db"
  by (simp add: no_sales_def sales_core_def sales_inv_def sales_structure_def grid_agrees_def deal_keys_def one_live_each_def
      lineages_ok_def grid_view_def)

lemma sales_inv_same_core:
  "sales_inv db \<Longrightarrow> sales_core db' = sales_core db \<Longrightarrow> uuid_supply db \<le> uuid_supply db' \<Longrightarrow> sales_inv db'"
  using structure_mono [of db db'] grid_view_core [of db' db] by (simp add: sales_inv_def grid_agrees_def sales_core_def)

lemma sales_steps_inv:
  assumes "(\<lambda>x y. sales_step x y \<and> (sales_inv x \<longrightarrow> sales_inv y))\<^sup>*\<^sup>* a b" "sales_inv a"
  shows "sales_inv b"
  using assms by (induction rule: rtranclp_induct) auto

lemma sales_step_inv:
  assumes "sales_step db db'" "sales_inv db"
  shows "sales_inv db'"
  using assms
proof (induction rule: sales_step.induct)
  case step_create_offer then show ?case using create_offer_inv by blast
next
  case step_update_offer then show ?case using update_offer_inv by blast
next
  case step_copy_offer then show ?case using copy_offer_inv by blast
next
  case step_finalize_offer then show ?case using finalize_offer_inv by blast
next
  case step_cancel_offer then show ?case using cancel_offer_inv by blast
next
  case step_line_items then show ?case using replace_line_items_inv by blast
next
  case (step_set_trade_in env1 env2 now d g vin plate canton vl cid a db db' r)
  have "sales_inv (env2 x)" if "sales_inv x" for x using sales_steps_inv step_set_trade_in.IH that by blast
  then show ?case using set_trade_in_inv [OF step_set_trade_in.prems _ _ step_set_trade_in.hyps(2)] step_set_trade_in.hyps(1) by blast
next
  case step_attach_valuation then show ?case using attach_trade_in_valuation_inv by blast
next
  case step_create_contract then show ?case using create_contract_inv by blast
next
  case step_update_contract then show ?case using update_contract_inv by blast
next
  case (step_confirm c db env ce now g a db' res)
  have "sales_inv (env x)" if "sales_inv x" for x using sales_steps_inv step_confirm.IH that by blast
  then show ?case using confirm_contract_inv [OF step_confirm.prems step_confirm.hyps(1) _ step_confirm.hyps(2)] by blast
next
  case step_cancel then show ?case using cancel_contract_inv by blast
next
  case (step_request_invoice now c db db')
  then show ?case by (auto simp: request_invoice_def split: if_splits intro!: sales_inv_foreign [OF _ foreign_publish])
next
  case step_offer_document then show ?case using generate_offer_document_inv by blast
next
  case step_contract_document then show ?case using generate_contract_document_inv by blast
next
  case (step_item_added now m db db')
  then show ?case
    by (auto simp: handle_stock_item_added_message_def bindR_Inr_iff link_configuration_inv split: option.splits if_splits json.splits list.splits)
next
  case (step_item_purchased now m db db')
  then have "sales_core db' = sales_core db" "uuid_supply db' = uuid_supply db"
    by (auto simp: handle_stock_item_purchased_message_def record_stock_item_purchased_def Let_def sales_core_def split: option.splits)
  then show ?case by (intro sales_inv_same_core [OF step_item_purchased.prems]) simp_all
next
  case (step_merge dup target db db' n)
  then show ?case using repoint_inv [of db dup target] by simp
next
  case step_transfer then show ?case using transfer_group_inv by blast
next
  case step_foreign then show ?case using sales_inv_foreign by blast
qed

lemma sales_reachable_inv: "sales_reachable db \<Longrightarrow> sales_inv db"
proof -
  have "sales_step\<^sup>*\<^sup>* db0 db \<Longrightarrow> sales_inv db0 \<Longrightarrow> sales_inv db" for db0
    by (induction rule: rtranclp_induct) (auto intro: sales_step_inv)
  then show "sales_reachable db \<Longrightarrow> sales_inv db" using no_sales_inv by (auto simp: sales_reachable_def)
qed

section \<open>The grid and its query\<close>


text \<open>
  C25: in every reachable state an offer has at most one contract that is not cancelled, and the
  offer a contract names exists in the contract's own dealership.
\<close>

theorem one_live_contract_per_offer:
  assumes "sales_reachable db" "c \<in> set (sales_contracts db)" "con_offer_id c = Some i"
  shows "(\<forall>c' \<in> set (sales_contracts db). con_offer_id c' = Some i \<longrightarrow> contract_status c \<noteq> CT_CANCELLED
      \<longrightarrow> contract_status c' \<noteq> CT_CANCELLED \<longrightarrow> c' = c)
    \<and> (\<exists>o1 \<in> set (sales_offers db). off_id o1 = i \<and> pd_tenant_id (off_deal o1) = pd_tenant_id (con_deal c))"
proof -
  have s: "sales_structure db" using sales_reachable_inv [OF assms(1)] by (simp add: sales_inv_def)
  show ?thesis
    using one_live_contract [OF structureD(4) [OF s]] lineage_offer [OF structureD(5) [OF s] assms(2,3)] assms(2,3)
    by (metis live_def)
qed

definition example_sales_db :: sales_db where
  "example_sales_db = inventory_db.extend example_stock_db (sales_db.fields [] [] [] [] [] [] [])"

lemma example_sales_simps [simp]:
  "sales_offers example_sales_db = []" "sales_contracts example_sales_db = []" "sales_line_items example_sales_db = []"
  "sales_deals example_sales_db = []" "sales_documents example_sales_db = []" "sales_number_sequence example_sales_db = []"
  "sales_stock_item_purchases example_sales_db = []" "uuid_supply example_sales_db = 10" "users example_sales_db = []"
  "stock_items example_sales_db = [example_item]" "stock_item_options example_sales_db = []" "customers example_sales_db = []"
  "idempotency_records example_sales_db = []" "outbox_messages example_sales_db = []" "vehicle_configurations example_sales_db = []"
  by (simp_all add: example_sales_db_def example_stock_db_def example_valuation_db_def valuation_db.defs inventory_db.defs sales_db.defs)

lemma example_reachable: "sales_reachable example_sales_db"
proof -
  have "no_sales example_sales_db" by (simp add: no_sales_def sales_core_def)
  then show ?thesis unfolding sales_reachable_def by blast
qed

lemma no_seller [simp]: "default_owner now t None db = no_owner"
  by (simp add: default_owner_def seller_in_def)

lemma sales_reachable_step: "sales_reachable db \<Longrightarrow> sales_step db db' \<Longrightarrow> sales_reachable db'"
  by (auto simp: sales_reachable_def intro: rtranclp.rtrancl_into_rtrancl)


theorem one_live_contract_per_offer_witness:
  "\<exists>(db :: sales_db) c. sales_reachable db \<and> sales_contracts db = [c] \<and> con_offer_id c = Some 10
    \<and> (\<exists>o1 \<in> set (sales_offers db). off_id o1 = 10 \<and> pd_tenant_id (off_deal o1) = pd_tenant_id (con_deal c))"
proof -
  obtain db o1 where c: "create_offer 50 3 None example_sales_db = (db, o1)" by (metis surj_pair)
  have r: "sales_reachable db" using sales_reachable_step [OF example_reachable step_create_offer [OF c]] .
  have o1: "off_id o1 = 10" "pd_tenant_id (off_deal o1) = 3" "sales_offers db = [o1]" "sales_contracts db = []"
    using c by (auto simp: create_offer_def allocate_offer_number_def allocate_sales_number_def allocate_value_def next_value_def
        Let_def draw_uuid_def add_offer_def publish_eq project_live_entity_def live_contract_of_def project_offer_def)
  have of: "offer_of_create 3 (Some o1) db = Inr (Some o1)" using o1 by (simp add: offer_of_create_def)
  obtain db' d where k: "create_contract 60 3 (Some o1) None None None None None db = Inr (db', d)"
    "\<exists>c. sales_contracts db' = [c] \<and> con_offer_id c = Some 10"
    using o1 by (simp add: create_contract_def customer_of_create_def of allocate_contract_number_def allocate_sales_number_def
        split_beta Let_def draw_uuid_def upsert_tables publish_eq add_contract_def copy_line_items_def add_line_items_def
        del: upsert_deal_projection.simps)
  have r': "sales_reachable db'"
    by (rule sales_reachable_step [OF r], rule step_create_contract [OF _ k(1)]) (use o1 in auto)
  obtain c' where c': "sales_contracts db' = [c']" "con_offer_id c' = Some 10" using k(2) by blast
  show ?thesis using one_live_contract_per_offer [OF r', of c' 10] c' r' by (intro exI [of _ db'] exI [of _ c']) simp
qed

end
