(* ===== verification/Integration_Connections.thy ===== *)
theory Integration_Connections
  imports Sales_Deals
begin

text \<open>
  The registry of provider connections (\<^verbatim>\<open>app/integration\<close>): providers, a dealership's connections
  with their secret references and entitlements (\<^verbatim>\<open>services/providers.py, connections.py,
  secrets_backend.py\<close>) and the retention of the call log (\<^verbatim>\<open>services/retention.py\<close>).

  A secret's value lives in Infisical, outside the database: \<open>infisical\<close> is the client the source
  calls, a parameter, and its vault is a state of its own that no rollback of the database undoes.
\<close>

section \<open>Rows\<close>

datatype connection_scope = SCOPE_PLATFORM | SCOPE_TENANT
datatype connection_environment = SANDBOX | PRODUCTION
datatype connection_status = CS_CONNECTED | CS_NOT_CONFIGURED | CS_ERROR | CS_EXPIRED | CS_DISABLED
datatype secret_slot = PASSWORD | AES_KEY | CLIENT_SECRET | REFRESH_TOKEN | CERTIFICATE
datatype entitlement_source = PROBED | DECLARED
datatype call_status = CALL_SUCCESS | CALL_ERROR | CALL_TIMEOUT
datatype payload_kind = PAYLOAD_SUCCESS | PAYLOAD_ERROR

record integration_provider =
  prov_id :: uuid
  provider_code :: string
  category :: string
  prov_display_name :: string
  auth_type :: string
  required_secret_slots :: "string list"
  required_config_keys :: "string list"
  capability_codes :: "string list"
  docs_url :: "string option"
  supports_sandbox :: bool
  prov_version :: nat

text \<open>The \<open>config\<close> column is a JSON document: an object, or the JSON null an update may store.\<close>

record integration_connection =
  ic_id :: uuid
  ic_provider_id :: uuid
  ic_scope :: connection_scope
  ic_tenant_id :: "uuid option"
  ic_display_name :: string
  ic_environment :: connection_environment
  ic_config :: json
  enabled :: bool
  ic_status :: connection_status
  last_verified_at :: "datetime option"
  ic_last_error :: "string option"
  ic_expires_at :: "datetime option"
  ic_rotated_at :: "datetime option"
  ic_created_by :: "uuid option"
  ic_updated_by :: "uuid option"
  ic_version :: nat

record integration_secret_ref =
  isr_id :: uuid
  isr_connection_id :: uuid
  isr_slot :: secret_slot
  isr_secret_ref :: string
  isr_rotated_at :: "datetime option"

record integration_entitlement =
  ie_id :: uuid
  ie_connection_id :: uuid
  ie_capability_code :: string
  ie_granted :: bool
  ie_source :: entitlement_source
  ie_checked_at :: datetime

record integration_call_log =
  cl_id :: uuid
  cl_connection_id :: uuid
  cl_tenant_id :: "uuid option"
  cl_capability :: string
  cl_status :: call_status
  cl_duration_ms :: int
  cl_cost_units :: "decimal option"
  cl_correlation_id :: uuid
  cl_created_at :: datetime

record integration_call_payload =
  cp_id :: uuid
  cp_call_log_id :: uuid
  cp_tenant_id :: "uuid option"
  cp_kind :: payload_kind
  cp_payload :: string
  cp_created_at :: datetime

text \<open>
  The breaker's state of one connection (\<^verbatim>\<open>resilience.py\<close>), in the process's memory; \<open>opened_at\<close> is
  an instant of the monotonic clock, in microseconds.
\<close>

record circuit_state =
  failure_count :: nat
  opened_at :: "int option"

record integration_db = sales_db +
  integration_providers :: "integration_provider list"
  integration_connections :: "integration_connection list"
  integration_secret_refs :: "integration_secret_ref list"
  integration_entitlements :: "integration_entitlement list"
  integration_call_logs :: "integration_call_log list"
  integration_call_payloads :: "integration_call_payload list"
  circuits :: "(uuid \<times> circuit_state) list"

definition save_connection :: "integration_connection \<Rightarrow> 'a integration_db_scheme \<Rightarrow> 'a integration_db_scheme" where
  "save_connection c db = db\<lparr>integration_connections :=
     update_where (\<lambda>r. ic_id r = ic_id c) (\<lambda>_. c) (integration_connections db)\<rparr>"

section \<open>Providers\<close>

definition get_provider_or_404 :: "uuid \<Rightarrow> 'a integration_db_scheme \<Rightarrow> integration_provider result" where
  "get_provider_or_404 pid db = (case select_one (\<lambda>p. prov_id p = pid) (integration_providers db) of
     None \<Rightarrow> Inl (NotFoundError []) | Some p \<Rightarrow> Inr p)"

definition provider_with_code :: "string \<Rightarrow> 'a integration_db_scheme \<Rightarrow> integration_provider option" where
  "provider_with_code code db = select_one (\<lambda>p. provider_code p = code) (integration_providers db)"

definition get_provider_by_code_or_404 :: "string \<Rightarrow> 'a integration_db_scheme \<Rightarrow> integration_provider result" where
  "get_provider_by_code_or_404 code db = (case provider_with_code code db of None \<Rightarrow> Inl (NotFoundError []) | Some p \<Rightarrow> Inr p)"

definition list_providers :: "'a integration_db_scheme \<Rightarrow> integration_provider list" where
  "list_providers db = sort_key prov_display_name (integration_providers db)"

definition create_provider ::
  "integration_provider \<Rightarrow> 'a integration_db_scheme \<Rightarrow> ('a integration_db_scheme \<times> integration_provider) result" where
  "create_provider data db =
     (if provider_with_code (provider_code data) db \<noteq> None then Inl (ConflictError [])
      else let (iid, db1) = draw_uuid db; p = data\<lparr>prov_id := iid, prov_version := 1\<rparr>
           in Inr (db1\<lparr>integration_providers := integration_providers db1 @ [p]\<rparr>, p))"

section \<open>Connections\<close>

text \<open>\<open>not value\<close> for a JSON value read from a dictionary, absent keys included.\<close>

fun json_falsy :: "json \<Rightarrow> bool" where
  "json_falsy JNull = True"
| "json_falsy (JBool b) = (\<not> b)"
| "json_falsy (JInt n) = (n = 0)"
| "json_falsy (JDec q) = (q = 0)"
| "json_falsy (JStr s) = (s = [])"
| "json_falsy (JList xs) = (xs = [])"
| "json_falsy (JObj kvs) = (kvs = [])"
| "json_falsy _ = False"

definition dict_get :: "string \<Rightarrow> payload \<Rightarrow> json" where
  "dict_get k kvs = (case map_of kvs k of None \<Rightarrow> JNull | Some j \<Rightarrow> j)"

definition missing_config_keys :: "integration_provider \<Rightarrow> payload \<Rightarrow> string list" where
  "missing_config_keys p config = filter (\<lambda>k. json_falsy (dict_get k config)) (required_config_keys p)"

definition validate_required_config :: "integration_provider \<Rightarrow> payload \<Rightarrow> unit result" where
  "validate_required_config p config = (let missing = missing_config_keys p config
     in raise_if (missing \<noteq> []) (UnprocessableEntityError [(''missingConfigKeys'', JList (map JStr missing))]))"

definition get_connection_or_404 ::
  "uuid option \<Rightarrow> uuid \<Rightarrow> 'a integration_db_scheme \<Rightarrow> integration_connection result" where
  "get_connection_or_404 tenant_id cid db =
     (case select_one (\<lambda>c. ic_id c = cid \<and> (tenant_id = None \<or> ic_tenant_id c = tenant_id)) (integration_connections db) of
        None \<Rightarrow> Inl (NotFoundError []) | Some c \<Rightarrow> Inr c)"

definition speaks :: "string \<Rightarrow> 'a integration_db_scheme \<Rightarrow> integration_connection \<Rightarrow> bool" where
  "speaks code db c \<longleftrightarrow> list_ex (\<lambda>p. prov_id p = ic_provider_id c \<and> provider_code p = code) (integration_providers db)"

definition get_enabled_connection ::
  "uuid \<Rightarrow> string \<Rightarrow> 'a integration_db_scheme \<Rightarrow> integration_connection option" where
  "get_enabled_connection tenant_id code db =
     select_one (\<lambda>c. ic_tenant_id c = Some tenant_id \<and> speaks code db c \<and> enabled c) (integration_connections db)"

definition list_enabled_connection_tenant_ids_for_provider :: "string \<Rightarrow> 'a integration_db_scheme \<Rightarrow> uuid list" where
  "list_enabled_connection_tenant_ids_for_provider code db = remdups (List.map_filter ic_tenant_id
     (select_all (\<lambda>c. speaks code db c \<and> enabled c \<and> ic_tenant_id c \<noteq> None) (integration_connections db)))"

definition scope_text :: "connection_scope \<Rightarrow> string" where
  "scope_text s = (case s of SCOPE_PLATFORM \<Rightarrow> ''platform'' | SCOPE_TENANT \<Rightarrow> ''tenant'')"

definition environment_text :: "connection_environment \<Rightarrow> string" where
  "environment_text e = (case e of SANDBOX \<Rightarrow> ''sandbox'' | PRODUCTION \<Rightarrow> ''production'')"

record connection_create =
  cc_provider_id :: uuid
  cc_display_name :: string
  cc_environment :: connection_environment
  cc_config :: payload
  cc_scope :: connection_scope

definition duplicate_connection :: "connection_create \<Rightarrow> string \<Rightarrow> uuid option \<Rightarrow> exn" where
  "duplicate_connection data code tenant_id = ConflictError [(''reason'', JStr ''duplicate_connection''),
     (''scope'', JStr (scope_text (cc_scope data))), (''tenantId'', json_opt JUuid tenant_id),
     (''providerCode'', JStr code), (''environment'', JStr (environment_text (cc_environment data)))]"

definition new_connection ::
  "uuid \<Rightarrow> uuid option \<Rightarrow> connection_create \<Rightarrow> uuid option \<Rightarrow> integration_connection" where
  "new_connection iid tenant_id data actor_id =
     \<lparr>ic_id = iid, ic_provider_id = cc_provider_id data, ic_scope = cc_scope data, ic_tenant_id = tenant_id,
      ic_display_name = cc_display_name data, ic_environment = cc_environment data, ic_config = JObj (cc_config data),
      enabled = True, ic_status = CS_NOT_CONFIGURED, last_verified_at = None, ic_last_error = None, ic_expires_at = None,
      ic_rotated_at = None, ic_created_by = actor_id, ic_updated_by = actor_id, ic_version = 1\<rparr>"

text \<open>The unique index over tenant, provider and environment; two null tenants never collide in it.\<close>

definition connection_key_taken :: "uuid option \<Rightarrow> connection_create \<Rightarrow> 'a integration_db_scheme \<Rightarrow> bool" where
  "connection_key_taken tenant_id data db \<longleftrightarrow> tenant_id \<noteq> None \<and> select_one (\<lambda>c. ic_tenant_id c = tenant_id
     \<and> ic_provider_id c = cc_provider_id data \<and> ic_environment c = cc_environment data) (integration_connections db) \<noteq> None"

definition connection_audit ::
  "datetime \<Rightarrow> integration_connection \<Rightarrow> string \<Rightarrow> uuid option \<Rightarrow> payload option \<Rightarrow> 'a integration_db_scheme
     \<Rightarrow> 'a integration_db_scheme" where
  "connection_audit now c action actor_id after db = record_audit_event now ''integration_connection'' (ic_id c)
     (ic_tenant_id c) action actor_id None after None db"

definition create_connection ::
  "datetime \<Rightarrow> uuid option \<Rightarrow> connection_create \<Rightarrow> uuid option \<Rightarrow> 'a integration_db_scheme
     \<Rightarrow> ('a integration_db_scheme \<times> integration_connection) result" where
  "create_connection now tenant_id data actor_id db =
     bindR (get_provider_or_404 (cc_provider_id data) db) (\<lambda>provider.
     bindR (validate_required_config provider (cc_config data)) (\<lambda>_.
     bindR (case cc_scope data of SCOPE_PLATFORM \<Rightarrow> Inr None
       | SCOPE_TENANT \<Rightarrow> if tenant_id = None then Inl (ConflictError []) else Inr tenant_id) (\<lambda>resolved.
     let duplicate = duplicate_connection data (provider_code provider) resolved
     in if select_one (\<lambda>c. ic_scope c = cc_scope data \<and> ic_tenant_id c = resolved \<and> ic_provider_id c = prov_id provider
             \<and> ic_environment c = cc_environment data) (integration_connections db) \<noteq> None then Inl duplicate
        else if connection_key_taken resolved data db then Inl duplicate
        else let (iid, db1) = draw_uuid db; c = new_connection iid resolved data actor_id
             in Inr (connection_audit now c ''create'' actor_id
                  (Some [(''providerCode'', JStr (provider_code provider)),
                    (''environment'', JStr (environment_text (cc_environment data)))])
                  (db1\<lparr>integration_connections := integration_connections db1 @ [c]\<rparr>), c))))"

text \<open>
  A PATCH: \<open>None\<close> is a field the request leaves out, \<open>Some None\<close> an explicit null. A null display
  name meets the column's NOT NULL; a null \<open>config\<close> is stored as the JSON null.
\<close>

record connection_update =
  cu_display_name :: "string option option"
  cu_config :: "payload option option"
  cu_expires_at :: "datetime option option"

definition updated_connection :: "connection_update \<Rightarrow> uuid option \<Rightarrow> string \<Rightarrow> integration_connection \<Rightarrow> integration_connection" where
  "updated_connection data actor_id name c = c\<lparr>ic_display_name := name,
     ic_config := (case cu_config data of None \<Rightarrow> ic_config c | Some cfg \<Rightarrow> json_opt JObj cfg),
     ic_expires_at := (case cu_expires_at data of None \<Rightarrow> ic_expires_at c | Some t \<Rightarrow> t),
     ic_updated_by := actor_id, ic_version := ic_version c + 1\<rparr>"

definition update_connection ::
  "integration_connection \<Rightarrow> connection_update \<Rightarrow> uuid option \<Rightarrow> 'a integration_db_scheme
     \<Rightarrow> ('a integration_db_scheme \<times> integration_connection) result" where
  "update_connection c data actor_id db =
     bindR (case cu_config data of
         Some (Some config) \<Rightarrow> bindR (get_provider_or_404 (ic_provider_id c) db) (\<lambda>p. validate_required_config p config)
       | _ \<Rightarrow> Inr ()) (\<lambda>_.
     bindR (case cu_display_name data of None \<Rightarrow> Inr (ic_display_name c) | Some (Some n) \<Rightarrow> Inr n
       | Some None \<Rightarrow> Inl IntegrityError) (\<lambda>name.
     let c' = updated_connection data actor_id name c in Inr (save_connection c' db, c')))"

definition switched :: "bool \<Rightarrow> uuid option \<Rightarrow> integration_connection \<Rightarrow> integration_connection" where
  "switched on actor_id c = c\<lparr>enabled := on, ic_status := (if on then CS_NOT_CONFIGURED else CS_DISABLED),
     ic_updated_by := actor_id, ic_version := ic_version c + 1\<rparr>"

definition disable_connection ::
  "datetime \<Rightarrow> integration_connection \<Rightarrow> uuid option \<Rightarrow> 'a integration_db_scheme \<Rightarrow> 'a integration_db_scheme \<times> integration_connection" where
  "disable_connection now c actor_id db = (let c' = switched False actor_id c
     in (connection_audit now c' ''disable'' actor_id None (save_connection c' db), c'))"

definition enable_connection ::
  "datetime \<Rightarrow> integration_connection \<Rightarrow> uuid option \<Rightarrow> 'a integration_db_scheme \<Rightarrow> 'a integration_db_scheme \<times> integration_connection" where
  "enable_connection now c actor_id db = (let c' = switched True actor_id c
     in (connection_audit now c' ''enable'' actor_id None (save_connection c' db), c'))"

section \<open>Secrets\<close>

text \<open>The client of the secret store: whether a project is configured, and its calls by path and name.\<close>

record 'v infisical =
  inf_configured :: bool
  inf_create :: "string \<Rightarrow> string \<Rightarrow> string \<Rightarrow> 'v \<Rightarrow> 'v \<times> unit result"
  inf_update :: "string \<Rightarrow> string \<Rightarrow> string \<Rightarrow> 'v \<Rightarrow> 'v \<times> unit result"
  inf_delete :: "string \<Rightarrow> string \<Rightarrow> 'v \<Rightarrow> 'v \<times> unit result"

fun slot_text :: "secret_slot \<Rightarrow> string" where
  "slot_text PASSWORD = ''password''"
| "slot_text AES_KEY = ''aes_key''"
| "slot_text CLIENT_SECRET = ''client_secret''"
| "slot_text REFRESH_TOKEN = ''refresh_token''"
| "slot_text CERTIFICATE = ''certificate''"

definition secret_path :: "uuid \<Rightarrow> string" where
  "secret_path cid = ''/integrations/'' @ digits_of_nat cid @ ''/''"

definition secret_ref_for :: "uuid \<Rightarrow> secret_slot \<Rightarrow> string" where
  "secret_ref_for cid slot = secret_path cid @ slot_text slot"

text \<open>\<open>SecretsBackendNotConfigured\<close> is a \<open>ConflictError\<close> without details.\<close>

definition with_backend :: "'v infisical \<Rightarrow> ('v \<Rightarrow> 'v \<times> unit result) \<Rightarrow> 'v \<Rightarrow> 'v \<times> unit result" where
  "with_backend vc call v = (if inf_configured vc then call v else (v, Inl (ConflictError [])))"

definition create_secret :: "'v infisical \<Rightarrow> uuid \<Rightarrow> secret_slot \<Rightarrow> string \<Rightarrow> 'v \<Rightarrow> 'v \<times> string result" where
  "create_secret vc cid slot secret v =
     (let (v', r) = with_backend vc (inf_create vc (secret_path cid) (slot_text slot) secret) v
      in (v', bindR r (\<lambda>_. Inr (secret_ref_for cid slot))))"

definition update_secret :: "'v infisical \<Rightarrow> uuid \<Rightarrow> secret_slot \<Rightarrow> string \<Rightarrow> 'v \<Rightarrow> 'v \<times> string result" where
  "update_secret vc cid slot secret v =
     (let (v', r) = with_backend vc (inf_update vc (secret_path cid) (slot_text slot) secret) v
      in (v', bindR r (\<lambda>_. Inr (secret_ref_for cid slot))))"

definition delete_secret :: "'v infisical \<Rightarrow> uuid \<Rightarrow> secret_slot \<Rightarrow> 'v \<Rightarrow> 'v \<times> unit result" where
  "delete_secret vc cid slot = with_backend vc (inf_delete vc (secret_path cid) (slot_text slot))"

definition find_secret_ref :: "uuid \<Rightarrow> secret_slot \<Rightarrow> 'a integration_db_scheme \<Rightarrow> integration_secret_ref option" where
  "find_secret_ref cid slot db = select_one (\<lambda>r. isr_connection_id r = cid \<and> isr_slot r = slot) (integration_secret_refs db)"

definition secret_audit ::
  "datetime \<Rightarrow> integration_connection \<Rightarrow> integration_secret_ref \<Rightarrow> string \<Rightarrow> uuid option \<Rightarrow> 'a integration_db_scheme
     \<Rightarrow> 'a integration_db_scheme" where
  "secret_audit now c r action actor_id db = record_audit_event now ''integration_secret_ref'' (isr_id r) (ic_tenant_id c)
     action actor_id None None (Some (''slot='' @ slot_text (isr_slot r))) db"

text \<open>A secret is written before the database commits; the returned vault is what Infisical then holds.\<close>

definition set_secret ::
  "'v infisical \<Rightarrow> datetime \<Rightarrow> integration_connection \<Rightarrow> secret_slot \<Rightarrow> string \<Rightarrow> uuid option \<Rightarrow> 'v \<Rightarrow> 'a integration_db_scheme
     \<Rightarrow> 'v \<times> ('a integration_db_scheme \<times> integration_secret_ref) result" where
  "set_secret vc now c slot secret actor_id v db =
     (let c' = c\<lparr>ic_rotated_at := Some now\<rparr> in
      case find_secret_ref (ic_id c) slot db of
        Some existing \<Rightarrow>
          let (v', r) = update_secret vc (ic_id c) slot secret v
          in (v', bindR r (\<lambda>ref.
            let row = existing\<lparr>isr_secret_ref := ref, isr_rotated_at := Some now\<rparr>;
                db1 = save_connection c' (db\<lparr>integration_secret_refs :=
                  update_where (\<lambda>x. isr_id x = isr_id existing) (\<lambda>_. row) (integration_secret_refs db)\<rparr>)
            in Inr (secret_audit now c row ''rotate_secret'' actor_id db1, row)))
      | None \<Rightarrow>
          let (v', r) = create_secret vc (ic_id c) slot secret v
          in (v', bindR r (\<lambda>ref.
            let (iid, db1) = draw_uuid db;
                row = \<lparr>isr_id = iid, isr_connection_id = ic_id c, isr_slot = slot, isr_secret_ref = ref, isr_rotated_at = None\<rparr>;
                db2 = save_connection c' (db1\<lparr>integration_secret_refs := integration_secret_refs db1 @ [row]\<rparr>)
            in Inr (secret_audit now c row ''create_secret'' actor_id db2, row))))"

definition remove_secret ::
  "'v infisical \<Rightarrow> datetime \<Rightarrow> integration_connection \<Rightarrow> secret_slot \<Rightarrow> uuid option \<Rightarrow> 'v \<Rightarrow> 'a integration_db_scheme
     \<Rightarrow> 'v \<times> 'a integration_db_scheme result" where
  "remove_secret vc now c slot actor_id v db = (case find_secret_ref (ic_id c) slot db of
     None \<Rightarrow> (v, Inl (NotFoundError []))
   | Some existing \<Rightarrow>
       let (v', r) = delete_secret vc (ic_id c) slot v
       in (v', bindR r (\<lambda>_. let db1 = secret_audit now c existing ''delete_secret'' actor_id db
            in Inr (db1\<lparr>integration_secret_refs := delete_where (\<lambda>x. isr_id x = isr_id existing) (integration_secret_refs db1)\<rparr>))))"

definition list_secret_slots :: "uuid \<Rightarrow> 'a integration_db_scheme \<Rightarrow> integration_secret_ref list" where
  "list_secret_slots cid db = select_all (\<lambda>r. isr_connection_id r = cid) (integration_secret_refs db)"

text \<open>
  Deleting a connection deletes its secrets first, then its rows; \<open>SecretsBackendNotConfigured\<close> (raised
  exactly when no project is configured) is passed over. The commit meets the foreign key of
  \<open>integration_call_log\<close>, whose rows nobody deletes here.
\<close>

fun delete_secrets :: "'v infisical \<Rightarrow> uuid \<Rightarrow> secret_slot list \<Rightarrow> 'v \<Rightarrow> 'v \<times> unit result" where
  "delete_secrets vc cid [] v = (v, Inr ())"
| "delete_secrets vc cid (slot # slots) v =
     (case delete_secret vc cid slot v of
        (v', Inl e) \<Rightarrow> if inf_configured vc then (v', Inl e) else delete_secrets vc cid slots v'
      | (v', Inr _) \<Rightarrow> delete_secrets vc cid slots v')"

definition delete_connection ::
  "'v infisical \<Rightarrow> datetime \<Rightarrow> integration_connection \<Rightarrow> bool \<Rightarrow> uuid option \<Rightarrow> 'v \<Rightarrow> 'a integration_db_scheme
     \<Rightarrow> 'v \<times> 'a integration_db_scheme result" where
  "delete_connection vc now c confirm actor_id v db =
     (if \<not> confirm then (v, Inl (ConflictError []))
      else let (v', r) = delete_secrets vc (ic_id c) (map isr_slot (list_secret_slots (ic_id c) db)) v
           in (v', bindR r (\<lambda>_.
             if select_one (\<lambda>l. cl_connection_id l = ic_id c) (integration_call_logs db) \<noteq> None then Inl IntegrityError
             else Inr ((connection_audit now c ''delete'' actor_id None db)\<lparr>
               integration_secret_refs := delete_where (\<lambda>r. isr_connection_id r = ic_id c) (integration_secret_refs db),
               integration_entitlements := delete_where (\<lambda>e. ie_connection_id e = ic_id c) (integration_entitlements db),
               integration_connections := delete_where (\<lambda>x. ic_id x = ic_id c) (integration_connections db)\<rparr>))))"

section \<open>Entitlements\<close>

definition list_entitlements :: "uuid \<Rightarrow> 'a integration_db_scheme \<Rightarrow> integration_entitlement list" where
  "list_entitlements cid db = select_all (\<lambda>e. ie_connection_id e = cid) (integration_entitlements db)"

definition get_entitlement :: "uuid \<Rightarrow> string \<Rightarrow> 'a integration_db_scheme \<Rightarrow> integration_entitlement option" where
  "get_entitlement cid code db =
     select_one (\<lambda>e. ie_connection_id e = cid \<and> ie_capability_code e = code) (integration_entitlements db)"

definition record_probed_entitlement ::
  "datetime \<Rightarrow> uuid \<Rightarrow> string \<Rightarrow> bool \<Rightarrow> 'a integration_db_scheme \<Rightarrow> 'a integration_db_scheme" where
  "record_probed_entitlement now cid code granted db = (case get_entitlement cid code db of
     Some existing \<Rightarrow> db\<lparr>integration_entitlements := update_where (\<lambda>e. ie_id e = ie_id existing)
       (\<lambda>e. e\<lparr>ie_granted := granted, ie_source := PROBED, ie_checked_at := now\<rparr>) (integration_entitlements db)\<rparr>
   | None \<Rightarrow> let (iid, db1) = draw_uuid db in db1\<lparr>integration_entitlements := integration_entitlements db1 @
       [\<lparr>ie_id = iid, ie_connection_id = cid, ie_capability_code = code, ie_granted = granted, ie_source = PROBED,
         ie_checked_at = now\<rparr>]\<rparr>)"

definition vin_decode_granted :: "uuid \<Rightarrow> 'a integration_db_scheme \<Rightarrow> bool" where
  "vin_decode_granted tenant_id db = (case get_enabled_connection tenant_id ''dat'' db of
     None \<Rightarrow> False | Some c \<Rightarrow> ic_status c = CS_CONNECTED)"

definition compute_vin_decode_entitlement ::
  "datetime \<Rightarrow> uuid \<Rightarrow> 'a integration_db_scheme \<Rightarrow> 'a integration_db_scheme \<times> bool" where
  "compute_vin_decode_entitlement now tenant_id db = (let granted = vin_decode_granted tenant_id db
     in (case get_enabled_connection tenant_id ''auto_i_dat'' db of
           None \<Rightarrow> db | Some c \<Rightarrow> record_probed_entitlement now (ic_id c) ''vin_decode'' granted db, granted))"

definition feature_sheet_line :: "string \<Rightarrow> string" where
  "feature_sheet_line code = (if code = ''valuation'' then ''bewertung'' else code)"

definition tenant_has_capability ::
  "datetime \<Rightarrow> uuid \<Rightarrow> string \<Rightarrow> 'a integration_db_scheme \<Rightarrow> 'a integration_db_scheme \<times> bool" where
  "tenant_has_capability now tenant_id code db =
     (if code = ''vin_decode'' then compute_vin_decode_entitlement now tenant_id db
      else let conns = select_all (\<lambda>c. ic_tenant_id c = Some tenant_id \<and> enabled c) (integration_connections db)
           in (db, conns \<noteq> [] \<and> list_all (\<lambda>c. case get_entitlement (ic_id c) (feature_sheet_line code) db of
                 None \<Rightarrow> True | Some e \<Rightarrow> ie_granted e) conns))"

definition sum_option :: "decimal list \<Rightarrow> decimal option" where
  "sum_option xs = (if xs = [] then None else Some (sum_list xs))"

definition get_usage :: "datetime \<Rightarrow> integration_connection \<Rightarrow> 'a integration_db_scheme \<Rightarrow> nat \<times> decimal option" where
  "get_usage now c db = (let rows = select_all (\<lambda>l. cl_connection_id l = ic_id c \<and> cl_created_at l \<ge> now - 30 * day_us)
       (integration_call_logs db) in (length rows, sum_option (List.map_filter cl_cost_units rows)))"

section \<open>Retention\<close>

definition cutoff_datetime :: "date \<Rightarrow> int \<Rightarrow> datetime" where
  "cutoff_datetime today days = (today - days) * day_us"

text \<open>
  The purge of the call log deletes by age alone; a payload still naming a purged call would stop it
  at the foreign key.
\<close>

definition purge_call_log_metadata :: "date \<Rightarrow> 'a integration_db_scheme \<Rightarrow> ('a integration_db_scheme \<times> nat) result" where
  "purge_call_log_metadata today db =
     (let old = select_all (\<lambda>l. cl_created_at l < cutoff_datetime today 720) (integration_call_logs db)
      in if list_ex (\<lambda>p. list_ex (\<lambda>l. cl_id l = cp_call_log_id p) old) (integration_call_payloads db) then Inl IntegrityError
         else Inr (db\<lparr>integration_call_logs := delete_where (\<lambda>l. cl_created_at l < cutoff_datetime today 720)
           (integration_call_logs db)\<rparr>, length old))"

definition purge_payloads :: "payload_kind \<Rightarrow> int \<Rightarrow> date \<Rightarrow> 'a integration_db_scheme \<Rightarrow> 'a integration_db_scheme \<times> nat" where
  "purge_payloads kind days today db =
     (let expired = (\<lambda>p. cp_kind p = kind \<and> cp_created_at p < cutoff_datetime today days)
      in (db\<lparr>integration_call_payloads := delete_where expired (integration_call_payloads db)\<rparr>,
          length (select_all expired (integration_call_payloads db))))"

definition purge_error_payloads :: "date \<Rightarrow> 'a integration_db_scheme \<Rightarrow> 'a integration_db_scheme \<times> nat" where
  "purge_error_payloads = purge_payloads PAYLOAD_ERROR 30"

definition purge_success_payloads :: "date \<Rightarrow> 'a integration_db_scheme \<Rightarrow> 'a integration_db_scheme \<times> nat" where
  "purge_success_payloads = purge_payloads PAYLOAD_SUCCESS 7"

section \<open>What the registry keeps\<close>

text \<open>The configuration a provider's adapter needs is there: an object with every required key.\<close>

definition config_complete :: "'a integration_db_scheme \<Rightarrow> integration_connection \<Rightarrow> bool" where
  "config_complete db c \<longleftrightarrow> (\<exists>p kvs. get_provider_or_404 (ic_provider_id c) db = Inr p \<and> ic_config c = JObj kvs
     \<and> missing_config_keys p kvs = [])"

lemma get_provider_same:
  "integration_providers db' = integration_providers db \<Longrightarrow> get_provider_or_404 i db' = get_provider_or_404 i db"
  by (simp add: get_provider_or_404_def)

lemma get_provider_id: "get_provider_or_404 i db = Inr p \<Longrightarrow> prov_id p = i"
  by (auto simp: get_provider_or_404_def split: option.splits dest: select_one_SomeD)

lemma create_connection_complete:
  assumes "create_connection now tenant_id data actor_id db = Inr (db', c)"
  shows "config_complete db' c \<and> integration_providers db' = integration_providers db"
proof -
  obtain p where p: "get_provider_or_404 (cc_provider_id data) db = Inr p" "validate_required_config p (cc_config data) = Inr ()"
    and prov: "integration_providers db' = integration_providers db"
    and c: "ic_provider_id c = cc_provider_id data" "ic_config c = JObj (cc_config data)"
    using assms by (auto simp: create_connection_def bindR_Inr_iff Let_def draw_uuid_def connection_audit_def record_audit_event_def
        new_connection_def split: if_splits connection_scope.splits)
  show ?thesis using p c prov get_provider_same [OF prov] by (auto simp: config_complete_def validate_required_config_def Let_def)
qed

text \<open>
  C27: a connection is created with every configuration field its provider requires, and an update of
  a complete connection leaves it complete exactly when the request does not send an explicit null for
  the configuration, which passes the check and is stored.
\<close>

theorem config_complete_unless_nulled:
  shows "(create_connection now tenant_id data actor_id db = Inr (db1, c1) \<longrightarrow> config_complete db1 c1)
    \<and> (config_complete db c \<longrightarrow> update_connection c upd actor_id db = Inr (db2, c2)
        \<longrightarrow> (config_complete db2 c2 \<longleftrightarrow> cu_config upd \<noteq> Some None))"
proof -
  have "config_complete db2 c2 \<longleftrightarrow> cu_config upd \<noteq> Some None"
    if ok: "config_complete db c" and u: "update_connection c upd actor_id db = Inr (db2, c2)"
  proof -
    obtain n where c2: "c2 = updated_connection upd actor_id n c" and db2: "integration_providers db2 = integration_providers db"
      using u by (auto simp: update_connection_def bindR_Inr_iff Let_def save_connection_def split: option.splits)
    have v: "validate_required_config p cfg = Inr ()"
      if "cu_config upd = Some (Some cfg)" "get_provider_or_404 (ic_provider_id c) db = Inr p" for cfg p
      using u that by (auto simp: update_connection_def bindR_Inr_iff)
    show ?thesis using ok v c2 get_provider_same [OF db2]
      by (auto simp: config_complete_def updated_connection_def validate_required_config_def Let_def json_opt_def split: option.splits)
  qed
  then show ?thesis using create_connection_complete by blast
qed

text \<open>The secrets of a connection, deleted one after the other.\<close>

lemma delete_secrets_configured:
  assumes "inf_configured vc" "\<And>slot v. \<exists>v'. inf_delete vc (secret_path cid) (slot_text slot) v = (v', Inr ())"
  shows "delete_secrets vc cid slots v = (fold (\<lambda>slot v. fst (inf_delete vc (secret_path cid) (slot_text slot) v)) slots v, Inr ())"
proof (induction slots arbitrary: v)
  case (Cons slot slots)
  obtain v' where "inf_delete vc (secret_path cid) (slot_text slot) v = (v', Inr ())" using assms(2) by blast
  then show ?case using Cons assms(1) by (simp add: delete_secret_def with_backend_def)
qed simp

text \<open>
  C28: a connection that has ever called its provider cannot be deleted, and the attempt destroys its
  secrets. Its call-log rows keep the foreign key, so the commit fails with a server error and the
  database stays as it was, while every secret of the connection has already been deleted in the store.
\<close>

theorem delete_used_connection_loses_secrets:
  assumes "inf_configured vc" "\<And>slot v. \<exists>v'. inf_delete vc (secret_path (ic_id c)) (slot_text slot) v = (v', Inr ())"
    "l \<in> set (integration_call_logs db)" "cl_connection_id l = ic_id c"
  shows "delete_connection vc now c True actor_id v db
    = (fold (\<lambda>slot v. fst (inf_delete vc (secret_path (ic_id c)) (slot_text slot) v))
        (map isr_slot (list_secret_slots (ic_id c) db)) v, Inl IntegrityError)
    \<and> status_code IntegrityError = 500"
proof -
  have "select_one (\<lambda>l. cl_connection_id l = ic_id c) (integration_call_logs db) \<noteq> None"
    using assms(3,4) unfolding select_one_None_iff by blast
  then show ?thesis unfolding delete_connection_def delete_secrets_configured [OF assms(1,2)] by simp
qed

text \<open>A store that maps paths to values, and a connection with a password and one logged call.\<close>

definition example_vault :: "(string \<times> string) list infisical" where
  "example_vault = \<lparr>inf_configured = True, inf_create = (\<lambda>p n s v. (AList.update (p @ n) s v, Inr ())),
     inf_update = (\<lambda>p n s v. (AList.update (p @ n) s v, Inr ())), inf_delete = (\<lambda>p n v. (AList.delete (p @ n) v, Inr ()))\<rparr>"

definition example_provider :: integration_provider where
  "example_provider = \<lparr>prov_id = 1, provider_code = ''auto_i_dat'', category = ''vehicle_data'',
     prov_display_name = ''auto-i-dat'', auth_type = ''basic'', required_secret_slots = [''password''],
     required_config_keys = [''wsdlUrl''], capability_codes = [], docs_url = None, supports_sandbox = True, prov_version = 1\<rparr>"

definition example_create :: connection_create where
  "example_create = \<lparr>cc_provider_id = 1, cc_display_name = ''data'', cc_environment = PRODUCTION,
     cc_config = [(''wsdlUrl'', JStr ''x'')], cc_scope = SCOPE_TENANT\<rparr>"

definition example_connection :: integration_connection where
  "example_connection = new_connection 2 (Some 3) example_create None"

definition example_integration_db :: "sales_db \<Rightarrow> integration_db" where
  "example_integration_db db = sales_db.extend db (integration_db.fields [example_provider] [example_connection] [] [] [] [] [])"

lemma example_integration_simps [simp]:
  "circuits (example_integration_db db) = []" "integration_call_logs (example_integration_db db) = []"
  "integration_connections (example_integration_db db) = [example_connection]"
  "integration_providers (example_integration_db db) = [example_provider]"
  "integration_secret_refs (example_integration_db db) = []" "integration_entitlements (example_integration_db db) = []"
  by (cases db, simp add: example_integration_db_def sales_db.defs integration_db.defs)+

theorem delete_used_connection_loses_secrets_witness:
  "\<forall>db. delete_connection example_vault 0 example_connection True None [(secret_ref_for 2 PASSWORD, ''hunter2'')]
     ((example_integration_db db)\<lparr>
       integration_secret_refs := [\<lparr>isr_id = 5, isr_connection_id = 2, isr_slot = PASSWORD,
         isr_secret_ref = secret_ref_for 2 PASSWORD, isr_rotated_at = None\<rparr>],
       integration_call_logs := [\<lparr>cl_id = 6, cl_connection_id = 2, cl_tenant_id = Some 3, cl_capability = ''vehicle_data'',
         cl_status = CALL_SUCCESS, cl_duration_ms = 10, cl_cost_units = None, cl_correlation_id = 7, cl_created_at = 0\<rparr>]\<rparr>)
   = ([], Inl IntegrityError)"
proof
  fix db :: sales_db
  let ?l = "\<lparr>cl_id = 6, cl_connection_id = 2, cl_tenant_id = Some 3, cl_capability = ''vehicle_data'',
         cl_status = CALL_SUCCESS, cl_duration_ms = 10, cl_cost_units = None, cl_correlation_id = 7, cl_created_at = 0\<rparr>"
  let ?db = "(example_integration_db db)\<lparr>
       integration_secret_refs := [\<lparr>isr_id = 5, isr_connection_id = 2, isr_slot = PASSWORD,
         isr_secret_ref = secret_ref_for 2 PASSWORD, isr_rotated_at = None\<rparr>],
       integration_call_logs := [?l]\<rparr>"
  have id: "ic_id example_connection = 2" by (simp add: example_connection_def new_connection_def)
  show "delete_connection example_vault 0 example_connection True None [(secret_ref_for 2 PASSWORD, ''hunter2'')] ?db
      = ([], Inl IntegrityError)"
    using delete_used_connection_loses_secrets [of example_vault example_connection ?l ?db 0 None
      "[(secret_ref_for 2 PASSWORD, ''hunter2'')]"] id
    by (simp add: example_vault_def list_secret_slots_def secret_ref_for_def)
qed

theorem config_complete_unless_nulled_witness:
  "\<forall>db. \<exists>db2 c2. update_connection example_connection \<lparr>cu_display_name = None, cu_config = Some None, cu_expires_at = None\<rparr>
      None (example_integration_db db) = Inr (db2, c2)
    \<and> config_complete (example_integration_db db) example_connection \<and> \<not> config_complete db2 c2"
proof
  fix db :: sales_db
  let ?u = "\<lparr>cu_display_name = None, cu_config = Some None, cu_expires_at = None\<rparr>"
  have ok: "config_complete (example_integration_db db) example_connection"
    by (simp add: config_complete_def get_provider_or_404_def example_connection_def new_connection_def example_create_def
        example_provider_def missing_config_keys_def dict_get_def)
  obtain db2 c2 where u: "update_connection example_connection ?u None (example_integration_db db) = Inr (db2, c2)"
    by (simp add: update_connection_def Let_def)
  then show "\<exists>db2 c2. update_connection example_connection ?u None (example_integration_db db) = Inr (db2, c2)
      \<and> config_complete (example_integration_db db) example_connection \<and> \<not> config_complete db2 c2"
    using config_complete_unless_nulled [of 0 None example_create None "example_integration_db db" _ _ example_connection ?u db2 c2] ok
    by auto
qed

end
