(* ===== verification/Integration_Gateway.thy ===== *)
theory Integration_Gateway
  imports Integration_Connections
begin

text \<open>
  The provider gateway (\<^verbatim>\<open>app/integration/services/gateway.py\<close>, \<^verbatim>\<open>resilience.py\<close>,
  \<^verbatim>\<open>entitlement_probes.py\<close>): the per-connection circuit breaker, adapter resolution, the one
  accounted call with its log row, and the dealer's connection test with its entitlement probe.

  \<open>clock\<close> arguments are readings of the monotonic clock in microseconds. An adapter is whatever the
  provider's factory builds (a parameter, since building one may reach the provider); the caller's
  block is a function of the adapter and of the world outside, which it may change, that answers or
  raises. What the block writes on the caller's own session is the caller's affair and is not part of
  the gateway's state.
\<close>

section \<open>Circuit breaker\<close>

definition failure_threshold :: nat where "failure_threshold = 5"
definition open_duration :: int where "open_duration = 60 * second_us"

definition new_circuit :: circuit_state where
  "new_circuit = \<lparr>failure_count = 0, opened_at = None\<rparr>"

definition circuit_for :: "uuid \<Rightarrow> 'a integration_db_scheme \<Rightarrow> circuit_state" where
  "circuit_for cid db = (case map_of (circuits db) cid of None \<Rightarrow> new_circuit | Some s \<Rightarrow> s)"

definition put_circuit :: "uuid \<Rightarrow> circuit_state \<Rightarrow> 'a integration_db_scheme \<Rightarrow> 'a integration_db_scheme" where
  "put_circuit cid s db = db\<lparr>circuits := AList.update cid s (circuits db)\<rparr>"

text \<open>An open circuit past its minute is closed again by the check that finds it so.\<close>

definition is_circuit_open :: "int \<Rightarrow> uuid \<Rightarrow> 'a integration_db_scheme \<Rightarrow> 'a integration_db_scheme \<times> bool" where
  "is_circuit_open clock cid db = (case opened_at (circuit_for cid db) of
     None \<Rightarrow> (put_circuit cid (circuit_for cid db) db, False)
   | Some t \<Rightarrow> if clock - t \<ge> open_duration then (put_circuit cid new_circuit db, False)
       else (put_circuit cid (circuit_for cid db) db, True))"

definition record_success :: "uuid \<Rightarrow> 'a integration_db_scheme \<Rightarrow> 'a integration_db_scheme" where
  "record_success cid db = put_circuit cid new_circuit db"

definition failed_once_more :: "int \<Rightarrow> circuit_state \<Rightarrow> circuit_state" where
  "failed_once_more clock s = (let n = failure_count s + 1
     in s\<lparr>failure_count := n,
          opened_at := (if n \<ge> failure_threshold \<and> opened_at s = None then Some clock else opened_at s)\<rparr>)"

definition record_failure :: "int \<Rightarrow> uuid \<Rightarrow> 'a integration_db_scheme \<Rightarrow> 'a integration_db_scheme" where
  "record_failure clock cid db = put_circuit cid (failed_once_more clock (circuit_for cid db)) db"

text \<open>
  \<open>call_with_retry\<close>: \<open>fn k\<close> is what the attempt number \<open>k\<close> does; with the outcome, the number of
  attempts made.
\<close>

fun attempt_from :: "(nat \<Rightarrow> 'r result) \<Rightarrow> nat \<Rightarrow> nat \<Rightarrow> 'r result \<times> nat" where
  "attempt_from fn k 0 = (fn k, k + 1)"
| "attempt_from fn k (Suc left) = (case fn k of Inr r \<Rightarrow> (Inr r, k + 1) | Inl _ \<Rightarrow> attempt_from fn (k + 1) left)"

definition call_with_retry :: "(nat \<Rightarrow> 'r result) \<Rightarrow> nat \<Rightarrow> 'r result \<times> nat" where
  "call_with_retry fn max_retries = attempt_from fn 0 max_retries"

section \<open>Calls\<close>

definition adapter_codes :: "string list" where
  "adapter_codes = [''auto_i_dat_mock'', ''auto_i_dat'', ''autoscout24'']"

text \<open>
  Every refusal before the provider is reached. The check of the circuit is the one thing it writes,
  in memory; the second component is the refusal or the code whose factory is to be called.
\<close>

definition adapter_factory ::
  "int \<Rightarrow> integration_connection \<Rightarrow> 'a integration_db_scheme \<Rightarrow> 'a integration_db_scheme \<times> string result" where
  "adapter_factory clock c db =
     (if \<not> enabled c then (db, Inl (ProviderGatewayError (ConnectionDisabled (ic_id c))))
      else let (db1, is_open) = is_circuit_open clock (ic_id c) db
           in (db1, if is_open then Inl (ProviderGatewayError (CircuitOpen (ic_id c)))
                else bindR (get_provider_or_404 (ic_provider_id c) db1) (\<lambda>p.
                  if List.member adapter_codes (provider_code p) then Inr (provider_code p)
                  else Inl (ProviderGatewayError (UnknownProvider (provider_code p))))))"

definition resolve_adapter ::
  "(string \<Rightarrow> integration_connection \<Rightarrow> 'x result) \<Rightarrow> int \<Rightarrow> integration_connection \<Rightarrow> 'a integration_db_scheme
     \<Rightarrow> 'a integration_db_scheme \<times> 'x result" where
  "resolve_adapter build clock c db = (let (db1, code) = adapter_factory clock c db in (db1, bindR code (\<lambda>k. build k c)))"

definition record_call ::
  "datetime \<Rightarrow> integration_connection \<Rightarrow> string \<Rightarrow> call_status \<Rightarrow> int \<Rightarrow> uuid option \<Rightarrow> 'a integration_db_scheme
     \<Rightarrow> 'a integration_db_scheme \<times> integration_call_log" where
  "record_call now c capability status duration_ms correlation db =
     (let (iid, db1) = draw_uuid db;
          (corr, db2) = (case correlation of Some x \<Rightarrow> (x, db1) | None \<Rightarrow> draw_uuid db1);
          l = \<lparr>cl_id = iid, cl_connection_id = ic_id c, cl_tenant_id = ic_tenant_id c, cl_capability = capability,
            cl_status = status, cl_duration_ms = duration_ms, cl_cost_units = None, cl_correlation_id = corr,
            cl_created_at = now\<rparr>
      in (db2\<lparr>integration_call_logs := integration_call_logs db2 @ [l]\<rparr>, l))"

definition capture_call_payload ::
  "datetime \<Rightarrow> integration_call_log \<Rightarrow> payload_kind \<Rightarrow> string option \<Rightarrow> 'a integration_db_scheme \<Rightarrow> 'a integration_db_scheme" where
  "capture_call_payload now l kind captured db = (case captured of
     None \<Rightarrow> db
   | Some text \<Rightarrow> let (iid, db1) = draw_uuid db in db1\<lparr>integration_call_payloads := integration_call_payloads db1 @
       [\<lparr>cp_id = iid, cp_call_log_id = cl_id l, cp_tenant_id = cl_tenant_id l, cp_kind = kind, cp_payload = text,
         cp_created_at = now\<rparr>]\<rparr>)"

definition is_timeout :: "exn \<Rightarrow> bool" where
  "is_timeout e = (case e of ProviderGatewayError (ProviderTimeout _) \<Rightarrow> True | _ \<Rightarrow> False)"

definition is_transport_failure :: "exn \<Rightarrow> bool" where
  "is_transport_failure e = (case e of ProviderGatewayError (ProviderTimeout _) \<Rightarrow> True
     | ProviderGatewayError (ProviderTransport _) \<Rightarrow> True | _ \<Rightarrow> False)"

definition is_gateway_error :: "exn \<Rightarrow> bool" where
  "is_gateway_error e = (case e of ProviderGatewayError _ \<Rightarrow> True | _ \<Rightarrow> False)"

text \<open>What a call reads of its surroundings: the two clocks, the correlation and the captured payload.\<close>

record call_env =
  call_now :: datetime
  call_started :: int
  call_ended :: int
  call_correlation :: "uuid option"
  call_captured :: "string option"

definition duration_ms :: "call_env \<Rightarrow> int" where
  "duration_ms ce = (call_ended ce - call_started ce) div 1000"

definition record_failed_call ::
  "call_env \<Rightarrow> integration_connection \<Rightarrow> string \<Rightarrow> exn \<Rightarrow> string option \<Rightarrow> 'a integration_db_scheme \<Rightarrow> 'a integration_db_scheme" where
  "record_failed_call ce c capability e captured db =
     (let (db1, l) = record_call (call_now ce) c capability (if is_timeout e then CALL_TIMEOUT else CALL_ERROR)
            (duration_ms ce) (call_correlation ce) (record_failure (call_ended ce) (ic_id c) db)
      in capture_call_payload (call_now ce) l PAYLOAD_ERROR captured db1)"

definition record_completed_call ::
  "call_env \<Rightarrow> integration_connection \<Rightarrow> string \<Rightarrow> 'a integration_db_scheme \<Rightarrow> 'a integration_db_scheme" where
  "record_completed_call ce c capability db =
     (let (db1, l) = record_call (call_now ce) c capability CALL_SUCCESS (duration_ms ce) (call_correlation ce)
            (record_success (ic_id c) db)
      in capture_call_payload (call_now ce) l PAYLOAD_SUCCESS (call_captured ce) db1)"

definition call_capability ::
  "(string \<Rightarrow> integration_connection \<Rightarrow> 'x result) \<Rightarrow> call_env \<Rightarrow> integration_connection \<Rightarrow> string
     \<Rightarrow> ('x \<Rightarrow> 'w \<Rightarrow> 'w \<times> 'r result) \<Rightarrow> 'w \<Rightarrow> 'a integration_db_scheme \<Rightarrow> 'w \<times> 'a integration_db_scheme \<times> 'r result" where
  "call_capability build ce c capability block w db =
     (case adapter_factory (call_started ce) c db of
        (db1, Inl e) \<Rightarrow> (w, db1, Inl e)
      | (db1, Inr code) \<Rightarrow> (case build code c of
          Inl e \<Rightarrow> (w, if is_transport_failure e then record_failed_call ce c capability e None db1 else db1, Inl e)
        | Inr adapter \<Rightarrow> (case block adapter w of
            (w', Inl e) \<Rightarrow> (w', record_failed_call ce c capability e (call_captured ce) db1, Inl e)
          | (w', Inr r) \<Rightarrow> (w', record_completed_call ce c capability db1, Inr r))))"

section \<open>Connection test\<close>

definition probes_for :: "string \<Rightarrow> string list" where
  "probes_for code = (if List.member [''auto_i_dat'', ''auto_i_dat_mock''] code then [''fahrzeuge''] else [])"

text \<open>\<open>run_probe\<close>: an answer grants, a rejection refuses, anything else propagates.\<close>

definition run_probe :: "'r result \<Rightarrow> bool result" where
  "run_probe answer = (case answer of Inr _ \<Rightarrow> Inr True
     | Inl (ProviderGatewayError (ProviderRejected _)) \<Rightarrow> Inr False | Inl e \<Rightarrow> Inl e)"

text \<open>
  \<open>list_kinds\<close> and \<open>watermark\<close> are the adapter's two calls. A probe that raises leaves the entitlement
  as it was.
\<close>

fun probe_entitlements ::
  "(string \<Rightarrow> integration_connection \<Rightarrow> 'x result) \<Rightarrow> (string \<Rightarrow> call_env) \<Rightarrow> ('x \<Rightarrow> 'r result) \<Rightarrow> integration_connection
     \<Rightarrow> string list \<Rightarrow> 'a integration_db_scheme \<Rightarrow> 'a integration_db_scheme" where
  "probe_entitlements build env list_kinds c [] db = db"
| "probe_entitlements build env list_kinds c (code # codes) db =
     (case call_capability build (env code) c code (\<lambda>x w. (w, run_probe (list_kinds x))) () db of
        (_, db1, Inl e) \<Rightarrow> probe_entitlements build env list_kinds c codes db1
      | (_, db1, Inr granted) \<Rightarrow> probe_entitlements build env list_kinds c codes
          (record_probed_entitlement (call_now (env code)) (ic_id c) code granted db1))"

definition test_connection ::
  "(string \<Rightarrow> integration_connection \<Rightarrow> 'x result) \<Rightarrow> (exn \<Rightarrow> string) \<Rightarrow> (string \<Rightarrow> call_env) \<Rightarrow> ('x \<Rightarrow> 's result) \<Rightarrow> ('x \<Rightarrow> 'r result)
     \<Rightarrow> integration_connection \<Rightarrow> 'a integration_db_scheme \<Rightarrow> 'a integration_db_scheme \<times> integration_connection result" where
  "test_connection build error_text env watermark list_kinds c db =
     (case get_provider_or_404 (ic_provider_id c) db of
        Inl e \<Rightarrow> (db, Inl e)
      | Inr provider \<Rightarrow>
        if category provider = ''marketplace'' then (db, Inl (ConflictError []))
        else (case call_capability build (env ''system_watermark'') c ''system_watermark'' (\<lambda>x w. (w, watermark x)) () db of
            (_, db1, Inl e) \<Rightarrow>
              if is_gateway_error e then
                let c' = c\<lparr>ic_status := CS_ERROR, ic_last_error := Some (error_text e)\<rparr> in (save_connection c' db1, Inr c')
              else (db1, Inl e)
          | (_, db1, Inr _) \<Rightarrow>
              let c' = c\<lparr>ic_status := CS_CONNECTED, last_verified_at := Some (call_now (env ''system_watermark'')),
                    ic_last_error := None\<rparr>
              in (probe_entitlements build env list_kinds c' (probes_for (provider_code provider)) (save_connection c' db1),
                  Inr c')))"

section \<open>The breaker's bound\<close>

text \<open>
  One connection's calls in turn: each begins after the one before has ended. The provider is down when
  every call that reaches it fails, in the adapter's construction or in the caller's block.
\<close>

type_synonym ('x, 'w, 'r) provider_call = "call_env \<times> ('x \<Rightarrow> 'w \<Rightarrow> 'w \<times> 'r result)"

fun in_turn :: "int \<Rightarrow> ('x, 'w, 'r) provider_call list \<Rightarrow> bool" where
  "in_turn t [] = True"
| "in_turn t ((ce, _) # rest) = (t \<le> call_started ce \<and> call_started ce \<le> call_ended ce \<and> in_turn (call_ended ce) rest)"

definition provider_down ::
  "(string \<Rightarrow> integration_connection \<Rightarrow> 'x result) \<Rightarrow> integration_connection \<Rightarrow> ('x, 'w, 'r) provider_call list \<Rightarrow> bool" where
  "provider_down build c cs \<longleftrightarrow> (\<forall>(ce, block) \<in> set cs. \<forall>code. case build code c of
     Inl e \<Rightarrow> is_transport_failure e | Inr x \<Rightarrow> \<forall>w. \<not> is_ok (snd (block x w)))"

fun make_calls ::
  "(string \<Rightarrow> integration_connection \<Rightarrow> 'x result) \<Rightarrow> integration_connection \<Rightarrow> string \<Rightarrow> ('x, 'w, 'r) provider_call list
     \<Rightarrow> 'w \<Rightarrow> 'a integration_db_scheme \<Rightarrow> 'a integration_db_scheme" where
  "make_calls build c capability [] w db = db"
| "make_calls build c capability ((ce, block) # rest) w db =
     (let (w', db', _) = call_capability build ce c capability block w db in make_calls build c capability rest w' db')"

definition circuit_ok :: "circuit_state \<Rightarrow> bool" where
  "circuit_ok s \<longleftrightarrow> (opened_at s = None \<longrightarrow> failure_count s < failure_threshold)"

text \<open>What the circuit still lets through up to the instant \<open>S\<close>, from the instant \<open>t\<close> on.\<close>

definition windows :: "int \<Rightarrow> int \<Rightarrow> int" where
  "windows S t = 5 * max 0 ((S - t) div open_duration)"

definition allowance :: "int \<Rightarrow> int \<Rightarrow> circuit_state \<Rightarrow> int" where
  "allowance S t s = (case opened_at s of None \<Rightarrow> 5 - int (failure_count s) + windows S t | Some o' \<Rightarrow> windows S (max o' (t - open_duration)))"

lemma open_duration_pos: "0 < open_duration"
  by (simp add: open_duration_def time_units)

lemma windows_mono: "t \<le> t' \<Longrightarrow> windows S t' \<le> windows S t"
proof -
  assume "t \<le> t'"
  then have "(S - t') div open_duration \<le> (S - t) div open_duration"
    by (intro zdiv_mono1) (auto simp: open_duration_def time_units)
  then show ?thesis by (simp add: windows_def)
qed

lemma windows_next: "o' + open_duration \<le> t \<Longrightarrow> t \<le> S \<Longrightarrow> windows S t + 5 \<le> windows S o'"
proof -
  assume a: "o' + open_duration \<le> t" "t \<le> S"
  have pos: "open_duration > 0" by (simp add: open_duration_def time_units)
  have "(S - t + open_duration) div open_duration \<le> (S - o') div open_duration"
    using a pos by (intro zdiv_mono1) auto
  moreover have "(S - t + open_duration) div open_duration = (S - t) div open_duration + 1" using pos by simp
  moreover have "0 \<le> (S - t) div open_duration" using a pos by (simp add: pos_imp_zdiv_nonneg_iff)
  ultimately show ?thesis by (simp add: windows_def)
qed

lemma allowance_check:
  assumes "is_circuit_open clock cid db = (db1, False)" "t \<le> clock" "clock \<le> S" "circuit_ok (circuit_for cid db)"
  shows "opened_at (circuit_for cid db1) = None \<and> circuit_ok (circuit_for cid db1)
    \<and> allowance S clock (circuit_for cid db1) \<le> allowance S t (circuit_for cid db)"
proof (cases "opened_at (circuit_for cid db)")
  case None
  then have "circuit_for cid db1 = circuit_for cid db"
    using assms(1) by (auto simp: is_circuit_open_def put_circuit_def circuit_for_def update_conv)
  then show ?thesis using None assms windows_mono [of t clock S] by (simp add: allowance_def)
next
  case (Some o')
  then have c: "clock - o' \<ge> open_duration" and n: "circuit_for cid db1 = new_circuit"
    using assms(1) by (auto simp: is_circuit_open_def put_circuit_def circuit_for_def update_conv split: if_splits)
  have "max o' (t - open_duration) + open_duration \<le> clock" using c assms(2) by (simp add: max_def)
  then show ?thesis using windows_next [of "max o' (t - open_duration)" clock S] assms(3) Some
    by (simp add: n new_circuit_def allowance_def circuit_ok_def failure_threshold_def)
qed

lemma allowance_failure:
  assumes "opened_at s = None" "circuit_ok s" "t \<le> e"
  shows "circuit_ok (failed_once_more e s)" "allowance S e (failed_once_more e s) + 1 \<le> allowance S t s"
  using assms windows_mono [of t e S] max_absorb1 [of "e - open_duration" e] open_duration_pos
  by (auto simp: failed_once_more_def circuit_ok_def allowance_def failure_threshold_def Let_def)

lemma allowance_nonneg: "circuit_ok s \<Longrightarrow> 0 \<le> allowance S t s"
  by (auto simp: allowance_def circuit_ok_def failure_threshold_def windows_def split: option.split)

lemma failed_call_effect:
  "length (integration_call_logs (record_failed_call ce c capability e cap db)) = length (integration_call_logs db) + 1"
  "circuit_for (ic_id c) (record_failed_call ce c capability e cap db)
    = failed_once_more (call_ended ce) (circuit_for (ic_id c) db)"
  by (auto simp: record_failed_call_def record_call_def capture_call_payload_def draw_uuid_def Let_def record_failure_def
      put_circuit_def circuit_for_def update_conv split: option.split prod.split)

lemma refused_check:
  assumes "is_circuit_open clock cid db = (db1, True)"
  shows "circuit_for cid db1 = circuit_for cid db" "integration_call_logs db1 = integration_call_logs db"
  using assms by (auto simp: is_circuit_open_def put_circuit_def circuit_for_def update_conv split: option.splits if_splits)

lemma down_call:
  assumes down: "\<And>code. case build code c of Inl e \<Rightarrow> is_transport_failure e | Inr x \<Rightarrow> \<forall>w. \<not> is_ok (snd (block x w))"
    and t: "t \<le> call_started ce" "call_started ce \<le> S" "call_started ce \<le> call_ended ce"
    and ok: "circuit_ok (circuit_for (ic_id c) db)"
    and db': "call_capability build ce c capability block w db = (w', db', r)"
  shows "circuit_ok (circuit_for (ic_id c) db') \<and>
    int (length (integration_call_logs db')) + allowance S (call_ended ce) (circuit_for (ic_id c) db')
      \<le> int (length (integration_call_logs db)) + allowance S t (circuit_for (ic_id c) db)"
proof -
  let ?C = "circuit_for (ic_id c)"
  obtain db1 op where chk: "is_circuit_open (call_started ce) (ic_id c) db = (db1, op)" by (metis surj_pair)
  have logs1: "integration_call_logs db1 = integration_call_logs db"
    using chk by (auto simp: is_circuit_open_def put_circuit_def split: option.splits if_splits)
  have later: "allowance S (call_ended ce) s \<le> allowance S u s" if "u \<le> call_ended ce" for s u
    using windows_mono [OF that, of S] that by (auto simp: allowance_def intro: windows_mono split: option.split)
  consider "\<not> enabled c" "db' = db" | "op" "db' = db1" | "\<not> op" "db' = db1"
    | e cap where "\<not> op" "db' = record_failed_call ce c capability e cap db1"
  proof -
    obtain d2 fr where f: "adapter_factory (call_started ce) c db = (d2, fr)" by (metis surj_pair)
    have "db' = d2 \<or> (\<exists>e cap code. fr = Inr code \<and> db' = record_failed_call ce c capability e cap d2)"
      using down [of "projr fr"] db' unfolding call_capability_def f
      by (auto simp: is_ok_def split: sum.splits prod.splits if_splits) (metis snd_conv)
    then show ?thesis using that f chk
      by (auto simp: adapter_factory_def Let_def split: if_splits)
  qed
  then show ?thesis
  proof cases
    case 1
    then show ?thesis using ok later [of t] t by simp
  next
    case 2
    then have "?C db1 = ?C db" using refused_check(1) [of "call_started ce" "ic_id c" db db1] chk by simp
    then show ?thesis using 2 ok later [of t] t logs1 by simp
  next
    case 3
    then show ?thesis using allowance_check [OF _ t(1,2) ok] chk later [of "call_started ce" "?C db1"] t logs1 by fastforce
  next
    case (4 e cap)
    note a = allowance_check [OF _ t(1,2) ok, of db1]
    have b: "opened_at (?C db1) = None" "circuit_ok (?C db1)" "allowance S (call_started ce) (?C db1) \<le> allowance S t (?C db)"
      using a chk 4 by auto
    show ?thesis using allowance_failure(1) [OF b(1,2) t(3)] allowance_failure(2) [OF b(1,2) t(3), of S] b(3) logs1 unfolding 4 failed_call_effect by simp
  qed
qed

lemma down_calls:
  assumes "provider_down build c cs" "in_turn t cs" "\<forall>(ce, _) \<in> set cs. call_started ce \<le> S"
    "circuit_ok (circuit_for (ic_id c) db)"
  shows "int (length (integration_call_logs (make_calls build c capability cs w db)))
    \<le> int (length (integration_call_logs db)) + allowance S t (circuit_for (ic_id c) db)"
  using assms
proof (induction build c capability cs w db arbitrary: t rule: make_calls.induct)
  case (1 build c capability w db)
  then show ?case using allowance_nonneg by simp
next
  case (2 build c capability ce block rest w db)
  obtain w' db' r where r: "call_capability build ce c capability block w db = (w', db', r)" by (metis prod_cases3)
  have "circuit_ok (circuit_for (ic_id c) db') \<and>
      int (length (integration_call_logs db')) + allowance S (call_ended ce) (circuit_for (ic_id c) db')
        \<le> int (length (integration_call_logs db)) + allowance S t (circuit_for (ic_id c) db)"
    using 2(2-5) by (intro down_call [OF _ _ _ _ _ r]) (auto simp: provider_down_def)
  moreover have "provider_down build c rest" using 2(2) by (auto simp: provider_down_def)
  ultimately show ?case using 2(1) [of "(w', db', r)" w' "(db', r)" db' r "call_ended ce"] 2(3,4) r by fastforce
qed


text \<open>
  A connection to the mock provider that is down, called every ten seconds for two minutes: ten of
  the thirteen calls reach it.
\<close>

definition example_calls :: "(unit, unit, unit) provider_call list" where
  "example_calls = map (\<lambda>k. (\<lparr>call_now = 0, call_started = 10 * k * second_us, call_ended = 10 * k * second_us + 1,
     call_correlation = None, call_captured = None\<rparr>, \<lambda>_ w. (w, Inl (ProviderGatewayError (ProviderTransport ''down''))))) [0..12]"


end
