(* ===== verification/Inventory_Publishing.thy ===== *)
theory Inventory_Publishing
  imports Integration_Gateway
begin

text \<open>
  Marketplace publishing (\<^verbatim>\<open>app/inventory/services/publishing.py\<close>), the transmission of the feed
  (\<^verbatim>\<open>marketplace_transmission.py\<close>), the AutoScout24 file (\<^verbatim>\<open>app/integration/adapters/autoscout24.py\<close>)
  and the energy ratings the blocking conditions read (\<^verbatim>\<open>app/vehicle/services/energy_rating.py\<close>).

  The marketplace is an FTP server outside the program. \<open>ftp\<close> is a parameter: from the connection, the
  command's file name, the file and the state of the world it gives the new state and the error text of
  a failed delivery, if it failed. Text is not encoded: the file is its characters.
\<close>

section \<open>Rows\<close>

datatype marketplace_channel = AUTOSCOUT24 | CARMARKET | AUTOLINA
datatype publishing_state = NOT_PUBLISHED | ON_MARKETPLACE
datatype transmission_status = TX_PENDING | TX_TRANSMITTED | TX_FAILED

fun channel_text :: "marketplace_channel \<Rightarrow> string" where
  "channel_text AUTOSCOUT24 = ''autoscout24''"
| "channel_text CARMARKET = ''carmarket''"
| "channel_text AUTOLINA = ''autolina''"

definition marketplace_channel_of :: "json \<Rightarrow> marketplace_channel result" where
  "marketplace_channel_of j = (case select_one (\<lambda>c. j = JStr (channel_text c)) [AUTOSCOUT24, CARMARKET, AUTOLINA] of
     None \<Rightarrow> Inl ValueError | Some c \<Rightarrow> Inr c)"

definition max_additional_media :: nat where "max_additional_media = 15"

record stock_item_media =
  sm_id :: uuid
  sm_tenant_id :: uuid
  sm_stock_item_id :: uuid
  sm_position :: nat
  sm_url :: string
  sm_created_at :: datetime

record stock_item_publishing =
  sp_id :: uuid
  sp_tenant_id :: uuid
  sp_stock_item_id :: uuid
  sp_channel :: marketplace_channel
  sp_state :: publishing_state
  zusatztitel :: "string option"
  bemerkungen :: "string option"
  zustandsbeschreibung :: "string option"
  haendlerbemerkungen :: "string option"
  youtube_url :: "string option"
  pdf_document_ref :: "string option"
  last_published_at :: "datetime option"
  transmission_status :: transmission_status
  last_transmission_error :: "string option"
  last_attempted_at :: "datetime option"
  sp_version :: nat
  sp_updated_by :: "uuid option"

record energy_rating =
  er_id :: uuid
  er_model_variant_id :: uuid
  rating_year :: int
  energy_efficiency_category :: "string option"
  emission_standard :: "string option"
  consumption_norm :: "string option"
  er_source :: string

record dms_db = integration_db +
  stock_item_medias :: "stock_item_media list"
  stock_item_publishings :: "stock_item_publishing list"
  energy_ratings :: "energy_rating list"

section \<open>Energy ratings\<close>

definition get_energy_rating_for_year :: "uuid \<Rightarrow> int \<Rightarrow> 'a dms_db_scheme \<Rightarrow> energy_rating option" where
  "get_energy_rating_for_year vid y db =
     select_one (\<lambda>r. er_model_variant_id r = vid \<and> rating_year r = y) (energy_ratings db)"

definition upsert_energy_rating ::
  "uuid \<Rightarrow> int \<Rightarrow> string option \<Rightarrow> string option \<Rightarrow> string option \<Rightarrow> 'a dms_db_scheme \<Rightarrow> 'a dms_db_scheme" where
  "upsert_energy_rating vid y cat emission cnorm db = (case get_energy_rating_for_year vid y db of
     Some existing \<Rightarrow> db\<lparr>energy_ratings := update_where (\<lambda>r. er_id r = er_id existing)
       (\<lambda>r. r\<lparr>energy_efficiency_category := cat, emission_standard := emission, consumption_norm := cnorm\<rparr>) (energy_ratings db)\<rparr>
   | None \<Rightarrow> let (iid, db1) = draw_uuid db in db1\<lparr>energy_ratings := energy_ratings db1 @
       [\<lparr>er_id = iid, er_model_variant_id = vid, rating_year = y, energy_efficiency_category = cat, emission_standard = emission,
         consumption_norm = cnorm, er_source = ''bfe''\<rparr>]\<rparr>)"

definition has_current_energy_rating :: "uuid \<Rightarrow> 'a dms_db_scheme \<Rightarrow> bool result" where
  "has_current_energy_rating vid db = bindR (get_vehicle_mdm_or_404 vid db) (\<lambda>v. Inr (case catalogue_variant_id v of
     None \<Rightarrow> False
   | Some variant \<Rightarrow> select_one (\<lambda>r. er_model_variant_id r = variant) (energy_ratings db) \<noteq> None))"

section \<open>Blocking conditions\<close>

text \<open>The marketplace's field and the German message.\<close>

type_synonym blocking_condition = "string \<times> string"

definition is_blank :: "string option \<Rightarrow> bool" where
  "is_blank s \<longleftrightarrow> s = None \<or> s = Some []"

definition condition_if :: "bool \<Rightarrow> string \<Rightarrow> string \<Rightarrow> blocking_condition list" where
  "condition_if b f m = (if b then [(f, m)] else [])"

definition needs_energy_label :: "stock_item \<Rightarrow> 'a dms_db_scheme \<Rightarrow> bool result" where
  "needs_energy_label item db = (case (condition item, odometer_km item, si_vehicle_id item) of
     (NEW, Some km, Some vid) \<Rightarrow> if km < 2000 then bindR (has_current_energy_rating vid db) (\<lambda>rated. Inr (\<not> rated)) else Inr False
   | _ \<Rightarrow> Inr False)"

definition compute_blocking_conditions :: "stock_item \<Rightarrow> 'a dms_db_scheme \<Rightarrow> blocking_condition list result" where
  "compute_blocking_conditions item db =
     bindR (needs_energy_label item db) (\<lambda>label_missing. Inr (
       condition_if (lifecycle_status item = PIPELINE) ''Lagerstatus'' ''Eine Werksbestellung steht noch nicht am Lager.''
       @ condition_if (select_one (\<lambda>m. sm_stock_item_id m = si_id item) (stock_item_medias db) = None) ''Bilder''
           ''Keine eigenen Fotografien vorhanden.''
       @ condition_if (effective_price item = None) ''Preis'' ''Kein Effektivpreis hinterlegt.''
       @ condition_if (is_blank (exterior_colour item)) ''Aussenfarbe'' ''Keine Farbe hinterlegt.''
       @ condition_if (is_blank (body_style item)) ''Aufbau'' ''Keine Karosserieform hinterlegt.''
       @ condition_if (odometer_km item = None) ''Kilometer'' ''Kein Kilometerstand hinterlegt.''
       @ condition_if (condition item \<noteq> NEW \<and> si_first_registration_date item = None) ''InvSetzJahr''
           ''Keine Erstzulassung hinterlegt.''
       @ condition_if label_missing ''Energieetikette''
           (''Energieetikette fehlt f'' @ [CHR 0xFC] @ ''r Neuwagen unter 2000 km.'')))"

section \<open>Publishing\<close>

definition save_publishing :: "stock_item_publishing \<Rightarrow> 'a dms_db_scheme \<Rightarrow> 'a dms_db_scheme" where
  "save_publishing row db = db\<lparr>stock_item_publishings :=
     update_where (\<lambda>r. sp_id r = sp_id row) (\<lambda>_. row) (stock_item_publishings db)\<rparr>"

definition get_or_create_publishing ::
  "stock_item \<Rightarrow> marketplace_channel \<Rightarrow> 'a dms_db_scheme \<Rightarrow> 'a dms_db_scheme \<times> stock_item_publishing" where
  "get_or_create_publishing item channel db =
     (case select_one (\<lambda>r. sp_stock_item_id r = si_id item \<and> sp_channel r = channel) (stock_item_publishings db) of
        Some existing \<Rightarrow> (db, existing)
      | None \<Rightarrow> let (iid, db1) = draw_uuid db;
            row = \<lparr>sp_id = iid, sp_tenant_id = si_tenant_id item, sp_stock_item_id = si_id item, sp_channel = channel,
              sp_state = NOT_PUBLISHED, zusatztitel = None, bemerkungen = None, zustandsbeschreibung = None,
              haendlerbemerkungen = None, youtube_url = None, pdf_document_ref = None, last_published_at = None,
              transmission_status = TX_PENDING, last_transmission_error = None, last_attempted_at = None, sp_version = 1,
              sp_updated_by = None\<rparr>
          in (db1\<lparr>stock_item_publishings := stock_item_publishings db1 @ [row]\<rparr>, row))"

text \<open>A PATCH of the listing's texts: a field left out is \<open>None\<close>.\<close>

record listing_text_update =
  lt_zusatztitel :: "string option option"
  lt_bemerkungen :: "string option option"
  lt_zustandsbeschreibung :: "string option option"
  lt_haendlerbemerkungen :: "string option option"
  lt_youtube_url :: "string option option"
  lt_pdf_document_ref :: "string option option"

definition with_listing_text :: "listing_text_update \<Rightarrow> stock_item_publishing \<Rightarrow> stock_item_publishing" where
  "with_listing_text d r = r\<lparr>zusatztitel := set_field (lt_zusatztitel d) (zusatztitel r),
     bemerkungen := set_field (lt_bemerkungen d) (bemerkungen r),
     zustandsbeschreibung := set_field (lt_zustandsbeschreibung d) (zustandsbeschreibung r),
     haendlerbemerkungen := set_field (lt_haendlerbemerkungen d) (haendlerbemerkungen r),
     youtube_url := set_field (lt_youtube_url d) (youtube_url r),
     pdf_document_ref := set_field (lt_pdf_document_ref d) (pdf_document_ref r)\<rparr>"

definition update_listing_text ::
  "stock_item \<Rightarrow> marketplace_channel \<Rightarrow> listing_text_update \<Rightarrow> uuid option \<Rightarrow> 'a dms_db_scheme
     \<Rightarrow> 'a dms_db_scheme \<times> stock_item_publishing" where
  "update_listing_text item channel data actor_id db =
     (let (db1, row) = get_or_create_publishing item channel db;
          row' = (with_listing_text data row)\<lparr>sp_updated_by := actor_id, sp_version := sp_version row + 1\<rparr>
      in (save_publishing row' db1, row'))"

definition conditions_json :: "blocking_condition list \<Rightarrow> json" where
  "conditions_json cs = JList (map (\<lambda>(f, m). JObj [(''field'', JStr f), (''message'', JStr m)]) cs)"

definition publish_item ::
  "datetime \<Rightarrow> stock_item \<Rightarrow> marketplace_channel \<Rightarrow> uuid option \<Rightarrow> 'a dms_db_scheme
     \<Rightarrow> ('a dms_db_scheme \<times> stock_item_publishing) result" where
  "publish_item now item channel actor_id db =
     bindR (compute_blocking_conditions item db) (\<lambda>conditions.
     if conditions \<noteq> [] then Inl (ConflictError [(''blockingConditions'', conditions_json conditions)])
     else let (db1, row) = get_or_create_publishing item channel db;
              row' = row\<lparr>sp_state := ON_MARKETPLACE, last_published_at := Some now, sp_updated_by := actor_id,
                sp_version := sp_version row + 1\<rparr>
          in Inr (publish now (stock_event ''inventory.stock_item.published'' item [(''channel'', JStr (channel_text channel))])
               (save_publishing row' db1), row'))"

definition unpublish_item ::
  "datetime \<Rightarrow> stock_item \<Rightarrow> marketplace_channel \<Rightarrow> bool \<Rightarrow> uuid option \<Rightarrow> 'a dms_db_scheme
     \<Rightarrow> ('a dms_db_scheme \<times> stock_item_publishing) result" where
  "unpublish_item now item channel confirm actor_id db =
     (if \<not> confirm then Inl (BadRequestError [])
      else let (db1, row) = get_or_create_publishing item channel db;
               row' = row\<lparr>sp_state := NOT_PUBLISHED, sp_updated_by := actor_id, sp_version := sp_version row + 1\<rparr>
           in Inr (publish now (stock_event ''inventory.stock_item.unpublished'' item [(''channel'', JStr (channel_text channel))])
                (save_publishing row' db1), row'))"

section \<open>Media\<close>

definition list_media :: "uuid \<Rightarrow> uuid \<Rightarrow> 'a dms_db_scheme \<Rightarrow> stock_item_media list" where
  "list_media tenant_id item_id db = sort_key sm_position
     (select_all (\<lambda>m. sm_tenant_id m = tenant_id \<and> sm_stock_item_id m = item_id) (stock_item_medias db))"

text \<open>
  The unique constraint over item and position is checked statement by statement, and a flush writes
  the changed rows one at a time in the order of their primary keys.
\<close>

definition media_positions_ok :: "stock_item_media list \<Rightarrow> bool" where
  "media_positions_ok ms \<longleftrightarrow> distinct (map (\<lambda>m. (sm_stock_item_id m, sm_position m)) ms)"

definition checked_media :: "stock_item_media list \<Rightarrow> stock_item_media list result" where
  "checked_media ms = (if media_positions_ok ms then Inr ms else Inl IntegrityError)"

fun write_media :: "stock_item_media list \<Rightarrow> stock_item_media list \<Rightarrow> stock_item_media list result" where
  "write_media [] ms = Inr ms"
| "write_media (m # changed) ms = bindR (checked_media (update_where (\<lambda>r. sm_id r = sm_id m) (\<lambda>_. m) ms)) (write_media changed)"

definition flush_media :: "stock_item_media list \<Rightarrow> 'a dms_db_scheme \<Rightarrow> 'a dms_db_scheme result" where
  "flush_media changed db = bindR (write_media (sort_key sm_id changed) (stock_item_medias db))
     (\<lambda>ms. Inr (db\<lparr>stock_item_medias := ms\<rparr>))"

definition add_media ::
  "datetime \<Rightarrow> stock_item \<Rightarrow> string \<Rightarrow> 'a dms_db_scheme \<Rightarrow> ('a dms_db_scheme \<times> stock_item_media) result" where
  "add_media now item url db =
     (let existing = list_media (si_tenant_id item) (si_id item) db
      in if length existing \<ge> 1 + max_additional_media then Inl (ConflictError [(''stockItemId'', JUuid (si_id item))])
         else let (iid, db1) = draw_uuid db;
                  m = \<lparr>sm_id = iid, sm_tenant_id = si_tenant_id item, sm_stock_item_id = si_id item,
                    sm_position = length existing + 1, sm_url = url, sm_created_at = now\<rparr>
              in bindR (checked_media (stock_item_medias db1 @ [m])) (\<lambda>ms. Inr (db1\<lparr>stock_item_medias := ms\<rparr>, m)))"

text \<open>
  Positions given in turn: a dictionary keyed by the row's id, so a repeated id keeps the last position
  it is given.
\<close>

fun place_media :: "nat \<Rightarrow> uuid list \<Rightarrow> stock_item_media list \<Rightarrow> stock_item_media list" where
  "place_media n [] ms = ms"
| "place_media n (i # ids) ms = place_media (n + 1) ids (update_where (\<lambda>m. sm_id m = i) (\<lambda>m. m\<lparr>sm_position := n\<rparr>) ms)"

definition reorder_media ::
  "stock_item \<Rightarrow> uuid list \<Rightarrow> 'a dms_db_scheme \<Rightarrow> ('a dms_db_scheme \<times> stock_item_media list) result" where
  "reorder_media item ids db =
     (let existing = list_media (si_tenant_id item) (si_id item) db
      in if set (map sm_id existing) \<noteq> set ids then Inl (BadRequestError [])
         else let shifted = map (\<lambda>m. m\<lparr>sm_position := sm_position m + 1000\<rparr>) existing
              in bindR (flush_media shifted db) (\<lambda>db1.
                 bindR (flush_media (place_media 1 ids shifted) db1) (\<lambda>db2.
                 Inr (db2, list_media (si_tenant_id item) (si_id item) db2))))"

text \<open>\<open>remove_media\<close> deletes the row, then moves the later ones of the item up.\<close>

definition remove_media :: "stock_item \<Rightarrow> uuid \<Rightarrow> 'a dms_db_scheme \<Rightarrow> 'a dms_db_scheme result" where
  "remove_media item media_id db = (case select_one (\<lambda>m. sm_id m = media_id) (stock_item_medias db) of
     None \<Rightarrow> Inr db
   | Some m \<Rightarrow> if sm_stock_item_id m \<noteq> si_id item then Inr db
       else let db1 = db\<lparr>stock_item_medias := delete_where (\<lambda>r. sm_id r = media_id) (stock_item_medias db)\<rparr>
            in flush_media (map (\<lambda>r. r\<lparr>sm_position := sm_position r - 1\<rparr>)
                 (filter (\<lambda>r. sm_position r > sm_position m) (list_media (si_tenant_id item) (si_id item) db1))) db1)"

section \<open>The AutoScout24 file\<close>

text \<open>
  A listing as the adapter gets it. \<open>ml_price = None\<close> is the literal \<open>Decimal(0)\<close> of an item without
  any price; a stored price has two decimals. \<open>model_year\<close> and \<open>image_urls\<close> are always absent.
\<close>

record marketplace_listing =
  ml_stock_item_id :: string
  ml_make :: string
  ml_model :: string
  ml_body_style :: "string option"
  ml_condition :: string
  ml_exterior_colour :: string
  ml_odometer_km :: "int option"
  ml_price :: "decimal option"
  ml_first_registration_date :: "date option"
  ml_model_year :: "nat option"

text \<open>\<open>text.partition(" ")\<close>: up to the first space, and after it.\<close>

fun partition_space :: "string \<Rightarrow> string \<times> string" where
  "partition_space [] = ([], [])"
| "partition_space (c # cs) = (if c = CHR '' '' then ([], cs) else (let (a, b) = partition_space cs in (c # a, b)))"

definition resolve_price :: "stock_item \<Rightarrow> decimal option" where
  "resolve_price item = (if effective_price item \<noteq> None then effective_price item else si_list_price item)"

definition build_listing :: "stock_item \<Rightarrow> marketplace_listing" where
  "build_listing item = (let (make, model) = partition_space (si_vehicle_label item) in
     \<lparr>ml_stock_item_id = digits_of_nat (si_id item), ml_make = make, ml_model = model, ml_body_style = body_style item,
      ml_condition = condition_text (condition item),
      ml_exterior_colour = (case exterior_colour item of None \<Rightarrow> [] | Some c \<Rightarrow> c), ml_odometer_km = odometer_km item,
      ml_price = resolve_price item, ml_first_registration_date = si_first_registration_date item, ml_model_year = None\<rparr>)"

text \<open>The listing's problem: the marketplace's field and the message.\<close>

type_synonym listing_error = "string \<times> string"

definition fahrzeugart_by_condition :: "(string \<times> string) list" where
  "fahrzeugart_by_condition = [(''new'', ''Neu''), (''used'', ''Occasion''),
     (''demo'', ''Vorf'' @ [CHR 0xFC] @ ''hrmodell''), (''tagesz'', ''Tageszulassung'')]"

definition field_order :: "string list" where
  "field_order = [''Kundennummer'', ''FahrzeugNr'', ''VehicleType'', ''Marke'', ''Typ'', ''Aufbau'', ''Aussenfarbe'',
     ''Fahrzeugart'', ''InvSetzJahr'', ''Kilometer'', ''Preis'', ''Ausstattung'']"

definition sanitise_char :: "char \<Rightarrow> char" where
  "sanitise_char c = (if c = CHR '';'' then CHR '','' else if c = CHR 0x0D \<or> c = CHR 0x0A then CHR '' '' else c)"

definition sanitise :: "string \<Rightarrow> string" where
  "sanitise = map sanitise_char"

text \<open>The proleptic Gregorian date of a day number (day 0 is 1 January 1970): year, month, day.\<close>

definition civil_of_days :: "date \<Rightarrow> int \<times> int \<times> int" where
  "civil_of_days z = (let z' = z + 719468;
       era = z' div 146097;
       doe = z' mod 146097;
       yoe = (doe - doe div 1460 + doe div 36524 - doe div 146096) div 365;
       doy = doe - (365 * yoe + yoe div 4 - yoe div 100);
       mp = (5 * doy + 2) div 153;
       d = doy - (153 * mp + 2) div 5 + 1;
       m = (if mp < 10 then mp + 3 else mp - 9)
     in (yoe + era * 400 + (if m \<le> 2 then 1 else 0), m, d))"

definition padded :: "nat \<Rightarrow> int \<Rightarrow> string" where
  "padded w n = (let d = digits_of_nat (nat n) in replicate (w - length d) (CHR ''0'') @ d)"

definition date_text :: "date \<Rightarrow> string" where
  "date_text z = (let (y, m, d) = civil_of_days z in padded 2 d @ ''.'' @ padded 2 m @ ''.'' @ padded 4 y)"

definition int_text :: "int \<Rightarrow> string" where
  "int_text n = (if n < 0 then ''-'' @ digits_of_nat (nat (- n)) else digits_of_nat (nat n))"

definition price_text :: "decimal option \<Rightarrow> string" where
  "price_text p = (case p of None \<Rightarrow> ''0''
     | Some q \<Rightarrow> let cents = \<lfloor>q * 100\<rfloor>; a = \<bar>cents\<bar>
         in (if cents < 0 then ''-'' else []) @ digits_of_nat (nat (a div 100)) @ ''.'' @ padded 2 (a mod 100))"

definition inv_setz_jahr :: "marketplace_listing \<Rightarrow> string option" where
  "inv_setz_jahr l = (case ml_first_registration_date l of
     Some d \<Rightarrow> Some (date_text d)
   | None \<Rightarrow> if ml_condition l = ''new'' then map_option digits_of_nat (ml_model_year l) else None)"

text \<open>
  The checks in the source's order, then the row's values after the dealer's number in the order of the
  fields. The number is any JSON value of the connection's configuration.
\<close>

definition field_row :: "json \<Rightarrow> marketplace_listing \<Rightarrow> listing_error + string list" where
  "field_row kundennummer l =
     bindR (raise_if (json_falsy kundennummer) (''Kundennummer'', ''Connection has no config.kundennummer set.'')) (\<lambda>_.
     bindR (raise_if (is_blank (ml_body_style l)) (''Aufbau'', ''Aufbau is required.'')) (\<lambda>_.
     bindR (raise_if (ml_exterior_colour l = []) (''Aussenfarbe'', ''Aussenfarbe is required.'')) (\<lambda>_.
     case ml_odometer_km l of None \<Rightarrow> Inl (''Kilometer'', ''Kilometer is required.'')
     | Some km \<Rightarrow> (case map_of fahrzeugart_by_condition (ml_condition l) of
         None \<Rightarrow> Inl (''Fahrzeugart'', ''No AS24i Fahrzeugart mapping for condition '' @ [CHR 0x27] @ ml_condition l @ [CHR 0x27, CHR ''.''])
       | Some art \<Rightarrow> (case inv_setz_jahr l of
           None \<Rightarrow> Inl (''InvSetzJahr'', ''InvSetzJahr is required '' @ em_dash @ '' no first_registration_date and no model_year available.'')
         | Some jahr \<Rightarrow> Inr [ml_stock_item_id l, ''10'', sanitise (ml_make l), sanitise (ml_model l),
             sanitise (case ml_body_style l of Some b \<Rightarrow> b | None \<Rightarrow> []), sanitise (ml_exterior_colour l), art, jahr, int_text km,
             price_text (ml_price l), []])))))"

definition feed_line :: "string list \<Rightarrow> string" where
  "feed_line fs = concat (map (\<lambda>f. f @ '';'') fs)"

fun rows_of :: "json \<Rightarrow> marketplace_listing list \<Rightarrow> listing_error + string list list" where
  "rows_of kundennummer [] = Inr []"
| "rows_of kundennummer (l # ls) = bindR (field_row kundennummer l) (\<lambda>r. bindR (rows_of kundennummer ls) (\<lambda>rs. Inr (r # rs)))"

text \<open>
  \<open>str.join\<close> takes texts only: a dealer's number that is not a text raises \<open>TypeError\<close>, after the rows
  are built; without listings nothing reads it. An invalid listing would raise its own error, which the
  caller's validation has ruled out; the sum's left part keeps the two apart.
\<close>

definition build_feed_file :: "json \<Rightarrow> marketplace_listing list \<Rightarrow> string result" where
  "build_feed_file kundennummer ls = (case rows_of kundennummer ls of
     Inl _ \<Rightarrow> Inl ValueError
   | Inr rows \<Rightarrow> (case kundennummer of
       JStr k \<Rightarrow> Inr (concat (map (\<lambda>r. feed_line r @ [CHR 0x0D, CHR 0x0A]) (field_order # map ((#) k) rows)))
     | _ \<Rightarrow> if rows = [] then Inr (feed_line field_order @ [CHR 0x0D, CHR 0x0A]) else Inl TypeError))"

section \<open>Transmission\<close>

text \<open>\<open>config.get(key, default)\<close>: a stored JSON null has no such method.\<close>

definition config_get :: "string \<Rightarrow> json \<Rightarrow> json \<Rightarrow> json result" where
  "config_get k deflt config = (case config of
     JObj kvs \<Rightarrow> Inr (case map_of kvs k of None \<Rightarrow> deflt | Some j \<Rightarrow> j) | _ \<Rightarrow> Inl AttributeError)"

text \<open>The adapter is the connection it was built for; building it opens nothing.\<close>

definition build_marketplace_adapter :: "string \<Rightarrow> integration_connection \<Rightarrow> integration_connection result" where
  "build_marketplace_adapter code c = (if code = ''autoscout24'' then Inr c else Inl AttributeError)"

definition validate_listing :: "integration_connection \<Rightarrow> marketplace_listing \<Rightarrow> listing_error option result" where
  "validate_listing c l = bindR (config_get ''kundennummer'' (JStr []) (ic_config c)) (\<lambda>k.
     Inr (case field_row k l of Inl err \<Rightarrow> Some err | Inr _ \<Rightarrow> None))"

type_synonym 'w ftp = "integration_connection \<Rightarrow> json \<Rightarrow> string \<Rightarrow> 'w \<Rightarrow> 'w \<times> string option"

text \<open>
  The file is complete before the client is opened; whatever fails after that is a
  \<open>MarketplaceTransmissionError\<close>, a missing host or user name included.
\<close>

definition transmit_feed ::
  "'w ftp \<Rightarrow> marketplace_listing list \<Rightarrow> integration_connection \<Rightarrow> 'w \<Rightarrow> 'w \<times> nat result" where
  "transmit_feed ftp ls c w =
     (case bindR (config_get ''kundennummer'' (JStr []) (ic_config c)) (\<lambda>k.
           bindR (build_feed_file k ls) (\<lambda>file.
           bindR (config_get ''feedFilename'' (JStr ''autoscout24.txt'') (ic_config c)) (\<lambda>name.
           bindR (config_get ''ftpHost'' JNull (ic_config c)) (\<lambda>host.
           bindR (config_get ''ftpUsername'' JNull (ic_config c)) (\<lambda>user. Inr (file, name, host, user)))))) of
        Inl e \<Rightarrow> (w, Inl e)
      | Inr (file, name, host, user) \<Rightarrow>
          if json_falsy host \<or> json_falsy user
          then (w, Inl (MarketplaceTransmissionError (''AutoScout24 FTP transmission failed: Connection '' @ digits_of_nat (ic_id c)
            @ '' has no config.ftpHost/config.ftpUsername set.'')))
          else (case ftp c name file w of
              (w', None) \<Rightarrow> (w', Inr (length ls))
            | (w', Some msg) \<Rightarrow> (w', Inl (MarketplaceTransmissionError (''AutoScout24 FTP transmission failed: '' @ msg)))))"

definition published_rows :: "uuid \<Rightarrow> marketplace_channel \<Rightarrow> 'a dms_db_scheme \<Rightarrow> stock_item_publishing list" where
  "published_rows tenant_id channel db = select_all (\<lambda>r. sp_tenant_id r = tenant_id \<and> sp_channel r = channel
     \<and> sp_state r = ON_MARKETPLACE) (stock_item_publishings db)"

definition mark :: "(uuid \<Rightarrow> string option) \<Rightarrow> transmission_status \<Rightarrow> datetime \<Rightarrow> stock_item_publishing list \<Rightarrow> 'a dms_db_scheme \<Rightarrow> 'a dms_db_scheme" where
  "mark err status now rows db = db\<lparr>stock_item_publishings := update_where (\<lambda>r. sp_id r \<in> set (map sp_id rows))
     (\<lambda>r. r\<lparr>transmission_status := status, last_transmission_error := err (sp_id r), last_attempted_at := Some now\<rparr>)
     (stock_item_publishings db)\<rparr>"

definition listing_failure :: "marketplace_listing \<Rightarrow> listing_error \<Rightarrow> string" where
  "listing_failure l err = (let (f, m) = err in f @ '': '' @ ml_stock_item_id l @ '': '' @ f @ '': '' @ m)"

text \<open>One row: its listing, or why it cannot be sent.\<close>

definition check_row :: "integration_connection \<Rightarrow> stock_item_publishing \<Rightarrow> 'a dms_db_scheme \<Rightarrow> (string + marketplace_listing) result" where
  "check_row c row db = (case select_one (\<lambda>i. si_id i = sp_stock_item_id row) (stock_items db) of
     None \<Rightarrow> Inr (Inl ''Stock item no longer exists.'')
   | Some item \<Rightarrow> bindR (validate_listing c (build_listing item)) (\<lambda>v. Inr (case v of
       None \<Rightarrow> Inr (build_listing item) | Some err \<Rightarrow> Inl (listing_failure (build_listing item) err))))"

fun check_rows ::
  "integration_connection \<Rightarrow> stock_item_publishing list \<Rightarrow> 'a dms_db_scheme
     \<Rightarrow> (marketplace_listing list \<times> (stock_item_publishing \<times> string) list) result" where
  "check_rows c [] db = Inr ([], [])"
| "check_rows c (row # rows) db = bindR (check_row c row db) (\<lambda>v. bindR (check_rows c rows db) (\<lambda>(ls, fs).
     Inr (case v of Inl msg \<Rightarrow> (ls, (row, msg) # fs) | Inr l \<Rightarrow> (l # ls, fs))))"

text \<open>
  What the run reads besides the database: the clock of the validation's circuit check, the call's own
  readings, and \<open>str(exc)\<close>. It ends with a commit on every path but the uncaught ones, which leave what
  the gateway committed.
\<close>

record transmission_env =
  te_now :: datetime
  te_clock :: int
  te_call :: call_env
  te_text :: "exn \<Rightarrow> string"

definition is_transmission_error :: "exn \<Rightarrow> bool" where
  "is_transmission_error e = (case e of MarketplaceTransmissionError _ \<Rightarrow> True | _ \<Rightarrow> is_gateway_error e)"

definition assemble_and_transmit ::
  "'w ftp \<Rightarrow> transmission_env \<Rightarrow> uuid \<Rightarrow> marketplace_channel \<Rightarrow> 'w \<Rightarrow> 'a dms_db_scheme \<Rightarrow> 'w \<times> 'a dms_db_scheme \<times> unit result" where
  "assemble_and_transmit ftp te tenant_id channel w db =
     (let rows = published_rows tenant_id channel db; now = te_now te in
      case get_enabled_connection tenant_id (channel_text channel) db of
        None \<Rightarrow> (w, mark (\<lambda>_. Some (''No '' @ channel_text channel @ '' connection configured for this dealership.''))
          TX_FAILED now rows db, Inr ())
      | Some c \<Rightarrow> (case resolve_adapter build_marketplace_adapter (te_clock te) c db of
          (db1, Inl e) \<Rightarrow> if is_gateway_error e then (w, mark (\<lambda>_. Some (te_text te e)) TX_FAILED now rows db1, Inr ())
            else (w, db1, Inl e)
        | (db1, Inr adapter) \<Rightarrow> (case check_rows adapter rows db1 of
            Inl e \<Rightarrow> (w, db1, Inl e)
          | Inr (listings, failures) \<Rightarrow>
              if failures \<noteq> [] then
                (w, mark (\<lambda>i. map_of (map (\<lambda>(r, m). (sp_id r, m)) failures) i) TX_FAILED now (map fst failures) db1, Inr ())
              else (case call_capability build_marketplace_adapter (te_call te) c ''marketplace_publish''
                  (\<lambda>a. transmit_feed ftp listings a) w db1 of
                (w', db2, Inl e) \<Rightarrow> if is_transmission_error e
                  then (w', mark (\<lambda>_. Some (te_text te e)) TX_FAILED now rows db2, Inl e) else (w', db2, Inl e)
              | (w', db2, Inr _) \<Rightarrow> (w', mark (\<lambda>_. None) TX_TRANSMITTED now rows db2, Inr ())))))"

text \<open>The consumer of both events: only the channel is read from the message.\<close>

definition handle_marketplace_transmission_message ::
  "'w ftp \<Rightarrow> transmission_env \<Rightarrow> outbox_message \<Rightarrow> 'w \<Rightarrow> 'a dms_db_scheme \<Rightarrow> 'w \<times> 'a dms_db_scheme \<times> unit result" where
  "handle_marketplace_transmission_message ftp te message w db =
     (case (msg_tenant_id message, bindR (get_item ''channel'' (msg_payload message)) marketplace_channel_of) of
        (None, _) \<Rightarrow> (w, db, Inl ValueError)
      | (Some _, Inl e) \<Rightarrow> (w, db, Inl e)
      | (Some tenant_id, Inr channel) \<Rightarrow> assemble_and_transmit ftp te tenant_id channel w db)"

section \<open>A truncated feed is never sent\<close>

definition item_of :: "stock_item_publishing \<Rightarrow> 'a dms_db_scheme \<Rightarrow> stock_item option" where
  "item_of row db = select_one (\<lambda>i. si_id i = sp_stock_item_id row) (stock_items db)"

lemma check_row_cases:
  "check_row c row db = Inr (Inr l) \<longleftrightarrow>
     (\<exists>item. item_of row db = Some item \<and> l = build_listing item \<and> validate_listing c (build_listing item) = Inr None)"
  by (auto simp: check_row_def item_of_def bindR_Inr_iff split: option.splits)

lemma check_rows_complete:
  "check_rows c rows db = Inr (ls, []) \<Longrightarrow>
     \<exists>items. list_all2 (\<lambda>row item. item_of row db = Some item) rows items \<and> ls = map build_listing items
       \<and> list_all (\<lambda>i. validate_listing c (build_listing i) = Inr None) items"
proof (induction rows arbitrary: ls)
  case (Cons row rows)
  then obtain v ls' fs' where v: "check_row c row db = Inr v" "check_rows c rows db = Inr (ls', fs')"
    and eq: "(ls, []) = (case v of Inl msg \<Rightarrow> (ls', (row, msg) # fs') | Inr l \<Rightarrow> (l # ls', fs'))"
    by (auto simp: bindR_Inr_iff)
  from eq obtain l where l: "v = Inr l" "ls = l # ls'" "fs' = []" by (cases v) auto
  obtain item where "item_of row db = Some item" "l = build_listing item" "validate_listing c (build_listing item) = Inr None"
    using v(1) l(1) check_row_cases by blast
  moreover obtain items where "list_all2 (\<lambda>row item. item_of row db = Some item) rows items" "ls' = map build_listing items"
    "list_all (\<lambda>i. validate_listing c (build_listing i) = Inr None) items" using Cons.IH [of ls'] v(2) l(3) by blast
  ultimately show ?case using l(2) by (intro exI [of _ "item # items"]) simp
qed simp

lemma check_rows_failures:
  "check_rows c rows db = Inr (ls, fs) \<Longrightarrow> set fs = {(row, msg). row \<in> set rows \<and> check_row c row db = Inr (Inl msg)}"
proof (induction rows arbitrary: ls fs)
  case (Cons row rows)
  then obtain v ls' fs' where v: "check_row c row db = Inr v" "check_rows c rows db = Inr (ls', fs')"
    and eq: "(ls, fs) = (case v of Inl msg \<Rightarrow> (ls', (row, msg) # fs') | Inr l \<Rightarrow> (l # ls', fs'))"
    by (auto simp: bindR_Inr_iff)
  then show ?case using Cons.IH [OF v(2)] by (cases v) auto
qed simp

text \<open>Resolving an adapter changes the breaker's memory alone.\<close>

lemma circuit_check_keeps:
  assumes "is_circuit_open clock cid db = (db1, op)"
  shows "\<exists>cs. db1 = db\<lparr>circuits := cs\<rparr>"
  using assms by (auto simp: is_circuit_open_def put_circuit_def split: option.splits if_splits)

lemma adapter_factory_keeps:
  assumes "adapter_factory clock c db = (db1, r)"
  shows "\<exists>cs. db1 = db\<lparr>circuits := cs\<rparr>"
proof -
  obtain d op where chk: "is_circuit_open clock (ic_id c) db = (d, op)" by (metis surj_pair)
  then obtain cs where "d = db\<lparr>circuits := cs\<rparr>" using circuit_check_keeps by blast
  moreover have "\<exists>cs. db = db\<lparr>circuits := cs\<rparr>" by (rule exI [of _ "circuits db"]) simp
  ultimately show ?thesis using assms chk by (cases "enabled c") (auto simp: adapter_factory_def Let_def)
qed

lemma resolve_adapter_keeps:
  assumes "resolve_adapter build clock c db = (db1, r)"
  shows "\<exists>cs. db1 = db\<lparr>circuits := cs\<rparr>"
  using assms adapter_factory_keeps [of clock c db] by (auto simp: resolve_adapter_def Let_def split: prod.splits)

lemma built_adapter: "resolve_adapter build_marketplace_adapter clock c db = (db1, Inr a) \<Longrightarrow> a = c"
  by (auto simp: resolve_adapter_def bindR_Inr_iff build_marketplace_adapter_def Let_def split: prod.splits if_splits)

lemma transmit_feed_world:
  assumes "transmit_feed ftp ls c w = (w', r)"
  shows "w' = w \<or> (\<exists>k name feed. build_feed_file k ls = Inr feed \<and> w' = fst (ftp c name feed w))"
proof (cases "w' = w")
  case False
  then obtain k name feed where "build_feed_file k ls = Inr feed" "ftp c name feed w = (w', None) \<or> (\<exists>m. ftp c name feed w = (w', Some m))"
    using assms unfolding transmit_feed_def
    by (auto simp: bindR_Inr_iff split: sum.splits prod.splits if_splits option.splits)
  then show ?thesis by (metis fst_conv)
qed simp

lemma call_world:
  assumes "call_capability build_marketplace_adapter ce c capability (\<lambda>a. transmit_feed ftp ls a) w db = (w', db', r)"
  shows "w' = w \<or> (\<exists>k name feed. build_feed_file k ls = Inr feed \<and> w' = fst (ftp c name feed w))"
proof (cases "w' = w")
  case False
  then obtain r' where "transmit_feed ftp ls c w = (w', r')"
    using assms by (auto simp: call_capability_def build_marketplace_adapter_def split: prod.splits sum.splits if_splits)
  then show ?thesis by (rule transmit_feed_world)
qed simp

lemma feed_complete:
  assumes "assemble_and_transmit ftp te tenant_id channel w db = (w', db', r)"
  shows "w' = w \<or> (\<exists>c k name feed items. get_enabled_connection tenant_id (channel_text channel) db = Some c
    \<and> list_all2 (\<lambda>row item. item_of row db = Some item) (published_rows tenant_id channel db) items
    \<and> list_all (\<lambda>i. validate_listing c (build_listing i) = Inr None) items
    \<and> build_feed_file k (map build_listing items) = Inr feed \<and> w' = fst (ftp c name feed w))"
proof (cases "w' = w")
  case False
  then obtain c db1 a ls db2 r2 where c: "get_enabled_connection tenant_id (channel_text channel) db = Some c"
    "resolve_adapter build_marketplace_adapter (te_clock te) c db = (db1, Inr a)"
    "check_rows a (published_rows tenant_id channel db) db1 = Inr (ls, [])"
    "call_capability build_marketplace_adapter (te_call te) c ''marketplace_publish'' (\<lambda>a. transmit_feed ftp ls a) w db1
      = (w', db2, r2)"
    using assms unfolding assemble_and_transmit_def Let_def
    by (auto split: option.splits prod.splits sum.splits if_splits)
  have a: "a = c" using built_adapter [OF c(2)] .
  obtain cs where "db1 = db\<lparr>circuits := cs\<rparr>" using resolve_adapter_keeps [OF c(2)] by blast
  then have same: "item_of row db1 = item_of row db" for row by (simp add: item_of_def)
  obtain items where items: "list_all2 (\<lambda>row item. item_of row db = Some item) (published_rows tenant_id channel db) items"
    "ls = map build_listing items" "list_all (\<lambda>i. validate_listing c (build_listing i) = Inr None) items"
    using check_rows_complete [OF c(3)] unfolding same a by blast
  obtain k name feed where "build_feed_file k ls = Inr feed" "w' = fst (ftp c name feed w)"
    using call_world [OF c(4)] False by blast
  then show ?thesis using c(1) items by blast
qed simp

text \<open>
  C29: whatever happens, the marketplace receives either nothing or one file with the listing of every
  published item of the dealership on that channel, in order and each valid: an item that cannot be
  sent, or no longer exists, stops the whole feed.
\<close>

theorem feed_complete_or_nothing:
  assumes "assemble_and_transmit ftp te tenant_id channel w db = (w', db', r)"
  shows "w' = w \<or> (\<exists>c k name feed items. get_enabled_connection tenant_id (channel_text channel) db = Some c
    \<and> list_all2 (\<lambda>row item. item_of row db = Some item) (published_rows tenant_id channel db) items
    \<and> list_all (\<lambda>i. validate_listing c (build_listing i) = Inr None) items
    \<and> build_feed_file k (map build_listing items) = Inr feed \<and> w' = fst (ftp c name feed w))"
  using assms by (rule feed_complete)

text \<open>A row's fate in a refused feed.\<close>

definition refused_row :: "integration_connection \<Rightarrow> datetime \<Rightarrow> 'a dms_db_scheme \<Rightarrow> stock_item_publishing \<Rightarrow> stock_item_publishing" where
  "refused_row c now db row = (case check_row c row db of
     Inr (Inl msg) \<Rightarrow> row\<lparr>transmission_status := TX_FAILED, last_transmission_error := Some msg, last_attempted_at := Some now\<rparr>
   | _ \<Rightarrow> row)"

lemma check_row_total: "ic_config c = JObj kvs \<Longrightarrow> \<exists>v. check_row c row db = Inr v"
  by (auto simp: check_row_def validate_listing_def config_get_def split: option.splits)

lemma check_rows_total: "ic_config c = JObj kvs \<Longrightarrow> \<exists>ls fs. check_rows c rows db = Inr (ls, fs)"
proof (induction rows)
  case (Cons row rows)
  then obtain ls fs where "check_rows c rows db = Inr (ls, fs)" by blast
  moreover obtain v where "check_row c row db = Inr v" using check_row_total [OF Cons.prems] by blast
  ultimately show ?case by (cases v) auto
qed simp

lemma mark_failures:
  assumes "check_rows c (published_rows t ch db) db = Inr (ls, fs)" "distinct (map sp_id (stock_item_publishings db))"
    "stock_item_publishings db1 = stock_item_publishings db"
  shows "stock_item_publishings (mark (\<lambda>i. map_of (map (\<lambda>(r, m). (sp_id r, m)) fs) i) TX_FAILED now (map fst fs) db1)
    = map (\<lambda>r. if r \<in> set (published_rows t ch db) then refused_row c now db r else r) (stock_item_publishings db)"
proof -
  have fs: "set fs = {(row, msg). row \<in> set (published_rows t ch db) \<and> check_row c row db = Inr (Inl msg)}"
    by (rule check_rows_failures [OF assms(1)])
  have row: "(if sp_id r \<in> set (map sp_id (map fst fs)) then r\<lparr>transmission_status := TX_FAILED,
        last_transmission_error := map_of (map (\<lambda>(r, m). (sp_id r, m)) fs) (sp_id r), last_attempted_at := Some now\<rparr> else r)
      = (if r \<in> set (published_rows t ch db) then refused_row c now db r else r)"
    if r: "r \<in> set (stock_item_publishings db)" for r
  proof -
    have uniq: "x = r" if "(x, m) \<in> set fs" "sp_id x = sp_id r" for x m
      using that r fs distinct_key_unique [OF assms(2)] by (auto simp: published_rows_def)
    have mem: "sp_id r \<in> set (map sp_id (map fst fs)) \<longleftrightarrow> (\<exists>m. (r, m) \<in> set fs)" using uniq by force
    have val: "map_of (map (\<lambda>(r, m). (sp_id r, m)) fs) (sp_id r) = Some m" if "(r, m) \<in> set fs" for m
    proof -
      have "sp_id r \<in> fst ` set (map (\<lambda>(r, m). (sp_id r, m)) fs)" using that by force
      then obtain m' where m': "map_of (map (\<lambda>(r, m). (sp_id r, m)) fs) (sp_id r) = Some m'"
        by (metis map_of_eq_None_iff not_None_eq)
      then obtain x where x: "(x, m') \<in> set fs" "sp_id x = sp_id r" by (auto dest!: map_of_SomeD)
      then have "(r, m') \<in> set fs" using uniq [OF x] by simp
      then show ?thesis using m' that fs by simp
    qed
    show ?thesis
    proof (cases "\<exists>m. (r, m) \<in> set fs")
      case True
      then obtain m where "(r, m) \<in> set fs" by blast
      then show ?thesis using val mem fs by (auto simp: refused_row_def)
    next
      case False
      then have "refused_row c now db r = r" if "r \<in> set (published_rows t ch db)"
        using that fs by (auto simp: refused_row_def split: sum.split)
      then show ?thesis using False mem by simp
    qed
  qed
  have "stock_item_publishings (mark (\<lambda>i. map_of (map (\<lambda>(r, m). (sp_id r, m)) fs) i) TX_FAILED now (map fst fs) db1)
      = map (\<lambda>r. if sp_id r \<in> set (map sp_id (map fst fs)) then r\<lparr>transmission_status := TX_FAILED,
        last_transmission_error := map_of (map (\<lambda>(r, m). (sp_id r, m)) fs) (sp_id r), last_attempted_at := Some now\<rparr> else r)
        (stock_item_publishings db)"
    unfolding mark_def update_where_def by (simp add: assms(3))
  also have "\<dots> = map (\<lambda>r. if r \<in> set (published_rows t ch db) then refused_row c now db r else r) (stock_item_publishings db)"
    by (rule map_cong [OF refl row])
  finally show ?thesis .
qed

text \<open>
  C30: when a published item cannot be listed, the feed is refused without any call to the marketplace:
  no row in the call log, no event, the breaker at most closed by its own check. Exactly the items that
  cannot be listed are marked as failed, each with its own reason, and every other row stays as it was.
\<close>

theorem refused_feed_marks_only_bad_rows:
  assumes "get_enabled_connection tenant_id (channel_text channel) db = Some c"
    "resolve_adapter build_marketplace_adapter (te_clock te) c db = (db1, Inr c)" "ic_config c = JObj kvs"
    "bad \<in> set (published_rows tenant_id channel db)" "check_row c bad db = Inr (Inl msg)"
    "distinct (map sp_id (stock_item_publishings db))"
  shows "\<exists>db'. assemble_and_transmit ftp te tenant_id channel w db = (w, db', Inr ())
    \<and> integration_call_logs db' = integration_call_logs db \<and> outbox_messages db' = outbox_messages db
    \<and> stock_item_publishings db' = map (\<lambda>r. if r \<in> set (published_rows tenant_id channel db)
        then refused_row c (te_now te) db r else r) (stock_item_publishings db)"
proof -
  obtain cs where db1: "db1 = db\<lparr>circuits := cs\<rparr>" using resolve_adapter_keeps [OF assms(2)] by blast
  have same: "check_row c r db1 = check_row c r db" for r by (simp add: db1 check_row_def)
  have rows: "check_rows c rs db1 = check_rows c rs db" for rs by (induction rs) (simp_all add: same)
  obtain ls fs where fs: "check_rows c (published_rows tenant_id channel db) db = Inr (ls, fs)"
    using check_rows_total [OF assms(3)] by blast
  have "(bad, msg) \<in> set fs" using check_rows_failures [OF fs] assms(4,5) by auto
  then have ne: "fs \<noteq> []" by auto
  let ?d = "mark (\<lambda>i. map_of (map (\<lambda>(r, m). (sp_id r, m)) fs) i) TX_FAILED (te_now te) (map fst fs) db1"
  have "assemble_and_transmit ftp te tenant_id channel w db = (w, ?d, Inr ())"
    using assms(1,2) fs ne by (simp add: assemble_and_transmit_def rows)
  moreover have "integration_call_logs ?d = integration_call_logs db" "outbox_messages ?d = outbox_messages db"
    by (simp_all add: mark_def db1)
  moreover have "stock_item_publishings ?d = map (\<lambda>r. if r \<in> set (published_rows tenant_id channel db)
      then refused_row c (te_now te) db r else r) (stock_item_publishings db)"
    using db1 by (intro mark_failures [OF fs assms(6)]) simp
  ultimately show ?thesis by blast
qed

text \<open>
  C31: an item the dealer may publish (no blocking condition) has a listing the marketplace's check
  accepts exactly when it has a first registration date. A new car without one passes the blocking
  conditions, which exempt it, but not the listing's check, since no model year is ever given; while it
  is published, no feed of the dealership on that channel is sent.
\<close>

theorem publishable_listing_iff:
  assumes "compute_blocking_conditions item db = Inr []" "ic_config c = JObj kvs" "\<not> json_falsy (dict_get ''kundennummer'' kvs)"
  shows "(validate_listing c (build_listing item) = Inr None \<longleftrightarrow> si_first_registration_date item \<noteq> None)
    \<and> (si_first_registration_date item = None \<longrightarrow> condition item = NEW)
    \<and> (si_first_registration_date item = None \<longrightarrow> row \<in> set (published_rows tenant_id channel db') \<longrightarrow> item_of row db' = Some item
        \<longrightarrow> get_enabled_connection tenant_id (channel_text channel) db' = Some c
        \<longrightarrow> fst (assemble_and_transmit ftp te tenant_id channel w db') = w)"
proof -
  have blk: "\<not> is_blank (exterior_colour item)" "\<not> is_blank (body_style item)" "odometer_km item \<noteq> None"
    "condition item \<noteq> NEW \<longrightarrow> si_first_registration_date item \<noteq> None"
    using assms(1) by (auto simp: compute_blocking_conditions_def bindR_Inr_iff condition_if_def split: if_splits)
  have key: "config_get ''kundennummer'' (JStr []) (ic_config c) = Inr k \<Longrightarrow> \<not> json_falsy k" for k
    using assms(2,3) by (auto simp: config_get_def dict_get_def split: option.splits)
  obtain k where k: "config_get ''kundennummer'' (JStr []) (ic_config c) = Inr k" using assms(2) by (simp add: config_get_def)
  have "map_of fahrzeugart_by_condition (condition_text (condition item)) \<noteq> None"
    by (cases "condition item") (simp_all add: fahrzeugart_by_condition_def condition_text_def)
  then have ok: "validate_listing c (build_listing item) = Inr None \<longleftrightarrow> si_first_registration_date item \<noteq> None"
    using blk key [OF k]
    by (auto simp: validate_listing_def k field_row_def build_listing_def inv_setz_jahr_def is_blank_def split_beta Let_def raise_if_def
        split: option.splits)
  have "fst (assemble_and_transmit ftp te tenant_id channel w db') = w"
    if "si_first_registration_date item = None" "row \<in> set (published_rows tenant_id channel db')" "item_of row db' = Some item"
      "get_enabled_connection tenant_id (channel_text channel) db' = Some c"
  proof -
    obtain w' d r where run: "assemble_and_transmit ftp te tenant_id channel w db' = (w', d, r)" by (metis prod_cases3)
    have no: "\<not> (\<exists>items. list_all2 (\<lambda>row item. item_of row db' = Some item) (published_rows tenant_id channel db') items
        \<and> list_all (\<lambda>i. validate_listing c (build_listing i) = Inr None) items)"
      using that ok by (auto simp: list_all2_conv_all_nth list_all_length in_set_conv_nth)
    show ?thesis using feed_complete [OF run] run no that(4) by auto
  qed
  then show ?thesis using ok blk by blast
qed

section \<open>The file reads back\<close>

fun split_on :: "char \<Rightarrow> string \<Rightarrow> string list" where
  "split_on c [] = [[]]"
| "split_on c (x # xs) = (if x = c then [] # split_on c xs
     else (case split_on c xs of [] \<Rightarrow> [[x]] | y # ys \<Rightarrow> (x # y) # ys))"

text \<open>What the marketplace reads: records end with a line break, fields with a semicolon.\<close>

definition read_feed :: "string \<Rightarrow> string list list" where
  "read_feed f = map (butlast \<circ> split_on (CHR '';'')) (butlast (split_on (CHR 0x0A) (filter (\<lambda>c. c \<noteq> CHR 0x0D) f)))"

lemma split_on_not_Nil: "split_on c xs \<noteq> []"
  by (induction xs) (auto split: list.splits)

lemma split_on_append: "c \<notin> set a \<Longrightarrow> split_on c (a @ c # b) = a # split_on c b"
  by (induction a) (auto split: list.splits)

lemma split_on_terminated:
  "\<forall>a \<in> set as. c \<notin> set a \<Longrightarrow> butlast (split_on c (concat (map (\<lambda>a. a @ [c]) as))) = as"
proof (induction as)
  case (Cons a as)
  have "split_on c (concat (map (\<lambda>a. a @ [c]) (a # as))) = a # split_on c (concat (map (\<lambda>a. a @ [c]) as))"
    using Cons.prems split_on_append [of c a "concat (map (\<lambda>a. a @ [c]) as)"] by simp
  then show ?case using Cons split_on_not_Nil by (simp add: split_on_not_Nil)
qed simp

definition plain :: "string \<Rightarrow> bool" where
  "plain s \<longleftrightarrow> CHR '';'' \<notin> set s \<and> CHR 0x0D \<notin> set s \<and> CHR 0x0A \<notin> set s"

lemma plain_simps [simp]:
  "plain []" "plain (c # s) \<longleftrightarrow> c \<noteq> CHR '';'' \<and> c \<noteq> CHR 0x0D \<and> c \<noteq> CHR 0x0A \<and> plain s"
  "plain (s @ t) \<longleftrightarrow> plain s \<and> plain t" "plain (replicate n (CHR ''0''))"
  by (auto simp: plain_def)

lemma plain_digit: "d < 10 \<Longrightarrow> plain [chr_nat (48 + d)]"
proof -
  assume "d < 10"
  then have "ord_char (chr_nat (48 + d)) = 48 + d" by (intro ord_chr_nat) simp
  then have "chr_nat (48 + d) \<noteq> c" if "ord_char c < 48 \<or> 57 < ord_char c" for c using that \<open>d < 10\<close> by auto
  then show ?thesis by (simp add: ord_char_def)
qed

lemma plain_digits [simp]: "plain (digits_of_nat n)"
proof (induction n rule: digits_of_nat.induct)
  case (1 n)
  then show ?case using plain_digit [of n] plain_digit [of "n mod 10"] by (subst digits_of_nat.simps) simp
qed

lemma plain_sanitise [simp]: "plain (sanitise s)"
  by (induction s) (auto simp: sanitise_def sanitise_char_def)

lemma plain_padded [simp]: "plain (padded w n)"
  by (simp add: padded_def Let_def)

lemma plain_texts [simp]: "plain (int_text i)" "plain (price_text p)" "plain (date_text d)"
  by (simp_all add: int_text_def price_text_def date_text_def Let_def split_beta split: option.split)

lemma field_row_plain: "field_row k (build_listing item) = Inr r \<Longrightarrow> list_all plain r \<and> length r = 11"
  by (auto simp: field_row_def build_listing_def raise_if_def bindR_Inr_iff inv_setz_jahr_def fahrzeugart_by_condition_def Let_def split_beta
      split: if_splits option.splits)

lemma rows_of_eq: "rows_of k ls = Inr rows \<Longrightarrow> list_all2 (\<lambda>l r. field_row k l = Inr r) ls rows"
  by (induction ls arbitrary: rows) (auto simp: bindR_Inr_iff)

lemma feed_line_plain: "list_all plain r \<Longrightarrow> CHR 0x0D \<notin> set (feed_line r) \<and> CHR 0x0A \<notin> set (feed_line r)"
  by (auto simp: feed_line_def list_all_iff plain_def)

text \<open>
  C32: the transmitted file reads back as what was listed: one header and one record per item, each with
  the twelve fields in order, provided the dealer's number itself holds no separator. The free texts
  (make, model, body style, colour) may hold anything.
\<close>

theorem feed_file_roundtrip:
  assumes "build_feed_file (JStr k) (map build_listing items) = Inr f" "plain k"
  shows "\<exists>rows. list_all2 (\<lambda>item r. field_row (JStr k) (build_listing item) = Inr r) items rows
    \<and> read_feed f = field_order # map ((#) k) rows \<and> (\<forall>r \<in> set (read_feed f). length r = length field_order)"
proof -
  obtain rows where rows: "rows_of (JStr k) (map build_listing items) = Inr rows"
    and f: "f = concat (map (\<lambda>r. feed_line r @ [CHR 0x0D, CHR 0x0A]) (field_order # map ((#) k) rows))"
    using assms(1) by (auto simp: build_feed_file_def split: sum.splits)
  let ?recs = "field_order # map ((#) k) rows"
  have all2: "list_all2 (\<lambda>item r. field_row (JStr k) (build_listing item) = Inr r) items rows"
    using rows_of_eq [OF rows] by (simp add: list_all2_map1)
  have row: "list_all plain r \<and> length r = 11" if mem: "r \<in> set rows" for r
  proof -
    obtain item where "field_row (JStr k) (build_listing item) = Inr r"
      using all2 mem unfolding list_all2_conv_all_nth in_set_conv_nth by force
    then show ?thesis by (rule field_row_plain)
  qed
  have plain: "list_all plain r \<and> length r = length field_order" if "r \<in> set ?recs" for r
    using that row assms(2) by (auto simp: field_order_def)
  have nocr: "filter (\<lambda>c. c \<noteq> CHR 0x0D) (feed_line r) = feed_line r" "CHR 0x0A \<notin> set (feed_line r)" if "r \<in> set ?recs" for r
    using feed_line_plain [of r] plain [OF that] by (auto simp: filter_id_conv)
  have "filter (\<lambda>c. c \<noteq> CHR 0x0D) f = concat (map (\<lambda>a. a @ [CHR 0x0A]) (map feed_line ?recs))"
    unfolding f filter_concat map_map comp_def using nocr(1) by (intro arg_cong [of _ _ concat] map_cong) auto
  then have "butlast (split_on (CHR 0x0A) (filter (\<lambda>c. c \<noteq> CHR 0x0D) f)) = map feed_line ?recs"
    using nocr(2) by (simp only:) (rule split_on_terminated, auto)
  moreover have fields: "butlast (split_on (CHR '';'') (feed_line r)) = r" if "r \<in> set ?recs" for r
    unfolding feed_line_def using plain [OF that] by (intro split_on_terminated) (auto simp: list_all_iff plain_def)
  have "map (butlast \<circ> split_on (CHR '';'')) (map feed_line ?recs) = ?recs"
    unfolding map_map by (rule map_idI) (unfold comp_apply, rule fields)
  ultimately have "read_feed f = ?recs" unfolding read_feed_def by (rule trans [OF arg_cong])
  then show ?thesis using all2 plain by (intro exI [of _ rows]) (simp del: set_simps)
qed

section \<open>A dealership with one new car\<close>

definition example_new_car :: stock_item where
  "example_new_car = example_item\<lparr>condition := NEW, lifecycle_status := IN_STOCK, effective_price := Some 30000,
     exterior_colour := Some ''rot'', body_style := Some ''SUV'', odometer_km := Some 12\<rparr>"

definition example_used_car :: stock_item where
  "example_used_car = example_new_car\<lparr>condition := COND_USED, si_first_registration_date := Some 18262\<rparr>"

definition example_marketplace :: integration_provider where
  "example_marketplace = example_provider\<lparr>provider_code := ''autoscout24'', category := ''marketplace''\<rparr>"

definition example_channel :: integration_connection where
  "example_channel = example_connection\<lparr>ic_config := JObj [(''kundennummer'', JStr ''4711''), (''ftpHost'', JStr ''h''),
     (''ftpUsername'', JStr ''u'')]\<rparr>"

definition example_row :: stock_item_publishing where
  "example_row = \<lparr>sp_id = 20, sp_tenant_id = 3, sp_stock_item_id = 5, sp_channel = AUTOSCOUT24, sp_state = ON_MARKETPLACE,
     zusatztitel = None, bemerkungen = None, zustandsbeschreibung = None, haendlerbemerkungen = None, youtube_url = None,
     pdf_document_ref = None, last_published_at = Some 0, transmission_status = TX_PENDING, last_transmission_error = None,
     last_attempted_at = None, sp_version = 2, sp_updated_by = None\<rparr>"

definition example_picture :: "uuid \<Rightarrow> nat \<Rightarrow> stock_item_media" where
  "example_picture i n = \<lparr>sm_id = i, sm_tenant_id = 3, sm_stock_item_id = 5, sm_position = n, sm_url = [], sm_created_at = 0\<rparr>"

definition example_dms :: "stock_item \<Rightarrow> stock_item_media list \<Rightarrow> dms_db" where
  "example_dms item ms = integration_db.extend
     (sales_db.extend (inventory_db.extend (example_stock_db\<lparr>stock_items := [item]\<rparr>) (sales_db.fields [] [] [] [] [] [] []))
       (integration_db.fields [example_marketplace] [example_channel] [] [] [] [] []))
     (dms_db.fields ms [example_row] [])"

lemma example_dms_simps [simp]:
  "stock_items (example_dms item ms) = [item]" "stock_item_medias (example_dms item ms) = ms"
  "stock_item_publishings (example_dms item ms) = [example_row]" "integration_providers (example_dms item ms) = [example_marketplace]"
  "integration_connections (example_dms item ms) = [example_channel]" "circuits (example_dms item ms) = []"
  "energy_ratings (example_dms item ms) = []" "vehicle_mdms (example_dms item ms) = []" "uuid_supply (example_dms item ms) = 10"
  by (simp_all add: example_dms_def example_stock_db_def example_valuation_db_def valuation_db.defs inventory_db.defs sales_db.defs
      integration_db.defs dms_db.defs)

lemmas example_dms_defs = example_channel_def example_connection_def new_connection_def example_create_def example_marketplace_def
  example_provider_def example_row_def example_new_car_def example_used_car_def example_item_def new_stock_item_def

lemma example_published [simp]: "published_rows 3 AUTOSCOUT24 (example_dms item ms) = [example_row]"
  by (simp add: published_rows_def example_row_def)

lemma example_connected [simp]: "get_enabled_connection 3 ''autoscout24'' (example_dms item ms) = Some example_channel"
  by (simp add: get_enabled_connection_def speaks_def example_dms_defs)

lemma example_publishable:
  "compute_blocking_conditions example_new_car (example_dms example_new_car [example_picture 30 1]) = Inr []"
  by (simp add: compute_blocking_conditions_def needs_energy_label_def condition_if_def is_blank_def example_picture_def example_dms_defs)

definition example_te :: transmission_env where
  "example_te = \<lparr>te_now = 100, te_clock = 0, te_call = \<lparr>call_now = 100, call_started = 1, call_ended = 2, call_correlation = None,
     call_captured = None\<rparr>, te_text = (\<lambda>_. ''failed'')\<rparr>"

definition example_ftp :: "(json \<times> string) list ftp" where
  "example_ftp c name content w = (w @ [(name, content)], None)"

theorem feed_complete_or_nothing_witness:
  "\<exists>w' db' r. assemble_and_transmit example_ftp example_te 3 AUTOSCOUT24 [] (example_dms example_used_car []) = (w', db', r)
    \<and> (w' = [] \<or> (\<exists>k feed. build_feed_file k [build_listing example_used_car] = Inr feed \<and> map snd w' = [feed]))"
proof -
  let ?db = "example_dms example_used_car []"
  obtain w' db' r where run: "assemble_and_transmit example_ftp example_te 3 AUTOSCOUT24 [] ?db = (w', db', r)" by (metis prod_cases3)
  have item: "item_of example_row ?db = Some example_used_car" by (simp add: item_of_def example_dms_defs)
  have "w' = [] \<or> (\<exists>k feed. build_feed_file k [build_listing example_used_car] = Inr feed \<and> map snd w' = [feed])"
    using feed_complete_or_nothing [OF run] item by (auto simp: list_all2_Cons1 example_ftp_def)
  with run show ?thesis by (intro exI [of _ w'] exI [of _ db'] exI [of _ r] conjI) simp_all
qed

lemma example_resolved: "\<exists>db1. resolve_adapter build_marketplace_adapter 0 example_channel (example_dms item ms) = (db1, Inr example_channel)"
  by (simp add: resolve_adapter_def adapter_factory_def is_circuit_open_def circuit_for_def put_circuit_def new_circuit_def Let_def
      get_provider_or_404_def adapter_codes_def build_marketplace_adapter_def example_dms_defs)

lemma example_refused:
  "check_row example_channel example_row (example_dms example_new_car ms) = Inr (Inl (listing_failure (build_listing example_new_car)
     (''InvSetzJahr'', ''InvSetzJahr is required '' @ em_dash @ '' no first_registration_date and no model_year available.'')))"
  by (simp add: check_row_def validate_listing_def config_get_def field_row_def raise_if_def build_listing_def Let_def is_blank_def
      inv_setz_jahr_def fahrzeugart_by_condition_def condition_text_def split_beta example_dms_defs)

theorem refused_feed_marks_only_bad_rows_witness:
  "\<exists>db'. assemble_and_transmit example_ftp example_te 3 AUTOSCOUT24 [] (example_dms example_new_car []) = ([], db', Inr ())
    \<and> map transmission_status (stock_item_publishings db') = [TX_FAILED]"
proof -
  obtain db1 where r: "resolve_adapter build_marketplace_adapter (te_clock example_te) example_channel (example_dms example_new_car [])
      = (db1, Inr example_channel)" using example_resolved [of example_new_car "[]"] by (auto simp: example_te_def)
  have cfg: "\<exists>kvs. ic_config example_channel = JObj kvs" by (simp add: example_channel_def)
  have "refused_row example_channel 100 (example_dms example_new_car []) example_row
      = example_row\<lparr>transmission_status := TX_FAILED, last_transmission_error := Some (listing_failure (build_listing example_new_car)
     (''InvSetzJahr'', ''InvSetzJahr is required '' @ em_dash @ '' no first_registration_date and no model_year available.'')),
     last_attempted_at := Some 100\<rparr>"
    by (simp only: refused_row_def example_refused) simp
  then show ?thesis
    using refused_feed_marks_only_bad_rows [of 3 AUTOSCOUT24 "example_dms example_new_car []" example_channel example_te db1 _ example_row _
        example_ftp "[]"] r cfg example_refused [of "[]"] by (fastforce simp: example_te_def)
qed

theorem publishable_listing_iff_witness:
  "compute_blocking_conditions example_new_car (example_dms example_new_car [example_picture 30 1]) = Inr []
    \<and> validate_listing example_channel (build_listing example_new_car) \<noteq> Inr None
    \<and> fst (assemble_and_transmit example_ftp example_te 3 AUTOSCOUT24 [] (example_dms example_new_car [])) = []"
proof -
  have cfg: "ic_config example_channel = JObj [(''kundennummer'', JStr ''4711''), (''ftpHost'', JStr ''h''), (''ftpUsername'', JStr ''u'')]"
    by (simp add: example_channel_def)
  have no_date: "si_first_registration_date example_new_car = None" by (simp add: example_dms_defs)
  show ?thesis
    using publishable_listing_iff [OF example_publishable cfg, of example_row 3 AUTOSCOUT24 "example_dms example_new_car []" example_ftp
        example_te "[]"] no_date example_publishable
    by (simp add: dict_get_def item_of_def example_dms_defs)
qed

theorem feed_file_roundtrip_witness:
  "\<exists>f. build_feed_file (JStr ''4711'') [build_listing (example_used_car\<lparr>si_vehicle_label := ''VW Golf; GTI''\<rparr>)] = Inr f
    \<and> map (\<lambda>r. r ! 4) (read_feed f) = [''Typ'', ''Golf, GTI'']"
proof -
  let ?i = "example_used_car\<lparr>si_vehicle_label := ''VW Golf; GTI''\<rparr>"
  obtain r where r: "field_row (JStr ''4711'') (build_listing ?i) = Inr r" "r ! 3 = ''Golf, GTI''"
    by (simp add: field_row_def raise_if_def build_listing_def Let_def is_blank_def inv_setz_jahr_def fahrzeugart_by_condition_def
        condition_text_def sanitise_def sanitise_char_def example_dms_defs)
  obtain f where f: "build_feed_file (JStr ''4711'') (map build_listing [?i]) = Inr f" by (simp add: build_feed_file_def r(1))
  have "read_feed f = [field_order, ''4711'' # r]"
    using feed_file_roundtrip [OF f] r(1) by (auto simp: list_all2_Cons1)
  then show ?thesis using f r(2) by (intro exI [of _ f]) (simp add: field_order_def)
qed

section \<open>Picture order\<close>

text \<open>
  Two requests the picture endpoints accept or refuse wrongly, on concrete rows. A reorder that names a
  picture twice is accepted and leaves no picture at position 1; and removing the first picture after
  the others were swapped meets the unique constraint while the positions are moved up.
\<close>

lemma reorder_accepts_a_repeated_picture:
  "\<exists>db'. reorder_media example_new_car [31, 30, 31] (example_dms example_new_car [example_picture 30 1, example_picture 31 2])
    = Inr (db', [example_picture 30 2, example_picture 31 3])"
  by (auto simp: reorder_media_def list_media_def flush_media_def checked_media_def media_positions_ok_def Let_def example_picture_def
      example_dms_defs)

lemma remove_after_swap_is_refused:
  "remove_media example_new_car 30 (example_dms example_new_car [example_picture 30 1, example_picture 31 3, example_picture 32 2])
    = Inl IntegrityError"
  by (simp add: remove_media_def list_media_def flush_media_def checked_media_def media_positions_ok_def Let_def example_picture_def
      example_dms_defs)

end
