(* ===== verification/App_Worker.thy ===== *)
theory App_Worker
  imports Inventory_Publishing Sales_Documents
begin

text \<open>
  The outbox worker's registry (\<^verbatim>\<open>app/worker.py::register_handlers\<close>): which consumer gets which
  event. The consumers are the handlers of \<open>Inventory_Reservation\<close>, \<open>Sales_Contracts\<close> and
  \<open>Inventory_Publishing\<close>; the marketplace's state is a field of the worker's database here, so that one
  state carries everything a handler changes.

  The registry is shown to keep the contract of \<open>event_transport\<close>, and the worker's guarantees then
  hold for the program's own events.
\<close>

section \<open>Registry\<close>

record 'w worker_db = dms_db +
  marketplace_world :: 'w

text \<open>
  \<open>te\<close> is what the transmission of a message reads of its surroundings. The handler commits by itself,
  also before it raises, so its state is kept either way.
\<close>

definition marketplace_handler ::
  "'w ftp \<Rightarrow> (datetime \<Rightarrow> outbox_message \<Rightarrow> transmission_env) \<Rightarrow> datetime \<Rightarrow> outbox_message
     \<Rightarrow> ('w, 'a) worker_db_scheme \<Rightarrow> ('w, 'a) worker_db_scheme \<times> unit result" where
  "marketplace_handler ftp te now m db =
     (case handle_marketplace_transmission_message ftp (te now m) m (marketplace_world db) db of
        (w', db', r) \<Rightarrow> (db'\<lparr>marketplace_world := w'\<rparr>, r))"

definition probe_handler :: "datetime \<Rightarrow> outbox_message \<Rightarrow> 'a core_db_scheme \<Rightarrow> 'a core_db_scheme result" where
  "probe_handler now m db = Inr db"

definition register_handlers where
  "register_handlers ci_probe ftp te transport =
     (let t1 = register_handler ''sales.contract.confirmed'' ''inventory.sales_contract_confirmed''
            (transactional handle_sales_contract_confirmed_message) transport;
          t2 = register_handler ''sales.contract.cancelled'' ''inventory.sales_contract_cancelled''
            (transactional handle_sales_contract_cancelled_message) t1;
          t3 = register_handler ''inventory.stock_item.purchased'' ''sales.stock_item_purchased''
            (transactional handle_stock_item_purchased_message) t2;
          t4 = register_handler ''inventory.stock_item.added'' ''sales.stock_item_added''
            (transactional handle_stock_item_added_message) t3;
          t5 = register_handler ''inventory.stock_item.published'' ''inventory.marketplace_transmission_on_publish''
            (marketplace_handler ftp te) t4;
          t6 = register_handler ''inventory.stock_item.unpublished'' ''inventory.marketplace_transmission_on_unpublish''
            (marketplace_handler ftp te) t5
      in if ci_probe then register_handler ''test.probe.ci_smoke_test'' ''ci.smoke_test_probe'' (transactional probe_handler) t6
         else t6)"

definition dms_transport where
  "dms_transport ci_probe ftp te = register_handlers ci_probe ftp te []"

lemma handlers_after_register:
  "handlers_for (register_handler etype c h t) et = (if et = etype then handlers_for t et @ [(c, h)] else handlers_for t et)"
  by (simp add: handlers_for_def register_handler_def update_conv)

lemma dms_handlers:
  "handlers_for (dms_transport ci_probe ftp te) et =
    (if et = ''sales.contract.confirmed'' then
       [(''inventory.sales_contract_confirmed'', transactional handle_sales_contract_confirmed_message)]
     else if et = ''sales.contract.cancelled'' then
       [(''inventory.sales_contract_cancelled'', transactional handle_sales_contract_cancelled_message)]
     else if et = ''inventory.stock_item.purchased'' then
       [(''sales.stock_item_purchased'', transactional handle_stock_item_purchased_message)]
     else if et = ''inventory.stock_item.added'' then
       [(''sales.stock_item_added'', transactional handle_stock_item_added_message)]
     else if et = ''inventory.stock_item.published'' then
       [(''inventory.marketplace_transmission_on_publish'', marketplace_handler ftp te)]
     else if et = ''inventory.stock_item.unpublished'' then
       [(''inventory.marketplace_transmission_on_unpublish'', marketplace_handler ftp te)]
     else if ci_probe \<and> et = ''test.probe.ci_smoke_test'' then [(''ci.smoke_test_probe'', transactional probe_handler)]
     else [])"
proof -
  have none: "handlers_for [] e = []" for e by (simp add: handlers_for_def)
  consider "et = ''sales.contract.confirmed''" | "et = ''sales.contract.cancelled''" | "et = ''inventory.stock_item.purchased''"
    | "et = ''inventory.stock_item.added''" | "et = ''inventory.stock_item.published''"
    | "et = ''inventory.stock_item.unpublished''" | "et = ''test.probe.ci_smoke_test''"
    | "et \<noteq> ''sales.contract.confirmed''" "et \<noteq> ''sales.contract.cancelled''" "et \<noteq> ''inventory.stock_item.purchased''"
      "et \<noteq> ''inventory.stock_item.added''" "et \<noteq> ''inventory.stock_item.published''"
      "et \<noteq> ''inventory.stock_item.unpublished''" "et \<noteq> ''test.probe.ci_smoke_test''"
    by argo
  then show ?thesis
    by cases (simp_all add: dms_transport_def register_handlers_def handlers_after_register Let_def none)
qed

section \<open>The handlers keep the outbox contract\<close>

lemma transactional_grows:
  assumes "\<And>db'. h now m db = Inr db' \<Longrightarrow> outbox_grows db db'" "transactional h now m db = (db', r)"
  shows "outbox_grows db db'"
  using assms by (auto simp: transactional_def split: sum.splits)

lemma reserve_flush_grows: "outbox_grows db (fst (reserve_and_flush now i c db))"
proof -
  have "outbox_grows db (db\<lparr>uuid_supply := uuid_supply db + 1\<rparr>)" by (rule outbox_grows_sameI) simp_all
  then show ?thesis by (auto simp: reserve_and_flush_def draw_uuid_def Let_def intro: outbox_grows_trans)
qed

lemma release_all_grows: "outbox_grows db (release_all now is db)"
proof (induction "is" arbitrary: db)
  case (Cons i "is")
  have "outbox_grows db (release_and_flush now i db)" by (auto simp: release_and_flush_def Let_def)
  from outbox_grows_trans [OF this Cons] show ?case by simp
qed simp

lemma record_cancelled_grows: "outbox_grows db (record_contract_cancelled now t c label at' db)"
proof -
  have *: "outbox_grows db (release_all now is (db\<lparr>cancelled_contracts := cs\<rparr>))" for "is" cs
    by (rule outbox_grows_trans [OF outbox_grows_sameI release_all_grows]) simp_all
  show ?thesis by (simp add: record_contract_cancelled_def Let_def release_all_grows *)
qed

lemma build_item_grows:
  assumes "build_and_flush_stock_item now t data actor pref origin label db = Inr (db', item)"
  shows "outbox_grows db db'"
proof -
  obtain db1 e where db': "db' = publish now e db1" and same: "outbox_messages db1 = outbox_messages db"
    "processed_events db1 = processed_events db" "uuid_supply db \<le> uuid_supply db1"
    using assms by (auto simp: build_and_flush_stock_item_def allocate_stock_number_def draw_uuid_def Let_def bindR_Inr_iff
        flush_stock_items_def split_beta split: if_splits)
  show ?thesis unfolding db' using outbox_grows_sameI [OF same] publish_grows outbox_grows_trans by blast
qed

lemma pipeline_item_grows:
  assumes "create_pipeline_item_idempotent now db0 t label cond pref origin cfg db = Inr (db', item, created)" "outbox_grows db0 db"
  shows "outbox_grows db0 db'"
proof -
  have "db' = db \<or> db' = db0 \<or> (\<exists>data l. build_and_flush_stock_item now t data None (Some pref) origin l db = Inr (db', item))"
    using assms(1) by (auto simp: create_pipeline_item_idempotent_def Let_def split: option.splits sum.splits exn.splits)
  then show ?thesis using assms(2) build_item_grows outbox_grows_trans by blast
qed

lemma confirmed_grows:
  assumes "handle_sales_contract_confirmed now t pl db = Inr db'"
  shows "outbox_grows db db'"
proof -
  have manual: "outbox_grows db d" if run: "confirm_manual_configuration now db t c kvs db = Inr d" for c kvs d
  proof -
    obtain label cond cid d1 item created where p: "create_pipeline_item_idempotent now db t label cond (c, ManualConfiguration)
        (origin_of c ''manual_configuration'') cid db = Inr (d1, item, created)"
      and d: "d = (if created \<and> \<not> contract_is_cancelled t c d1 then fst (reserve_and_flush now item c d1) else d1)"
      using run by (auto simp: confirm_manual_configuration_def bindR_Inr_iff)
    have "outbox_grows db d1" using pipeline_item_grows [OF p] by simp
    then show ?thesis using outbox_grows_trans [OF _ reserve_flush_grows, of db d1] unfolding d by simp
  qed
  have trade: "outbox_grows db d" if run: "confirm_trade_in now db t c kvs d1 = Inr d" "outbox_grows db d1" for c kvs d d1
  proof -
    obtain label cond cid d2 item created where p: "create_pipeline_item_idempotent now db t label cond (c, TradeIn)
        (origin_of c ''trade_in'') cid d1 = Inr (d2, item, created)" and d: "d = d2 \<or> (\<exists>i. d = save_stock_item now i d2)"
      using run(1) unfolding confirm_trade_in_def bindR_Inr_iff by (clarsimp simp: bindR_Inr_iff split: option.splits) metis+
    have "outbox_grows db d2" by (rule pipeline_item_grows [OF p run(2)])
    then show ?thesis using d outbox_grows_trans [OF _ save_grows] by blast
  qed
  show ?thesis using assms manual trade by (auto simp: handle_sales_contract_confirmed_def bindR_Inr_iff split: option.splits)
qed

lemma purchased_grows: "handle_stock_item_purchased_message now m db = Inr db' \<Longrightarrow> outbox_grows db db'"
  by (auto simp: handle_stock_item_purchased_message_def record_stock_item_purchased_def draw_uuid_def Let_def
      intro!: outbox_grows_sameI split: option.splits if_splits)

lemma added_grows: "handle_stock_item_added_message now m db = Inr db' \<Longrightarrow> outbox_grows db db'"
  by (auto simp: handle_stock_item_added_message_def link_manual_configuration_to_pipeline_item_def save_contract_def bindR_Inr_iff
      intro!: outbox_grows_sameI split: option.splits if_splits json.splits list.splits)

lemma grows_then_same:
  assumes "outbox_grows a b" "outbox_messages c = outbox_messages b" "processed_events c = processed_events b"
    "uuid_supply b \<le> uuid_supply c"
  shows "outbox_grows a c"
  using outbox_grows_trans [OF assms(1) outbox_grows_sameI [OF assms(2-4)]] .

lemma mark_grows: "outbox_grows db d \<Longrightarrow> outbox_grows db (mark err st now rows d)"
  by (erule grows_then_same) (simp_all add: mark_def)

lemma record_call_same:
  assumes "record_call now c cap st ms corr db = (d, l)"
  shows "outbox_grows db d"
  using assms by (auto simp: record_call_def draw_uuid_def Let_def intro!: outbox_grows_sameI split: option.splits)

lemma capture_grows: "outbox_grows db d \<Longrightarrow> outbox_grows db (capture_call_payload now l k cap d)"
  by (erule grows_then_same) (auto simp: capture_call_payload_def draw_uuid_def Let_def split: option.split)

lemma put_circuit_grows: "outbox_grows db (put_circuit cid s db)"
  by (rule outbox_grows_sameI) (simp_all add: put_circuit_def)

lemma accounted_grows:
  "outbox_grows db (record_failed_call ce c cap e p db)" "outbox_grows db (record_completed_call ce c cap db)"
  unfolding record_failed_call_def record_completed_call_def record_failure_def record_success_def Let_def split_beta
  by (rule capture_grows, rule outbox_grows_trans [OF put_circuit_grows record_call_same], rule prod.collapse [symmetric])+

lemma circuits_grow: "outbox_grows db (db\<lparr>circuits := cs\<rparr>)"
  by (rule outbox_grows_sameI) simp_all

lemma call_grows:
  assumes "call_capability build ce c cap block w db = (w', db', r)"
  shows "outbox_grows db db'"
proof -
  obtain d1 fr where f: "adapter_factory (call_started ce) c db = (d1, fr)" by (metis surj_pair)
  then have g: "outbox_grows db d1" using adapter_factory_keeps [OF f] circuits_grow by metis
  have "db' = d1 \<or> (\<exists>e p. db' = record_failed_call ce c cap e p d1) \<or> db' = record_completed_call ce c cap d1"
    using assms unfolding call_capability_def f by (auto split: sum.splits prod.splits if_splits)
  then show ?thesis using g outbox_grows_trans [OF g] accounted_grows by blast
qed

lemma transmit_grows:
  assumes "assemble_and_transmit ftp te t ch w db = (w', db', r)"
  shows "outbox_grows db db'"
proof -
  let ?conn = "get_enabled_connection t (channel_text ch) db"
  show ?thesis
  proof (cases ?conn)
    case None
    then show ?thesis using assms mark_grows [OF outbox_grows_refl] by (auto simp: assemble_and_transmit_def)
  next
    case (Some c)
    obtain d1 ar where a: "resolve_adapter build_marketplace_adapter (te_clock te) c db = (d1, ar)" by (metis surj_pair)
    then have g: "outbox_grows db d1" using resolve_adapter_keeps [OF a] circuits_grow by metis
    have call: "outbox_grows db d2" if "call_capability build_marketplace_adapter (te_call te) c ''marketplace_publish''
        (\<lambda>a. transmit_feed ftp ls a) w d1 = (w2, d2, r2)" for ls w2 d2 r2
      using outbox_grows_trans [OF g call_grows [OF that]] .
    show ?thesis using assms Some a g unfolding assemble_and_transmit_def Let_def
      by (auto split: sum.splits prod.splits if_splits intro: call mark_grows)
  qed
qed

lemma marketplace_handler_grows:
  assumes "marketplace_handler ftp te now m db = (db', r)"
  shows "outbox_grows db db'"
proof -
  obtain w' d where run: "handle_marketplace_transmission_message ftp (te now m) m (marketplace_world db) db = (w', d, r)"
    and db': "db' = d\<lparr>marketplace_world := w'\<rparr>"
    using assms by (auto simp: marketplace_handler_def split: prod.splits)
  have "outbox_grows db d"
    using run transmit_grows by (auto simp: handle_marketplace_transmission_message_def split: option.splits sum.splits)
  then show ?thesis unfolding db' by (rule grows_then_same) simp_all
qed

text \<open>The program's registry keeps the contract, whatever the marketplace does.\<close>

interpretation dms: event_transport "dms_transport ci_probe ftp te" for ci_probe ftp te
proof
  fix c h et now m db db' r
  assume h: "(c, h) \<in> set (handlers_for (dms_transport ci_probe ftp te) et)" and run: "h now m db = (db', r)"
  have msgs: "outbox_grows db d" if "handle_sales_contract_confirmed_message now m db = Inr d" for d
    using that confirmed_grows by (auto simp: handle_sales_contract_confirmed_message_def split: option.splits)
  have cancels: "outbox_grows db d" if "handle_sales_contract_cancelled_message now m db = Inr d" for d
    using that record_cancelled_grows by (auto simp: handle_sales_contract_cancelled_message_def bindR_Inr_iff split: option.splits)
  show "outbox_grows db db'"
    using h run marketplace_handler_grows transactional_grows [OF msgs] transactional_grows [OF cancels]
      transactional_grows [OF purchased_grows] transactional_grows [OF added_grows]
    by (auto simp: dms_handlers probe_handler_def transactional_def split: if_splits)
qed

section \<open>The worker's guarantees for the program's events\<close>


text \<open>
  C34: a purchase, and a contract's cancellation, is never retried: the first poll that claims the event
  publishes it, and from then on the consumer has handled it. Nothing but the event's own fields
  matters, which the producers always send.
\<close>

theorem facts_are_published_at_once:
  assumes "t = dms_transport ci_probe ftp te" "worker_reachable t db lg"
    "poll_once env t n db = (db', res, runs)" "m \<in> set (claim_batch (env_now env) n db)"
    "msg_tenant_id m = Some tenant_id"
    "event_type m = ''inventory.stock_item.purchased''
      \<or> event_type m = ''sales.contract.cancelled'' \<and> map_of (msg_payload m) ''contractNumber'' = Some (JStr label)"
  shows "m\<lparr>msg_status := PUBLISHED, published_at := Some (env_now env)\<rparr> \<in> set (outbox_messages db')
    \<and> (\<forall>c \<in> set (map fst (handlers_for t (event_type m))). has_processed (msg_id m) c db')"
proof -
  have inv: "outbox_inv t db lg" using assms(2) unfolding assms(1) by (rule dms.reachable_inv)
  have total: "(c, h) \<in> set (handlers_for t (event_type m))
      \<Longrightarrow> \<exists>d'. h (env_now env) m d = (d', Inr ())" for c h d
    using assms(5,6)
    by (auto simp: assms(1) dms_handlers transactional_def handle_stock_item_purchased_message_def handle_sales_contract_cancelled_message_def
        get_item_def as_str_def)
  have "m\<lparr>msg_status := PUBLISHED, published_at := Some (env_now env)\<rparr> \<in> set (outbox_messages db')"
    by (rule dms.poll_publishes(1) [OF inv [unfolded assms(1)] assms(3) [unfolded assms(1)] assms(4)]) (rule total [unfolded assms(1)])
  moreover have "all_processed t m db'"
    unfolding assms(1) by (rule dms.poll_publishes(2) [OF inv [unfolded assms(1)] assms(3) [unfolded assms(1)] assms(4)]) (rule total [unfolded assms(1)])
  ultimately show ?thesis by (auto simp: all_processed_def has_processed_iff)
qed

definition example_worker_db :: "(json \<times> string) list worker_db" where
  "example_worker_db = dms_db.extend (example_dms example_used_car []) (worker_db.fields [])"

lemma example_worker_simps [simp]:
  "outbox_messages example_worker_db = []" "processed_events example_worker_db = []" "uuid_supply example_worker_db = 10"
  "sales_stock_item_purchases example_worker_db = []"
  by (simp_all add: example_worker_db_def example_dms_def example_stock_db_def example_valuation_db_def valuation_db.defs
      inventory_db.defs sales_db.defs integration_db.defs dms_db.defs worker_db.defs)

definition example_purchase :: outbox_event where
  "example_purchase = stock_event ''inventory.stock_item.purchased'' example_used_car [(''stockNumber'', JStr ''S-000001'')]"

definition example_env :: worker_env where
  "example_env = \<lparr>env_now = 60, env_jitter = (\<lambda>_. 0), env_error_text = (\<lambda>_ _. [])\<rparr>"

lemma example_start: "worker_reachable t example_worker_db []"
  by (auto simp: worker_reachable_def empty_outbox_def intro!: exI [of _ example_worker_db])

lemma worker_reachable_step:
  "worker_reachable t db lg \<Longrightarrow> worker_step t (db, lg) (db', lg') \<Longrightarrow> worker_reachable t db' lg'"
  by (auto simp: worker_reachable_def intro: rtranclp.rtrancl_into_rtrancl)

lemma example_sent: "worker_reachable t (publish 50 example_purchase example_worker_db) []"
  by (rule worker_reachable_step [OF example_start]) (rule request_step, rule publish_grows)

theorem facts_are_published_at_once_witness:
  "\<exists>db' res runs. poll_once example_env (dms_transport False example_ftp (\<lambda>_ _. example_te)) 100
      (publish 50 example_purchase example_worker_db) = (db', res, runs)
    \<and> (\<exists>m \<in> set (outbox_messages db'). msg_status m = PUBLISHED) \<and> has_processed 10 ''sales.stock_item_purchased'' db'"
proof -
  let ?t = "dms_transport False example_ftp (\<lambda>_ _. example_te)"
  let ?db = "publish 50 example_purchase example_worker_db"
  obtain db' res runs where p: "poll_once example_env ?t 100 ?db = (db', res, runs)" by (metis prod_cases3)
  let ?m = "new_message 50 example_purchase example_worker_db"
  have m: "?m \<in> set (claim_batch (env_now example_env) 100 ?db)"
    by (simp add: claim_batch_def publish_eq example_env_def new_message_def)
  have f: "msg_tenant_id ?m = Some 3" "event_type ?m = ''inventory.stock_item.purchased''" "msg_id ?m = 10"
    by (simp_all add: new_message_def example_purchase_def stock_event_def plain_event_def example_dms_defs)
  show ?thesis using facts_are_published_at_once [OF refl example_sent p m f(1)] f p
    by (intro exI [of _ db'] exI [of _ res] exI [of _ runs]) (force simp: dms_handlers)
qed


end
