(* ===== verification/App_Scheduler.thy ===== *)
theory App_Scheduler
  imports App_Worker
begin

text \<open>
  The daily jobs the worker runs between two polls (\<^verbatim>\<open>app/core/daily_scheduler.py\<close>,
  \<^verbatim>\<open>daily_scheduler_model.py\<close>): a job counts as done for the day only once it has returned, a failing
  job is retried on a backoff that doubles from one minute to one hour, and only the first failure of an
  episode, and one a day after it, is logged as an error.

  The registry and the failure episodes are the module's dictionaries. A job may commit parts of its work
  itself: it returns the state it has committed and, when it does not raise, the pending state of its
  session, which the scheduler commits together with the row of the run. The clock is read once before
  and once after each job.
\<close>

section \<open>State\<close>

record daily_job_run =
  job_name :: string
  run_date :: date

record 'w daily_db = "'w worker_db" +
  daily_job_runs :: "daily_job_run list"

type_synonym ('w, 'a) daily_job =
  "datetime \<Rightarrow> ('w, 'a) daily_db_scheme \<Rightarrow> ('w, 'a) daily_db_scheme \<times> ('w, 'a) daily_db_scheme result"

definition retry_backoff_first :: int where "retry_backoff_first = minute_us"
definition retry_backoff_cap :: int where "retry_backoff_cap = hour_us"
definition realarm_after :: int where "realarm_after = 24 * hour_us"

record failure_episode =
  episode_started_at :: datetime
  last_alarm_at :: datetime
  failed_attempts :: nat
  episode_backoff :: int
  episode_next_attempt_at :: datetime

type_synonym episodes = "string \<Rightarrow> failure_episode option"

datatype log_level = LOG_INFO | LOG_WARNING | LOG_ERROR

text \<open>A log line of the scheduler: its level, the job and the instant.\<close>

type_synonym log_line = "log_level \<times> string \<times> datetime"

text \<open>A dictionary keeps the place of a key that is set again.\<close>

definition register_daily_job :: "string \<Rightarrow> 'j \<Rightarrow> (string \<times> 'j) list \<Rightarrow> (string \<times> 'j) list" where
  "register_daily_job name job registry =
     (if name \<in> fst ` set registry then map (\<lambda>(n, j). (n, if n = name then job else j)) registry
      else registry @ [(name, job)])"

section \<open>Failure episodes\<close>

definition first_episode :: "datetime \<Rightarrow> failure_episode" where
  "first_episode now = \<lparr>episode_started_at = now, last_alarm_at = now, failed_attempts = 1,
     episode_backoff = retry_backoff_first, episode_next_attempt_at = now + retry_backoff_first\<rparr>"

definition failed_again :: "datetime \<Rightarrow> failure_episode \<Rightarrow> failure_episode" where
  "failed_again now e =
     (let wait = min (episode_backoff e * 2) retry_backoff_cap
      in e\<lparr>failed_attempts := failed_attempts e + 1, episode_backoff := wait, episode_next_attempt_at := now + wait,
           last_alarm_at := (if now - last_alarm_at e \<ge> realarm_after then now else last_alarm_at e)\<rparr>)"

text \<open>Whether to alarm, and the episodes after the failure.\<close>

definition record_job_failure :: "string \<Rightarrow> datetime \<Rightarrow> episodes \<Rightarrow> bool \<times> episodes" where
  "record_job_failure name now eps =
     (case eps name of
        None \<Rightarrow> (True, eps(name \<mapsto> first_episode now))
      | Some e \<Rightarrow> (now - last_alarm_at e \<ge> realarm_after, eps(name \<mapsto> failed_again now e)))"

definition record_job_success :: "string \<Rightarrow> datetime \<Rightarrow> episodes \<Rightarrow> log_line list \<times> episodes" where
  "record_job_success name now eps =
     (case eps name of None \<Rightarrow> [] | Some _ \<Rightarrow> [(LOG_INFO, name, now)], eps(name := None))"

definition has_run_today :: "string \<Rightarrow> date \<Rightarrow> ('w, 'a) daily_db_scheme \<Rightarrow> bool" where
  "has_run_today name today db \<longleftrightarrow>
     list_ex (\<lambda>r. job_name r = name \<and> run_date r = today) (daily_job_runs db)"

section \<open>A cycle\<close>

text \<open>The clock before and after the job of a name.\<close>

record cycle_clock =
  job_begins :: "string \<Rightarrow> datetime"
  job_ends :: "string \<Rightarrow> datetime"

record ('w, 'a) scheduler =
  sched_db :: "('w, 'a) daily_db_scheme"
  sched_episodes :: episodes
  sched_ran :: "string list"
  sched_log :: "log_line list"

text \<open>
  The run's row is refused by its unique key when another worker has written it meanwhile; the job's
  pending work is rolled back then, like after an exception.
\<close>

definition commit_run :: "string \<Rightarrow> date \<Rightarrow> ('w, 'a) daily_db_scheme result \<Rightarrow> ('w, 'a) daily_db_scheme result" where
  "commit_run name today r = bindR r (\<lambda>db.
     if has_run_today name today db then Inl IntegrityError
     else Inr (db\<lparr>daily_job_runs := daily_job_runs db @ [\<lparr>job_name = name, run_date = today\<rparr>]\<rparr>))"

definition run_daily_job ::
  "cycle_clock \<Rightarrow> date \<Rightarrow> string \<times> ('w, 'a) daily_job \<Rightarrow> ('w, 'a) scheduler \<Rightarrow> ('w, 'a) scheduler" where
  "run_daily_job clk today entry s =
     (let name = fst entry; now = job_begins clk name in
      if (case sched_episodes s name of None \<Rightarrow> False | Some e \<Rightarrow> now < episode_next_attempt_at e) then s
      else if has_run_today name today (sched_db s) then s
      else (case snd entry now (sched_db s) of (committed, r) \<Rightarrow>
        (case commit_run name today r of
           Inl _ \<Rightarrow> (case record_job_failure name (job_ends clk name) (sched_episodes s) of (alarm, eps) \<Rightarrow>
             s\<lparr>sched_db := committed, sched_episodes := eps,
               sched_log := sched_log s @ [(if alarm then LOG_ERROR else LOG_WARNING, name, job_ends clk name)]\<rparr>)
         | Inr db' \<Rightarrow> (case record_job_success name (job_ends clk name) (sched_episodes s) of (lines, eps) \<Rightarrow>
             s\<lparr>sched_db := db', sched_episodes := eps, sched_ran := sched_ran s @ [name], sched_log := sched_log s @ lines\<rparr>))))"

definition run_due_daily_jobs ::
  "cycle_clock \<Rightarrow> datetime \<Rightarrow> (string \<times> ('w, 'a) daily_job) list \<Rightarrow> ('w, 'a) scheduler \<Rightarrow> ('w, 'a) scheduler" where
  "run_due_daily_jobs clk now registry s =
     fold (run_daily_job clk (date_of now)) registry (s\<lparr>sched_ran := []\<rparr>)"

text \<open>The worker's loop, seen from the scheduler: one cycle after the other, others write in between.\<close>

fun daily_cycles ::
  "(cycle_clock \<times> datetime \<times> (('w, 'a) daily_db_scheme \<Rightarrow> ('w, 'a) daily_db_scheme)) list
     \<Rightarrow> (string \<times> ('w, 'a) daily_job) list \<Rightarrow> ('w, 'a) scheduler \<Rightarrow> ('w, 'a) scheduler" where
  "daily_cycles [] registry s = s"
| "daily_cycles ((clk, now, between) # cs) registry s =
     daily_cycles cs registry (run_due_daily_jobs clk now registry (s\<lparr>sched_db := between (sched_db s)\<rparr>))"

section \<open>A failing job\<close>

text \<open>The failures of a job and the alarms among them, as the log has them.\<close>

definition failures_logged :: "string \<Rightarrow> ('w, 'a) scheduler \<Rightarrow> int" where
  "failures_logged name s = int (length (filter (\<lambda>(l, n, _). n = name \<and> l \<noteq> LOG_INFO) (sched_log s)))"

definition alarms_logged :: "string \<Rightarrow> ('w, 'a) scheduler \<Rightarrow> int" where
  "alarms_logged name s = int (length (filter (\<lambda>(l, n, _). n = name \<and> l = LOG_ERROR) (sched_log s)))"

text \<open>
  How many doublings are left before the backoff is the cap, and how long the waits until then are
  together. What an episode may still log until \<open>S\<close> follows from them.
\<close>

definition doublings_left :: "int \<Rightarrow> int" where
  "doublings_left w = (if w = minute_us then 6 else if w = 2 * minute_us then 5 else if w = 4 * minute_us then 4
     else if w = 8 * minute_us then 3 else if w = 16 * minute_us then 2 else if w = 32 * minute_us then 1 else 0)"

definition waits_left :: "int \<Rightarrow> int" where
  "waits_left w = minute_us * (if w = minute_us then 122 else if w = 2 * minute_us then 120 else if w = 4 * minute_us then 116
     else if w = 8 * minute_us then 108 else if w = 16 * minute_us then 92 else if w = 32 * minute_us then 60 else 0)"

definition backoff_levels :: "int set" where
  "backoff_levels = {minute_us, 2 * minute_us, 4 * minute_us, 8 * minute_us, 16 * minute_us, 32 * minute_us, hour_us}"

definition attempts_left :: "datetime \<Rightarrow> datetime \<Rightarrow> failure_episode option \<Rightarrow> int" where
  "attempts_left S t ep = (case ep of
     None \<Rightarrow> 7 + max 0 ((S - t - 63 * minute_us) div hour_us)
   | Some e \<Rightarrow> doublings_left (episode_backoff e)
       + max 0 ((S - episode_next_attempt_at e - waits_left (episode_backoff e) + hour_us) div hour_us))"

definition alarms_left :: "datetime \<Rightarrow> datetime \<Rightarrow> failure_episode option \<Rightarrow> int" where
  "alarms_left S t ep = (case ep of
     None \<Rightarrow> 1 + (S - t) div realarm_after
   | Some e \<Rightarrow> max 0 ((S - last_alarm_at e) div realarm_after))"

definition episode_ok :: "datetime \<Rightarrow> failure_episode option \<Rightarrow> bool" where
  "episode_ok t ep \<longleftrightarrow> (case ep of None \<Rightarrow> True | Some e \<Rightarrow> episode_backoff e \<in> backoff_levels \<and> t \<le> last_alarm_at e)"

lemma next_level:
  assumes "w \<in> backoff_levels"
  shows "min (w * 2) retry_backoff_cap \<in> backoff_levels"
    "w = hour_us \<and> doublings_left w = 0 \<and> waits_left w = 0
      \<or> doublings_left w = doublings_left (min (w * 2) retry_backoff_cap) + 1
        \<and> waits_left w = min (w * 2) retry_backoff_cap + waits_left (min (w * 2) retry_backoff_cap)"
  using assms unfolding backoff_levels_def
  by (auto simp: doublings_left_def waits_left_def retry_backoff_cap_def time_units)

lemma failed_again_step:
  assumes "episode_backoff e \<in> backoff_levels" "episode_next_attempt_at e \<le> a" "a \<le> S"
  shows "attempts_left S t (Some (failed_again a e)) + 1 \<le> attempts_left S t (Some e)"
proof -
  define w where "w = episode_backoff e"
  define w' where "w' = min (w * 2) retry_backoff_cap"
  have div_le: "(S - a - x + hour_us) div hour_us \<le> (S - episode_next_attempt_at e - x + hour_us) div hour_us" for x
    using assms(2) by (intro zdiv_mono1) (auto simp: time_units)
  have cap: "(S - a + hour_us) div hour_us = (S - a) div hour_us + 1" "0 \<le> (S - a) div hour_us"
    using assms(3) by (simp_all add: time_units pos_imp_zdiv_nonneg_iff)
  have at_cap: "w = hour_us \<Longrightarrow> w' = hour_us" by (simp add: w'_def retry_backoff_cap_def time_units)
  have e': "attempts_left S t (Some (failed_again a e)) = doublings_left w' + max 0 ((S - a - (w' + waits_left w') + hour_us) div hour_us)"
    by (simp add: attempts_left_def failed_again_def Let_def w_def w'_def algebra_simps)
  show ?thesis using next_level(2) [of w] assms(1) at_cap div_le [of 0] div_le [of "waits_left w"] cap
    unfolding e' by (auto simp: attempts_left_def w'_def [symmetric] w_def [symmetric])
qed

lemma failed_again_alarm:
  assumes "t \<le> last_alarm_at e" "a \<le> S"
  shows "alarms_left S t (Some (failed_again a e)) + (if a - last_alarm_at e \<ge> realarm_after then 1 else 0)
    \<le> alarms_left S t (Some e)"
proof -
  have nonneg: "0 \<le> (S - a) div realarm_after" using assms(2) by (simp add: realarm_after_def time_units pos_imp_zdiv_nonneg_iff)
  have "(S - a) div realarm_after + 1 = (S - a + realarm_after) div realarm_after" by (simp add: realarm_after_def time_units)
  also have "\<dots> \<le> (S - last_alarm_at e) div realarm_after" if "a - last_alarm_at e \<ge> realarm_after"
    using that by (intro zdiv_mono1) (auto simp: realarm_after_def time_units)
  finally show ?thesis using nonneg by (auto simp: alarms_left_def failed_again_def Let_def)
qed

text \<open>What one job may log until \<open>S\<close>, with what it has logged, never grows.\<close>

definition within_limits :: "datetime \<Rightarrow> datetime \<Rightarrow> string \<Rightarrow> int \<Rightarrow> int \<Rightarrow> ('w, 'a) scheduler \<Rightarrow> bool" where
  "within_limits S t name f al s \<longleftrightarrow> episode_ok t (sched_episodes s name)
     \<and> failures_logged name s + attempts_left S t (sched_episodes s name) \<le> f
     \<and> alarms_logged name s + alarms_left S t (sched_episodes s name) \<le> al"

definition always_fails :: "('w, 'a) daily_job \<Rightarrow> bool" where
  "always_fails job \<longleftrightarrow> (\<forall>now db. \<exists>e. snd (job now db) = Inl e)"

definition clock_within :: "datetime \<Rightarrow> datetime \<Rightarrow> string \<Rightarrow> cycle_clock \<Rightarrow> bool" where
  "clock_within t S name clk \<longleftrightarrow> t \<le> job_begins clk name \<and> job_begins clk name \<le> job_ends clk name \<and> job_ends clk name \<le> S"

lemma other_job_within: "within_limits S t name f al s \<Longrightarrow> fst entry \<noteq> name \<Longrightarrow> within_limits S t name f al (run_daily_job clk d entry s)"
  by (auto simp: within_limits_def run_daily_job_def Let_def failures_logged_def alarms_logged_def record_job_failure_def
      record_job_success_def split: prod.splits sum.splits option.splits)

lemma first_failure_left:
  assumes "t \<le> a" "a \<le> S"
  shows "attempts_left S t (Some (first_episode a)) + 1 \<le> attempts_left S t None"
    "alarms_left S t (Some (first_episode a)) + 1 \<le> alarms_left S t None"
proof -
  have "(S - a - 63 * minute_us) div hour_us \<le> (S - t - 63 * minute_us) div hour_us" "(S - a) div realarm_after \<le> (S - t) div realarm_after"
    using assms by (auto intro!: zdiv_mono1 simp: time_units realarm_after_def)
  moreover have "0 \<le> (S - t) div realarm_after" using assms by (simp add: realarm_after_def time_units pos_imp_zdiv_nonneg_iff)
  ultimately show "attempts_left S t (Some (first_episode a)) + 1 \<le> attempts_left S t None"
    "alarms_left S t (Some (first_episode a)) + 1 \<le> alarms_left S t None"
    by (auto simp: attempts_left_def alarms_left_def first_episode_def doublings_left_def waits_left_def retry_backoff_first_def
        time_units algebra_simps)
qed

lemma failing_job_within:
  assumes "within_limits S t (fst entry) f al s" "always_fails (snd entry)" "clock_within t S (fst entry) clk"
  shows "within_limits S t (fst entry) f al (run_daily_job clk d entry s)"
proof -
  define name where "name = fst entry"
  define a where "a = job_ends clk name"
  obtain c e where job: "snd entry (job_begins clk name) (sched_db s) = (c, Inl e)"
    using assms(2) by (metis always_fails_def prod.collapse)
  have a: "t \<le> a" "a \<le> S" using assms(3) by (auto simp: clock_within_def a_def name_def)
  show ?thesis
  proof (cases "sched_episodes s name")
    case None
    then show ?thesis using assms(1) job first_failure_left [OF a]
      by (auto simp: run_daily_job_def within_limits_def name_def [symmetric] Let_def commit_run_def record_job_failure_def
          failures_logged_def alarms_logged_def a_def [symmetric] episode_ok_def first_episode_def backoff_levels_def
          retry_backoff_first_def a)
  next
    case (Some ep)
    have ok: "episode_backoff ep \<in> backoff_levels" "t \<le> last_alarm_at ep" using assms(1) Some by (auto simp: within_limits_def episode_ok_def name_def)
    have ok': "episode_ok t (Some (failed_again a ep))"
      using ok next_level(1) [OF ok(1)] a(1) by (simp add: episode_ok_def failed_again_def Let_def)
    show ?thesis
    proof (cases "job_begins clk name < episode_next_attempt_at ep")
      case True
      then show ?thesis using assms(1) Some by (simp add: run_daily_job_def name_def [symmetric] Let_def)
    next
      case False
      then have "episode_next_attempt_at ep \<le> a" using assms(3) by (auto simp: clock_within_def a_def name_def)
      from failed_again_step [OF ok(1) this a(2), of t] failed_again_alarm [OF ok(2) a(2)] ok'
      show ?thesis using assms(1) job Some False
        by (auto simp: run_daily_job_def within_limits_def name_def [symmetric] Let_def commit_run_def record_job_failure_def
            failures_logged_def alarms_logged_def a_def [symmetric] split: if_splits)
    qed
  qed
qed

lemma cycle_within:
  assumes "within_limits S t name f al s" "\<forall>(n, job) \<in> set registry. n = name \<longrightarrow> always_fails job" "clock_within t S name clk"
  shows "within_limits S t name f al (fold (run_daily_job clk d) registry s)"
  using assms(1,2)
proof (induction registry arbitrary: s)
  case (Cons entry registry)
  have "within_limits S t name f al (run_daily_job clk d entry s)"
    using Cons.prems failing_job_within [of S t entry f al s clk d] assms(3) other_job_within [of S t name f al s entry clk d]
    by (cases "fst entry = name") (auto simp: split_beta)
  then show ?case using Cons by simp
qed simp

lemma daily_cycles_within:
  assumes "within_limits S t name f al s" "\<forall>(n, job) \<in> set registry. n = name \<longrightarrow> always_fails job"
    "\<forall>(clk, _) \<in> set cs. clock_within t S name clk"
  shows "within_limits S t name f al (daily_cycles cs registry s)"
  using assms(1,3)
proof (induction cs arbitrary: s)
  case (Cons c cs)
  obtain clk now between where c: "c = (clk, now, between)" by (metis prod_cases3)
  have "within_limits S t name f al (s\<lparr>sched_db := between (sched_db s), sched_ran := []\<rparr>)"
    using Cons.prems(1) by (simp add: within_limits_def failures_logged_def alarms_logged_def)
  from cycle_within [OF this assms(2), of clk "date_of now"] Cons c show ?case
    by (simp add: run_due_daily_jobs_def)
qed simp


text \<open>A job that always raises, polled seven times in two hours.\<close>

definition twenty_minutes_apart :: "nat \<Rightarrow> cycle_clock \<times> datetime \<times> ('d \<Rightarrow> 'd)" where
  "twenty_minutes_apart k = (let t = int k * 20 * minute_us in (\<lparr>job_begins = \<lambda>_. t, job_ends = \<lambda>_. t\<rparr>, t, id))"


end
