(* ===== verification/Sales_Labels.thy ===== *)
theory Sales_Labels
  imports Sales_Deals
begin

text \<open>
  The nightly refresh of the responsible seller's name on offers, contracts and deal rows
  (\<^verbatim>\<open>app/sales/services/owner_label.py\<close>, with \<^verbatim>\<open>get_user_display_labels\<close> of
  \<^verbatim>\<open>app/platform/services/user.py\<close>). Each table is walked in batches of 500 in the order of the ids, a
  batch being committed before the next is read; rows another writer holds are skipped.

  The loop over the batches is one function for the three tables, as in the source: what it needs of a
  row is the record \<open>owned\<close>, and the laws of a table are the locale \<open>labelled_table\<close>. Which rows are held
  by others when a batch is read, and the clock then, are arguments, by the number of the batch.
  \<open>updated_at\<close> is not modelled, so the two ways of writing a row differ in the label only.
\<close>

section \<open>Display labels\<close>

record user_display_label =
  display_label :: string
  label_deactivated :: bool

definition get_user_display_labels :: "uuid list \<Rightarrow> 'a master_db_scheme \<Rightarrow> (uuid \<times> user_display_label) list" where
  "get_user_display_labels user_ids db =
     map (\<lambda>u. (user_id u, \<lparr>display_label = strip_text (user_first_name u @ '' '' @ user_last_name u),
          label_deactivated = (user_status u = DEACTIVATED)\<rparr>))
       (select_all (\<lambda>u. List.member user_ids (user_id u)) (users db))"

section \<open>The loop\<close>

record 'r owned =
  row_id :: "'r \<Rightarrow> uuid"
  row_owner :: "'r \<Rightarrow> uuid option"
  row_label :: "'r \<Rightarrow> string option"
  write_label :: "string option \<Rightarrow> datetime \<Rightarrow> 'r \<Rightarrow> 'r"

definition label_batch :: nat where "label_batch = 500"

text \<open>What the batch does to one row: nothing, a stamp, or a new label; and whether the label changed.\<close>

definition refresh_row ::
  "'r owned \<Rightarrow> (uuid \<times> user_display_label) list \<Rightarrow> datetime \<Rightarrow> 'r \<Rightarrow> 'r \<times> bool" where
  "refresh_row own labels now r =
     (case Option.bind (row_owner own r) (map_of labels) of
        None \<Rightarrow> (r, False)
      | Some current \<Rightarrow>
          if label_deactivated current \<or> Some (display_label current) = row_label own r
          then (write_label own (row_label own r) now r, False)
          else (write_label own (Some (display_label current)) now r, True))"

definition read_batch :: "'r owned \<Rightarrow> (uuid \<Rightarrow> bool) \<Rightarrow> uuid option \<Rightarrow> 'r list \<Rightarrow> 'r list" where
  "read_batch own held last_id rows =
     take label_batch (sort_key (row_id own)
       (select_all (\<lambda>r. row_owner own r \<noteq> None \<and> \<not> held (row_id own r)
          \<and> (case last_id of None \<Rightarrow> True | Some l \<Rightarrow> row_id own r > l)) rows))"

definition write_batch ::
  "'r owned \<Rightarrow> (uuid \<times> user_display_label) list \<Rightarrow> datetime \<Rightarrow> 'r list \<Rightarrow> 'r list \<Rightarrow> 'r list" where
  "write_batch own labels now batch rows =
     update_where (\<lambda>r. List.member (map (row_id own) batch) (row_id own r)) (\<lambda>r. fst (refresh_row own labels now r)) rows"

partial_function (option) refresh_table ::
  "'r owned \<Rightarrow> 'a master_db_scheme \<Rightarrow> (nat \<Rightarrow> uuid \<Rightarrow> bool) \<Rightarrow> (nat \<Rightarrow> datetime) \<Rightarrow> nat \<Rightarrow> uuid option \<Rightarrow> 'r list \<Rightarrow> nat
     \<Rightarrow> ('r list \<times> nat) option" where
  "refresh_table own db held clock k last_id rows changed =
     (let batch = read_batch own (held k) last_id rows;
          labels = get_user_display_labels (map (\<lambda>r. the (row_owner own r)) batch) db
      in if batch = [] then Some (rows, changed)
         else refresh_table own db held clock (k + 1) (Some (row_id own (last batch)))
                (write_batch own labels (clock k) batch rows)
                (changed + length (filter (\<lambda>r. snd (refresh_row own labels (clock k) r)) batch)))"

section \<open>The three tables\<close>

definition offer_owned :: "sales_offer owned" where
  "offer_owned = \<lparr>row_id = \<lambda>o1. pd_id (off_deal o1), row_owner = \<lambda>o1. owner_user_id (off_deal o1),
     row_label = \<lambda>o1. owner_label (off_deal o1),
     write_label = \<lambda>l t o1. o1\<lparr>off_deal := (off_deal o1)\<lparr>owner_label := l, owner_label_refreshed_at := Some t\<rparr>\<rparr>\<rparr>"

definition contract_owned :: "sales_contract owned" where
  "contract_owned = \<lparr>row_id = \<lambda>c. pd_id (con_deal c), row_owner = \<lambda>c. owner_user_id (con_deal c),
     row_label = \<lambda>c. owner_label (con_deal c),
     write_label = \<lambda>l t c. c\<lparr>con_deal := (con_deal c)\<lparr>owner_label := l, owner_label_refreshed_at := Some t\<rparr>\<rparr>\<rparr>"

definition deal_owned :: "sales_deal owned" where
  "deal_owned = \<lparr>row_id = sd_id, row_owner = sd_owner_user_id, row_label = sd_owner_label,
     write_label = \<lambda>l t d. d\<lparr>sd_owner_label := l, sd_owner_label_refreshed_at := Some t\<rparr>\<rparr>"

text \<open>What the job meets on its way through each table: the rows held and the clock, batch by batch.\<close>

record label_env =
  offers_held :: "nat \<Rightarrow> uuid \<Rightarrow> bool"
  contracts_held :: "nat \<Rightarrow> uuid \<Rightarrow> bool"
  deals_held :: "nat \<Rightarrow> uuid \<Rightarrow> bool"
  offers_clock :: "nat \<Rightarrow> datetime"
  contracts_clock :: "nat \<Rightarrow> datetime"
  deals_clock :: "nat \<Rightarrow> datetime"

definition refresh_owner_labels :: "label_env \<Rightarrow> 'a sales_db_scheme \<Rightarrow> ('a sales_db_scheme \<times> nat) option" where
  "refresh_owner_labels env db =
     Option.bind (refresh_table offer_owned db (offers_held env) (offers_clock env) 0 None (sales_offers db) 0) (\<lambda>(offers, n1).
     let db1 = db\<lparr>sales_offers := offers\<rparr> in
     Option.bind (refresh_table contract_owned db1 (contracts_held env) (contracts_clock env) 0 None (sales_contracts db1) 0) (\<lambda>(contracts, n2).
     let db2 = db1\<lparr>sales_contracts := contracts\<rparr> in
     Option.bind (refresh_table deal_owned db2 (deals_held env) (deals_clock env) 0 None (sales_deals db2) 0) (\<lambda>(deals, n3).
     Some (db2\<lparr>sales_deals := deals\<rparr>, n1 + n2 + n3))))"

definition oldest_stamp :: "'r owned \<Rightarrow> ('r \<Rightarrow> datetime option) \<Rightarrow> 'r list \<Rightarrow> datetime option" where
  "oldest_stamp own stamp rows =
     (case List.map_filter stamp (select_all (\<lambda>r. row_owner own r \<noteq> None) rows) of
        [] \<Rightarrow> None | t # ts \<Rightarrow> Some (fold min ts t))"

definition oldest_owner_label_age :: "datetime \<Rightarrow> 'a sales_db_scheme \<Rightarrow> int option" where
  "oldest_owner_label_age now db =
     (case List.map_filter id
        [oldest_stamp offer_owned (\<lambda>o1. owner_label_refreshed_at (off_deal o1)) (sales_offers db),
         oldest_stamp contract_owned (\<lambda>c. owner_label_refreshed_at (con_deal c)) (sales_contracts db),
         oldest_stamp deal_owned sd_owner_label_refreshed_at (sales_deals db)] of
        [] \<Rightarrow> None | t # ts \<Rightarrow> Some (now - fold min ts t))"

section \<open>The loop ends\<close>

text \<open>What the refresh makes of one row when it is alone: the seller's name is looked up for it.\<close>

definition refreshed :: "'r owned \<Rightarrow> 'a master_db_scheme \<Rightarrow> datetime \<Rightarrow> 'r \<Rightarrow> 'r \<times> bool" where
  "refreshed own db now r = refresh_row own (get_user_display_labels [the (row_owner own r)] db) now r"

lemma map_of_display_labels:
  "map_of (get_user_display_labels ids db) u = (if u \<in> set ids then map_of (get_user_display_labels [u] db) u else None)"
proof -
  have "map_of (map (\<lambda>x. (user_id x, g x)) (select_all (\<lambda>x. List.member ids (user_id x)) us)) u
      = (if u \<in> set ids then map_of (map (\<lambda>x. (user_id x, g x)) (select_all (\<lambda>x. List.member [u] (user_id x)) us)) u else None)"
    for us and g :: "user \<Rightarrow> user_display_label"
    by (induction us) auto
  note 1 = this
  show ?thesis unfolding get_user_display_labels_def by (rule 1)
qed

lemma refresh_row_batch:
  assumes "r \<in> set batch" "row_owner own r \<noteq> None"
  shows "refresh_row own (get_user_display_labels (map (\<lambda>r. the (row_owner own r)) batch) db) now r = refreshed own db now r"
proof -
  obtain u where u: "row_owner own r = Some u" using assms(2) by blast
  have "u \<in> (\<lambda>r. the (row_owner own r)) ` set batch" using assms(1) u by force
  then have "map_of (get_user_display_labels (map (\<lambda>r. the (row_owner own r)) batch) db) u = map_of (get_user_display_labels [u] db) u"
    by (subst map_of_display_labels) simp
  then show ?thesis by (simp add: refreshed_def refresh_row_def u)
qed

text \<open>The rows of a table before and after: each as it was or refreshed once, none left out that was never held.\<close>

definition refreshed_rows ::
  "'r owned \<Rightarrow> 'a master_db_scheme \<Rightarrow> (nat \<Rightarrow> uuid \<Rightarrow> bool) \<Rightarrow> (nat \<Rightarrow> datetime) \<Rightarrow> 'r list \<Rightarrow> 'r list \<Rightarrow> bool" where
  "refreshed_rows own db h clock rows rows' \<longleftrightarrow> list_all2 (\<lambda>r r'.
     (r' = r \<or> row_owner own r \<noteq> None \<and> (\<exists>j. \<not> h j (row_id own r) \<and> r' = fst (refreshed own db (clock j) r)))
     \<and> (row_owner own r \<noteq> None \<longrightarrow> (\<forall>j. \<not> h j (row_id own r)) \<longrightarrow> (\<exists>j. r' = fst (refreshed own db (clock j) r)))) rows rows'"

definition labels_changed :: "'r owned \<Rightarrow> 'r list \<Rightarrow> 'r list \<Rightarrow> nat" where
  "labels_changed own rows rows' = length (filter (\<lambda>(r, r'). row_label own r' \<noteq> row_label own r) (zip rows rows'))"

locale labelled_table =
  fixes own :: "'r owned"
  assumes id_kept [simp]: "row_id own (write_label own l t r) = row_id own r"
    and owner_kept [simp]: "row_owner own (write_label own l t r) = row_owner own r"
    and label_written [simp]: "row_label own (write_label own l t r) = l"
begin

lemma refreshed_kept [simp]:
  "row_id own (fst (refresh_row own labels now r)) = row_id own r"
  "row_owner own (fst (refresh_row own labels now r)) = row_owner own r"
  "row_id own (fst (refreshed own db now r)) = row_id own r"
  "row_owner own (fst (refreshed own db now r)) = row_owner own r"
  by (auto simp: refreshed_def refresh_row_def split: option.splits)

lemma refreshed_changes: "snd (refreshed own db now r) \<longleftrightarrow> row_label own (fst (refreshed own db now r)) \<noteq> row_label own r"
  by (auto simp: refreshed_def refresh_row_def split: option.splits)

abbreviation beyond :: "uuid option \<Rightarrow> 'r \<Rightarrow> bool" where
  "beyond last_id r \<equiv> (case last_id of None \<Rightarrow> True | Some l \<Rightarrow> row_id own r > l)"

lemma read_batch_set: "r \<in> set (read_batch own h last_id rows) \<Longrightarrow> r \<in> set rows \<and> row_owner own r \<noteq> None \<and> \<not> h (row_id own r) \<and> beyond last_id r"
  by (auto simp: read_batch_def dest!: in_set_takeD)

lemma read_batch_sorted: "sorted (map (row_id own) (read_batch own h last_id rows))"
  by (simp add: read_batch_def take_map [symmetric] sorted_wrt_take)

lemma read_batch_rest:
  assumes "distinct (map (row_id own) rows)" "r \<in> set rows" "row_owner own r \<noteq> None" "\<not> h (row_id own r)" "beyond last_id r"
    "r \<notin> set (read_batch own h last_id rows)" "read_batch own h last_id rows \<noteq> []"
  shows "row_id own (last (read_batch own h last_id rows)) < row_id own r"
proof -
  define xs where "xs = sort_key (row_id own) (select_all (\<lambda>r. row_owner own r \<noteq> None \<and> \<not> h (row_id own r) \<and> beyond last_id r) rows)"
  have b: "read_batch own h last_id rows = take label_batch xs" by (simp add: read_batch_def xs_def)
  have "r \<in> set xs" using assms by (simp add: xs_def)
  then have r: "r \<in> set (drop label_batch xs)" using assms(6) unfolding b by (metis Un_iff append_take_drop_id set_append)
  have "sorted (map (row_id own) (take label_batch xs @ drop label_batch xs))" by (simp add: xs_def)
  then have "row_id own (last (take label_batch xs)) \<le> row_id own r"
    using r assms(7) unfolding b map_append sorted_append by simp
  moreover have "last (take label_batch xs) \<in> set rows" "last (take label_batch xs) \<noteq> r"
    using assms(6,7) read_batch_set [of _ h last_id rows] last_in_set unfolding b by metis+
  ultimately show ?thesis using assms(1,2) unfolding b by (metis distinct_key_unique le_neq_implies_less)
qed

end

context labelled_table
begin

lemma read_batch_le_last:
  assumes "r \<in> set (read_batch own h last_id rows)"
  shows "row_id own r \<le> row_id own (last (read_batch own h last_id rows))"
proof -
  define xs where "xs = read_batch own h last_id rows"
  obtain i where i: "i < length xs" "r = xs ! i" using assms unfolding xs_def [symmetric] by (auto simp: in_set_conv_nth)
  have "map (row_id own) xs ! i \<le> map (row_id own) xs ! (length xs - 1)"
    using i read_batch_sorted [of h last_id rows] unfolding xs_def [symmetric] by (intro sorted_nth_mono) auto
  moreover have "xs \<noteq> []" using i by auto
  ultimately show ?thesis using i unfolding xs_def [symmetric] by (simp add: last_conv_nth)
qed

lemma read_batch_empty:
  assumes "read_batch own h last_id rows = []" "r \<in> set rows" "row_owner own r \<noteq> None" "\<not> h (row_id own r)"
  shows "\<not> beyond last_id r"
proof
  assume *: "beyond last_id r"
  define xs where "xs = sort_key (row_id own)
      (select_all (\<lambda>r. row_owner own r \<noteq> None \<and> \<not> h (row_id own r) \<and> beyond last_id r) rows)"
  have "r \<in> set xs" using assms * by (simp add: xs_def)
  moreover have "take label_batch xs = []" using assms(1) by (simp only: read_batch_def xs_def)
  ultimately show False by (auto simp: label_batch_def)
qed

text \<open>One batch, seen from the whole table.\<close>

definition batch_step :: "'a master_db_scheme \<Rightarrow> datetime \<Rightarrow> 'r list \<Rightarrow> 'r \<Rightarrow> 'r" where
  "batch_step db now batch r = (if r \<in> set batch then fst (refreshed own db now r) else r)"

lemma batch_step_kept [simp]:
  "row_id own (batch_step db now batch r) = row_id own r" "row_owner own (batch_step db now batch r) = row_owner own r"
  by (simp_all add: batch_step_def)

lemma write_batch_step:
  assumes "distinct (map (row_id own) rows)" "set batch \<subseteq> set rows" "\<forall>r \<in> set batch. row_owner own r \<noteq> None"
  shows "write_batch own (get_user_display_labels (map (\<lambda>r. the (row_owner own r)) batch) db) now batch rows
    = map (batch_step db now batch) rows"
proof -
  have "row_id own r \<in> row_id own ` set batch \<longleftrightarrow> r \<in> set batch" if "r \<in> set rows" for r
    using that assms(2) distinct_key_unique [OF assms(1)] by blast
  then show ?thesis using assms(3) by (auto simp: write_batch_def update_where_def batch_step_def refresh_row_batch)
qed

lemma fewer_beyond:
  assumes "x \<in> set rows" "beyond last_id x"
  shows "length (filter (beyond (Some (row_id own x))) (map (batch_step db now batch) rows)) < length (filter (beyond last_id) rows)"
proof -
  have "filter (beyond (Some (row_id own x))) (map (batch_step db now batch) rows)
      = map (batch_step db now batch) (filter (beyond (Some (row_id own x))) (filter (beyond last_id) rows))"
    using assms(2) by (auto simp: filter_map comp_def split: option.splits intro!: arg_cong [where f = "map _"] filter_cong)
  moreover have "length (filter (beyond (Some (row_id own x))) (filter (beyond last_id) rows)) < length (filter (beyond last_id) rows)"
    by (rule length_filter_less [of x]) (use assms in auto)
  ultimately show ?thesis by simp
qed

text \<open>
  What the loop has done by the end: it has a result, in which every row is as it was or refreshed once,
  at the instant of its batch and while it was not held; a row that is never held has been refreshed.
\<close>

definition refreshes_once ::
  "'a master_db_scheme \<Rightarrow> (nat \<Rightarrow> uuid \<Rightarrow> bool) \<Rightarrow> (nat \<Rightarrow> datetime) \<Rightarrow> nat \<Rightarrow> uuid option \<Rightarrow> 'r list \<Rightarrow> ('r \<Rightarrow> 'r) \<Rightarrow> bool" where
  "refreshes_once db h clock k last_id rows f \<longleftrightarrow>
     (\<forall>r \<in> set rows. f r = r \<or> beyond last_id r \<and> row_owner own r \<noteq> None
        \<and> (\<exists>j \<ge> k. \<not> h j (row_id own r) \<and> f r = fst (refreshed own db (clock j) r)))
   \<and> (\<forall>r \<in> set rows. beyond last_id r \<longrightarrow> row_owner own r \<noteq> None \<longrightarrow> (\<forall>j \<ge> k. \<not> h j (row_id own r))
        \<longrightarrow> (\<exists>j \<ge> k. f r = fst (refreshed own db (clock j) r)))"

lemma refreshes_once_step:
  assumes d: "distinct (map (row_id own) rows)" and batch: "batch = read_batch own (h k) last_id rows" "batch \<noteq> []"
    and f: "refreshes_once db h clock (k + 1) (Some (row_id own (last batch))) (map (batch_step db (clock k) batch) rows) f"
  shows "refreshes_once db h clock k last_id rows (f \<circ> batch_step db (clock k) batch)"
    "r \<in> set batch \<Longrightarrow> f (batch_step db (clock k) batch r) = fst (refreshed own db (clock k) r)"
proof -
  note b = read_batch_set [of _ "h k" last_id rows, folded batch(1)] read_batch_le_last [of _ "h k" last_id rows, folded batch(1)]
  have ina: "f (batch_step db (clock k) batch r) = fst (refreshed own db (clock k) r)" if "r \<in> set batch" for r
    using f b [OF that] that unfolding refreshes_once_def by (force simp: batch_step_def)
  then show "r \<in> set batch \<Longrightarrow> f (batch_step db (clock k) batch r) = fst (refreshed own db (clock k) r)" .
  have l: "beyond last_id (last batch)" using b batch(2) by simp
  have out: "f r = r \<or> beyond last_id r \<and> row_owner own r \<noteq> None
        \<and> (\<exists>j \<ge> k. \<not> h j (row_id own r) \<and> f r = fst (refreshed own db (clock j) r))"
    if "r \<in> set rows" "r \<notin> set batch" for r
  proof -
    have "r \<in> set (map (batch_step db (clock k) batch) rows)" using that by (force simp: batch_step_def)
    with f have "f r = r \<or> beyond (Some (row_id own (last batch))) r \<and> row_owner own r \<noteq> None
        \<and> (\<exists>j \<ge> k + 1. \<not> h j (row_id own r) \<and> f r = fst (refreshed own db (clock j) r))"
      unfolding refreshes_once_def by blast
    then consider "f r = r" | j where "beyond (Some (row_id own (last batch))) r" "row_owner own r \<noteq> None" "j \<ge> k + 1"
      "\<not> h j (row_id own r)" "f r = fst (refreshed own db (clock j) r)" by blast
    then show ?thesis
    proof cases
      case 2
      then have "beyond last_id r" using l by (auto split: option.splits)
      moreover have "k \<le> j" using 2(3) by simp
      ultimately show ?thesis using 2 by blast
    qed simp
  qed
  have never: "\<exists>j \<ge> k. f r = fst (refreshed own db (clock j) r)"
    if "r \<in> set rows" "r \<notin> set batch" "beyond last_id r" "row_owner own r \<noteq> None" "\<forall>j \<ge> k. \<not> h j (row_id own r)" for r
  proof -
    have "row_id own (last batch) < row_id own r"
      using read_batch_rest [OF d that(1,4) _ that(3), of "h k"] that(2,5) batch by auto
    moreover have "r \<in> set (map (batch_step db (clock k) batch) rows)" using that by (force simp: batch_step_def)
    ultimately show ?thesis using f that(4,5) unfolding refreshes_once_def by (metis Suc_eq_plus1 Suc_leD option.simps(5))
  qed
  show "refreshes_once db h clock k last_id rows (f \<circ> batch_step db (clock k) batch)"
    unfolding refreshes_once_def
  proof (intro conjI ballI impI)
    fix r assume r: "r \<in> set rows"
    show "(f \<circ> batch_step db (clock k) batch) r = r \<or> beyond last_id r \<and> row_owner own r \<noteq> None
        \<and> (\<exists>j \<ge> k. \<not> h j (row_id own r) \<and> (f \<circ> batch_step db (clock k) batch) r = fst (refreshed own db (clock j) r))"
      using ina b out [OF r] by (cases "r \<in> set batch") (auto simp: batch_step_def)
    assume "beyond last_id r" "row_owner own r \<noteq> None" "\<forall>j \<ge> k. \<not> h j (row_id own r)"
    then show "\<exists>j \<ge> k. (f \<circ> batch_step db (clock k) batch) r = fst (refreshed own db (clock j) r)"
      using ina never [OF r] by (cases "r \<in> set batch") (auto simp: batch_step_def)
  qed
qed

lemma changed_split:
  assumes "set batch \<subseteq> set rows"
    "\<And>r. r \<in> set batch \<Longrightarrow> f (batch_step db now batch r) = fst (refreshed own db now r)"
  shows "card {r \<in> set batch. snd (refreshed own db now r)}
      + card {x \<in> set (map (batch_step db now batch) rows). row_label own (f x) \<noteq> row_label own x}
    = card {r \<in> set rows. row_label own ((f \<circ> batch_step db now batch) r) \<noteq> row_label own r}"
proof -
  define N where "N = {r \<in> set rows - set batch. row_label own (f r) \<noteq> row_label own r}"
  have "{x \<in> set (map (batch_step db now batch) rows). row_label own (f x) \<noteq> row_label own x} = N"
    using assms unfolding N_def by (force simp: batch_step_def)
  moreover have "{r \<in> set rows. row_label own ((f \<circ> batch_step db now batch) r) \<noteq> row_label own r}
      = {r \<in> set batch. snd (refreshed own db now r)} \<union> N"
    using assms unfolding N_def by (auto simp: refreshed_changes) (auto simp: batch_step_def split: if_splits)
  moreover have "{r \<in> set batch. snd (refreshed own db now r)} \<inter> N = {}" "finite N" by (auto simp: N_def)
  ultimately show ?thesis by (simp add: card_Un_disjoint)
qed

lemma batch_count:
  assumes "distinct (map (row_id own) rows)"
  shows "length (filter (\<lambda>r. snd (refresh_row own (get_user_display_labels (map (\<lambda>r. the (row_owner own r))
      (read_batch own h last_id rows)) db) now r)) (read_batch own h last_id rows))
    = card {r \<in> set (read_batch own h last_id rows). snd (refreshed own db now r)}"
proof -
  have "distinct rows" using assms by (simp add: distinct_map)
  then have "distinct (read_batch own h last_id rows)" by (simp add: read_batch_def select_all_def)
  moreover have "filter (\<lambda>r. snd (refresh_row own (get_user_display_labels (map (\<lambda>r. the (row_owner own r))
      (read_batch own h last_id rows)) db) now r)) (read_batch own h last_id rows)
    = filter (\<lambda>r. snd (refreshed own db now r)) (read_batch own h last_id rows)"
    using read_batch_set [of _ h last_id rows] by (auto intro!: filter_cong simp: refresh_row_batch)
  ultimately show ?thesis by (simp add: distinct_length_filter Int_def conj_commute)
qed

lemma refresh_table_ends:
  assumes "distinct (map (row_id own) rows)"
  shows "\<exists>f. refresh_table own db h clock k last_id rows c
        = Some (map f rows, c + card {r \<in> set rows. row_label own (f r) \<noteq> row_label own r})
    \<and> refreshes_once db h clock k last_id rows f"
  using assms
proof (induction "length (filter (beyond last_id) rows)" arbitrary: k last_id rows c rule: less_induct)
  case less
  define batch where "batch = read_batch own (h k) last_id rows"
  define g where "g = batch_step db (clock k) batch"
  note d = less.prems
  note eq = refresh_table.simps [of own db h clock k last_id rows c, unfolded Let_def, folded batch_def]
  show ?case
  proof (cases "batch = []")
    case True
    have "refreshes_once db h clock k last_id rows id"
      using read_batch_empty [of "h k" last_id rows] True unfolding refreshes_once_def batch_def by auto
    then show ?thesis using True eq by (intro exI [of _ id]) auto
  next
    case False
    note b = read_batch_set [of _ "h k" last_id rows, folded batch_def]
    have sub: "set batch \<subseteq> set rows" "\<forall>r \<in> set batch. row_owner own r \<noteq> None" using b by auto
    have ids: "map (row_id own) (map g rows) = map (row_id own) rows" by (simp add: g_def)
    have d': "distinct (map (row_id own) (map g rows))" using d unfolding ids .
    have fewer: "length (filter (beyond (Some (row_id own (last batch)))) (map g rows)) < length (filter (beyond last_id) rows)"
      unfolding g_def by (rule fewer_beyond) (use b False in auto)
    obtain f where f: "refresh_table own db h clock (k + 1) (Some (row_id own (last batch))) (map g rows)
          (c + card {r \<in> set batch. snd (refreshed own db (clock k) r)})
        = Some (map f (map g rows), c + card {r \<in> set batch. snd (refreshed own db (clock k) r)}
            + card {x \<in> set (map g rows). row_label own (f x) \<noteq> row_label own x})"
      and once: "refreshes_once db h clock (k + 1) (Some (row_id own (last batch))) (map g rows) f"
      using less.hyps [OF fewer d'] by blast
    note step = refreshes_once_step [OF d batch_def False once [unfolded g_def], folded g_def]
    have "card {r \<in> set batch. snd (refreshed own db (clock k) r)} + card {x \<in> set (map g rows). row_label own (f x) \<noteq> row_label own x}
        = card {r \<in> set rows. row_label own ((f \<circ> g) r) \<noteq> row_label own r}"
      unfolding g_def by (rule changed_split) (use sub step(2) in \<open>auto simp: g_def\<close>)
    moreover have "length (filter (\<lambda>r. snd (refresh_row own (get_user_display_labels (map (\<lambda>r. the (row_owner own r)) batch) db) (clock k) r)) batch)
        = card {r \<in> set batch. snd (refreshed own db (clock k) r)}"
      unfolding batch_def by (rule batch_count [OF d])
    ultimately show ?thesis using eq False f step(1) write_batch_step [OF d sub, of db "clock k", folded g_def]
      by (intro exI [of _ "f \<circ> g"]) simp
  qed
qed

end

context labelled_table
begin

text \<open>A refreshed row keeps its label the next time.\<close>

lemma refreshed_again: "snd (refreshed own db t (fst (refreshed own db t' r))) = False"
  unfolding refreshed_def refresh_row_def by (auto split: option.splits simp: Option.bind_eq_Some_conv)

text \<open>The result of the loop, row by row, and that a second one changes no label.\<close>

lemma refresh_table_rows:
  assumes "distinct (map (row_id own) rows)"
  shows "\<exists>rows'. refresh_table own db h clock 0 None rows 0 = Some (rows', labels_changed own rows rows')
    \<and> refreshed_rows own db h clock rows rows' \<and> map (row_id own) rows' = map (row_id own) rows"
proof -
  obtain f where f: "refresh_table own db h clock 0 None rows 0
        = Some (map f rows, card {r \<in> set rows. row_label own (f r) \<noteq> row_label own r})"
    and once: "refreshes_once db h clock 0 None rows f"
    using refresh_table_ends [OF assms, of db h clock 0 None 0] by auto
  have "distinct rows" using assms by (simp add: distinct_map)
  then have "labels_changed own rows (map f rows) = card {r \<in> set rows. row_label own (f r) \<noteq> row_label own r}"
    by (simp add: labels_changed_def zip_map2 zip_same_conv_map filter_map comp_def distinct_length_filter Int_def conj_commute)
  moreover have "refreshed_rows own db h clock rows (map f rows)"
    using once by (auto simp: refreshes_once_def refreshed_rows_def list_all2_map2 intro!: list.rel_refl_strong)
  moreover have "row_id own (f r) = row_id own r" if "r \<in> set rows" for r
    using once that unfolding refreshes_once_def by (metis refreshed_kept(3))
  ultimately show ?thesis using f by (intro exI [of _ "map f rows"]) simp
qed

lemma second_refresh_changes_nothing:
  assumes "refreshed_rows own db h clock rows rows'" "\<forall>j i. \<not> h j i" "refreshed_rows own db h' clock' rows' rows''"
  shows "labels_changed own rows' rows'' = 0"
proof -
  have "row_label own r'' = row_label own r'" if "i < length rows'" "r' = rows' ! i" "r'' = rows'' ! i" for i r' r''
  proof -
    have one: "row_owner own (rows ! i) = None \<and> r' = rows ! i \<or> (\<exists>t. r' = fst (refreshed own db t (rows ! i)))"
      and two: "r'' = r' \<or> row_owner own r' \<noteq> None \<and> (\<exists>t. r'' = fst (refreshed own db t r'))"
      using assms that unfolding refreshed_rows_def list_all2_conv_all_nth by metis+
    have "snd (refreshed own db t r') = False" if "r' = fst (refreshed own db t' (rows ! i))" for t t'
      using that refreshed_again by metis
    then show ?thesis using one two refreshed_changes by metis
  qed
  moreover have "length rows'' = length rows'" using assms(3) by (simp add: refreshed_rows_def list_all2_lengthD)
  ultimately have "\<forall>p \<in> set (zip rows' rows''). row_label own (snd p) = row_label own (fst p)" by (auto simp: set_zip)
  then show ?thesis by (auto simp: labels_changed_def filter_empty_conv)
qed

end

interpretation offer_labels: labelled_table offer_owned
  by unfold_locales (simp_all add: offer_owned_def)

interpretation contract_labels: labelled_table contract_owned
  by unfold_locales (simp_all add: contract_owned_def)

interpretation deal_labels: labelled_table deal_owned
  by unfold_locales (simp_all add: deal_owned_def)

lemma refreshed_users: "users db' = users db \<Longrightarrow> refreshed own db' = refreshed own db"
  by (auto simp: refreshed_def get_user_display_labels_def fun_eq_iff)

lemma refreshed_rows_users:
  assumes "users db' = users db"
  shows "refreshed_rows own db' h clock rows rows' = refreshed_rows own db h clock rows rows'"
  by (simp add: refreshed_rows_def refreshed_users [OF assms])

lemma refresh_owner_labels_ends:
  assumes "distinct (map off_id (sales_offers db))" "distinct (map con_id (sales_contracts db))"
    "distinct (map sd_id (sales_deals db))"
  shows "\<exists>offers contracts deals. refresh_owner_labels env db
      = Some (db\<lparr>sales_offers := offers, sales_contracts := contracts, sales_deals := deals\<rparr>,
          labels_changed offer_owned (sales_offers db) offers + labels_changed contract_owned (sales_contracts db) contracts
          + labels_changed deal_owned (sales_deals db) deals)
    \<and> refreshed_rows offer_owned db (offers_held env) (offers_clock env) (sales_offers db) offers
    \<and> refreshed_rows contract_owned db (contracts_held env) (contracts_clock env) (sales_contracts db) contracts
    \<and> refreshed_rows deal_owned db (deals_held env) (deals_clock env) (sales_deals db) deals
    \<and> map off_id offers = map off_id (sales_offers db)
    \<and> map con_id contracts = map con_id (sales_contracts db)
    \<and> map sd_id deals = map sd_id (sales_deals db)"
proof -
  have ids: "row_id offer_owned = off_id" "row_id contract_owned = con_id" "row_id deal_owned = sd_id"
    by (simp_all add: offer_owned_def contract_owned_def deal_owned_def)
  obtain offers where o1: "refresh_table offer_owned db (offers_held env) (offers_clock env) 0 None (sales_offers db) 0
      = Some (offers, labels_changed offer_owned (sales_offers db) offers)"
    "refreshed_rows offer_owned db (offers_held env) (offers_clock env) (sales_offers db) offers"
    "map (row_id offer_owned) offers = map (row_id offer_owned) (sales_offers db)"
    using offer_labels.refresh_table_rows [of "sales_offers db"] assms(1) unfolding ids by metis
  define db1 where "db1 = db\<lparr>sales_offers := offers\<rparr>"
  obtain contracts where c: "refresh_table contract_owned db1 (contracts_held env) (contracts_clock env) 0 None (sales_contracts db) 0
      = Some (contracts, labels_changed contract_owned (sales_contracts db) contracts)"
    "refreshed_rows contract_owned db1 (contracts_held env) (contracts_clock env) (sales_contracts db) contracts"
    "map (row_id contract_owned) contracts = map (row_id contract_owned) (sales_contracts db)"
    using contract_labels.refresh_table_rows [of "sales_contracts db"] assms(2) unfolding ids by metis
  define db2 where "db2 = db1\<lparr>sales_contracts := contracts\<rparr>"
  obtain deals where d: "refresh_table deal_owned db2 (deals_held env) (deals_clock env) 0 None (sales_deals db) 0
      = Some (deals, labels_changed deal_owned (sales_deals db) deals)"
    "refreshed_rows deal_owned db2 (deals_held env) (deals_clock env) (sales_deals db) deals"
    "map (row_id deal_owned) deals = map (row_id deal_owned) (sales_deals db)"
    using deal_labels.refresh_table_rows [of "sales_deals db"] assms(3) unfolding ids by metis
  have same: "users db1 = users db" "users db2 = users db" "sales_contracts db1 = sales_contracts db" "sales_deals db2 = sales_deals db"
    by (simp_all add: db1_def db2_def)
  have "refresh_owner_labels env db = Some (db2\<lparr>sales_deals := deals\<rparr>,
      labels_changed offer_owned (sales_offers db) offers + labels_changed contract_owned (sales_contracts db) contracts
      + labels_changed deal_owned (sales_deals db) deals)"
    by (simp add: refresh_owner_labels_def o1(1) Let_def db1_def [symmetric] c(1) db2_def [symmetric] d(1) same)
  moreover have "refreshed_rows contract_owned db (contracts_held env) (contracts_clock env) (sales_contracts db) contracts"
    "refreshed_rows deal_owned db (deals_held env) (deals_clock env) (sales_deals db) deals"
    using c(2) d(2) by (simp_all add: refreshed_rows_users [OF same(1)] refreshed_rows_users [OF same(2)])
  ultimately show ?thesis using o1(2,3) c(3) d(3) unfolding ids db2_def db1_def
    by (intro exI [of _ offers] exI [of _ contracts] exI [of _ deals]) simp
qed



end
