(* ===== verification/Core_Pagination.thy ===== *)
theory Core_Pagination
  imports Core_Store
begin

text \<open>
  Cursor pagination of the lists (\<^verbatim>\<open>app/core/pagination.py\<close>, \<^verbatim>\<open>sorting.py\<close>): the request's sort
  specification, the cursor, the keyset predicate with nulls last, one page, and the capped count.

  A row is any type with an identifier; a column is a function of the row, \<open>None\<close> being NULL. The text
  of a cursor is base64 of compact JSON; the model keeps the JSON value. Text values are ordered by their
  code points, which stands for the database's collation: another linear order with the same equality.
  The columns of a sort field hold values of one kind.
\<close>

section \<open>Values of a column\<close>

datatype sort_value =
    SV_Dt datetime
  | SV_Uuid uuid
  | SV_Bool bool
  | SV_Int int
  | SV_Str string
  | SV_Dec decimal

fun sv_kind :: "sort_value \<Rightarrow> nat" where
  "sv_kind (SV_Dt _) = 0"
| "sv_kind (SV_Uuid _) = 1"
| "sv_kind (SV_Bool _) = 2"
| "sv_kind (SV_Int _) = 3"
| "sv_kind (SV_Str _) = 4"
| "sv_kind (SV_Dec _) = 5"

fun sv_le :: "sort_value \<Rightarrow> sort_value \<Rightarrow> bool" where
  "sv_le (SV_Dt a) (SV_Dt b) = (a \<le> b)"
| "sv_le (SV_Uuid a) (SV_Uuid b) = (a \<le> b)"
| "sv_le (SV_Bool a) (SV_Bool b) = (a \<le> b)"
| "sv_le (SV_Int a) (SV_Int b) = (a \<le> b)"
| "sv_le (SV_Str a) (SV_Str b) = (a \<le> b)"
| "sv_le (SV_Dec a) (SV_Dec b) = (a \<le> b)"
| "sv_le a b = (sv_kind a < sv_kind b)"

instantiation sort_value :: linorder
begin

definition less_eq_sort_value :: "sort_value \<Rightarrow> sort_value \<Rightarrow> bool" where
  "less_eq_sort_value = sv_le"

definition less_sort_value :: "sort_value \<Rightarrow> sort_value \<Rightarrow> bool" where
  "less_sort_value a b \<longleftrightarrow> sv_le a b \<and> \<not> sv_le b a"

instance
proof
  fix a b c :: sort_value
  show "(a < b) = (a \<le> b \<and> \<not> b \<le> a)" by (simp add: less_sort_value_def less_eq_sort_value_def)
  show "a \<le> a" by (cases a) (simp_all add: less_eq_sort_value_def)
  show "a \<le> b \<Longrightarrow> b \<le> c \<Longrightarrow> a \<le> c"
    by (cases a; cases b; cases c) (auto simp: less_eq_sort_value_def)
  show "a \<le> b \<Longrightarrow> b \<le> a \<Longrightarrow> a = b" by (cases a; cases b) (auto simp: less_eq_sort_value_def)
  show "a \<le> b \<or> b \<le> a" by (cases a; cases b) (auto simp: less_eq_sort_value_def)
qed

end

section \<open>The sort parameter\<close>

record 'r sort_field =
  api_name :: string
  column :: "'r \<Rightarrow> sort_value option"
  descending :: bool

text \<open>\<open>str.split(",")\<close> and \<open>str.partition(":")\<close>, on a separator character.\<close>

fun split_at_char :: "char \<Rightarrow> string \<Rightarrow> string list" where
  "split_at_char c [] = [[]]"
| "split_at_char c (x # xs) = (if x = c then [] # split_at_char c xs
     else (case split_at_char c xs of [] \<Rightarrow> [[x]] | p # ps \<Rightarrow> (x # p) # ps))"

definition partition_at_char :: "char \<Rightarrow> string \<Rightarrow> (string \<times> string) option" where
  "partition_at_char c s = (case dropWhile (\<lambda>x. x \<noteq> c) s of [] \<Rightarrow> None | _ # rest \<Rightarrow> Some (takeWhile (\<lambda>x. x \<noteq> c) s, rest))"

definition parse_sort_part ::
  "(string \<times> ('r \<Rightarrow> sort_value option)) list \<Rightarrow> string list \<Rightarrow> string \<Rightarrow> 'r sort_field result" where
  "parse_sort_part allowed seen part =
     (case partition_at_char (CHR '':'') part of
        None \<Rightarrow> Inl (UnprocessableEntityError [(''sort'', JStr part)])
      | Some (name, direction) \<Rightarrow>
        (case map_of allowed name of
           None \<Rightarrow> Inl (UnprocessableEntityError [(''field'', JStr name), (''allowed'', JList (map JStr (sort (map fst allowed))))])
         | Some col \<Rightarrow>
             if direction \<noteq> ''asc'' \<and> direction \<noteq> ''desc''
             then Inl (UnprocessableEntityError [(''field'', JStr name), (''direction'', JStr direction)])
             else if List.member seen name then Inl (UnprocessableEntityError [(''field'', JStr name)])
             else Inr \<lparr>api_name = name, column = col, descending = (direction = ''desc'')\<rparr>))"

fun parse_sort_parts ::
  "(string \<times> ('r \<Rightarrow> sort_value option)) list \<Rightarrow> string list \<Rightarrow> string list \<Rightarrow> 'r sort_field list result" where
  "parse_sort_parts allowed seen [] = Inr []"
| "parse_sort_parts allowed seen (raw # rest) =
     (let part = strip_text raw in
      if part = [] then parse_sort_parts allowed seen rest
      else bindR (parse_sort_part allowed seen part) (\<lambda>f.
        bindR (parse_sort_parts allowed (api_name f # seen) rest) (\<lambda>fs. Inr (f # fs))))"

definition parse_sort ::
  "(string \<times> ('r \<Rightarrow> sort_value option)) list \<Rightarrow> string option \<Rightarrow> 'r sort_field list result" where
  "parse_sort allowed s = (case s of None \<Rightarrow> Inr []
     | Some t \<Rightarrow> if t = [] then Inr [] else parse_sort_parts allowed [] (split_at_char (CHR '','') t))"

section \<open>Cursors\<close>

fun serialize_sort_value :: "sort_value option \<Rightarrow> json result" where
  "serialize_sort_value None = Inr (JList [JStr ''null'', JNull])"
| "serialize_sort_value (Some (SV_Dt t)) = Inr (JList [JStr ''dt'', JTime t])"
| "serialize_sort_value (Some (SV_Uuid u)) = Inr (JList [JStr ''uuid'', JUuid u])"
| "serialize_sort_value (Some (SV_Bool b)) = Inr (JList [JStr ''bool'', JBool b])"
| "serialize_sort_value (Some (SV_Int i)) = Inr (JList [JStr ''int'', JInt i])"
| "serialize_sort_value (Some (SV_Str s)) = Inr (JList [JStr ''str'', JStr s])"
| "serialize_sort_value (Some (SV_Dec d)) = Inl TypeError"

text \<open>
  \<open>tag, value = tagged\<close> unpacks any two-element sequence, a two-letter text and the keys of a
  two-element object included.
\<close>

fun unpack_pair :: "json \<Rightarrow> (json \<times> json) result" where
  "unpack_pair (JList [a, b]) = Inr (a, b)"
| "unpack_pair (JStr [a, b]) = Inr (JStr [a], JStr [b])"
| "unpack_pair (JObj [(a, _), (b, _)]) = Inr (JStr a, JStr b)"
| "unpack_pair (JList _) = Inl ValueError"
| "unpack_pair (JStr _) = Inl ValueError"
| "unpack_pair (JObj _) = Inl ValueError"
| "unpack_pair _ = Inl TypeError"

text \<open>
  Under the tags of the plain values the value is taken as it is. A value no column has (a fraction, a
  list, an object) reaches the database, whose refusal is the \<open>RuntimeError\<close> here.
\<close>

fun plain_value :: "json \<Rightarrow> sort_value option result" where
  "plain_value JNull = Inr None"
| "plain_value (JBool b) = Inr (Some (SV_Bool b))"
| "plain_value (JInt i) = Inr (Some (SV_Int i))"
| "plain_value (JStr s) = Inr (Some (SV_Str s))"
| "plain_value _ = Inl RuntimeError"

definition deserialize_sort_value :: "json \<Rightarrow> sort_value option result" where
  "deserialize_sort_value tagged = bindR (unpack_pair tagged) (\<lambda>(tag, value).
     if tag = JStr ''null'' then Inr None
     else if tag = JStr ''dt'' then (case value of JTime t \<Rightarrow> Inr (Some (SV_Dt t)) | JStr _ \<Rightarrow> Inl ValueError | _ \<Rightarrow> Inl TypeError)
     else if tag = JStr ''uuid'' then (case value of JUuid u \<Rightarrow> Inr (Some (SV_Uuid u)) | JNull \<Rightarrow> Inl TypeError | JStr _ \<Rightarrow> Inl ValueError | _ \<Rightarrow> Inl AttributeError)
     else if tag \<in> {JStr ''bool'', JStr ''int'', JStr ''str''} then plain_value value
     else Inl ValueError)"

record sort_cursor_position =
  cursor_values :: "sort_value option list"
  cursor_id :: "sort_value option"

fun mapR :: "('a \<Rightarrow> 'e + 'b) \<Rightarrow> 'a list \<Rightarrow> 'e + 'b list" where
  "mapR f [] = Inr []"
| "mapR f (x # xs) = bindR (f x) (\<lambda>y. bindR (mapR f xs) (\<lambda>ys. Inr (y # ys)))"

definition encode_sort_cursor :: "sort_value option list \<Rightarrow> uuid \<Rightarrow> json result" where
  "encode_sort_cursor vals rid =
     bindR (mapR serialize_sort_value vals) (\<lambda>js. Inr (JList (js @ [JList [JStr ''uuid'', JUuid rid]])))"

text \<open>\<open>except (ValueError, KeyError, TypeError)\<close>: these become the client's error.\<close>

fun bad_cursor :: "exn \<Rightarrow> exn" where
  "bad_cursor ValueError = BadRequestError []"
| "bad_cursor KeyError = BadRequestError []"
| "bad_cursor TypeError = BadRequestError []"
| "bad_cursor e = e"

definition decode_sort_cursor :: "json \<Rightarrow> sort_cursor_position result" where
  "decode_sort_cursor payload =
     (case (case payload of
          JList js \<Rightarrow> if js = [] then Inl ValueError
            else bindR (mapR deserialize_sort_value (butlast js)) (\<lambda>vs.
                 bindR (deserialize_sort_value (last js)) (\<lambda>i. Inr \<lparr>cursor_values = vs, cursor_id = i\<rparr>))
        | _ \<Rightarrow> Inl ValueError) of
        Inl e \<Rightarrow> Inl (bad_cursor e) | Inr p \<Rightarrow> Inr p)"

section \<open>A page\<close>

text \<open>\<open>ORDER BY\<close> the fields, nulls last in both directions, then the identifier.\<close>

fun row_before :: "('r \<Rightarrow> uuid) \<Rightarrow> 'r sort_field list \<Rightarrow> 'r \<Rightarrow> 'r \<Rightarrow> bool" where
  "row_before rid [] r s = (rid r < rid s)"
| "row_before rid (f # fs) r s =
     (case (column f r, column f s) of
        (None, None) \<Rightarrow> row_before rid fs r s
      | (None, Some _) \<Rightarrow> False
      | (Some _, None) \<Rightarrow> True
      | (Some a, Some b) \<Rightarrow> if a = b then row_before rid fs r s else if descending f then b < a else a < b)"

fun insert_row :: "('r \<Rightarrow> 'r \<Rightarrow> bool) \<Rightarrow> 'r \<Rightarrow> 'r list \<Rightarrow> 'r list" where
  "insert_row before r [] = [r]"
| "insert_row before r (s # ss) = (if before r s then r # s # ss else s # insert_row before r ss)"

definition order_rows :: "('r \<Rightarrow> 'r \<Rightarrow> bool) \<Rightarrow> 'r list \<Rightarrow> 'r list" where
  "order_rows before rows = foldr (insert_row before) rows []"

text \<open>
  The keyset predicate. \<open>equal_so_far\<close> is the conjunction the loop has collected; the fields and the
  cursor's values are walked together until one list ends.
\<close>

fun after_cursor :: "('r \<Rightarrow> uuid) \<Rightarrow> bool \<Rightarrow> 'r sort_field list \<Rightarrow> sort_value option list \<Rightarrow> sort_value option \<Rightarrow> 'r \<Rightarrow> bool" where
  "after_cursor rid equal_so_far (f # fs) (v # vs) i r =
     (case v of
        None \<Rightarrow> after_cursor rid (equal_so_far \<and> column f r = None) fs vs i r
      | Some c \<Rightarrow>
          equal_so_far \<and> (case column f r of None \<Rightarrow> True | Some a \<Rightarrow> if descending f then a < c else c < a)
          \<or> after_cursor rid (equal_so_far \<and> column f r = Some c) fs vs i r)"
| "after_cursor rid equal_so_far _ _ i r = (equal_so_far \<and> (case i of Some (SV_Uuid u) \<Rightarrow> rid r > u | _ \<Rightarrow> False))"

record 'r sort_page_params =
  page_limit :: nat
  page_cursor :: "sort_cursor_position option"
  sort_fields :: "'r sort_field list"

definition paginate_query_sorted :: "('r \<Rightarrow> uuid) \<Rightarrow> 'r sort_page_params \<Rightarrow> 'r list \<Rightarrow> 'r list" where
  "paginate_query_sorted rid params rows =
     take (page_limit params + 1) (order_rows (row_before rid (sort_fields params))
       (case page_cursor params of None \<Rightarrow> rows
        | Some c \<Rightarrow> filter (after_cursor rid True (sort_fields params) (cursor_values c) (cursor_id c)) rows))"

definition build_sorted_page :: "('r \<Rightarrow> uuid) \<Rightarrow> 'r sort_page_params \<Rightarrow> 'r list \<Rightarrow> ('r list \<times> json option) result" where
  "build_sorted_page rid params rows =
     (let page_rows = take (page_limit params) rows in
      if length rows > page_limit params \<and> page_rows \<noteq> []
      then bindR (encode_sort_cursor (map (\<lambda>f. column f (last page_rows)) (sort_fields params)) (rid (last page_rows)))
             (\<lambda>c. Inr (page_rows, Some c))
      else Inr (page_rows, None))"

definition count_capped :: "nat \<Rightarrow> 'r list \<Rightarrow> nat \<times> bool" where
  "count_capped threshold rows =
     (let n = length (take (threshold + 1) rows) in if n > threshold then (threshold, True) else (n, False))"

text \<open>The older endpoints order by the instant of creation and the identifier only.\<close>

definition paginate_query :: "('r \<Rightarrow> datetime) \<Rightarrow> ('r \<Rightarrow> uuid) \<Rightarrow> nat \<Rightarrow> (datetime \<times> uuid) option \<Rightarrow> 'r list \<Rightarrow> 'r list" where
  "paginate_query created rid limit cursor rows =
     take (limit + 1) (order_rows (\<lambda>r s. created r < created s \<or> created r = created s \<and> rid r < rid s)
       (case cursor of None \<Rightarrow> rows
        | Some (t, i) \<Rightarrow> filter (\<lambda>r. created r > t \<or> created r = t \<and> rid r > i) rows))"

definition build_page :: "('r \<Rightarrow> datetime) \<Rightarrow> ('r \<Rightarrow> uuid) \<Rightarrow> nat \<Rightarrow> 'r list \<Rightarrow> 'r list \<times> (datetime \<times> uuid) option" where
  "build_page created rid limit rows =
     (let page_rows = take limit rows in
      (page_rows, if length rows > limit \<and> page_rows \<noteq> [] then Some (created (last page_rows), rid (last page_rows)) else None))"

section \<open>Reading a list to its end\<close>

text \<open>A client that asks for one page after the other with the cursor it was given, until there is none.\<close>

definition request_page :: "('r \<Rightarrow> uuid) \<Rightarrow> nat \<Rightarrow> 'r sort_field list \<Rightarrow> json option \<Rightarrow> 'r list \<Rightarrow> ('r list \<times> json option) result" where
  "request_page rid limit sfs cursor rows =
     bindR (case cursor of None \<Rightarrow> Inr None | Some c \<Rightarrow> bindR (decode_sort_cursor c) (\<lambda>p. Inr (Some p))) (\<lambda>pos.
       let params = \<lparr>page_limit = limit, page_cursor = pos, sort_fields = sfs\<rparr>
       in build_sorted_page rid params (paginate_query_sorted rid params rows))"

partial_function (option) read_pages ::
  "('r \<Rightarrow> uuid) \<Rightarrow> nat \<Rightarrow> 'r sort_field list \<Rightarrow> json option \<Rightarrow> 'r list \<Rightarrow> 'r list list result option" where
  "read_pages rid limit sfs cursor rows =
     (case request_page rid limit sfs cursor rows of
        Inl e \<Rightarrow> Some (Inl e)
      | Inr (page, None) \<Rightarrow> Some (Inr [page])
      | Inr (page, Some c) \<Rightarrow> Option.bind (read_pages rid limit sfs (Some c) rows)
          (\<lambda>r. Some (bindR r (\<lambda>pages. Inr (page # pages)))))"

section \<open>The order of a list\<close>

lemma row_before_irrefl: "\<not> row_before rid sfs r r"
  by (induction sfs) (auto split: option.splits)

lemma row_before_trans: "row_before rid sfs r s \<Longrightarrow> row_before rid sfs s t \<Longrightarrow> row_before rid sfs r t"
  by (induction sfs) (auto split: option.splits if_splits)

lemma row_before_asym: "row_before rid sfs r s \<Longrightarrow> \<not> row_before rid sfs s r"
  using row_before_trans [of rid sfs r s r] row_before_irrefl [of rid sfs r] by blast

lemma row_before_total: "rid r \<noteq> rid s \<Longrightarrow> row_before rid sfs r s \<or> row_before rid sfs s r"
  by (induction sfs) (auto split: option.splits)

text \<open>The keyset predicate picks the rows that come after the cursor's row.\<close>

lemma after_cursor_row:
  "after_cursor rid eq sfs (map (\<lambda>f. column f c) sfs) (Some (SV_Uuid (rid c))) r \<longleftrightarrow> eq \<and> row_before rid sfs c r"
  by (induction sfs arbitrary: eq) (auto split: option.splits)

lemma set_order_rows [simp]: "set (order_rows before rows) = set rows"
proof -
  have ins: "set (insert_row before r rs) = insert r (set rs)" for r rs by (induction rs) auto
  show ?thesis by (induction rows) (auto simp: order_rows_def ins)
qed

lemma length_order_rows [simp]: "length (order_rows before rows) = length rows"
proof -
  have ins: "length (insert_row before r rs) = Suc (length rs)" for r rs by (induction rs) auto
  show ?thesis by (induction rows) (auto simp: order_rows_def ins)
qed

lemma order_rows_sorted:
  assumes "distinct (map rid rows)"
  shows "sorted_wrt (row_before rid sfs) (order_rows (row_before rid sfs) rows)"
  using assms
proof (induction rows)
  case (Cons r rows)
  have ins: "sorted_wrt (row_before rid sfs) (insert_row (row_before rid sfs) r ss)"
    if "sorted_wrt (row_before rid sfs) ss" "rid r \<notin> rid ` set ss" for ss
    using that
  proof (induction ss)
    case (Cons s ss)
    have set_ins: "set (insert_row (row_before rid sfs) r ss) = insert r (set ss)" by (induction ss) auto
    show ?case using Cons row_before_trans [of rid sfs r s] row_before_total [of rid r s sfs] by (auto simp: set_ins)
  qed simp
  have "set (order_rows (row_before rid sfs) rows) = set rows" by simp
  then show ?case using Cons ins by (simp add: order_rows_def)
qed (simp add: order_rows_def)

lemma sorted_wrt_unique:
  assumes "\<And>a b. R a b \<Longrightarrow> \<not> R b a" "sorted_wrt R xs" "sorted_wrt R ys" "set xs = set ys"
  shows "xs = ys"
  using assms(2-4)
proof (induction xs arbitrary: ys)
  case (Cons x xs)
  obtain y ys' where ys: "ys = y # ys'" using Cons.prems(3) by (cases ys) auto
  have "x = y" using Cons.prems assms(1) unfolding ys by (metis insert_iff list.set(2) sorted_wrt.simps(2))
  moreover have "x \<notin> set xs" "y \<notin> set ys'" using Cons.prems(1,2) assms(1) unfolding ys by auto
  ultimately have "set xs = set ys'" using Cons.prems(3) unfolding ys by auto
  then show ?case using Cons \<open>x = y\<close> unfolding ys by simp
qed simp

text \<open>The rows after a row of the list are the rest of the list.\<close>

lemma order_rows_after:
  assumes "distinct (map rid rows)" "order_rows (row_before rid sfs) rows = xs @ c # ys"
  shows "order_rows (row_before rid sfs) (filter (row_before rid sfs c) rows) = ys"
proof (rule sorted_wrt_unique [where R = "row_before rid sfs"])
  note s = order_rows_sorted [OF assms(1), of sfs]
  show "sorted_wrt (row_before rid sfs) (order_rows (row_before rid sfs) (filter (row_before rid sfs c) rows))"
    by (rule order_rows_sorted) (use assms(1) in \<open>simp add: distinct_map_filter\<close>)
  show "sorted_wrt (row_before rid sfs) ys" using s unfolding assms(2) by (simp add: sorted_wrt_append)
  have "set rows = set xs \<union> {c} \<union> set ys" using arg_cong [OF assms(2), of set] by auto
  then show "set (order_rows (row_before rid sfs) (filter (row_before rid sfs c) rows)) = set ys"
    using s row_before_asym [of rid sfs] row_before_irrefl [of rid sfs c] unfolding assms(2) by (auto simp: sorted_wrt_append)
qed (rule row_before_asym)

section \<open>Cursors round trip\<close>

fun serialisable :: "sort_value option \<Rightarrow> bool" where
  "serialisable (Some (SV_Dec _)) = False"
| "serialisable _ = True"

lemma serialize_round_trip: "serialisable v \<Longrightarrow> \<exists>j. serialize_sort_value v = Inr j \<and> deserialize_sort_value j = Inr v"
  by (cases v rule: serialize_sort_value.cases) (auto simp: deserialize_sort_value_def)

lemma serialize_error: "\<not> serialisable v \<Longrightarrow> serialize_sort_value v = Inl TypeError"
  by (cases v rule: serialisable.cases) auto

lemma mapR_round_trip: "\<forall>v \<in> set vs. serialisable v \<Longrightarrow> \<exists>js. mapR serialize_sort_value vs = Inr js \<and> mapR deserialize_sort_value js = Inr vs"
proof (induction vs)
  case (Cons v vs)
  obtain j where "serialize_sort_value v = Inr j" "deserialize_sort_value j = Inr v" using serialize_round_trip [of v] Cons.prems by auto
  moreover obtain js where "mapR serialize_sort_value vs = Inr js" "mapR deserialize_sort_value js = Inr vs" using Cons by auto
  ultimately show ?case by (intro exI [of _ "j # js"]) simp
qed simp

lemma mapR_error: "\<exists>v \<in> set vs. \<not> serialisable v \<Longrightarrow> mapR serialize_sort_value vs = Inl TypeError"
proof (induction vs)
  case (Cons v vs)
  show ?case using Cons serialize_error serialize_round_trip [of v] by (cases "serialisable v") auto
qed simp

lemma cursor_round_trip:
  assumes "\<forall>v \<in> set vs. serialisable v"
  shows "\<exists>c. encode_sort_cursor vs i = Inr c \<and> decode_sort_cursor c = Inr \<lparr>cursor_values = vs, cursor_id = Some (SV_Uuid i)\<rparr>"
proof -
  obtain js where "mapR serialize_sort_value vs = Inr js" "mapR deserialize_sort_value js = Inr vs" using mapR_round_trip [OF assms] by blast
  then show ?thesis by (simp add: encode_sort_cursor_def decode_sort_cursor_def deserialize_sort_value_def)
qed

section \<open>The pages\<close>

text \<open>What the pages of a list should be: full pages of \<open>n\<close> rows and the rest.\<close>

function pages_of :: "nat \<Rightarrow> 'r list \<Rightarrow> 'r list list" where
  "pages_of n xs = (if n = 0 \<or> length xs \<le> n then [xs] else take n xs # pages_of n (drop n xs))"
  by pat_completeness auto
termination by (relation "measure (\<lambda>(n, xs). length xs)") auto

declare pages_of.simps [simp del]

lemma concat_pages_of: "concat (pages_of n xs) = xs"
  by (induction n xs rule: pages_of.induct) (subst pages_of.simps, auto)

lemma length_pages_of: "1 \<le> n \<Longrightarrow> length (pages_of n xs) \<le> length xs div n + 1"
proof (induction n xs rule: pages_of.induct)
  case (1 n xs)
  show ?case
  proof (cases "length xs \<le> n")
    case False
    then have "length (pages_of n (drop n xs)) \<le> (length xs - n) div n + 1" using 1 by simp
    also have "(length xs - n) div n + 1 = length xs div n" using False 1(2) by (subst le_div_geq) auto
    finally show ?thesis using False 1(2) by (subst pages_of.simps) simp
  qed (subst pages_of.simps, simp)
qed

lemma pages_of_limit: "1 \<le> n \<Longrightarrow> page \<in> set (pages_of n xs) \<Longrightarrow> length page \<le> n"
  by (induction n xs rule: pages_of.induct) (subst (asm) (2) pages_of.simps, auto split: if_splits)

lemma last_of_page:
  assumes "1 \<le> n" "n < length xs"
  shows "take n xs \<noteq> []" "last (take n xs) = xs ! (n - 1)"
proof -
  show ne: "take n xs \<noteq> []" using assms by auto
  show "last (take n xs) = xs ! (n - 1)" using assms unfolding last_conv_nth [OF ne] by (simp add: min_def)
qed

lemma request_page_step:
  assumes rows: "distinct (map rid rows)" "order_rows (row_before rid sfs) rows = pre @ rest"
    and cursor: "cursor = None \<and> pre = [] \<or> (\<exists>c. cursor = Some c \<and> pre \<noteq> [] \<and>
        decode_sort_cursor c = Inr \<lparr>cursor_values = map (\<lambda>f. column f (last pre)) sfs, cursor_id = Some (SV_Uuid (rid (last pre)))\<rparr>)"
    and limit: "1 \<le> limit"
  shows "request_page rid limit sfs cursor rows =
    (if length rest \<le> limit then Inr (rest, None)
     else bindR (encode_sort_cursor (map (\<lambda>f. column f (rest ! (limit - 1))) sfs) (rid (rest ! (limit - 1)))) (\<lambda>c. Inr (take limit rest, Some c)))"
proof -
  define pos where "pos = (case cursor of None \<Rightarrow> None | Some _ \<Rightarrow> Some \<lparr>cursor_values = map (\<lambda>f. column f (last pre)) sfs, cursor_id = Some (SV_Uuid (rid (last pre)))\<rparr>)"
  have "order_rows (row_before rid sfs) (case pos of None \<Rightarrow> rows
      | Some c \<Rightarrow> filter (after_cursor rid True sfs (cursor_values c) (cursor_id c)) rows) = rest"
  proof (cases cursor)
    case (Some c)
    then have "order_rows (row_before rid sfs) rows = butlast pre @ last pre # rest" using rows(2) cursor by simp
    moreover have "after_cursor rid True sfs (map (\<lambda>f. column f (last pre)) sfs) (Some (SV_Uuid (rid (last pre)))) = row_before rid sfs (last pre)"
      by (simp add: fun_eq_iff after_cursor_row)
    ultimately show ?thesis using order_rows_after [OF rows(1)] Some by (simp add: pos_def)
  qed (use rows(2) cursor in \<open>simp add: pos_def\<close>)
  then have q: "paginate_query_sorted rid \<lparr>page_limit = limit, page_cursor = pos, sort_fields = sfs\<rparr> rows = take (limit + 1) rest"
    by (simp add: paginate_query_sorted_def cong: option.case_cong)
  have l: "last (take limit rest) = rest ! (limit - 1)" "take limit rest \<noteq> []" if "\<not> length rest \<le> limit"
    using last_of_page [OF limit, of rest] that by simp_all
  have dec: "(case cursor of None \<Rightarrow> Inr None | Some c \<Rightarrow> bindR (decode_sort_cursor c) (\<lambda>p. Inr (Some p))) = Inr pos"
    using cursor by (auto simp: pos_def)
  have "request_page rid limit sfs cursor rows
      = build_sorted_page rid \<lparr>page_limit = limit, page_cursor = pos, sort_fields = sfs\<rparr> (take (limit + 1) rest)"
    by (simp add: request_page_def dec Let_def q)
  also have "\<dots> = (if length rest \<le> limit then Inr (rest, None)
     else bindR (encode_sort_cursor (map (\<lambda>f. column f (rest ! (limit - 1))) sfs) (rid (rest ! (limit - 1)))) (\<lambda>c. Inr (take limit rest, Some c)))"
    using l limit by (auto simp: build_sorted_page_def Let_def min_def)
  finally show ?thesis .
qed

lemma read_pages_rest:
  assumes rows: "distinct (map rid rows)" and ok: "\<forall>r \<in> set rows. \<forall>f \<in> set sfs. serialisable (column f r)" and "1 \<le> limit"
    "order_rows (row_before rid sfs) rows = pre @ rest"
    "cursor = None \<and> pre = [] \<or> (\<exists>c. cursor = Some c \<and> pre \<noteq> [] \<and>
        decode_sort_cursor c = Inr \<lparr>cursor_values = map (\<lambda>f. column f (last pre)) sfs, cursor_id = Some (SV_Uuid (rid (last pre)))\<rparr>)"
  shows "read_pages rid limit sfs cursor rows = Some (Inr (pages_of limit rest))"
  using assms(3-5)
proof (induction limit rest arbitrary: pre cursor rule: pages_of.induct)
  case (1 n rest)
  note page = request_page_step [OF rows 1(3,4,2)]
  show ?case
  proof (cases "length rest \<le> n")
    case True
    then show ?thesis by (subst read_pages.simps, subst pages_of.simps) (simp add: page)
  next
    case False
    define c where "c = rest ! (n - 1)"
    have "c \<in> set rest" using False 1(2) by (simp add: c_def)
    then have "c \<in> set rows" using arg_cong [OF 1(3), of set] by auto
    then obtain j where j: "encode_sort_cursor (map (\<lambda>f. column f c) sfs) (rid c) = Inr j"
      "decode_sort_cursor j = Inr \<lparr>cursor_values = map (\<lambda>f. column f c) sfs, cursor_id = Some (SV_Uuid (rid c))\<rparr>"
      using cursor_round_trip [of "map (\<lambda>f. column f c) sfs" "rid c"] ok by auto
    have c: "last (pre @ take n rest) = c" "take n rest \<noteq> []" using last_of_page [OF 1(2), of rest] False by (simp_all add: c_def)
    have "read_pages rid n sfs (Some j) rows = Some (Inr (pages_of n (drop n rest)))"
      by (rule 1(1) [of "pre @ take n rest"]) (use False 1(2,3) j(2) c in auto)
    then show ?thesis using False 1(2)
      by (subst read_pages.simps, subst pages_of.simps) (simp add: page [folded c_def] j(1))
  qed
qed


text \<open>
  Three deals sorted by a label with a null in it, two to a page; and sorted by their price, of which not
  even the first page can be had.
\<close>

definition label_field :: "(uuid \<times> string option \<times> decimal) sort_field" where
  "label_field = \<lparr>api_name = ''ownerLabel'', column = \<lambda>(_, l, _). map_option SV_Str l, descending = True\<rparr>"

definition price_field :: "(uuid \<times> string option \<times> decimal) sort_field" where
  "price_field = \<lparr>api_name = ''grossPrice'', column = \<lambda>(_, _, p). Some (SV_Dec p), descending = False\<rparr>"


end
