(* ===== verification/Platform_Identity.thy ===== *)
theory Platform_Identity
  imports Platform_Users
begin

text \<open>
  The front door (\<^verbatim>\<open>app/platform/services/identity.py, auth_tokens.py, auth_sessions.py, auth_events.py, mfa.py,
  password_policy.py\<close> and the sign-in routes of \<^verbatim>\<open>app/platform/api/auth.py\<close>): passwords, single-use tokens, sessions,
  the event stream, lockout and backoff, one-time codes and recovery codes, and the two steps of a login.

  What other packages do is a parameter (\<open>auth_lib\<close>): the digest of \<open>hashlib\<close>, argon2, pyotp, the breach service, the
  time zone database, and whether the mailer hands a mail over. Random values (tokens, secrets, recovery codes) are
  arguments. The texts of the mails are left out: a mail is its recipient, its kind and its token.

  Passkeys (the \<open>webauthn\<close> library) appear as rows that count as a factor and can be removed; their registration and
  verification are not modelled, nor is the encoding of the session's token.
\<close>

section \<open>Parameters and settings\<close>

record auth_lib =
  sha256_hex :: "string \<Rightarrow> string"
  argon2_verify :: "string \<Rightarrow> string \<Rightarrow> bool"
  argon2_needs_rehash :: "string \<Rightarrow> bool"
  argon2_hash :: "string \<Rightarrow> string"
  breach_count :: "string \<Rightarrow> int option"
  totp_at :: "string \<Rightarrow> int \<Rightarrow> string"
  zone_day :: "datetime \<Rightarrow> date"
  zone_next_midnight :: "datetime \<Rightarrow> datetime"

definition auth_lockout_failures :: nat where "auth_lockout_failures = 5"
definition auth_lockout_minutes :: int where "auth_lockout_minutes = 15"
definition auth_ip_window_minutes :: int where "auth_ip_window_minutes = 15"
definition session_idle_minutes :: int where "session_idle_minutes = 120"
definition password_history_depth :: nat where "password_history_depth = 5"
definition min_password_length :: nat where "min_password_length = 12"
definition mfa_max_attempts :: nat where "mfa_max_attempts = 5"
definition touch_granularity :: int where "touch_granularity = minute_us"

lemmas auth_settings = auth_lockout_failures_def auth_lockout_minutes_def auth_ip_window_minutes_def session_idle_minutes_def
  password_history_depth_def min_password_length_def mfa_max_attempts_def touch_granularity_def

text \<open>\<open>str.lower\<close> on Latin-1.\<close>

definition lower_char :: "char \<Rightarrow> char" where
  "lower_char c = (let n = ord_char c in if (65 \<le> n \<and> n \<le> 90) \<or> (192 \<le> n \<and> n \<le> 222 \<and> n \<noteq> 215) then chr_nat (n + 32) else c)"

definition lower_text :: "string \<Rightarrow> string" where
  "lower_text s = map lower_char s"

text \<open>\<open>term in text\<close>.\<close>

definition contains_text :: "string \<Rightarrow> string \<Rightarrow> bool" where
  "contains_text t s = list_ex (\<lambda>i. take (length t) (drop i s) = t) [0..<length s + 1]"

section \<open>Tables\<close>

datatype auth_token_kind = INVITATION | PASSWORD_RESET_TOKEN | MFA_CHALLENGE | PASSKEY_REGISTRATION

record auth_token =
  tok_id :: uuid
  tok_user_id :: uuid
  tok_kind :: auth_token_kind
  tok_hash :: string
  tok_created_at :: datetime
  tok_expires_at :: datetime
  tok_consumed_at :: "datetime option"
  tok_attempts :: nat
  tok_created_by :: "uuid option"

record auth_session =
  ses_id :: uuid
  ses_user_id :: uuid
  ses_dealership_id :: uuid
  device_summary :: string
  ses_ip_address :: string
  amr :: "string list"
  ses_created_at :: datetime
  last_seen_at :: datetime
  idle_expires_at :: datetime
  absolute_expires_at :: datetime
  revoked_at :: "datetime option"
  revoked_reason :: "string option"

record credential =
  cred_id :: uuid
  cred_user_id :: uuid
  password_hash :: string
  password_history :: "string list"
  password_set_at :: datetime
  breach_check_pending :: bool
  failed_login_attempts :: nat
  last_failed_at :: "datetime option"
  locked_until :: "datetime option"
  cred_created_by :: "uuid option"
  cred_updated_by :: "uuid option"

datatype auth_event_kind = LOGIN_SUCCEEDED | LOGIN_FAILED | LOGIN_THROTTLED | LOCKED_OUT | PASSWORD_SET
  | PASSWORD_RESET_REQUESTED | PASSWORD_RESET | INVITATION_ISSUED | INVITATION_ACCEPTED | MFA_ENROLLED | MFA_REMOVED
  | MFA_FAILED | RECOVERY_CODE_USED | RECOVERY_CODES_REGENERATED | SESSION_REVOKED | CREDENTIAL_REHASHED
  | BREACH_CHECK_UNAVAILABLE | MAIL_DELIVERY_FAILED | EMAIL_CHANGED | CONNECTED_ACCOUNT_REVOKED
  | RECOVERY_INVITATION_REISSUED | RECOVERY_MFA_RESET | RECOVERY_LOCKOUT_CLEARED | RECOVERY_SESSIONS_REVOKED
  | RECOVERY_MANAGER_GRANTED | RECOVERY_EMAIL_CHANGED

record auth_event =
  ae_id :: uuid
  ae_kind :: auth_event_kind
  ae_user_id :: "uuid option"
  ae_dealership_id :: "uuid option"
  ae_actor_id :: "uuid option"
  ae_ip_address :: string
  occurred_at :: datetime
  ae_details :: payload

record mfa_totp =
  totp_id :: uuid
  totp_user_id :: uuid
  totp_secret :: string
  totp_created_at :: datetime
  confirmed_at :: "datetime option"
  last_used_step :: "int option"

record mfa_recovery_code =
  rc_id :: uuid
  rc_user_id :: uuid
  code_hash :: string
  rc_created_at :: datetime
  rc_used_at :: "datetime option"

record mfa_passkey =
  pk_id :: uuid
  pk_user_id :: uuid
  pk_credential_id :: string
  pk_public_key :: string
  pk_sign_count :: nat
  pk_transports :: "string list"
  pk_label :: string
  pk_created_at :: datetime
  pk_last_used_at :: "datetime option"

record identity_db = master_db +
  auth_tokens :: "auth_token list"
  auth_sessions :: "auth_session list"
  credentials :: "credential list"
  auth_events :: "auth_event list"
  mfa_totps :: "mfa_totp list"
  mfa_recovery_codes :: "mfa_recovery_code list"
  mfa_passkeys :: "mfa_passkey list"

section \<open>Events\<close>

definition record_event ::
  "datetime \<Rightarrow> auth_event_kind \<Rightarrow> uuid option \<Rightarrow> uuid option \<Rightarrow> uuid option \<Rightarrow> string \<Rightarrow> payload
     \<Rightarrow> 'a identity_db_scheme \<Rightarrow> 'a identity_db_scheme" where
  "record_event now kind uid dealership_id actor_id ip details db =
     (let (i, db1) = draw_uuid db
      in db1\<lparr>auth_events := auth_events db1 @ [\<lparr>ae_id = i, ae_kind = kind, ae_user_id = uid, ae_dealership_id = dealership_id,
           ae_actor_id = actor_id, ae_ip_address = take 45 ip, occurred_at = now, ae_details = details\<rparr>]\<rparr>)"

text \<open>An event about a user, with the user's own dealership.\<close>

abbreviation record_user_event ::
  "datetime \<Rightarrow> auth_event_kind \<Rightarrow> user \<Rightarrow> uuid option \<Rightarrow> string \<Rightarrow> payload \<Rightarrow> 'a identity_db_scheme \<Rightarrow> 'a identity_db_scheme" where
  "record_user_event now kind u actor_id ip details \<equiv>
     record_event now kind (Some (user_id u)) (Some (user_tenant_id u)) actor_id ip details"

definition recent_failures_from_ip :: "datetime \<Rightarrow> string \<Rightarrow> int \<Rightarrow> 'a identity_db_scheme \<Rightarrow> nat \<times> datetime option" where
  "recent_failures_from_ip now ip window db =
     (let rows = select_all (\<lambda>e. ae_ip_address e = ip \<and> ae_kind e = LOGIN_FAILED \<and> occurred_at e \<ge> now - window) (auth_events db)
      in (length rows, if rows = [] then None else Some (Max (set (map occurred_at rows)))))"

definition list_events_for_dealership :: "uuid \<Rightarrow> nat \<Rightarrow> 'a identity_db_scheme \<Rightarrow> auth_event list" where
  "list_events_for_dealership dealership_id limit db =
     take limit (rev (sort_key occurred_at (sort_key ae_id (select_all (\<lambda>e. ae_dealership_id e = Some dealership_id) (auth_events db)))))"

section \<open>Tokens\<close>

definition token_ttl :: "auth_token_kind \<Rightarrow> int" where
  "token_ttl kind = (case kind of INVITATION \<Rightarrow> 14 * day_us | PASSWORD_RESET_TOKEN \<Rightarrow> hour_us | MFA_CHALLENGE \<Rightarrow> 5 * minute_us
     | PASSKEY_REGISTRATION \<Rightarrow> 5 * minute_us)"

definition token_is_live :: "datetime \<Rightarrow> auth_token \<Rightarrow> bool" where
  "token_is_live now t \<longleftrightarrow> tok_consumed_at t = None \<and> tok_expires_at t > now"

definition consume_all_for_user :: "datetime \<Rightarrow> uuid \<Rightarrow> auth_token_kind list \<Rightarrow> 'a identity_db_scheme \<Rightarrow> 'a identity_db_scheme" where
  "consume_all_for_user now uid kinds db =
     db\<lparr>auth_tokens := update_where (\<lambda>t. tok_user_id t = uid \<and> tok_kind t \<in> set kinds \<and> tok_consumed_at t = None)
       (\<lambda>t. t\<lparr>tok_consumed_at := Some now\<rparr>) (auth_tokens db)\<rparr>"

text \<open>Two tokens with one digest break the unique column.\<close>

definition issue_token ::
  "auth_lib \<Rightarrow> datetime \<Rightarrow> string \<Rightarrow> uuid \<Rightarrow> auth_token_kind \<Rightarrow> uuid option \<Rightarrow> 'a identity_db_scheme \<Rightarrow> 'a identity_db_scheme result" where
  "issue_token lib now raw uid kind actor_id db =
     (let db1 = consume_all_for_user now uid [kind] db; (i, db2) = draw_uuid db1
      in if sha256_hex lib raw \<in> set (map tok_hash (auth_tokens db)) then Inl IntegrityError
         else Inr (db2\<lparr>auth_tokens := auth_tokens db2 @ [\<lparr>tok_id = i, tok_user_id = uid, tok_kind = kind,
           tok_hash = sha256_hex lib raw, tok_created_at = now, tok_expires_at = now + token_ttl kind, tok_consumed_at = None,
           tok_attempts = 0, tok_created_by = actor_id\<rparr>]\<rparr>))"

definition consume_token ::
  "auth_lib \<Rightarrow> datetime \<Rightarrow> string \<Rightarrow> auth_token_kind \<Rightarrow> 'a identity_db_scheme \<Rightarrow> 'a identity_db_scheme \<times> auth_token option" where
  "consume_token lib now raw kind db =
     (let hit = (\<lambda>t. tok_hash t = sha256_hex lib raw \<and> tok_kind t = kind \<and> token_is_live now t)
      in (db\<lparr>auth_tokens := update_where hit (\<lambda>t. t\<lparr>tok_consumed_at := Some now\<rparr>) (auth_tokens db)\<rparr>,
          map_option (\<lambda>t. t\<lparr>tok_consumed_at := Some now\<rparr>) (select_one hit (auth_tokens db))))"

definition claim_attempt :: "auth_token \<Rightarrow> nat \<Rightarrow> 'a identity_db_scheme \<Rightarrow> 'a identity_db_scheme \<times> bool" where
  "claim_attempt token limit db =
     (let hit = (\<lambda>t. tok_id t = tok_id token \<and> tok_consumed_at t = None \<and> tok_attempts t < limit)
      in (db\<lparr>auth_tokens := update_where hit (\<lambda>t. t\<lparr>tok_attempts := tok_attempts t + 1\<rparr>) (auth_tokens db)\<rparr>,
          length (select_all hit (auth_tokens db)) = 1))"

definition peek_token :: "auth_lib \<Rightarrow> datetime \<Rightarrow> string \<Rightarrow> auth_token_kind \<Rightarrow> 'a identity_db_scheme \<Rightarrow> auth_token option" where
  "peek_token lib now raw kind db =
     (case select_one (\<lambda>t. tok_hash t = sha256_hex lib raw \<and> tok_kind t = kind) (auth_tokens db) of None \<Rightarrow> None
      | Some t \<Rightarrow> if token_is_live now t then Some t else None)"

section \<open>Sessions\<close>

definition session_is_live :: "datetime \<Rightarrow> auth_session \<Rightarrow> bool" where
  "session_is_live now s \<longleftrightarrow> revoked_at s = None \<and> idle_expires_at s > now \<and> absolute_expires_at s > now"

definition idle_timeout :: int where "idle_timeout = session_idle_minutes * minute_us"

definition create_session ::
  "auth_lib \<Rightarrow> datetime \<Rightarrow> uuid \<Rightarrow> uuid \<Rightarrow> string \<Rightarrow> string \<Rightarrow> string list \<Rightarrow> 'a identity_db_scheme \<Rightarrow> 'a identity_db_scheme \<times> auth_session" where
  "create_session lib now uid dealership_id device ip methods db =
     (let (i, db1) = draw_uuid db;
          row = \<lparr>ses_id = i, ses_user_id = uid, ses_dealership_id = dealership_id, device_summary = take 255 device,
            ses_ip_address = take 45 ip, amr = methods, ses_created_at = now, last_seen_at = now, idle_expires_at = now + idle_timeout,
            absolute_expires_at = zone_next_midnight lib now, revoked_at = None, revoked_reason = None\<rparr>
      in (db1\<lparr>auth_sessions := auth_sessions db1 @ [row]\<rparr>, row))"

definition save_session :: "auth_session \<Rightarrow> 'a identity_db_scheme \<Rightarrow> 'a identity_db_scheme" where
  "save_session s db = db\<lparr>auth_sessions := update_where (\<lambda>r. ses_id r = ses_id s) (\<lambda>_. s) (auth_sessions db)\<rparr>"

definition touch_session :: "datetime \<Rightarrow> auth_session \<Rightarrow> 'a identity_db_scheme \<Rightarrow> 'a identity_db_scheme \<times> bool" where
  "touch_session now s db =
     (if now - last_seen_at s < touch_granularity then (db, False)
      else (save_session (s\<lparr>last_seen_at := now, idle_expires_at := min (now + idle_timeout) (absolute_expires_at s)\<rparr>) db, True))"

definition revoke_session :: "datetime \<Rightarrow> string \<Rightarrow> auth_session \<Rightarrow> 'a identity_db_scheme \<Rightarrow> 'a identity_db_scheme" where
  "revoke_session now reason s db =
     (if revoked_at s = None then save_session (s\<lparr>revoked_at := Some now, revoked_reason := Some (take 32 reason)\<rparr>) db else db)"

definition revoke_all_for_user ::
  "datetime \<Rightarrow> uuid \<Rightarrow> string \<Rightarrow> uuid option \<Rightarrow> 'a identity_db_scheme \<Rightarrow> 'a identity_db_scheme \<times> nat" where
  "revoke_all_for_user now uid reason except_session_id db =
     (let hit = (\<lambda>s. ses_user_id s = uid \<and> revoked_at s = None \<and> (case except_session_id of None \<Rightarrow> True | Some x \<Rightarrow> ses_id s \<noteq> x))
      in (db\<lparr>auth_sessions := update_where hit (\<lambda>s. s\<lparr>revoked_at := Some now, revoked_reason := Some (take 32 reason)\<rparr>) (auth_sessions db)\<rparr>,
          length (select_all hit (auth_sessions db))))"

definition list_sessions_for_user :: "uuid \<Rightarrow> 'a identity_db_scheme \<Rightarrow> auth_session list" where
  "list_sessions_for_user uid db = rev (sort_key ses_created_at (select_all (\<lambda>s. ses_user_id s = uid) (auth_sessions db)))"

section \<open>Throttling and lockout\<close>

definition backoff :: "nat \<Rightarrow> int" where
  "backoff failures = (if failures < 3 then 0 else min (2 ^ (failures - 2)) (auth_lockout_minutes * 60) * second_us)"

definition account_throttled :: "datetime \<Rightarrow> credential option \<Rightarrow> bool" where
  "account_throttled now c \<longleftrightarrow> (case c of None \<Rightarrow> False
     | Some k \<Rightarrow> (case locked_until k of Some l \<Rightarrow> l > now | None \<Rightarrow> False)
         \<or> (case last_failed_at k of None \<Rightarrow> False | Some f \<Rightarrow> f + backoff (failed_login_attempts k) > now))"

definition ip_throttled :: "datetime \<Rightarrow> string \<Rightarrow> 'a identity_db_scheme \<Rightarrow> bool" where
  "ip_throttled now ip db \<longleftrightarrow> ip \<noteq> [] \<and>
     (case recent_failures_from_ip now ip (auth_ip_window_minutes * minute_us) db of (count, latest) \<Rightarrow>
        (case latest of None \<Rightarrow> False | Some l \<Rightarrow> l + backoff count > now))"

text \<open>A user has at most one credential: its \<open>user_id\<close> is unique, and the row is written through it here.\<close>

definition credential_of :: "uuid \<Rightarrow> 'a identity_db_scheme \<Rightarrow> credential option" where
  "credential_of uid db = select_one (\<lambda>c. cred_user_id c = uid) (credentials db)"

definition save_credential :: "credential \<Rightarrow> 'a identity_db_scheme \<Rightarrow> 'a identity_db_scheme" where
  "save_credential c db = db\<lparr>credentials := update_where (\<lambda>r. cred_user_id r = cred_user_id c) (\<lambda>_. c) (credentials db)\<rparr>"

definition save_user :: "user \<Rightarrow> 'a master_db_scheme \<Rightarrow> 'a master_db_scheme" where
  "save_user u db = db\<lparr>users := update_where (\<lambda>r. user_id r = user_id u) (\<lambda>_. u) (users db)\<rparr>"

definition find_user_by_email :: "string \<Rightarrow> 'a identity_db_scheme \<Rightarrow> user option" where
  "find_user_by_email email db =
     (if CHR 0x00 \<in> set email then None
      else case sort_key user_created_at (select_all (\<lambda>u. lower_text (user_email u) = lower_text (strip_text email)) (users db)) of
        [] \<Rightarrow> None | u # _ \<Rightarrow> Some u)"

definition is_inactive :: "user \<Rightarrow> bool" where
  "is_inactive u \<longleftrightarrow> user_status u = SUSPENDED \<or> user_status u = DEACTIVATED"

definition access_window_open :: "auth_lib \<Rightarrow> datetime \<Rightarrow> user \<Rightarrow> bool" where
  "access_window_open lib now u \<longleftrightarrow>
     (case user_valid_from u of None \<Rightarrow> True | Some d \<Rightarrow> \<not> zone_day lib now < d)
     \<and> (case user_valid_to u of None \<Rightarrow> True | Some d \<Rightarrow> \<not> zone_day lib now > d)"

record presented_credentials =
  pres_email :: string
  pres_password :: string
  pres_ip_address :: string

text \<open>One wrong answer on the account: counted, and the account locked from the fifth on.\<close>

definition failed_credential :: "datetime \<Rightarrow> datetime \<Rightarrow> credential \<Rightarrow> credential" where
  "failed_credential at_instant lock_from c =
     (let n = failed_login_attempts c + 1
      in c\<lparr>failed_login_attempts := n, last_failed_at := Some at_instant,
           locked_until := (if n \<ge> auth_lockout_failures then Some (lock_from + auth_lockout_minutes * minute_us) else locked_until c)\<rparr>)"

text \<open>
  \<open>LocalPasswordProvider.resolve\<close>. \<open>now\<close> is read when the request begins, \<open>check\<close> once the user's row is locked;
  \<open>env\<close> is what other requests commit while it waits for the lock. A refusal commits its events, so the database comes
  back beside the error. On success the writes are flushed and the route commits.
\<close>

definition refuse_login ::
  "datetime \<Rightarrow> auth_event_kind \<Rightarrow> user option \<Rightarrow> presented_credentials \<Rightarrow> payload \<Rightarrow> 'a identity_db_scheme
     \<Rightarrow> 'a identity_db_scheme \<times> user result" where
  "refuse_login t kind u p details db =
     (record_event t kind (map_option user_id u) (map_option user_tenant_id u) None (pres_ip_address p) details db,
      Inl (UnauthorizedError []))"

definition refuse_wrong_password ::
  "datetime \<Rightarrow> datetime \<Rightarrow> presented_credentials \<Rightarrow> user \<Rightarrow> credential \<Rightarrow> 'a identity_db_scheme
     \<Rightarrow> 'a identity_db_scheme \<times> user result" where
  "refuse_wrong_password now check p u c db =
     (let c' = failed_credential now now c;
          db1 = save_credential c' db;
          db2 = (if failed_login_attempts c' \<ge> auth_lockout_failures
            then record_user_event check LOCKED_OUT u None (pres_ip_address p) [(''until'', json_opt JTime (locked_until c'))] db1
            else db1)
      in refuse_login check LOGIN_FAILED (Some u) p [(''reason'', JStr ''password'')] db2)"

definition resolve_under_lock ::
  "auth_lib \<Rightarrow> datetime \<Rightarrow> datetime \<Rightarrow> presented_credentials \<Rightarrow> user \<Rightarrow> 'a identity_db_scheme \<Rightarrow> 'a identity_db_scheme \<times> user result" where
  "resolve_under_lock lib now check p u db =
     (case credential_of (user_id u) db of
        None \<Rightarrow> refuse_login check LOGIN_FAILED (Some u) p [(''reason'', JStr ''no_credential'')] db
      | Some c \<Rightarrow>
          if account_throttled check (Some c) then refuse_login check LOGIN_THROTTLED (Some u) p [] db
          else if \<not> argon2_verify lib (password_hash c) (pres_password p) then refuse_wrong_password now check p u c db
          else if is_inactive u \<or> \<not> access_window_open lib check u
          then refuse_login check LOGIN_FAILED (Some u) p [(''reason'', JStr ''inactive'')] db
          else if argon2_needs_rehash lib (password_hash c) then
            (record_user_event check CREDENTIAL_REHASHED u None (pres_ip_address p) []
               (save_credential (c\<lparr>password_hash := argon2_hash lib (pres_password p), cred_updated_by := Some (user_id u)\<rparr>) db), Inr u)
          else (db, Inr u))"

definition resolve_login ::
  "auth_lib \<Rightarrow> ('a identity_db_scheme \<Rightarrow> 'a identity_db_scheme) \<Rightarrow> datetime \<Rightarrow> datetime \<Rightarrow> presented_credentials
     \<Rightarrow> 'a identity_db_scheme \<Rightarrow> 'a identity_db_scheme \<times> user result" where
  "resolve_login lib env now check p db =
     (let user = find_user_by_email (pres_email p) db;
          cred = (case user of None \<Rightarrow> None | Some u \<Rightarrow> credential_of (user_id u) db)
      in if ip_throttled now (pres_ip_address p) db \<or> account_throttled now cred then refuse_login now LOGIN_THROTTLED user p [] db
         else case (user, cred) of
           (Some u0, Some _) \<Rightarrow> (case get_user (user_id u0) (env db) of None \<Rightarrow> (env db, Inl RuntimeError)
             | Some u \<Rightarrow> resolve_under_lock lib now check p u (env db))
         | _ \<Rightarrow> refuse_login now LOGIN_FAILED user p [(''reason'', JStr ''no_credential'')] db)"

definition login_completed :: "datetime \<Rightarrow> user \<Rightarrow> 'a identity_db_scheme \<Rightarrow> 'a identity_db_scheme" where
  "login_completed now u db =
     (let db1 = save_user (u\<lparr>user_last_login_at := Some now\<rparr>) db
      in case credential_of (user_id u) db1 of None \<Rightarrow> db1
         | Some c \<Rightarrow> save_credential (c\<lparr>failed_login_attempts := 0, last_failed_at := None, locked_until := None\<rparr>) db1)"

definition second_step_failed :: "datetime \<Rightarrow> user \<Rightarrow> string \<Rightarrow> 'a identity_db_scheme \<Rightarrow> 'a identity_db_scheme" where
  "second_step_failed now u ip db = (case credential_of (user_id u) db of None \<Rightarrow> db
     | Some c \<Rightarrow>
         let c' = failed_credential now now c; db1 = save_credential c' db
         in if failed_login_attempts c' \<ge> auth_lockout_failures
            then record_user_event now LOCKED_OUT u None ip [(''until'', json_opt JTime (locked_until c')), (''step'', JStr ''mfa'')] db1
            else db1)"

definition login_status :: "datetime \<Rightarrow> user \<Rightarrow> 'a identity_db_scheme \<Rightarrow> bool \<times> datetime option \<times> nat" where
  "login_status now u db = (case credential_of (user_id u) db of None \<Rightarrow> (False, None, 0)
     | Some c \<Rightarrow> (True, (case locked_until c of Some l \<Rightarrow> if l > now then Some l else None | None \<Rightarrow> None), failed_login_attempts c))"

section \<open>Passwords\<close>

text \<open>\<open>email.split("@", 1)[0]\<close>: everything before the first at sign.\<close>

definition deny_terms :: "string list \<Rightarrow> string \<Rightarrow> string \<Rightarrow> string \<Rightarrow> string list" where
  "deny_terms names forename surname email =
     map (\<lambda>t. lower_text (strip_text t)) (filter (\<lambda>t. t \<noteq> [] \<and> length (strip_text t) \<ge> 3)
       (names @ [forename, surname, takeWhile (\<lambda>c. c \<noteq> CHR ''@'') email]))"

text \<open>The verdict says whether the breach check is still owed. The check is on (\<open>hibp_enabled\<close>, its default).\<close>

definition validate_new_password :: "auth_lib \<Rightarrow> string \<Rightarrow> string list \<Rightarrow> string \<Rightarrow> string \<Rightarrow> string \<Rightarrow> bool result" where
  "validate_new_password lib password names forename surname email =
     (if length password < min_password_length
      then Inl (UnprocessableEntityError [(''rule'', JStr ''min_length''), (''minLength'', JInt (int min_password_length))])
      else if list_ex (\<lambda>t. contains_text t (lower_text password)) (deny_terms names forename surname email)
      then Inl (UnprocessableEntityError [(''rule'', JStr ''deny_list'')])
      else case breach_count lib password of
        None \<Rightarrow> Inr True
      | Some n \<Rightarrow> if n > 0 then Inl (UnprocessableEntityError [(''rule'', JStr ''breached'')]) else Inr False)"

definition dealership_names :: "user \<Rightarrow> 'a master_db_scheme \<Rightarrow> string list" where
  "dealership_names u db = (case select_one (\<lambda>d. dealer_id d = user_tenant_id u) (dealerships db) of None \<Rightarrow> []
     | Some d \<Rightarrow> filter (\<lambda>n. n \<noteq> []) (dealer_legal_name d # (case dealer_trade_name d of None \<Rightarrow> [] | Some t \<Rightarrow> [t])))"

definition set_password ::
  "auth_lib \<Rightarrow> datetime \<Rightarrow> user \<Rightarrow> string \<Rightarrow> uuid \<Rightarrow> string \<Rightarrow> auth_event_kind \<Rightarrow> 'a identity_db_scheme \<Rightarrow> 'a identity_db_scheme result" where
  "set_password lib now u password actor_id ip event db =
     bindR (validate_new_password lib password (dealership_names u db) (user_first_name u) (user_last_name u) (user_email u)) (\<lambda>pending.
     let cred = credential_of (user_id u) db;
         previous = (case cred of None \<Rightarrow> [] | Some c \<Rightarrow> password_hash c # password_history c)
     in if list_ex (\<lambda>h. argon2_verify lib h password) (take password_history_depth previous)
        then Inl (BadRequestError [(''rule'', JStr ''reused'')])
        else
          let db1 = (case cred of
                None \<Rightarrow> (case draw_uuid db of (i, d) \<Rightarrow> d\<lparr>credentials := credentials d @ [\<lparr>cred_id = i, cred_user_id = user_id u,
                  password_hash = argon2_hash lib password, password_history = [], password_set_at = now, breach_check_pending = pending,
                  failed_login_attempts = 0, last_failed_at = None, locked_until = None, cred_created_by = Some actor_id,
                  cred_updated_by = Some actor_id\<rparr>]\<rparr>)
              | Some c \<Rightarrow> save_credential (c\<lparr>password_history := take (password_history_depth - 1) previous,
                  password_hash := argon2_hash lib password, cred_updated_by := Some actor_id, password_set_at := now,
                  breach_check_pending := pending, failed_login_attempts := 0, last_failed_at := None, locked_until := None\<rparr>) db);
              db2 = record_user_event now event u (Some actor_id) ip [] db1
          in Inr (if pending then record_user_event now BREACH_CHECK_UNAVAILABLE u None ip [] db2 else db2))"

section \<open>Invitation, reset and change of address\<close>

datatype mail_kind = InvitationMail string | PasswordResetMail string | EmailChangedMail string

record mail =
  mail_to :: string
  mail_content :: mail_kind

fun mail_name :: "mail_kind \<Rightarrow> string" where
  "mail_name (InvitationMail _) = ''invitation''"
| "mail_name (PasswordResetMail _) = ''password_reset''"
| "mail_name (EmailChangedMail _) = ''email_changed''"

text \<open>\<open>mailer\<close> says whether the mail was handed over; a failure is recorded. The mail's kind stands for its subject.\<close>

definition deliver_mail ::
  "datetime \<Rightarrow> (mail \<Rightarrow> bool) \<Rightarrow> user \<Rightarrow> mail \<Rightarrow> uuid option \<Rightarrow> string \<Rightarrow> 'a identity_db_scheme \<Rightarrow> 'a identity_db_scheme" where
  "deliver_mail now mailer u m actor_id ip db =
     (if mailer m then db
      else record_user_event now MAIL_DELIVERY_FAILED u actor_id ip [(''subject'', JStr (mail_name (mail_content m)))] db)"

definition issue_invitation ::
  "auth_lib \<Rightarrow> datetime \<Rightarrow> (mail \<Rightarrow> bool) \<Rightarrow> string \<Rightarrow> user \<Rightarrow> uuid option \<Rightarrow> string \<Rightarrow> 'a identity_db_scheme \<Rightarrow> 'a identity_db_scheme result" where
  "issue_invitation lib now mailer raw u actor_id ip db =
     bindR (issue_token lib now raw (user_id u) INVITATION actor_id db) (\<lambda>db1.
     Inr (deliver_mail now mailer u \<lparr>mail_to = user_email u, mail_content = InvitationMail raw\<rparr> actor_id ip
       (record_user_event now INVITATION_ISSUED u actor_id ip [] (save_user (u\<lparr>user_invited_at := Some now\<rparr>) db1))))"

record pending_mail =
  pm_mail :: mail
  pm_user_id :: uuid
  pm_dealership_id :: uuid

definition request_password_reset ::
  "auth_lib \<Rightarrow> ('a identity_db_scheme \<Rightarrow> 'a identity_db_scheme) \<Rightarrow> datetime \<Rightarrow> string \<Rightarrow> string \<Rightarrow> string \<Rightarrow> 'a identity_db_scheme
     \<Rightarrow> 'a identity_db_scheme \<times> pending_mail option result" where
  "request_password_reset lib env now raw email ip db0 =
     (let (db, user) = (case find_user_by_email email db0 of None \<Rightarrow> (db0, None)
            | Some u0 \<Rightarrow> (env db0, case get_user (user_id u0) (env db0) of None \<Rightarrow> None
                | Some u \<Rightarrow> if lower_text (user_email u) = lower_text (strip_text email) then Some u else None));
          unmatched = (record_event now PASSWORD_RESET_REQUESTED None None None ip [(''matched'', JBool False)] db, Inr None)
      in case user of None \<Rightarrow> unmatched
         | Some u \<Rightarrow> if is_inactive u then unmatched
             else (case issue_token lib now raw (user_id u) PASSWORD_RESET_TOKEN None db of Inl e \<Rightarrow> (db, Inl e)
               | Inr db1 \<Rightarrow> (record_user_event now PASSWORD_RESET_REQUESTED u None ip [(''matched'', JBool True)] db1,
                   Inr (Some \<lparr>pm_mail = \<lparr>mail_to = user_email u, mail_content = PasswordResetMail raw\<rparr>, pm_user_id = user_id u,
                     pm_dealership_id = user_tenant_id u\<rparr>))))"

definition send_pending_mail ::
  "datetime \<Rightarrow> (mail \<Rightarrow> bool) \<Rightarrow> pending_mail option \<Rightarrow> string \<Rightarrow> 'a identity_db_scheme \<Rightarrow> 'a identity_db_scheme" where
  "send_pending_mail now mailer pending ip db = (case pending of None \<Rightarrow> db
     | Some p \<Rightarrow> if mailer (pm_mail p) then db
         else record_event now MAIL_DELIVERY_FAILED (Some (pm_user_id p)) (Some (pm_dealership_id p)) None ip
           [(''subject'', JStr (mail_name (mail_content (pm_mail p))))] db)"

text \<open>The user a live token names, re-read under the lock (\<open>env\<close> is what commits while waiting for it).\<close>

definition token_user_locked ::
  "auth_lib \<Rightarrow> ('a identity_db_scheme \<Rightarrow> 'a identity_db_scheme) \<Rightarrow> datetime \<Rightarrow> string \<Rightarrow> auth_token_kind \<Rightarrow> 'a identity_db_scheme
     \<Rightarrow> 'a identity_db_scheme \<times> user option" where
  "token_user_locked lib env now raw kind db = (case peek_token lib now raw kind db of None \<Rightarrow> (db, None)
     | Some t \<Rightarrow> (env db, get_user (tok_user_id t) (env db)))"

definition activate_user :: "user \<Rightarrow> user" where
  "activate_user u = (if user_status u = INVITED
     then u\<lparr>user_status := ACTIVE_USER, user_updated_by := Some (user_id u), user_version := user_version u + 1\<rparr> else u)"

definition revoke_all :: "datetime \<Rightarrow> user \<Rightarrow> string \<Rightarrow> string \<Rightarrow> 'a identity_db_scheme \<Rightarrow> 'a identity_db_scheme" where
  "revoke_all now u reason ip db = (case revoke_all_for_user now (user_id u) reason None db of (db1, ended) \<Rightarrow>
     if ended \<noteq> 0 then record_user_event now SESSION_REVOKED u None ip [(''count'', JInt (int ended)), (''reason'', JStr reason)] db1 else db1)"

definition confirm_password_reset ::
  "auth_lib \<Rightarrow> ('a identity_db_scheme \<Rightarrow> 'a identity_db_scheme) \<Rightarrow> datetime \<Rightarrow> string \<Rightarrow> string \<Rightarrow> string \<Rightarrow> 'a identity_db_scheme
     \<Rightarrow> ('a identity_db_scheme \<times> user) result" where
  "confirm_password_reset lib env now raw password ip db0 =
     (case token_user_locked lib env now raw PASSWORD_RESET_TOKEN db0 of
        (db, None) \<Rightarrow> Inl (BadRequestError [(''rule'', JStr ''link'')])
      | (db, Some u) \<Rightarrow> (case consume_token lib now raw PASSWORD_RESET_TOKEN db of (db1, token) \<Rightarrow>
          if token = None \<or> is_inactive u then Inl (BadRequestError [(''rule'', JStr ''link'')])
          else bindR (set_password lib now u password (user_id u) ip PASSWORD_RESET db1) (\<lambda>db2.
            let u' = activate_user u;
                db3 = consume_all_for_user now (user_id u) [INVITATION] (save_user u' db2)
            in Inr (revoke_all now u' ''password_reset'' ip db3, u'))))"

definition accept_invitation ::
  "auth_lib \<Rightarrow> ('a identity_db_scheme \<Rightarrow> 'a identity_db_scheme) \<Rightarrow> datetime \<Rightarrow> string \<Rightarrow> string \<Rightarrow> string \<Rightarrow> 'a identity_db_scheme
     \<Rightarrow> ('a identity_db_scheme \<times> user) result" where
  "accept_invitation lib env now raw password ip db0 =
     (case token_user_locked lib env now raw INVITATION db0 of
        (db, None) \<Rightarrow> Inl (BadRequestError [(''rule'', JStr ''link'')])
      | (db, Some u) \<Rightarrow> (case consume_token lib now raw INVITATION db of (db1, token) \<Rightarrow>
          if token = None \<or> is_inactive u then Inl (BadRequestError [(''rule'', JStr ''link'')])
          else bindR (set_password lib now u password (user_id u) ip PASSWORD_SET db1) (\<lambda>db2.
            let u' = activate_user u;
                db3 = consume_all_for_user now (user_id u) [PASSWORD_RESET_TOKEN] (revoke_all now u' ''invitation'' ip (save_user u' db2))
            in Inr (record_user_event now INVITATION_ACCEPTED u' None ip [] db3, u'))))"

definition email_changed ::
  "datetime \<Rightarrow> (mail \<Rightarrow> bool) \<Rightarrow> user \<Rightarrow> string \<Rightarrow> uuid \<Rightarrow> string \<Rightarrow> 'a identity_db_scheme \<Rightarrow> 'a identity_db_scheme" where
  "email_changed now mailer u old_email actor_id ip db =
     (let db1 = revoke_all now u ''email_changed'' ip (consume_all_for_user now (user_id u) [INVITATION, PASSWORD_RESET_TOKEN] db);
          db2 = record_user_event now EMAIL_CHANGED u (Some actor_id) ip [(''from'', JStr old_email), (''to'', JStr (user_email u))] db1
      in deliver_mail now mailer u \<lparr>mail_to = old_email, mail_content = EmailChangedMail (user_email u)\<rparr> (Some actor_id) ip db2)"

section \<open>Second factors\<close>

definition totp_of :: "uuid \<Rightarrow> 'a identity_db_scheme \<Rightarrow> mfa_totp option" where
  "totp_of uid db = select_one (\<lambda>t. totp_user_id t = uid) (mfa_totps db)"

definition passkeys_of :: "uuid \<Rightarrow> 'a identity_db_scheme \<Rightarrow> mfa_passkey list" where
  "passkeys_of uid db = sort_key pk_created_at (select_all (\<lambda>p. pk_user_id p = uid) (mfa_passkeys db))"

definition users_with_factor :: "uuid list \<Rightarrow> 'a identity_db_scheme \<Rightarrow> uuid list" where
  "users_with_factor uids db = map totp_user_id (select_all (\<lambda>t. totp_user_id t \<in> set uids \<and> confirmed_at t \<noteq> None) (mfa_totps db))
     @ map pk_user_id (select_all (\<lambda>p. pk_user_id p \<in> set uids) (mfa_passkeys db))"

definition has_factor :: "uuid \<Rightarrow> 'a identity_db_scheme \<Rightarrow> bool" where
  "has_factor uid db \<longleftrightarrow> uid \<in> set (users_with_factor [uid] db)"

definition unused_recovery_codes :: "uuid \<Rightarrow> 'a identity_db_scheme \<Rightarrow> nat" where
  "unused_recovery_codes uid db = length (select_all (\<lambda>r. rc_user_id r = uid \<and> rc_used_at r = None) (mfa_recovery_codes db))"

text \<open>\<open>env\<close> is what a concurrent first enrolment commits before this one's insert.\<close>

definition begin_totp ::
  "('a identity_db_scheme \<Rightarrow> 'a identity_db_scheme) \<Rightarrow> datetime \<Rightarrow> string \<Rightarrow> user \<Rightarrow> 'a identity_db_scheme \<Rightarrow> 'a identity_db_scheme result" where
  "begin_totp env now secret u db =
     (let db1 = (if totp_of (user_id u) db = None then env db else db)
      in case totp_of (user_id u) db1 of
           None \<Rightarrow> (case draw_uuid db1 of (i, d) \<Rightarrow> Inr (d\<lparr>mfa_totps := mfa_totps d @ [\<lparr>totp_id = i, totp_user_id = user_id u,
             totp_secret = secret, totp_created_at = now, confirmed_at = None, last_used_step = None\<rparr>]\<rparr>))
         | Some t \<Rightarrow> if confirmed_at t \<noteq> None then Inl (ConflictError [])
             else Inr (db1\<lparr>mfa_totps := update_where (\<lambda>r. totp_id r = totp_id t)
               (\<lambda>r. r\<lparr>totp_secret := secret, totp_created_at := now\<rparr>) (mfa_totps db1)\<rparr>))"

definition hash_code :: "auth_lib \<Rightarrow> string \<Rightarrow> string" where
  "hash_code lib code = sha256_hex lib (filter (\<lambda>c. c \<noteq> CHR ''-'') (lower_text (strip_text code)))"

definition recovery_code_count :: nat where "recovery_code_count = 10"

text \<open>\<open>raws\<close> are the values of \<open>secrets.token_hex\<close>; a digest that is already stored breaks the unique column.\<close>

definition new_recovery_codes ::
  "auth_lib \<Rightarrow> datetime \<Rightarrow> string list \<Rightarrow> uuid \<Rightarrow> 'a identity_db_scheme \<Rightarrow> ('a identity_db_scheme \<times> string list) result" where
  "new_recovery_codes lib now raws uid db =
     (let codes = map (\<lambda>raw. take 5 raw @ ''-'' @ drop 5 raw) (take recovery_code_count raws);
          hashes = map (hash_code lib) codes; n = uuid_supply db;
          rows = map (\<lambda>(i, h). \<lparr>rc_id = n + i, rc_user_id = uid, code_hash = h, rc_created_at = now, rc_used_at = None\<rparr>) (enumerate 0 hashes)
      in if \<not> distinct hashes \<or> list_ex (\<lambda>h. h \<in> set (map code_hash (mfa_recovery_codes db))) hashes then Inl IntegrityError
         else Inr (db\<lparr>uuid_supply := n + length codes,
           mfa_recovery_codes := delete_where (\<lambda>r. rc_user_id r = uid) (mfa_recovery_codes db) @ rows\<rparr>, codes))"

text \<open>\<open>str.isdigit\<close> holds for the superscript digits of Latin-1 too.\<close>

definition py_isdigit_char :: "char \<Rightarrow> bool" where
  "py_isdigit_char c \<longleftrightarrow> is_digit_char c \<or> ord_char c \<in> {178, 179, 185}"

definition claim_totp_step :: "mfa_totp \<Rightarrow> int \<Rightarrow> 'a identity_db_scheme \<Rightarrow> 'a identity_db_scheme \<times> bool" where
  "claim_totp_step totp step db =
     (let hit = (\<lambda>r. totp_id r = totp_id totp \<and> (case last_used_step r of None \<Rightarrow> True | Some l \<Rightarrow> l < step))
      in (db\<lparr>mfa_totps := update_where hit (\<lambda>r. r\<lparr>last_used_step := Some step\<rparr>) (mfa_totps db)\<rparr>,
          length (select_all hit (mfa_totps db)) = 1))"

text \<open>\<open>hmac.compare_digest\<close> refuses text beyond ASCII with a \<open>TypeError\<close>.\<close>

fun try_totp_steps ::
  "auth_lib \<Rightarrow> mfa_totp \<Rightarrow> string \<Rightarrow> int list \<Rightarrow> 'a identity_db_scheme \<Rightarrow> ('a identity_db_scheme \<times> bool) result" where
  "try_totp_steps lib totp clean [] db = Inr (db, False)"
| "try_totp_steps lib totp clean (step # rest) db =
     (if (case last_used_step totp of None \<Rightarrow> False | Some l \<Rightarrow> step \<le> l) then try_totp_steps lib totp clean rest db
      else if \<not> list_all (\<lambda>c. ord_char c < 128) clean then Inl TypeError
      else if totp_at lib (totp_secret totp) (step * 30) = clean then Inr (claim_totp_step totp step db)
      else try_totp_steps lib totp clean rest db)"

definition verify_totp_code ::
  "auth_lib \<Rightarrow> datetime \<Rightarrow> mfa_totp \<Rightarrow> string \<Rightarrow> 'a identity_db_scheme \<Rightarrow> ('a identity_db_scheme \<times> bool) result" where
  "verify_totp_code lib now totp code db =
     (let clean = filter (\<lambda>c. c \<noteq> CHR '' '') (strip_text code); step = (now div second_us) div 30
      in if \<not> list_all py_isdigit_char clean \<or> length clean \<noteq> 6 then Inr (db, False)
         else try_totp_steps lib totp clean [step, step - 1, step + 1] db)"

definition verify_totp ::
  "auth_lib \<Rightarrow> datetime \<Rightarrow> user \<Rightarrow> string \<Rightarrow> 'a identity_db_scheme \<Rightarrow> ('a identity_db_scheme \<times> bool) result" where
  "verify_totp lib now u code db = (case totp_of (user_id u) db of None \<Rightarrow> Inr (db, False)
     | Some t \<Rightarrow> if confirmed_at t = None then Inr (db, False) else verify_totp_code lib now t code db)"

definition confirm_totp ::
  "auth_lib \<Rightarrow> datetime \<Rightarrow> string list \<Rightarrow> user \<Rightarrow> string \<Rightarrow> string \<Rightarrow> 'a identity_db_scheme \<Rightarrow> ('a identity_db_scheme \<times> string list) result" where
  "confirm_totp lib now raws u code ip db = (case totp_of (user_id u) db of None \<Rightarrow> Inl (ConflictError [])
     | Some t \<Rightarrow> if confirmed_at t \<noteq> None then Inl (ConflictError [])
         else bindR (verify_totp_code lib now t code db) (\<lambda>(db1, ok).
           if \<not> ok then Inl (UnprocessableEntityError [(''factor'', JStr ''totp'')])
           else bindR (new_recovery_codes lib now raws (user_id u) (db1\<lparr>mfa_totps := update_where (\<lambda>r. totp_id r = totp_id t)
               (\<lambda>r. r\<lparr>confirmed_at := Some now\<rparr>) (mfa_totps db1)\<rparr>)) (\<lambda>(db2, codes).
             Inr (record_user_event now MFA_ENROLLED u None ip [(''factor'', JStr ''totp'')] db2, codes))))"

definition use_recovery_code ::
  "auth_lib \<Rightarrow> datetime \<Rightarrow> user \<Rightarrow> string \<Rightarrow> string \<Rightarrow> 'a identity_db_scheme \<Rightarrow> 'a identity_db_scheme \<times> bool" where
  "use_recovery_code lib now u code ip db =
     (case select_one (\<lambda>r. rc_user_id r = user_id u \<and> code_hash r = hash_code lib code \<and> rc_used_at r = None) (mfa_recovery_codes db) of
        None \<Rightarrow> (db, False)
      | Some row \<Rightarrow>
          let db1 = db\<lparr>mfa_recovery_codes := update_where (\<lambda>r. rc_id r = rc_id row) (\<lambda>r. r\<lparr>rc_used_at := Some now\<rparr>) (mfa_recovery_codes db)\<rparr>
          in (record_user_event now RECOVERY_CODE_USED u None ip [(''remaining'', JInt (int (unused_recovery_codes (user_id u) db1)))] db1, True))"

definition regenerate_recovery_codes ::
  "auth_lib \<Rightarrow> datetime \<Rightarrow> string list \<Rightarrow> user \<Rightarrow> string \<Rightarrow> 'a identity_db_scheme \<Rightarrow> ('a identity_db_scheme \<times> string list) result" where
  "regenerate_recovery_codes lib now raws u ip db =
     (if \<not> has_factor (user_id u) db then Inl (ConflictError [])
      else bindR (new_recovery_codes lib now raws (user_id u) db) (\<lambda>(db1, codes).
        Inr (record_user_event now RECOVERY_CODES_REGENERATED u None ip [] db1, codes)))"

definition drop_recovery_codes_if_no_factor :: "user \<Rightarrow> 'a identity_db_scheme \<Rightarrow> 'a identity_db_scheme" where
  "drop_recovery_codes_if_no_factor u db =
     (if has_factor (user_id u) db then db
      else db\<lparr>mfa_recovery_codes := delete_where (\<lambda>r. rc_user_id r = user_id u) (mfa_recovery_codes db)\<rparr>)"

definition remove_totp :: "datetime \<Rightarrow> user \<Rightarrow> uuid \<Rightarrow> string \<Rightarrow> 'a identity_db_scheme \<Rightarrow> 'a identity_db_scheme \<times> bool" where
  "remove_totp now u actor_id ip db = (case totp_of (user_id u) db of None \<Rightarrow> (db, False)
     | Some t \<Rightarrow>
         let db1 = db\<lparr>mfa_totps := delete_where (\<lambda>r. totp_id r = totp_id t) (mfa_totps db)\<rparr>;
             db2 = (if confirmed_at t \<noteq> None then record_user_event now MFA_REMOVED u (Some actor_id) ip
               [(''factor'', JStr ''totp''), (''by_self'', JBool (actor_id = user_id u))] db1 else db1)
         in (drop_recovery_codes_if_no_factor u db2, confirmed_at t \<noteq> None))"

definition remove_passkey :: "datetime \<Rightarrow> user \<Rightarrow> uuid \<Rightarrow> uuid \<Rightarrow> string \<Rightarrow> 'a identity_db_scheme \<Rightarrow> 'a identity_db_scheme \<times> bool" where
  "remove_passkey now u passkey_id actor_id ip db =
     (case select_one (\<lambda>p. pk_id p = passkey_id) (mfa_passkeys db) of None \<Rightarrow> (db, False)
      | Some row \<Rightarrow> if pk_user_id row \<noteq> user_id u then (db, False)
          else (drop_recovery_codes_if_no_factor u (record_user_event now MFA_REMOVED u (Some actor_id) ip
            [(''factor'', JStr ''passkey''), (''by_self'', JBool (actor_id = user_id u))]
            (db\<lparr>mfa_passkeys := delete_where (\<lambda>p. pk_id p = pk_id row) (mfa_passkeys db)\<rparr>)), True))"

definition remove_all_factors :: "datetime \<Rightarrow> user \<Rightarrow> uuid \<Rightarrow> string \<Rightarrow> 'a identity_db_scheme \<Rightarrow> 'a identity_db_scheme" where
  "remove_all_factors now u actor_id ip db =
     (let removed = (if totp_of (user_id u) db = None then [] else [JStr ''totp'']) @ map (\<lambda>_. JStr ''passkey'') (passkeys_of (user_id u) db)
      in record_user_event now MFA_REMOVED u (Some actor_id) ip
           [(''factors'', JList removed), (''by_self'', JBool (actor_id = user_id u)), (''all'', JBool True)]
           (db\<lparr>mfa_totps := delete_where (\<lambda>r. totp_user_id r = user_id u) (mfa_totps db),
               mfa_passkeys := delete_where (\<lambda>p. pk_user_id p = user_id u) (mfa_passkeys db),
               mfa_recovery_codes := delete_where (\<lambda>r. rc_user_id r = user_id u) (mfa_recovery_codes db)\<rparr>))"

section \<open>The routes of a sign-in\<close>

text \<open>The session row; the token that names it is left out.\<close>

definition mint_session ::
  "auth_lib \<Rightarrow> datetime \<Rightarrow> user \<Rightarrow> uuid \<Rightarrow> string \<Rightarrow> string \<Rightarrow> string list \<Rightarrow> 'a identity_db_scheme
     \<Rightarrow> ('a identity_db_scheme \<times> auth_session) result" where
  "mint_session lib now u dealership_id device ip methods db =
     (if is_inactive u \<or> \<not> access_window_open lib now u then Inl (UnauthorizedError [])
      else if dealership_id \<noteq> user_tenant_id u \<and> dealership_id \<notin> set (list_membership_dealership_ids now (user_id u) db)
      then Inl (ForbiddenError [])
      else bindR (get_dealership_or_404 dealership_id db) (\<lambda>d.
        Inr (create_session lib now (user_id u) (dealer_id d) device ip methods db)))"

text \<open>The row's lock is already held, so the re-read sees this transaction's own row.\<close>

definition finish_login ::
  "auth_lib \<Rightarrow> datetime \<Rightarrow> user \<Rightarrow> string \<Rightarrow> string \<Rightarrow> string list \<Rightarrow> 'a identity_db_scheme
     \<Rightarrow> ('a identity_db_scheme \<times> auth_session) result" where
  "finish_login lib now u0 device ip methods db = (case get_user (user_id u0) db of None \<Rightarrow> Inl RuntimeError
     | Some u \<Rightarrow> bindR (mint_session lib now u (user_tenant_id u) device ip methods db) (\<lambda>(db1, s).
         Inr (record_user_event now LOGIN_SUCCEEDED u None ip [(''amr'', JList (map JStr methods))] (login_completed now u db1), s)))"

datatype login_step = Session auth_session | MfaStep string "string list"

definition begin_mfa_step ::
  "auth_lib \<Rightarrow> datetime \<Rightarrow> string \<Rightarrow> user \<Rightarrow> 'a identity_db_scheme \<Rightarrow> ('a identity_db_scheme \<times> login_step) result" where
  "begin_mfa_step lib now raw u db = bindR (issue_token lib now raw (user_id u) MFA_CHALLENGE None db) (\<lambda>db1.
     Inr (db1, MfaStep raw ((case totp_of (user_id u) db1 of None \<Rightarrow> [] | Some t \<Rightarrow> if confirmed_at t = None then [] else [''totp''])
       @ (if passkeys_of (user_id u) db1 = [] then [] else [''passkey'']) @ [''recovery_code''])))"

text \<open>An error after the resolution rolls back to what was committed when the lock was taken.\<close>

definition login ::
  "auth_lib \<Rightarrow> ('a identity_db_scheme \<Rightarrow> 'a identity_db_scheme) \<Rightarrow> datetime \<Rightarrow> datetime \<Rightarrow> string \<Rightarrow> presented_credentials \<Rightarrow> string
     \<Rightarrow> 'a identity_db_scheme \<Rightarrow> 'a identity_db_scheme \<times> login_step result" where
  "login lib env now check raw p device db = (case resolve_login lib env now check p db of
       (db1, Inl e) \<Rightarrow> (db1, Inl e)
     | (db1, Inr u) \<Rightarrow>
         if has_factor (user_id u) db1
         then (case begin_mfa_step lib check raw u db1 of Inl e \<Rightarrow> (env db, Inl e) | Inr (db2, s) \<Rightarrow> (db2, Inr s))
         else (case finish_login lib check u device (pres_ip_address p) [''pwd''] db1 of Inl e \<Rightarrow> (env db, Inl e)
           | Inr (db2, s) \<Rightarrow> (db2, Inr (Session s))))"

definition step_expired :: exn where
  "step_expired = UnauthorizedError [(''step'', JStr ''expired'')]"

text \<open>
  \<open>_challenged_user\<close> for an answer. With an error the database is the committed one; with the user it is the one the
  route goes on writing.
\<close>

definition challenged_user ::
  "auth_lib \<Rightarrow> ('a identity_db_scheme \<Rightarrow> 'a identity_db_scheme) \<Rightarrow> datetime \<Rightarrow> datetime \<Rightarrow> string \<Rightarrow> string
     \<Rightarrow> 'a identity_db_scheme \<Rightarrow> 'a identity_db_scheme \<times> user result" where
  "challenged_user lib env now check challenge_id ip db =
     (case peek_token lib now challenge_id MFA_CHALLENGE db of None \<Rightarrow> (db, Inl step_expired)
      | Some token \<Rightarrow> (case get_user (tok_user_id token) db of None \<Rightarrow> (db, Inl step_expired)
          | Some u0 \<Rightarrow>
            (let db1 = env db in case get_user (user_id u0) db1 of None \<Rightarrow> (db1, Inl RuntimeError)
             | Some u \<Rightarrow>
               let throttled = account_throttled check (credential_of (user_id u) db1);
                   claim = claim_attempt token mfa_max_attempts db1
               in if throttled \<or> \<not> snd claim
                  then (case consume_token lib check challenge_id MFA_CHALLENGE db1 of
                      (_, None) \<Rightarrow> (db1, Inl step_expired)
                    | (db2, Some _) \<Rightarrow> (record_user_event check LOGIN_THROTTLED u None ip [(''step'', JStr ''mfa'')] db2, Inl step_expired))
                  else (fst claim, Inr u))))"

definition spend_challenge :: "auth_lib \<Rightarrow> datetime \<Rightarrow> string \<Rightarrow> 'a identity_db_scheme \<Rightarrow> 'a identity_db_scheme result" where
  "spend_challenge lib now challenge_id db = (case consume_token lib now challenge_id MFA_CHALLENGE db of
     (_, None) \<Rightarrow> Inl step_expired | (db1, Some _) \<Rightarrow> Inr db1)"

definition verify_mfa ::
  "auth_lib \<Rightarrow> ('a identity_db_scheme \<Rightarrow> 'a identity_db_scheme) \<Rightarrow> datetime \<Rightarrow> datetime \<Rightarrow> string \<Rightarrow> string \<Rightarrow> string \<Rightarrow> string
     \<Rightarrow> 'a identity_db_scheme \<Rightarrow> 'a identity_db_scheme \<times> login_step result" where
  "verify_mfa lib env now check challenge_id code ip device db =
     (case challenged_user lib env now check challenge_id ip db of
        (d, Inl e) \<Rightarrow> (d, Inl e)
      | (d, Inr u) \<Rightarrow>
        (let mint = (\<lambda>methods d1. case bindR (spend_challenge lib check challenge_id d1) (finish_login lib check u device ip methods) of
                Inl e \<Rightarrow> (env db, Inl e)
              | Inr (d3, s) \<Rightarrow> (d3, Inr (Session s)))
         in case verify_totp lib check u code d of Inl e \<Rightarrow> (env db, Inl e)
            | Inr (d1, True) \<Rightarrow> mint [''pwd'', ''otp'', ''mfa''] d1
            | Inr (d1, False) \<Rightarrow> (case use_recovery_code lib check u code ip d1 of
                (d2, True) \<Rightarrow> mint [''pwd'', ''mfa''] d2
              | (d2, False) \<Rightarrow> (record_user_event check MFA_FAILED u None ip [] (second_step_failed check u ip d2), Inl (UnauthorizedError [])))))"

text \<open>An accepted invitation signs the user in like a login, once the access window is open.\<close>

definition invitation_accept ::
  "auth_lib \<Rightarrow> ('a identity_db_scheme \<Rightarrow> 'a identity_db_scheme) \<Rightarrow> datetime \<Rightarrow> string \<Rightarrow> string \<Rightarrow> string \<Rightarrow> string \<Rightarrow> string
     \<Rightarrow> 'a identity_db_scheme \<Rightarrow> 'a identity_db_scheme \<times> login_step result" where
  "invitation_accept lib env now raw token password ip device db =
     (case accept_invitation lib env now token password ip db of Inl e \<Rightarrow> (env db, Inl e)
      | Inr (db1, u) \<Rightarrow>
          if \<not> access_window_open lib now u then (db1, Inl (ForbiddenError [(''reason'', JStr ''access_window_closed''),
            (''validFrom'', json_opt JInt (user_valid_from u)), (''validTo'', json_opt JInt (user_valid_to u))]))
          else if has_factor (user_id u) db1
          then (case begin_mfa_step lib now raw u db1 of Inl e \<Rightarrow> (env db, Inl e) | Inr (db2, s) \<Rightarrow> (db2, Inr s))
          else (case finish_login lib now u device ip [''pwd''] db1 of Inl e \<Rightarrow> (env db, Inl e)
            | Inr (db2, s) \<Rightarrow> (db2, Inr (Session s))))"

text \<open>The session a valid cookie names is ended; \<open>uid\<close> and \<open>dealership_id\<close> are the token's.\<close>

definition logout :: "datetime \<Rightarrow> uuid \<Rightarrow> uuid \<Rightarrow> uuid \<Rightarrow> string \<Rightarrow> 'a identity_db_scheme \<Rightarrow> 'a identity_db_scheme" where
  "logout now session_id uid dealership_id ip db = (case select_one (\<lambda>s. ses_id s = session_id) (auth_sessions db) of None \<Rightarrow> db
     | Some s \<Rightarrow> if revoked_at s \<noteq> None then db
         else record_event now SESSION_REVOKED (Some uid) (Some dealership_id) None ip [(''count'', JInt 1), (''reason'', JStr ''logout'')]
           (revoke_session now ''logout'' s db))"

section \<open>What the writes leave of a credential\<close>

lemma credential_record_event [simp]: "credential_of uid (record_event now k u d a ip det db) = credential_of uid db"
  by (simp add: record_event_def draw_uuid_def credential_of_def)

lemma credential_save_user [simp]: "credential_of uid (save_user u db) = credential_of uid db"
  by (simp add: save_user_def credential_of_def)

lemma credential_issue_token: "issue_token lib now raw u k a db = Inr db' \<Longrightarrow> credential_of uid db' = credential_of uid db"
  by (auto simp: issue_token_def consume_all_for_user_def draw_uuid_def credential_of_def Let_def split: if_splits)

lemma credential_tokens [simp]:
  "credential_of uid (fst (consume_token lib now raw k db)) = credential_of uid db"
  "credential_of uid (fst (claim_attempt t n db)) = credential_of uid db"
  by (simp_all add: consume_token_def claim_attempt_def credential_of_def Let_def)

lemma credential_create_session [simp]: "credential_of uid (fst (create_session lib now u d dev ip m db)) = credential_of uid db"
  by (simp add: create_session_def draw_uuid_def credential_of_def Let_def)

lemma credential_try_steps: "try_totp_steps lib t clean steps db = Inr (db', b) \<Longrightarrow> credential_of uid db' = credential_of uid db"
  by (induction steps) (auto simp: claim_totp_step_def credential_of_def Let_def split: if_splits)

lemma credential_verify_totp: "verify_totp lib now u code db = Inr (db', b) \<Longrightarrow> credential_of uid db' = credential_of uid db"
  by (auto simp: verify_totp_def verify_totp_code_def Let_def simp del: try_totp_steps.simps split: option.splits if_splits
      dest: credential_try_steps)

lemma credential_use_recovery [simp]: "credential_of uid (fst (use_recovery_code lib now u code ip db)) = credential_of uid db"
  by (simp add: use_recovery_code_def Let_def split: option.split) (simp add: credential_of_def)

lemma credential_of_user: "credential_of uid db = Some c \<Longrightarrow> cred_user_id c = uid"
  by (auto simp: credential_of_def dest: select_one_SomeD)

lemma credential_save:
  "credential_of uid (save_credential c db) = (if cred_user_id c = uid then map_option (\<lambda>_. c) (credential_of uid db) else credential_of uid db)"
proof -
  have "select_one (\<lambda>r. cred_user_id r = uid) (update_where (\<lambda>r. cred_user_id r = cred_user_id c) (\<lambda>_. c) rows)
      = (if cred_user_id c = uid then map_option (\<lambda>_. c) (select_one (\<lambda>r. cred_user_id r = uid) rows)
         else select_one (\<lambda>r. cred_user_id r = uid) rows)" for rows
    by (induction rows) auto
  then show ?thesis by (simp add: credential_of_def save_credential_def)
qed

section \<open>Guesses at an account\<close>

text \<open>What the throttle reads of a credential.\<close>

definition lock_state :: "uuid \<Rightarrow> 'a identity_db_scheme \<Rightarrow> (nat \<times> datetime option) option" where
  "lock_state uid db = map_option (\<lambda>c. (failed_login_attempts c, locked_until c)) (credential_of uid db)"

text \<open>
  A login compares the presented password with the account's, or a second step the presented code: everything before
  the comparison has passed.
\<close>

definition password_compared ::
  "('a identity_db_scheme \<Rightarrow> 'a identity_db_scheme) \<Rightarrow> datetime \<Rightarrow> datetime \<Rightarrow> presented_credentials \<Rightarrow> 'a identity_db_scheme
     \<Rightarrow> credential option" where
  "password_compared env now check p db = (case find_user_by_email (pres_email p) db of None \<Rightarrow> None
     | Some u \<Rightarrow> if ip_throttled now (pres_ip_address p) db \<or> account_throttled now (credential_of (user_id u) db)
           \<or> credential_of (user_id u) db = None \<or> get_user (user_id u) (env db) = None
           \<or> account_throttled check (credential_of (user_id u) (env db)) then None
         else credential_of (user_id u) (env db))"

definition wrong_password ::
  "auth_lib \<Rightarrow> ('a identity_db_scheme \<Rightarrow> 'a identity_db_scheme) \<Rightarrow> datetime \<Rightarrow> datetime \<Rightarrow> presented_credentials \<Rightarrow> uuid
     \<Rightarrow> 'a identity_db_scheme \<Rightarrow> bool" where
  "wrong_password lib env now check p uid db \<longleftrightarrow> (case password_compared env now check p db of None \<Rightarrow> False
     | Some c \<Rightarrow> cred_user_id c = uid \<and> \<not> argon2_verify lib (password_hash c) (pres_password p))"

definition wrong_code ::
  "auth_lib \<Rightarrow> ('a identity_db_scheme \<Rightarrow> 'a identity_db_scheme) \<Rightarrow> datetime \<Rightarrow> datetime \<Rightarrow> string \<Rightarrow> string \<Rightarrow> string \<Rightarrow> uuid
     \<Rightarrow> 'a identity_db_scheme \<Rightarrow> bool" where
  "wrong_code lib env now check ch code ip uid db \<longleftrightarrow> (case challenged_user lib env now check ch ip db of (_, Inl _) \<Rightarrow> False
     | (d, Inr u) \<Rightarrow> user_id u = uid \<and> (case verify_totp lib check u code d of Inl _ \<Rightarrow> False
         | Inr (d1, b) \<Rightarrow> \<not> b \<and> \<not> snd (use_recovery_code lib check u code ip d1)))"

text \<open>A request that signs the account in ends the attack.\<close>

definition signs_in :: "uuid \<Rightarrow> login_step result \<Rightarrow> bool" where
  "signs_in uid r \<longleftrightarrow> (case r of Inr (Session s) \<Rightarrow> ses_user_id s = uid | _ \<Rightarrow> False)"

lemma get_user_id: "get_user i db = Some u \<Longrightarrow> user_id u = i"
  by (auto simp: get_user_def dest: select_one_SomeD)

text \<open>Without a comparison the answer does not depend on the password.\<close>

lemma not_compared:
  assumes "password_compared env now check p db = None"
  shows "resolve_login lib env now check p db = resolve_login (lib\<lparr>argon2_verify := v\<rparr>) env now check p db"
proof -
  have "access_window_open (lib\<lparr>argon2_verify := v\<rparr>) = access_window_open lib"
    by (simp add: access_window_open_def fun_eq_iff split: option.split)
  then have "resolve_under_lock lib now check p u (env db) = resolve_under_lock (lib\<lparr>argon2_verify := v\<rparr>) now check p u (env db)"
    if "get_user i (env db) = Some u" "account_throttled check (credential_of i (env db)) \<or> credential_of i (env db) = None" for i u
    using that(2) get_user_id [OF that(1)] by (auto simp: resolve_under_lock_def split: option.split)
  then show ?thesis using assms unfolding resolve_login_def password_compared_def Let_def
    by (auto split: option.splits if_splits)
qed

lemma cred_user_failed [simp]: "cred_user_id (failed_credential f l c) = cred_user_id c"
  by (simp add: failed_credential_def Let_def)

lemma credential_refuse [simp]: "credential_of uid (fst (refuse_login t k u p det db)) = credential_of uid db"
  by (simp add: refuse_login_def)

lemma credential_refuse_wrong:
  "credential_of uid (fst (refuse_wrong_password now check p u c db)) = credential_of uid (save_credential (failed_credential now now c) db)"
  by (simp add: refuse_wrong_password_def Let_def)

lemma wrong_password_under_lock:
  assumes "resolve_under_lock lib now check p u db = (db', r)" "credential_of (user_id u) db = Some c" "\<not> account_throttled check (Some c)"
    "\<not> argon2_verify lib (password_hash c) (pres_password p)"
  shows "credential_of (user_id u) db' = Some (failed_credential now now c)" "r = Inl (UnauthorizedError [])"
proof -
  have "(db', r) = refuse_wrong_password now check p u c db" using assms by (simp add: resolve_under_lock_def)
  then have "db' = fst (refuse_wrong_password now check p u c db)" "r = snd (refuse_wrong_password now check p u c db)" by (metis fst_conv snd_conv)+
  then show "credential_of (user_id u) db' = Some (failed_credential now now c)" "r = Inl (UnauthorizedError [])"
    using assms(2) credential_of_user [OF assms(2)]
    by (simp_all add: credential_refuse_wrong credential_save) (simp add: refuse_wrong_password_def refuse_login_def Let_def)
qed

text \<open>Everything else leaves the account's counter and lock alone.\<close>

lemma lock_state_cong: "credential_of uid db' = credential_of uid db \<Longrightarrow> lock_state uid db' = lock_state uid db"
  by (simp add: lock_state_def)

lemma lock_state_event [simp]:
  "lock_state uid (record_event now k v d a ip det db) = lock_state uid db" "lock_state uid (fst (refuse_login now k w p det db)) = lock_state uid db"
  by (simp_all add: lock_state_def)

lemma lock_state_save:
  assumes "credential_of i db = Some c" "cred_user_id c' = cred_user_id c"
    "i = uid \<Longrightarrow> failed_login_attempts c' = failed_login_attempts c \<and> locked_until c' = locked_until c"
  shows "lock_state uid (save_credential c' db) = lock_state uid db"
  using assms credential_of_user [OF assms(1)] by (auto simp: lock_state_def credential_save)

lemma quiet_under_lock:
  assumes "\<not> (user_id u = uid \<and> (\<exists>c. credential_of uid db = Some c \<and> \<not> account_throttled check (Some c)
      \<and> \<not> argon2_verify lib (password_hash c) (pres_password p)))"
  shows "lock_state uid (fst (resolve_under_lock lib now check p u db)) = lock_state uid db"
proof (cases "credential_of (user_id u) db")
  case None
  then show ?thesis by (simp add: resolve_under_lock_def)
next
  case (Some c)
  have "lock_state uid (fst (refuse_wrong_password now check p u c db)) = lock_state uid db" if "user_id u \<noteq> uid"
    using lock_state_save [OF Some, of "failed_credential now now c" uid] that
    by (simp add: lock_state_def credential_refuse_wrong)
  moreover have "lock_state uid (save_credential (c\<lparr>password_hash := h, cred_updated_by := b\<rparr>) db) = lock_state uid db" for h b
    by (rule lock_state_save [OF Some]) simp_all
  ultimately show ?thesis using Some assms by (auto simp: resolve_under_lock_def)
qed

lemma wrong_passwordD:
  assumes w: "wrong_password lib env now check p uid db" and env: "credential_of uid (env db) = credential_of uid db"
    and r: "resolve_login lib env now check p db = (db', r)"
  obtains c where "credential_of uid db = Some c" "\<not> account_throttled check (Some c)"
    "credential_of uid db' = Some (failed_credential now now c)" "r = Inl (UnauthorizedError [])"
proof -
  obtain u0 c u where p: "find_user_by_email (pres_email p) db = Some u0" "\<not> ip_throttled now (pres_ip_address p) db"
    "\<not> account_throttled now (credential_of (user_id u0) db)" "credential_of (user_id u0) db \<noteq> None" "get_user (user_id u0) (env db) = Some u"
    "\<not> account_throttled check (Some c)" "credential_of (user_id u0) (env db) = Some c" "cred_user_id c = uid"
    "\<not> argon2_verify lib (password_hash c) (pres_password p)"
    using w by (auto simp: wrong_password_def password_compared_def split: option.splits if_splits)
  have id: "user_id u = uid" "user_id u0 = uid" using get_user_id [OF p(5)] credential_of_user [OF p(7)] p(8) by simp_all
  have "resolve_under_lock lib now check p u (env db) = (db', r)" using r p(1-5) by (auto simp: resolve_login_def)
  from wrong_password_under_lock [OF this _ p(6,9)] show ?thesis using that [of c] p(6,7) id env by simp
qed

lemma right_password_quiet:
  assumes w: "\<not> wrong_password lib env now check p uid db" and env: "credential_of uid (env db) = credential_of uid db"
  shows "lock_state uid (fst (resolve_login lib env now check p db)) = lock_state uid db"
proof -
  have e: "lock_state uid (env db) = lock_state uid db" using env by (rule lock_state_cong)
  have "lock_state uid (fst (resolve_under_lock lib now check p u (env db))) = lock_state uid db"
    if "find_user_by_email (pres_email p) db = Some u0" "\<not> ip_throttled now (pres_ip_address p) db"
      "\<not> account_throttled now (credential_of (user_id u0) db)" "credential_of (user_id u0) db \<noteq> None" "get_user (user_id u0) (env db) = Some u" for u0 u
  proof -
    have "\<not> (user_id u = uid \<and> (\<exists>c. credential_of uid (env db) = Some c \<and> \<not> account_throttled check (Some c)
        \<and> \<not> argon2_verify lib (password_hash c) (pres_password p)))"
      using w that get_user_id [OF that(5)] credential_of_user [of uid "env db"]
      by (auto simp: wrong_password_def password_compared_def split: if_splits)
    from quiet_under_lock [OF this] e show ?thesis by simp
  qed
  then show ?thesis unfolding resolve_login_def Let_def using e by (auto split: option.split)
qed

lemma lock_state_tokens [simp]:
  "lock_state uid (fst (consume_token lib now raw k db)) = lock_state uid db"
  "lock_state uid (fst (claim_attempt t n db)) = lock_state uid db"
  "lock_state uid (fst (create_session lib now u d dev ip m db)) = lock_state uid db"
  "lock_state uid (fst (use_recovery_code lib now v code ip db)) = lock_state uid db"
  by (simp_all add: lock_state_def)

lemma lock_state_login_completed:
  assumes "user_id u \<noteq> uid"
  shows "lock_state uid (login_completed now u db) = lock_state uid db"
proof (cases "credential_of (user_id u) (save_user (u\<lparr>user_last_login_at := Some now\<rparr>) db)")
  case (Some c)
  have "lock_state uid (save_credential (c\<lparr>failed_login_attempts := 0, last_failed_at := None, locked_until := None\<rparr>)
      (save_user (u\<lparr>user_last_login_at := Some now\<rparr>) db)) = lock_state uid (save_user (u\<lparr>user_last_login_at := Some now\<rparr>) db)"
    by (rule lock_state_save [OF Some]) (use assms in simp_all)
  then show ?thesis using Some by (simp add: login_completed_def Let_def) (simp add: lock_state_def)
qed (simp add: login_completed_def Let_def lock_state_def)

text \<open>A finished login clears the counter of the user it signs in and of no other.\<close>

lemma finish_login_quiet:
  assumes "finish_login lib now u dev ip m db = Inr (db', s)" "ses_user_id s \<noteq> uid"
  shows "lock_state uid db' = lock_state uid db"
proof -
  obtain v d1 where v: "get_user (user_id u) db = Some v" "mint_session lib now v (user_tenant_id v) dev ip m db = Inr (d1, s)"
    "db' = record_user_event now LOGIN_SUCCEEDED v None ip [(''amr'', JList (map JStr m))] (login_completed now v d1)"
    using assms(1) by (auto simp: finish_login_def bindR_Inr_iff split: option.splits)
  obtain d :: dealership where "create_session lib now (user_id v) (dealer_id d) dev ip m db = (d1, s)"
    using v(2) by (auto simp: mint_session_def bindR_Inr_iff split: if_splits)
  then have "d1 = fst (create_session lib now (user_id v) (dealer_id d) dev ip m db)" "ses_user_id s = user_id v"
    by (auto simp: create_session_def split_beta Let_def)
  then show ?thesis using v(3) assms(2) by (simp add: lock_state_login_completed)
qed

lemma begin_mfa_quiet:
  assumes "begin_mfa_step lib now raw u db = Inr (db', s)"
  shows "lock_state uid db' = lock_state uid db"
proof -
  have "issue_token lib now raw (user_id u) MFA_CHALLENGE None db = Inr db'" using assms by (auto simp: begin_mfa_step_def bindR_Inr_iff)
  from credential_issue_token [OF this] show ?thesis by (rule lock_state_cong)
qed

lemma login_quiet:
  assumes l: "login lib env now check raw p dev db = (db', r)" and env: "credential_of uid (env db) = credential_of uid db"
    and w: "\<not> wrong_password lib env now check p uid db" and s: "\<not> signs_in uid r"
  shows "lock_state uid db' = lock_state uid db"
proof -
  obtain db1 x where res: "resolve_login lib env now check p db = (db1, x)" by (metis surj_pair)
  have q: "lock_state uid db1 = lock_state uid db" using right_password_quiet [OF w env] res by simp
  have e: "lock_state uid (env db) = lock_state uid db" using env by (rule lock_state_cong)
  show ?thesis
  proof (cases x)
    case (Inl a)
    then show ?thesis using l res q by (simp add: login_def)
  next
    case (Inr u)
    show ?thesis using l res Inr q e s begin_mfa_quiet [of lib check raw u db1 _ _ uid] finish_login_quiet [of lib check u dev "pres_ip_address p" "[''pwd'']" db1 _ _ uid]
      by (auto simp: login_def signs_in_def split: if_splits sum.splits)
  qed
qed

lemma login_wrong:
  assumes l: "login lib env now check raw p dev db = (db', r)" and env: "credential_of uid (env db) = credential_of uid db"
    and w: "wrong_password lib env now check p uid db"
  obtains c where "credential_of uid db = Some c" "\<not> account_throttled check (Some c)" "credential_of uid db' = Some (failed_credential now now c)"
proof -
  obtain db1 x where res: "resolve_login lib env now check p db = (db1, x)" by (metis surj_pair)
  obtain c where c: "credential_of uid db = Some c" "\<not> account_throttled check (Some c)"
    "credential_of uid db1 = Some (failed_credential now now c)" "x = Inl (UnauthorizedError [])"
    by (rule wrong_passwordD [OF w env res])
  show ?thesis using that [of c] c l res by (simp add: login_def)
qed

text \<open>The second step.\<close>

lemma challengedD:
  assumes "challenged_user lib env now check ch ip db = (d, Inr u)"
  shows "\<not> account_throttled check (credential_of (user_id u) (env db))" "credential_of i d = credential_of i (env db)"
proof -
  obtain token where "(d, Inr u) = (fst (claim_attempt token mfa_max_attempts (env db)), Inr u :: user result)"
    "\<not> account_throttled check (credential_of (user_id u) (env db))"
    using assms by (auto simp: challenged_user_def Let_def split: option.splits if_splits prod.splits)
  then show "\<not> account_throttled check (credential_of (user_id u) (env db))" "credential_of i d = credential_of i (env db)" by simp_all
qed

lemma challenged_refused:
  assumes "challenged_user lib env now check ch ip db = (d, Inl e)" and env: "credential_of uid (env db) = credential_of uid db"
  shows "lock_state uid d = lock_state uid db"
proof -
  have q: "lock_state uid x = lock_state uid (env db)" if "consume_token lib check ch MFA_CHALLENGE (env db) = (x, y)" for x y
    using that lock_state_tokens(1) [of uid lib check ch MFA_CHALLENGE "env db"] by simp
  have e: "lock_state uid (env db) = lock_state uid db" using env by (rule lock_state_cong)
  show ?thesis using assms(1) q e by (auto simp: challenged_user_def Let_def split: option.splits if_splits prod.splits)
qed

lemma second_step_failed_credential:
  assumes "credential_of (user_id u) db = Some c"
  shows "credential_of uid (second_step_failed now u ip db) = credential_of uid (save_credential (failed_credential now now c) db)"
  using assms by (simp add: second_step_failed_def Let_def)

lemma spend_quiet:
  assumes "spend_challenge lib now ch db = Inr db'"
  shows "lock_state uid db' = lock_state uid db"
proof -
  have "db' = fst (consume_token lib now ch MFA_CHALLENGE db)" using assms by (auto simp: spend_challenge_def split: prod.splits option.splits)
  then show ?thesis by simp
qed

lemma mint_quiet:
  assumes "(case bindR (spend_challenge lib now ch d) (finish_login lib now u dev ip m) of Inl e \<Rightarrow> (d0, Inl e)
      | Inr (d3, s) \<Rightarrow> (d3, Inr (Session s))) = (db', r)" "\<not> signs_in uid r" "lock_state uid d0 = x" "lock_state uid d = x"
  shows "lock_state uid db' = x"
proof (cases "bindR (spend_challenge lib now ch d) (finish_login lib now u dev ip m)")
  case (Inr y)
  obtain d3 s where y3: "y = (d3, s)" by (metis surj_pair)
  then obtain d2 where y: "spend_challenge lib now ch d = Inr d2" "finish_login lib now u dev ip m d2 = Inr (d3, s)"
    using Inr by (auto simp: bindR_Inr_iff)
  then have "db' = d3" "ses_user_id s \<noteq> uid" using assms(1,2) Inr y3 by (auto simp: signs_in_def)
  then show ?thesis using finish_login_quiet [OF y(2), of uid] spend_quiet [OF y(1), of uid] assms(4) by simp
next
  case (Inl e)
  then show ?thesis using assms(1,3) by simp
qed

lemma mfa_quiet:
  assumes m: "verify_mfa lib env now check ch code ip dev db = (db', r)" and env: "credential_of uid (env db) = credential_of uid db"
    and w: "\<not> wrong_code lib env now check ch code ip uid db" and s: "\<not> signs_in uid r"
  shows "lock_state uid db' = lock_state uid db"
proof -
  have e: "lock_state uid (env db) = lock_state uid db" using env by (rule lock_state_cong)
  obtain d x where ch: "challenged_user lib env now check ch ip db = (d, x)" by (metis surj_pair)
  show ?thesis
  proof (cases x)
    case (Inl a)
    then show ?thesis using m ch challenged_refused [of lib env now check ch ip db d a uid] env by (simp add: verify_mfa_def)
  next
    case (Inr u)
    have d: "lock_state uid d = lock_state uid db" using challengedD(2) [OF ch [unfolded Inr], of uid] e by (simp add: lock_state_def)
    show ?thesis
    proof (cases "verify_totp lib check u code d")
      case (Inl a)
      then show ?thesis using m ch Inr e by (simp add: verify_mfa_def Let_def)
    next
      case v: (Inr y)
      obtain d1 b where y: "y = (d1, b)" by (metis surj_pair)
      have d1: "lock_state uid d1 = lock_state uid db" using credential_verify_totp [OF v [unfolded y], of uid] d by (simp add: lock_state_def)
      obtain d2 b2 where r2: "use_recovery_code lib check u code ip d1 = (d2, b2)" by (metis surj_pair)
      have d2: "lock_state uid d2 = lock_state uid db" using lock_state_tokens(4) [of uid lib check u code ip d1] r2 d1 by simp
      consider (totp) b | (recovery) "\<not> b" b2 | (wrong) "\<not> b" "\<not> b2" by blast
      then show ?thesis
      proof cases
        case totp
        then show ?thesis using m ch Inr v y by (intro mint_quiet [OF _ s e d1]) (simp add: verify_mfa_def Let_def)
      next
        case recovery
        then show ?thesis using m ch Inr v y r2 by (intro mint_quiet [OF _ s e d2]) (simp add: verify_mfa_def Let_def)
      next
        case wrong
        then have "user_id u \<noteq> uid" using w ch Inr v y r2 by (auto simp: wrong_code_def)
        then have "lock_state uid (second_step_failed check u ip d2) = lock_state uid d2"
          by (cases "credential_of (user_id u) d2")
            (simp_all add: second_step_failed_def Let_def lock_state_save)
        moreover have "db' = record_user_event check MFA_FAILED u None ip [] (second_step_failed check u ip d2)"
          using m ch Inr v y r2 wrong by (simp add: verify_mfa_def Let_def)
        ultimately show ?thesis using d2 by simp
      qed
    qed
  qed
qed

lemma mfa_wrong:
  assumes m: "verify_mfa lib env now check ch code ip dev db = (db', r)" and env: "credential_of uid (env db) = credential_of uid db"
    and w: "wrong_code lib env now check ch code ip uid db" and c: "credential_of uid db = Some c"
  shows "\<not> account_throttled check (Some c)" "credential_of uid db' = Some (failed_credential check check c)"
proof -
  obtain d u d1 d2 where ch: "challenged_user lib env now check ch ip db = (d, Inr u)" "user_id u = uid"
    and v: "verify_totp lib check u code d = Inr (d1, False)" "use_recovery_code lib check u code ip d1 = (d2, False)"
    using w by (auto simp: wrong_code_def split: prod.splits sum.splits) (metis prod.collapse)
  have d2: "credential_of uid d2 = Some c"
    using challengedD(2) [OF ch(1), of uid] credential_verify_totp [OF v(1), of uid] credential_use_recovery [of uid lib check u code ip d1] v(2) env c
    by simp
  show "\<not> account_throttled check (Some c)" using challengedD(1) [OF ch(1)] ch(2) env c by simp
  have "db' = record_user_event check MFA_FAILED u None ip [] (second_step_failed check u ip d2)"
    using m ch v by (simp add: verify_mfa_def Let_def)
  then show "credential_of uid db' = Some (failed_credential check check c)"
    using second_step_failed_credential [of u d2 c uid check ip] d2 ch(2) credential_of_user [OF d2] by (simp add: credential_save)
qed

section \<open>An account under attack\<close>

text \<open>
  Any sequence of login and second-step requests, of any origin, for any accounts and with any interleaving, that does not
  sign the attacked user in, with the number of wrong answers compared with that user's password or codes. A request may
  wait up to \<open>wait\<close> for the user's row. Everything else that may happen leaves the account's counter alone.
\<close>

inductive besieged ::
  "auth_lib \<Rightarrow> int \<Rightarrow> uuid \<Rightarrow> datetime \<Rightarrow> 'a identity_db_scheme \<Rightarrow> nat \<Rightarrow> datetime \<Rightarrow> 'a identity_db_scheme \<Rightarrow> bool"
  for lib :: auth_lib and wait :: int and uid :: uuid and t0 :: datetime and db0 :: "'a identity_db_scheme" where
  siege_begins: "besieged lib wait uid t0 db0 0 t0 db0"
| siege_login: "besieged lib wait uid t0 db0 n t db \<Longrightarrow> t \<le> check \<Longrightarrow> check - wait \<le> now \<Longrightarrow> now \<le> check
    \<Longrightarrow> credential_of uid (env db) = credential_of uid db \<Longrightarrow> login lib env now check raw p dev db = (db', r) \<Longrightarrow> \<not> signs_in uid r
    \<Longrightarrow> besieged lib wait uid t0 db0 (if wrong_password lib env now check p uid db then n + 1 else n) check db'"
| siege_code: "besieged lib wait uid t0 db0 n t db \<Longrightarrow> t \<le> check \<Longrightarrow> check - wait \<le> now \<Longrightarrow> now \<le> check
    \<Longrightarrow> credential_of uid (env db) = credential_of uid db \<Longrightarrow> verify_mfa lib env now check ch code ip dev db = (db', r) \<Longrightarrow> \<not> signs_in uid r
    \<Longrightarrow> besieged lib wait uid t0 db0 (if wrong_code lib env now check ch code ip uid db then n + 1 else n) check db'"
| siege_other: "besieged lib wait uid t0 db0 n t db \<Longrightarrow> t \<le> t' \<Longrightarrow> lock_state uid db' = lock_state uid db
    \<Longrightarrow> besieged lib wait uid t0 db0 n t' db'"

definition lockout_us :: int where "lockout_us = auth_lockout_minutes * minute_us"

text \<open>After five wrong answers the account is locked for as long as each further one earned.\<close>

definition holds_out :: "int \<Rightarrow> uuid \<Rightarrow> datetime \<Rightarrow> nat \<Rightarrow> datetime \<Rightarrow> 'a identity_db_scheme \<Rightarrow> bool" where
  "holds_out span_us uid t0 n t db \<longleftrightarrow> (\<exists>f l. lock_state uid db = Some (f, l) \<and> n \<le> f \<and> t0 \<le> t \<and> t0 + (int n - 5) * span_us \<le> t
     \<and> (5 \<le> n \<longrightarrow> (\<exists>x. l = Some x \<and> t0 + (int n - 4) * span_us \<le> x)))"

lemma holds_out_quiet:
  "holds_out s uid t0 n t db \<Longrightarrow> t \<le> t' \<Longrightarrow> lock_state uid db' = lock_state uid db \<Longrightarrow> holds_out s uid t0 n t' db'"
  by (auto simp: holds_out_def)

lemma holds_out_wrong:
  assumes h: "holds_out (lockout_us - wait) uid t0 n t db" and c: "credential_of uid db = Some c" "\<not> account_throttled check (Some c)"
    and t: "t \<le> check" "check - wait \<le> a" and c': "credential_of uid db' = Some (failed_credential a a c)" and w: "0 \<le> wait" "wait < lockout_us"
  shows "holds_out (lockout_us - wait) uid t0 (n + 1) check db'"
proof -
  define s where "s = lockout_us - wait"
  have f: "n \<le> failed_login_attempts c" "t0 \<le> t" "t0 + (int n - 5) * s \<le> t"
    and l: "5 \<le> n \<Longrightarrow> \<exists>x. locked_until c = Some x \<and> t0 + (int n - 4) * s \<le> x"
    using h c(1) unfolding s_def by (auto simp: holds_out_def lock_state_def)
  have b: "t0 + (int n - 4) * s \<le> check"
  proof (cases "5 \<le> n")
    case True
    then show ?thesis using l c(2) by (auto simp: account_throttled_def)
  next
    case False
    then have "(int n - 4) * s \<le> 0" using w by (intro mult_nonpos_nonneg) (simp_all add: s_def)
    then show ?thesis using f(2) t(1) by linarith
  qed
  have "locked_until (failed_credential a a c) = Some (a + lockout_us)" if "5 \<le> n + 1"
    using that f(1) by (simp add: failed_credential_def Let_def lockout_us_def auth_lockout_failures_def)
  moreover have "t0 + (int (n + 1) - 4) * s \<le> a + lockout_us" using b t(2) by (simp add: s_def algebra_simps)
  moreover have "n + 1 \<le> failed_login_attempts (failed_credential a a c)" using f(1) by (simp add: failed_credential_def Let_def)
  ultimately show ?thesis using c' f(2) t(1) b unfolding s_def [symmetric] holds_out_def lock_state_def by (auto simp: algebra_simps)
qed

lemma besieged_holds_out:
  assumes "besieged lib wait uid t0 db0 n t db" "credential_of uid db0 \<noteq> None" "0 \<le> wait" "wait < lockout_us"
  shows "holds_out (lockout_us - wait) uid t0 n t db"
  using assms(1)
proof (induction rule: besieged.induct)
  case siege_begins
  have "(0 - 5) * (lockout_us - wait) \<le> 0" using assms(4) by simp
  then show ?case using assms(2) by (auto simp: holds_out_def lock_state_def)
next
  case (siege_login n t db check now env raw p dev db' r)
  show ?case
  proof (cases "wrong_password lib env now check p uid db")
    case True
    obtain c where "credential_of uid db = Some c" "\<not> account_throttled check (Some c)" "credential_of uid db' = Some (failed_credential now now c)"
      by (rule login_wrong [OF siege_login.hyps(6,5) True])
    from holds_out_wrong [OF siege_login.IH this(1,2) siege_login.hyps(2,3) this(3) assms(3,4)] True show ?thesis by simp
  next
    case False
    then show ?thesis using holds_out_quiet [OF siege_login.IH siege_login.hyps(2) login_quiet [OF siege_login.hyps(6,5) False siege_login.hyps(7)]] by simp
  qed
next
  case (siege_code n t db check now env ch code ip dev db' r)
  show ?case
  proof (cases "wrong_code lib env now check ch code ip uid db")
    case True
    obtain c where c: "credential_of uid db = Some c" using siege_code.IH by (auto simp: holds_out_def lock_state_def)
    note m = mfa_wrong [OF siege_code.hyps(6,5) True c]
    have "check - wait \<le> check" using assms(3) by simp
    from holds_out_wrong [OF siege_code.IH c m(1) siege_code.hyps(2) this m(2) assms(3,4)] True show ?thesis by simp
  next
    case False
    then show ?thesis using holds_out_quiet [OF siege_code.IH siege_code.hyps(2) mfa_quiet [OF siege_code.hyps(6,5) False siege_code.hyps(7)]] by simp
  qed
next
  case (siege_other n t db t' db')
  then show ?case by (auto intro: holds_out_quiet)
qed


subsection \<open>An example\<close>

definition plain_lib :: auth_lib where
  "plain_lib = \<lparr>sha256_hex = id, argon2_verify = (=), argon2_needs_rehash = (\<lambda>_. False), argon2_hash = id, breach_count = (\<lambda>_. Some 0),
     totp_at = (\<lambda>_ _. ''000000''), zone_day = date_of, zone_next_midnight = (\<lambda>t. (date_of t + 1) * day_us)\<rparr>"

definition example_user :: user where
  "example_user = \<lparr>user_id = 4, user_tenant_id = 3, user_first_name = ''Anna'', user_last_name = ''Muster'', user_email = ''anna@garage'',
     user_phone = None, user_role = ''sales'', user_access_roles = [''sales''], user_is_dealer_manager = True,
     user_employment_status = EMPLOYED, user_auth_identity_id = ''local:4'', user_status = ACTIVE_USER, user_direct_dial = None,
     user_employee_number = None, user_department = None, user_line_manager_user_id = None, user_sales_advisor_code = None,
     user_commission_relevant = False, user_valid_from = None, user_valid_to = None, user_invited_at = None, user_last_login_at = None,
     user_deactivated_at = None, user_deactivation_reason = None, user_created_at = 0, user_created_by = None, user_updated_by = None,
     user_version = 1\<rparr>"

definition example_credential :: credential where
  "example_credential = \<lparr>cred_id = 5, cred_user_id = 4, password_hash = ''correct horse battery'', password_history = [], password_set_at = 0,
     breach_check_pending = False, failed_login_attempts = 0, last_failed_at = None, locked_until = None, cred_created_by = None,
     cred_updated_by = None\<rparr>"

definition example_identity_db :: identity_db where
  "example_identity_db = master_db.extend (empty_master_db\<lparr>users := [example_user]\<rparr>)
     (identity_db.fields [] [] [example_credential] [] [] [] [])"

definition guess :: presented_credentials where
  "guess = \<lparr>pres_email = '' Anna@Garage'', pres_password = ''qwertz123456'', pres_ip_address = ''10.0.0.1''\<rparr>"

lemma example_compared:
  "password_compared id 100 100 guess example_identity_db = Some example_credential"
  "wrong_password plain_lib id 100 100 guess 4 example_identity_db"
proof -
  have e: "users example_identity_db = [example_user]" "auth_events example_identity_db = []" "credentials example_identity_db = [example_credential]"
    by (simp_all add: example_identity_db_def empty_master_db_def master_db.defs identity_db.defs)
  have "lower_text (strip_text '' Anna@Garage'') = ''anna@garage''" "lower_text ''anna@garage'' = ''anna@garage''" by code_simp+
  then have "find_user_by_email (pres_email guess) example_identity_db = Some example_user"
    by (simp add: find_user_by_email_def guess_def e example_user_def)
  then show p: "password_compared id 100 100 guess example_identity_db = Some example_credential"
    by (simp add: password_compared_def guess_def e credential_of_def get_user_def ip_throttled_def recent_failures_from_ip_def
        account_throttled_def example_user_def example_credential_def)
  show "wrong_password plain_lib id 100 100 guess 4 example_identity_db"
    by (simp add: wrong_password_def p) (simp add: example_credential_def plain_lib_def guess_def)
qed


text \<open>
  Superscript digits pass \<open>isdigit\<close> but are refused by the comparison, so such a code ends in a server error instead of
  being counted as a wrong answer.
\<close>

lemma superscript_code_is_a_server_error:
  "verify_totp_code plain_lib 0 \<lparr>totp_id = 1, totp_user_id = 4, totp_secret = ''s'', totp_created_at = 0, confirmed_at = Some 0,
     last_used_step = None\<rparr> (replicate 6 (CHR 0xB2)) db = Inl TypeError"
proof -
  have "filter (\<lambda>c. c \<noteq> CHR '' '') (strip_text (replicate 6 (CHR 0xB2))) = replicate 6 (CHR 0xB2)" by code_simp
  moreover have "list_all py_isdigit_char (replicate 6 (CHR 0xB2))" "\<not> list_all (\<lambda>c. ord_char c < 128) (replicate 6 (CHR 0xB2))" by code_simp+
  ultimately show ?thesis by (simp add: verify_totp_code_def Let_def)
qed

end
