(* ===== verification/Platform_Access.thy ===== *)
theory Platform_Access
  imports Platform_Identity "HOL-Library.List_Lexorder"
begin

text \<open>
  The administration of a dealership's users (\<^verbatim>\<open>app/platform/services/user.py, membership.py, text_delegation.py,
  user_location.py, connected_account.py, recovery.py\<close>): creating and changing users, memberships of sister dealerships,
  the manager flag, and what a deactivation ends. Every route locks the row of the user it changes; the rule that a
  dealership keeps an active manager reads the other users' rows without a lock, so an operation that applies it takes
  \<open>env\<close>, what other requests commit between its checks and its commit.
\<close>

section \<open>Tables\<close>

record user_location =
  ul_id :: uuid
  ul_user_id :: uuid
  ul_location_id :: uuid
  ul_is_primary :: bool

record location =
  loc_id :: uuid
  loc_tenant_id :: uuid

record standard_text_delegation =
  del_dealership_id :: uuid
  del_user_id :: uuid
  del_category :: string
  del_granted_at :: datetime
  del_granted_by :: "uuid option"
  del_valid_to :: "datetime option"

datatype connected_account_status = CA_ACTIVE | CA_ERROR | CA_REVOKED

record user_connected_account =
  ca_id :: uuid
  ca_user_id :: uuid
  ca_provider :: string
  external_account_id :: string
  external_account_label :: "string option"
  ca_scopes :: "string list"
  ca_secret_ref :: "string option"
  ca_status :: connected_account_status
  ca_linked_at :: datetime
  ca_last_used_at :: "datetime option"
  ca_revoked_at :: "datetime option"
  ca_revoked_by :: "uuid option"
  ca_revoked_reason :: "string option"
  ca_updated_by :: "uuid option"
  ca_version :: nat

record access_db = identity_db +
  locations :: "location list"
  user_locations :: "user_location list"
  standard_text_delegations :: "standard_text_delegation list"
  user_connected_accounts :: "user_connected_account list"

fun user_status_text :: "user_status \<Rightarrow> string" where
  "user_status_text INVITED = ''invited''"
| "user_status_text ACTIVE_USER = ''active''"
| "user_status_text SUSPENDED = ''suspended''"
| "user_status_text DEACTIVATED = ''deactivated''"

fun employment_status_text :: "employment_status \<Rightarrow> string" where
  "employment_status_text EMPLOYED = ''active''"
| "employment_status_text ON_LEAVE = ''on_leave''"
| "employment_status_text TERMINATED = ''terminated''"

fun connected_account_status_text :: "connected_account_status \<Rightarrow> string" where
  "connected_account_status_text CA_ACTIVE = ''active''"
| "connected_account_status_text CA_ERROR = ''error''"
| "connected_account_status_text CA_REVOKED = ''revoked''"

definition platform_admin :: string where "platform_admin = ''platform_admin''"

definition role_values :: "string list \<Rightarrow> string list" where
  "role_values roles = sort_key (map ord_char) roles"

text \<open>An audit row about a user in a dealership.\<close>

abbreviation audit_user ::
  "datetime \<Rightarrow> user \<Rightarrow> uuid \<Rightarrow> string \<Rightarrow> uuid option \<Rightarrow> payload option \<Rightarrow> payload option \<Rightarrow> string option
     \<Rightarrow> 'a core_db_scheme \<Rightarrow> 'a core_db_scheme" where
  "audit_user now u tenant_id action actor_id before after reason \<equiv>
     record_audit_event now ''user'' (user_id u) (Some tenant_id) action actor_id before after reason"

section \<open>Sites, delegations and connected accounts\<close>

definition locations_of :: "uuid \<Rightarrow> 'a access_db_scheme \<Rightarrow> uuid option \<times> uuid list" where
  "locations_of uid db = (let rows = sort_key ul_id (select_all (\<lambda>r. ul_user_id r = uid) (user_locations db))
     in (case filter ul_is_primary rows of [] \<Rightarrow> None | ps \<Rightarrow> Some (ul_location_id (last ps)),
         map ul_location_id (filter (\<lambda>r. \<not> ul_is_primary r) rows)))"

text \<open>\<open>dict.fromkeys\<close>: the first occurrence of each, in order.\<close>

fun first_occurrences :: "'x list \<Rightarrow> 'x list" where
  "first_occurrences [] = []"
| "first_occurrences (x # xs) = x # filter (\<lambda>y. y \<noteq> x) (first_occurrences xs)"

text \<open>The wanted sites with their flag, in the order of the dictionary: the primary last.\<close>

definition wanted_locations :: "uuid option \<Rightarrow> uuid list \<Rightarrow> (uuid \<times> bool) list" where
  "wanted_locations primary additional =
     map (\<lambda>l. (l, False)) (filter (\<lambda>l. Some l \<noteq> primary) (first_occurrences additional))
     @ (case primary of None \<Rightarrow> [] | Some p \<Rightarrow> [(p, True)])"

definition set_locations ::
  "user \<Rightarrow> uuid option \<Rightarrow> uuid list \<Rightarrow> 'a access_db_scheme \<Rightarrow> ('a access_db_scheme \<times> bool) result" where
  "set_locations u primary additional db =
     (let wanted = wanted_locations primary additional;
          unknown = filter (\<lambda>l. \<not> list_ex (\<lambda>r. loc_id r = l \<and> loc_tenant_id r = user_tenant_id u) (locations db)) (map fst wanted);
          mine = select_all (\<lambda>r. ul_user_id r = user_id u) (user_locations db);
          kept = delete_where (\<lambda>r. ul_user_id r = user_id u \<and> ul_location_id r \<notin> set (map fst wanted)) (user_locations db);
          flagged = update_where (\<lambda>r. ul_user_id r = user_id u) (\<lambda>r. r\<lparr>ul_is_primary := map_of wanted (ul_location_id r) = Some True\<rparr>) kept;
          new = filter (\<lambda>(l, _). l \<notin> set (map ul_location_id mine)) wanted; n = uuid_supply db;
          rows = map (\<lambda>(i, (l, p)). \<lparr>ul_id = n + i, ul_user_id = user_id u, ul_location_id = l, ul_is_primary = p\<rparr>) (enumerate 0 new)
      in if unknown \<noteq> [] then Inl (UnprocessableEntityError [(''locationIds'', JList (map JUuid (sort unknown)))])
         else Inr (db\<lparr>uuid_supply := n + length new, user_locations := flagged @ rows\<rparr>,
           kept \<noteq> user_locations db \<or> flagged \<noteq> kept \<or> new \<noteq> []))"

definition delegation_is_active :: "datetime \<Rightarrow> standard_text_delegation \<Rightarrow> bool" where
  "delegation_is_active now d \<longleftrightarrow> (case del_valid_to d of None \<Rightarrow> True | Some t \<Rightarrow> t > now)"

definition set_delegations ::
  "datetime \<Rightarrow> user \<Rightarrow> string list \<Rightarrow> uuid option \<Rightarrow> string option \<Rightarrow> 'a access_db_scheme \<Rightarrow> 'a access_db_scheme \<times> bool" where
  "set_delegations now u categories actor_id reason db =
     (let wanted = role_values (remdups categories);
          rows = select_all (\<lambda>r. del_user_id r = user_id u) (standard_text_delegations db);
          before = role_values (map del_category (filter (delegation_is_active now) rows));
          updated = update_where (\<lambda>r. del_user_id r = user_id u) (\<lambda>r.
            if del_category r \<in> set wanted \<and> \<not> delegation_is_active now r
            then r\<lparr>del_granted_at := now, del_granted_by := actor_id, del_valid_to := None\<rparr>
            else if del_category r \<notin> set wanted \<and> delegation_is_active now r then r\<lparr>del_valid_to := Some now\<rparr> else r)
            (standard_text_delegations db);
          new = map (\<lambda>c. \<lparr>del_dealership_id = user_tenant_id u, del_user_id = user_id u, del_category = c, del_granted_at = now,
            del_granted_by = actor_id, del_valid_to = None\<rparr>) (filter (\<lambda>c. c \<notin> set (map del_category rows)) wanted);
          db1 = db\<lparr>standard_text_delegations := updated @ new\<rparr>
      in if wanted \<noteq> before
         then (audit_user now u (user_tenant_id u) ''text_delegation_set'' actor_id (Some [(''categories'', JList (map JStr before))])
           (Some [(''categories'', JList (map JStr wanted))]) reason db1, True)
         else (db1, False))"

definition end_all_delegations ::
  "datetime \<Rightarrow> user \<Rightarrow> uuid option \<Rightarrow> string \<Rightarrow> 'a access_db_scheme \<Rightarrow> 'a access_db_scheme" where
  "end_all_delegations now u actor_id reason db = fst (set_delegations now u [] actor_id (Some reason) db)"

definition holds_delegation :: "datetime \<Rightarrow> uuid \<Rightarrow> uuid \<Rightarrow> string \<Rightarrow> string \<Rightarrow> 'a access_db_scheme \<Rightarrow> bool" where
  "holds_delegation now uid tenant_id capability category db \<longleftrightarrow> capability = ''standard_texts''
     \<and> category \<in> {''document'', ''email'', ''sms'', ''internal_note'', ''workshop''}
     \<and> (case select_one (\<lambda>r. del_user_id r = uid \<and> del_dealership_id r = tenant_id \<and> del_category r = category)
           (standard_text_delegations db) of None \<Rightarrow> False | Some r \<Rightarrow> delegation_is_active now r)"

definition revoke_account ::
  "datetime \<Rightarrow> user \<Rightarrow> uuid option \<Rightarrow> string \<Rightarrow> user_connected_account \<Rightarrow> 'a access_db_scheme \<Rightarrow> 'a access_db_scheme result" where
  "revoke_account now u actor_id reason a db =
     (if ca_status a = CA_REVOKED
      then Inl (ConflictError [(''reason'', JStr ''already_revoked''), (''currentStatus'', JStr (connected_account_status_text (ca_status a)))])
      else
        let a' = a\<lparr>ca_status := CA_REVOKED, ca_revoked_at := Some now, ca_revoked_by := actor_id, ca_revoked_reason := Some reason,
              ca_updated_by := actor_id, ca_version := ca_version a + 1\<rparr>;
            db1 = db\<lparr>user_connected_accounts := update_where (\<lambda>r. ca_id r = ca_id a) (\<lambda>_. a') (user_connected_accounts db)\<rparr>;
            db2 = record_user_event now CONNECTED_ACCOUNT_REVOKED u actor_id [] [(''connectedAccountId'', JUuid (ca_id a)),
              (''provider'', JStr (ca_provider a)), (''reason'', JStr reason)] db1
        in Inr (audit_user now u (user_tenant_id u) ''connected_account_revoked'' actor_id
             (Some [(''connected_account_id'', JUuid (ca_id a)), (''status'', JStr (connected_account_status_text (ca_status a)))])
             (Some [(''connected_account_id'', JUuid (ca_id a)), (''status'', JStr (connected_account_status_text (ca_status a')))])
             (Some reason) db2))"

fun revoke_accounts ::
  "datetime \<Rightarrow> user \<Rightarrow> uuid option \<Rightarrow> string \<Rightarrow> user_connected_account list \<Rightarrow> 'a access_db_scheme \<Rightarrow> 'a access_db_scheme result" where
  "revoke_accounts now u actor_id reason [] db = Inr db"
| "revoke_accounts now u actor_id reason (a # rest) db =
     bindR (revoke_account now u actor_id reason a db) (revoke_accounts now u actor_id reason rest)"

definition revoke_all_accounts ::
  "datetime \<Rightarrow> user \<Rightarrow> uuid option \<Rightarrow> string \<Rightarrow> 'a access_db_scheme \<Rightarrow> 'a access_db_scheme result" where
  "revoke_all_accounts now u actor_id reason db =
     revoke_accounts now u actor_id reason
       (sort_key ca_id (select_all (\<lambda>a. ca_user_id a = user_id u \<and> ca_status a \<noteq> CA_REVOKED) (user_connected_accounts db))) db"

section \<open>Rules of the administration\<close>

definition assert_user_is_not_deactivated :: "user \<Rightarrow> unit result" where
  "assert_user_is_not_deactivated u = raise_if (user_status u = DEACTIVATED)
     (ConflictError [(''currentStatus'', JStr (user_status_text (user_status u)))])"

text \<open>
  The managers of a dealership: its own users who hold the flag, and those whose membership of it does; active or invited.
  \<open>excluding\<close> leaves out the user that is about to change.
\<close>

definition manages :: "datetime \<Rightarrow> uuid \<Rightarrow> 'a master_db_scheme \<Rightarrow> user \<Rightarrow> bool" where
  "manages now d db u \<longleftrightarrow> is_active_user u \<and> ((user_tenant_id u = d \<and> user_is_dealer_manager u)
     \<or> list_ex (\<lambda>m. mem_user_id m = user_id u \<and> mem_dealership_id m = d \<and> mem_is_dealer_manager m \<and> is_active_membership now m)
         (dealership_memberships db))"

definition assert_not_last_manager :: "datetime \<Rightarrow> uuid \<Rightarrow> uuid \<Rightarrow> string \<Rightarrow> 'a master_db_scheme \<Rightarrow> unit result" where
  "assert_not_last_manager now d excluding reason db =
     raise_if (\<not> list_ex (\<lambda>u. user_id u \<noteq> excluding \<and> manages now d db u) (users db)) (BadRequestError [(''reason'', JStr reason)])"

definition is_dealer_manager_in :: "datetime \<Rightarrow> user \<Rightarrow> uuid \<Rightarrow> 'a master_db_scheme \<Rightarrow> bool" where
  "is_dealer_manager_in now u d db = (if d = user_tenant_id u then user_is_dealer_manager u
     else case select_one (\<lambda>m. mem_user_id m = user_id u \<and> mem_dealership_id m = d \<and> is_active_membership now m) (dealership_memberships db) of
       None \<Rightarrow> False | Some m \<Rightarrow> mem_is_dealer_manager m)"

definition assert_may_create_with_roles :: "string list \<Rightarrow> string list \<Rightarrow> unit result" where
  "assert_may_create_with_roles roles actor_roles =
     raise_if (platform_admin \<notin> set actor_roles \<and> platform_admin \<in> set roles) (ForbiddenError [])"

definition assert_may_update :: "user \<Rightarrow> string list option \<Rightarrow> string list \<Rightarrow> unit result" where
  "assert_may_update u roles actor_roles =
     (if platform_admin \<in> set actor_roles then Inr ()
      else if platform_admin \<in> set (user_access_roles u) then Inl (ForbiddenError [])
      else case roles of None \<Rightarrow> Inr () | Some rs \<Rightarrow> assert_may_create_with_roles rs actor_roles)"

definition assert_line_manager :: "user \<Rightarrow> uuid option \<Rightarrow> 'a master_db_scheme \<Rightarrow> unit result" where
  "assert_line_manager u line_manager db = (case line_manager of None \<Rightarrow> Inr ()
     | Some l \<Rightarrow> if l = user_id u then Inl (UnprocessableEntityError [])
         else raise_if (\<not> list_ex (\<lambda>r. user_id r = l \<and> user_tenant_id r = user_tenant_id u) (users db))
           (UnprocessableEntityError [(''lineManagerUserId'', JUuid l)]))"

definition has_credential :: "user \<Rightarrow> 'a identity_db_scheme \<Rightarrow> bool" where
  "has_credential u db \<longleftrightarrow> credential_of (user_id u) db \<noteq> None"

definition end_sessions :: "datetime \<Rightarrow> user \<Rightarrow> string \<Rightarrow> uuid option \<Rightarrow> 'a identity_db_scheme \<Rightarrow> 'a identity_db_scheme \<times> nat" where
  "end_sessions now u reason actor_id db = (case revoke_all_for_user now (user_id u) reason None db of (db1, ended) \<Rightarrow>
     (if ended \<noteq> 0 then record_user_event now SESSION_REVOKED u actor_id [] [(''count'', JInt (int ended)), (''reason'', JStr reason)] db1
      else db1, ended))"

definition record_manager_flag_event ::
  "datetime \<Rightarrow> user \<Rightarrow> uuid \<Rightarrow> bool \<Rightarrow> bool \<Rightarrow> uuid option \<Rightarrow> 'a core_db_scheme \<Rightarrow> 'a core_db_scheme" where
  "record_manager_flag_event now u d before after actor_id =
     audit_user now u d ''manager_flag_set'' actor_id (Some [(''dealership_id'', JUuid d), (''is_dealer_manager'', JBool before)])
       (Some [(''dealership_id'', JUuid d), (''is_dealer_manager'', JBool after)]) None"

definition list_dealer_manager_emails :: "datetime \<Rightarrow> uuid \<Rightarrow> 'a master_db_scheme \<Rightarrow> string list" where
  "list_dealer_manager_emails now d db =
     remdups (map user_email (select_all (\<lambda>u. manages now d db u \<and> user_status u = ACTIVE_USER) (users db)))"

definition is_due_for_expiry :: "date \<Rightarrow> user \<Rightarrow> bool" where
  "is_due_for_expiry today u \<longleftrightarrow> (case user_valid_to u of None \<Rightarrow> False | Some d \<Rightarrow> d < today) \<and> user_status u \<noteq> DEACTIVATED"

definition list_users_due_for_expiry :: "date \<Rightarrow> 'a master_db_scheme \<Rightarrow> user list" where
  "list_users_due_for_expiry today db =
     sort_key user_tenant_id (sort_key user_id (select_all (is_due_for_expiry today) (users db)))"

definition list_users_deactivated_for :: "string \<Rightarrow> datetime \<Rightarrow> 'a master_db_scheme \<Rightarrow> user list" where
  "list_users_deactivated_for reason since db = sort_key user_id (select_all (\<lambda>u. user_status u = DEACTIVATED
     \<and> user_deactivation_reason u = Some reason \<and> (case user_deactivated_at u of None \<Rightarrow> False | Some t \<Rightarrow> t \<ge> since)) (users db))"

section \<open>Creating a user\<close>

record user_create =
  uk_first_name :: string
  uk_last_name :: string
  uk_email :: string
  uk_phone :: "string option"
  uk_role :: string
  uk_access_roles :: "string list"
  uk_is_dealer_manager :: bool
  uk_employment_status :: employment_status
  uk_auth_identity_id :: "string option"
  uk_direct_dial :: "string option"
  uk_employee_number :: "string option"
  uk_department :: "string option"
  uk_line_manager_user_id :: "uuid option"
  uk_sales_advisor_code :: "string option"
  uk_commission_relevant :: bool
  uk_valid_from :: "date option"
  uk_valid_to :: "date option"
  uk_primary_location_id :: "uuid option"
  uk_additional_location_ids :: "uuid list"

text \<open>The two unique columns, against the rows of the other users. \<open>local:<id>\<close> is written with the id's digits.\<close>

definition identity_taken :: "user \<Rightarrow> 'a master_db_scheme \<Rightarrow> bool" where
  "identity_taken u db \<longleftrightarrow> list_ex (\<lambda>r. user_id r \<noteq> user_id u
     \<and> (user_email r = user_email u \<or> user_auth_identity_id r = user_auth_identity_id u)) (users db)"

definition new_user :: "datetime \<Rightarrow> uuid \<Rightarrow> uuid \<Rightarrow> user_create \<Rightarrow> uuid \<Rightarrow> user" where
  "new_user now i d data actor_id =
     \<lparr>user_id = i, user_tenant_id = d, user_first_name = uk_first_name data, user_last_name = uk_last_name data,
      user_email = lower_text (uk_email data), user_phone = uk_phone data, user_role = uk_role data,
      user_access_roles = role_values (uk_access_roles data), user_is_dealer_manager = uk_is_dealer_manager data,
      user_employment_status = uk_employment_status data,
      user_auth_identity_id = (case uk_auth_identity_id data of Some a \<Rightarrow> a | None \<Rightarrow> ''local:'' @ digits_of_nat i),
      user_status = INVITED, user_direct_dial = uk_direct_dial data, user_employee_number = uk_employee_number data,
      user_department = uk_department data, user_line_manager_user_id = uk_line_manager_user_id data,
      user_sales_advisor_code = uk_sales_advisor_code data, user_commission_relevant = uk_commission_relevant data,
      user_valid_from = uk_valid_from data, user_valid_to = uk_valid_to data, user_invited_at = None, user_last_login_at = None,
      user_deactivated_at = None, user_deactivation_reason = None, user_created_at = now, user_created_by = Some actor_id,
      user_updated_by = Some actor_id, user_version = 1\<rparr>"

definition create_user ::
  "datetime \<Rightarrow> uuid \<Rightarrow> user_create \<Rightarrow> uuid \<Rightarrow> string list \<Rightarrow> 'a access_db_scheme \<Rightarrow> ('a access_db_scheme \<times> user) result" where
  "create_user now d data actor_id actor_roles db =
     bindR (assert_may_create_with_roles (uk_access_roles data) actor_roles) (\<lambda>_.
     case draw_uuid db of (i, db1) \<Rightarrow>
       let u = new_user now i d data actor_id in
       bindR (assert_line_manager u (uk_line_manager_user_id data) db1) (\<lambda>_.
       if identity_taken u db1 then Inl (ConflictError [(''email'', JStr (uk_email data))])
       else bindR (set_locations u (uk_primary_location_id data) (uk_additional_location_ids data) (db1\<lparr>users := users db1 @ [u]\<rparr>)) (\<lambda>(db2, _).
         Inr (audit_user now u d ''create'' (Some actor_id) None (Some [(''role'', JStr (user_role u)),
           (''access_roles'', JList (map JStr (user_access_roles u))), (''is_dealer_manager'', JBool (user_is_dealer_manager u)),
           (''status'', JStr (user_status_text (user_status u))),
           (''employment_status'', JStr (employment_status_text (user_employment_status u)))]) None db2, u))))"

section \<open>Changing a user\<close>

text \<open>A field is \<open>None\<close> when it is not sent; a column that may be cleared has a second \<open>option\<close>.\<close>

record user_update =
  uu_first_name :: "string option"
  uu_last_name :: "string option"
  uu_email :: "string option"
  uu_phone :: "string option option"
  uu_role :: "string option"
  uu_access_roles :: "string list option"
  uu_is_dealer_manager :: "bool option"
  uu_employment_status :: "employment_status option"
  uu_auth_identity_id :: "string option"
  uu_status :: "user_status option"
  uu_direct_dial :: "string option option"
  uu_employee_number :: "string option option"
  uu_department :: "string option option"
  uu_line_manager_user_id :: "uuid option option"
  uu_sales_advisor_code :: "string option option"
  uu_commission_relevant :: "bool option"
  uu_valid_from :: "date option option"
  uu_valid_to :: "date option option"
  uu_primary_location_id :: "uuid option option"
  uu_additional_location_ids :: "uuid list option"

definition no_update :: user_update where
  "no_update = \<lparr>uu_first_name = None, uu_last_name = None, uu_email = None, uu_phone = None, uu_role = None, uu_access_roles = None,
     uu_is_dealer_manager = None, uu_employment_status = None, uu_auth_identity_id = None, uu_status = None, uu_direct_dial = None,
     uu_employee_number = None, uu_department = None, uu_line_manager_user_id = None, uu_sales_advisor_code = None,
     uu_commission_relevant = None, uu_valid_from = None, uu_valid_to = None, uu_primary_location_id = None,
     uu_additional_location_ids = None\<rparr>"

abbreviation sent :: "'x option \<Rightarrow> 'x \<Rightarrow> 'x" where
  "sent change current \<equiv> (case change of None \<Rightarrow> current | Some v \<Rightarrow> v)"

definition lower_email :: "user_update \<Rightarrow> user_update" where
  "lower_email ch = ch\<lparr>uu_email := map_option lower_text (uu_email ch)\<rparr>"

text \<open>Anything beside the fields a reactivation may carry.\<close>

definition beyond_reactivation :: "user_update \<Rightarrow> bool" where
  "beyond_reactivation ch \<longleftrightarrow> ch\<lparr>uu_status := None, uu_employment_status := None, uu_valid_from := None, uu_valid_to := None\<rparr> \<noteq> no_update"

definition assert_platform_admin_holds_no_membership :: "datetime \<Rightarrow> user \<Rightarrow> user_update \<Rightarrow> 'a master_db_scheme \<Rightarrow> unit result" where
  "assert_platform_admin_holds_no_membership now u ch db = (case uu_access_roles ch of None \<Rightarrow> Inr ()
     | Some roles \<Rightarrow> raise_if (platform_admin \<in> set roles \<and> list_membership_dealership_ids now (user_id u) db \<noteq> []) (UnprocessableEntityError []))"

definition assert_credential_channel_rules :: "user \<Rightarrow> user_update \<Rightarrow> unit result" where
  "assert_credential_channel_rules u ch =
     bindR (raise_if (uu_status ch = Some INVITED \<and> user_status u \<noteq> INVITED)
       (ConflictError [(''currentStatus'', JStr (user_status_text (user_status u)))])) (\<lambda>_.
     case uu_email ch of None \<Rightarrow> Inr ()
     | Some e \<Rightarrow> raise_if (e \<noteq> user_email u \<and> user_status u \<noteq> INVITED) (ForbiddenError [(''recovery'', JStr ''change-email'')]))"

text \<open>The lifecycle of the status: the status the write will set, or a refusal.\<close>

definition resulting_user_status :: "bool \<Rightarrow> user \<Rightarrow> user_update \<Rightarrow> 'a identity_db_scheme \<Rightarrow> user_status option result" where
  "resulting_user_status allow_deactivation u ch db =
     (let st = (if uu_employment_status ch = Some TERMINATED \<and> user_status u \<noteq> DEACTIVATED then Some DEACTIVATED else uu_status ch);
          current = (''currentStatus'', JStr (user_status_text (user_status u)))
      in if st = Some DEACTIVATED \<and> user_status u \<noteq> DEACTIVATED \<and> \<not> allow_deactivation
         then Inl (ConflictError [(''reason'', JStr ''use_deactivate_endpoint'')])
         else if user_status u = DEACTIVATED \<and> (st \<noteq> Some ACTIVE_USER \<or> beyond_reactivation ch) then Inl (ConflictError [current])
         else if user_status u = DEACTIVATED \<and> user_employment_status u = TERMINATED
           \<and> sent (uu_employment_status ch) (user_employment_status u) = TERMINATED
         then Inl (UnprocessableEntityError [(''currentEmploymentStatus'', JStr (employment_status_text (user_employment_status u)))])
         else if st = Some ACTIVE_USER \<and> user_status u = INVITED
         then Inl (ConflictError [(''reason'', JStr ''accept_invitation_required''), current])
         else if st = Some SUSPENDED \<and> user_status u \<noteq> ACTIVE_USER then Inl (ConflictError [(''reason'', JStr ''not_active''), current])
         else if st = Some ACTIVE_USER \<and> user_status u = DEACTIVATED \<and> \<not> has_credential u db then Inr (Some INVITED)
         else Inr st)"

definition assert_validity_window :: "user \<Rightarrow> user_update \<Rightarrow> unit result" where
  "assert_validity_window u ch =
     (case (sent (uu_valid_from ch) (user_valid_from u), sent (uu_valid_to ch) (user_valid_to u)) of
        (Some f, Some t) \<Rightarrow> raise_if (f > t) (UnprocessableEntityError [(''validFrom'', JInt f), (''validTo'', JInt t)])
      | _ \<Rightarrow> Inr ())"

text \<open>The sister dealerships whose membership of the user holds the flag.\<close>

definition managed_memberships :: "datetime \<Rightarrow> user \<Rightarrow> 'a master_db_scheme \<Rightarrow> uuid list" where
  "managed_memberships now u db = map mem_dealership_id (select_all (\<lambda>m. mem_user_id m = user_id u \<and> mem_is_dealer_manager m
     \<and> is_active_membership now m) (dealership_memberships db))"

fun assert_none_last :: "datetime \<Rightarrow> user \<Rightarrow> uuid list \<Rightarrow> 'a master_db_scheme \<Rightarrow> unit result" where
  "assert_none_last now u [] db = Inr ()"
| "assert_none_last now u (d # ds) db =
     bindR (assert_not_last_manager now d (user_id u) ''last_manager_elsewhere'' db) (\<lambda>_. assert_none_last now u ds db)"

definition is_active_status :: "user_status \<Rightarrow> bool" where
  "is_active_status s \<longleftrightarrow> s = INVITED \<or> s = ACTIVE_USER"

definition assert_manager_stays :: "datetime \<Rightarrow> user \<Rightarrow> bool \<Rightarrow> user_status \<Rightarrow> 'a master_db_scheme \<Rightarrow> unit result" where
  "assert_manager_stays now u manager status db =
     bindR (raise_if (manager \<noteq> user_is_dealer_manager u \<and> status = DEACTIVATED)
       (ConflictError [(''currentStatus'', JStr (user_status_text (user_status u)))])) (\<lambda>_.
     bindR (if user_is_dealer_manager u \<and> is_active_user u \<and> \<not> (manager \<and> is_active_status status)
            then assert_not_last_manager now (user_tenant_id u) (user_id u) ''last_manager'' db else Inr ()) (\<lambda>_.
     if is_active_user u \<and> \<not> is_active_status status then assert_none_last now u (managed_memberships now u db) db else Inr ()))"

definition apply_user_update :: "user_update \<Rightarrow> user_status option \<Rightarrow> user \<Rightarrow> user" where
  "apply_user_update ch status u = u\<lparr>
     user_first_name := sent (uu_first_name ch) (user_first_name u), user_last_name := sent (uu_last_name ch) (user_last_name u),
     user_email := sent (uu_email ch) (user_email u), user_phone := sent (uu_phone ch) (user_phone u),
     user_role := sent (uu_role ch) (user_role u), user_access_roles := sent (map_option role_values (uu_access_roles ch)) (user_access_roles u),
     user_is_dealer_manager := sent (uu_is_dealer_manager ch) (user_is_dealer_manager u),
     user_employment_status := sent (uu_employment_status ch) (user_employment_status u),
     user_auth_identity_id := sent (uu_auth_identity_id ch) (user_auth_identity_id u), user_status := sent status (user_status u),
     user_direct_dial := sent (uu_direct_dial ch) (user_direct_dial u), user_employee_number := sent (uu_employee_number ch) (user_employee_number u),
     user_department := sent (uu_department ch) (user_department u),
     user_line_manager_user_id := sent (uu_line_manager_user_id ch) (user_line_manager_user_id u),
     user_sales_advisor_code := sent (uu_sales_advisor_code ch) (user_sales_advisor_code u),
     user_commission_relevant := sent (uu_commission_relevant ch) (user_commission_relevant u),
     user_valid_from := sent (uu_valid_from ch) (user_valid_from u), user_valid_to := sent (uu_valid_to ch) (user_valid_to u)\<rparr>"

text \<open>The audited fields as the audit row stores them; the row keeps those that changed.\<close>

definition audited_fields :: "user \<Rightarrow> payload" where
  "audited_fields u = [(''role'', JStr (user_role u)), (''access_roles'', JList (map JStr (user_access_roles u))),
     (''is_dealer_manager'', JBool (user_is_dealer_manager u)), (''employment_status'', JStr (employment_status_text (user_employment_status u))),
     (''status'', JStr (user_status_text (user_status u))), (''line_manager_user_id'', json_opt JUuid (user_line_manager_user_id u)),
     (''valid_from'', json_opt JInt (user_valid_from u)), (''valid_to'', json_opt JInt (user_valid_to u))]"

definition changed_fields :: "user \<Rightarrow> user \<Rightarrow> payload" where
  "changed_fields old new = map fst (filter (\<lambda>(a, b). a \<noteq> b) (zip (audited_fields new) (audited_fields old)))"

definition stamp_lifecycle :: "datetime \<Rightarrow> string option \<Rightarrow> user \<Rightarrow> user \<Rightarrow> user" where
  "stamp_lifecycle now reason old u =
     (if user_status u \<noteq> user_status old \<and> user_status u = DEACTIVATED
      then u\<lparr>user_deactivated_at := Some now, user_deactivation_reason := reason\<rparr>
      else if user_status u \<noteq> user_status old \<and> user_status old = DEACTIVATED
      then u\<lparr>user_deactivated_at := None, user_deactivation_reason := None\<rparr> else u)"

definition update_locations :: "user \<Rightarrow> user_update \<Rightarrow> 'a access_db_scheme \<Rightarrow> ('a access_db_scheme \<times> bool) result" where
  "update_locations u ch db =
     (if uu_primary_location_id ch = None \<and> uu_additional_location_ids ch = None then Inr (db, False)
      else case locations_of (user_id u) db of (p, as) \<Rightarrow>
        set_locations u (sent (uu_primary_location_id ch) p) (sent (uu_additional_location_ids ch) as) db)"

text \<open>What follows a written change: the audit rows, the e-mail change, and what a lost status or role ends.\<close>

definition update_consequences ::
  "datetime \<Rightarrow> user \<Rightarrow> user \<Rightarrow> bool \<Rightarrow> uuid option \<Rightarrow> (user \<Rightarrow> string \<Rightarrow> 'a access_db_scheme \<Rightarrow> 'a access_db_scheme) option \<Rightarrow> string option
     \<Rightarrow> 'a access_db_scheme \<Rightarrow> 'a access_db_scheme result" where
  "update_consequences now old u locations_changed actor_id on_email_change reason db =
     (let changed = changed_fields old u;
          db1 = (if changed \<noteq> [] then audit_user now u (user_tenant_id u) ''update'' actor_id (Some (changed_fields u old)) (Some changed) reason db else db);
          db2 = (if locations_changed then (case locations_of (user_id u) db1 of (p, as) \<Rightarrow> audit_user now u (user_tenant_id u) ''locations_set''
              actor_id None (Some [(''primary_location_id'', json_opt JUuid p), (''additional_location_ids'', JList (map JUuid as))]) None db1) else db1);
          db3 = (if user_is_dealer_manager u \<noteq> user_is_dealer_manager old
            then record_manager_flag_event now u (user_tenant_id u) (user_is_dealer_manager old) (user_is_dealer_manager u) actor_id db2 else db2);
          db4 = (case on_email_change of Some f \<Rightarrow> if user_email u \<noteq> user_email old then f u (user_email old) db3 else db3 | None \<Rightarrow> db3);
          status_changed = (user_status u \<noteq> user_status old)
      in bindR (if status_changed \<and> user_status u = DEACTIVATED
           then revoke_all_accounts now u actor_id ''deactivated'' (end_all_delegations now u actor_id ''deactivated'' db4) else Inr db4) (\<lambda>db5.
         Inr (if status_changed \<and> (user_status u = DEACTIVATED \<or> user_status u = SUSPENDED)
              then fst (end_sessions now u (user_status_text (user_status u)) actor_id db5)
              else if user_access_roles u \<noteq> user_access_roles old \<or> user_is_dealer_manager u \<noteq> user_is_dealer_manager old
              then fst (end_sessions now u ''access_changed'' actor_id db5) else db5)))"

text \<open>
  A taken address or subject fails at the first flush: a server error when the sites or the audit row flush first, the
  conflict the code intends otherwise.
\<close>

definition update_user ::
  "('a access_db_scheme \<Rightarrow> 'a access_db_scheme) \<Rightarrow> datetime \<Rightarrow> user \<Rightarrow> user_update \<Rightarrow> uuid option \<Rightarrow> string list
     \<Rightarrow> (user \<Rightarrow> string \<Rightarrow> 'a access_db_scheme \<Rightarrow> 'a access_db_scheme) option \<Rightarrow> string option \<Rightarrow> bool
     \<Rightarrow> 'a access_db_scheme \<Rightarrow> ('a access_db_scheme \<times> user) result" where
  "update_user env now u data actor_id actor_roles on_email_change reason allow_deactivation db =
     (let ch = lower_email data in
     bindR (assert_may_update u (uu_access_roles ch) actor_roles) (\<lambda>_.
     bindR (assert_platform_admin_holds_no_membership now u ch db) (\<lambda>_.
     bindR (assert_credential_channel_rules u ch) (\<lambda>_.
     bindR (assert_line_manager u (sent (uu_line_manager_user_id ch) None) db) (\<lambda>_.
     bindR (resulting_user_status allow_deactivation u ch db) (\<lambda>status.
     bindR (assert_validity_window u ch) (\<lambda>_.
     bindR (assert_manager_stays now u (sent (uu_is_dealer_manager ch) (user_is_dealer_manager u)) (sent status (user_status u)) db) (\<lambda>_.
     let u1 = stamp_lifecycle now reason u (apply_user_update ch status u);
         u2 = u1\<lparr>user_updated_by := actor_id, user_version := user_version u + 1\<rparr>;
         db1 = env db
     in bindR (update_locations u1 ch db1) (\<lambda>(db2, locations_changed).
        if identity_taken u2 db1
        then Inl (if uu_primary_location_id ch \<noteq> None \<or> uu_additional_location_ids ch \<noteq> None \<or> changed_fields u u2 \<noteq> []
          then IntegrityError else ConflictError [(''email'', json_opt JStr (uu_email ch))])
        else bindR (update_consequences now u u2 locations_changed actor_id on_email_change reason (save_user u2 db2)) (\<lambda>db3.
          Inr (db3, u2)))))))))))"

section \<open>Memberships and the manager flag\<close>

definition save_membership :: "dealership_membership \<Rightarrow> 'a master_db_scheme \<Rightarrow> 'a master_db_scheme" where
  "save_membership m db = db\<lparr>dealership_memberships := update_where
     (\<lambda>r. mem_user_id r = mem_user_id m \<and> mem_dealership_id r = mem_dealership_id m) (\<lambda>_. m) (dealership_memberships db)\<rparr>"

definition membership_row :: "user \<Rightarrow> uuid \<Rightarrow> 'a master_db_scheme \<Rightarrow> dealership_membership option" where
  "membership_row u d db = select_one (\<lambda>m. mem_user_id m = user_id u \<and> mem_dealership_id m = d) (dealership_memberships db)"

definition active_row :: "datetime \<Rightarrow> user \<Rightarrow> uuid \<Rightarrow> 'a master_db_scheme \<Rightarrow> dealership_membership option" where
  "active_row now u d db = (case membership_row u d db of None \<Rightarrow> None
     | Some m \<Rightarrow> if is_active_membership now m then Some m else None)"

definition assert_actor_manages_target :: "datetime \<Rightarrow> uuid \<Rightarrow> string list \<Rightarrow> uuid \<Rightarrow> 'a master_db_scheme \<Rightarrow> unit result" where
  "assert_actor_manages_target now actor_id actor_roles target db =
     (if platform_admin \<in> set actor_roles then Inr ()
      else case get_user actor_id db of None \<Rightarrow> Inl (NotFoundError [])
        | Some actor \<Rightarrow> raise_if (\<not> is_dealer_manager_in now actor target db) (NotFoundError []))"

definition audit_both_sides ::
  "datetime \<Rightarrow> user \<Rightarrow> uuid \<Rightarrow> string \<Rightarrow> uuid \<Rightarrow> payload option \<Rightarrow> payload option \<Rightarrow> 'a core_db_scheme \<Rightarrow> 'a core_db_scheme" where
  "audit_both_sides now u target action actor_id before after db =
     audit_user now u target action (Some actor_id) before after None
       (audit_user now u (user_tenant_id u) action (Some actor_id) before after None db)"

definition membership_state :: "datetime \<Rightarrow> dealership_membership \<Rightarrow> payload" where
  "membership_state now m = [(''dealership_id'', JUuid (mem_dealership_id m)), (''is_dealer_manager'', JBool (mem_is_dealer_manager m)),
     (''active'', JBool (is_active_membership now m))]"

definition touch_user :: "uuid \<Rightarrow> user \<Rightarrow> user" where
  "touch_user actor_id u = u\<lparr>user_updated_by := Some actor_id, user_version := user_version u + 1\<rparr>"

definition grant_membership ::
  "datetime \<Rightarrow> user \<Rightarrow> uuid \<Rightarrow> bool \<Rightarrow> uuid \<Rightarrow> string list \<Rightarrow> 'a access_db_scheme \<Rightarrow> ('a access_db_scheme \<times> dealership_membership) result" where
  "grant_membership now u d manager actor_id actor_roles db =
     bindR (raise_if (d = user_tenant_id u) (UnprocessableEntityError [])) (\<lambda>_.
     bindR (raise_if (platform_admin \<in> set (user_access_roles u)) (UnprocessableEntityError [])) (\<lambda>_.
     bindR (assert_user_is_not_deactivated u) (\<lambda>_.
     bindR (assert_actor_manages_target now actor_id actor_roles d db) (\<lambda>_.
     bindR (raise_if (select_one (\<lambda>r. dealer_id r = d) (dealerships db) = None) (NotFoundError [])) (\<lambda>_.
     let old = membership_row u d db;
         m = \<lparr>mem_user_id = user_id u, mem_dealership_id = d, mem_granted_at = now, mem_granted_by = Some actor_id,
           mem_is_dealer_manager = manager, mem_valid_to = None\<rparr>
     in if (case old of None \<Rightarrow> False | Some r \<Rightarrow> is_active_membership now r) then Inl (ConflictError [(''dealershipId'', JUuid d)])
        else
          let db1 = (case old of None \<Rightarrow> db\<lparr>dealership_memberships := dealership_memberships db @ [m]\<rparr> | Some _ \<Rightarrow> save_membership m db);
              db2 = audit_both_sides now u d ''membership_grant'' actor_id (map_option (membership_state now) old) (Some (membership_state now m)) db1;
              db3 = (if manager then record_manager_flag_event now u d False True (Some actor_id) db2 else db2)
          in Inr (fst (end_sessions now u ''access_changed'' (Some actor_id) db3), m))))))"

definition end_membership ::
  "('a access_db_scheme \<Rightarrow> 'a access_db_scheme) \<Rightarrow> datetime \<Rightarrow> user \<Rightarrow> uuid \<Rightarrow> uuid \<Rightarrow> string list \<Rightarrow> 'a access_db_scheme
     \<Rightarrow> 'a access_db_scheme result" where
  "end_membership env now u d actor_id actor_roles db =
     bindR (assert_actor_manages_target now actor_id actor_roles d db) (\<lambda>_.
     bindR (assert_may_update u None actor_roles) (\<lambda>_.
     case active_row now u d db of None \<Rightarrow> Inl (NotFoundError [])
     | Some m \<Rightarrow>
         bindR (if mem_is_dealer_manager m \<and> is_active_user u then assert_not_last_manager now d (user_id u) ''last_manager'' db else Inr ()) (\<lambda>_.
         let m' = m\<lparr>mem_valid_to := Some now\<rparr>;
             db1 = audit_both_sides now u d ''membership_end'' actor_id (Some (membership_state now m)) (Some (membership_state now m'))
               (save_membership m' (env db))
         in Inr (fst (end_sessions now u ''access_changed'' (Some actor_id) (save_user (touch_user actor_id u) db1))))))"

definition set_membership_manager_flag ::
  "('a access_db_scheme \<Rightarrow> 'a access_db_scheme) \<Rightarrow> datetime \<Rightarrow> user \<Rightarrow> uuid \<Rightarrow> bool \<Rightarrow> uuid \<Rightarrow> string list \<Rightarrow> 'a access_db_scheme
     \<Rightarrow> ('a access_db_scheme \<times> dealership_membership) result" where
  "set_membership_manager_flag env now u d manager actor_id actor_roles db =
     bindR (assert_actor_manages_target now actor_id actor_roles d db) (\<lambda>_.
     bindR (assert_may_update u None actor_roles) (\<lambda>_.
     case active_row now u d db of None \<Rightarrow> Inl (NotFoundError [])
     | Some m \<Rightarrow> if mem_is_dealer_manager m = manager then Inr (env db, m)
         else bindR (assert_user_is_not_deactivated u) (\<lambda>_.
           bindR (if \<not> manager \<and> is_active_user u then assert_not_last_manager now d (user_id u) ''last_manager'' db else Inr ()) (\<lambda>_.
           let m' = m\<lparr>mem_is_dealer_manager := manager\<rparr>;
               db1 = record_manager_flag_event now u d (\<not> manager) manager (Some actor_id) (save_membership m' (env db))
           in Inr (fst (end_sessions now u ''access_changed'' (Some actor_id) (save_user (touch_user actor_id u) db1)), m')))))"

definition set_home_manager_flag ::
  "('a access_db_scheme \<Rightarrow> 'a access_db_scheme) \<Rightarrow> datetime \<Rightarrow> user \<Rightarrow> bool \<Rightarrow> uuid \<Rightarrow> string list \<Rightarrow> 'a access_db_scheme
     \<Rightarrow> ('a access_db_scheme \<times> user) result" where
  "set_home_manager_flag env now u manager actor_id actor_roles db =
     bindR (assert_may_update u None actor_roles) (\<lambda>_.
     if user_is_dealer_manager u = manager then Inr (env db, u)
     else bindR (assert_user_is_not_deactivated u) (\<lambda>_.
       bindR (if \<not> manager \<and> is_active_user u then assert_not_last_manager now (user_tenant_id u) (user_id u) ''last_manager'' db else Inr ()) (\<lambda>_.
       let u' = touch_user actor_id (u\<lparr>user_is_dealer_manager := manager\<rparr>);
           db1 = record_manager_flag_event now u (user_tenant_id u) (user_is_dealer_manager u) manager (Some actor_id)
             (audit_user now u (user_tenant_id u) ''update'' (Some actor_id) (Some [(''is_dealer_manager'', JBool (user_is_dealer_manager u))])
               (Some [(''is_dealer_manager'', JBool manager)]) None (save_user u' (env db)))
       in Inr (fst (end_sessions now u ''access_changed'' (Some actor_id) db1), u'))))"

section \<open>Recovery by platform staff\<close>

datatype recovery_action = REISSUE_INVITATION | RESET_MFA | CLEAR_LOCKOUT | REVOKE_SESSIONS

fun recovery_event_kind :: "recovery_action \<Rightarrow> auth_event_kind" where
  "recovery_event_kind REISSUE_INVITATION = RECOVERY_INVITATION_REISSUED"
| "recovery_event_kind RESET_MFA = RECOVERY_MFA_RESET"
| "recovery_event_kind CLEAR_LOCKOUT = RECOVERY_LOCKOUT_CLEARED"
| "recovery_event_kind REVOKE_SESSIONS = RECOVERY_SESSIONS_REVOKED"

fun recovery_audit_action :: "recovery_action \<Rightarrow> string" where
  "recovery_audit_action REISSUE_INVITATION = ''recovery_reissue_invitation''"
| "recovery_audit_action RESET_MFA = ''recovery_reset_mfa''"
| "recovery_audit_action CLEAR_LOCKOUT = ''recovery_clear_lockout''"
| "recovery_audit_action REVOKE_SESSIONS = ''recovery_revoke_sessions''"

text \<open>\<open>" ".join(reason.split())\<close>: the words with one blank between them.\<close>

fun squeeze_space :: "string \<Rightarrow> string" where
  "squeeze_space (a # b # s) = (if is_space_char a \<and> is_space_char b then squeeze_space (b # s)
     else (if is_space_char a then CHR '' '' else a) # squeeze_space (b # s))"
| "squeeze_space s = s"

definition reason_max_length :: nat where "reason_max_length = 500"

definition clean_reason :: "string \<Rightarrow> string result" where
  "clean_reason reason = (let cleaned = squeeze_space (strip_text reason)
     in if cleaned = [] then Inl (BadRequestError [(''rule'', JStr ''reason_required'')]) else Inr (take reason_max_length cleaned))"

definition assert_recoverable :: "user \<Rightarrow> uuid \<Rightarrow> unit result" where
  "assert_recoverable u actor_id = bindR (raise_if (user_id u = actor_id) (ForbiddenError [(''rule'', JStr ''self'')])) (\<lambda>_.
     raise_if (user_status u = DEACTIVATED) (ConflictError [(''rule'', JStr ''deactivated''),
       (''currentStatus'', JStr (user_status_text (user_status u)))]))"

text \<open>The event and the audit row; the notice to the user is only logged until its sink exists.\<close>

definition record_recovery ::
  "datetime \<Rightarrow> user \<Rightarrow> auth_event_kind \<Rightarrow> string \<Rightarrow> string \<Rightarrow> uuid \<Rightarrow> string \<Rightarrow> payload \<Rightarrow> 'a identity_db_scheme \<Rightarrow> 'a identity_db_scheme" where
  "record_recovery now u kind action reason actor_id ip details db =
     audit_user now u (user_tenant_id u) action (Some actor_id) None (if details = [] then None else Some details) (Some reason)
       (record_user_event now kind u (Some actor_id) ip ((''reason'', JStr reason) # details) db)"

definition recover ::
  "auth_lib \<Rightarrow> datetime \<Rightarrow> (mail \<Rightarrow> bool) \<Rightarrow> string \<Rightarrow> user \<Rightarrow> recovery_action \<Rightarrow> string \<Rightarrow> uuid \<Rightarrow> string \<Rightarrow> 'a identity_db_scheme
     \<Rightarrow> 'a identity_db_scheme result" where
  "recover lib now mailer raw u action reason0 actor_id ip db =
     bindR (clean_reason reason0) (\<lambda>reason.
     bindR (assert_recoverable u actor_id) (\<lambda>_.
     bindR (case action of
         REISSUE_INVITATION \<Rightarrow> bindR (issue_invitation lib now mailer raw u (Some actor_id) ip db) (\<lambda>db1. Inr (db1, []))
       | RESET_MFA \<Rightarrow> (case end_sessions now u ''mfa_removed'' (Some actor_id) (remove_all_factors now u actor_id ip db) of
           (db1, n) \<Rightarrow> Inr (db1, [(''sessionsEnded'', JInt (int n))]))
       | CLEAR_LOCKOUT \<Rightarrow> (case credential_of (user_id u) db of None \<Rightarrow> Inl (ConflictError [(''rule'', JStr ''not_locked'')])
           | Some c \<Rightarrow> if failed_login_attempts c = 0 \<and> locked_until c = None then Inl (ConflictError [(''rule'', JStr ''not_locked'')])
               else Inr (save_credential (c\<lparr>failed_login_attempts := 0, last_failed_at := None, locked_until := None,
                 cred_updated_by := Some actor_id\<rparr>) db, [(''failedLoginAttempts'', JInt (int (failed_login_attempts c)))]))
       | REVOKE_SESSIONS \<Rightarrow> (case end_sessions now u ''platform_staff'' (Some actor_id) db of
           (db1, n) \<Rightarrow> Inr (db1, [(''sessionsEnded'', JInt (int n))]))) (\<lambda>(db1, details).
     Inr (record_recovery now u (recovery_event_kind action) (recovery_audit_action action) reason actor_id ip details db1))))"

definition grant_manager ::
  "datetime \<Rightarrow> uuid \<Rightarrow> user \<Rightarrow> string \<Rightarrow> uuid \<Rightarrow> string list \<Rightarrow> string \<Rightarrow> 'a access_db_scheme \<Rightarrow> 'a access_db_scheme result" where
  "grant_manager now d u reason0 actor_id actor_roles ip db =
     bindR (clean_reason reason0) (\<lambda>reason.
     bindR (raise_if (user_tenant_id u \<noteq> d) (NotFoundError [])) (\<lambda>_.
     bindR (assert_recoverable u actor_id) (\<lambda>_.
     bindR (raise_if (user_status u \<noteq> ACTIVE_USER) (ConflictError [(''rule'', JStr ''not_active''),
       (''currentStatus'', JStr (user_status_text (user_status u)))])) (\<lambda>_.
     bindR (raise_if (user_is_dealer_manager u) (ConflictError [(''rule'', JStr ''already_manager'')])) (\<lambda>_.
     bindR (set_home_manager_flag id now u True actor_id actor_roles
       (record_recovery now u RECOVERY_MANAGER_GRANTED ''recovery_grant_manager'' reason actor_id ip [] db)) (\<lambda>(db1, _). Inr db1))))))"

definition change_email ::
  "datetime \<Rightarrow> (mail \<Rightarrow> bool) \<Rightarrow> user \<Rightarrow> string \<Rightarrow> string \<Rightarrow> uuid \<Rightarrow> string \<Rightarrow> 'a identity_db_scheme \<Rightarrow> 'a identity_db_scheme result" where
  "change_email now mailer u email reason0 actor_id ip db =
     bindR (clean_reason reason0) (\<lambda>reason.
     bindR (assert_recoverable u actor_id) (\<lambda>_.
     let new_email = lower_text (strip_text email) in
     bindR (raise_if (new_email = lower_text (user_email u)) (ConflictError [(''rule'', JStr ''same_email'')])) (\<lambda>_.
     bindR (raise_if (list_ex (\<lambda>r. lower_text (user_email r) = new_email \<and> user_id r \<noteq> user_id u) (users db))
       (ConflictError [(''rule'', JStr ''email_taken'')])) (\<lambda>_.
     let u' = touch_user actor_id (u\<lparr>user_email := new_email\<rparr>)
     in Inr (record_recovery now u' RECOVERY_EMAIL_CHANGED ''recovery_change_email'' reason actor_id ip
       [(''from'', JStr (user_email u)), (''to'', JStr new_email)]
       (email_changed now mailer u' (user_email u) actor_id ip (save_user u' db)))))))"

section \<open>What the operations leave of the roster\<close>

text \<open>A write that leaves the users and their memberships alone.\<close>

definition keeps_roster :: "'a access_db_scheme \<Rightarrow> 'a access_db_scheme \<Rightarrow> bool" where
  "keeps_roster db db' \<longleftrightarrow> users db' = users db \<and> dealership_memberships db' = dealership_memberships db \<and> uuid_supply db \<le> uuid_supply db'"

lemma keeps_roster_refl [simp, intro]: "keeps_roster db db"
  by (simp add: keeps_roster_def)

lemma keeps_roster_trans: "keeps_roster a b \<Longrightarrow> keeps_roster b c \<Longrightarrow> keeps_roster a c"
  by (simp add: keeps_roster_def)

lemma keeps_roster_event [intro]: "keeps_roster db (record_event now k u d a ip det db)"
  by (simp add: keeps_roster_def record_event_def draw_uuid_def)

lemma keeps_roster_audit [intro]: "keeps_roster db (record_audit_event now et ei ti ac aa be af re db)"
  by (simp add: keeps_roster_def record_audit_event_def)

lemma keeps_roster_sessions [intro]: "keeps_roster db (fst (end_sessions now u reason a db))"
  by (simp add: end_sessions_def revoke_all_for_user_def Let_def) (simp add: keeps_roster_def record_event_def draw_uuid_def)

lemma keeps_roster_delegations [intro]: "keeps_roster db (end_all_delegations now u a reason db)"
  by (simp add: end_all_delegations_def set_delegations_def Let_def) (simp add: keeps_roster_def record_audit_event_def)

lemma keeps_roster_locations:
  assumes "set_locations u p as db = Inr (db', c)"
  shows "keeps_roster db db'"
  using assms by (auto simp: set_locations_def Let_def keeps_roster_def split: if_splits)

lemma keeps_roster_update_locations:
  assumes "update_locations u ch db = Inr (db', c)"
  shows "keeps_roster db db'"
  using assms keeps_roster_locations by (auto simp: update_locations_def split: if_splits prod.splits)

lemma keeps_roster_accounts: "revoke_accounts now u a reason accs db = Inr db' \<Longrightarrow> keeps_roster db db'"
proof (induction accs arbitrary: db)
  case (Cons x accs)
  obtain db1 where r: "revoke_account now u a reason x db = Inr db1" "revoke_accounts now u a reason accs db1 = Inr db'"
    using Cons.prems by (auto simp: bindR_Inr_iff)
  have "keeps_roster db db1" using r(1)
    by (auto simp: revoke_account_def Let_def keeps_roster_def record_event_def draw_uuid_def record_audit_event_def split: if_splits)
  then show ?case using Cons.IH [OF r(2)] by (rule keeps_roster_trans)
qed simp

lemma keeps_roster_email [intro]: "keeps_roster db (email_changed now mailer u old a ip db)"
  by (simp add: email_changed_def deliver_mail_def revoke_all_def revoke_all_for_user_def consume_all_for_user_def Let_def)
    (simp add: keeps_roster_def record_event_def draw_uuid_def)

lemma keeps_roster_consequences:
  assumes "update_consequences now old u lc a f reason db = Inr db'" and f: "\<And>g u e d. f = Some g \<Longrightarrow> keeps_roster d (g u e d)"
  shows "keeps_roster db db'"
proof -
  define db1 where "db1 = (if changed_fields old u \<noteq> [] then audit_user now u (user_tenant_id u) ''update'' a (Some (changed_fields u old)) (Some (changed_fields old u)) reason db else db)"
  define db2 where "db2 = (if lc then (case locations_of (user_id u) db1 of (p, as) \<Rightarrow> audit_user now u (user_tenant_id u) ''locations_set''
              a None (Some [(''primary_location_id'', json_opt JUuid p), (''additional_location_ids'', JList (map JUuid as))]) None db1) else db1)"
  define db3 where "db3 = (if user_is_dealer_manager u \<noteq> user_is_dealer_manager old
            then record_manager_flag_event now u (user_tenant_id u) (user_is_dealer_manager old) (user_is_dealer_manager u) a db2 else db2)"
  define db4 where "db4 = (case f of Some f \<Rightarrow> if user_email u \<noteq> user_email old then f u (user_email old) db3 else db3 | None \<Rightarrow> db3)"
  have "keeps_roster db db1" "keeps_roster db1 db2" "keeps_roster db2 db3"
    by (auto simp: db1_def db2_def db3_def record_manager_flag_event_def split: prod.split)
  moreover have "keeps_roster db3 db4" using f by (auto simp: db4_def split: option.split)
  ultimately have 4: "keeps_roster db db4" using keeps_roster_trans by blast
  obtain db5 where 5: "(if user_status u \<noteq> user_status old \<and> user_status u = DEACTIVATED
      then revoke_all_accounts now u a ''deactivated'' (end_all_delegations now u a ''deactivated'' db4) else Inr db4) = Inr db5"
    "db' = (if user_status u \<noteq> user_status old \<and> (user_status u = DEACTIVATED \<or> user_status u = SUSPENDED)
              then fst (end_sessions now u (user_status_text (user_status u)) a db5)
              else if user_access_roles u \<noteq> user_access_roles old \<or> user_is_dealer_manager u \<noteq> user_is_dealer_manager old
              then fst (end_sessions now u ''access_changed'' a db5) else db5)"
    using assms(1) unfolding update_consequences_def Let_def db1_def [symmetric] db2_def [symmetric] db3_def [symmetric] db4_def [symmetric]
    by (auto simp: bindR_Inr_iff)
  have "keeps_roster db4 db5" using 5(1) keeps_roster_trans [OF keeps_roster_delegations keeps_roster_accounts]
    by (auto simp: revoke_all_accounts_def split: if_splits)
  moreover have "keeps_roster db5 db'" using 5(2) by (auto split: if_splits)
  ultimately show ?thesis using 4 keeps_roster_trans by blast
qed

section \<open>A dealership keeps a manager\<close>

definition managers :: "'a master_db_scheme \<Rightarrow> (uuid \<times> uuid) set" where
  "managers db = {(x, d). \<exists>u \<in> set (users db). user_id u = x \<and> is_active_user u \<and> ((user_tenant_id u = d \<and> user_is_dealer_manager u)
     \<or> (\<exists>m \<in> set (dealership_memberships db). mem_user_id m = x \<and> mem_dealership_id m = d \<and> mem_is_dealer_manager m \<and> mem_valid_to m = None))}"

definition managed :: "uuid \<Rightarrow> 'a master_db_scheme \<Rightarrow> bool" where
  "managed d db \<longleftrightarrow> (\<exists>x. (x, d) \<in> managers db)"

text \<open>The keys are unique, new identifiers are new, and no membership ends in the future (none is ever given such an end).\<close>

definition roster_ok :: "datetime \<Rightarrow> 'a master_db_scheme \<Rightarrow> bool" where
  "roster_ok t db \<longleftrightarrow> distinct (map user_id (users db)) \<and> (\<forall>u \<in> set (users db). user_id u < uuid_supply db)
     \<and> distinct (map (\<lambda>m. (mem_user_id m, mem_dealership_id m)) (dealership_memberships db))
     \<and> (\<forall>m \<in> set (dealership_memberships db). \<forall>v. mem_valid_to m = Some v \<longrightarrow> v \<le> t)"

lemma roster_ok_keeps: "roster_ok t db \<Longrightarrow> keeps_roster db db' \<Longrightarrow> roster_ok t db'"
  by (fastforce simp: roster_ok_def keeps_roster_def)

lemma managers_keeps: "keeps_roster db db' \<Longrightarrow> managers db' = managers db"
  by (simp add: managers_def keeps_roster_def)

lemma active_iff: "roster_ok t db \<Longrightarrow> m \<in> set (dealership_memberships db) \<Longrightarrow> is_active_membership t m \<longleftrightarrow> mem_valid_to m = None"
  by (fastforce simp: roster_ok_def is_active_membership_def split: option.splits)

lemma manages_iff:
  assumes "roster_ok t db" "u \<in> set (users db)"
  shows "manages t d db u \<Longrightarrow> (user_id u, d) \<in> managers db"
  using assms active_iff [OF assms(1)] by (fastforce simp: manages_def managers_def list_ex_iff)

lemma not_lastD:
  assumes "assert_not_last_manager t d x r db = Inr ()" "roster_ok t db"
  shows "\<exists>y. y \<noteq> x \<and> (y, d) \<in> managers db"
  using assms manages_iff [OF assms(2)] by (fastforce simp: assert_not_last_manager_def list_ex_iff)

lemma none_lastD: "assert_none_last t u ds db = Inr () \<Longrightarrow> d \<in> set ds \<Longrightarrow> assert_not_last_manager t d (user_id u) ''last_manager_elsewhere'' db = Inr ()"
  by (induction ds) (auto simp: bindR_Inr_iff)

text \<open>The rule in general: the other managers stay, and whoever loses the office leaves one behind.\<close>

lemma managed_by_rule:
  assumes "managed d db" "\<And>y. y \<noteq> x \<Longrightarrow> (y, d) \<in> managers db \<Longrightarrow> (y, d) \<in> managers db'"
    "(x, d) \<in> managers db \<Longrightarrow> (x, d) \<in> managers db' \<or> (\<exists>y. y \<noteq> x \<and> (y, d) \<in> managers db)"
  shows "managed d db'"
  using assms unfolding managed_def by metis

lemma managers_save_user:
  assumes "user_id u' = x"
  shows "y \<noteq> x \<Longrightarrow> (y, d) \<in> managers db \<Longrightarrow> (y, d) \<in> managers (save_user u' db)"
  using assms by (fastforce simp: managers_def save_user_def set_update_where)

lemma managers_save_membership:
  assumes "mem_user_id m' = x"
  shows "y \<noteq> x \<Longrightarrow> (y, d) \<in> managers db \<Longrightarrow> (y, d) \<in> managers (save_membership m' db)"
proof -
  assume y: "y \<noteq> x" "(y, d) \<in> managers db"
  have "m \<in> set (dealership_memberships (save_membership m' db))" if "m \<in> set (dealership_memberships db)" "mem_user_id m = y" for m
    using that y(1) assms by (force simp: save_membership_def set_update_where)
  then show ?thesis using y(2) by (fastforce simp: managers_def save_membership_def)
qed

text \<open>The row of the user that changes is the only one with its key.\<close>

lemma manager_row:
  assumes "roster_ok t db" "get_user x db = Some u" "(x, d) \<in> managers db"
  shows "is_active_user u" "(user_tenant_id u = d \<and> user_is_dealer_manager u)
     \<or> (\<exists>m \<in> set (dealership_memberships db). mem_user_id m = x \<and> mem_dealership_id m = d \<and> mem_is_dealer_manager m \<and> mem_valid_to m = None)"
proof -
  have u: "u \<in> set (users db)" "user_id u = x" using select_one_SomeD [OF assms(2) [unfolded get_user_def]] by auto
  have "v = u" if "v \<in> set (users db)" "user_id v = x" for v
    using assms(1) that u distinct_key_unique [of user_id "users db" v u] by (auto simp: roster_ok_def)
  then show "is_active_user u" "(user_tenant_id u = d \<and> user_is_dealer_manager u)
     \<or> (\<exists>m \<in> set (dealership_memberships db). mem_user_id m = x \<and> mem_dealership_id m = d \<and> mem_is_dealer_manager m \<and> mem_valid_to m = None)"
    using assms(3) by (auto simp: managers_def)
qed

lemma save_user_row:
  assumes "get_user x db = Some u" "user_id u' = x"
  shows "u' \<in> set (users (save_user u' db))" "map user_id (users (save_user u' db)) = map user_id (users db)"
    "dealership_memberships (save_user u' db) = dealership_memberships db" "uuid_supply (save_user u' db) = uuid_supply db"
  using select_one_SomeD [OF assms(1) [unfolded get_user_def]] assms(2)
  by (force simp: save_user_def set_update_where update_where_def)+

lemma roster_ok_save_user:
  assumes "roster_ok t db" "get_user x db = Some u" "user_id u' = x"
  shows "roster_ok t (save_user u' db)"
proof -
  note r = save_user_row [OF assms(2,3)]
  have "user_id v \<in> set (map user_id (users db))" if "v \<in> set (users (save_user u' db))" for v
    using that r(2) by (metis image_eqI set_map)
  then have "\<forall>v \<in> set (users (save_user u' db)). user_id v < uuid_supply (save_user u' db)" using assms(1) r(4) by (fastforce simp: roster_ok_def)
  then show ?thesis using assms(1) r(2,3) by (simp add: roster_ok_def)
qed

lemma written_user:
  fixes u :: user
  assumes "u2 = (stamp_lifecycle now reason u (apply_user_update ch status u))\<lparr>user_updated_by := a, user_version := v\<rparr>"
  shows "user_id u2 = user_id u" "user_tenant_id u2 = user_tenant_id u"
    "user_is_dealer_manager u2 = sent (uu_is_dealer_manager ch) (user_is_dealer_manager u)" "user_status u2 = sent status (user_status u)"
  using assms by (simp_all add: stamp_lifecycle_def apply_user_update_def)

lemma keeps_get_user: "keeps_roster db db' \<Longrightarrow> get_user x db' = get_user x db"
  by (simp add: keeps_roster_def get_user_def)

text \<open>Writing a user's row after the rule has been applied to the office it loses.\<close>

lemma save_user_managed:
  assumes ok: "roster_ok t db" and u: "get_user x db = Some u" and u2: "user_id u2 = x" "user_tenant_id u2 = user_tenant_id u"
    and home: "user_is_dealer_manager u \<Longrightarrow> is_active_user u \<Longrightarrow> \<not> (user_is_dealer_manager u2 \<and> is_active_user u2)
      \<Longrightarrow> \<exists>y. y \<noteq> x \<and> (y, user_tenant_id u) \<in> managers db"
    and away: "\<And>d. is_active_user u \<Longrightarrow> \<not> is_active_user u2 \<Longrightarrow> (\<exists>m \<in> set (dealership_memberships db). mem_user_id m = x \<and> mem_dealership_id m = d
      \<and> mem_is_dealer_manager m \<and> mem_valid_to m = None) \<Longrightarrow> \<exists>y. y \<noteq> x \<and> (y, d) \<in> managers db"
    and d: "managed d db"
  shows "managed d (save_user u2 db)"
proof (rule managed_by_rule [OF d, of x])
  show "\<And>y. y \<noteq> x \<Longrightarrow> (y, d) \<in> managers db \<Longrightarrow> (y, d) \<in> managers (save_user u2 db)" using managers_save_user u2(1) by blast
  assume m: "(x, d) \<in> managers db"
  note r = manager_row [OF ok u m] and s = save_user_row [OF u u2(1)]
  show "(x, d) \<in> managers (save_user u2 db) \<or> (\<exists>y. y \<noteq> x \<and> (y, d) \<in> managers db)"
  proof (cases "is_active_user u2 \<and> ((user_tenant_id u = d \<and> user_is_dealer_manager u2)
      \<or> (\<exists>m \<in> set (dealership_memberships db). mem_user_id m = x \<and> mem_dealership_id m = d \<and> mem_is_dealer_manager m \<and> mem_valid_to m = None))")
    case True
    have "(x, d) \<in> managers (save_user u2 db)" unfolding managers_def
      by (intro CollectI case_prodI bexI [of _ u2]) (use True s(1,3) u2 in auto)
    then show ?thesis ..
  next
    case False
    then show ?thesis using r home away [of d] by blast
  qed
qed

lemma update_user_managed:
  assumes ok: "roster_ok t db" and u: "get_user x db = Some u" and upd: "update_user id t u data a roles f reason allow db = Inr (db', u')"
    and f: "\<And>g u e d. f = Some g \<Longrightarrow> keeps_roster d (g u e d)"
  shows "roster_ok t db' \<and> (managed d db \<longrightarrow> managed d db')"
proof -
  define ch where "ch = lower_email data"
  obtain status db2 lc where c: "assert_manager_stays t u (sent (uu_is_dealer_manager ch) (user_is_dealer_manager u)) (sent status (user_status u)) db = Inr ()"
    and l: "update_locations (stamp_lifecycle t reason u (apply_user_update ch status u)) ch db = Inr (db2, lc)"
    and k: "update_consequences t u u' lc a f reason (save_user u' db2) = Inr db'"
    and u': "u' = (stamp_lifecycle t reason u (apply_user_update ch status u))\<lparr>user_updated_by := a, user_version := user_version u + 1\<rparr>"
    using upd unfolding update_user_def Let_def ch_def [symmetric] by (auto simp: bindR_Inr_iff split: if_splits prod.splits)
  note w = written_user [OF u']
  have x: "user_id u = x" using get_user_id [OF u] .
  have k2: "keeps_roster db db2" by (rule keeps_roster_update_locations [OF l])
  have u2: "get_user x db2 = Some u" using keeps_get_user [OF k2] u by simp
  have ok2: "roster_ok t db2" by (rule roster_ok_keeps [OF ok k2])
  have k3: "keeps_roster (save_user u' db2) db'" by (rule keeps_roster_consequences [OF k]) (use f in auto)
  have home: "\<exists>y. y \<noteq> x \<and> (y, user_tenant_id u) \<in> managers db2"
    if "user_is_dealer_manager u" "is_active_user u" "\<not> (user_is_dealer_manager u' \<and> is_active_user u')"
    using c that w x not_lastD [OF _ ok, of "user_tenant_id u" x "''last_manager''"] managers_keeps [OF k2]
    by (auto simp: assert_manager_stays_def bindR_Inr_iff is_active_user_def is_active_status_def split: if_splits)
  have away: "\<exists>y. y \<noteq> x \<and> (y, e) \<in> managers db2" if i: "is_active_user u" "\<not> is_active_user u'"
    "\<exists>m \<in> set (dealership_memberships db2). mem_user_id m = x \<and> mem_dealership_id m = e \<and> mem_is_dealer_manager m \<and> mem_valid_to m = None" for e
  proof -
    have "e \<in> set (managed_memberships t u db)"
      using i(3) k2 x by (auto simp: managed_memberships_def keeps_roster_def is_active_membership_def)
    moreover have "assert_none_last t u (managed_memberships t u db) db = Inr ()"
      using c i(1,2) w by (auto simp: assert_manager_stays_def bindR_Inr_iff is_active_user_def is_active_status_def split: if_splits)
    ultimately show ?thesis using none_lastD not_lastD [OF _ ok] x managers_keeps [OF k2] by metis
  qed
  have "managed d (save_user u' db2)" if "managed d db"
    by (rule save_user_managed [OF ok2 u2]) (use w x home away that managers_keeps [OF k2] in \<open>auto simp: managed_def\<close>)
  moreover have "roster_ok t (save_user u' db2)" using roster_ok_save_user [OF ok2 u2] w(1) x by simp
  ultimately show ?thesis using roster_ok_keeps [OF _ k3] managers_keeps [OF k3] by (simp add: managed_def)
qed

lemma save_membership_managed:
  assumes ok: "roster_ok t db" and u: "get_user x db = Some u" and m: "membership_row u e db = Some m"
    and m': "mem_user_id m' = x" "mem_dealership_id m' = e"
    and loses: "is_active_user u \<Longrightarrow> mem_is_dealer_manager m \<Longrightarrow> mem_valid_to m = None \<Longrightarrow> \<not> (mem_is_dealer_manager m' \<and> mem_valid_to m' = None)
      \<Longrightarrow> \<exists>y. y \<noteq> x \<and> (y, e) \<in> managers db"
    and d: "managed d db"
  shows "managed d (save_membership m' db)"
proof (rule managed_by_rule [OF d, of x])
  show "\<And>y. y \<noteq> x \<Longrightarrow> (y, d) \<in> managers db \<Longrightarrow> (y, d) \<in> managers (save_membership m' db)" using managers_save_membership m'(1) by blast
  assume a: "(x, d) \<in> managers db"
  note r = manager_row [OF ok u a]
  have u1: "u \<in> set (users (save_membership m' db))" "user_id u = x"
    using select_one_SomeD [OF u [unfolded get_user_def]] by (auto simp: save_membership_def)
  have mm: "m \<in> set (dealership_memberships db)" "mem_user_id m = x" "mem_dealership_id m = e"
    using select_one_SomeD [OF m [unfolded membership_row_def]] u1(2) by auto
  have only: "m2 = m" if "m2 \<in> set (dealership_memberships db)" "mem_user_id m2 = x" "mem_dealership_id m2 = e" for m2
    using ok that mm distinct_key_unique [of "\<lambda>m. (mem_user_id m, mem_dealership_id m)" "dealership_memberships db" m2 m] by (auto simp: roster_ok_def)
  have stays: "m2 \<in> set (dealership_memberships (save_membership m' db))" if "m2 \<in> set (dealership_memberships db)" "mem_dealership_id m2 \<noteq> e" for m2
    using that m' by (force simp: save_membership_def set_update_where)
  have new: "m' \<in> set (dealership_memberships (save_membership m' db))" using mm m' by (force simp: save_membership_def set_update_where)
  consider (home) "user_tenant_id u = d" "user_is_dealer_manager u"
    | (away) m2 where "m2 \<in> set (dealership_memberships db)" "mem_user_id m2 = x" "mem_dealership_id m2 = d" "mem_is_dealer_manager m2" "mem_valid_to m2 = None"
    using r(2) by blast
  then show "(x, d) \<in> managers (save_membership m' db) \<or> (\<exists>y. y \<noteq> x \<and> (y, d) \<in> managers db)"
  proof cases
    case home
    then have "(x, d) \<in> managers (save_membership m' db)" unfolding managers_def
      by (intro CollectI case_prodI bexI [of _ u]) (use r(1) u1 in auto)
    then show ?thesis ..
  next
    case away
    show ?thesis
    proof (cases "d = e \<and> \<not> (mem_is_dealer_manager m' \<and> mem_valid_to m' = None)")
      case True
      then have "m2 = m" using only away(1-3) by simp
      then show ?thesis using loses [OF r(1)] True away(4,5) by simp
    next
      case False
      then obtain m3 where "m3 \<in> set (dealership_memberships (save_membership m' db))" "mem_user_id m3 = x" "mem_dealership_id m3 = d"
        "mem_is_dealer_manager m3" "mem_valid_to m3 = None" using stays [OF away(1)] away new m' by blast
      then have "(x, d) \<in> managers (save_membership m' db)" unfolding managers_def
        by (intro CollectI case_prodI bexI [of _ u]) (use r(1) u1 in auto)
      then show ?thesis ..
    qed
  qed
qed

lemma roster_ok_save_membership:
  assumes "roster_ok t db" "\<And>v. mem_valid_to m' = Some v \<Longrightarrow> v \<le> t"
  shows "roster_ok t (save_membership m' db)"
proof -
  have "map (\<lambda>m. (mem_user_id m, mem_dealership_id m)) (dealership_memberships (save_membership m' db))
      = map (\<lambda>m. (mem_user_id m, mem_dealership_id m)) (dealership_memberships db)"
    by (simp add: save_membership_def update_where_def)
  moreover have "users (save_membership m' db) = users db" "uuid_supply (save_membership m' db) = uuid_supply db" by (simp_all add: save_membership_def)
  moreover have "\<forall>m \<in> set (dealership_memberships (save_membership m' db)). \<forall>v. mem_valid_to m = Some v \<longrightarrow> v \<le> t"
    using assms by (auto simp: save_membership_def set_update_where roster_ok_def)
  ultimately show ?thesis using assms(1) by (simp add: roster_ok_def)
qed

text \<open>Stamping a user's row takes no office from anybody.\<close>

lemma touched:
  assumes ok: "roster_ok t db" and u: "get_user x db = Some u" and k: "keeps_roster (save_user (touch_user a u) db) db'"
  shows "roster_ok t db' \<and> (managed d db \<longrightarrow> managed d db')"
proof -
  have t: "user_id (touch_user a u) = x" "user_tenant_id (touch_user a u) = user_tenant_id u"
    "user_is_dealer_manager (touch_user a u) = user_is_dealer_manager u" "is_active_user (touch_user a u) = is_active_user u"
    using get_user_id [OF u] by (simp_all add: touch_user_def is_active_user_def)
  have "managed d (save_user (touch_user a u) db)" if "managed d db"
    by (rule save_user_managed [OF ok u t(1,2) _ _ that]) (use t in auto)
  then show ?thesis using roster_ok_keeps [OF roster_ok_save_user [OF ok u t(1)] k] managers_keeps [OF k] by (simp add: managed_def)
qed

lemma active_rowD:
  assumes "active_row t u e db = Some m" "roster_ok t db"
  shows "membership_row u e db = Some m" "mem_valid_to m = None" "mem_user_id m = user_id u" "mem_dealership_id m = e"
proof -
  show m: "membership_row u e db = Some m" using assms(1) by (auto simp: active_row_def split: option.splits if_splits)
  note s = select_one_SomeD [OF m [unfolded membership_row_def]]
  show "mem_user_id m = user_id u" "mem_dealership_id m = e" using s by auto
  show "mem_valid_to m = None" using assms(1) active_iff [OF assms(2)] s by (auto simp: active_row_def split: option.splits if_splits)
qed

lemma membership_then_touch:
  assumes ok: "roster_ok t db" and u: "get_user x db = Some u" and m: "membership_row u e db = Some m"
    and m': "mem_user_id m' = x" "mem_dealership_id m' = e" "\<And>v. mem_valid_to m' = Some v \<Longrightarrow> v \<le> t"
    and loses: "is_active_user u \<Longrightarrow> mem_is_dealer_manager m \<Longrightarrow> mem_valid_to m = None \<Longrightarrow> \<not> (mem_is_dealer_manager m' \<and> mem_valid_to m' = None)
      \<Longrightarrow> \<exists>y. y \<noteq> x \<and> (y, e) \<in> managers db"
    and k: "keeps_roster (save_membership m' db) db1" "keeps_roster (save_user (touch_user a u) db1) db'"
  shows "roster_ok t db' \<and> (managed d db \<longrightarrow> managed d db')"
proof -
  have ok1: "roster_ok t db1" by (rule roster_ok_keeps [OF roster_ok_save_membership [OF ok m'(3)] k(1)])
  have u1: "get_user x db1 = Some u" using keeps_get_user [OF k(1)] u by (simp add: save_membership_def get_user_def)
  have "managed d db1" if "managed d db"
  proof -
    have "managed d (save_membership m' db)" by (rule save_membership_managed [OF ok u m m'(1,2) _ that]) (rule loses)
    then show ?thesis unfolding managed_def managers_keeps [OF k(1)] .
  qed
  then show ?thesis using touched [OF ok1 u1 k(2), of d] by blast
qed

lemma keeps_audit_both [intro]: "keeps_roster db (audit_both_sides now u d act a be af db)"
  by (simp add: audit_both_sides_def keeps_roster_def record_audit_event_def)

lemma keeps_flag_event [intro]: "keeps_roster db (record_manager_flag_event now u d b c a db)"
  by (simp add: record_manager_flag_event_def keeps_roster_def record_audit_event_def)

lemma end_membership_managed:
  assumes ok: "roster_ok t db" and u: "get_user x db = Some u" and e: "end_membership id t u e a roles db = Inr db'"
  shows "roster_ok t db' \<and> (managed d db \<longrightarrow> managed d db')"
proof -
  obtain m where m: "active_row t u e db = Some m" using e by (auto simp: end_membership_def bindR_Inr_iff split: option.splits)
  define m1 where "m1 = m\<lparr>mem_valid_to := Some t\<rparr>"
  define db1 where "db1 = audit_both_sides t u e ''membership_end'' a (Some (membership_state t m)) (Some (membership_state t m1)) (save_membership m1 db)"
  have g: "mem_is_dealer_manager m \<and> is_active_user u \<Longrightarrow> assert_not_last_manager t e (user_id u) ''last_manager'' db = Inr ()"
    and db': "db' = fst (end_sessions t u ''access_changed'' (Some a) (save_user (touch_user a u) db1))"
    using e m unfolding end_membership_def Let_def db1_def m1_def by (auto simp: bindR_Inr_iff split: if_splits)
  note r = active_rowD [OF m ok]
  have x: "user_id u = x" using get_user_id [OF u] .
  have k: "keeps_roster (save_membership m1 db) db1" "keeps_roster (save_user (touch_user a u) db1) db'" unfolding db1_def db' by blast+
  show ?thesis
    by (rule membership_then_touch [OF ok u r(1) _ _ _ _ k]) (use r x g not_lastD [OF _ ok] in \<open>auto simp: m1_def\<close>)
qed

lemma membership_flag_managed:
  assumes ok: "roster_ok t db" and u: "get_user x db = Some u" and e: "set_membership_manager_flag id t u e manager a roles db = Inr (db', m')"
  shows "roster_ok t db' \<and> (managed d db \<longrightarrow> managed d db')"
proof -
  obtain m where m: "active_row t u e db = Some m" using e by (auto simp: set_membership_manager_flag_def bindR_Inr_iff split: option.splits)
  note r = active_rowD [OF m ok]
  have x: "user_id u = x" using get_user_id [OF u] .
  show ?thesis
  proof (cases "mem_is_dealer_manager m = manager")
    case True
    then show ?thesis using e m ok by (auto simp: set_membership_manager_flag_def bindR_Inr_iff)
  next
    case False
    define m1 where "m1 = m\<lparr>mem_is_dealer_manager := manager\<rparr>"
    define db1 where "db1 = record_manager_flag_event t u e (\<not> manager) manager (Some a) (save_membership m1 db)"
    have g: "\<not> manager \<and> is_active_user u \<Longrightarrow> assert_not_last_manager t e (user_id u) ''last_manager'' db = Inr ()"
      and db': "db' = fst (end_sessions t u ''access_changed'' (Some a) (save_user (touch_user a u) db1))"
      using e m False unfolding set_membership_manager_flag_def Let_def db1_def m1_def by (auto simp: bindR_Inr_iff split: if_splits)
    have k: "keeps_roster (save_membership m1 db) db1" "keeps_roster (save_user (touch_user a u) db1) db'" unfolding db1_def db' by blast+
    show ?thesis
      by (rule membership_then_touch [OF ok u r(1) _ _ _ _ k]) (use r x g not_lastD [OF _ ok] in \<open>auto simp: m1_def\<close>)
  qed
qed

lemma grant_membership_managed:
  assumes ok: "roster_ok t db" and u: "get_user x db = Some u" and e: "grant_membership t u e manager a roles db = Inr (db', m')"
  shows "roster_ok t db' \<and> (managed d db \<longrightarrow> managed d db')"
proof -
  have x: "user_id u = x" using get_user_id [OF u] .
  define m where "m = \<lparr>mem_user_id = user_id u, mem_dealership_id = e, mem_granted_at = t, mem_granted_by = Some a,
    mem_is_dealer_manager = manager, mem_valid_to = None\<rparr>"
  define db1 where "db1 = (case membership_row u e db of None \<Rightarrow> db\<lparr>dealership_memberships := dealership_memberships db @ [m]\<rparr>
    | Some _ \<Rightarrow> save_membership m db)"
  define db2 where "db2 = audit_both_sides t u e ''membership_grant'' a (map_option (membership_state t) (membership_row u e db)) (Some (membership_state t m)) db1"
  have inactive: "\<not> is_active_membership t r" if "membership_row u e db = Some r" for r
    using e that by (auto simp: grant_membership_def bindR_Inr_iff Let_def split: if_splits)
  define db3 where "db3 = (if manager then record_manager_flag_event t u e False True (Some a) db2 else db2)"
  have "db' = fst (end_sessions t u ''access_changed'' (Some a) db3)"
    using e unfolding grant_membership_def Let_def db3_def db2_def db1_def m_def by (auto simp: bindR_Inr_iff split: if_splits)
  then have "keeps_roster db1 db2" "keeps_roster db2 db3" "keeps_roster db3 db'" by (auto simp: db2_def db3_def)
  then have k: "keeps_roster db1 db'" using keeps_roster_trans by blast
  have "roster_ok t db1 \<and> (managed d db \<longrightarrow> managed d db1)"
  proof (cases "membership_row u e db")
    case None
    then have "\<forall>r \<in> set (dealership_memberships db). \<not> (mem_user_id r = user_id u \<and> mem_dealership_id r = e)"
      by (simp add: membership_row_def select_one_None_iff)
    then have "roster_ok t db1" using ok by (auto simp: db1_def None roster_ok_def m_def)
    moreover have "managers db \<subseteq> managers db1" by (auto simp: managers_def db1_def None)
    ultimately show ?thesis by (auto simp: managed_def)
  next
    case (Some r)
    have r: "r \<in> set (dealership_memberships db)" using select_one_SomeD [OF Some [unfolded membership_row_def]] by simp
    have "managed d (save_membership m db)" if "managed d db"
      by (rule save_membership_managed [OF ok u Some _ _ _ that]) (use inactive [OF Some] active_iff [OF ok r] in \<open>simp_all add: m_def x\<close>)
    then show ?thesis using roster_ok_save_membership [OF ok, of m] by (simp add: db1_def Some m_def)
  qed
  then show ?thesis using roster_ok_keeps [OF _ k] managers_keeps [OF k] by (simp add: managed_def)
qed

lemma home_flag_managed:
  assumes ok: "roster_ok t db" and u: "get_user x db = Some u" and e: "set_home_manager_flag id t u manager a roles db = Inr (db', u')"
  shows "roster_ok t db' \<and> (managed d db \<longrightarrow> managed d db')"
proof (cases "user_is_dealer_manager u = manager")
  case True
  then show ?thesis using e ok by (auto simp: set_home_manager_flag_def bindR_Inr_iff)
next
  case False
  define v where "v = touch_user a (u\<lparr>user_is_dealer_manager := manager\<rparr>)"
  have x: "user_id u = x" using get_user_id [OF u] .
  have v: "user_id v = x" "user_tenant_id v = user_tenant_id u" "user_is_dealer_manager v = manager" "is_active_user v = is_active_user u"
    using x by (simp_all add: v_def touch_user_def is_active_user_def)
  have g: "\<not> manager \<and> is_active_user u \<Longrightarrow> assert_not_last_manager t (user_tenant_id u) (user_id u) ''last_manager'' db = Inr ()"
    using e False by (auto simp: set_home_manager_flag_def bindR_Inr_iff split: if_splits)
  define db1 where "db1 = audit_user t u (user_tenant_id u) ''update'' (Some a) (Some [(''is_dealer_manager'', JBool (user_is_dealer_manager u))])
        (Some [(''is_dealer_manager'', JBool manager)]) None (save_user v db)"
  define db2 where "db2 = record_manager_flag_event t u (user_tenant_id u) (user_is_dealer_manager u) manager (Some a) db1"
  have "db' = fst (end_sessions t u ''access_changed'' (Some a) db2)"
    using e False unfolding set_home_manager_flag_def Let_def v_def db1_def db2_def by (auto simp: bindR_Inr_iff split: if_splits)
  then have "keeps_roster (save_user v db) db1" "keeps_roster db1 db2" "keeps_roster db2 db'" by (auto simp: db1_def db2_def)
  then have k: "keeps_roster (save_user v db) db'" using keeps_roster_trans by blast
  have "managed d (save_user v db)" if "managed d db"
    by (rule save_user_managed [OF ok u v(1,2) _ _ that]) (use v g x not_lastD [OF _ ok] in auto)
  then show ?thesis using roster_ok_keeps [OF roster_ok_save_user [OF ok u v(1)] k] managers_keeps [OF k] by (simp add: managed_def)
qed

lemma create_user_managed:
  assumes ok: "roster_ok t db" and c: "create_user t e data a roles db = Inr (db', u)"
  shows "roster_ok t db' \<and> (managed d db \<longrightarrow> managed d db')"
proof -
  define db1 where "db1 = (snd (draw_uuid db))\<lparr>users := users db @ [u]\<rparr>"
  have u: "u = new_user t (uuid_supply db) e data a" using c by (auto simp: create_user_def draw_uuid_def Let_def bindR_Inr_iff split: if_splits)
  obtain db2 b where l: "set_locations u (uk_primary_location_id data) (uk_additional_location_ids data) db1 = Inr (db2, b)"
    and k: "keeps_roster db2 db'"
    using c unfolding create_user_def db1_def draw_uuid_def Let_def by (auto simp: bindR_Inr_iff split: if_splits)
  have i: "user_id u = uuid_supply db" by (simp add: u new_user_def)
  have k1: "keeps_roster db1 db'" using keeps_roster_trans [OF keeps_roster_locations [OF l] k] .
  have "user_id v \<noteq> user_id u" if "v \<in> set (users db)" for v using ok that i by (auto simp: roster_ok_def)
  then have "distinct (map user_id (users db @ [u]))" using ok by (force simp: roster_ok_def)
  then have "roster_ok t db1" using ok i by (auto simp: roster_ok_def db1_def draw_uuid_def less_Suc_eq)
  moreover have "managers db \<subseteq> managers db1" by (auto simp: managers_def db1_def draw_uuid_def)
  ultimately show ?thesis using roster_ok_keeps [OF _ k1] managers_keeps [OF k1] by (auto simp: managed_def)
qed

subsection \<open>Requests one after the other\<close>

text \<open>Everything else (a sign-in, an accepted invitation, the passing of time) leaves the offices as they are.\<close>

definition same_offices :: "'a master_db_scheme \<Rightarrow> 'a master_db_scheme \<Rightarrow> bool" where
  "same_offices db db' \<longleftrightarrow> map (\<lambda>u. (user_id u, user_tenant_id u, user_is_dealer_manager u, is_active_user u)) (users db')
       = map (\<lambda>u. (user_id u, user_tenant_id u, user_is_dealer_manager u, is_active_user u)) (users db)
     \<and> dealership_memberships db' = dealership_memberships db \<and> uuid_supply db \<le> uuid_supply db'"

inductive administered :: "datetime \<Rightarrow> 'a access_db_scheme \<Rightarrow> datetime \<Rightarrow> 'a access_db_scheme \<Rightarrow> bool"
  for t0 :: datetime and db0 :: "'a access_db_scheme" where
  admin_begin: "administered t0 db0 t0 db0"
| admin_other: "administered t0 db0 t db \<Longrightarrow> t \<le> t' \<Longrightarrow> same_offices db db' \<Longrightarrow> administered t0 db0 t' db'"
| admin_create: "administered t0 db0 t db \<Longrightarrow> create_user t e data a roles db = Inr (db', u) \<Longrightarrow> administered t0 db0 t db'"
| admin_update: "administered t0 db0 t db \<Longrightarrow> get_user x db = Some u \<Longrightarrow> (\<And>g u e d. f = Some g \<Longrightarrow> keeps_roster d (g u e d))
    \<Longrightarrow> update_user id t u change b roles f reason allow db = Inr (db', u') \<Longrightarrow> administered t0 db0 t db'"
| admin_grant: "administered t0 db0 t db \<Longrightarrow> get_user x db = Some u \<Longrightarrow> grant_membership t u e manager a roles db = Inr (db', m)
    \<Longrightarrow> administered t0 db0 t db'"
| admin_end: "administered t0 db0 t db \<Longrightarrow> get_user x db = Some u \<Longrightarrow> end_membership id t u e a roles db = Inr db' \<Longrightarrow> administered t0 db0 t db'"
| admin_flag: "administered t0 db0 t db \<Longrightarrow> get_user x db = Some u \<Longrightarrow> set_membership_manager_flag id t u e manager a roles db = Inr (db', m)
    \<Longrightarrow> administered t0 db0 t db'"
| admin_home_flag: "administered t0 db0 t db \<Longrightarrow> get_user x db = Some u \<Longrightarrow> set_home_manager_flag id t u manager a roles db = Inr (db', u')
    \<Longrightarrow> administered t0 db0 t db'"

lemma managers_offices:
  "managers db = {(x, d). \<exists>r \<in> set (map (\<lambda>u. (user_id u, user_tenant_id u, user_is_dealer_manager u, is_active_user u)) (users db)).
     fst r = x \<and> snd (snd (snd r)) \<and> ((fst (snd r) = d \<and> fst (snd (snd r)))
     \<or> (\<exists>m \<in> set (dealership_memberships db). mem_user_id m = x \<and> mem_dealership_id m = d \<and> mem_is_dealer_manager m \<and> mem_valid_to m = None))}"
  unfolding managers_def by auto

lemma same_offices_managed:
  assumes "roster_ok t db" "t \<le> t'" "same_offices db db'"
  shows "roster_ok t' db' \<and> (managed d db \<longrightarrow> managed d db')"
proof -
  let ?office = "\<lambda>u. (user_id u, user_tenant_id u, user_is_dealer_manager u, is_active_user u)"
  have "managers db' = managers db" using assms(3) unfolding managers_offices same_offices_def by metis
  moreover have ids: "map user_id (users db') = map user_id (users db)"
    using arg_cong [of _ _ "map fst", OF assms(3) [unfolded same_offices_def, THEN conjunct1]] by (simp add: comp_def)
  then have "user_id v < uuid_supply db'" if "v \<in> set (users db')" for v
  proof -
    have "user_id v \<in> set (map user_id (users db))" using that ids by (metis image_eqI set_map)
    then show ?thesis using assms(1,3) by (fastforce simp: roster_ok_def same_offices_def)
  qed
  moreover have "\<forall>m \<in> set (dealership_memberships db'). \<forall>v. mem_valid_to m = Some v \<longrightarrow> v \<le> t'"
    using assms by (fastforce simp: roster_ok_def same_offices_def)
  ultimately show ?thesis using assms(1,3) ids by (simp add: roster_ok_def same_offices_def managed_def)
qed

lemma administered_managed:
  assumes "administered t0 db0 t db" "roster_ok t0 db0"
  shows "roster_ok t db \<and> (managed d db0 \<longrightarrow> managed d db)"
  using assms(1)
proof (induction rule: administered.induct)
  case admin_begin
  then show ?case using assms(2) by simp
next
  case (admin_other t db t' db')
  then show ?case using same_offices_managed [of t db t' db' d] by blast
next
  case (admin_create t db e data a roles db' u)
  then show ?case using create_user_managed [of t db e data a roles db' u d] by blast
next
  case (admin_update t db x u f change b roles reason allow db' u')
  have "roster_ok t db' \<and> (managed d db \<longrightarrow> managed d db')"
    by (rule update_user_managed [OF _ admin_update.hyps(2,4)]) (use admin_update in auto)
  then show ?case using admin_update.IH by blast
next
  case (admin_grant t db x u e manager a roles db' m)
  then show ?case using grant_membership_managed [of t db x u e manager a roles db' m d] by blast
next
  case (admin_end t db x u e a roles db')
  then show ?case using end_membership_managed [of t db x u e a roles db' d] by blast
next
  case (admin_flag t db x u e manager a roles db' m)
  then show ?case using membership_flag_managed [of t db x u e manager a roles db' m d] by blast
next
  case (admin_home_flag t db x u manager a roles db' u')
  then show ?case using home_flag_managed [of t db x u manager a roles db' u' d] by blast
qed

text \<open>
  C40: a dealership that has an active manager, one of its own users or a member from a sister dealership, keeps one
  through every sequence of user administration in which no two requests overlap: users created, changed, suspended and
  deactivated, memberships granted and ended, manager flags given and taken, and anything else that may happen in
  between, whatever the acting users and the contents of the requests.
\<close>

theorem dealership_keeps_a_manager:
  assumes "administered t0 db0 t db" "roster_ok t0 db0" "managed d db0"
  shows "\<exists>u \<in> set (users db). manages t d db u"
proof -
  have "managed d db" using administered_managed [OF assms(1,2)] assms(3) by blast
  then show ?thesis by (fastforce simp: managed_def managers_def manages_def list_ex_iff is_active_membership_def)
qed

subsection \<open>An example\<close>

definition second_manager :: user where
  "second_manager = example_user\<lparr>user_id := 6, user_email := ''beat@garage'', user_auth_identity_id := ''local:6''\<rparr>"

definition two_managers_db :: access_db where
  "two_managers_db = identity_db.extend (example_identity_db\<lparr>uuid_supply := 10, users := [example_user, second_manager]\<rparr>)
     (access_db.fields [] [] [] [])"

lemma two_managers_tables [simp]:
  "users two_managers_db = [example_user, second_manager]" "dealership_memberships two_managers_db = []" "uuid_supply two_managers_db = 10"
  "auth_sessions two_managers_db = []"
  by (simp_all add: two_managers_db_def example_identity_db_def empty_master_db_def master_db.defs identity_db.defs access_db.defs)

lemma two_managers_rows [simp]:
  "user_id example_user = 4" "user_tenant_id example_user = 3" "user_is_dealer_manager example_user" "user_status example_user = ACTIVE_USER"
  "user_access_roles example_user = [''sales'']"
  "user_id second_manager = 6" "user_tenant_id second_manager = 3" "user_is_dealer_manager second_manager" "user_status second_manager = ACTIVE_USER"
  "user_access_roles second_manager = [''sales'']"
  by (simp_all add: example_user_def second_manager_def)

lemma two_managers_ok: "roster_ok 0 two_managers_db" "managed 3 two_managers_db"
proof -
  show "roster_ok 0 two_managers_db" by (simp add: roster_ok_def)
  have "(4, 3) \<in> managers two_managers_db" by (simp add: managers_def is_active_user_def)
  then show "managed 3 two_managers_db" by (auto simp: managed_def)
qed

definition demote :: "(access_db \<Rightarrow> access_db) \<Rightarrow> user \<Rightarrow> access_db \<Rightarrow> (access_db \<times> user) result" where
  "demote env u db = set_home_manager_flag env 5 u False 8 [''platform_admin''] db"

lemmas demote_eval = demote_def set_home_manager_flag_def assert_may_update_def platform_admin_def assert_user_is_not_deactivated_def
  assert_not_last_manager_def manages_def is_active_user_def touch_user_def

lemma demote_first: "\<exists>db' u'. demote id example_user two_managers_db = Inr (db', u')"
  by (simp add: demote_eval Let_def)

theorem dealership_keeps_a_manager_witness:
  "\<exists>db u'. demote id example_user two_managers_db = Inr (db, u') \<and> (\<exists>u \<in> set (users db). manages 5 3 db u)"
proof -
  obtain db u' where d: "demote id example_user two_managers_db = Inr (db, u')" using demote_first by blast
  have "administered 0 two_managers_db 5 two_managers_db"
    by (rule admin_other [OF admin_begin]) (simp_all add: same_offices_def)
  then have "administered 0 two_managers_db 5 db"
    by (rule admin_home_flag [of _ _ _ _ 4 example_user]) (use d in \<open>simp_all add: demote_def get_user_def\<close>)
  from dealership_keeps_a_manager [OF this two_managers_ok] d show ?thesis by blast
qed

text \<open>
  Two requests that overlap: each takes the flag from one of the two managers, each finds the other still in office, and
  both are carried out, since only the row of the user that changes is locked.
\<close>

lemma overlapping_demotions_leave_no_manager:
  "\<exists>db u'. demote (\<lambda>db. case demote id second_manager db of Inr (d, _) \<Rightarrow> d | Inl _ \<Rightarrow> db) example_user two_managers_db = Inr (db, u')
    \<and> \<not> managed 3 db"
proof -
  obtain d1 u1 where d1: "demote id second_manager two_managers_db = Inr (d1, u1)" "users d1 = [example_user, u1]" "dealership_memberships d1 = []"
      "\<not> user_is_dealer_manager u1" "user_id u1 = 6" "auth_sessions d1 = []"
    by (simp add: demote_eval Let_def end_sessions_def revoke_all_for_user_def record_manager_flag_event_def record_audit_event_def save_user_def)
  obtain d2 u2 where "demote (\<lambda>db. case demote id second_manager db of Inr (d, _) \<Rightarrow> d | Inl _ \<Rightarrow> db) example_user two_managers_db = Inr (d2, u2)"
    "users d2 = [u2, u1]" "dealership_memberships d2 = []" "\<not> user_is_dealer_manager u2"
    using d1(2-6)
    by (simp add: demote_def [of _ example_user] d1(1) set_home_manager_flag_def assert_may_update_def platform_admin_def assert_user_is_not_deactivated_def
        assert_not_last_manager_def manages_def is_active_user_def touch_user_def Let_def end_sessions_def revoke_all_for_user_def
        record_manager_flag_event_def record_audit_event_def save_user_def)
  then show ?thesis using d1(4) by (intro exI [of _ d2] exI [of _ u2]) (auto simp: managed_def managers_def)
qed

text \<open>
  An invited user given another user's address: refused as a conflict, but as a server error when the same request also
  changes a field that is audited.
\<close>

lemma taken_address_error:
  fixes u :: user
  defines "u \<equiv> example_user\<lparr>user_status := INVITED\<rparr>"
  assumes db: "users db = [u, second_manager]"
  shows "update_user id 5 u (no_update\<lparr>uu_email := Some ''beat@garage''\<rparr>) (Some 8) [''platform_admin''] f None False db
      = Inl (ConflictError [(''email'', JStr ''beat@garage'')])"
    "update_user id 5 u (no_update\<lparr>uu_email := Some ''beat@garage'', uu_role := Some ''parts''\<rparr>) (Some 8) [''platform_admin''] f None False db
      = Inl IntegrityError"
proof -
  have l: "lower_text ''beat@garage'' = ''beat@garage''" by code_simp
  have e: "user_email second_manager = ''beat@garage''" "user_role example_user = ''sales''" "user_valid_from example_user = None" by (simp_all add: second_manager_def example_user_def)
  note ev = update_user_def lower_email_def no_update_def assert_may_update_def platform_admin_def assert_platform_admin_holds_no_membership_def
    assert_credential_channel_rules_def assert_line_manager_def resulting_user_status_def assert_validity_window_def assert_manager_stays_def
    stamp_lifecycle_def apply_user_update_def update_locations_def identity_taken_def changed_fields_def audited_fields_def is_active_user_def
    is_active_status_def u_def db [unfolded u_def] l e
  show "update_user id 5 u (no_update\<lparr>uu_email := Some ''beat@garage''\<rparr>) (Some 8) [''platform_admin''] f None False db
      = Inl (ConflictError [(''email'', JStr ''beat@garage'')])"
    by (simp add: ev Let_def split: option.split)
  show "update_user id 5 u (no_update\<lparr>uu_email := Some ''beat@garage'', uu_role := Some ''parts''\<rparr>) (Some 8) [''platform_admin''] f None False db
      = Inl IntegrityError"
    by (simp add: ev Let_def split: option.split)
qed

end
