(* ===== verification/Sales_Confirm.thy ===== *)
theory Sales_Confirm
  imports Sales_Grid
begin

text \<open>
  The confirmation of a contract across the contexts it touches (\<^verbatim>\<open>confirm_contract\<close> of
  \<^verbatim>\<open>app/sales/services/contract.py\<close> with the reservation of Stock and the trade-in's valuation): each of
  the three commits on its own, so a failure at the end is undone by compensating calls. Shown here: a
  confirmation either leaves the contract signed, the car held for it and the event published, or leaves the
  car free and the contract as it was, and can then be repeated. The definitions are in \<open>Sales_Contracts\<close>,
  \<open>Inventory_Reservation\<close> and \<open>Valuation\<close>.
\<close>

section \<open>A contract that can be signed\<close>

text \<open>The valuation the contract carries can be consumed at an instant.\<close>

definition valuation_ready :: "datetime \<Rightarrow> sales_contract \<Rightarrow> 'a sales_db_scheme \<Rightarrow> bool" where
  "valuation_ready now c db \<longleftrightarrow> (case trade_in_valuation_id (con_deal c) of None \<Rightarrow> True
     | Some v \<Rightarrow> (case get_valuation_or_404 (pd_tenant_id (con_deal c)) v db of Inl _ \<Rightarrow> False
         | Inr w \<Rightarrow> is_draft w \<or> now \<le> valid_until w))"

text \<open>
  A pending contract on a car in stock that nobody holds and that has passed every check. The keys of the
  compensation are new for every reservation still to come.
\<close>

definition ready_to_sign :: "datetime \<Rightarrow> sales_contract \<Rightarrow> uuid \<Rightarrow> uuid \<Rightarrow> 'a sales_db_scheme \<Rightarrow> bool" where
  "ready_to_sign now c gid s db \<longleftrightarrow>
     confirm_guards c gid db = Inr () \<and> vehicle_source (con_deal c) = Some ''stock'' \<and> pd_stock_item_id (con_deal c) = Some s
     \<and> c \<in> set (sales_contracts db) \<and> distinct (map con_id (sales_contracts db)) \<and> signed_at c = None
     \<and> stock_inv db \<and> holder (pd_tenant_id (con_deal c)) s db = None \<and> available (pd_tenant_id (con_deal c)) s db
     \<and> reserve_key_ok (pd_tenant_id (con_deal c)) s (con_id c) (confirm_key (con_id c)) db
     \<and> (\<forall>r \<ge> uuid_supply db. fresh_key (pd_tenant_id (con_deal c)) (compensate_key (con_id c) r) db)
     \<and> valuation_ready now c db"

lemma confirm_compensate_keys [simp]: "confirm_key a \<noteq> compensate_key b r" "compensate_key b r \<noteq> confirm_key a"
proof -
  have "take 24 (confirm_key a) \<noteq> take 24 (compensate_key b r)" by (simp add: confirm_key_def compensate_key_def)
  then show "confirm_key a \<noteq> compensate_key b r" "compensate_key b r \<noteq> confirm_key a" by metis+
qed

lemma compensate_key_inject: "compensate_key c r = compensate_key c r' \<longleftrightarrow> r = r'"
proof
  assume "compensate_key c r = compensate_key c r'"
  then have "digits_of_nat r = digits_of_nat r'" by (simp add: compensate_key_def)
  then show "r = r'" by (metis nat_of_digits_digits)
qed simp

section \<open>What the calls leave alone\<close>

text \<open>The customer's rows, which the guards read.\<close>

definition same_buyers :: "'a sales_db_scheme \<Rightarrow> 'a sales_db_scheme \<Rightarrow> bool" where
  "same_buyers db db' \<longleftrightarrow> customers db' = customers db \<and> customer_addresses db' = customer_addresses db"

lemma confirm_guards_buyers: "same_buyers db db' \<Longrightarrow> confirm_guards c gid db' = confirm_guards c gid db"
proof -
  assume "same_buyers db db'"
  then have "get_customer_or_404 g i db' = get_customer_or_404 g i db" "has_usable_domicile_address i db' = has_usable_domicile_address i db"
    for g i by (simp_all add: same_buyers_def get_customer_or_404_def has_usable_domicile_address_def)
  then show ?thesis by (simp add: confirm_guards_def cong: option.case_cong)
qed

lemma consume_keeps:
  assumes "consume_valuation_for_contract now t v a db = Inr (db', b)"
  shows "same_buyers db db'" "stock_items db' = stock_items db" "stock_number_sequence db' = stock_number_sequence db"
    "idempotency_records db' = idempotency_records db"
  using assms by (auto simp: consume_valuation_for_contract_def consume_for_contract_def mark_used_def bindR_Inr_iff same_buyers_def
      save_valuation_def publish_eq split: if_splits)

lemma revert_keeps:
  assumes "revert_valuation_use now t v a db = Inr db'"
  shows "same_buyers db db'" "stock_items db' = stock_items db" "stock_number_sequence db' = stock_number_sequence db"
    "idempotency_records db' = idempotency_records db"
  using assms by (auto simp: revert_valuation_use_def revert_use_def bindR_Inr_iff same_buyers_def
      save_valuation_def publish_eq split: if_splits)

text \<open>Stock's calls keep the valuations too.\<close>

definition quiet :: "'a sales_db_scheme \<Rightarrow> 'a sales_db_scheme \<Rightarrow> bool" where
  "quiet db db' \<longleftrightarrow> same_buyers db db' \<and> valuations db' = valuations db"

lemma quiet_refl [simp]: "quiet db db"
  by (simp add: quiet_def same_buyers_def)

lemma quiet_trans: "quiet a b \<Longrightarrow> quiet b c \<Longrightarrow> quiet a c"
  by (simp add: quiet_def same_buyers_def)

lemma quiet_store: "store_response now t k path body st resp db = Inr db' \<Longrightarrow> quiet db db'"
  by (auto simp: store_response_def quiet_def same_buyers_def split: if_splits)

lemma quiet_reserve_and_flush: "quiet db (fst (reserve_and_flush now i c db))"
  by (simp add: reserve_and_flush_def draw_uuid_def Let_def quiet_def same_buyers_def save_stock_item_def publish_eq)

lemma quiet_release_and_flush: "quiet db (release_and_flush now i db)"
  by (simp add: release_and_flush_def Let_def quiet_def same_buyers_def save_stock_item_def publish_eq)

lemma quiet_reserve:
  assumes "reserve_for_contract now t s c k db = Inr (db', r)"
  shows "quiet db db'"
  using assms
  by (auto simp: reserve_for_contract_def bindR_Inr_iff Let_def split_beta split: if_splits
      intro: quiet_reserve_and_flush quiet_trans [OF quiet_reserve_and_flush quiet_store])

lemma quiet_release:
  assumes "release now t r k db = Inr (db', j)"
  shows "quiet db db'"
  using assms
  by (auto simp: release_def bindR_Inr_iff Let_def split: option.splits
      intro: quiet_release_and_flush quiet_trans [OF quiet_release_and_flush quiet_store])

lemma write_row_keeps:
  "stock_items (write_deal_row row db) = stock_items db" "outbox_messages (write_deal_row row db) = outbox_messages db"
  "valuations (write_deal_row row db) = valuations db"
  by (simp_all add: write_deal_row_def)

lemma upsert_keeps:
  "stock_items (upsert_deal_projection d db) = stock_items db" "outbox_messages (upsert_deal_projection d db) = outbox_messages db"
  "valuations (upsert_deal_projection d db) = valuations db"
  by (cases d; simp add: project_contract_def project_offer_def project_live_entity_def write_row_keeps split: option.split)+

section \<open>The steps of a confirmation\<close>

text \<open>After the valuation is consumed everything the reservation needs is as before.\<close>

lemma consume_step:
  assumes "ready_to_sign now c gid s db"
  obtains db1 newly where "consume_trade_in_valuation now c a db = Inr (db1, newly)" "foreign db db1" "same_buyers db db1"
    "stock_items db1 = stock_items db" "idempotency_records db1 = idempotency_records db" "stock_inv db1"
    "trade_in_valuation_id (con_deal c) = None \<longrightarrow> db1 = db"
    "\<And>v. trade_in_valuation_id (con_deal c) = Some v \<Longrightarrow>
       consume_valuation_for_contract now (pd_tenant_id (con_deal c)) v (Some a) db = Inr (db1, newly)"
proof (cases "trade_in_valuation_id (con_deal c)")
  case None
  then show ?thesis using assms that [of db False] by (simp add: consume_trade_in_valuation_def same_buyers_def ready_to_sign_def)
next
  case (Some v)
  obtain w where w: "get_valuation_or_404 (pd_tenant_id (con_deal c)) v db = Inr w" "is_draft w \<or> now \<le> valid_until w"
    using assms Some by (auto simp: ready_to_sign_def valuation_ready_def split: sum.splits)
  then have "\<exists>x. consume_valuation_for_contract now (pd_tenant_id (con_deal c)) v (Some a) db = Inr x"
    by (cases "used_at w = None") (auto simp: consume_valuation_for_contract_def consume_for_contract_def)
  then obtain db1 newly where c1: "consume_valuation_for_contract now (pd_tenant_id (con_deal c)) v (Some a) db = Inr (db1, newly)"
    by force
  have "stock_inv db1"
    using assms stock_inv_cong [of db db1] consume_keeps [OF c1] foreign_consume [OF c1] by (simp add: ready_to_sign_def foreign_def)
  then show ?thesis using that [of db1 newly] c1 Some consume_keeps [OF c1] foreign_consume [OF c1]
    by (simp add: consume_trade_in_valuation_def)
qed

lemma reserve_step:
  assumes ready: "ready_to_sign now c gid s db" and db1: "stock_items db1 = stock_items db" "idempotency_records db1 = idempotency_records db"
    "stock_inv db1" "uuid_supply db \<le> uuid_supply db1"
  obtains db2 where "reserve_contract_car now c db1 = Inr (db2, Some (uuid_supply db1))" "foreign db1 db2" "quiet db1 db2" "stock_inv db2"
    "holder (pd_tenant_id (con_deal c)) s db2 = Some (con_id c, uuid_supply db1)" "available (pd_tenant_id (con_deal c)) s db2"
    "reserve_key_ok (pd_tenant_id (con_deal c)) s (con_id c) (confirm_key (con_id c)) db2"
    "\<forall>r \<ge> uuid_supply db. fresh_key (pd_tenant_id (con_deal c)) (compensate_key (con_id c) r) db2"
    "uuid_supply db1 < uuid_supply db2"
proof -
  define t where "t = pd_tenant_id (con_deal c)"
  have r: "holder t s db1 = None" "available t s db1" "reserve_key_ok t s (con_id c) (confirm_key (con_id c)) db1"
    "\<forall>r \<ge> uuid_supply db. fresh_key t (compensate_key (con_id c) r) db1"
    using ready db1(1,2) unfolding ready_to_sign_def t_def
    by (auto simp: holder_def find_stock_item_def available_def reserve_key_ok_def find_cached_response_def fresh_key_def)
  obtain i where i: "find_stock_item t s db1 = Some i" "left_stock_at i = None" using r(2) by (auto simp: available_def)
  have n: "reservation_state i = NOT_RESERVED" using holder_None_iff [OF db1(3) i(1)] r(1) by simp
  obtain db2 where res: "reserve_for_contract now t s (con_id c) (confirm_key (con_id c)) db1 = Inr (db2, reserve_response (uuid_supply db1) s)"
    and e: "stock_inv db2" "reserve_key_ok t s (con_id c) (confirm_key (con_id c)) db2"
      "\<And>t' s'. holder t' s' db2 = (if s' = s \<and> t' = t then Some (con_id c, uuid_supply db1) else holder t' s' db1)"
      "uuid_supply db1 < uuid_supply db2" "available t s db2"
      "\<And>t' k'. k' \<noteq> confirm_key (con_id c) \<Longrightarrow> fresh_key t' k' db1 \<Longrightarrow> fresh_key t' k' db2"
    by (rule reserve_new [OF db1(3) i(1) n i(2) r(3), of now]) blast
  have "reserve_contract_car now c db1 = Inr (db2, Some (uuid_supply db1))"
    using ready res unfolding ready_to_sign_def reserve_contract_car_def t_def
    by (auto simp: reserve_response_def as_obj_def get_item_def as_uuid_def)
  then show ?thesis
    by (rule that [unfolded t_def [symmetric]]) (use e r foreign_reserve [OF res] quiet_reserve [OF res] in auto)
qed

lemma get_valuation_cong: "valuations db' = valuations db \<Longrightarrow> get_valuation_or_404 t v db' = get_valuation_or_404 t v db"
  by (simp add: get_valuation_or_404_def)

lemma consumed_is_used:
  assumes "consume_valuation_for_contract now t v a db = Inr (db', newly)"
  shows "\<exists>w w'. get_valuation_or_404 t v db = Inr w \<and> get_valuation_or_404 t v db' = Inr w' \<and> used_at w' \<noteq> None
    \<and> (newly \<longleftrightarrow> used_at w = None) \<and> (\<not> newly \<longrightarrow> w' = w) \<and> is_draft w' = is_draft w \<and> valid_until w' = valid_until w"
proof -
  obtain w where w: "get_valuation_or_404 t v db = Inr w" "consume_for_contract now w a db = Inr (db', newly)"
    using assms by (auto simp: consume_valuation_for_contract_def bindR_Inr_iff)
  show ?thesis
  proof (cases "used_at w = None")
    case True
    define x where "x = w\<lparr>used_at := Some now, val_updated_by := a, val_version := val_version w + 1\<rparr>"
    have "db' = publish now (valuation_event ''valuation.used'' w) (save_valuation now x db)" newly
      using w(2) True by (auto simp: consume_for_contract_def mark_used_def x_def split: if_splits)
    then show ?thesis using get_valuation_after_save [OF w(1), of x now] get_valuation_SomeD [OF w(1)] w(1) True
      by (auto simp: x_def get_valuation_or_404_def)
  qed (use w in \<open>auto simp: consume_for_contract_def split: if_splits\<close>)
qed

lemma confirm_signs:
  assumes ready: "ready_to_sign now c gid s db"
  shows "\<exists>db' r. confirm_contract None env now c gid a db = (db', Inr (sign_contract now (Some r) a c))
    \<and> holder (pd_tenant_id (con_deal c)) s db' = Some (con_id c, r) \<and> sign_contract now (Some r) a c \<in> set (sales_contracts db')
    \<and> (\<exists>m. last (outbox_messages db') = m \<and> event_type m = ''sales.contract.confirmed'' \<and> aggregate_id m = con_id c
        \<and> msg_payload m = confirmed_event_payload (sign_contract now (Some r) a c))
    \<and> (\<forall>v. trade_in_valuation_id (con_deal c) = Some v \<longrightarrow>
        (\<exists>w. get_valuation_or_404 (pd_tenant_id (con_deal c)) v db' = Inr w \<and> used_at w \<noteq> None))"
proof -
  obtain db1 newly where c1: "consume_trade_in_valuation now c a db = Inr (db1, newly)" "foreign db db1"
    "stock_items db1 = stock_items db" "idempotency_records db1 = idempotency_records db" "stock_inv db1"
    and v1: "\<And>v. trade_in_valuation_id (con_deal c) = Some v \<Longrightarrow>
       consume_valuation_for_contract now (pd_tenant_id (con_deal c)) v (Some a) db = Inr (db1, newly)"
    by (rule consume_step [OF ready, of a]) blast
  obtain db2 where r2: "reserve_contract_car now c db1 = Inr (db2, Some (uuid_supply db1))" "foreign db1 db2" "quiet db1 db2"
    "holder (pd_tenant_id (con_deal c)) s db2 = Some (con_id c, uuid_supply db1)"
    by (rule reserve_step [OF ready c1(3-5)]) (use c1(2) in \<open>simp add: foreign_def\<close>)
  define c' where "c' = sign_contract now (Some (uuid_supply db1)) a c"
  have ok: "confirm_contract None env now c gid a db = (write_confirmation now c' db2, Inr c')"
    using ready c1(1) r2(1) by (simp add: confirm_contract_def ready_to_sign_def Let_def c'_def)
  have "sales_contracts db2 = sales_contracts db" using foreign_tables(2) [OF foreign_trans [OF c1(2) r2(2)]] .
  moreover have "con_id c' = con_id c" by (simp add: c'_def sign_contract_def)
  ultimately have row: "c' \<in> set (sales_contracts (write_confirmation now c' db2))"
    using ready by (force simp: write_confirmation_def upsert_tables publish_eq save_contract_def set_update_where ready_to_sign_def
        simp del: upsert_deal_projection.simps)
  have hold: "holder (pd_tenant_id (con_deal c)) s (write_confirmation now c' db2) = Some (con_id c, uuid_supply db1)"
    using r2(4) by (simp add: write_confirmation_def holder_def find_stock_item_def upsert_keeps publish_eq save_contract_def
        del: upsert_deal_projection.simps)
  have msg: "last (outbox_messages (write_confirmation now c' db2)) = new_message now
      (sales_event ''sales.contract.confirmed'' ''sales_contract'' (con_deal c') (confirmed_event_payload c')) (save_contract c' db2)"
    by (simp add: write_confirmation_def upsert_keeps del: upsert_deal_projection.simps)
  have used: "\<exists>w. get_valuation_or_404 (pd_tenant_id (con_deal c)) v (write_confirmation now c' db2) = Inr w \<and> used_at w \<noteq> None"
    if "trade_in_valuation_id (con_deal c) = Some v" for v
  proof -
    have "valuations (write_confirmation now c' db2) = valuations db1"
      using r2(3) by (simp add: quiet_def write_confirmation_def upsert_keeps publish_eq save_contract_def del: upsert_deal_projection.simps)
    then show ?thesis using consumed_is_used [OF v1 [OF that]] get_valuation_cong by metis
  qed
  show ?thesis using ok row hold msg used unfolding c'_def
    by (intro exI [of _ "write_confirmation now c' db2"] exI [of _ "uuid_supply db1"]) (auto simp: c'_def sales_event_def sign_contract_def touch_def)
qed

section \<open>The steps of a compensation\<close>

lemma reverted_is_free:
  assumes "get_valuation_or_404 t v db = Inr w"
  obtains db' w' where "revert_valuation_use now t v a db = Inr db'" "get_valuation_or_404 t v db' = Inr w'" "used_at w' = None"
    "is_draft w' = is_draft w" "valid_until w' = valid_until w"
proof (cases "used_at w")
  case None
  then show ?thesis using that [of db w] assms by (simp add: revert_valuation_use_def revert_use_def)
next
  case (Some u)
  define x where "x = w\<lparr>used_at := None, val_updated_by := a, val_version := val_version w + 1\<rparr>"
  have "get_valuation_or_404 t v (save_valuation now x db) = Inr (x\<lparr>val_updated_at := now\<rparr>)"
    using get_valuation_after_save [OF assms, of x now] get_valuation_SomeD [OF assms] by (simp add: x_def)
  then show ?thesis
    using that [of "publish now (valuation_event ''valuation.valuation.use_reverted'' w) (save_valuation now x db)"
        "x\<lparr>val_updated_at := now\<rparr>"] assms Some
    by (simp add: revert_valuation_use_def revert_use_def x_def get_valuation_or_404_def)
qed

text \<open>The valuation's stamp is taken back exactly when this confirmation set it and no other signed contract carries it.\<close>

lemma compensate_valuation_step:
  assumes get: "\<forall>v. ci_valuation_id ids = Some v \<longrightarrow> get_valuation_or_404 (ci_tenant_id ids) v db = Inr (val v)"
    and db': "db' = compensate_valuation now ids newly a db"
  shows "foreign db db'" "same_buyers db db'" "stock_items db' = stock_items db" "stock_number_sequence db' = stock_number_sequence db"
    "idempotency_records db' = idempotency_records db"
    "\<And>v. ci_valuation_id ids = Some v \<Longrightarrow> \<exists>w. get_valuation_or_404 (ci_tenant_id ids) v db' = Inr w \<and> is_draft w = is_draft (val v)
       \<and> valid_until w = valid_until (val v) \<and> used_at w = (if newly \<and> \<not> signed_elsewhere ids v db then None else used_at (val v))"
proof -
  consider (undo) v where "ci_valuation_id ids = Some v" "newly" "\<not> signed_elsewhere ids v db"
    | (none) "ci_valuation_id ids = None" | (keep) v where "ci_valuation_id ids = Some v" "\<not> (newly \<and> \<not> signed_elsewhere ids v db)"
    by (cases "ci_valuation_id ids") auto
  then have "foreign db db' \<and> same_buyers db db' \<and> stock_items db' = stock_items db \<and> stock_number_sequence db' = stock_number_sequence db
    \<and> idempotency_records db' = idempotency_records db
    \<and> (\<forall>v. ci_valuation_id ids = Some v \<longrightarrow> (\<exists>w. get_valuation_or_404 (ci_tenant_id ids) v db' = Inr w \<and> is_draft w = is_draft (val v)
       \<and> valid_until w = valid_until (val v) \<and> used_at w = (if newly \<and> \<not> signed_elsewhere ids v db then None else used_at (val v))))"
  proof cases
    case undo
    obtain d w where r: "revert_valuation_use now (ci_tenant_id ids) v (Some a) db = Inr d"
      and g: "get_valuation_or_404 (ci_tenant_id ids) v d = Inr w" "used_at w = None" "is_draft w = is_draft (val v)" "valid_until w = valid_until (val v)"
      by (rule reverted_is_free [OF get [rule_format, OF undo(1)]])
    have "db' = d" using undo r by (simp add: db' compensate_valuation_def)
    then show ?thesis using undo g foreign_revert [OF r] revert_keeps [OF r] by simp
  qed (use get in \<open>auto simp: db' compensate_valuation_def same_buyers_def\<close>)
  then show "foreign db db'" "same_buyers db db'" "stock_items db' = stock_items db" "stock_number_sequence db' = stock_number_sequence db"
    "idempotency_records db' = idempotency_records db"
    "\<And>v. ci_valuation_id ids = Some v \<Longrightarrow> \<exists>w. get_valuation_or_404 (ci_tenant_id ids) v db' = Inr w \<and> is_draft w = is_draft (val v)
       \<and> valid_until w = valid_until (val v) \<and> used_at w = (if newly \<and> \<not> signed_elsewhere ids v db then None else used_at (val v))"
    by blast+
qed

lemma signed_elsewhere_cong: "sales_contracts db' = sales_contracts db \<Longrightarrow> signed_elsewhere ids v db' = signed_elsewhere ids v db"
  by (simp add: signed_elsewhere_def)

text \<open>The compensation finds the contract unsigned.\<close>

lemma compensation_runs:
  assumes "c \<in> set (sales_contracts db)" "distinct (map con_id (sales_contracts db))" "signed_at c = None"
    "ci_tenant_id ids = pd_tenant_id (con_deal c)" "ci_contract_id ids = con_id c"
  shows "compensate_confirmation now ids rid newly a db = compensate_valuation now ids newly a (compensate_release now ids rid db)"
proof -
  obtain r where "select_one (\<lambda>r. pd_tenant_id (con_deal r) = ci_tenant_id ids \<and> con_id r = ci_contract_id ids) (sales_contracts db) = Some r"
    using assms(1,4,5) by (cases "select_one (\<lambda>r. pd_tenant_id (con_deal r) = ci_tenant_id ids \<and> con_id r = ci_contract_id ids) (sales_contracts db)")
      (auto simp: select_one_None_iff)
  moreover from select_one_SomeD [OF this] have "r = c" using distinct_key_unique [OF assms(2)] assms(1,5) by auto
  ultimately show ?thesis using assms(3) by (simp add: compensate_confirmation_def)
qed

definition ids_of :: "sales_contract \<Rightarrow> confirmation_ids" where
  "ids_of c = \<lparr>ci_tenant_id = pd_tenant_id (con_deal c), ci_contract_id = con_id c, ci_valuation_id = trade_in_valuation_id (con_deal c)\<rparr>"

lemma release_step:
  assumes inv: "stock_inv db" and h: "holder t s db = Some (ci_contract_id ids, r)" and t: "t = ci_tenant_id ids"
    and k: "fresh_key t (compensate_key (ci_contract_id ids) r) db"
  obtains db' where "compensate_release now ids (Some r) db = db'" "foreign db db'" "quiet db db'" "stock_inv db'" "holder t s db' = None"
    "available t s db \<Longrightarrow> available t s db'"
    "\<And>c' k'. k' \<noteq> compensate_key (ci_contract_id ids) r \<Longrightarrow> reserve_key_ok t s c' k' db \<Longrightarrow> reserve_key_ok t s c' k' db'"
    "\<And>t' k'. k' \<noteq> compensate_key (ci_contract_id ids) r \<Longrightarrow> fresh_key t' k' db \<Longrightarrow> fresh_key t' k' db'"
proof -
  obtain db' where r: "release now t r (Some (compensate_key (ci_contract_id ids) r)) db = Inr (db', JObj [(''stockItemId'', JUuid s)])"
    and e: "stock_inv db'" "\<And>t' s'. holder t' s' db' = (if s' = s \<and> t' = t then None else holder t' s' db)"
      "available t s db \<Longrightarrow> available t s db'"
      "\<And>c' k'. k' \<noteq> compensate_key (ci_contract_id ids) r \<Longrightarrow> reserve_key_ok t s c' k' db \<Longrightarrow> reserve_key_ok t s c' k' db'"
      "\<And>t' k'. k' \<noteq> compensate_key (ci_contract_id ids) r \<Longrightarrow> fresh_key t' k' db \<Longrightarrow> fresh_key t' k' db'"
    by (rule release_frees [OF inv h k, of now]) blast
  have "compensate_release now ids (Some r) db = db'" using r t by (simp add: compensate_release_def)
  then show ?thesis by (rule that) (use e foreign_release [OF r] quiet_release [OF r] in auto)
qed

text \<open>A write that leaves Stock's rows and keys and the buyers keeps the contract ready.\<close>

lemma ready_again:
  assumes ready: "ready_to_sign now c gid s db"
    and db4: "foreign db3 db4" "same_buyers db db3" "same_buyers db3 db4" "stock_items db4 = stock_items db3" "stock_inv db4"
      "idempotency_records db4 = idempotency_records db3" "sales_contracts db4 = sales_contracts db"
    and db3: "holder (pd_tenant_id (con_deal c)) s db3 = None" "available (pd_tenant_id (con_deal c)) s db3"
      "reserve_key_ok (pd_tenant_id (con_deal c)) s (con_id c) (confirm_key (con_id c)) db3"
      "\<forall>r \<ge> uuid_supply db3. fresh_key (pd_tenant_id (con_deal c)) (compensate_key (con_id c) r) db3"
    and v: "valuation_ready later c db4"
  shows "ready_to_sign later c gid s db4"
proof -
  have "same_buyers db db4" using db4(2,3) by (simp add: same_buyers_def)
  from confirm_guards_buyers [OF this, of c gid] have "confirm_guards c gid db4 = Inr ()" using ready by (simp add: ready_to_sign_def)
  moreover have "holder t s db4 = holder t s db3" "available t s db4 = available t s db3" "fresh_key t k db4 = fresh_key t k db3"
    "reserve_key_ok t s x k db4 = reserve_key_ok t s x k db3" for t x k
    using db4(4,6) by (simp_all add: holder_def find_stock_item_def available_def reserve_key_ok_def find_cached_response_def fresh_key_def)
  moreover have "uuid_supply db3 \<le> uuid_supply db4" using db4(1) by (simp add: foreign_def)
  ultimately show ?thesis using ready db3 v db4(5,7) unfolding ready_to_sign_def by (auto intro: order_trans)
qed

lemma confirm_undoes:
  assumes ready: "ready_to_sign now c gid s db" and later: "valuation_ready later c db"
  shows "\<exists>db'. confirm_contract (Some e) id now c gid a db = (db', Inl e) \<and> sales_contracts db' = sales_contracts db
    \<and> holder (pd_tenant_id (con_deal c)) s db' = None \<and> ready_to_sign later c gid s db'
    \<and> (\<forall>v. trade_in_valuation_id (con_deal c) = Some v \<and> \<not> signed_elsewhere (ids_of c) v db \<longrightarrow>
        (\<exists>w w'. get_valuation_or_404 (pd_tenant_id (con_deal c)) v db = Inr w
           \<and> get_valuation_or_404 (pd_tenant_id (con_deal c)) v db' = Inr w' \<and> used_at w' = used_at w))"
proof -
  define t where "t = pd_tenant_id (con_deal c)"
  obtain db1 newly where c1: "consume_trade_in_valuation now c a db = Inr (db1, newly)" "foreign db db1" "same_buyers db db1"
    "stock_items db1 = stock_items db" "idempotency_records db1 = idempotency_records db" "stock_inv db1"
    and v1: "\<And>v. trade_in_valuation_id (con_deal c) = Some v \<Longrightarrow> consume_valuation_for_contract now t v (Some a) db = Inr (db1, newly)"
    unfolding t_def by (rule consume_step [OF ready, of a]) blast
  have "uuid_supply db \<le> uuid_supply db1" using c1(2) by (simp add: foreign_def)
  then obtain db2 where r2: "reserve_contract_car now c db1 = Inr (db2, Some (uuid_supply db1))" "foreign db1 db2" "quiet db1 db2" "stock_inv db2"
    "holder t s db2 = Some (con_id c, uuid_supply db1)" "available t s db2" "reserve_key_ok t s (con_id c) (confirm_key (con_id c)) db2"
    and k2: "\<forall>r \<ge> uuid_supply db. fresh_key t (compensate_key (con_id c) r) db2" "uuid_supply db1 < uuid_supply db2"
    unfolding t_def using reserve_step [OF ready c1(4-6)] by blast
  have ids: "ci_contract_id (ids_of c) = con_id c" "ci_tenant_id (ids_of c) = t" "ci_valuation_id (ids_of c) = trade_in_valuation_id (con_deal c)"
    by (simp_all add: ids_of_def t_def)
  obtain db3 where r3: "compensate_release now (ids_of c) (Some (uuid_supply db1)) db2 = db3" "foreign db2 db3" "quiet db2 db3" "stock_inv db3"
    "holder t s db3 = None" "available t s db3" "reserve_key_ok t s (con_id c) (confirm_key (con_id c)) db3"
    and k3: "\<And>t' k'. k' \<noteq> compensate_key (con_id c) (uuid_supply db1) \<Longrightarrow> fresh_key t' k' db2 \<Longrightarrow> fresh_key t' k' db3"
    using release_step [of db2 t s "ids_of c" "uuid_supply db1" now] r2(4-7) k2(1) \<open>uuid_supply db \<le> uuid_supply db1\<close>
    unfolding ids by (metis confirm_compensate_keys(1))
  have keep: "sales_contracts db2 = sales_contracts db" "sales_contracts db3 = sales_contracts db"
    using foreign_tables(2) [OF foreign_trans [OF c1(2) r2(2)]] foreign_tables(2) [OF r3(2)] by simp_all
  define db4 where "db4 = compensate_valuation now (ids_of c) newly a db3"
  have "compensate_confirmation now (ids_of c) (Some (uuid_supply db1)) newly a db2 = db4"
    using ready compensation_runs [of c db2 "ids_of c"] keep ids r3(1) by (simp add: ready_to_sign_def db4_def t_def)
  then have run: "confirm_contract (Some e) id now c gid a db = (db4, Inl e)"
    using ready c1(1) r2(1) by (simp add: confirm_contract_def ready_to_sign_def Let_def ids_of_def)
  have val3: "\<exists>w w1. get_valuation_or_404 t v db = Inr w \<and> get_valuation_or_404 t v db3 = Inr w1 \<and> is_draft w1 = is_draft w
      \<and> valid_until w1 = valid_until w \<and> (newly \<longleftrightarrow> used_at w = None) \<and> (\<not> newly \<longrightarrow> w1 = w)" if "trade_in_valuation_id (con_deal c) = Some v" for v
    using consumed_is_used [OF v1 [OF that]] r2(3) r3(3) get_valuation_cong [of db3 db1] by (auto simp: quiet_def)
  then have "\<forall>v. ci_valuation_id (ids_of c) = Some v \<longrightarrow> get_valuation_or_404 (ci_tenant_id (ids_of c)) v db3 = Inr (projr (get_valuation_or_404 t v db3))"
    unfolding ids by force
  note four = compensate_valuation_step [OF this db4_def]
  have val4: "\<exists>w w4. get_valuation_or_404 t v db = Inr w \<and> get_valuation_or_404 t v db4 = Inr w4 \<and> is_draft w4 = is_draft w
      \<and> valid_until w4 = valid_until w \<and> (\<not> signed_elsewhere (ids_of c) v db \<longrightarrow> used_at w4 = used_at w)"
    if v: "trade_in_valuation_id (con_deal c) = Some v" for v
    using val3 [OF v] four(6) [unfolded ids, OF v] signed_elsewhere_cong [OF keep(2), of "ids_of c" v] by auto
  have "same_buyers db db3" using c1(3) r2(3) r3(3) by (simp add: quiet_def same_buyers_def)
  moreover have "sales_contracts db4 = sales_contracts db" using foreign_tables(2) [OF four(1)] keep(2) by simp
  moreover have "valuation_ready later c db4"
    using later val4 unfolding valuation_ready_def t_def [symmetric] by (auto split: option.split)
  moreover have "\<forall>r \<ge> uuid_supply db3. fresh_key t (compensate_key (con_id c) r) db3"
    using k2 k3 r3(2) c1(2) by (auto simp: compensate_key_inject foreign_def)
  moreover have "stock_inv db4" using r3(4) four(3-5) foreign_def four(1) stock_inv_cong [of db3 db4] by (auto simp: foreign_def)
  ultimately have "ready_to_sign later c gid s db4"
    using ready_again [OF ready four(1) _ four(2,3) _ four(5)] r3(5-7) unfolding t_def by blast
  then show ?thesis using run val4 \<open>sales_contracts db4 = sales_contracts db\<close> unfolding t_def
    by (intro exI [of _ db4]) (auto simp: ready_to_sign_def)
qed

section \<open>A confirmation and its repetition\<close>

text \<open>What a confirmation that succeeds leaves behind.\<close>

definition confirmed :: "datetime \<Rightarrow> sales_contract \<Rightarrow> uuid \<Rightarrow> uuid \<Rightarrow> 'a sales_db_scheme \<times> sales_contract result \<Rightarrow> bool" where
  "confirmed now c s a res \<longleftrightarrow> (case res of (_, Inl _) \<Rightarrow> False
     | (db, Inr c') \<Rightarrow> (case reservation_id c' of None \<Rightarrow> False
         | Some r \<Rightarrow> c' = sign_contract now (Some r) a c \<and> c' \<in> set (sales_contracts db)
             \<and> holder (pd_tenant_id (con_deal c)) s db = Some (con_id c, r)
             \<and> (case last (outbox_messages db) of m \<Rightarrow> event_type m = ''sales.contract.confirmed'' \<and> aggregate_id m = con_id c
                 \<and> msg_payload m = confirmed_event_payload c')
             \<and> (case trade_in_valuation_id (con_deal c) of None \<Rightarrow> True
                | Some v \<Rightarrow> (case get_valuation_or_404 (pd_tenant_id (con_deal c)) v db of Inl _ \<Rightarrow> False | Inr w \<Rightarrow> used_at w \<noteq> None))))"

lemma confirm_confirmed:
  assumes "ready_to_sign now c gid s db"
  shows "confirmed now c s a (confirm_contract None env now c gid a db)"
proof -
  obtain db' r where k: "confirm_contract None env now c gid a db = (db', Inr (sign_contract now (Some r) a c))"
    "holder (pd_tenant_id (con_deal c)) s db' = Some (con_id c, r)" "sign_contract now (Some r) a c \<in> set (sales_contracts db')"
    "event_type (last (outbox_messages db')) = ''sales.contract.confirmed''" "aggregate_id (last (outbox_messages db')) = con_id c"
    "msg_payload (last (outbox_messages db')) = confirmed_event_payload (sign_contract now (Some r) a c)"
    and v: "\<And>v. trade_in_valuation_id (con_deal c) = Some v \<Longrightarrow>
        \<exists>w. get_valuation_or_404 (pd_tenant_id (con_deal c)) v db' = Inr w \<and> used_at w \<noteq> None"
    using confirm_signs [OF assms, of env a] by blast
  have "reservation_id (sign_contract now (Some r) a c) = Some r" by (simp add: sign_contract_def)
  then show ?thesis using k v by (auto simp: confirmed_def split: option.split)
qed

text \<open>
  C38: the confirmation of a contract on a car in stock commits three times: the trade-in's valuation
  is consumed, the car reserved, the contract signed. From a state in which the contract passes every check,
  the car is free and the valuation can be consumed, a confirmation whose last commit succeeds leaves the contract signed
  and stored with its reservation, the car held by it, the valuation used and the confirmation event, with the signed
  contract's content, last in the outbox. When the last commit fails with any error, that error is returned, no contract
  has changed, the car is free again, the valuation is as it was before unless another signed contract carries it, and
  the confirmation can be repeated later with the same keys and then succeeds.
\<close>

theorem confirmation_signs_or_undoes:
  assumes "ready_to_sign now c gid s db" "valuation_ready later c db"
  shows "confirmed now c s a (confirm_contract None env now c gid a db)
    \<and> (\<exists>db'. confirm_contract (Some e) id now c gid a db = (db', Inl e) \<and> sales_contracts db' = sales_contracts db
      \<and> holder (pd_tenant_id (con_deal c)) s db' = None
      \<and> (\<forall>v. trade_in_valuation_id (con_deal c) = Some v \<and> \<not> signed_elsewhere (ids_of c) v db \<longrightarrow>
          (\<exists>w w'. get_valuation_or_404 (pd_tenant_id (con_deal c)) v db = Inr w
             \<and> get_valuation_or_404 (pd_tenant_id (con_deal c)) v db' = Inr w' \<and> used_at w' = used_at w))
      \<and> confirmed later c s a (confirm_contract None env later c gid a db'))"
  using confirm_confirmed [OF assms(1)] confirm_confirmed [of later c gid s] confirm_undoes [OF assms, of e a] by fast

subsection \<open>An example\<close>

definition example_contract :: sales_contract where
  "example_contract = \<lparr>con_deal = (blank_deal 0 2 3 None no_owner)\<lparr>pd_customer_id := Some 6, vehicle_source := Some ''stock'',
       pd_stock_item_id := Some 5, manual_base_price := Some 30000, gross_price := Some 30000, trade_in_valuation_id := Some 7\<rparr>,
     contract_number = ''C-000001'', con_offer_id = None, con_offer_number = None, contract_status = CT_PENDING,
     stock_item_label = None, stock_item_denorm_refreshed_at = None, financing = None, reservation_id = None, signed_at = None,
     delivery_date = None, invoice_ref = None, legacy_transaction_id = None\<rparr>"

definition example_buyer :: customer where
  "example_buyer = \<lparr>cust_id = 6, group_id = 1, customer_number = ''K-000001'', customer_type = INDIVIDUAL,
     company_name = None, first_name = Some ''Anna'', last_name = Some ''Muster'', cust_lifecycle_status = ACTIVE,
     duplicate_of_customer_id = None, cust_language = ''de'', credit_block = False, credit_block_reason = None,
     credit_blocked_at = None, cust_version = 1, cust_updated_by = None\<rparr>"

definition example_domicile :: customer_address where
  "example_domicile = \<lparr>ch_id = 8, ch_group_id = 1, ch_customer_id = 6, ch_label = None, is_primary = True, ch_valid_from = 0,
     ch_valid_to = None, do_not_use = False, do_not_use_reason = None, consent_granted = False, ch_consent_scope = None,
     ch_consent_source = None, consent_timestamp = None, ch_created_at = 0, ch_created_by = None, ch_updated_by = None,
     address_type = DOMICILE, address_street = ''Seeweg'', address_line2 = None, address_house_number = ''1'',
     address_postal_code = ''8000'', address_locality = ''Zurich'', address_canton = None, address_country = ''CH''\<rparr>"

definition signing_db :: sales_db where
  "signing_db = example_sales_db\<lparr>customers := [example_buyer], customer_addresses := [example_domicile],
     valuations := [example_valuation\<lparr>val_tenant_id := 3\<rparr>], sales_contracts := [example_contract]\<rparr>"

lemma signing_ready: "ready_to_sign 50 example_contract 1 5 signing_db" "valuation_ready 60 example_contract signing_db"
proof -
  have "stock_number_sequence example_sales_db = [(3, 2)]"
    by (simp add: example_sales_db_def example_stock_db_def valuation_db.defs inventory_db.defs sales_db.defs)
  then have "stock_inv signing_db" using example_stock_inv stock_inv_cong [of example_stock_db signing_db] by (simp add: signing_db_def)
  moreover have "confirm_guards example_contract 1 signing_db = Inr ()"
    by (simp add: confirm_guards_def require_complete_def has_vehicle_def has_price_def get_customer_or_404_def
        has_usable_domicile_address_def is_usable_row_def select_all_def signing_db_def example_contract_def example_buyer_def
        example_domicile_def blank_deal_def no_owner_def raise_if_def)
  ultimately show "ready_to_sign 50 example_contract 1 5 signing_db"
    by (simp add: ready_to_sign_def valuation_ready_def signing_db_def example_contract_def blank_deal_def holder_def find_stock_item_def
        available_def fresh_key_def reserve_key_ok_def find_cached_response_def get_valuation_or_404_def example_valuation_def)
  show "valuation_ready 60 example_contract signing_db"
    by (simp add: valuation_ready_def signing_db_def example_contract_def blank_deal_def get_valuation_or_404_def example_valuation_def)
qed

theorem confirmation_signs_or_undoes_witness:
  "confirmed 50 example_contract 5 9 (confirm_contract None id 50 example_contract 1 9 signing_db)
    \<and> (\<exists>db'. confirm_contract (Some (ConflictError [])) id 50 example_contract 1 9 signing_db = (db', Inl (ConflictError []))
        \<and> holder 3 5 db' = None \<and> confirmed 60 example_contract 5 9 (confirm_contract None id 60 example_contract 1 9 db'))"
proof -
  have "pd_tenant_id (con_deal example_contract) = 3" by (simp add: example_contract_def blank_deal_def)
  then show ?thesis using confirmation_signs_or_undoes [OF signing_ready, of 9 id "ConflictError []"] by auto
qed

end
