(* ===== verification/Spec2Isabelle.thy ===== *)
theory Spec2Isabelle
  imports Core_Uuid7 Inventory_Consumers Vehicle_Plates Sales_Grid App_Scheduler Sales_Labels Core_Pagination Platform_Access Sales_Confirm
begin

text \<open>
  A verification library for the Nexotec dealer management platform: a Python service (FastAPI,
  SQLAlchemy, PostgreSQL) in which car dealers keep their customers, vehicles, stock, valuations, offers
  and contracts. This theory gathers the library; the paragraphs below say what is modelled, how the
  theories follow the code under \<^verbatim>\<open>src/app\<close>, what the theorems show and what is left out.

  \<^bold>\<open>The program.\<close> Bounded contexts (\<^verbatim>\<open>customer, vehicle, valuation, inventory, sales, integration,
  platform\<close>) share one database but no foreign keys. A context calls another through its \<^verbatim>\<open>public.py\<close>
  and tells others what happened through the transactional outbox of \<^verbatim>\<open>core\<close>; the worker
  (\<^verbatim>\<open>worker.py\<close>) delivers the messages to the consumers and runs the daily jobs. A sale runs through all of
  it: an offer with its lines, price and trade-in; a contract made from it; the confirmation, which reserves
  the car in stock, stamps the trade-in's valuation and publishes an event; the consumers in stock, which
  create what was ordered and what was traded in; and the cancellation, which undoes it.

  \<^bold>\<open>Theories and sources.\<close>
  \<^item> \<open>Dms_Prelude\<close>: scalars, JSON, the errors of \<^verbatim>\<open>core/errors.py\<close> and the result type, tables as lists of
    rows, rounding, Python text functions, the collections of simplification and introduction rules.
  \<^item> \<open>Core_Validators\<close> (\<^verbatim>\<open>core/validators.py\<close>), \<open>Core_Uuid7\<close> (\<^verbatim>\<open>core/uuid7.py\<close>), \<open>Core_Pagination\<close>
    (\<^verbatim>\<open>core/pagination.py, sorting.py\<close>).
  \<^item> \<open>Core_Store\<close> and \<open>Core_Outbox\<close>: outbox, processed events, idempotency records and audit rows, the
    transport, the consumer harness and the poll of the worker. The locale \<open>event_transport\<close> is the contract
    a consumer keeps (its transaction only adds messages).
  \<^item> \<open>Master_Data\<close> (vehicle register, energy rating, configurations, customers, dealerships, users),
    \<open>Platform_Users\<close>, \<open>Vehicle_Plates\<close> (\<^verbatim>\<open>vehicle/services/plate.py, matching.py\<close>), \<open>Customer_Contacts\<close> and
    \<open>Customer_Parties\<close> (\<^verbatim>\<open>customer/services/customer.py\<close>). The locale \<open>contact_table\<close> states once what the
    three kinds of contact rows have in common.
  \<^item> \<open>Platform_Identity\<close> (\<^verbatim>\<open>platform/services/identity.py, auth_tokens.py, auth_sessions.py, auth_events.py,
    mfa.py, password_policy.py, platform/api/auth.py\<close>) and \<open>Platform_Access\<close> (\<^verbatim>\<open>user.py, membership.py,
    text_delegation.py, user_location.py, connected_account.py, recovery.py\<close>).
  \<^item> \<open>Valuation\<close> (\<^verbatim>\<open>valuation/services\<close>).
  \<^item> \<open>Inventory_Stock\<close>, \<open>Inventory_Reservation\<close>, \<open>Inventory_Consumers\<close>, \<open>Inventory_Publishing\<close>
    (\<^verbatim>\<open>inventory/services, consumers.py, integration/adapters/autoscout24.py\<close>). The locale \<open>reservation_desk\<close>
    is what a caller of the reservations relies on.
  \<^item> \<open>Sales_Deals\<close>, \<open>Sales_Contracts\<close>, \<open>Sales_Documents\<close>, \<open>Sales_Grid\<close>, \<open>Sales_Labels\<close>, \<open>Sales_Confirm\<close>
    (\<^verbatim>\<open>sales/services, sales/consumers.py\<close>). The locale \<open>labelled_table\<close> is what the label refresh needs of a
    table.
  \<^item> \<open>Integration_Connections\<close>, \<open>Integration_Gateway\<close> (\<^verbatim>\<open>integration/services\<close>).
  \<^item> \<open>App_Worker\<close> and \<open>App_Scheduler\<close> (\<^verbatim>\<open>worker.py, core/daily_scheduler.py\<close>): the registry that connects the
    consumers to the events, and the daily jobs.

  \<^bold>\<open>How code becomes definitions.\<close> A row is a record with the columns of the model class, a table a list of
  rows, the database a record of tables; each context extends the record of the contexts it calls. A service
  function is a definition of the same name that takes the database and returns the new one. \<open>Inl e\<close> is an
  exception that leaves the transaction, which rolls back, so no database comes with it; an operation that
  commits on the way, or calls one that does, returns the committed database beside its result. The clock is
  the argument \<open>now\<close> (several readings where they can differ), \<open>uuid7()\<close> draws from a strictly increasing
  supply, and what another request commits between two transactions of one operation is an argument of it,
  as are commits that fail. Row and advisory locks make the transactions on a row run one after the other; the
  model runs them so. Machine integers do not occur: Python's are unbounded, and the one that wraps, the
  sequence of the UUID generator, is written out.

  \<^bold>\<open>What is shown.\<close> Each property is stated in the theory of its component with its number.
  \<^item> Stock and contracts: one contract per car and per offer, compensation and retry, cancellation in any
    order, the sweep, what a confirmation leaves behind (C1 to C5, C25, C38).
  \<^item> Registers: one record per VIN, matching, plates, parties, merges, contact points (C6, C15 to C23).
  \<^item> Valuations (C7, C10), identifiers and validators (C8, C11 to C14).
  \<^item> The deal grid as a refinement of the query it stands for (C24).
  \<^item> Integration: the circuit breaker, connections and their secrets, the marketplace's feed (C26 to C32).
  \<^item> Worker: messages are handled once, facts are published at once, backoff, daily jobs, the label refresh
    and the pages of a list end (C9, C33 to C37).
  \<^item> Access: wrong passwords and codes are bounded, a dealership keeps a manager (C39, C40).

  \<^bold>\<open>Bounds and loops.\<close> Loops over rows are structural recursion or folds. The two loops whose end is not
  evident, the batches of the label refresh and a client reading a list page by page, are partial functions
  with a proof that they return a value. No definition uses fuel. Limits such as five attempts, five failing
  calls, ten recovery codes, batches of 500 and the lengths of columns that the code truncates to are those of
  the source.

  \<^bold>\<open>Code that is not in the repository\<close> is a parameter: the digest and the password hash, the TOTP
  algorithm, the breach service, the time zone database and the mailer, the secret store, the adapters of the data providers, the FTP client, the PDF
  renderer and the object store, and the table of postal codes. What a theorem needs of it is among its
  hypotheses.

  \<^bold>\<open>Not modelled.\<close> HTTP routing, request schemas and the OpenAPI layer, except where a route adds a check to
  a service; the permission matrix of the routes; the passkey ceremonies (their rows are), the encoding of
  session tokens and the hand-over of records by a leaving user; logging, metrics and configuration; the mirror of the
  external vehicle catalogue with its identification and option-by-option configuration, whose content comes
  from the provider; document rendering and mail texts; the reconciliation jobs, which only read; the
  group listing and other read-only queries; migrations and scripts; the frontend. Of the money columns
  the rounding to two digits that the database does on storing is left out, and \<open>updated_at\<close> of most rows;
  text is eight-bit. The worker may stop between two messages, not inside one; a message whose handler commits
  by itself (the marketplace transmission) is treated as such.
\<close>

end
